(* ===== verification/Prelude.thy ===== *)
theory Prelude
  imports Main "HOL-Library.Sublist"
begin

text \<open>
  Shared vocabulary of the development: Rust's \<open>Result\<close> as a sum with its bind (the
  \<open>?\<close> operator), \<open>Option::ok_or\<close>, the string helpers of the Rust standard library the
  sources call (\<open>strip_prefix\<close>, \<open>trim().is_empty()\<close>, decimal formatting), and the list
  lemmas that table scans and table updates share. Strings are byte lists (the UTF-8 bytes
  of a Rust string), so \<open>length\<close> is \<open>str::len\<close>.
\<close>

section \<open>Named collections\<close>

named_theorems result_simps \<open>inversion of the result monad\<close>
named_theorems frame_simps \<open>what an operation leaves unchanged\<close>

section \<open>Results\<close>

text \<open>\<open>bindR m f\<close> is \<open>let x = m?; f(x)\<close>.\<close>

definition bindR :: "'e + 'a \<Rightarrow> ('a \<Rightarrow> 'e + 'b) \<Rightarrow> 'e + 'b" where
  "bindR m f = (case m of Inl e \<Rightarrow> Inl e | Inr x \<Rightarrow> f x)"

lemma bindR_Inl [simp]: "bindR (Inl e) f = Inl e"
  by (simp add: bindR_def)

lemma bindR_Inr [simp]: "bindR (Inr x) f = f x"
  by (simp add: bindR_def)

lemma bindR_cong [fundef_cong]:
  "m = m' \<Longrightarrow> (\<And>x. m' = Inr x \<Longrightarrow> f x = g x) \<Longrightarrow> bindR m f = bindR m' g"
  by (cases m') simp_all

lemma bindR_eq_Inr [result_simps]: "bindR m f = Inr y \<longleftrightarrow> (\<exists>x. m = Inr x \<and> f x = Inr y)"
  by (cases m) simp_all

lemma bindR_eq_Inl [result_simps]:
  "bindR m f = Inl e \<longleftrightarrow> m = Inl e \<or> (\<exists>x. m = Inr x \<and> f x = Inl e)"
  by (cases m) auto

lemma bindR_assoc: "bindR (bindR m f) g = bindR m (\<lambda>x. bindR (f x) g)"
  by (cases m) simp_all

text \<open>\<open>require b e\<close> is \<open>if !b { return Err(e) }\<close>.\<close>

definition require :: "bool \<Rightarrow> 'e \<Rightarrow> 'e + unit" where
  "require b e = (if b then Inr () else Inl e)"

lemma require_Inr [result_simps]: "require b e = Inr u \<longleftrightarrow> b"
  by (simp add: require_def)

lemma require_Inl [result_simps]: "require b e = Inl e' \<longleftrightarrow> \<not> b \<and> e' = e"
  by (auto simp: require_def)

lemma require_simps [simp]: "require True e = Inr ()" "require False e = Inl e"
  by (simp_all add: require_def)

text \<open>\<open>okOr e x\<close> is \<open>x.ok_or(e)\<close>.\<close>

definition okOr :: "'e \<Rightarrow> 'a option \<Rightarrow> 'e + 'a" where
  "okOr e x = (case x of None \<Rightarrow> Inl e | Some y \<Rightarrow> Inr y)"

lemma okOr_simps [simp]: "okOr e None = Inl e" "okOr e (Some y) = Inr y"
  by (simp_all add: okOr_def)

lemma okOr_Inr [result_simps]: "okOr e x = Inr y \<longleftrightarrow> x = Some y"
  by (cases x) auto

lemma okOr_Inl [result_simps]: "okOr e x = Inl e' \<longleftrightarrow> x = None \<and> e' = e"
  by (cases x) auto

text \<open>\<open>mapErr f x\<close> is \<open>x.map_err(f)\<close>.\<close>

definition mapErr :: "('e \<Rightarrow> 'f) \<Rightarrow> 'e + 'a \<Rightarrow> 'f + 'a" where
  "mapErr f m = (case m of Inl e \<Rightarrow> Inl (f e) | Inr x \<Rightarrow> Inr x)"

lemma mapErr_simps [simp]: "mapErr f (Inl e) = Inl (f e)" "mapErr f (Inr x) = Inr x"
  by (simp_all add: mapErr_def)

lemma mapErr_Inr [result_simps]: "mapErr f m = Inr x \<longleftrightarrow> m = Inr x"
  by (cases m) auto

lemma mapErr_Inl [result_simps]: "mapErr f m = Inl e \<longleftrightarrow> (\<exists>e'. m = Inl e' \<and> e = f e')"
  by (cases m) auto

text \<open>\<open>mapR f xs\<close> collects \<open>xs.map(f)\<close> into a \<open>Result<Vec<_>>\<close>: the first error wins.\<close>

fun mapR :: "('a \<Rightarrow> 'e + 'b) \<Rightarrow> 'a list \<Rightarrow> 'e + 'b list" where
  "mapR f [] = Inr []"
| "mapR f (x # xs) = bindR (f x) (\<lambda>y. bindR (mapR f xs) (\<lambda>ys. Inr (y # ys)))"

lemma mapR_Inr: "mapR f xs = Inr ys \<longleftrightarrow> list_all2 (\<lambda>x y. f x = Inr y) xs ys"
proof (induction xs arbitrary: ys)
  case Nil
  then show ?case by auto
next
  case (Cons x xs)
  then show ?case by (cases ys) (auto simp: bindR_eq_Inr)
qed

text \<open>A \<open>for\<close> loop whose body may return early with an error, over a threaded state.\<close>

fun foldR :: "('a \<Rightarrow> 's \<Rightarrow> 'e + 's) \<Rightarrow> 'a list \<Rightarrow> 's \<Rightarrow> 'e + 's" where
  "foldR f [] s = Inr s"
| "foldR f (x # xs) s = bindR (f x s) (foldR f xs)"

lemma foldR_append: "foldR f (xs @ ys) s = bindR (foldR f xs s) (foldR f ys)"
proof (induction xs arbitrary: s)
  case (Cons a xs)
  then show ?case by (cases "f a s") simp_all
qed simp

lemma foldR_invariant:
  assumes "foldR f xs s = Inr t" and "P s"
    and "\<And>x s t. x \<in> set xs \<Longrightarrow> f x s = Inr t \<Longrightarrow> P s \<Longrightarrow> P t"
  shows "P t"
  using assms
proof (induction xs arbitrary: s)
  case Nil
  then show ?case by simp
next
  case (Cons x xs)
  from Cons.prems(1) obtain u where u: "f x s = Inr u" "foldR f xs u = Inr t"
    by (auto simp: bindR_eq_Inr)
  from Cons.prems(3) [OF _ u(1) Cons.prems(2)] have "P u" by simp
  with u(2) show ?case
    by (rule Cons.IH) (use Cons.prems(3) in auto)
qed

lemma foldR_preserves:
  assumes "foldR f xs s = Inr t"
    and "\<And>x s t. x \<in> set xs \<Longrightarrow> f x s = Inr t \<Longrightarrow> g t = g s"
  shows "g t = g s"
  using assms(1) by (rule foldR_invariant [where P = "\<lambda>u. g u = g s"]) (auto simp: assms(2))

section \<open>Strings\<close>

definition strip_prefix_str :: "string \<Rightarrow> string \<Rightarrow> string option" where
  "strip_prefix_str p s = (if take (length p) s = p then Some (drop (length p) s) else None)"

lemma strip_prefix_append [simp]: "strip_prefix_str p (p @ s) = Some s"
  by (simp add: strip_prefix_str_def)

lemma strip_prefix_Some: "strip_prefix_str p s = Some r \<longleftrightarrow> s = p @ r"
  by (auto simp: strip_prefix_str_def) (metis append_take_drop_id)

text \<open>
  One leading Unicode White_Space character (what \<open>char::is_whitespace\<close> accepts) is removed
  from the UTF-8 bytes; \<open>is_blank s\<close> is \<open>s.trim().is_empty()\<close>.
\<close>

fun strip_ws :: "nat list \<Rightarrow> nat list option" where
  "strip_ws [] = None"
| "strip_ws (b # bs) =
     (if (9 \<le> b \<and> b \<le> 13) \<or> b = 32 then Some bs
      else case bs of
        [] \<Rightarrow> None
      | c # cs \<Rightarrow>
          if b = 194 \<and> (c = 133 \<or> c = 160) then Some cs
          else (case cs of
            [] \<Rightarrow> None
          | d # ds \<Rightarrow>
              if (b = 225 \<and> c = 154 \<and> d = 128)
                \<or> (b = 226 \<and> c = 128 \<and> ((128 \<le> d \<and> d \<le> 138) \<or> d = 168 \<or> d = 169 \<or> d = 175))
                \<or> (b = 226 \<and> c = 129 \<and> d = 159)
                \<or> (b = 227 \<and> c = 128 \<and> d = 128)
              then Some ds else None))"

lemma strip_ws_shorter: "strip_ws bs = Some cs \<Longrightarrow> length cs < length bs"
  by (cases bs) (auto split: if_splits list.splits)

function blank_bytes :: "nat list \<Rightarrow> bool" where
  "blank_bytes bs = (bs = [] \<or> (case strip_ws bs of None \<Rightarrow> False | Some cs \<Rightarrow> blank_bytes cs))"
  by pat_completeness auto
termination
  by (relation "measure length") (auto dest: strip_ws_shorter)

declare blank_bytes.simps [simp del]

definition is_blank :: "string \<Rightarrow> bool" where
  "is_blank s = blank_bytes (map of_char s)"

lemma is_blank_Nil [simp]: "is_blank []"
  by (simp add: is_blank_def blank_bytes.simps)

lemma not_blank_nonempty: "\<not> is_blank s \<Longrightarrow> s \<noteq> []"
  by auto

text \<open>\<open>s.split(c)\<close>: the parts between the separators, one part for the empty string.\<close>

fun split_on :: "char \<Rightarrow> string \<Rightarrow> string list" where
  "split_on c [] = [[]]"
| "split_on c (x # xs) =
     (if x = c then [] # split_on c xs
      else case split_on c xs of [] \<Rightarrow> [[x]] | p # ps \<Rightarrow> (x # p) # ps)"

text \<open>Decimal formatting of an unsigned integer.\<close>

fun show_nat :: "nat \<Rightarrow> string" where
  "show_nat n = (if n < 10 then [char_of (48 + n)] else show_nat (n div 10) @ [char_of (48 + n mod 10)])"

declare show_nat.simps [simp del]

section \<open>Tables as lists of rows\<close>

text \<open>
  A table is the list of its rows in rowid order. \<open>query_row(..).optional()\<close> is \<open>find\<close>;
  \<open>UPDATE .. WHERE p\<close> is \<open>update_where p f\<close>, and the affected row count is \<open>count_where p\<close>.
\<close>

definition update_where :: "('a \<Rightarrow> bool) \<Rightarrow> ('a \<Rightarrow> 'a) \<Rightarrow> 'a list \<Rightarrow> 'a list" where
  "update_where p f xs = map (\<lambda>x. if p x then f x else x) xs"

definition count_where :: "('a \<Rightarrow> bool) \<Rightarrow> 'a list \<Rightarrow> nat" where
  "count_where p xs = length (filter p xs)"

definition exists_where :: "('a \<Rightarrow> bool) \<Rightarrow> 'a list \<Rightarrow> bool" where
  "exists_where p xs = list_ex p xs"

lemma exists_where_iff [simp]: "exists_where p xs \<longleftrightarrow> (\<exists>x\<in>set xs. p x)"
  by (simp add: exists_where_def list_ex_iff)

lemma find_SomeD: "find p xs = Some x \<Longrightarrow> x \<in> set xs \<and> p x"
  by (auto simp: find_Some_iff in_set_conv_nth)

lemma find_NoneD: "find p xs = None \<Longrightarrow> x \<in> set xs \<Longrightarrow> \<not> p x"
  by (auto simp: find_None_iff)

lemma find_exI: "x \<in> set xs \<Longrightarrow> p x \<Longrightarrow> \<exists>y. find p xs = Some y"
  by (cases "find p xs") (auto simp: find_None_iff)

lemma find_append_if: "find p (xs @ ys) = (case find p xs of None \<Rightarrow> find p ys | Some x \<Rightarrow> Some x)"
  by (induction xs) auto

lemma set_update_where: "set (update_where p f xs) = (\<lambda>x. if p x then f x else x) ` set xs"
  by (simp add: update_where_def)

lemma update_where_nil [simp]: "update_where p f [] = []"
  by (simp add: update_where_def)

lemma update_where_cons [simp]:
  "update_where p f (x # xs) = (if p x then f x else x) # update_where p f xs"
  by (simp add: update_where_def)

lemma length_update_where [simp]: "length (update_where p f xs) = length xs"
  by (simp add: update_where_def)

lemma map_update_where:
  assumes "\<And>x. p x \<Longrightarrow> g (f x) = g x"
  shows "map g (update_where p f xs) = map g xs"
  using assms by (simp add: update_where_def)

lemma update_where_id: "(\<And>x. x \<in> set xs \<Longrightarrow> \<not> p x) \<Longrightarrow> update_where p f xs = xs"
  by (induction xs) auto

lemma filter_update_where:
  assumes "\<And>x. p x \<Longrightarrow> q (f x) = q x"
  shows "filter q (update_where p f xs) = update_where p f (filter q xs)"
  using assms by (induction xs) auto

lemma find_update_where:
  assumes "\<And>x. p x \<Longrightarrow> q (f x) = q x"
  shows "find q (update_where p f xs) = map_option (\<lambda>x. if p x then f x else x) (find q xs)"
  using assms by (induction xs) auto

lemma count_where_pos: "count_where p xs \<noteq> 0 \<longleftrightarrow> (\<exists>x\<in>set xs. p x)"
  by (auto simp: count_where_def filter_empty_conv)

lemma count_update_where:
  assumes "\<And>x. p x \<Longrightarrow> q x" and "\<And>x. p x \<Longrightarrow> \<not> q (f x)"
  shows "count_where q xs = count_where p xs + count_where q (update_where p f xs)"
  using assms by (induction xs) (auto simp: count_where_def)

lemma count_where_1D: "count_where p xs = Suc 0 \<Longrightarrow> \<exists>x\<in>set xs. p x"
  using count_where_pos [of p xs] by simp

lemma distinct_map_eqD: "distinct (map f xs) \<Longrightarrow> x \<in> set xs \<Longrightarrow> y \<in> set xs \<Longrightarrow> f x = f y \<Longrightarrow> x = y"
  by (auto simp: distinct_map inj_on_def)

lemma find_distinct_key:
  "distinct (map k xs) \<Longrightarrow> x \<in> set xs \<Longrightarrow> find (\<lambda>y. k y = k x) xs = Some x"
  by (induction xs) auto

lemma count_where_distinct_key:
  assumes "distinct (map k xs)" and "x \<in> set xs" and "p x" and "\<And>y. p y \<Longrightarrow> k y = k x"
  shows "count_where p xs = Suc 0"
  using assms
proof (induction xs)
  case Nil
  then show ?case by simp
next
  case (Cons a xs)
  show ?case
  proof (cases "p a")
    case True
    have "\<not> p y" if "y \<in> set xs" for y
    proof
      assume "p y"
      then have "k y = k a" using Cons.prems(4) True by simp
      moreover have "k a \<notin> k ` set xs" using Cons.prems(1) by simp
      ultimately show False using that by (metis image_eqI)
    qed
    then have "filter p xs = []" by (simp add: filter_empty_conv)
    with True show ?thesis by (simp add: count_where_def)
  next
    case False
    with Cons.prems(2,3) have mem: "x \<in> set xs" by auto
    from Cons.prems(1) have "distinct (map k xs)" by simp
    from Cons.IH [OF this mem Cons.prems(3) Cons.prems(4)]
    have "count_where p xs = Suc 0" by blast
    with False show ?thesis by (simp add: count_where_def)
  qed
qed

text \<open>\<open>COALESCE(MAX(f), 0)\<close> over the selected rows.\<close>

definition max_of :: "('a \<Rightarrow> nat) \<Rightarrow> 'a list \<Rightarrow> nat" where
  "max_of f xs = foldr (\<lambda>x m. max (f x) m) xs 0"

lemma max_of_ge: "x \<in> set xs \<Longrightarrow> f x \<le> max_of f xs"
  by (induction xs) (auto simp: max_of_def)

lemma max_of_le: "(\<And>x. x \<in> set xs \<Longrightarrow> f x \<le> n) \<Longrightarrow> max_of f xs \<le> n"
  by (induction xs) (auto simp: max_of_def)

lemma max_of_upt: "map f xs = [1..<Suc (length xs)] \<Longrightarrow> max_of f xs = length xs"
proof (cases "xs = []")
  case False
  assume eq: "map f xs = [1..<Suc (length xs)]"
  have "f x \<le> length xs" if "x \<in> set xs" for x
  proof -
    from that have "f x \<in> set (map f xs)" by simp
    then show ?thesis unfolding eq by (auto simp del: upt_Suc)
  qed
  moreover have "length xs \<in> set (map f xs)"
    using False unfolding eq by (cases xs) (auto simp del: upt_Suc)
  then obtain x where "x \<in> set xs" "f x = length xs" by auto
  ultimately show ?thesis
    by (metis antisym max_of_ge max_of_le)
qed (simp add: max_of_def)

section \<open>The interface of an invariant\<close>

text \<open>
  What is kept by one step of a relation is kept by every sequence of steps. The step
  relations of the development are the abstract specifications its operations refine.
\<close>

locale step_invariant =
  fixes R :: "'s \<Rightarrow> 's \<Rightarrow> bool" and P :: "'s \<Rightarrow> bool"
  assumes step: "R d d' \<Longrightarrow> P d \<Longrightarrow> P d'"
begin

lemma steps: "R\<^sup>*\<^sup>* d d' \<Longrightarrow> P d \<Longrightarrow> P d'"
  by (induction rule: rtranclp_induct) (auto intro: step)

end

end
