(* ===== verification/Domain.thy ===== *)
theory Domain
  imports Prelude
begin

text \<open>
  The data of \<open>crates/mews-protocol/src/domain\<close>: identifiers, Sessions, Turns, messages,
  Session entries, journal events and client events, with the source's constructors and
  fields. Constructors and fields carry a prefix where two Rust types share a name. Text
  forms that only serde, chrono or the uuid crate define are not spelled out: the model
  keeps the typed value, and the sizes and digests the code takes of the text are
  parameters (theory Tables).
\<close>

section \<open>Identifiers and JSON values\<close>

type_synonym InstallationId = string
type_synonym HostId = string
type_synonym AgentId = string
type_synonym SessionId = string
type_synonym MessageId = string
type_synonym TurnId = string
type_synonym InvitationId = string
type_synonym RequestId = string
type_synonym ConsumerId = string
type_synonym EventId = string
type_synonym OperationId = string

text \<open>Instants count milliseconds from some epoch.\<close>

type_synonym DateTime = nat

datatype Value =
  VNull | VBool bool | VNumber string | VString string | VArray "Value list"
| VObject "(string \<times> Value) list"

definition value_get :: "string \<Rightarrow> Value \<Rightarrow> Value option" where
  "value_get k v = (case v of VObject kvs \<Rightarrow> map_of kvs k | _ \<Rightarrow> None)"

definition value_as_str :: "Value \<Rightarrow> string option" where
  "value_as_str v = (case v of VString s \<Rightarrow> Some s | _ \<Rightarrow> None)"

text \<open>The eleven identifier kinds of \<open>ids.rs\<close> and their textual prefixes.\<close>

datatype IdKind =
  InstallationIdK | HostIdK | AgentIdK | SessionIdK | MessageIdK | TurnIdK | InvitationIdK
| RequestIdK | ConsumerIdK | EventIdK | OperationIdK

fun id_prefix :: "IdKind \<Rightarrow> string" where
  "id_prefix InstallationIdK = ''ins_''"
| "id_prefix HostIdK = ''hst_''"
| "id_prefix AgentIdK = ''agt_''"
| "id_prefix SessionIdK = ''ses_''"
| "id_prefix MessageIdK = ''msg_''"
| "id_prefix TurnIdK = ''turn_''"
| "id_prefix InvitationIdK = ''inv_''"
| "id_prefix RequestIdK = ''req_''"
| "id_prefix ConsumerIdK = ''con_''"
| "id_prefix EventIdK = ''evt_''"
| "id_prefix OperationIdK = ''op_''"

text \<open>
  \<open>FromStr\<close> of an identifier; \<open>uuid_ok\<close> stands for \<open>Uuid::parse_str(..).is_ok()\<close>.
\<close>

definition id_from_str :: "(string \<Rightarrow> bool) \<Rightarrow> IdKind \<Rightarrow> string \<Rightarrow> string + string" where
  "id_from_str uuid_ok k s =
     (case strip_prefix_str (id_prefix k) s of
        None \<Rightarrow> Inl ''invalid ID prefix''
      | Some u \<Rightarrow> if uuid_ok u then Inr s else Inl ''invalid ID'')"

section \<open>Sessions, Turns and Harness bindings\<close>

record Session =
  ses_id :: SessionId
  ses_agent_id :: AgentId
  ses_host_id :: HostId
  ses_working_directory :: string
  ses_model_override :: "string option"
  ses_leaf_entry_id :: "MessageId option"
  ses_created_at :: DateTime

datatype AcpInstructionChannel = CodexDeveloper | ClaudeSystemAppend | FirstPrompt

datatype AcpReplacementReason =
  ResourceNotFound | HarnessChanged | HarnessDefinitionChanged | InstructionContextChanged
| HistoryDiverged | ContextNotDispatched

datatype AcpBindingTransition =
  ABT_New | ABT_Resume string | ABT_Replace AcpReplacementReason

record AcpSessionBinding =
  ab_session_id :: SessionId
  ab_host_id :: HostId
  ab_harness :: string
  ab_harness_definition_hash :: string
  ab_acp_session_id :: string
  ab_context_version :: nat
  ab_context_hash :: string
  ab_context_channel :: AcpInstructionChannel
  ab_context_text :: string
  ab_context_dispatched :: bool
  ab_created_at :: DateTime
  ab_replaced_at :: "DateTime option"
  ab_last_replacement_reason :: "AcpReplacementReason option"

datatype TurnStatus = Running | Completed | Failed | Cancelled

fun debug_status :: "TurnStatus \<Rightarrow> string" where
  "debug_status Running = ''Running''"
| "debug_status Completed = ''Completed''"
| "debug_status Failed = ''Failed''"
| "debug_status Cancelled = ''Cancelled''"

record Turn =
  turn_id_of :: TurnId
  turn_session_id :: SessionId
  turn_agent_revision :: nat
  turn_harness :: "string option"
  turn_harness_definition_hash :: "string option"
  turn_harness_version :: "string option"
  turn_status :: TurnStatus
  turn_error :: "string option"
  turn_created_at :: DateTime
  turn_completed_at :: "DateTime option"

section \<open>Messages and Session entries\<close>

datatype SourceKind = SK_Client | SK_Channel | SK_Harness | SK_Host

record ChannelOrigin =
  co_consumer_id :: ConsumerId
  co_conversation :: string

record MessageSource =
  ms_kind :: SourceKind
  ms_id :: string
  ms_channel_origin :: "ChannelOrigin option"

datatype MessageRole = RoleUser | RoleAssistant | RoleTool

datatype MessageContent =
  MC_Text string
| MC_ToolCall (mc_call_id: string) (mc_tool: string) (mc_arguments: Value)
    (mc_thought_signature: "string option")
| MC_ToolResult (mcr_call_id: string) (mcr_tool: string) (mcr_result: Value)
    (mcr_is_error: bool) (mcr_uncertain: bool)
| MC_ProviderState string string Value

record Message =
  msg_id :: MessageId
  msg_session_id :: SessionId
  msg_sequence :: nat
  msg_role :: MessageRole
  msg_content :: MessageContent
  msg_metadata :: Value
  msg_source :: MessageSource
  msg_created_at :: DateTime

record HarnessProvenance =
  hp_name :: string
  hp_definition_hash :: string
  hp_version :: "string option"

record ToolCall =
  tc_call_id :: string
  tc_tool :: string
  tc_arguments :: Value
  tc_thought_signature :: "string option"

record ToolResult =
  tr_call_id :: string
  tr_tool :: string
  tr_result :: Value
  tr_is_error :: bool
  tr_uncertain :: bool

datatype ReasoningVisibility = RV_Visible | RV_Redacted | RV_Omitted

datatype ReasoningProvenance =
  RP_Provider string string
| RP_Harness string "string option"

record ModelUsage =
  mu_input_tokens :: nat
  mu_output_tokens :: nat
  mu_cached_input_tokens :: nat
  mu_reasoning_tokens :: nat

datatype AssistantResponseBlock =
  AB_Text string
| AB_Reasoning string "string option"
| AB_ToolCall string string Value "string option"
| AB_OpaqueState string string Value

record AssistantResponse =
  ar_provider :: string
  ar_model :: string
  ar_api :: string
  ar_response_id :: "string option"
  ar_blocks :: "AssistantResponseBlock list"
  ar_usage :: "ModelUsage option"
  ar_stop_reason :: "string option"

datatype SessionEntryPayload =
  SP_UserMessage MessageContent Value MessageSource
| SP_TurnStarted TurnId HarnessProvenance
| SP_AssistantResponse TurnId AssistantResponse
| SP_ToolStarted TurnId ToolCall
| SP_ToolResult TurnId ToolResult
| SP_Reasoning TurnId string ReasoningVisibility ReasoningProvenance
| SP_TurnCompleted TurnId "string option"
| SP_TurnFailed TurnId string
| SP_TurnCancelled TurnId
| SP_ContextCompaction string MessageId nat
| SP_HarnessObservation TurnId "string option" string Value

record SessionEntry =
  se_id :: MessageId
  se_session_id :: SessionId
  se_sequence :: nat
  se_parent_id :: "MessageId option"
  se_payload :: SessionEntryPayload
  se_created_at :: DateTime

record ToolActivity =
  ta_call_id :: string
  ta_title :: string
  ta_kind :: "string option"
  ta_status :: "string option"
  ta_input :: Value

datatype AcpObservation =
  AO_AssistantDelta string "string option" Value
| AO_CompletedReasoning string "string option" ReasoningVisibility
| AO_ContextDispatched nat string AcpInstructionChannel string
| AO_BindingChanged AcpBindingTransition
| AO_ProviderUpdate Value
| AO_ToolActivity ToolActivity
| AO_HookOutcome string bool "string option" "string option" "string option"

section \<open>Installation, Hosts and Agents\<close>

record Installation =
  ins_id :: InstallationId
  ins_public_key :: string
  ins_relay_url :: "string option"
  ins_hub_host_id :: HostId
  ins_generation :: nat
  ins_created_at :: DateTime

record Host =
  host_id :: HostId
  host_name :: string
  host_public_key :: string
  host_noise_public_key :: string
  host_relay_url :: "string option"
  host_created_at :: DateTime

record Agent =
  agent_id :: AgentId
  agent_slug :: string
  agent_current_revision :: nat
  agent_archived :: bool
  agent_created_at :: DateTime

record AgentRevision =
  rev_agent_id :: AgentId
  rev_revision :: nat
  rev_soul :: string
  rev_config_toml :: string
  rev_content_hash :: string
  rev_author_host_id :: HostId
  rev_created_at :: DateTime

datatype ToolExecutionMode = Sequential | Parallel

text \<open>\<open>harness_options\<close> is a \<open>BTreeMap\<close>: its bindings in key order.\<close>

record AgentConfig =
  cfg_harness :: string
  cfg_harness_options :: "(string \<times> string) list"
  cfg_tools :: "string list"
  cfg_tool_execution :: ToolExecutionMode

datatype ReasoningEffort =
  RE_None | RE_Auto | RE_Minimal | RE_Low | RE_Medium | RE_High | RE_XHigh | RE_Max

record ProviderDefaults =
  pd_model :: "string option"
  pd_reasoning :: "ReasoningEffort option"

end
