(* ===== verification/Events.thy ===== *)
theory Events
  imports Domain
begin

text \<open>
  \<open>crates/mews-protocol/src/domain/events.rs\<close>: the journal envelope, its subjects and
  actors, the thirty-six journal events with their stable names, and the client events that
  subscribers receive.
\<close>

section \<open>Subjects and actors\<close>

datatype JournalSubjectType = ST_Installation | ST_Host | ST_Agent | ST_Session

fun subject_type_as_str :: "JournalSubjectType \<Rightarrow> string" where
  "subject_type_as_str ST_Installation = ''installation''"
| "subject_type_as_str ST_Host = ''host''"
| "subject_type_as_str ST_Agent = ''agent''"
| "subject_type_as_str ST_Session = ''session''"

definition subject_type_from_str :: "string \<Rightarrow> string + JournalSubjectType" where
  "subject_type_from_str s =
     (if s = ''installation'' then Inr ST_Installation
      else if s = ''host'' then Inr ST_Host
      else if s = ''agent'' then Inr ST_Agent
      else if s = ''session'' then Inr ST_Session
      else Inl ''unknown journal subject type'')"

record JournalSubject =
  js_kind :: JournalSubjectType
  js_id :: string

definition subject_validate :: "(string \<Rightarrow> bool) \<Rightarrow> JournalSubject \<Rightarrow> string + unit" where
  "subject_validate uuid_ok sub =
     (let k = (case js_kind sub of
           ST_Installation \<Rightarrow> InstallationIdK
         | ST_Host \<Rightarrow> HostIdK
         | ST_Agent \<Rightarrow> AgentIdK
         | ST_Session \<Rightarrow> SessionIdK)
      in case id_from_str uuid_ok k (js_id sub) of
           Inr _ \<Rightarrow> Inr ()
         | Inl _ \<Rightarrow> Inl ''invalid journal subject ID'')"

datatype EventActorKind = AK_System | AK_Client | AK_Channel | AK_Host | AK_Harness

fun actor_kind_as_str :: "EventActorKind \<Rightarrow> string" where
  "actor_kind_as_str AK_System = ''system''"
| "actor_kind_as_str AK_Client = ''client''"
| "actor_kind_as_str AK_Channel = ''channel''"
| "actor_kind_as_str AK_Host = ''host''"
| "actor_kind_as_str AK_Harness = ''harness''"

definition actor_kind_from_str :: "string \<Rightarrow> string + EventActorKind" where
  "actor_kind_from_str s =
     (if s = ''system'' then Inr AK_System
      else if s = ''client'' then Inr AK_Client
      else if s = ''channel'' then Inr AK_Channel
      else if s = ''host'' then Inr AK_Host
      else if s = ''harness'' then Inr AK_Harness
      else Inl ''unknown event actor kind'')"

record EventActor =
  ea_kind :: EventActorKind
  ea_id :: "string option"

definition actor_system :: EventActor where
  "actor_system = \<lparr>ea_kind = AK_System, ea_id = None\<rparr>"

definition actor_from_source :: "MessageSource \<Rightarrow> EventActor" where
  "actor_from_source src =
     \<lparr>ea_kind = (case ms_kind src of
          SK_Client \<Rightarrow> AK_Client
        | SK_Channel \<Rightarrow> AK_Channel
        | SK_Harness \<Rightarrow> AK_Harness
        | SK_Host \<Rightarrow> AK_Host),
      ea_id = Some (ms_id src)\<rparr>"

section \<open>Journal event types\<close>

datatype JournalEventType =
  JT_InstallationCreated | JT_RelayChanged | JT_HubChanged | JT_HostEnrolled | JT_HostRevoked
| JT_HostInvitationCreated | JT_HostInvitationConsumed | JT_AgentCreated
| JT_AgentRevisionCreated | JT_AgentRenamed | JT_AgentArchived | JT_ProviderDefaultsChanged
| JT_SessionCreated | JT_SessionModelChanged | JT_UserMessageAppended | JT_SessionLeafChanged
| JT_TurnAccepted | JT_TurnStarted | JT_AssistantResponseRecorded | JT_ToolCallRequested
| JT_ToolExecutionCompleted | JT_ToolResultRecorded | JT_ReasoningRecorded
| JT_ContextCompacted | JT_HarnessObservationRecorded | JT_AcpBindingChanged
| JT_AcpContextDispatched | JT_TurnCompleted | JT_TurnFailed | JT_TurnCancelled
| JT_TurnInterrupted | JT_EffectScheduled | JT_EffectStarted | JT_EffectSucceeded
| JT_EffectFailed | JT_EffectUncertain

fun event_type_as_str :: "JournalEventType \<Rightarrow> string" where
  "event_type_as_str JT_InstallationCreated = ''installation_created''"
| "event_type_as_str JT_RelayChanged = ''relay_changed''"
| "event_type_as_str JT_HubChanged = ''hub_changed''"
| "event_type_as_str JT_HostEnrolled = ''host_enrolled''"
| "event_type_as_str JT_HostRevoked = ''host_revoked''"
| "event_type_as_str JT_HostInvitationCreated = ''host_invitation_created''"
| "event_type_as_str JT_HostInvitationConsumed = ''host_invitation_consumed''"
| "event_type_as_str JT_AgentCreated = ''agent_created''"
| "event_type_as_str JT_AgentRevisionCreated = ''agent_revision_created''"
| "event_type_as_str JT_AgentRenamed = ''agent_renamed''"
| "event_type_as_str JT_AgentArchived = ''agent_archived''"
| "event_type_as_str JT_ProviderDefaultsChanged = ''provider_defaults_changed''"
| "event_type_as_str JT_SessionCreated = ''session_created''"
| "event_type_as_str JT_SessionModelChanged = ''session_model_changed''"
| "event_type_as_str JT_UserMessageAppended = ''user_message_appended''"
| "event_type_as_str JT_SessionLeafChanged = ''session_leaf_changed''"
| "event_type_as_str JT_TurnAccepted = ''turn_accepted''"
| "event_type_as_str JT_TurnStarted = ''turn_started''"
| "event_type_as_str JT_AssistantResponseRecorded = ''assistant_response_recorded''"
| "event_type_as_str JT_ToolCallRequested = ''tool_call_requested''"
| "event_type_as_str JT_ToolExecutionCompleted = ''tool_execution_completed''"
| "event_type_as_str JT_ToolResultRecorded = ''tool_result_recorded''"
| "event_type_as_str JT_ReasoningRecorded = ''reasoning_recorded''"
| "event_type_as_str JT_ContextCompacted = ''context_compacted''"
| "event_type_as_str JT_HarnessObservationRecorded = ''harness_observation_recorded''"
| "event_type_as_str JT_AcpBindingChanged = ''acp_binding_changed''"
| "event_type_as_str JT_AcpContextDispatched = ''acp_context_dispatched''"
| "event_type_as_str JT_TurnCompleted = ''turn_completed''"
| "event_type_as_str JT_TurnFailed = ''turn_failed''"
| "event_type_as_str JT_TurnCancelled = ''turn_cancelled''"
| "event_type_as_str JT_TurnInterrupted = ''turn_interrupted''"
| "event_type_as_str JT_EffectScheduled = ''effect_scheduled''"
| "event_type_as_str JT_EffectStarted = ''effect_started''"
| "event_type_as_str JT_EffectSucceeded = ''effect_succeeded''"
| "event_type_as_str JT_EffectFailed = ''effect_failed''"
| "event_type_as_str JT_EffectUncertain = ''effect_uncertain''"

text \<open>The match arms of \<open>from_str\<close>, in the source's order; the first equal literal wins.\<close>

definition event_type_arms :: "(string \<times> JournalEventType) list" where
  "event_type_arms =
    [(''installation_created'', JT_InstallationCreated),
     (''relay_changed'', JT_RelayChanged),
     (''hub_changed'', JT_HubChanged),
     (''host_enrolled'', JT_HostEnrolled),
     (''host_revoked'', JT_HostRevoked),
     (''host_invitation_created'', JT_HostInvitationCreated),
     (''host_invitation_consumed'', JT_HostInvitationConsumed),
     (''agent_created'', JT_AgentCreated),
     (''agent_revision_created'', JT_AgentRevisionCreated),
     (''agent_renamed'', JT_AgentRenamed),
     (''agent_archived'', JT_AgentArchived),
     (''provider_defaults_changed'', JT_ProviderDefaultsChanged),
     (''session_created'', JT_SessionCreated),
     (''session_model_changed'', JT_SessionModelChanged),
     (''user_message_appended'', JT_UserMessageAppended),
     (''session_leaf_changed'', JT_SessionLeafChanged),
     (''turn_accepted'', JT_TurnAccepted),
     (''turn_started'', JT_TurnStarted),
     (''assistant_response_recorded'', JT_AssistantResponseRecorded),
     (''tool_call_requested'', JT_ToolCallRequested),
     (''tool_execution_completed'', JT_ToolExecutionCompleted),
     (''tool_result_recorded'', JT_ToolResultRecorded),
     (''reasoning_recorded'', JT_ReasoningRecorded),
     (''context_compacted'', JT_ContextCompacted),
     (''harness_observation_recorded'', JT_HarnessObservationRecorded),
     (''acp_binding_changed'', JT_AcpBindingChanged),
     (''acp_context_dispatched'', JT_AcpContextDispatched),
     (''turn_completed'', JT_TurnCompleted),
     (''turn_failed'', JT_TurnFailed),
     (''turn_cancelled'', JT_TurnCancelled),
     (''turn_interrupted'', JT_TurnInterrupted),
     (''effect_scheduled'', JT_EffectScheduled),
     (''effect_started'', JT_EffectStarted),
     (''effect_succeeded'', JT_EffectSucceeded),
     (''effect_failed'', JT_EffectFailed),
     (''effect_uncertain'', JT_EffectUncertain)]"

definition event_type_from_str :: "string \<Rightarrow> string + JournalEventType" where
  "event_type_from_str s = okOr ''unknown journal event type'' (map_of event_type_arms s)"

section \<open>Journal events\<close>

datatype EffectRequest =
  ER_ProviderCall string string
| ER_ToolCall ToolCall
| ER_AcpPrompt HostId string
| ER_LifecycleHook string

datatype JournalEvent =
  JE_InstallationCreated Installation
| JE_RelayChanged "string option" "HostId option"
| JE_HubChanged HostId nat
| JE_HostEnrolled Host
| JE_HostRevoked HostId
| JE_HostInvitationCreated InvitationId DateTime string
| JE_HostInvitationConsumed InvitationId HostId
| JE_AgentCreated Agent AgentRevision
| JE_AgentRevisionCreated AgentRevision
| JE_AgentRenamed string
| JE_AgentArchived
| JE_ProviderDefaultsChanged ProviderDefaults
| JE_SessionCreated Session
| JE_SessionModelChanged "string option"
| JE_UserMessageAppended MessageId MessageContent Value MessageSource
| JE_SessionLeafChanged "MessageId option"
| JE_TurnAccepted TurnId nat MessageId MessageContent Value MessageSource
| JE_TurnStarted TurnId HarnessProvenance
| JE_AssistantResponseRecorded TurnId MessageId AssistantResponse
| JE_ToolCallRequested TurnId MessageId ToolCall
| JE_ToolExecutionCompleted OperationId TurnId ToolResult
| JE_ToolResultRecorded TurnId MessageId ToolResult
| JE_ReasoningRecorded TurnId MessageId string ReasoningVisibility ReasoningProvenance
| JE_ContextCompacted MessageId string MessageId nat
| JE_HarnessObservationRecorded TurnId MessageId "string option" string Value
| JE_AcpBindingChanged AcpSessionBinding
| JE_AcpContextDispatched HostId string nat string AcpInstructionChannel
| JE_TurnCompleted TurnId "string option"
| JE_TurnFailed TurnId string
| JE_TurnCancelled TurnId
| JE_TurnInterrupted TurnId string
| JE_EffectScheduled OperationId TurnId EffectRequest
| JE_EffectStarted OperationId TurnId
| JE_EffectSucceeded OperationId TurnId "Value option"
| JE_EffectFailed OperationId TurnId string
| JE_EffectUncertain OperationId TurnId string

record JournalEntry =
  je_id :: EventId
  je_position :: nat
  je_subject :: JournalSubject
  je_event_type :: JournalEventType
  je_recorded_at :: DateTime
  je_actor :: EventActor
  je_command_id :: "string option"
  je_correlation_id :: "string option"
  je_payload :: JournalEvent

fun event_subject_type :: "JournalEvent \<Rightarrow> JournalSubjectType" where
  "event_subject_type (JE_InstallationCreated _) = ST_Installation"
| "event_subject_type (JE_RelayChanged _ _) = ST_Installation"
| "event_subject_type (JE_HubChanged _ _) = ST_Installation"
| "event_subject_type (JE_HostInvitationCreated _ _ _) = ST_Installation"
| "event_subject_type (JE_HostInvitationConsumed _ _) = ST_Installation"
| "event_subject_type (JE_ProviderDefaultsChanged _) = ST_Installation"
| "event_subject_type (JE_HostEnrolled _) = ST_Host"
| "event_subject_type (JE_HostRevoked _) = ST_Host"
| "event_subject_type (JE_AgentCreated _ _) = ST_Agent"
| "event_subject_type (JE_AgentRevisionCreated _) = ST_Agent"
| "event_subject_type (JE_AgentRenamed _) = ST_Agent"
| "event_subject_type JE_AgentArchived = ST_Agent"
| "event_subject_type _ = ST_Session"

fun event_type :: "JournalEvent \<Rightarrow> JournalEventType" where
  "event_type (JE_InstallationCreated _) = JT_InstallationCreated"
| "event_type (JE_RelayChanged _ _) = JT_RelayChanged"
| "event_type (JE_HubChanged _ _) = JT_HubChanged"
| "event_type (JE_HostEnrolled _) = JT_HostEnrolled"
| "event_type (JE_HostRevoked _) = JT_HostRevoked"
| "event_type (JE_HostInvitationCreated _ _ _) = JT_HostInvitationCreated"
| "event_type (JE_HostInvitationConsumed _ _) = JT_HostInvitationConsumed"
| "event_type (JE_AgentCreated _ _) = JT_AgentCreated"
| "event_type (JE_AgentRevisionCreated _) = JT_AgentRevisionCreated"
| "event_type (JE_AgentRenamed _) = JT_AgentRenamed"
| "event_type JE_AgentArchived = JT_AgentArchived"
| "event_type (JE_ProviderDefaultsChanged _) = JT_ProviderDefaultsChanged"
| "event_type (JE_SessionCreated _) = JT_SessionCreated"
| "event_type (JE_SessionModelChanged _) = JT_SessionModelChanged"
| "event_type (JE_UserMessageAppended _ _ _ _) = JT_UserMessageAppended"
| "event_type (JE_SessionLeafChanged _) = JT_SessionLeafChanged"
| "event_type (JE_TurnAccepted _ _ _ _ _ _) = JT_TurnAccepted"
| "event_type (JE_TurnStarted _ _) = JT_TurnStarted"
| "event_type (JE_AssistantResponseRecorded _ _ _) = JT_AssistantResponseRecorded"
| "event_type (JE_ToolCallRequested _ _ _) = JT_ToolCallRequested"
| "event_type (JE_ToolExecutionCompleted _ _ _) = JT_ToolExecutionCompleted"
| "event_type (JE_ToolResultRecorded _ _ _) = JT_ToolResultRecorded"
| "event_type (JE_ReasoningRecorded _ _ _ _ _) = JT_ReasoningRecorded"
| "event_type (JE_ContextCompacted _ _ _ _) = JT_ContextCompacted"
| "event_type (JE_HarnessObservationRecorded _ _ _ _ _) = JT_HarnessObservationRecorded"
| "event_type (JE_AcpBindingChanged _) = JT_AcpBindingChanged"
| "event_type (JE_AcpContextDispatched _ _ _ _ _) = JT_AcpContextDispatched"
| "event_type (JE_TurnCompleted _ _) = JT_TurnCompleted"
| "event_type (JE_TurnFailed _ _) = JT_TurnFailed"
| "event_type (JE_TurnCancelled _) = JT_TurnCancelled"
| "event_type (JE_TurnInterrupted _ _) = JT_TurnInterrupted"
| "event_type (JE_EffectScheduled _ _ _) = JT_EffectScheduled"
| "event_type (JE_EffectStarted _ _) = JT_EffectStarted"
| "event_type (JE_EffectSucceeded _ _ _) = JT_EffectSucceeded"
| "event_type (JE_EffectFailed _ _ _) = JT_EffectFailed"
| "event_type (JE_EffectUncertain _ _ _) = JT_EffectUncertain"

definition validate_subject_id :: "JournalEvent \<Rightarrow> string \<Rightarrow> string + unit" where
  "validate_subject_id ev subject_id =
     (case ev of
        JE_InstallationCreated i \<Rightarrow>
          require (ins_id i = subject_id)
            ''Installation event identity does not match its subject''
      | JE_HostEnrolled h \<Rightarrow>
          require (host_id h = subject_id) ''Host event identity does not match its subject''
      | JE_HostRevoked h \<Rightarrow>
          require (h = subject_id) ''Host event identity does not match its subject''
      | JE_AgentCreated a r \<Rightarrow>
          require (agent_id a = subject_id \<and> rev_agent_id r = subject_id)
            ''Agent event identity does not match its subject''
      | JE_AgentRevisionCreated r \<Rightarrow>
          require (rev_agent_id r = subject_id)
            ''Agent event identity does not match its subject''
      | JE_SessionCreated s \<Rightarrow>
          require (ses_id s = subject_id) ''Session payload identity does not match its subject''
      | JE_AcpBindingChanged b \<Rightarrow>
          require (ab_session_id b = subject_id)
            ''Session payload identity does not match its subject''
      | _ \<Rightarrow> Inr ())"

definition journal_entry_validate :: "(string \<Rightarrow> bool) \<Rightarrow> JournalEntry \<Rightarrow> string + unit" where
  "journal_entry_validate uuid_ok e =
     bindR (require (je_event_type e = event_type (je_payload e))
              ''event type does not match payload'') (\<lambda>_.
     bindR (require (js_kind (je_subject e) = event_subject_type (je_payload e))
              ''journal subject type does not match payload'') (\<lambda>_.
     bindR (subject_validate uuid_ok (je_subject e)) (\<lambda>_.
     validate_subject_id (je_payload e) (js_id (je_subject e)))))"

section \<open>Client events and live signals\<close>

datatype RuntimeSignalPayload =
  RS_AssistantDelta string "string option"
| RS_ReasoningDelta string "string option"
| RS_ToolActivity ToolActivity

record RuntimeSignal =
  rs_id :: EventId
  rs_session_id :: SessionId
  rs_turn_id :: TurnId
  rs_channel_origin :: "ChannelOrigin option"
  rs_emitted_at :: DateTime
  rs_payload :: RuntimeSignalPayload

datatype ClientEventKind =
  CE_TurnStarted TurnId
| CE_AssistantDelta TurnId string "string option"
| CE_ReasoningDelta TurnId string "string option"
| CE_ToolActivity TurnId ToolActivity
| CE_AssistantMessage TurnId Message
| CE_ToolStarted TurnId Message
| CE_ToolCompleted TurnId Message
| CE_TurnCompleted TurnId
| CE_TurnFailed TurnId string
| CE_TurnCancelled TurnId

record ClientEvent =
  ce_id :: EventId
  ce_sequence :: nat
  ce_session_id :: SessionId
  ce_channel_origin :: "ChannelOrigin option"
  ce_kind :: ClientEventKind
  ce_created_at :: DateTime

fun is_transient :: "ClientEventKind \<Rightarrow> bool" where
  "is_transient (CE_AssistantDelta _ _ _) = True"
| "is_transient (CE_ReasoningDelta _ _ _) = True"
| "is_transient (CE_ToolActivity _ _) = True"
| "is_transient _ = False"

fun client_event_turn_id :: "ClientEventKind \<Rightarrow> TurnId option" where
  "client_event_turn_id (CE_TurnStarted t) = Some t"
| "client_event_turn_id (CE_AssistantDelta t _ _) = Some t"
| "client_event_turn_id (CE_ReasoningDelta t _ _) = Some t"
| "client_event_turn_id (CE_ToolActivity t _) = Some t"
| "client_event_turn_id (CE_AssistantMessage t _) = Some t"
| "client_event_turn_id (CE_ToolStarted t _) = Some t"
| "client_event_turn_id (CE_ToolCompleted t _) = Some t"
| "client_event_turn_id (CE_TurnCompleted t) = Some t"
| "client_event_turn_id (CE_TurnFailed t _) = Some t"
| "client_event_turn_id (CE_TurnCancelled t) = Some t"

datatype ConsumerKind = Durable | Ephemeral

record EventBatch =
  eb_events :: "ClientEvent list"
  eb_checkpoint :: nat
  eb_advanced :: bool

section \<open>Stable names\<close>

text \<open>
  Three enums are persisted by name. The interface they share: a total printer and a partial
  parser that agree.
\<close>

locale stable_name =
  fixes as_str :: "'a \<Rightarrow> string"
    and from_str :: "string \<Rightarrow> string + 'a"
  assumes parse_print: "from_str (as_str x) = Inr x"
    and print_parse: "from_str s = Inr x \<Longrightarrow> s = as_str x"
begin

lemma as_str_inj: "as_str x = as_str y \<longleftrightarrow> x = y"
  by (metis parse_print sum.inject(2))

lemma from_str_Inr: "from_str s = Inr x \<longleftrightarrow> s = as_str x"
  using parse_print print_parse by blast

lemma from_str_unknown: "s \<notin> range as_str \<Longrightarrow> \<exists>e. from_str s = Inl e"
  using print_parse by (cases "from_str s") auto

end

interpretation subject_type_name: stable_name subject_type_as_str subject_type_from_str
proof unfold_locales
  show "subject_type_from_str (subject_type_as_str x) = Inr x" for x
    by (cases x) (simp_all add: subject_type_from_str_def)
  show "subject_type_from_str s = Inr x \<Longrightarrow> s = subject_type_as_str x" for s x
    by (auto simp: subject_type_from_str_def split: if_splits)
qed

interpretation actor_kind_name: stable_name actor_kind_as_str actor_kind_from_str
proof unfold_locales
  show "actor_kind_from_str (actor_kind_as_str x) = Inr x" for x
    by (cases x) (simp_all add: actor_kind_from_str_def)
  show "actor_kind_from_str s = Inr x \<Longrightarrow> s = actor_kind_as_str x" for s x
    by (auto simp: actor_kind_from_str_def split: if_splits)
qed

lemma event_type_arms_print: "(s, t) \<in> set event_type_arms \<Longrightarrow> s = event_type_as_str t"
  by (auto simp: event_type_arms_def)

interpretation event_type_name: stable_name event_type_as_str event_type_from_str
proof unfold_locales
  show "event_type_from_str (event_type_as_str x) = Inr x" for x
    by (cases x) (simp_all add: event_type_from_str_def event_type_arms_def)
  show "event_type_from_str s = Inr x \<Longrightarrow> s = event_type_as_str x" for s x
    by (auto simp: event_type_from_str_def result_simps dest: map_of_SomeD event_type_arms_print)
qed

end
