(* ===== verification/Tables.thy ===== *)
theory Tables
  imports Events
begin

text \<open>
  The Hub database of \<open>crates/mews-store\<close>: its error type (\<open>lib.rs\<close>), the tables of
  \<open>schema.rs\<close> as lists of rows in rowid order, and one insertion per table that enforces
  the schema's PRIMARY KEY, UNIQUE, CHECK and FOREIGN KEY clauses. A statement that SQLite
  would refuse is the error \<open>Database ConstraintViolation\<close>. Operations take the
  database and return the next one, so an \<open>Inl\<close> is a rolled-back transaction.

  Columns hold typed values: what serde and chrono write is what they read back. The record
  \<open>ext\<close> collects what the store takes from outside the repository: the identifiers the uuid
  crate draws, the clock, the sizes of serialized values and the digests.
\<close>

section \<open>Errors\<close>

datatype DbError =
  ConstraintViolation | QueryReturnedNoRows | InvalidColumnType | FromSqlConversionFailure string

datatype StoreError =
  Database DbError
| InvalidData string
| NotFound string string
| DuplicateAgent string
| RevisionConflict nat nat
| CommandConflict string
| ActiveTurnConflict string string
| LeafConflict "MessageId option" "MessageId option"
| InvalidAgent string

section \<open>Rows\<close>

record HostRow =
  hr_host :: Host
  hr_revoked :: bool

record EntryRow =
  er_entry :: SessionEntry
  er_kind :: string
  er_contextual :: bool
  er_observation_key :: "string option"

record TurnRow =
  tw_turn :: Turn
  tw_idempotency_key :: "string option"
  tw_channel_origin :: "ChannelOrigin option"

record InvitationRow =
  iv_id :: InvitationId
  iv_secret_hash :: string
  iv_expires_at :: DateTime
  iv_consumed_at :: "DateTime option"

record ClientEventRow =
  cr_event :: ClientEvent
  cr_entry_id :: "MessageId option"
  cr_journal_entry_id :: "EventId option"
  cr_journal_position :: "nat option"
  cr_idempotency_key :: "string option"
  cr_transient :: bool

record ConsumerRow =
  cn_id :: ConsumerId
  cn_cursor :: nat
  cn_kind :: ConsumerKind
  cn_created_at :: DateTime
  cn_last_seen_at :: DateTime

text \<open>The typed content of a receipt's \<open>result_json\<close>, one form per command.\<close>

datatype CommandResult =
  CR_Unit
| CR_Turn TurnId MessageId
| CR_Installation Installation
| CR_Agent Agent
| CR_AgentRevision AgentRevision
| CR_AgentCreated Agent AgentRevision
| CR_Host Host
| CR_Invitation InvitationId

record CommandReceipt =
  rc_command_id :: string
  rc_request_hash :: string
  rc_result :: CommandResult
  rc_first_position :: "nat option"
  rc_last_position :: "nat option"
  rc_completed_at :: DateTime

text \<open>The five effect states the schema's CHECK admits.\<close>

datatype EffectStatus = ES_Scheduled | ES_Started | ES_Succeeded | ES_Failed | ES_Uncertain

record EffectRow =
  ef_operation_id :: OperationId
  ef_session_id :: SessionId
  ef_turn_id :: TurnId
  ef_call_id :: "string option"
  ef_tool :: "string option"
  ef_request :: EffectRequest
  ef_status :: EffectStatus
  ef_raw_result :: "ToolResult option"
  ef_scheduled_entry :: EventId
  ef_terminal_entry :: "EventId option"
  ef_scheduled_at :: DateTime
  ef_started_at :: "DateTime option"
  ef_completed_at :: "DateTime option"

record db =
  t_hosts :: "HostRow list"
  t_installation :: "Installation option"
  t_settings :: "(string \<times> string) list"
  t_agents :: "Agent list"
  t_agent_revisions :: "AgentRevision list"
  t_sessions :: "Session list"
  t_acp_bindings :: "AcpSessionBinding list"
  t_entries :: "EntryRow list"
  t_turns :: "TurnRow list"
  t_invitations :: "InvitationRow list"
  t_client_events :: "ClientEventRow list"
  client_seq :: nat
  t_consumers :: "ConsumerRow list"
  t_subscriptions :: "(ConsumerId \<times> SessionId) list"
  t_receipts :: "CommandReceipt list"
  t_journal :: "JournalEntry list"
  journal_seq :: nat
  t_effects :: "EffectRow list"
  ticks :: nat

definition empty_db :: db where
  "empty_db = \<lparr>t_hosts = [], t_installation = None, t_settings = [], t_agents = [],
     t_agent_revisions = [], t_sessions = [], t_acp_bindings = [], t_entries = [], t_turns = [],
     t_invitations = [], t_client_events = [], client_seq = 0, t_consumers = [],
     t_subscriptions = [], t_receipts = [], t_journal = [], journal_seq = 0, t_effects = [],
     ticks = 0\<rparr>"

section \<open>The outside world\<close>

text \<open>The request values whose serialized form is hashed, one constructor per \<open>json!\<close>.\<close>

datatype Request =
  RQ_Turn SessionId MessageContent Value MessageSource
| RQ_Initialize string string string string
| RQ_RelayUrl string
| RQ_Model string
| RQ_Reasoning "ReasoningEffort option"
| RQ_MoveHub HostId HostId
| RQ_CreateAgent string string string HostId
| RQ_RenameAgent string string
| RQ_ArchiveAgent string
| RQ_UpdateAgent AgentId nat string string HostId
| RQ_RevokeHost HostId
| RQ_CreateInvitation DateTime
| RQ_ConsumeInvitation InvitationId string string string string string

record ext =
  x_uuid :: "nat \<Rightarrow> string" \<comment> \<open>\<open>Uuid::now_v7\<close>, n-th draw\<close>
  x_uuid_ok :: "string \<Rightarrow> bool" \<comment> \<open>\<open>Uuid::parse_str(..).is_ok()\<close>\<close>
  x_now :: "nat \<Rightarrow> DateTime" \<comment> \<open>\<open>Utc::now\<close>, n-th reading\<close>
  x_item_bytes :: "SessionEntryPayload \<Rightarrow> nat" \<comment> \<open>\<open>serde_json::to_vec(..).len()\<close>\<close>
  x_entry_bytes :: "SessionEntry \<Rightarrow> nat"
  x_message_bytes :: "Message \<Rightarrow> nat"
  x_event_bytes :: "ClientEvent \<Rightarrow> nat"
  x_value_bytes :: "Value \<Rightarrow> nat"
  x_request_json :: "Request \<Rightarrow> string" \<comment> \<open>\<open>serde_json::to_vec\<close>\<close>
  x_result_error :: "CommandResult \<Rightarrow> string" \<comment> \<open>the text of a failed \<open>from_value\<close>\<close>
  x_json_error :: "string \<Rightarrow> string" \<comment> \<open>the text of a failed \<open>serde_json::from_str\<close>\<close>
  x_sha256 :: "string \<Rightarrow> string" \<comment> \<open>SHA-256 of bytes, in lower-case hex\<close>
  x_observation_value :: "AcpObservation \<Rightarrow> Value" \<comment> \<open>\<open>serde_json::to_value\<close>\<close>
  x_debug_str :: "string \<Rightarrow> string" \<comment> \<open>\<open>{:?}\<close> of a string\<close>
  x_secret :: "nat \<Rightarrow> string" \<comment> \<open>base64 of 32 bytes of \<open>OsRng\<close>, n-th draw\<close>
  x_parse_config :: "string \<Rightarrow> string + AgentConfig" \<comment> \<open>\<open>toml::from_str\<close>\<close>

text \<open>
  Every draw from the outside consumes one tick, so two draws of a run differ. A fresh
  identifier is its prefix and the drawn uuid.
\<close>

definition new_id :: "ext \<Rightarrow> IdKind \<Rightarrow> db \<Rightarrow> string \<times> db" where
  "new_id X k d = (id_prefix k @ x_uuid X (ticks d), d\<lparr>ticks := Suc (ticks d)\<rparr>)"

definition utc_now :: "ext \<Rightarrow> db \<Rightarrow> DateTime \<times> db" where
  "utc_now X d = (x_now X (ticks d), d\<lparr>ticks := Suc (ticks d)\<rparr>)"

text \<open>\<open>parse_id\<close> on a stored column: a malformed identifier is a conversion failure.\<close>

definition parse_id :: "ext \<Rightarrow> IdKind \<Rightarrow> string \<Rightarrow> StoreError + string" where
  "parse_id X k s = (case id_from_str (x_uuid_ok X) k s of
       Inr i \<Rightarrow> Inr i
     | Inl e \<Rightarrow> Inl (Database (FromSqlConversionFailure e)))"

section \<open>Key lookups\<close>

definition has_host :: "HostId \<Rightarrow> db \<Rightarrow> bool" where
  "has_host h d = exists_where (\<lambda>r. host_id (hr_host r) = h) (t_hosts d)"

definition has_agent :: "AgentId \<Rightarrow> db \<Rightarrow> bool" where
  "has_agent a d = exists_where (\<lambda>r. agent_id r = a) (t_agents d)"

definition has_session :: "SessionId \<Rightarrow> db \<Rightarrow> bool" where
  "has_session s d = exists_where (\<lambda>r. ses_id r = s) (t_sessions d)"

definition has_turn :: "TurnId \<Rightarrow> db \<Rightarrow> bool" where
  "has_turn t d = exists_where (\<lambda>r. turn_id_of (tw_turn r) = t) (t_turns d)"

definition has_journal :: "EventId \<Rightarrow> db \<Rightarrow> bool" where
  "has_journal e d = exists_where (\<lambda>r. je_id r = e) (t_journal d)"

definition has_entry :: "SessionId \<Rightarrow> MessageId \<Rightarrow> db \<Rightarrow> bool" where
  "has_entry s m d =
     exists_where (\<lambda>r. se_session_id (er_entry r) = s \<and> se_id (er_entry r) = m) (t_entries d)"

definition has_consumer :: "ConsumerId \<Rightarrow> db \<Rightarrow> bool" where
  "has_consumer c d = exists_where (\<lambda>r. cn_id r = c) (t_consumers d)"

abbreviation constrain :: "bool \<Rightarrow> StoreError + unit" where
  "constrain b \<equiv> require b (Database ConstraintViolation)"

section \<open>Insertions under the schema's constraints\<close>

definition insert_host :: "HostRow \<Rightarrow> db \<Rightarrow> StoreError + db" where
  "insert_host r d =
     (let h = hr_host r in
      bindR (constrain (\<forall>q \<in> set (t_hosts d).
               host_id (hr_host q) \<noteq> host_id h \<and> host_name (hr_host q) \<noteq> host_name h
             \<and> host_public_key (hr_host q) \<noteq> host_public_key h
             \<and> host_noise_public_key (hr_host q) \<noteq> host_noise_public_key h)) (\<lambda>_.
      Inr (d\<lparr>t_hosts := t_hosts d @ [r]\<rparr>)))"

definition insert_installation :: "Installation \<Rightarrow> db \<Rightarrow> StoreError + db" where
  "insert_installation i d =
     bindR (constrain (t_installation d = None \<and> has_host (ins_hub_host_id i) d)) (\<lambda>_.
     Inr (d\<lparr>t_installation := Some i\<rparr>))"

text \<open>\<open>INSERT OR IGNORE INTO agents\<close> returns the row count with the table.\<close>

definition insert_or_ignore_agent :: "Agent \<Rightarrow> db \<Rightarrow> nat \<times> db" where
  "insert_or_ignore_agent a d =
     (if exists_where (\<lambda>q. agent_id q = agent_id a \<or> agent_slug q = agent_slug a) (t_agents d)
      then (0, d) else (1, d\<lparr>t_agents := t_agents d @ [a]\<rparr>))"

definition insert_agent_revision :: "AgentRevision \<Rightarrow> db \<Rightarrow> StoreError + db" where
  "insert_agent_revision r d =
     bindR (constrain (\<not> exists_where (\<lambda>q. rev_agent_id q = rev_agent_id r
                                      \<and> rev_revision q = rev_revision r) (t_agent_revisions d)
              \<and> has_agent (rev_agent_id r) d \<and> has_host (rev_author_host_id r) d)) (\<lambda>_.
     Inr (d\<lparr>t_agent_revisions := t_agent_revisions d @ [r]\<rparr>))"

definition insert_session :: "Session \<Rightarrow> db \<Rightarrow> StoreError + db" where
  "insert_session s d =
     bindR (constrain (\<not> has_session (ses_id s) d \<and> has_agent (ses_agent_id s) d
              \<and> has_host (ses_host_id s) d)) (\<lambda>_.
     Inr (d\<lparr>t_sessions := t_sessions d @ [s]\<rparr>))"

definition insert_session_entry :: "EntryRow \<Rightarrow> db \<Rightarrow> StoreError + db" where
  "insert_session_entry r d =
     (let e = er_entry r in
      bindR (constrain
        (has_session (se_session_id e) d
       \<and> (\<forall>q \<in> set (t_entries d).
            se_id (er_entry q) \<noteq> se_id e
          \<and> \<not> (se_session_id (er_entry q) = se_session_id e
               \<and> se_sequence (er_entry q) = se_sequence e)
          \<and> \<not> (se_session_id (er_entry q) = se_session_id e
               \<and> er_observation_key r \<noteq> None \<and> er_observation_key q = er_observation_key r))
       \<and> (case se_parent_id e of
            None \<Rightarrow> True
          | Some p \<Rightarrow> has_entry (se_session_id e) p d \<or> p = se_id e))) (\<lambda>_.
      Inr (d\<lparr>t_entries := t_entries d @ [r]\<rparr>)))"

definition is_active :: "TurnRow \<Rightarrow> bool" where
  "is_active r = (turn_completed_at (tw_turn r) = None)"

definition insert_turn :: "TurnRow \<Rightarrow> db \<Rightarrow> StoreError + db" where
  "insert_turn r d =
     (let t = tw_turn r in
      bindR (constrain
        (has_session (turn_session_id t) d
       \<and> (\<forall>q \<in> set (t_turns d).
            turn_id_of (tw_turn q) \<noteq> turn_id_of t
          \<and> \<not> (turn_session_id (tw_turn q) = turn_session_id t
               \<and> tw_idempotency_key r \<noteq> None \<and> tw_idempotency_key q = tw_idempotency_key r)
          \<and> \<not> (turn_session_id (tw_turn q) = turn_session_id t \<and> is_active r \<and> is_active q)))) (\<lambda>_.
      Inr (d\<lparr>t_turns := t_turns d @ [r]\<rparr>)))"

definition insert_invitation :: "InvitationRow \<Rightarrow> db \<Rightarrow> StoreError + db" where
  "insert_invitation r d =
     bindR (constrain (\<forall>q \<in> set (t_invitations d).
               iv_id q \<noteq> iv_id r \<and> iv_secret_hash q \<noteq> iv_secret_hash r)) (\<lambda>_.
     Inr (d\<lparr>t_invitations := t_invitations d @ [r]\<rparr>))"

text \<open>
  \<open>client_events.sequence\<close> is AUTOINCREMENT: the next value is one above every value ever
  used, whether or not the rows are still there.
\<close>

definition client_event_unique :: "ClientEventRow \<Rightarrow> db \<Rightarrow> bool" where
  "client_event_unique r d =
     (\<forall>q \<in> set (t_client_events d).
        ce_id (cr_event q) \<noteq> ce_id (cr_event r)
      \<and> \<not> (ce_session_id (cr_event q) = ce_session_id (cr_event r)
           \<and> cr_idempotency_key r \<noteq> None \<and> cr_idempotency_key q = cr_idempotency_key r))"

definition client_event_refs :: "ClientEventRow \<Rightarrow> db \<Rightarrow> bool" where
  "client_event_refs r d =
     (has_session (ce_session_id (cr_event r)) d
    \<and> (case cr_entry_id r of None \<Rightarrow> True | Some m \<Rightarrow> has_entry (ce_session_id (cr_event r)) m d)
    \<and> (case cr_journal_entry_id r of None \<Rightarrow> True | Some j \<Rightarrow> has_journal j d)
    \<and> (cr_transient r \<or> (cr_journal_entry_id r \<noteq> None \<and> cr_journal_position r \<noteq> None)))"

definition put_client_event :: "ClientEventRow \<Rightarrow> db \<Rightarrow> db" where
  "put_client_event r d =
     d\<lparr>t_client_events :=
         t_client_events d @ [r\<lparr>cr_event := (cr_event r)\<lparr>ce_sequence := Suc (client_seq d)\<rparr>\<rparr>],
       client_seq := Suc (client_seq d)\<rparr>"

definition insert_client_event :: "ClientEventRow \<Rightarrow> db \<Rightarrow> StoreError + db" where
  "insert_client_event r d =
     bindR (constrain (client_event_unique r d \<and> client_event_refs r d)) (\<lambda>_.
     Inr (put_client_event r d))"

text \<open>\<open>INSERT OR IGNORE\<close> skips a duplicate but still refuses a broken reference.\<close>

definition insert_or_ignore_client_event :: "ClientEventRow \<Rightarrow> db \<Rightarrow> StoreError + db" where
  "insert_or_ignore_client_event r d =
     (if \<not> client_event_unique r d then Inr d
      else bindR (constrain (client_event_refs r d)) (\<lambda>_. Inr (put_client_event r d)))"

definition insert_receipt :: "CommandReceipt \<Rightarrow> db \<Rightarrow> StoreError + db" where
  "insert_receipt r d =
     bindR (constrain
       (\<not> exists_where (\<lambda>q. rc_command_id q = rc_command_id r) (t_receipts d)
      \<and> (case (rc_first_position r, rc_last_position r) of
           (None, _) \<Rightarrow> True \<comment> \<open>a CHECK that evaluates to NULL passes\<close>
         | (Some f, None) \<Rightarrow> 0 < f
         | (Some f, Some l) \<Rightarrow> 0 < f \<and> f \<le> l))) (\<lambda>_.
     Inr (d\<lparr>t_receipts := t_receipts d @ [r]\<rparr>))"

text \<open>The position of a journal row is AUTOINCREMENT as well.\<close>

definition insert_journal :: "JournalEntry \<Rightarrow> db \<Rightarrow> StoreError + db" where
  "insert_journal e d =
     bindR (constrain (\<not> has_journal (je_id e) d)) (\<lambda>_.
     Inr (d\<lparr>t_journal := t_journal d @ [e\<lparr>je_position := Suc (journal_seq d)\<rparr>],
            journal_seq := Suc (journal_seq d)\<rparr>))"

definition insert_effect :: "EffectRow \<Rightarrow> db \<Rightarrow> StoreError + db" where
  "insert_effect r d =
     bindR (constrain
       (has_session (ef_session_id r) d \<and> has_turn (ef_turn_id r) d
      \<and> has_journal (ef_scheduled_entry r) d
      \<and> (\<forall>q \<in> set (t_effects d).
           ef_operation_id q \<noteq> ef_operation_id r
         \<and> \<not> (ef_turn_id q = ef_turn_id r \<and> ef_call_id r \<noteq> None \<and> ef_call_id q = ef_call_id r)))) (\<lambda>_.
     Inr (d\<lparr>t_effects := t_effects d @ [r]\<rparr>))"

text \<open>
  The upsert of \<open>acp_session_bindings\<close>: a conflict on the Session replaces every column but
  \<open>created_at\<close>; a conflict on the Host's external session stays an error.
\<close>

definition upsert_acp_binding :: "AcpSessionBinding \<Rightarrow> db \<Rightarrow> StoreError + db" where
  "upsert_acp_binding b d =
     bindR (constrain
       (has_session (ab_session_id b) d \<and> has_host (ab_host_id b) d
      \<and> (\<forall>q \<in> set (t_acp_bindings d). ab_session_id q \<noteq> ab_session_id b \<longrightarrow>
           \<not> (ab_host_id q = ab_host_id b \<and> ab_harness q = ab_harness b
              \<and> ab_acp_session_id q = ab_acp_session_id b)))) (\<lambda>_.
     Inr (if exists_where (\<lambda>q. ab_session_id q = ab_session_id b) (t_acp_bindings d)
          then d\<lparr>t_acp_bindings := update_where (\<lambda>q. ab_session_id q = ab_session_id b)
                    (\<lambda>q. b\<lparr>ab_created_at := ab_created_at q\<rparr>) (t_acp_bindings d)\<rparr>
          else d\<lparr>t_acp_bindings := t_acp_bindings d @ [b]\<rparr>))"

end
