(* ===== verification/Journal.thy ===== *)
theory Journal
  imports Tables
begin

text \<open>
  The append-only journal and its command receipts: \<open>crates/mews-store/src/events.rs\<close>.
  State mutations, journal entries and the retry receipt of one command commit together;
  the mutation is a parameter of the append, and the laws a mutation keeps are the interface
  \<open>projection\<close>, which the Session, Agent, Host and Installation projections implement.
\<close>

section \<open>Commands and entries to append\<close>

record CommandContext =
  cc_command_id :: string
  cc_actor :: EventActor
  cc_correlation_id :: "string option"

record NewJournalEntry =
  ne_id :: EventId
  ne_actor :: EventActor
  ne_correlation_id :: "string option"
  ne_payload :: JournalEvent

record JournalSubjectAppend =
  sa_subject_type :: JournalSubjectType
  sa_subject_id :: string
  sa_entries :: "NewJournalEntry list"

record JournalAppend =
  ja_command_id :: string
  ja_request_hash :: string
  ja_result :: CommandResult
  ja_subjects :: "JournalSubjectAppend list"

datatype AppendOutcome = Appended "JournalEntry list" CommandReceipt | Replayed CommandReceipt

definition context_new :: "string \<Rightarrow> EventActor \<Rightarrow> CommandContext" where
  "context_new cid actor =
     \<lparr>cc_command_id = cid, cc_actor = actor, cc_correlation_id = None\<rparr>"

definition context_system :: "ext \<Rightarrow> db \<Rightarrow> CommandContext \<times> db" where
  "context_system X d =
     (let (rid, d1) = new_id X RequestIdK d in (context_new rid actor_system, d1))"

definition context_operation_id :: "CommandContext \<Rightarrow> string \<Rightarrow> string" where
  "context_operation_id c operation = operation @ '':'' @ cc_command_id c"

definition decorate :: "CommandContext \<Rightarrow> JournalAppend \<Rightarrow> JournalAppend" where
  "decorate c a = a\<lparr>ja_subjects := map (\<lambda>s. s\<lparr>sa_entries :=
       map (\<lambda>e. e\<lparr>ne_actor := cc_actor c, ne_correlation_id := cc_correlation_id c\<rparr>)
         (sa_entries s)\<rparr>) (ja_subjects a)\<rparr>"

definition new_journal_entry ::
    "ext \<Rightarrow> EventActor \<Rightarrow> JournalEvent \<Rightarrow> db \<Rightarrow> NewJournalEntry \<times> db" where
  "new_journal_entry X actor payload d =
     (let (eid, d1) = new_id X EventIdK d
      in (\<lparr>ne_id = eid, ne_actor = actor, ne_correlation_id = None, ne_payload = payload\<rparr>, d1))"

definition outcome_receipt :: "AppendOutcome \<Rightarrow> CommandReceipt" where
  "outcome_receipt o' = (case o' of Appended _ r \<Rightarrow> r | Replayed r \<Rightarrow> r)"

definition was_replayed :: "AppendOutcome \<Rightarrow> bool" where
  "was_replayed o' = (case o' of Appended _ _ \<Rightarrow> False | Replayed _ \<Rightarrow> True)"

definition command_request_hash :: "ext \<Rightarrow> Request \<Rightarrow> string" where
  "command_request_hash X r = x_sha256 X (x_request_json X r)"

section \<open>Validation\<close>

definition validate_non_empty :: "string \<Rightarrow> string \<Rightarrow> StoreError + unit" where
  "validate_non_empty label v =
     require (\<not> is_blank v) (InvalidData (label @ '' cannot be empty''))"

definition is_hexdigit :: "char \<Rightarrow> bool" where
  "is_hexdigit c = (let b = of_char c :: nat in
     (48 \<le> b \<and> b \<le> 57) \<or> (65 \<le> b \<and> b \<le> 70) \<or> (97 \<le> b \<and> b \<le> 102))"

definition validate_new_entry ::
    "JournalSubjectType \<Rightarrow> string \<Rightarrow> NewJournalEntry \<Rightarrow> StoreError + unit" where
  "validate_new_entry ty subject_id e =
     bindR (require (event_subject_type (ne_payload e) = ty)
       (InvalidData (''event '' @ event_type_as_str (event_type (ne_payload e))
          @ '' belongs to a '' @ subject_type_as_str (event_subject_type (ne_payload e))
          @ '' subject, not '' @ subject_type_as_str ty))) (\<lambda>_.
     mapErr InvalidData (validate_subject_id (ne_payload e) subject_id))"

text \<open>
  The two hash sets of \<open>validate_append\<close> are threaded as the lists of what was inserted.
\<close>

definition validate_append_entry ::
    "JournalSubjectAppend \<Rightarrow> NewJournalEntry \<Rightarrow> string list \<Rightarrow> StoreError + string list" where
  "validate_append_entry s e ids =
     bindR (require (ne_id e \<notin> set ids)
       (InvalidData ''journal entry ID appears more than once in one append'')) (\<lambda>_.
     bindR (validate_new_entry (sa_subject_type s) (sa_subject_id s) e) (\<lambda>_.
     Inr (ne_id e # ids)))"

definition validate_append_subject ::
    "JournalSubjectAppend \<Rightarrow> (JournalSubjectType \<times> string) list \<times> string list
      \<Rightarrow> StoreError + ((JournalSubjectType \<times> string) list \<times> string list)" where
  "validate_append_subject s seen =
     bindR (validate_non_empty ''journal subject ID'' (sa_subject_id s)) (\<lambda>_.
     bindR (require ((sa_subject_type s, sa_subject_id s) \<notin> set (fst seen))
       (InvalidData (''journal subject appears more than once in one append: ''
          @ sa_subject_id s))) (\<lambda>_.
     bindR (foldR (validate_append_entry s) (sa_entries s) (snd seen)) (\<lambda>ids.
     Inr ((sa_subject_type s, sa_subject_id s) # fst seen, ids))))"

definition validate_append :: "JournalAppend \<Rightarrow> StoreError + unit" where
  "validate_append a =
     bindR (validate_non_empty ''command ID'' (ja_command_id a)) (\<lambda>_.
     bindR (require (length (ja_request_hash a) = 64 \<and> list_all is_hexdigit (ja_request_hash a))
       (InvalidData ''command request hash must be a 64-character SHA-256 hex digest'')) (\<lambda>_.
     bindR (foldR validate_append_subject (ja_subjects a) ([], [])) (\<lambda>_. Inr ())))"

section \<open>Appending\<close>

definition insert_entry ::
    "ext \<Rightarrow> string option \<Rightarrow> JournalSubjectType \<Rightarrow> string \<Rightarrow> DateTime \<Rightarrow> NewJournalEntry \<Rightarrow> db
      \<Rightarrow> StoreError + JournalEntry \<times> db" where
  "insert_entry X cmd ty subject_id at e d =
     (let row = \<lparr>je_id = ne_id e, je_position = 0,
                 je_subject = \<lparr>js_kind = ty, js_id = subject_id\<rparr>,
                 je_event_type = event_type (ne_payload e), je_recorded_at = at,
                 je_actor = ne_actor e, je_command_id = cmd,
                 je_correlation_id = ne_correlation_id e, je_payload = ne_payload e\<rparr>
      in bindR (insert_journal row d) (\<lambda>d1.
         let committed = row\<lparr>je_position := journal_seq d1\<rparr>
         in bindR (mapErr InvalidData (journal_entry_validate (x_uuid_ok X) committed)) (\<lambda>_.
            Inr (committed, d1))))"

fun payload_turn_id :: "JournalEvent \<Rightarrow> TurnId option" where
  "payload_turn_id (JE_TurnAccepted t _ _ _ _ _) = Some t"
| "payload_turn_id (JE_TurnStarted t _) = Some t"
| "payload_turn_id (JE_AssistantResponseRecorded t _ _) = Some t"
| "payload_turn_id (JE_ToolCallRequested t _ _) = Some t"
| "payload_turn_id (JE_ToolExecutionCompleted _ t _) = Some t"
| "payload_turn_id (JE_ToolResultRecorded t _ _) = Some t"
| "payload_turn_id (JE_ReasoningRecorded t _ _ _ _) = Some t"
| "payload_turn_id (JE_HarnessObservationRecorded t _ _ _ _) = Some t"
| "payload_turn_id (JE_TurnCompleted t _) = Some t"
| "payload_turn_id (JE_TurnFailed t _) = Some t"
| "payload_turn_id (JE_TurnCancelled t) = Some t"
| "payload_turn_id (JE_TurnInterrupted t _) = Some t"
| "payload_turn_id (JE_EffectScheduled _ t _) = Some t"
| "payload_turn_id (JE_EffectStarted _ t) = Some t"
| "payload_turn_id (JE_EffectSucceeded _ t _) = Some t"
| "payload_turn_id (JE_EffectFailed _ t _) = Some t"
| "payload_turn_id (JE_EffectUncertain _ t _) = Some t"
| "payload_turn_id _ = None"

definition record_journal_entry ::
    "ext \<Rightarrow> JournalSubjectType \<Rightarrow> string \<Rightarrow> NewJournalEntry \<Rightarrow> db
      \<Rightarrow> StoreError + JournalEntry \<times> db" where
  "record_journal_entry X ty subject_id e0 d =
     (let e = (if ne_correlation_id e0 = None
               then e0\<lparr>ne_correlation_id := payload_turn_id (ne_payload e0)\<rparr> else e0)
      in bindR (validate_new_entry ty subject_id e) (\<lambda>_.
         let (at, d1) = utc_now X d in insert_entry X None ty subject_id at e d1))"

definition select_command_receipt :: "string \<Rightarrow> db \<Rightarrow> CommandReceipt option" where
  "select_command_receipt cid d = find (\<lambda>r. rc_command_id r = cid) (t_receipts d)"

text \<open>The two nested loops over subjects and their entries, collecting what was committed.\<close>

definition append_entry ::
    "ext \<Rightarrow> string \<Rightarrow> DateTime \<Rightarrow> JournalSubjectAppend \<Rightarrow> NewJournalEntry
      \<Rightarrow> JournalEntry list \<times> db \<Rightarrow> StoreError + JournalEntry list \<times> db" where
  "append_entry X cid at s e acc =
     bindR (insert_entry X (Some cid) (sa_subject_type s) (sa_subject_id s) at e (snd acc))
       (\<lambda>(je, d1). Inr (fst acc @ [je], d1))"

definition append_subject ::
    "ext \<Rightarrow> string \<Rightarrow> DateTime \<Rightarrow> JournalSubjectAppend
      \<Rightarrow> JournalEntry list \<times> db \<Rightarrow> StoreError + JournalEntry list \<times> db" where
  "append_subject X cid at s acc = foldR (append_entry X cid at s) (sa_entries s) acc"

definition append_journal_entries_in ::
    "ext \<Rightarrow> JournalAppend \<Rightarrow> (JournalEntry list \<Rightarrow> db \<Rightarrow> StoreError + db) \<Rightarrow> db
      \<Rightarrow> StoreError + AppendOutcome \<times> db" where
  "append_journal_entries_in X a mutate d =
     bindR (validate_append a) (\<lambda>_.
     case select_command_receipt (ja_command_id a) d of
       Some r \<Rightarrow>
         bindR (require (rc_request_hash r = ja_request_hash a) (CommandConflict (ja_command_id a)))
           (\<lambda>_. Inr (Replayed r, d))
     | None \<Rightarrow>
         (let (at, d1) = utc_now X d in
          bindR (foldR (append_subject X (ja_command_id a) at) (ja_subjects a) ([], d1))
            (\<lambda>(committed, d2).
          bindR (mutate committed d2) (\<lambda>d3.
          let receipt = \<lparr>rc_command_id = ja_command_id a, rc_request_hash = ja_request_hash a,
                rc_result = ja_result a,
                rc_first_position =
                  (case committed of [] \<Rightarrow> None | e # _ \<Rightarrow> Some (je_position e)),
                rc_last_position =
                  (if committed = [] then None else Some (je_position (last committed))),
                rc_completed_at = at\<rparr>
          in bindR (insert_receipt receipt d3) (\<lambda>d4. Inr (Appended committed receipt, d4))))))"

text \<open>
  \<open>transact_command\<close>: the decision runs only when no receipt answers the command. The
  serde conversions of its result type are the arguments \<open>to_result\<close> and \<open>from_result\<close>.
\<close>

definition transact_command ::
    "ext \<Rightarrow> CommandContext \<Rightarrow> string \<Rightarrow> string
      \<Rightarrow> ('t \<Rightarrow> CommandResult) \<Rightarrow> (CommandResult \<Rightarrow> 't option)
      \<Rightarrow> (db \<Rightarrow> StoreError + ('t \<times> JournalSubjectAppend list) \<times> db)
      \<Rightarrow> (JournalEntry list \<Rightarrow> db \<Rightarrow> StoreError + db) \<Rightarrow> db
      \<Rightarrow> StoreError + ('t \<times> bool) \<times> db" where
  "transact_command X c operation hash to_result from_result decide mutate d =
     (let cid = context_operation_id c operation in
      case select_command_receipt cid d of
        Some r \<Rightarrow>
          bindR (require (rc_request_hash r = hash) (CommandConflict cid)) (\<lambda>_.
          bindR (okOr (InvalidData (x_result_error X (rc_result r))) (from_result (rc_result r))) (\<lambda>t.
          Inr ((t, True), d)))
      | None \<Rightarrow>
          bindR (decide d) (\<lambda>((t, subjects), d1).
          let a = decorate c \<lparr>ja_command_id = cid, ja_request_hash = hash,
                              ja_result = to_result t, ja_subjects = subjects\<rparr>
          in bindR (append_journal_entries_in X a mutate d1) (\<lambda>(_, d2). Inr ((t, False), d2))))"

section \<open>Reading\<close>

definition entry_from_row :: "ext \<Rightarrow> JournalEntry \<Rightarrow> StoreError + JournalEntry" where
  "entry_from_row X e =
     bindR (mapErr (\<lambda>m. Database (FromSqlConversionFailure m))
              (journal_entry_validate (x_uuid_ok X) e)) (\<lambda>_. Inr e)"

definition journal_entries_after :: "ext \<Rightarrow> nat \<Rightarrow> nat \<Rightarrow> db \<Rightarrow> StoreError + JournalEntry list" where
  "journal_entries_after X position limit d =
     (if limit = 0 then Inr []
      else mapR (entry_from_row X)
             (take limit (sort_key je_position
                (filter (\<lambda>e. position < je_position e) (t_journal d)))))"

definition journal_entries_for_subject ::
    "ext \<Rightarrow> JournalSubjectType \<Rightarrow> string \<Rightarrow> nat \<Rightarrow> db \<Rightarrow> StoreError + JournalEntry list" where
  "journal_entries_for_subject X ty subject_id after d =
     mapR (entry_from_row X)
       (sort_key je_position
          (filter (\<lambda>e. js_kind (je_subject e) = ty \<and> js_id (je_subject e) = subject_id
                       \<and> after < je_position e) (t_journal d)))"

definition journal_session_id :: "ext \<Rightarrow> JournalEntry \<Rightarrow> StoreError + SessionId" where
  "journal_session_id X e =
     bindR (require (js_kind (je_subject e) = ST_Session)
       (InvalidData ''journal entry does not belong to a Session'')) (\<lambda>_.
     mapErr InvalidData (id_from_str (x_uuid_ok X) SessionIdK (js_id (je_subject e))))"

section \<open>What an append does to the journal\<close>

lemma insert_journal_Inr:
  "insert_journal e d = Inr d' \<longleftrightarrow>
     \<not> has_journal (je_id e) d
   \<and> d' = d\<lparr>t_journal := t_journal d @ [e\<lparr>je_position := Suc (journal_seq d)\<rparr>],
           journal_seq := Suc (journal_seq d)\<rparr>"
  by (auto simp: insert_journal_def result_simps)

lemma insert_entry_Inr:
  assumes "insert_entry X cmd ty sid at e d = Inr (je, d')"
  shows "d' = d\<lparr>t_journal := t_journal d @ [je], journal_seq := Suc (journal_seq d)\<rparr>"
    and "je = \<lparr>je_id = ne_id e, je_position = Suc (journal_seq d),
               je_subject = \<lparr>js_kind = ty, js_id = sid\<rparr>,
               je_event_type = event_type (ne_payload e), je_recorded_at = at,
               je_actor = ne_actor e, je_command_id = cmd,
               je_correlation_id = ne_correlation_id e, je_payload = ne_payload e\<rparr>"
    and "\<not> has_journal (ne_id e) d"
    and "journal_entry_validate (x_uuid_ok X) je = Inr ()"
  using assms by (auto simp: insert_entry_def insert_journal_Inr Let_def result_simps)

lemma record_journal_entry_Inr:
  assumes "record_journal_entry X ty sid e d = Inr (je, d')"
  shows "d' = d\<lparr>t_journal := t_journal d @ [je], journal_seq := Suc (journal_seq d),
              ticks := Suc (ticks d)\<rparr>"
    and "je_id je = ne_id e" and "je_position je = Suc (journal_seq d)"
    and "je_subject je = \<lparr>js_kind = ty, js_id = sid\<rparr>"
    and "je_recorded_at je = x_now X (ticks d)"
    and "je_actor je = ne_actor e" and "je_command_id je = None"
    and "je_correlation_id je = (if ne_correlation_id e = None
           then payload_turn_id (ne_payload e) else ne_correlation_id e)"
    and "je_payload je = ne_payload e"
    and "\<not> has_journal (ne_id e) d"
    and "journal_entry_validate (x_uuid_ok X) je = Inr ()"
proof -
  let ?e = "if ne_correlation_id e = None
            then e\<lparr>ne_correlation_id := payload_turn_id (ne_payload e)\<rparr> else e"
  have e: "ne_id ?e = ne_id e" "ne_actor ?e = ne_actor e" "ne_payload ?e = ne_payload e"
    "ne_correlation_id ?e = (if ne_correlation_id e = None
           then payload_turn_id (ne_payload e) else ne_correlation_id e)"
    by simp_all
  from assms have i: "insert_entry X None ty sid (x_now X (ticks d)) ?e (d\<lparr>ticks := Suc (ticks d)\<rparr>)
      = Inr (je, d')"
    by (simp only: record_journal_entry_def utc_now_def Let_def result_simps prod.case) blast
  note * = insert_entry_Inr [OF i, unfolded e]
  show "d' = d\<lparr>t_journal := t_journal d @ [je], journal_seq := Suc (journal_seq d),
              ticks := Suc (ticks d)\<rparr>"
    using *(1) by simp
  show "je_id je = ne_id e" "je_position je = Suc (journal_seq d)"
    "je_subject je = \<lparr>js_kind = ty, js_id = sid\<rparr>" "je_recorded_at je = x_now X (ticks d)"
    "je_actor je = ne_actor e" "je_command_id je = None"
    "je_correlation_id je = (if ne_correlation_id e = None
           then payload_turn_id (ne_payload e) else ne_correlation_id e)"
    "je_payload je = ne_payload e"
    using *(2) by simp_all
  show "\<not> has_journal (ne_id e) d" using *(3) by (simp add: has_journal_def)
  show "journal_entry_validate (x_uuid_ok X) je = Inr ()" by (fact *(4))
qed

text \<open>The journal invariant: positions rise by one, identifiers are unique, entries valid.\<close>

definition journal_ok :: "ext \<Rightarrow> db \<Rightarrow> bool" where
  "journal_ok X d \<longleftrightarrow>
     sorted_wrt (<) (map je_position (t_journal d))
   \<and> (\<forall>e \<in> set (t_journal d). 0 < je_position e \<and> je_position e \<le> journal_seq d)
   \<and> distinct (map je_id (t_journal d))
   \<and> (\<forall>e \<in> set (t_journal d). journal_entry_validate (x_uuid_ok X) e = Inr ())"

lemma journal_ok_snoc:
  assumes "journal_ok X d" and "je_position je = Suc (journal_seq d)"
    and "\<not> has_journal (je_id je) d" and "journal_entry_validate (x_uuid_ok X) je = Inr ()"
    and "t_journal d' = t_journal d @ [je]" and "journal_seq d' = Suc (journal_seq d)"
  shows "journal_ok X d'"
  using assms by (fastforce simp: journal_ok_def sorted_wrt_append has_journal_def less_Suc_eq_le)

lemma journal_ok_cong:
  "t_journal d' = t_journal d \<Longrightarrow> journal_seq d' = journal_seq d \<Longrightarrow> journal_ok X d' = journal_ok X d"
  by (simp add: journal_ok_def)

lemma journal_ok_insert_entry:
  assumes "insert_entry X cmd ty sid at e d = Inr (je, d')" and "journal_ok X d"
  shows "journal_ok X d'"
  using insert_entry_Inr [OF assms(1)]
  by (intro journal_ok_snoc [OF assms(2), of je]) simp_all

lemma journal_ok_record:
  assumes "record_journal_entry X ty sid e d = Inr (je, d')" and "journal_ok X d"
  shows "journal_ok X d'"
  using record_journal_entry_Inr [OF assms(1)]
  by (intro journal_ok_snoc [OF assms(2), of je]) simp_all

text \<open>
  What the loops append: the committed entries, in order, at consecutive positions, each
  carrying the command's identifier.
\<close>

definition appended :: "ext \<Rightarrow> string \<Rightarrow> JournalEntry list \<Rightarrow> db \<Rightarrow> db \<Rightarrow> bool" where
  "appended X cid new d d' \<longleftrightarrow>
     d' = d\<lparr>t_journal := t_journal d @ new, journal_seq := journal_seq d + length new\<rparr>
   \<and> map je_position new = [Suc (journal_seq d)..<Suc (journal_seq d + length new)]
   \<and> (\<forall>e \<in> set new. je_command_id e = Some cid)
   \<and> (journal_ok X d \<longrightarrow> journal_ok X d')"

lemma appended_refl: "appended X cid [] d d"
  by (simp add: appended_def)

lemma appended_trans:
  assumes "appended X cid new d d'" and "appended X cid new' d' d''"
  shows "appended X cid (new @ new') d d''"
proof -
  let ?s = "Suc (journal_seq d)"
  have "[?s..<?s + length new + length new'] =
        [?s..<?s + length new] @ [?s + length new..<?s + length new + length new']"
    by (rule upt_add_eq_append) simp
  with assms show ?thesis by (auto simp: appended_def add.assoc simp del: upt_Suc)
qed

lemma append_entry_appended:
  assumes "append_entry X cid at s e (acc, d) = Inr (acc', d')"
  shows "\<exists>new. acc' = acc @ new \<and> appended X cid new d d' \<and> length new = 1"
proof -
  from assms obtain je where
    je: "insert_entry X (Some cid) (sa_subject_type s) (sa_subject_id s) at e d = Inr (je, d')"
    and acc': "acc' = acc @ [je]"
    by (auto simp: append_entry_def result_simps)
  have "appended X cid [je] d d'"
    unfolding appended_def
    using insert_entry_Inr [OF je] journal_ok_insert_entry [OF je] by simp
  with acc' show ?thesis by auto
qed

lemma append_entries_appended:
  assumes "foldR (append_entry X cid at s) es (acc, d) = Inr (acc', d')"
  shows "\<exists>new. acc' = acc @ new \<and> appended X cid new d d' \<and> length new = length es"
  using assms
proof (induction es arbitrary: acc d)
  case Nil
  then show ?case by (auto simp: appended_refl)
next
  case (Cons e es)
  then obtain acc1 d1 where 1: "append_entry X cid at s e (acc, d) = Inr (acc1, d1)"
    and 2: "foldR (append_entry X cid at s) es (acc1, d1) = Inr (acc', d')"
    by (auto simp: result_simps)
  from append_entry_appended [OF 1] Cons.IH [OF 2] show ?case
    by (metis append.assoc appended_trans length_Cons length_append plus_1_eq_Suc)
qed

lemma append_subjects_appended:
  assumes "foldR (append_subject X cid at) ss (acc, d) = Inr (acc', d')"
  shows "\<exists>new. acc' = acc @ new \<and> appended X cid new d d'
               \<and> length new = length (concat (map sa_entries ss))"
  using assms
proof (induction ss arbitrary: acc d)
  case Nil
  then show ?case by (auto simp: appended_refl)
next
  case (Cons s ss)
  then obtain acc1 d1 where "append_subject X cid at s (acc, d) = Inr (acc1, d1)"
    and 2: "foldR (append_subject X cid at) ss (acc1, d1) = Inr (acc', d')"
    by (auto simp: result_simps)
  then have 1: "foldR (append_entry X cid at s) (sa_entries s) (acc, d) = Inr (acc1, d1)"
    by (simp add: append_subject_def)
  from append_entries_appended [OF 1] Cons.IH [OF 2] show ?case
    by (fastforce intro: appended_trans)
qed

section \<open>The interface of a projection\<close>

text \<open>
  The \<open>mutate\<close> closure of an append writes the authoritative tables. It never touches the
  journal or the receipts; everything an append promises follows from that.
\<close>

locale projection =
  fixes mutate :: "JournalEntry list \<Rightarrow> db \<Rightarrow> StoreError + db"
  assumes mutate_journal: "mutate es d = Inr d' \<Longrightarrow> t_journal d' = t_journal d"
    and mutate_seq: "mutate es d = Inr d' \<Longrightarrow> journal_seq d' = journal_seq d"
    and mutate_receipts: "mutate es d = Inr d' \<Longrightarrow> t_receipts d' = t_receipts d"
begin

lemma append_Appended:
  assumes "append_journal_entries_in X a mutate d = Inr (Appended es r, d')"
  shows "t_journal d' = t_journal d @ es"
    and "journal_seq d' = journal_seq d + length es"
    and "map je_position es = [Suc (journal_seq d)..<Suc (journal_seq d + length es)]"
    and "t_receipts d' = t_receipts d @ [r]"
    and "rc_command_id r = ja_command_id a" and "rc_request_hash r = ja_request_hash a"
    and "rc_result r = ja_result a"
    and "select_command_receipt (ja_command_id a) d = None"
    and "validate_append a = Inr ()"
    and "journal_ok X d \<Longrightarrow> journal_ok X d'"
    and "rc_first_position r = (if es = [] then None else Some (Suc (journal_seq d)))"
    and "rc_last_position r = (if es = [] then None else Some (journal_seq d + length es))"
proof -
  from assms obtain d2 d3 where v: "validate_append a = Inr ()"
    and n: "select_command_receipt (ja_command_id a) d = None"
    and f: "foldR (append_subject X (ja_command_id a) (x_now X (ticks d))) (ja_subjects a)
              ([], d\<lparr>ticks := Suc (ticks d)\<rparr>) = Inr (es, d2)"
    and m: "mutate es d2 = Inr d3" and i: "insert_receipt r d3 = Inr d'"
    and r: "r = \<lparr>rc_command_id = ja_command_id a, rc_request_hash = ja_request_hash a,
                rc_result = ja_result a,
                rc_first_position = (case es of [] \<Rightarrow> None | e # _ \<Rightarrow> Some (je_position e)),
                rc_last_position = (if es = [] then None else Some (je_position (last es))),
                rc_completed_at = x_now X (ticks d)\<rparr>"
    by (auto simp: append_journal_entries_in_def utc_now_def Let_def result_simps
        split: option.splits)
  from append_subjects_appended [OF f]
  have ap: "appended X (ja_command_id a) es (d\<lparr>ticks := Suc (ticks d)\<rparr>) d2" by simp
  from i have d': "d' = d3\<lparr>t_receipts := t_receipts d3 @ [r]\<rparr>"
    by (auto simp: insert_receipt_def result_simps)
  note frame = mutate_journal [OF m] mutate_seq [OF m] mutate_receipts [OF m]
  show "t_journal d' = t_journal d @ es" "journal_seq d' = journal_seq d + length es"
    "t_receipts d' = t_receipts d @ [r]"
    using ap frame by (auto simp: appended_def d')
  show pos: "map je_position es = [Suc (journal_seq d)..<Suc (journal_seq d + length es)]"
    using ap by (simp add: appended_def)
  show "rc_command_id r = ja_command_id a" "rc_request_hash r = ja_request_hash a"
    "rc_result r = ja_result a" using r by simp_all
  show "select_command_receipt (ja_command_id a) d = None" "validate_append a = Inr ()"
    by (fact n, fact v)
  have "journal_ok X d' = journal_ok X d2"
    by (rule journal_ok_cong) (use frame in \<open>simp_all add: d'\<close>)
  moreover have "journal_ok X (d\<lparr>ticks := Suc (ticks d)\<rparr>) = journal_ok X d"
    by (rule journal_ok_cong) simp_all
  ultimately show "journal_ok X d \<Longrightarrow> journal_ok X d'"
    using ap unfolding appended_def by blast
  show "rc_first_position r = (if es = [] then None else Some (Suc (journal_seq d)))"
    using pos r by (cases es) (auto simp: upt_conv_Cons simp del: upt_Suc)
  have "je_position (last es) = journal_seq d + length es" if "es \<noteq> []"
  proof -
    from that have "je_position (last es) = last (map je_position es)" by (simp add: last_map)
    with that show ?thesis unfolding pos by (cases es) auto
  qed
  then show "rc_last_position r = (if es = [] then None else Some (journal_seq d + length es))"
    using r by auto
qed

lemma append_replay:
  assumes "validate_append a = Inr ()" and "select_command_receipt (ja_command_id a) d = Some r"
  shows "append_journal_entries_in X a mutate d =
     (if rc_request_hash r = ja_request_hash a then Inr (Replayed r, d)
      else Inl (CommandConflict (ja_command_id a)))"
  using assms by (simp add: append_journal_entries_in_def)

lemma append_Replayed:
  assumes "append_journal_entries_in X a mutate d = Inr (Replayed r, d')"
  shows "d' = d" and "select_command_receipt (ja_command_id a) d = Some r"
    and "rc_request_hash r = ja_request_hash a" and "validate_append a = Inr ()"
  using assms
  by (auto simp: append_journal_entries_in_def utc_now_def Let_def result_simps split: option.splits)

lemma select_receipt_snoc:
  assumes "select_command_receipt cid d = None" and "t_receipts d' = t_receipts d @ [r]"
    and "rc_command_id r = cid"
  shows "select_command_receipt cid d' = Some r"
  using assms by (simp add: select_command_receipt_def find_append_if)

text \<open>Retrying a committed append changes nothing and returns the first receipt.\<close>

lemma append_retry:
  assumes "append_journal_entries_in X a mutate d = Inr (out, d')"
  shows "append_journal_entries_in X a mutate d' = Inr (Replayed (outcome_receipt out), d')"
proof (cases out)
  case (Appended es r)
  note c = append_Appended [OF assms [unfolded Appended]]
  from c(8,4,5) have "select_command_receipt (ja_command_id a) d' = Some r"
    by (rule select_receipt_snoc)
  with c show ?thesis by (simp add: append_replay Appended outcome_receipt_def)
next
  case (Replayed r)
  note c = append_Replayed [OF assms [unfolded Replayed]]
  with Replayed show ?thesis by (simp add: append_replay outcome_receipt_def)
qed

lemma append_journal_ok:
  assumes "append_journal_entries_in X a mutate d = Inr (out, d')" and "journal_ok X d"
  shows "journal_ok X d'"
proof (cases out)
  case (Appended es r)
  with append_Appended(10) [of X a d es r d'] assms show ?thesis by simp
next
  case (Replayed r)
  with append_Replayed(1) [of X a d r d'] assms show ?thesis by simp
qed

lemma transact_replay:
  assumes "select_command_receipt (context_operation_id c operation) d = Some r"
  shows "transact_command X c operation hash to_result from_result decide mutate d =
     (if rc_request_hash r = hash then
        (case from_result (rc_result r) of
           None \<Rightarrow> Inl (InvalidData (x_result_error X (rc_result r)))
         | Some t \<Rightarrow> Inr ((t, True), d))
      else Inl (CommandConflict (context_operation_id c operation)))"
  using assms by (simp add: transact_command_def okOr_def split: option.splits)

text \<open>
  A command that returned is answered from its receipt ever after: whatever the retry would
  decide, it returns the first result, is marked as replayed and writes nothing.
\<close>

lemma transact_retry:
  assumes "transact_command X c operation hash to_result from_result decide mutate d = Inr ((t, b), d')"
    and roundtrip: "\<And>t. from_result (to_result t) = Some t"
    and reads: "\<And>y d1. decide d = Inr (y, d1) \<Longrightarrow> t_receipts d1 = t_receipts d"
  shows "transact_command X c operation hash to_result from_result decide' mutate d' = Inr ((t, True), d')"
proof (cases "select_command_receipt (context_operation_id c operation) d")
  case (Some r)
  with assms(1) have "d' = d" "rc_request_hash r = hash" "from_result (rc_result r) = Some t"
    by (auto simp: transact_replay split: if_splits option.splits)
  with Some show ?thesis by (simp add: transact_replay)
next
  case None
  with assms(1) obtain subjects d1 out where
    dec: "decide d = Inr ((t, subjects), d1)" and
    ap: "append_journal_entries_in X (decorate c \<lparr>ja_command_id = context_operation_id c operation,
           ja_request_hash = hash, ja_result = to_result t, ja_subjects = subjects\<rparr>) mutate d1
         = Inr (out, d')"
    by (auto simp: transact_command_def Let_def result_simps)
  let ?a = "decorate c \<lparr>ja_command_id = context_operation_id c operation,
           ja_request_hash = hash, ja_result = to_result t, ja_subjects = subjects\<rparr>"
  have a: "ja_command_id ?a = context_operation_id c operation" "ja_request_hash ?a = hash"
    "ja_result ?a = to_result t" by (simp_all add: decorate_def)
  obtain r where r: "select_command_receipt (context_operation_id c operation) d' = Some r"
    "rc_request_hash r = hash"
    using append_Replayed [OF append_retry [OF ap]] a by metis
  show ?thesis
  proof (cases out)
    case (Appended es r')
    note c = append_Appended [OF ap [unfolded Appended]]
    from select_receipt_snoc [OF c(8,4,5)] r(1) a(1) have "r' = r" by simp
    with c(7) a(3) r show ?thesis by (simp add: transact_replay roundtrip)
  next
    case (Replayed r')
    have "select_command_receipt (context_operation_id c operation) d1 = None"
      using None reads [OF dec] by (simp add: select_command_receipt_def)
    with append_Replayed(2) [OF ap [unfolded Replayed]] a(1) show ?thesis by simp
  qed
qed

end

end
