(* ===== verification/Values.thy ===== *)
theory Values
  imports Journal "HOL-Library.Char_ord" "HOL-Library.List_Lexorder"
begin

text \<open>
  Validation and derived values of the catalog: \<open>crates/mews-store/src/values.rs\<close>, the
  \<open>AgentConfig\<close> checks of \<open>mews-protocol/src/domain/agents.rs\<close>, and the reads of the
  installation row that Hosts and Installation share.
\<close>

section \<open>Names and slugs\<close>

definition validate_name :: "string \<Rightarrow> string \<Rightarrow> StoreError + unit" where
  "validate_name label v =
     require (\<not> (is_blank v \<or> 64 < length v)) (InvalidData (label @ '' must be 1-64 characters''))"

definition ascii_lower :: "char \<Rightarrow> bool" where
  "ascii_lower c = (97 \<le> (of_char c :: nat) \<and> (of_char c :: nat) \<le> 122)"

definition ascii_digit :: "char \<Rightarrow> bool" where
  "ascii_digit c = (48 \<le> (of_char c :: nat) \<and> (of_char c :: nat) \<le> 57)"

definition slug_ok :: "string \<Rightarrow> bool" where
  "slug_ok slug = (slug \<noteq> [] \<and> length slug \<le> 64
     \<and> \<not> list_ex (\<lambda>part. part = [] \<or> \<not> list_all (\<lambda>b. ascii_lower b \<or> ascii_digit b) part)
           (split_on (CHR ''-'') slug))"

definition validate_slug :: "string \<Rightarrow> StoreError + unit" where
  "validate_slug slug =
     require (slug_ok slug)
       (InvalidAgent ''slug must contain only lowercase letters, digits, and hyphens'')"

section \<open>Agent definitions\<close>

definition name_byte :: "char \<Rightarrow> bool" where
  "name_byte b = (ascii_lower b \<or> ascii_digit b \<or> b = CHR ''-'' \<or> b = CHR ''_'' \<or> b = CHR ''.'')"

definition valid_name :: "string \<Rightarrow> bool" where
  "valid_name v = (v \<noteq> [] \<and> list_all name_byte v)"

text \<open>\<open>tool.strip_suffix('*').unwrap_or(tool)\<close>\<close>

definition tool_base :: "string \<Rightarrow> string" where
  "tool_base tool = (if tool \<noteq> [] \<and> last tool = CHR ''*'' then butlast tool else tool)"

fun check_options :: "ext \<Rightarrow> (string \<times> string) list \<Rightarrow> string + unit" where
  "check_options X [] = Inr ()"
| "check_options X ((name, v) # opts) =
     bindR (require (valid_name name) (''invalid harness option name '' @ x_debug_str X name)) (\<lambda>_.
     bindR (require (\<not> is_blank v)
       (''harness option '' @ x_debug_str X name @ '' must not be empty'')) (\<lambda>_.
     check_options X opts))"

fun check_tools :: "ext \<Rightarrow> string list \<Rightarrow> string list \<Rightarrow> string + unit" where
  "check_tools X seen [] = Inr ()"
| "check_tools X seen (tool # tools) =
     bindR (require (\<not> (tool = [] \<or> (tool_base tool = [] \<and> tool \<noteq> ''*'')
                        \<or> \<not> list_all name_byte (tool_base tool)))
       (''invalid tool name '' @ x_debug_str X tool)) (\<lambda>_.
     bindR (require (tool \<notin> set seen) (''duplicate tool name '' @ x_debug_str X tool)) (\<lambda>_.
     check_tools X (tool # seen) tools))"

definition config_validate :: "ext \<Rightarrow> AgentConfig \<Rightarrow> string + unit" where
  "config_validate X c =
     bindR (require (valid_name (cfg_harness c)) ''invalid harness name'') (\<lambda>_.
     bindR (check_options X (cfg_harness_options c)) (\<lambda>_.
     check_tools X [] (cfg_tools c)))"

definition validate_definition :: "ext \<Rightarrow> string \<Rightarrow> string \<Rightarrow> StoreError + AgentConfig" where
  "validate_definition X soul config_toml =
     bindR (require (\<not> (is_blank soul \<or> 24 * 1024 < length soul))
       (InvalidAgent ''SOUL.md must contain 1-24576 bytes'')) (\<lambda>_.
     bindR (require (length config_toml \<le> 8 * 1024)
       (InvalidAgent ''agent.toml must not exceed 8192 bytes'')) (\<lambda>_.
     bindR (mapErr InvalidAgent (x_parse_config X config_toml)) (\<lambda>config.
     bindR (mapErr InvalidAgent (config_validate X config)) (\<lambda>_. Inr config))))"

section \<open>Digests\<close>

text \<open>\<open>u64::to_be_bytes\<close>: eight bytes, the most significant first.\<close>

fun be_bytes :: "nat \<Rightarrow> nat \<Rightarrow> string" where
  "be_bytes 0 n = []"
| "be_bytes (Suc k) n = be_bytes k (n div 256) @ [char_of (n mod 256)]"

definition revision_preimage :: "string \<Rightarrow> string \<Rightarrow> string" where
  "revision_preimage soul config_toml =
     be_bytes 8 (length soul) @ soul @ be_bytes 8 (length config_toml) @ config_toml"

definition revision ::
    "ext \<Rightarrow> AgentId \<Rightarrow> nat \<Rightarrow> string \<Rightarrow> string \<Rightarrow> HostId \<Rightarrow> DateTime \<Rightarrow> AgentRevision" where
  "revision X aid n soul config_toml author at =
     \<lparr>rev_agent_id = aid, rev_revision = n, rev_soul = soul, rev_config_toml = config_toml,
      rev_content_hash = x_sha256 X (revision_preimage soul config_toml),
      rev_author_host_id = author, rev_created_at = at\<rparr>"

definition secret_hash :: "ext \<Rightarrow> string \<Rightarrow> string" where
  "secret_hash X secret = x_sha256 X (''mews-invitation-v1'' @ [CHR 0x00] @ secret)"

section \<open>The installation row\<close>

definition installation :: "ext \<Rightarrow> db \<Rightarrow> StoreError + Installation option" where
  "installation X d =
     (case t_installation d of
        None \<Rightarrow> Inr None
      | Some i \<Rightarrow>
          bindR (parse_id X InstallationIdK (ins_id i)) (\<lambda>_.
          bindR (parse_id X HostIdK (ins_hub_host_id i)) (\<lambda>_. Inr (Some i))))"

definition required_installation :: "ext \<Rightarrow> db \<Rightarrow> StoreError + Installation" where
  "required_installation X d =
     bindR (installation X d) (okOr (InvalidData ''installation is missing''))"

text \<open>A one-entry subject, as every catalog command builds it.\<close>

definition one_event ::
    "ext \<Rightarrow> JournalSubjectType \<Rightarrow> string \<Rightarrow> EventActor \<Rightarrow> JournalEvent \<Rightarrow> db
      \<Rightarrow> JournalSubjectAppend \<times> db" where
  "one_event X ty subject_id actor payload d =
     (let (e, d1) = new_journal_entry X actor payload d
      in (\<lparr>sa_subject_type = ty, sa_subject_id = subject_id, sa_entries = [e]\<rparr>, d1))"

section \<open>Facts\<close>

lemma length_be_bytes [simp]: "length (be_bytes k n) = k"
  by (induction k arbitrary: n) simp_all

lemma be_bytes_inj: "be_bytes k m = be_bytes k n \<Longrightarrow> m < 256 ^ k \<Longrightarrow> n < 256 ^ k \<Longrightarrow> m = n"
proof (induction k arbitrary: m n)
  case (Suc k)
  from Suc.prems(1) have hi: "be_bytes k (m div 256) = be_bytes k (n div 256)"
    and lo: "(char_of (m mod 256) :: char) = char_of (n mod 256)" by simp_all
  from lo have "(of_char (char_of (m mod 256) :: char) :: nat) = of_char (char_of (n mod 256) :: char)"
    by simp
  then have "m mod 256 = n mod 256" by simp
  moreover have "m div 256 = n div 256"
    using Suc.prems(2,3) by (intro Suc.IH [OF hi]) (simp_all add: less_mult_imp_div_less mult.commute)
  ultimately show "m = n" by (metis div_mult_mod_eq)
qed simp

lemma revision_preimage_inj:
  assumes "revision_preimage s c = revision_preimage s' c'"
    and "length s < 2 ^ 64" and "length s' < 2 ^ 64"
  shows "s = s' \<and> c = c'"
proof -
  from assms(1) have "be_bytes 8 (length s) = be_bytes 8 (length s')"
    and rest: "s @ be_bytes 8 (length c) @ c = s' @ be_bytes 8 (length c') @ c'"
    unfolding revision_preimage_def by (simp_all add: append_eq_append_conv)
  with assms(2,3) have "length s = length s'" by (intro be_bytes_inj [of 8]) simp_all
  with rest show ?thesis by (simp add: append_eq_append_conv)
qed

text \<open>What \<open>validate_slug\<close> accepts: words of lowercase letters and digits joined by hyphens.\<close>

fun join_on :: "char \<Rightarrow> string list \<Rightarrow> string" where
  "join_on c [] = []"
| "join_on c [p] = p"
| "join_on c (p # ps) = p @ c # join_on c ps"

lemma split_on_nonempty [simp]: "split_on c s \<noteq> []"
  by (cases s) (auto split: list.splits)

lemma join_on_cons: "ps \<noteq> [] \<Longrightarrow> join_on c ((x # p) # ps) = x # join_on c (p # ps)"
  by (cases ps) simp_all

lemma join_split: "join_on c (split_on c s) = s"
proof (induction s)
  case (Cons x s)
  obtain p ps where "split_on c s = p # ps" by (cases "split_on c s") auto
  with Cons show ?case by (cases ps) auto
qed simp

lemma split_word: "c \<notin> set p \<Longrightarrow> split_on c p = [p]"
  by (induction p) auto

lemma split_word_sep: "c \<notin> set p \<Longrightarrow> split_on c (p @ c # s) = p # split_on c s"
  by (induction p) auto

lemma split_join: "ps \<noteq> [] \<Longrightarrow> (\<And>p. p \<in> set ps \<Longrightarrow> c \<notin> set p) \<Longrightarrow> split_on c (join_on c ps) = ps"
  by (induction c ps rule: join_on.induct) (auto simp: split_word split_word_sep)

lemma hyphen_not_word: "list_all (\<lambda>b. ascii_lower b \<or> ascii_digit b) p \<Longrightarrow> CHR ''-'' \<notin> set p"
  by (auto simp: list_all_iff ascii_lower_def ascii_digit_def)

lemma slug_ok_iff:
  "slug_ok slug \<longleftrightarrow> length slug \<le> 64 \<and>
     (\<exists>words. words \<noteq> [] \<and> slug = join_on (CHR ''-'') words
        \<and> (\<forall>w \<in> set words. w \<noteq> [] \<and> list_all (\<lambda>b. ascii_lower b \<or> ascii_digit b) w))"
proof
  assume "slug_ok slug"
  then have "length slug \<le> 64" "\<forall>w \<in> set (split_on (CHR ''-'') slug). w \<noteq> []
      \<and> list_all (\<lambda>b. ascii_lower b \<or> ascii_digit b) w"
    by (auto simp: slug_ok_def list_ex_iff)
  then show "length slug \<le> 64 \<and> (\<exists>words. words \<noteq> [] \<and> slug = join_on (CHR ''-'') words
      \<and> (\<forall>w \<in> set words. w \<noteq> [] \<and> list_all (\<lambda>b. ascii_lower b \<or> ascii_digit b) w))"
    using join_split [of "CHR ''-''" slug] by (metis split_on_nonempty)
next
  assume "length slug \<le> 64 \<and> (\<exists>words. words \<noteq> [] \<and> slug = join_on (CHR ''-'') words
      \<and> (\<forall>w \<in> set words. w \<noteq> [] \<and> list_all (\<lambda>b. ascii_lower b \<or> ascii_digit b) w))"
  then obtain words where w: "length slug \<le> 64" "words \<noteq> []" "slug = join_on (CHR ''-'') words"
    "\<forall>w \<in> set words. w \<noteq> [] \<and> list_all (\<lambda>b. ascii_lower b \<or> ascii_digit b) w" by blast
  then have s: "split_on (CHR ''-'') slug = words" by (auto intro: split_join dest: hyphen_not_word)
  then have "slug \<noteq> []" using w(2,4) by auto
  with w s show "slug_ok slug" by (auto simp: slug_ok_def list_ex_iff)
qed

end
