(* ===== verification/Agents.thy ===== *)
theory Agents
  imports Values
begin

text \<open>
  The Agent catalog: \<open>crates/mews-store/src/agents.rs\<close>. Every change is a command answered
  from its receipt when retried; the projection \<open>apply_agent_events\<close> is one of the
  implementations of the interface \<open>projection\<close>.
\<close>

section \<open>Reading\<close>

definition agent_from_row :: "ext \<Rightarrow> Agent \<Rightarrow> StoreError + Agent" where
  "agent_from_row X a = bindR (parse_id X AgentIdK (agent_id a)) (\<lambda>_. Inr a)"

definition agents :: "ext \<Rightarrow> db \<Rightarrow> StoreError + Agent list" where
  "agents X d =
     mapR (agent_from_row X) (sort_key agent_slug (filter (\<lambda>a. \<not> agent_archived a) (t_agents d)))"

definition select_agent_by_slug :: "ext \<Rightarrow> string \<Rightarrow> db \<Rightarrow> StoreError + Agent" where
  "select_agent_by_slug X slug d =
     bindR (okOr (NotFound ''agent'' slug)
       (find (\<lambda>a. agent_slug a = slug \<and> \<not> agent_archived a) (t_agents d))) (agent_from_row X)"

definition agent_by_slug :: "ext \<Rightarrow> string \<Rightarrow> db \<Rightarrow> StoreError + Agent" where
  "agent_by_slug X slug d = select_agent_by_slug X slug d"

definition agent_revision :: "ext \<Rightarrow> AgentId \<Rightarrow> nat \<Rightarrow> db \<Rightarrow> StoreError + AgentRevision" where
  "agent_revision X aid n d =
     bindR (okOr (NotFound ''agent revision'' (aid @ ''@'' @ show_nat n))
       (find (\<lambda>r. rev_agent_id r = aid \<and> rev_revision r = n) (t_agent_revisions d))) (\<lambda>r.
     bindR (parse_id X HostIdK (rev_author_host_id r)) (\<lambda>_. Inr r))"

definition host_actor :: "HostId \<Rightarrow> EventActor" where
  "host_actor h = \<lparr>ea_kind = AK_Host, ea_id = Some h\<rparr>"

section \<open>The projection\<close>

definition apply_agent_created :: "Agent \<Rightarrow> AgentRevision \<Rightarrow> db \<Rightarrow> StoreError + db" where
  "apply_agent_created a r d =
     (let (inserted, d1) = insert_or_ignore_agent a d in
      bindR (require (inserted \<noteq> 0) (DuplicateAgent (agent_slug a))) (\<lambda>_.
      insert_agent_revision r d1))"

definition apply_agent_revision :: "AgentRevision \<Rightarrow> db \<Rightarrow> StoreError + db" where
  "apply_agent_revision r d =
     bindR (insert_agent_revision r d) (\<lambda>d1.
     let p = (\<lambda>a. agent_id a = rev_agent_id r \<and> agent_current_revision a = rev_revision r - 1
                  \<and> \<not> agent_archived a) in
     if count_where p (t_agents d1) = 1
     then Inr (d1\<lparr>t_agents := update_where p (\<lambda>a. a\<lparr>agent_current_revision := rev_revision r\<rparr>)
                   (t_agents d1)\<rparr>)
     else
       bindR (okOr (NotFound ''agent'' (rev_agent_id r))
         (find (\<lambda>a. agent_id a = rev_agent_id r) (t_agents d1))) (\<lambda>a.
       Inl (RevisionConflict (rev_revision r - 1) (agent_current_revision a))))"

text \<open>
  \<open>UPDATE OR IGNORE\<close> leaves a row alone whose new slug another row holds.
\<close>

definition apply_agent_renamed :: "AgentId \<Rightarrow> string \<Rightarrow> db \<Rightarrow> StoreError + db" where
  "apply_agent_renamed aid slug d =
     (let p = (\<lambda>a. agent_id a = aid \<and> \<not> agent_archived a
                  \<and> \<not> exists_where (\<lambda>b. agent_slug b = slug \<and> agent_id b \<noteq> aid) (t_agents d)) in
      bindR (require (count_where p (t_agents d) \<noteq> 0) (DuplicateAgent slug)) (\<lambda>_.
      Inr (d\<lparr>t_agents := update_where p (\<lambda>a. a\<lparr>agent_slug := slug\<rparr>) (t_agents d)\<rparr>)))"

definition apply_agent_archived :: "AgentId \<Rightarrow> db \<Rightarrow> StoreError + db" where
  "apply_agent_archived aid d =
     (let p = (\<lambda>a. agent_id a = aid \<and> \<not> agent_archived a) in
      bindR (require (count_where p (t_agents d) \<noteq> 0) (NotFound ''agent'' aid)) (\<lambda>_.
      Inr (d\<lparr>t_agents := update_where p (\<lambda>a. a\<lparr>agent_archived := True\<rparr>) (t_agents d)\<rparr>)))"

definition apply_agent_event :: "JournalEntry \<Rightarrow> db \<Rightarrow> StoreError + db" where
  "apply_agent_event je d =
     (case je_payload je of
        JE_AgentCreated a r \<Rightarrow> apply_agent_created a r d
      | JE_AgentRevisionCreated r \<Rightarrow> apply_agent_revision r d
      | JE_AgentRenamed slug \<Rightarrow> apply_agent_renamed (js_id (je_subject je)) slug d
      | JE_AgentArchived \<Rightarrow> apply_agent_archived (js_id (je_subject je)) d
      | _ \<Rightarrow> Inr d)"

definition apply_agent_events :: "JournalEntry list \<Rightarrow> db \<Rightarrow> StoreError + db" where
  "apply_agent_events es d = foldR apply_agent_event es d"

section \<open>Commands\<close>

definition agent_result :: "CommandResult \<Rightarrow> Agent option" where
  "agent_result r = (case r of CR_Agent a \<Rightarrow> Some a | _ \<Rightarrow> None)"

definition unit_result :: "CommandResult \<Rightarrow> unit option" where
  "unit_result r = (case r of CR_Unit \<Rightarrow> Some () | _ \<Rightarrow> None)"

definition created_result :: "CommandResult \<Rightarrow> (Agent \<times> AgentRevision) option" where
  "created_result r = (case r of CR_AgentCreated a v \<Rightarrow> Some (a, v) | _ \<Rightarrow> None)"

definition revision_result :: "CommandResult \<Rightarrow> AgentRevision option" where
  "revision_result r = (case r of CR_AgentRevision v \<Rightarrow> Some v | _ \<Rightarrow> None)"

definition decide_create_agent ::
    "ext \<Rightarrow> string \<Rightarrow> string \<Rightarrow> string \<Rightarrow> HostId \<Rightarrow> db
      \<Rightarrow> StoreError + ((Agent \<times> AgentRevision) \<times> JournalSubjectAppend list) \<times> db" where
  "decide_create_agent X slug soul config_toml author d =
     (let (now, d1) = utc_now X d; (aid, d2) = new_id X AgentIdK d1;
          a = \<lparr>agent_id = aid, agent_slug = slug, agent_current_revision = 1,
               agent_archived = False, agent_created_at = now\<rparr>;
          r = revision X aid 1 soul config_toml author now;
          (s, d3) = one_event X ST_Agent aid (host_actor author) (JE_AgentCreated a r) d2
      in Inr (((a, r), [s]), d3))"

definition create_agent ::
    "ext \<Rightarrow> CommandContext \<Rightarrow> string \<Rightarrow> string \<Rightarrow> string \<Rightarrow> HostId \<Rightarrow> db
      \<Rightarrow> StoreError + (Agent \<times> AgentRevision) \<times> db" where
  "create_agent X c slug soul config_toml author d =
     bindR (validate_slug slug) (\<lambda>_.
     bindR (validate_definition X soul config_toml) (\<lambda>_.
     bindR (transact_command X c ''create_agent''
              (command_request_hash X (RQ_CreateAgent slug soul config_toml author))
              (\<lambda>(a, r). CR_AgentCreated a r) created_result
              (decide_create_agent X slug soul config_toml author) apply_agent_events d)
       (\<lambda>((t, _), d1). Inr (t, d1))))"

definition decide_rename_agent ::
    "ext \<Rightarrow> string \<Rightarrow> string \<Rightarrow> db \<Rightarrow> StoreError + (Agent \<times> JournalSubjectAppend list) \<times> db" where
  "decide_rename_agent X slug new_slug d =
     bindR (select_agent_by_slug X slug d) (\<lambda>a.
     let (s, d1) = one_event X ST_Agent (agent_id a) actor_system (JE_AgentRenamed new_slug) d
     in Inr ((a\<lparr>agent_slug := new_slug\<rparr>, [s]), d1))"

definition rename_agent_with_command ::
    "ext \<Rightarrow> CommandContext \<Rightarrow> string \<Rightarrow> string \<Rightarrow> string \<Rightarrow> db \<Rightarrow> StoreError + Agent \<times> db" where
  "rename_agent_with_command X c command slug new_slug d =
     bindR (validate_slug new_slug) (\<lambda>_.
     bindR (transact_command X c command (command_request_hash X (RQ_RenameAgent slug new_slug))
              CR_Agent agent_result (decide_rename_agent X slug new_slug) apply_agent_events d)
       (\<lambda>((t, _), d1). Inr (t, d1)))"

definition rename_agent ::
    "ext \<Rightarrow> CommandContext \<Rightarrow> string \<Rightarrow> string \<Rightarrow> db \<Rightarrow> StoreError + Agent \<times> db" where
  "rename_agent X c slug new_slug d = rename_agent_with_command X c ''rename_agent'' slug new_slug d"

definition rollback_agent_rename ::
    "ext \<Rightarrow> CommandContext \<Rightarrow> string \<Rightarrow> string \<Rightarrow> db \<Rightarrow> StoreError + Agent \<times> db" where
  "rollback_agent_rename X c slug new_slug d =
     rename_agent_with_command X c ''rollback_agent_rename'' slug new_slug d"

definition decide_archive_agent ::
    "ext \<Rightarrow> string \<Rightarrow> db \<Rightarrow> StoreError + (unit \<times> JournalSubjectAppend list) \<times> db" where
  "decide_archive_agent X slug d =
     bindR (select_agent_by_slug X slug d) (\<lambda>a.
     let (s, d1) = one_event X ST_Agent (agent_id a) actor_system JE_AgentArchived d
     in Inr (((), [s]), d1))"

definition archive_agent :: "ext \<Rightarrow> CommandContext \<Rightarrow> string \<Rightarrow> db \<Rightarrow> StoreError + db" where
  "archive_agent X c slug d =
     bindR (transact_command X c ''archive_agent'' (command_request_hash X (RQ_ArchiveAgent slug))
              (\<lambda>_. CR_Unit) unit_result (decide_archive_agent X slug) apply_agent_events d)
       (\<lambda>(_, d1). Inr d1)"

definition decide_update_agent ::
    "ext \<Rightarrow> AgentId \<Rightarrow> nat \<Rightarrow> string \<Rightarrow> string \<Rightarrow> HostId \<Rightarrow> db
      \<Rightarrow> StoreError + (AgentRevision \<times> JournalSubjectAppend list) \<times> db" where
  "decide_update_agent X aid expected soul config_toml author d =
     bindR (okOr (NotFound ''agent'' aid)
       (find (\<lambda>a. agent_id a = aid \<and> \<not> agent_archived a) (t_agents d))) (\<lambda>a.
     let current = agent_current_revision a in
     bindR (require (current = expected) (RevisionConflict expected current)) (\<lambda>_.
     let (now, d1) = utc_now X d;
         r = revision X aid (current + 1) soul config_toml author now;
         (s, d2) = one_event X ST_Agent aid (host_actor author) (JE_AgentRevisionCreated r) d1
     in Inr ((r, [s]), d2)))"

definition update_agent ::
    "ext \<Rightarrow> CommandContext \<Rightarrow> AgentId \<Rightarrow> nat \<Rightarrow> string \<Rightarrow> string \<Rightarrow> HostId \<Rightarrow> db
      \<Rightarrow> StoreError + AgentRevision \<times> db" where
  "update_agent X c aid expected soul config_toml author d =
     bindR (validate_definition X soul config_toml) (\<lambda>_.
     bindR (transact_command X c ''update_agent''
              (command_request_hash X (RQ_UpdateAgent aid expected soul config_toml author))
              CR_AgentRevision revision_result
              (decide_update_agent X aid expected soul config_toml author) apply_agent_events d)
       (\<lambda>((t, _), d1). Inr (t, d1)))"

section \<open>The interface of a projection\<close>

text \<open>Which tables the catalog's projections may write.\<close>

definition log_eq :: "db \<Rightarrow> db \<Rightarrow> bool" where
  "log_eq d d' \<longleftrightarrow> t_journal d' = t_journal d \<and> journal_seq d' = journal_seq d
     \<and> t_receipts d' = t_receipts d"

lemma foldR_log:
  assumes "foldR f es d = Inr d'" and "\<And>e d d'. f e d = Inr d' \<Longrightarrow> log_eq d d'"
  shows "log_eq d d'"
  using assms(1) by (rule foldR_invariant [where P = "log_eq d"])
    (auto simp: log_eq_def dest!: assms(2))

lemma apply_agent_event_log: "apply_agent_event je d = Inr d' \<Longrightarrow> log_eq d d'"
  by (cases "je_payload je")
    (auto simp: apply_agent_event_def apply_agent_created_def insert_or_ignore_agent_def
      apply_agent_revision_def insert_agent_revision_def apply_agent_renamed_def
      apply_agent_archived_def log_eq_def Let_def result_simps split: if_splits)

interpretation agent_projection: projection apply_agent_events
proof unfold_locales
  fix es d d' assume "apply_agent_events es d = Inr d'"
  then have "log_eq d d'" unfolding apply_agent_events_def
    by (rule foldR_log) (rule apply_agent_event_log)
  then show "t_journal d' = t_journal d" "journal_seq d' = journal_seq d" "t_receipts d' = t_receipts d"
    by (simp_all add: log_eq_def)
qed

end
