(* ===== verification/Hosts.thy ===== *)
theory Hosts
  imports Agents
begin

text \<open>
  Hosts and their enrollment: \<open>crates/mews-store/src/hosts.rs\<close>. An invitation carries a
  one-time secret of which only the digest is stored; consuming it enrolls a Host.
\<close>

section \<open>Reading\<close>

definition host_from_row :: "ext \<Rightarrow> HostRow \<Rightarrow> StoreError + Host" where
  "host_from_row X r = bindR (parse_id X HostIdK (host_id (hr_host r))) (\<lambda>_. Inr (hr_host r))"

definition hosts :: "ext \<Rightarrow> db \<Rightarrow> StoreError + Host list" where
  "hosts X d = mapR (host_from_row X)
     (sort_key (\<lambda>r. host_name (hr_host r)) (filter (\<lambda>r. \<not> hr_revoked r) (t_hosts d)))"

definition live_host :: "HostId \<Rightarrow> db \<Rightarrow> bool" where
  "live_host h d = exists_where (\<lambda>r. host_id (hr_host r) = h \<and> \<not> hr_revoked r) (t_hosts d)"

definition host :: "HostId \<Rightarrow> db \<Rightarrow> StoreError + Host" where
  "host h d =
     bindR (okOr (NotFound ''Host'' h)
       (find (\<lambda>r. host_id (hr_host r) = h \<and> \<not> hr_revoked r) (t_hosts d))) (\<lambda>r. Inr (hr_host r))"

section \<open>The projection\<close>

text \<open>
  The comparison with a missing installation row is NULL, which no row satisfies.
\<close>

definition apply_host_revoked :: "HostId \<Rightarrow> db \<Rightarrow> StoreError + db" where
  "apply_host_revoked h d =
     (let p = (\<lambda>r. host_id (hr_host r) = h \<and> \<not> hr_revoked r
                  \<and> (case t_installation d of None \<Rightarrow> False
                      | Some i \<Rightarrow> host_id (hr_host r) \<noteq> ins_hub_host_id i)) in
      bindR (require (count_where p (t_hosts d) \<noteq> 0) (NotFound ''Host'' h)) (\<lambda>_.
      Inr (d\<lparr>t_hosts := update_where p (\<lambda>r. r\<lparr>hr_revoked := True\<rparr>) (t_hosts d)\<rparr>)))"

definition apply_invitation_consumed :: "InvitationId \<Rightarrow> DateTime \<Rightarrow> db \<Rightarrow> StoreError + db" where
  "apply_invitation_consumed i at d =
     (let p = (\<lambda>r. iv_id r = i \<and> iv_consumed_at r = None) in
      bindR (require (count_where p (t_invitations d) = 1)
        (InvalidData ''invitation was concurrently consumed'')) (\<lambda>_.
      Inr (d\<lparr>t_invitations := update_where p (\<lambda>r. r\<lparr>iv_consumed_at := Some at\<rparr>)
              (t_invitations d)\<rparr>)))"

definition apply_host_event :: "JournalEntry \<Rightarrow> db \<Rightarrow> StoreError + db" where
  "apply_host_event je d =
     (case je_payload je of
        JE_HostEnrolled h \<Rightarrow> insert_host \<lparr>hr_host = h, hr_revoked = False\<rparr> d
      | JE_HostRevoked h \<Rightarrow> apply_host_revoked h d
      | JE_HostInvitationCreated i expires verifier \<Rightarrow>
          insert_invitation \<lparr>iv_id = i, iv_secret_hash = verifier, iv_expires_at = expires,
                             iv_consumed_at = None\<rparr> d
      | JE_HostInvitationConsumed i h \<Rightarrow> apply_invitation_consumed i (je_recorded_at je) d
      | _ \<Rightarrow> Inr d)"

definition apply_host_events :: "JournalEntry list \<Rightarrow> db \<Rightarrow> StoreError + db" where
  "apply_host_events es d = foldR apply_host_event es d"

section \<open>Commands\<close>

definition host_result :: "CommandResult \<Rightarrow> Host option" where
  "host_result r = (case r of CR_Host h \<Rightarrow> Some h | _ \<Rightarrow> None)"

definition decide_revoke_host ::
    "ext \<Rightarrow> HostId \<Rightarrow> db \<Rightarrow> StoreError + (unit \<times> JournalSubjectAppend list) \<times> db" where
  "decide_revoke_host X h d =
     bindR (required_installation X d) (\<lambda>i.
     bindR (require (ins_hub_host_id i \<noteq> h)
       (InvalidData ''cannot remove the Host currently running Hub'')) (\<lambda>_.
     bindR (require (live_host h d) (NotFound ''Host'' h)) (\<lambda>_.
     let (s, d1) = one_event X ST_Host h actor_system (JE_HostRevoked h) d
     in Inr (((), [s]), d1))))"

definition revoke_host :: "ext \<Rightarrow> CommandContext \<Rightarrow> HostId \<Rightarrow> db \<Rightarrow> StoreError + db" where
  "revoke_host X c h d =
     bindR (transact_command X c ''revoke_host'' (command_request_hash X (RQ_RevokeHost h))
              (\<lambda>_. CR_Unit) unit_result (decide_revoke_host X h) apply_host_events d)
       (\<lambda>(_, d1). Inr d1)"

definition new_secret :: "ext \<Rightarrow> db \<Rightarrow> string \<times> db" where
  "new_secret X d = (x_secret X (ticks d), d\<lparr>ticks := Suc (ticks d)\<rparr>)"

definition create_invitation ::
    "ext \<Rightarrow> CommandContext \<Rightarrow> DateTime \<Rightarrow> db \<Rightarrow> StoreError + (InvitationId \<times> string) \<times> db" where
  "create_invitation X c expires d =
     (let (rid, d1) = new_id X RequestIdK d;
          cid = context_operation_id c ''create_invitation'' @ '':'' @ rid;
          (now, d2) = utc_now X d1
      in bindR (require (now < expires) (InvalidData ''invitation expiry must be in the future'')) (\<lambda>_.
         let (iid, d3) = new_id X InvitationIdK d2;
             (secret, d4) = new_secret X d3
         in bindR (required_installation X d4) (\<lambda>i.
            let (s, d5) = one_event X ST_Installation (ins_id i) actor_system
                            (JE_HostInvitationCreated iid expires (secret_hash X secret)) d4;
                a = decorate c \<lparr>ja_command_id = cid,
                       ja_request_hash = command_request_hash X (RQ_CreateInvitation expires),
                       ja_result = CR_Invitation iid, ja_subjects = [s]\<rparr>
            in bindR (append_journal_entries_in X a apply_host_events d5) (\<lambda>(_, d6).
               Inr ((iid, secret), d6)))))"

definition decide_consume_invitation ::
    "ext \<Rightarrow> InvitationId \<Rightarrow> string \<Rightarrow> string \<Rightarrow> string \<Rightarrow> string \<Rightarrow> string \<Rightarrow> db
      \<Rightarrow> StoreError + (Host \<times> JournalSubjectAppend list) \<times> db" where
  "decide_consume_invitation X iid secret name public_key noise_public_key relay_url d =
     bindR (okOr (NotFound ''invitation'' iid) (find (\<lambda>r. iv_id r = iid) (t_invitations d))) (\<lambda>inv.
     let (now, d1) = utc_now X d in
     bindR (require (\<not> (iv_consumed_at inv \<noteq> None \<or> iv_expires_at inv \<le> now
                        \<or> iv_secret_hash inv \<noteq> secret_hash X secret))
       (InvalidData ''invitation is invalid, expired, or already used'')) (\<lambda>_.
     let (hid, d2) = new_id X HostIdK d1;
         (at, d3) = utc_now X d2;
         h = \<lparr>host_id = hid, host_name = name, host_public_key = public_key,
              host_noise_public_key = noise_public_key, host_relay_url = Some relay_url,
              host_created_at = at\<rparr>
     in bindR (required_installation X d3) (\<lambda>i.
        let (s1, d4) = one_event X ST_Installation (ins_id i) actor_system
                         (JE_HostInvitationConsumed iid hid) d3;
            (s2, d5) = one_event X ST_Host hid actor_system (JE_HostEnrolled h) d4
        in Inr ((h, [s1, s2]), d5))))"

definition consume_invitation ::
    "ext \<Rightarrow> CommandContext \<Rightarrow> InvitationId \<Rightarrow> string \<Rightarrow> string \<Rightarrow> string \<Rightarrow> string \<Rightarrow> string \<Rightarrow> db
      \<Rightarrow> StoreError + Host \<times> db" where
  "consume_invitation X c iid secret name public_key noise_public_key relay_url d =
     bindR (validate_name ''Host name'' name) (\<lambda>_.
     bindR (transact_command X c ''consume_invitation''
              (command_request_hash X (RQ_ConsumeInvitation iid (secret_hash X secret) name
                 public_key noise_public_key relay_url))
              CR_Host host_result
              (decide_consume_invitation X iid secret name public_key noise_public_key relay_url)
              apply_host_events d)
       (\<lambda>((h, _), d1). Inr (h, d1)))"

section \<open>The interface of a projection\<close>

lemma apply_host_event_log: "apply_host_event je d = Inr d' \<Longrightarrow> log_eq d d'"
  by (cases "je_payload je")
    (auto simp: apply_host_event_def insert_host_def apply_host_revoked_def insert_invitation_def
      apply_invitation_consumed_def log_eq_def Let_def result_simps)

interpretation host_projection: projection apply_host_events
proof unfold_locales
  fix es d d' assume "apply_host_events es d = Inr d'"
  then have "log_eq d d'" unfolding apply_host_events_def
    by (rule foldR_log) (rule apply_host_event_log)
  then show "t_journal d' = t_journal d" "journal_seq d' = journal_seq d" "t_receipts d' = t_receipts d"
    by (simp_all add: log_eq_def)
qed

end
