(* ===== verification/Installations.thy ===== *)
theory Installations
  imports Hosts
begin

text \<open>
  The installation: \<open>crates/mews-store/src/installation.rs\<close>. One row names the Host that
  runs the Hub and its generation; moving the Hub is fenced by the expected Host.
\<close>

section \<open>Settings\<close>

fun reasoning_as_str :: "ReasoningEffort \<Rightarrow> string" where
  "reasoning_as_str RE_None = ''none''"
| "reasoning_as_str RE_Auto = ''auto''"
| "reasoning_as_str RE_Minimal = ''minimal''"
| "reasoning_as_str RE_Low = ''low''"
| "reasoning_as_str RE_Medium = ''medium''"
| "reasoning_as_str RE_High = ''high''"
| "reasoning_as_str RE_XHigh = ''x_high''"
| "reasoning_as_str RE_Max = ''max''"

text \<open>\<open>serde_json\<close> of a unit variant: its snake-case name in quotes, the only form stored.\<close>

definition reasoning_json :: "ReasoningEffort \<Rightarrow> string" where
  "reasoning_json r = [CHR 0x22] @ reasoning_as_str r @ [CHR 0x22]"

definition all_reasoning :: "ReasoningEffort list" where
  "all_reasoning = [RE_None, RE_Auto, RE_Minimal, RE_Low, RE_Medium, RE_High, RE_XHigh, RE_Max]"

definition parse_reasoning :: "ext \<Rightarrow> string \<Rightarrow> StoreError + ReasoningEffort" where
  "parse_reasoning X s =
     okOr (InvalidData (x_json_error X s)) (find (\<lambda>r. reasoning_json r = s) all_reasoning)"

definition setting :: "string \<Rightarrow> db \<Rightarrow> string option" where
  "setting key d = map_of (t_settings d) key"

definition put_setting :: "string \<Rightarrow> string option \<Rightarrow> db \<Rightarrow> db" where
  "put_setting key v d =
     (case v of
        None \<Rightarrow> d\<lparr>t_settings := filter (\<lambda>kv. fst kv \<noteq> key) (t_settings d)\<rparr>
      | Some s \<Rightarrow>
          if exists_where (\<lambda>kv. fst kv = key) (t_settings d)
          then d\<lparr>t_settings := update_where (\<lambda>kv. fst kv = key) (\<lambda>kv. (fst kv, s)) (t_settings d)\<rparr>
          else d\<lparr>t_settings := t_settings d @ [(key, s)]\<rparr>)"

definition stored_reasoning :: "ext \<Rightarrow> db \<Rightarrow> StoreError + ReasoningEffort option" where
  "stored_reasoning X d =
     (case setting ''default_reasoning'' d of
        None \<Rightarrow> Inr None
      | Some s \<Rightarrow> bindR (parse_reasoning X s) (\<lambda>r. Inr (Some r)))"

definition provider_defaults :: "ext \<Rightarrow> db \<Rightarrow> StoreError + ProviderDefaults" where
  "provider_defaults X d =
     bindR (stored_reasoning X d) (\<lambda>r.
     Inr \<lparr>pd_model = setting ''default_model'' d, pd_reasoning = r\<rparr>)"

section \<open>The projection\<close>

definition apply_relay_changed :: "string option \<Rightarrow> HostId option \<Rightarrow> db \<Rightarrow> db" where
  "apply_relay_changed url h d =
     (let d1 = d\<lparr>t_installation := map_option (\<lambda>i. i\<lparr>ins_relay_url := url\<rparr>) (t_installation d)\<rparr>
      in case h of
           None \<Rightarrow> d1
         | Some hid \<Rightarrow> d1\<lparr>t_hosts := update_where (\<lambda>r. host_id (hr_host r) = hid)
             (\<lambda>r. r\<lparr>hr_host := (hr_host r)\<lparr>host_relay_url := url\<rparr>\<rparr>) (t_hosts d1)\<rparr>)"

definition apply_provider_defaults :: "ProviderDefaults \<Rightarrow> db \<Rightarrow> db" where
  "apply_provider_defaults p d =
     put_setting ''default_reasoning'' (map_option reasoning_json (pd_reasoning p))
       (put_setting ''default_model'' (pd_model p) d)"

definition apply_hub_changed :: "HostId \<Rightarrow> nat \<Rightarrow> db \<Rightarrow> StoreError + db" where
  "apply_hub_changed h generation d =
     (case t_installation d of
        None \<Rightarrow> Inr d
      | Some i \<Rightarrow>
          bindR (constrain (has_host h d)) (\<lambda>_.
          Inr (d\<lparr>t_installation := Some (i\<lparr>ins_hub_host_id := h, ins_generation := generation\<rparr>)\<rparr>)))"

definition apply_installation_event :: "JournalEntry \<Rightarrow> db \<Rightarrow> StoreError + db" where
  "apply_installation_event je d =
     (case je_payload je of
        JE_InstallationCreated i \<Rightarrow> insert_installation i d
      | JE_RelayChanged url h \<Rightarrow> Inr (apply_relay_changed url h d)
      | JE_ProviderDefaultsChanged p \<Rightarrow> Inr (apply_provider_defaults p d)
      | JE_HubChanged h generation \<Rightarrow> apply_hub_changed h generation d
      | _ \<Rightarrow> Inr d)"

definition apply_installation_events :: "JournalEntry list \<Rightarrow> db \<Rightarrow> StoreError + db" where
  "apply_installation_events es d = foldR apply_installation_event es d"

section \<open>Commands\<close>

definition apply_initial_events :: "JournalEntry list \<Rightarrow> db \<Rightarrow> StoreError + db" where
  "apply_initial_events es d = bindR (apply_host_events es d) (apply_installation_events es)"

definition initialize ::
    "ext \<Rightarrow> CommandContext \<Rightarrow> string \<Rightarrow> string \<Rightarrow> string \<Rightarrow> string \<Rightarrow> db
      \<Rightarrow> StoreError + Installation \<times> db" where
  "initialize X c name public_key noise_public_key installation_key d =
     bindR (validate_name ''Host name'' name) (\<lambda>_.
     bindR (installation X d) (\<lambda>existing.
     case existing of
       Some i \<Rightarrow> Inr (i, d)
     | None \<Rightarrow>
         (let (now, d1) = utc_now X d;
              (hid, d2) = new_id X HostIdK d1;
              h = \<lparr>host_id = hid, host_name = name, host_public_key = public_key,
                   host_noise_public_key = noise_public_key, host_relay_url = None,
                   host_created_at = now\<rparr>;
              (iid, d3) = new_id X InstallationIdK d2;
              i = \<lparr>ins_id = iid, ins_public_key = installation_key, ins_relay_url = None,
                   ins_hub_host_id = hid, ins_generation = 1, ins_created_at = now\<rparr>;
              (s1, d4) = one_event X ST_Host hid actor_system (JE_HostEnrolled h) d3;
              (s2, d5) = one_event X ST_Installation iid actor_system (JE_InstallationCreated i) d4;
              a = decorate c \<lparr>ja_command_id = context_operation_id c ''initialize'',
                     ja_request_hash = command_request_hash X
                       (RQ_Initialize name public_key noise_public_key installation_key),
                     ja_result = CR_Installation i, ja_subjects = [s1, s2]\<rparr>
          in bindR (append_journal_entries_in X a apply_initial_events d5) (\<lambda>(_, d6). Inr (i, d6)))))"

definition append_installation_event ::
    "ext \<Rightarrow> CommandContext \<Rightarrow> string \<Rightarrow> Request \<Rightarrow> JournalEvent \<Rightarrow> db \<Rightarrow> StoreError + db" where
  "append_installation_event X c command request payload d =
     bindR (required_installation X d) (\<lambda>i.
     let (s, d1) = one_event X ST_Installation (ins_id i) actor_system payload d;
         a = decorate c \<lparr>ja_command_id = context_operation_id c command,
                ja_request_hash = command_request_hash X request,
                ja_result = CR_Unit, ja_subjects = [s]\<rparr>
     in bindR (append_journal_entries_in X a apply_installation_events d1) (\<lambda>(_, d2). Inr d2))"

definition set_relay_url :: "ext \<Rightarrow> CommandContext \<Rightarrow> string \<Rightarrow> db \<Rightarrow> StoreError + db" where
  "set_relay_url X c url d =
     bindR (required_installation X d) (\<lambda>i.
     append_installation_event X c ''set_relay_url'' (RQ_RelayUrl url)
       (JE_RelayChanged (Some url) (Some (ins_hub_host_id i))) d)"

definition set_installation_relay_url :: "ext \<Rightarrow> CommandContext \<Rightarrow> string \<Rightarrow> db \<Rightarrow> StoreError + db" where
  "set_installation_relay_url X c url d =
     append_installation_event X c ''set_installation_relay_url'' (RQ_RelayUrl url)
       (JE_RelayChanged (Some url) None) d"

definition decide_defaults ::
    "ext \<Rightarrow> (db \<Rightarrow> StoreError + ProviderDefaults) \<Rightarrow> db
      \<Rightarrow> StoreError + (unit \<times> JournalSubjectAppend list) \<times> db" where
  "decide_defaults X defaults d =
     bindR (required_installation X d) (\<lambda>i.
     bindR (defaults d) (\<lambda>p.
     let (s, d1) = one_event X ST_Installation (ins_id i) actor_system
                     (JE_ProviderDefaultsChanged p) d
     in Inr (((), [s]), d1)))"

definition set_default_model :: "ext \<Rightarrow> CommandContext \<Rightarrow> string \<Rightarrow> db \<Rightarrow> StoreError + db" where
  "set_default_model X c model d =
     bindR (transact_command X c ''set_default_model'' (command_request_hash X (RQ_Model model))
              (\<lambda>_. CR_Unit) unit_result
              (decide_defaults X (\<lambda>d. bindR (stored_reasoning X d)
                 (\<lambda>r. Inr \<lparr>pd_model = Some model, pd_reasoning = r\<rparr>)))
              apply_installation_events d)
       (\<lambda>(_, d1). Inr d1)"

definition set_default_reasoning ::
    "ext \<Rightarrow> CommandContext \<Rightarrow> ReasoningEffort option \<Rightarrow> db \<Rightarrow> StoreError + db" where
  "set_default_reasoning X c reasoning d =
     bindR (transact_command X c ''set_default_reasoning''
              (command_request_hash X (RQ_Reasoning reasoning))
              (\<lambda>_. CR_Unit) unit_result
              (decide_defaults X (\<lambda>d. Inr \<lparr>pd_model = setting ''default_model'' d,
                                          pd_reasoning = reasoning\<rparr>))
              apply_installation_events d)
       (\<lambda>(_, d1). Inr d1)"

definition active_turn_count :: "db \<Rightarrow> nat" where
  "active_turn_count d = count_where is_active (t_turns d)"

definition installation_result :: "CommandResult \<Rightarrow> Installation option" where
  "installation_result r = (case r of CR_Installation i \<Rightarrow> Some i | _ \<Rightarrow> None)"

definition decide_move_hub ::
    "ext \<Rightarrow> HostId \<Rightarrow> HostId \<Rightarrow> db
      \<Rightarrow> StoreError + (Installation \<times> JournalSubjectAppend list) \<times> db" where
  "decide_move_hub X expected target d =
     bindR (require (live_host target d) (NotFound ''Host'' target)) (\<lambda>_.
     bindR (required_installation X d) (\<lambda>i.
     bindR (require (ins_hub_host_id i = expected)
       (InvalidData ''Hub generation changed concurrently'')) (\<lambda>_.
     let i' = i\<lparr>ins_hub_host_id := target, ins_generation := ins_generation i + 1\<rparr>;
         (s, d1) = one_event X ST_Installation (ins_id i') actor_system
                     (JE_HubChanged target (ins_generation i')) d
     in Inr ((i', [s]), d1))))"

definition move_hub ::
    "ext \<Rightarrow> CommandContext \<Rightarrow> HostId \<Rightarrow> HostId \<Rightarrow> db \<Rightarrow> StoreError + Installation \<times> db" where
  "move_hub X c expected target d =
     bindR (transact_command X c ''move_hub'' (command_request_hash X (RQ_MoveHub expected target))
              CR_Installation installation_result (decide_move_hub X expected target)
              apply_installation_events d)
       (\<lambda>((i, _), d1). Inr (i, d1))"

section \<open>The interfaces\<close>

lemma reasoning_json_inj: "reasoning_json r = reasoning_json s \<longleftrightarrow> r = s"
  by (cases r; cases s) (simp_all add: reasoning_json_def)

interpretation reasoning_name: stable_name reasoning_json
  "\<lambda>s. okOr ''unknown'' (find (\<lambda>r. reasoning_json r = s) all_reasoning)"
proof unfold_locales
  show "okOr ''unknown'' (find (\<lambda>r. reasoning_json r = reasoning_json x) all_reasoning) = Inr x" for x
    by (cases x) (simp_all add: all_reasoning_def reasoning_json_inj)
  show "okOr ''unknown'' (find (\<lambda>r. reasoning_json r = s) all_reasoning) = Inr x \<Longrightarrow> s = reasoning_json x"
    for s x by (auto simp: okOr_Inr dest: find_SomeD)
qed

lemma parse_reasoning_json [simp]: "parse_reasoning X (reasoning_json r) = Inr r"
  by (cases r) (simp_all add: parse_reasoning_def all_reasoning_def reasoning_json_inj)

lemma apply_installation_event_log: "apply_installation_event je d = Inr d' \<Longrightarrow> log_eq d d'"
  by (cases "je_payload je")
    (auto simp: apply_installation_event_def insert_installation_def apply_relay_changed_def
      apply_provider_defaults_def put_setting_def apply_hub_changed_def log_eq_def Let_def
      result_simps split: option.splits if_splits)

lemma apply_installation_events_log:
  assumes "apply_installation_events es d = Inr d'"
  shows "log_eq d d'"
  using assms unfolding apply_installation_events_def
  by (rule foldR_log) (rule apply_installation_event_log)

interpretation installation_projection: projection apply_installation_events
proof unfold_locales
  fix es d d' assume "apply_installation_events es d = Inr d'"
  then have "log_eq d d'" by (rule apply_installation_events_log)
  then show "t_journal d' = t_journal d" "journal_seq d' = journal_seq d" "t_receipts d' = t_receipts d"
    by (simp_all add: log_eq_def)
qed

interpretation initial_projection: projection apply_initial_events
proof unfold_locales
  fix es d d' assume "apply_initial_events es d = Inr d'"
  then obtain d1 where "apply_host_events es d = Inr d1" "apply_installation_events es d1 = Inr d'"
    by (auto simp: apply_initial_events_def bindR_eq_Inr)
  then have "log_eq d d1" "log_eq d1 d'"
    by (auto simp: log_eq_def host_projection.mutate_journal host_projection.mutate_seq
        host_projection.mutate_receipts dest!: apply_installation_events_log)
  then show "t_journal d' = t_journal d" "journal_seq d' = journal_seq d" "t_receipts d' = t_receipts d"
    by (simp_all add: log_eq_def)
qed

end
