(* ===== verification/Delivery.thy ===== *)
theory Delivery
  imports Journal
begin

text \<open>
  The client event feed: \<open>crates/mews-store/src/delivery.rs\<close>. Durable events are projected
  from journal entries, live signals are transient rows of the same table; consumers
  subscribe to Sessions, read pages after their cursor, acknowledge checkpoints, and
  pruning drops what nobody waits for. The observation appends of the file are in theory
  SessionOps, beside the Session operations they call.

  Instants count milliseconds, the resolution of SQLite's \<open>julianday\<close>.
\<close>

definition max_session_page_payload_bytes :: nat where
  "max_session_page_payload_bytes = 1024 * 1024 - 256 * 1024"

definition max_event_page_payload_bytes :: nat where
  "max_event_page_payload_bytes = max_session_page_payload_bytes"

definition ephemeral_consumer_lease_ms :: nat where
  "ephemeral_consumer_lease_ms = 120 * 1000"

section \<open>Writing events\<close>

fun runtime_payload_from_client :: "ClientEventKind \<Rightarrow> RuntimeSignalPayload option" where
  "runtime_payload_from_client (CE_AssistantDelta _ delta mid) = Some (RS_AssistantDelta delta mid)"
| "runtime_payload_from_client (CE_ReasoningDelta _ delta mid) = Some (RS_ReasoningDelta delta mid)"
| "runtime_payload_from_client (CE_ToolActivity _ activity) = Some (RS_ToolActivity activity)"
| "runtime_payload_from_client _ = None"

text \<open>\<open>channel_origin_json\<close>: the origin of the event's Turn, when the Turn exists and has one.\<close>

definition channel_origin_of :: "ClientEventKind \<Rightarrow> db \<Rightarrow> ChannelOrigin option" where
  "channel_origin_of kind d =
     (case client_event_turn_id kind of
        None \<Rightarrow> None
      | Some t \<Rightarrow> (case find (\<lambda>r. turn_id_of (tw_turn r) = t) (t_turns d) of
                     None \<Rightarrow> None
                   | Some r \<Rightarrow> tw_channel_origin r))"

definition validate_client_event ::
    "ext \<Rightarrow> SessionId \<Rightarrow> EventId \<Rightarrow> ClientEventKind \<Rightarrow> ChannelOrigin option \<Rightarrow> DateTime
      \<Rightarrow> StoreError + unit" where
  "validate_client_event X sid eid kind origin at =
     (let event = \<lparr>ce_id = eid, ce_sequence = 2 ^ 64 - 1, ce_session_id = sid,
                   ce_channel_origin = origin, ce_kind = kind, ce_created_at = at\<rparr>
      in require (x_event_bytes X event \<le> max_event_page_payload_bytes)
           (InvalidData ''client event exceeds the event page limit''))"

definition append_durable_client_event ::
    "ext \<Rightarrow> JournalEntry \<Rightarrow> MessageId option \<Rightarrow> ClientEventKind \<Rightarrow> db \<Rightarrow> StoreError + db" where
  "append_durable_client_event X je entry_id kind d =
     bindR (journal_session_id X je) (\<lambda>sid.
     let origin = channel_origin_of kind d in
     bindR (validate_client_event X sid (je_id je) kind origin (je_recorded_at je)) (\<lambda>_.
     insert_client_event
       \<lparr>cr_event = \<lparr>ce_id = je_id je, ce_sequence = 0, ce_session_id = sid,
                    ce_channel_origin = origin, ce_kind = kind,
                    ce_created_at = je_recorded_at je\<rparr>,
        cr_entry_id = entry_id, cr_journal_entry_id = Some (je_id je),
        cr_journal_position = Some (je_position je), cr_idempotency_key = None,
        cr_transient = False\<rparr> d))"

fun signal_kind :: "TurnId \<Rightarrow> RuntimeSignalPayload \<Rightarrow> ClientEventKind" where
  "signal_kind t (RS_AssistantDelta delta mid) = CE_AssistantDelta t delta mid"
| "signal_kind t (RS_ReasoningDelta delta mid) = CE_ReasoningDelta t delta mid"
| "signal_kind t (RS_ToolActivity activity) = CE_ToolActivity t activity"

definition append_runtime_signal_in ::
    "ext \<Rightarrow> RuntimeSignal \<Rightarrow> string option \<Rightarrow> db \<Rightarrow> StoreError + db" where
  "append_runtime_signal_in X sig key d =
     (let kind = signal_kind (rs_turn_id sig) (rs_payload sig);
          row = \<lparr>cr_event = \<lparr>ce_id = rs_id sig, ce_sequence = 0, ce_session_id = rs_session_id sig,
                             ce_channel_origin = rs_channel_origin sig, ce_kind = kind,
                             ce_created_at = rs_emitted_at sig\<rparr>,
                 cr_entry_id = None, cr_journal_entry_id = None, cr_journal_position = None,
                 cr_idempotency_key = key, cr_transient = True\<rparr>
      in bindR (validate_client_event X (rs_session_id sig) (rs_id sig) kind
                  (rs_channel_origin sig) (rs_emitted_at sig)) (\<lambda>_.
         case key of
           Some _ \<Rightarrow> insert_or_ignore_client_event row d
         | None \<Rightarrow> insert_client_event row d))"

section \<open>Pruning\<close>

text \<open>Some consumer subscribed to the Session has the property.\<close>

definition subscriber_with :: "(ConsumerRow \<Rightarrow> bool) \<Rightarrow> SessionId \<Rightarrow> db \<Rightarrow> bool" where
  "subscriber_with p sid d =
     list_ex (\<lambda>(c, s). s = sid \<and> list_ex (\<lambda>r. cn_id r = c \<and> p r) (t_consumers d))
       (t_subscriptions d)"

definition prunable :: "db \<Rightarrow> ClientEventRow \<Rightarrow> bool" where
  "prunable d e =
     (let sid = ce_session_id (cr_event e); sq = ce_sequence (cr_event e);
          pending = subscriber_with (\<lambda>r. cn_cursor r < sq) sid d;
          durable = subscriber_with (\<lambda>r. cn_kind r = Durable) sid d;
          durable_pending = subscriber_with (\<lambda>r. cn_kind r = Durable \<and> cn_cursor r < sq) sid d
      in (cr_transient e \<and> \<not> pending)
       \<or> (\<not> cr_transient e \<and> durable \<and> \<not> durable_pending)
       \<or> (\<not> cr_transient e \<and> \<not> durable \<and> \<not> pending))"

text \<open>Deleting consumers deletes their subscriptions (ON DELETE CASCADE).\<close>

definition delete_consumers :: "(ConsumerRow \<Rightarrow> bool) \<Rightarrow> db \<Rightarrow> db" where
  "delete_consumers p d =
     d\<lparr>t_consumers := filter (\<lambda>r. \<not> p r) (t_consumers d),
       t_subscriptions := filter (\<lambda>(c, s). \<not> exists_where (\<lambda>r. cn_id r = c \<and> p r) (t_consumers d))
         (t_subscriptions d)\<rparr>"

definition prune_client_events :: "ext \<Rightarrow> db \<Rightarrow> db" where
  "prune_client_events X d =
     (let (now, d1) = utc_now X d;
          d2 = delete_consumers (\<lambda>r. cn_kind r = Ephemeral
                 \<and> cn_last_seen_at r + ephemeral_consumer_lease_ms < now) d1
      in d2\<lparr>t_client_events := filter (\<lambda>e. \<not> prunable d2 e) (t_client_events d2)\<rparr>)"

section \<open>Signals\<close>

definition inactive_turn_error :: "SessionId \<Rightarrow> TurnId \<Rightarrow> StoreError" where
  "inactive_turn_error sid t =
     InvalidData (''Turn '' @ t @ '' is not active in Session '' @ sid)"

definition find_active_turn :: "SessionId \<Rightarrow> TurnId \<Rightarrow> db \<Rightarrow> TurnRow option" where
  "find_active_turn sid t d =
     find (\<lambda>r. turn_id_of (tw_turn r) = t \<and> turn_session_id (tw_turn r) = sid \<and> is_active r)
       (t_turns d)"

text \<open>A fresh signal of a Turn: its identifier is drawn first, then the clock is read.\<close>

definition new_signal ::
    "ext \<Rightarrow> SessionId \<Rightarrow> TurnId \<Rightarrow> ChannelOrigin option \<Rightarrow> RuntimeSignalPayload \<Rightarrow> db
      \<Rightarrow> RuntimeSignal \<times> db" where
  "new_signal X sid t origin payload d =
     (let (eid, d1) = new_id X EventIdK d; (now, d2) = utc_now X d1
      in (\<lparr>rs_id = eid, rs_session_id = sid, rs_turn_id = t, rs_channel_origin = origin,
           rs_emitted_at = now, rs_payload = payload\<rparr>, d2))"

definition signal_key_exists :: "SessionId \<Rightarrow> string option \<Rightarrow> db \<Rightarrow> bool" where
  "signal_key_exists sid key d =
     (key \<noteq> None \<and> exists_where (\<lambda>e. ce_session_id (cr_event e) = sid \<and> cr_idempotency_key e = key)
        (t_client_events d))"

definition emit_runtime_signal_with_key ::
    "ext \<Rightarrow> SessionId \<Rightarrow> TurnId \<Rightarrow> RuntimeSignalPayload \<Rightarrow> string option \<Rightarrow> db \<Rightarrow> StoreError + db" where
  "emit_runtime_signal_with_key X sid t payload key d =
     (if signal_key_exists sid key d then Inr d
      else
        bindR (okOr (inactive_turn_error sid t) (find_active_turn sid t d)) (\<lambda>row.
        let (sig, d1) = new_signal X sid t (tw_channel_origin row) payload d in
        bindR (append_runtime_signal_in X sig key d1) (\<lambda>d2. Inr (prune_client_events X d2))))"

definition emit_runtime_signal ::
    "ext \<Rightarrow> SessionId \<Rightarrow> TurnId \<Rightarrow> RuntimeSignalPayload \<Rightarrow> db \<Rightarrow> StoreError + db" where
  "emit_runtime_signal X sid t payload d = emit_runtime_signal_with_key X sid t payload None d"

definition append_runtime_signal :: "ext \<Rightarrow> RuntimeSignal \<Rightarrow> db \<Rightarrow> StoreError + db" where
  "append_runtime_signal X sig d =
     bindR (append_runtime_signal_in X sig None d) (\<lambda>d1. Inr (prune_client_events X d1))"

section \<open>Consumers\<close>

text \<open>\<open>Store::session\<close>: the row, whose identifiers are parsed again.\<close>

definition session_of_row :: "ext \<Rightarrow> Session \<Rightarrow> StoreError + Session" where
  "session_of_row X s =
     bindR (parse_id X AgentIdK (ses_agent_id s)) (\<lambda>_.
     bindR (parse_id X HostIdK (ses_host_id s)) (\<lambda>_.
     bindR (case ses_leaf_entry_id s of
              None \<Rightarrow> Inr None
            | Some m \<Rightarrow> bindR (parse_id X MessageIdK m) (\<lambda>m'. Inr (Some m'))) (\<lambda>_.
     Inr s)))"

definition session :: "ext \<Rightarrow> SessionId \<Rightarrow> db \<Rightarrow> StoreError + Session" where
  "session X sid d =
     bindR (okOr (NotFound ''session'' sid) (find (\<lambda>s. ses_id s = sid) (t_sessions d)))
       (session_of_row X)"

definition subscribe_session ::
    "ext \<Rightarrow> ConsumerId \<Rightarrow> SessionId \<Rightarrow> ConsumerKind \<Rightarrow> db \<Rightarrow> StoreError + db" where
  "subscribe_session X c sid kind d =
     bindR (session X sid d) (\<lambda>_.
     let (now, d1) = utc_now X d;
         add = (\<lambda>d. if (c, sid) \<in> set (t_subscriptions d) then d
                    else d\<lparr>t_subscriptions := t_subscriptions d @ [(c, sid)]\<rparr>)
     in if has_consumer c d1
        then bindR (require (exists_where (\<lambda>r. cn_id r = c \<and> cn_kind r = kind) (t_consumers d1))
               (InvalidData ''an event consumer cannot change durability'')) (\<lambda>_.
             Inr (add (d1\<lparr>t_consumers := update_where (\<lambda>r. cn_id r = c)
               (\<lambda>r. r\<lparr>cn_kind := kind, cn_last_seen_at := now\<rparr>) (t_consumers d1)\<rparr>)))
        else Inr (add (d1\<lparr>t_consumers := t_consumers d1 @
               [\<lparr>cn_id = c, cn_cursor = max_of (\<lambda>e. ce_sequence (cr_event e)) (t_client_events d1),
                 cn_kind = kind, cn_created_at = now, cn_last_seen_at = now\<rparr>]\<rparr>)))"

definition delete_consumer :: "ext \<Rightarrow> ConsumerId \<Rightarrow> db \<Rightarrow> StoreError + db" where
  "delete_consumer X c d = Inr (prune_client_events X (delete_consumers (\<lambda>r. cn_id r = c) d))"

definition unsubscribe_session :: "ext \<Rightarrow> ConsumerId \<Rightarrow> SessionId \<Rightarrow> db \<Rightarrow> StoreError + db" where
  "unsubscribe_session X c sid d =
     Inr (prune_client_events X
       (d\<lparr>t_subscriptions := filter (\<lambda>s. s \<noteq> (c, sid)) (t_subscriptions d)\<rparr>))"

definition acknowledge_events :: "ext \<Rightarrow> ConsumerId \<Rightarrow> nat \<Rightarrow> db \<Rightarrow> StoreError + db" where
  "acknowledge_events X c checkpoint d =
     bindR (require (checkpoint \<le> client_seq d)
       (InvalidData ''event checkpoint is ahead of Hub'')) (\<lambda>_.
     let (now, d1) = utc_now X d in
     bindR (require (count_where (\<lambda>r. cn_id r = c) (t_consumers d1) = 1)
       (NotFound ''event consumer'' c)) (\<lambda>_.
     Inr (prune_client_events X (d1\<lparr>t_consumers := update_where (\<lambda>r. cn_id r = c)
       (\<lambda>r. r\<lparr>cn_cursor := max (cn_cursor r) checkpoint, cn_last_seen_at := now\<rparr>)
       (t_consumers d1)\<rparr>))))"

section \<open>Reading a page\<close>

definition event_from_row :: "ext \<Rightarrow> ClientEventRow \<Rightarrow> StoreError + ClientEvent" where
  "event_from_row X r =
     bindR (parse_id X EventIdK (ce_id (cr_event r))) (\<lambda>_.
     bindR (parse_id X SessionIdK (ce_session_id (cr_event r))) (\<lambda>_.
     Inr (cr_event r)))"

text \<open>The row loop: \<open>events\<close> and \<open>payload_bytes\<close> are its mutable variables.\<close>

fun collect_events ::
    "ext \<Rightarrow> ClientEventRow list \<Rightarrow> ClientEvent list \<Rightarrow> nat \<Rightarrow> StoreError + ClientEvent list" where
  "collect_events X [] events payload_bytes = Inr events"
| "collect_events X (r # rs) events payload_bytes =
     bindR (event_from_row X r) (\<lambda>event.
     let event_bytes = x_event_bytes X event in
     bindR (require (event_bytes \<le> max_event_page_payload_bytes)
       (InvalidData ''stored client event exceeds the event page limit'')) (\<lambda>_.
     if events \<noteq> [] \<and> max_event_page_payload_bytes < payload_bytes + event_bytes
     then Inr events
     else collect_events X rs (events @ [event]) (payload_bytes + event_bytes)))"

definition subscribed_rows :: "ConsumerId \<Rightarrow> nat \<Rightarrow> db \<Rightarrow> ClientEventRow list" where
  "subscribed_rows c cursor d =
     sort_key (\<lambda>e. ce_sequence (cr_event e))
       (filter (\<lambda>e. (c, ce_session_id (cr_event e)) \<in> set (t_subscriptions d)
                    \<and> cursor < ce_sequence (cr_event e)) (t_client_events d))"

text \<open>
  \<open>client_events\<close> is not one transaction: the read time of the consumer is kept whatever the
  page answers, so the result and the database are separate.
\<close>

definition client_events ::
    "ext \<Rightarrow> ConsumerId \<Rightarrow> nat \<Rightarrow> db \<Rightarrow> (StoreError + EventBatch) \<times> db" where
  "client_events X c limit d =
     (let (now, d1) = utc_now X d in
      case find (\<lambda>r. cn_id r = c) (t_consumers d1) of
        None \<Rightarrow> (Inl (NotFound ''event consumer'' c), d1)
      | Some consumer \<Rightarrow>
          let cursor = cn_cursor consumer;
              d2 = d1\<lparr>t_consumers := update_where (\<lambda>r. cn_id r = c)
                       (\<lambda>r. r\<lparr>cn_last_seen_at := now\<rparr>) (t_consumers d1)\<rparr>
          in (bindR (collect_events X (take limit (subscribed_rows c cursor d2)) [] 0) (\<lambda>events.
              let checkpoint = (if events = [] then cursor else ce_sequence (last events))
              in Inr \<lparr>eb_events = events, eb_checkpoint = checkpoint,
                      eb_advanced = (cursor < checkpoint)\<rparr>), d2))"

end
