(* ===== verification/SessionProj.thy ===== *)
theory SessionProj
  imports Delivery
begin

text \<open>
  The projection of Session journal entries: \<open>apply_session_journal_entry\<close> of
  \<open>crates/mews-store/src/sessions.rs\<close> and what it calls. One definition per match arm of the
  source (arms that only build a payload for a shared routine call it directly); the
  dispatching function comes last.
\<close>

definition max_session_item_bytes :: nat where
  "max_session_item_bytes = 700 * 1024"

definition validate_session_item :: "ext \<Rightarrow> SessionEntryPayload \<Rightarrow> StoreError + unit" where
  "validate_session_item X p =
     require (x_item_bytes X p \<le> max_session_item_bytes)
       (InvalidData ''session item exceeds the page-safe size limit'')"

section \<open>The contextual leaf and entry appends\<close>

definition parse_message_id :: "ext \<Rightarrow> MessageId option \<Rightarrow> StoreError + MessageId option" where
  "parse_message_id X m =
     (case m of None \<Rightarrow> Inr None
      | Some i \<Rightarrow> bindR (parse_id X MessageIdK i) (\<lambda>i'. Inr (Some i')))"

definition current_session_leaf :: "ext \<Rightarrow> SessionId \<Rightarrow> db \<Rightarrow> StoreError + MessageId option" where
  "current_session_leaf X sid d =
     bindR (okOr (Database QueryReturnedNoRows) (find (\<lambda>s. ses_id s = sid) (t_sessions d))) (\<lambda>s.
     parse_message_id X (ses_leaf_entry_id s))"

definition entry_rows :: "SessionId \<Rightarrow> db \<Rightarrow> EntryRow list" where
  "entry_rows sid d = filter (\<lambda>r. se_session_id (er_entry r) = sid) (t_entries d)"

definition next_sequence :: "SessionId \<Rightarrow> db \<Rightarrow> nat" where
  "next_sequence sid d = Suc (max_of (\<lambda>r. se_sequence (er_entry r)) (entry_rows sid d))"

definition set_leaf :: "SessionId \<Rightarrow> MessageId option \<Rightarrow> db \<Rightarrow> db" where
  "set_leaf sid leaf d =
     d\<lparr>t_sessions := update_where (\<lambda>s. ses_id s = sid) (\<lambda>s. s\<lparr>ses_leaf_entry_id := leaf\<rparr>)
         (t_sessions d)\<rparr>"

fun is_observation :: "SessionEntryPayload \<Rightarrow> bool" where
  "is_observation (SP_Reasoning _ _ _ _) = True"
| "is_observation (SP_HarnessObservation _ _ _ _) = True"
| "is_observation _ = False"

definition append_session_entry ::
    "ext \<Rightarrow> JournalEntry \<Rightarrow> MessageId \<Rightarrow> SessionEntryPayload \<Rightarrow> string \<Rightarrow> bool \<Rightarrow> db
      \<Rightarrow> StoreError + SessionEntry \<times> db" where
  "append_session_entry X je entry_id payload kind contextual d =
     bindR (journal_session_id X je) (\<lambda>sid.
     bindR (validate_session_item X payload) (\<lambda>_.
     bindR (current_session_leaf X sid d) (\<lambda>parent.
     let entry = \<lparr>se_id = entry_id, se_session_id = sid, se_sequence = next_sequence sid d,
                  se_parent_id = parent, se_payload = payload,
                  se_created_at = je_recorded_at je\<rparr>;
         key = (if is_observation payload then je_correlation_id je else None)
     in bindR (insert_session_entry \<lparr>er_entry = entry, er_kind = kind, er_contextual = contextual,
                                     er_observation_key = key\<rparr> d) (\<lambda>d1.
        Inr (entry, if contextual then set_leaf sid (Some entry_id) d1 else d1)))))"

definition message_id_for_event :: "ext \<Rightarrow> EventId \<Rightarrow> StoreError + MessageId" where
  "message_id_for_event X eid =
     bindR (okOr (InvalidData ''invalid event ID'') (strip_prefix_str ''evt_'' eid)) (\<lambda>uuid.
     parse_id X MessageIdK (''msg_'' @ uuid))"

definition message_source_for_event :: "JournalEntry \<Rightarrow> MessageSource" where
  "message_source_for_event je =
     \<lparr>ms_kind = (case ea_kind (je_actor je) of
          AK_Client \<Rightarrow> SK_Client
        | AK_Channel \<Rightarrow> SK_Channel
        | AK_Harness \<Rightarrow> SK_Harness
        | AK_Host \<Rightarrow> SK_Host
        | AK_System \<Rightarrow> SK_Host),
      ms_id = (case ea_id (je_actor je) of Some i \<Rightarrow> i | None \<Rightarrow> ''system''),
      ms_channel_origin = None\<rparr>"

text \<open>The message a client event carries of a Session entry.\<close>

definition entry_message ::
    "SessionId \<Rightarrow> SessionEntry \<Rightarrow> MessageRole \<Rightarrow> MessageContent \<Rightarrow> JournalEntry \<Rightarrow> Message" where
  "entry_message sid entry role content je =
     \<lparr>msg_id = se_id entry, msg_session_id = sid, msg_sequence = se_sequence entry,
      msg_role = role, msg_content = content, msg_metadata = VNull,
      msg_source = message_source_for_event je, msg_created_at = se_created_at entry\<rparr>"

section \<open>Turns and effects\<close>

definition validate_active_turn :: "SessionId \<Rightarrow> TurnId \<Rightarrow> db \<Rightarrow> StoreError + unit" where
  "validate_active_turn sid t d =
     require (exists_where (\<lambda>r. turn_id_of (tw_turn r) = t \<and> turn_session_id (tw_turn r) = sid
                                \<and> is_active r) (t_turns d))
       (inactive_turn_error sid t)"

definition terminal_kind :: "TurnStatus \<Rightarrow> string" where
  "terminal_kind st = (case st of
       Completed \<Rightarrow> ''turn_completed'' | Failed \<Rightarrow> ''turn_failed'' | Cancelled \<Rightarrow> ''turn_cancelled''
     | Running \<Rightarrow> '''' \<comment> \<open>\<open>unreachable!()\<close>: no arm passes it\<close>)"

definition project_turn_terminal ::
    "ext \<Rightarrow> JournalEntry \<Rightarrow> TurnId \<Rightarrow> TurnStatus \<Rightarrow> string option \<Rightarrow> SessionEntryPayload
      \<Rightarrow> ClientEventKind \<Rightarrow> db \<Rightarrow> StoreError + db" where
  "project_turn_terminal X je t status err payload client_kind d =
     (let p = (\<lambda>r. turn_id_of (tw_turn r) = t \<and> is_active r) in
      bindR (require (count_where p (t_turns d) = 1)
        (InvalidData (''Turn '' @ t @ '' is missing or already terminal''))) (\<lambda>_.
      let d1 = d\<lparr>t_turns := update_where p (\<lambda>r. r\<lparr>tw_turn := (tw_turn r)
                 \<lparr>turn_status := status, turn_error := err,
                  turn_completed_at := Some (je_recorded_at je)\<rparr>\<rparr>) (t_turns d)\<rparr> in
      bindR (message_id_for_event X (je_id je)) (\<lambda>entry_id.
      bindR (append_session_entry X je entry_id payload (terminal_kind status) False d1) (\<lambda>(_, d2).
      append_durable_client_event X je (Some entry_id) client_kind d2))))"

definition is_open_status :: "EffectStatus \<Rightarrow> bool" where
  "is_open_status s = (s = ES_Scheduled \<or> s = ES_Started)"

definition set_effect_terminal ::
    "ext \<Rightarrow> JournalEntry \<Rightarrow> OperationId \<Rightarrow> TurnId \<Rightarrow> EffectStatus \<Rightarrow> ToolResult option \<Rightarrow> db
      \<Rightarrow> StoreError + db" where
  "set_effect_terminal X je op t status raw d =
     bindR (journal_session_id X je) (\<lambda>sid.
     let p = (\<lambda>r. ef_operation_id r = op \<and> ef_session_id r = sid \<and> ef_turn_id r = t
                  \<and> is_open_status (ef_status r)) in
     bindR (require (count_where p (t_effects d) = 1)
       (InvalidData (''effect '' @ op @ '' is missing or already terminal''))) (\<lambda>_.
     Inr (d\<lparr>t_effects := update_where p (\<lambda>r. r\<lparr>ef_status := status,
               ef_terminal_entry := Some (je_id je), ef_completed_at := Some (je_recorded_at je),
               ef_raw_result := raw\<rparr>) (t_effects d)\<rparr>)))"

section \<open>The arms of the projection\<close>

definition apply_session_created :: "Session \<Rightarrow> db \<Rightarrow> StoreError + db" where
  "apply_session_created s d =
     insert_session (s\<lparr>ses_model_override := None, ses_leaf_entry_id := None\<rparr>) d"

definition apply_session_model_changed ::
    "SessionId \<Rightarrow> string option \<Rightarrow> db \<Rightarrow> StoreError + db" where
  "apply_session_model_changed sid model d =
     bindR (require (count_where (\<lambda>s. ses_id s = sid) (t_sessions d) = 1)
       (NotFound ''session'' sid)) (\<lambda>_.
     Inr (d\<lparr>t_sessions := update_where (\<lambda>s. ses_id s = sid)
              (\<lambda>s. s\<lparr>ses_model_override := model\<rparr>) (t_sessions d)\<rparr>))"

definition apply_session_leaf_changed ::
    "SessionId \<Rightarrow> MessageId option \<Rightarrow> db \<Rightarrow> StoreError + db" where
  "apply_session_leaf_changed sid leaf d =
     bindR (require (count_where (\<lambda>s. ses_id s = sid) (t_sessions d) = 1)
       (NotFound ''session'' sid)) (\<lambda>_.
     Inr (set_leaf sid leaf d))"

definition apply_turn_accepted ::
    "ext \<Rightarrow> JournalEntry \<Rightarrow> SessionId \<Rightarrow> TurnId \<Rightarrow> nat \<Rightarrow> MessageId \<Rightarrow> MessageContent \<Rightarrow> Value
      \<Rightarrow> MessageSource \<Rightarrow> db \<Rightarrow> StoreError + db" where
  "apply_turn_accepted X je sid t agent_revision entry_id content metadata source d =
     bindR (case find (\<lambda>r. turn_session_id (tw_turn r) = sid \<and> is_active r) (t_turns d) of
              Some r \<Rightarrow> Inl (ActiveTurnConflict sid (turn_id_of (tw_turn r)))
            | None \<Rightarrow> Inr ()) (\<lambda>_.
     bindR (current_session_leaf X sid d) (\<lambda>parent.
     let sq = next_sequence sid d; payload = SP_UserMessage content metadata source in
     bindR (validate_session_item X payload) (\<lambda>_.
     bindR (insert_session_entry
        \<lparr>er_entry = \<lparr>se_id = entry_id, se_session_id = sid, se_sequence = sq,
                     se_parent_id = parent, se_payload = payload,
                     se_created_at = je_recorded_at je\<rparr>,
         er_kind = ''user_message'', er_contextual = True, er_observation_key = None\<rparr> d) (\<lambda>d1.
     let d2 = set_leaf sid (Some entry_id) d1 in
     bindR (require (exists_where (\<lambda>s. ses_id s = sid
                       \<and> exists_where (\<lambda>r. rev_agent_id r = ses_agent_id s
                            \<and> rev_revision r = agent_revision) (t_agent_revisions d2)) (t_sessions d2))
       (InvalidData ''Turn Agent revision does not belong to its Session Agent'')) (\<lambda>_.
     insert_turn
       \<lparr>tw_turn = \<lparr>turn_id_of = t, turn_session_id = sid, turn_agent_revision = agent_revision,
                   turn_harness = None, turn_harness_definition_hash = None,
                   turn_harness_version = None, turn_status = Running, turn_error = None,
                   turn_created_at = je_recorded_at je, turn_completed_at = None\<rparr>,
        tw_idempotency_key = je_correlation_id je,
        tw_channel_origin = ms_channel_origin source\<rparr> d2)))))"

definition apply_turn_started ::
    "ext \<Rightarrow> JournalEntry \<Rightarrow> SessionId \<Rightarrow> TurnId \<Rightarrow> HarnessProvenance \<Rightarrow> db \<Rightarrow> StoreError + db" where
  "apply_turn_started X je sid t harness d =
     bindR (validate_active_turn sid t d) (\<lambda>_.
     let d1 = d\<lparr>t_turns := update_where (\<lambda>r. turn_id_of (tw_turn r) = t)
                (\<lambda>r. r\<lparr>tw_turn := (tw_turn r)\<lparr>turn_harness := Some (hp_name harness),
                   turn_harness_definition_hash := Some (hp_definition_hash harness),
                   turn_harness_version := hp_version harness\<rparr>\<rparr>) (t_turns d)\<rparr> in
     bindR (message_id_for_event X (je_id je)) (\<lambda>entry_id.
     bindR (append_session_entry X je entry_id (SP_TurnStarted t harness) ''turn_started'' False d1)
       (\<lambda>(_, d2).
     append_durable_client_event X je (Some entry_id) (CE_TurnStarted t) d2)))"

fun block_text :: "AssistantResponseBlock \<Rightarrow> string" where
  "block_text (AB_Text s) = s"
| "block_text _ = []"

definition response_text :: "AssistantResponse \<Rightarrow> string" where
  "response_text r = concat (map block_text (ar_blocks r))"

definition apply_assistant_response ::
    "ext \<Rightarrow> JournalEntry \<Rightarrow> SessionId \<Rightarrow> TurnId \<Rightarrow> MessageId \<Rightarrow> AssistantResponse \<Rightarrow> db
      \<Rightarrow> StoreError + db" where
  "apply_assistant_response X je sid t entry_id response d =
     bindR (append_session_entry X je entry_id (SP_AssistantResponse t response)
              ''assistant_response'' True d) (\<lambda>(entry, d1).
     let txt = response_text response in
     if txt = [] then Inr d1
     else append_durable_client_event X je (Some entry_id)
            (CE_AssistantMessage t (entry_message sid entry RoleAssistant (MC_Text txt) je)) d1)"

definition apply_tool_call_requested ::
    "ext \<Rightarrow> JournalEntry \<Rightarrow> SessionId \<Rightarrow> TurnId \<Rightarrow> MessageId \<Rightarrow> ToolCall \<Rightarrow> db \<Rightarrow> StoreError + db" where
  "apply_tool_call_requested X je sid t entry_id call d =
     bindR (append_session_entry X je entry_id (SP_ToolStarted t call) ''tool_started'' False d)
       (\<lambda>(entry, d1).
     append_durable_client_event X je (Some entry_id)
       (CE_ToolStarted t (entry_message sid entry RoleAssistant
          (MC_ToolCall (tc_call_id call) (tc_tool call) (tc_arguments call)
             (tc_thought_signature call)) je)) d1)"

definition apply_tool_result_recorded ::
    "ext \<Rightarrow> JournalEntry \<Rightarrow> SessionId \<Rightarrow> TurnId \<Rightarrow> MessageId \<Rightarrow> ToolResult \<Rightarrow> db \<Rightarrow> StoreError + db" where
  "apply_tool_result_recorded X je sid t entry_id result d =
     bindR (append_session_entry X je entry_id (SP_ToolResult t result) ''tool_result'' True d)
       (\<lambda>(entry, d1).
     append_durable_client_event X je (Some entry_id)
       (CE_ToolCompleted t (entry_message sid entry RoleTool
          (MC_ToolResult (tr_call_id result) (tr_tool result) (tr_result result)
             (tr_is_error result) (tr_uncertain result)) je)) d1)"

definition completion_status :: "ToolResult \<Rightarrow> EffectStatus" where
  "completion_status r =
     (if tr_uncertain r then ES_Uncertain else if tr_is_error r then ES_Failed else ES_Succeeded)"

definition apply_effect_scheduled ::
    "JournalEntry \<Rightarrow> SessionId \<Rightarrow> OperationId \<Rightarrow> TurnId \<Rightarrow> EffectRequest \<Rightarrow> db \<Rightarrow> StoreError + db" where
  "apply_effect_scheduled je sid op t effect d =
     (let (call_id, tool) = (case effect of
            ER_ToolCall call \<Rightarrow> (Some (tc_call_id call), Some (tc_tool call))
          | _ \<Rightarrow> (None, None))
      in insert_effect
           \<lparr>ef_operation_id = op, ef_session_id = sid, ef_turn_id = t, ef_call_id = call_id,
            ef_tool = tool, ef_request = effect, ef_status = ES_Scheduled, ef_raw_result = None,
            ef_scheduled_entry = je_id je, ef_terminal_entry = None,
            ef_scheduled_at = je_recorded_at je, ef_started_at = None, ef_completed_at = None\<rparr> d)"

definition apply_effect_started :: "JournalEntry \<Rightarrow> OperationId \<Rightarrow> db \<Rightarrow> StoreError + db" where
  "apply_effect_started je op d =
     (let p = (\<lambda>r. ef_operation_id r = op \<and> ef_status r = ES_Scheduled) in
      bindR (require (count_where p (t_effects d) = 1)
        (InvalidData (''effect '' @ op @ '' was not scheduled before it started''))) (\<lambda>_.
      Inr (d\<lparr>t_effects := update_where p (\<lambda>r. r\<lparr>ef_status := ES_Started,
                ef_started_at := Some (je_recorded_at je)\<rparr>) (t_effects d)\<rparr>)))"

definition apply_acp_context_dispatched ::
    "SessionId \<Rightarrow> HostId \<Rightarrow> string \<Rightarrow> nat \<Rightarrow> string \<Rightarrow> AcpInstructionChannel \<Rightarrow> db
      \<Rightarrow> StoreError + db" where
  "apply_acp_context_dispatched sid h harness version hash channel d =
     (let p = (\<lambda>b. ab_session_id b = sid \<and> ab_host_id b = h \<and> ab_harness b = harness
                   \<and> ab_context_version b = version \<and> ab_context_hash b = hash
                   \<and> ab_context_channel b = channel) in
      bindR (require (count_where p (t_acp_bindings d) = 1)
        (InvalidData ''ACP context dispatch does not match its binding'')) (\<lambda>_.
      Inr (d\<lparr>t_acp_bindings := update_where p (\<lambda>b. b\<lparr>ab_context_dispatched := True\<rparr>)
               (t_acp_bindings d)\<rparr>)))"

text \<open>An entry append that projects nothing else.\<close>

definition append_only ::
    "ext \<Rightarrow> JournalEntry \<Rightarrow> MessageId \<Rightarrow> SessionEntryPayload \<Rightarrow> string \<Rightarrow> bool \<Rightarrow> db
      \<Rightarrow> StoreError + db" where
  "append_only X je entry_id payload kind contextual d =
     bindR (append_session_entry X je entry_id payload kind contextual d) (\<lambda>(_, d1). Inr d1)"

definition apply_session_journal_entry :: "ext \<Rightarrow> JournalEntry \<Rightarrow> db \<Rightarrow> StoreError + db" where
  "apply_session_journal_entry X je d =
     bindR (journal_session_id X je) (\<lambda>sid.
     case je_payload je of
       JE_SessionCreated s \<Rightarrow> apply_session_created s d
     | JE_SessionModelChanged model \<Rightarrow> apply_session_model_changed sid model d
     | JE_UserMessageAppended eid content metadata source \<Rightarrow>
         append_only X je eid (SP_UserMessage content metadata source) ''user_message'' True d
     | JE_SessionLeafChanged leaf \<Rightarrow> apply_session_leaf_changed sid leaf d
     | JE_TurnAccepted t revision eid content metadata source \<Rightarrow>
         apply_turn_accepted X je sid t revision eid content metadata source d
     | JE_TurnStarted t harness \<Rightarrow> apply_turn_started X je sid t harness d
     | JE_AssistantResponseRecorded t eid response \<Rightarrow>
         apply_assistant_response X je sid t eid response d
     | JE_ToolCallRequested t eid call \<Rightarrow> apply_tool_call_requested X je sid t eid call d
     | JE_ToolResultRecorded t eid result \<Rightarrow> apply_tool_result_recorded X je sid t eid result d
     | JE_ToolExecutionCompleted op t result \<Rightarrow>
         set_effect_terminal X je op t (completion_status result) (Some result) d
     | JE_ReasoningRecorded t eid txt visibility provenance \<Rightarrow>
         append_only X je eid (SP_Reasoning t txt visibility provenance) ''reasoning'' False d
     | JE_HarnessObservationRecorded t eid hsid kind data \<Rightarrow>
         append_only X je eid (SP_HarnessObservation t hsid kind data)
           ''harness_observation'' False d
     | JE_ContextCompacted eid summary first_kept tokens \<Rightarrow>
         append_only X je eid (SP_ContextCompaction summary first_kept tokens)
           ''context_compaction'' True d
     | JE_EffectScheduled op t effect \<Rightarrow> apply_effect_scheduled je sid op t effect d
     | JE_EffectStarted op t \<Rightarrow> apply_effect_started je op d
     | JE_EffectSucceeded op t result \<Rightarrow> set_effect_terminal X je op t ES_Succeeded None d
     | JE_EffectFailed op t err \<Rightarrow> set_effect_terminal X je op t ES_Failed None d
     | JE_EffectUncertain op t reason \<Rightarrow> set_effect_terminal X je op t ES_Uncertain None d
     | JE_AcpBindingChanged b \<Rightarrow> upsert_acp_binding b d
     | JE_AcpContextDispatched h harness version hash channel \<Rightarrow>
         apply_acp_context_dispatched sid h harness version hash channel d
     | JE_TurnCompleted t stop_reason \<Rightarrow>
         project_turn_terminal X je t Completed None (SP_TurnCompleted t stop_reason)
           (CE_TurnCompleted t) d
     | JE_TurnFailed t err \<Rightarrow>
         project_turn_terminal X je t Failed (Some err) (SP_TurnFailed t err) (CE_TurnFailed t err) d
     | JE_TurnCancelled t \<Rightarrow>
         project_turn_terminal X je t Cancelled None (SP_TurnCancelled t) (CE_TurnCancelled t) d
     | JE_TurnInterrupted t reason \<Rightarrow>
         project_turn_terminal X je t Failed (Some reason) (SP_TurnFailed t reason)
           (CE_TurnFailed t reason) d
     | _ \<Rightarrow> Inr d)"

end
