(* ===== verification/SessionRead.thy ===== *)
theory SessionRead
  imports SessionProj
begin

text \<open>
  The read side of \<open>crates/mews-store/src/sessions.rs\<close>: single rows, the active branch with
  its compaction, the portable history of \<open>mews-protocol/src/domain/messages.rs\<close> and the
  paging of transcripts.
\<close>

section \<open>Rows\<close>

text \<open>
  A selected entry carries the identifier of the Session it was asked for; its own and its
  parent's identifier are parsed where the source parses them.
\<close>

definition select_session_entry ::
    "ext \<Rightarrow> SessionId \<Rightarrow> MessageId \<Rightarrow> db \<Rightarrow> StoreError + SessionEntry" where
  "select_session_entry X sid m d =
     bindR (okOr (NotFound ''Session entry'' m)
       (find (\<lambda>r. se_session_id (er_entry r) = sid \<and> se_id (er_entry r) = m) (t_entries d))) (\<lambda>r.
     bindR (parse_message_id X (se_parent_id (er_entry r))) (\<lambda>_. Inr (er_entry r)))"

definition entry_of_row :: "ext \<Rightarrow> SessionId \<Rightarrow> SessionEntry \<Rightarrow> StoreError + SessionEntry" where
  "entry_of_row X sid e =
     bindR (parse_id X MessageIdK (se_id e)) (\<lambda>_.
     bindR (parse_message_id X (se_parent_id e)) (\<lambda>_. Inr (e\<lparr>se_session_id := sid\<rparr>)))"

definition session_entries :: "ext \<Rightarrow> SessionId \<Rightarrow> db \<Rightarrow> StoreError + SessionEntry list" where
  "session_entries X sid d =
     mapR (entry_of_row X sid) (sort_key se_sequence (map er_entry (entry_rows sid d)))"

definition list_session_of_row :: "ext \<Rightarrow> Session \<Rightarrow> StoreError + Session" where
  "list_session_of_row X s = bindR (parse_id X SessionIdK (ses_id s)) (\<lambda>_. session_of_row X s)"

definition sessions :: "ext \<Rightarrow> db \<Rightarrow> StoreError + Session list" where
  "sessions X d =
     mapR (list_session_of_row X) (sort_key (\<lambda>s. - int (ses_created_at s)) (t_sessions d))"

definition select_acp_binding ::
    "ext \<Rightarrow> SessionId \<Rightarrow> db \<Rightarrow> StoreError + AcpSessionBinding option" where
  "select_acp_binding X sid d =
     (case find (\<lambda>b. ab_session_id b = sid) (t_acp_bindings d) of
        None \<Rightarrow> Inr None
      | Some b \<Rightarrow> bindR (parse_id X HostIdK (ab_host_id b)) (\<lambda>_. Inr (Some b)))"

definition acp_session_binding ::
    "ext \<Rightarrow> SessionId \<Rightarrow> db \<Rightarrow> StoreError + AcpSessionBinding option" where
  "acp_session_binding X sid d = select_acp_binding X sid d"

definition select_turn :: "ext \<Rightarrow> TurnId \<Rightarrow> db \<Rightarrow> StoreError + Turn" where
  "select_turn X t d =
     bindR (okOr (NotFound ''turn'' t) (find (\<lambda>r. turn_id_of (tw_turn r) = t) (t_turns d))) (\<lambda>r.
     bindR (parse_id X SessionIdK (turn_session_id (tw_turn r))) (\<lambda>_. Inr (tw_turn r)))"

definition turn :: "ext \<Rightarrow> TurnId \<Rightarrow> db \<Rightarrow> StoreError + Turn" where
  "turn X t d = select_turn X t d"

section \<open>The active branch\<close>

text \<open>
  The recursive common table expression of \<open>active_entries\<close>: from the leaf along the parent
  links inside one Session. SQLite follows the links for as long as they lead on, so the walk
  has fuel, and running out of it (the links form a cycle) is \<open>None\<close>.
\<close>

fun branch_from :: "nat \<Rightarrow> EntryRow list \<Rightarrow> SessionEntry \<Rightarrow> SessionEntry list option" where
  "branch_from 0 rows e = None"
| "branch_from (Suc n) rows e =
     (case se_parent_id e of
        None \<Rightarrow> Some [e]
      | Some p \<Rightarrow>
          (case find (\<lambda>r. se_id (er_entry r) = p \<and> se_session_id (er_entry r) = se_session_id e) rows of
             None \<Rightarrow> Some [e]
           | Some r \<Rightarrow> map_option (Cons e) (branch_from n rows (er_entry r))))"

definition active_branch :: "SessionId \<Rightarrow> db \<Rightarrow> SessionEntry list option" where
  "active_branch sid d =
     (case find (\<lambda>s. ses_id s = sid) (t_sessions d) of
        None \<Rightarrow> Some []
      | Some s \<Rightarrow>
          (case ses_leaf_entry_id s of
             None \<Rightarrow> Some []
           | Some leaf \<Rightarrow>
               (case find (\<lambda>r. se_id (er_entry r) = leaf) (t_entries d) of
                  None \<Rightarrow> Some []
                | Some r \<Rightarrow> branch_from (length (t_entries d)) (t_entries d) (er_entry r))))"

text \<open>
  \<open>apply_latest_compaction\<close>; slicing from the first kept entry to the compaction panics when
  the former comes later, which is \<open>None\<close> here.
\<close>

fun compaction_of :: "SessionEntry \<Rightarrow> MessageId option" where
  "compaction_of e = (case se_payload e of SP_ContextCompaction _ first_kept _ \<Rightarrow> Some first_kept
                                         | _ \<Rightarrow> None)"

fun last_compaction :: "SessionEntry list \<Rightarrow> (nat \<times> MessageId) option" where
  "last_compaction [] = None"
| "last_compaction (e # es) =
     (case last_compaction es of
        Some (i, m) \<Rightarrow> Some (Suc i, m)
      | None \<Rightarrow> (case compaction_of e of None \<Rightarrow> None | Some m \<Rightarrow> Some (0, m)))"

fun position_of :: "MessageId \<Rightarrow> SessionEntry list \<Rightarrow> nat option" where
  "position_of m [] = None"
| "position_of m (e # es) = (if se_id e = m then Some 0 else map_option Suc (position_of m es))"

definition apply_latest_compaction :: "SessionEntry list \<Rightarrow> SessionEntry list option" where
  "apply_latest_compaction es =
     (case last_compaction es of
        None \<Rightarrow> Some es
      | Some (ci, m) \<Rightarrow>
          (case position_of m es of
             None \<Rightarrow> Some es
           | Some fi \<Rightarrow>
               if ci < fi then None
               else Some (es ! ci # drop fi (take ci es) @ drop (Suc ci) es)))"

text \<open>\<open>None\<close>: the walk does not end or the compaction panics.\<close>

definition active_entries :: "ext \<Rightarrow> SessionId \<Rightarrow> db \<Rightarrow> (StoreError + SessionEntry list) option" where
  "active_entries X sid d =
     (case active_branch sid d of
        None \<Rightarrow> None
      | Some branch \<Rightarrow>
          (case mapR (entry_of_row X sid) (sort_key se_sequence branch) of
             Inl e \<Rightarrow> Some (Inl e)
           | Inr es \<Rightarrow> map_option Inr (apply_latest_compaction es)))"

section \<open>Messages\<close>

record PortableHistoryItem =
  phi_role :: MessageRole
  phi_content :: MessageContent

definition portable_item :: "MessageRole \<Rightarrow> MessageContent \<Rightarrow> PortableHistoryItem" where
  "portable_item r c = \<lparr>phi_role = r, phi_content = c\<rparr>"

fun portable_block :: "AssistantResponseBlock \<Rightarrow> PortableHistoryItem list" where
  "portable_block (AB_Text s) = [portable_item RoleAssistant (MC_Text s)]"
| "portable_block (AB_ToolCall call_id tool arguments _) =
     [portable_item RoleAssistant (MC_ToolCall call_id tool arguments None)]"
| "portable_block (AB_Reasoning _ _) = []"
| "portable_block (AB_OpaqueState _ _ _) = []"

fun portable_entry :: "SessionEntryPayload \<Rightarrow> PortableHistoryItem list" where
  "portable_entry (SP_UserMessage content _ _) =
     (case content of MC_Text s \<Rightarrow> [portable_item RoleUser (MC_Text s)] | _ \<Rightarrow> [])"
| "portable_entry (SP_AssistantResponse _ response) = concat (map portable_block (ar_blocks response))"
| "portable_entry (SP_ToolResult _ r) =
     [portable_item RoleTool (MC_ToolResult (tr_call_id r) (tr_tool r) (tr_result r)
        (tr_is_error r) (tr_uncertain r))]"
| "portable_entry (SP_ContextCompaction summary _ _) =
     [portable_item RoleUser (MC_Text (''[Earlier context summary]'' @ [CHR 0x0A] @ summary))]"
| "portable_entry _ = []"

definition portable_history :: "SessionEntry list \<Rightarrow> PortableHistoryItem list" where
  "portable_history es = concat (map (\<lambda>e. portable_entry (se_payload e)) es)"

text \<open>
  \<open>entries_to_messages\<close> numbers the history; an item beyond the entries gets a fresh
  identifier and the current time.
\<close>

fun number_history ::
    "ext \<Rightarrow> SessionEntry list \<Rightarrow> nat \<Rightarrow> PortableHistoryItem list \<Rightarrow> db \<Rightarrow> Message list \<times> db" where
  "number_history X es i [] d = ([], d)"
| "number_history X es i (item # items) d =
     (let (mid, d1) = (if i < length es then (se_id (es ! i), d) else new_id X MessageIdK d);
          (at, d2) = (if i < length es then (se_created_at (es ! i), d1) else utc_now X d1);
          m = \<lparr>msg_id = mid, msg_session_id = se_session_id (hd es), msg_sequence = i + 1,
               msg_role = phi_role item, msg_content = phi_content item, msg_metadata = VNull,
               msg_source = \<lparr>ms_kind = SK_Client, ms_id = ''cli'', ms_channel_origin = None\<rparr>,
               msg_created_at = at\<rparr>;
          (ms, d3) = number_history X es (i + 1) items d2
      in (m # ms, d3))"

definition entries_to_messages :: "ext \<Rightarrow> SessionEntry list \<Rightarrow> db \<Rightarrow> Message list \<times> db" where
  "entries_to_messages X es d = (if es = [] then ([], d) else number_history X es 0 (portable_history es) d)"

definition active_messages ::
    "ext \<Rightarrow> SessionId \<Rightarrow> db \<Rightarrow> (StoreError + Message list \<times> db) option" where
  "active_messages X sid d =
     map_option (\<lambda>r. bindR r (\<lambda>es. Inr (entries_to_messages X es d))) (active_entries X sid d)"

definition message_from_entry :: "SessionEntry \<Rightarrow> StoreError + Message" where
  "message_from_entry e =
     (let message = (\<lambda>role content metadata source.
            \<lparr>msg_id = se_id e, msg_session_id = se_session_id e, msg_sequence = se_sequence e,
             msg_role = role, msg_content = content, msg_metadata = metadata,
             msg_source = source, msg_created_at = se_created_at e\<rparr>);
          default = (\<lambda>k. \<lparr>ms_kind = k, ms_id = ''default'', ms_channel_origin = None\<rparr>)
      in case se_payload e of
           SP_UserMessage content metadata source \<Rightarrow> Inr (message RoleUser content metadata source)
         | SP_AssistantResponse _ response \<Rightarrow>
             Inr (message RoleAssistant (MC_Text (response_text response)) VNull (default SK_Harness))
         | SP_ToolResult _ r \<Rightarrow>
             Inr (message RoleTool (MC_ToolResult (tr_call_id r) (tr_tool r) (tr_result r)
                    (tr_is_error r) (tr_uncertain r)) VNull (default SK_Host))
         | _ \<Rightarrow> Inl (InvalidData ''entry is not a contextual message''))"

section \<open>Paging\<close>

text \<open>
  \<open>page_entries\<close>: the loop takes items while the page has room for them; \<open>None\<close> as the next
  cursor says the listing is exhausted. The trait \<open>HasSequence\<close> and the serialized size are
  the arguments \<open>sequence\<close> and \<open>bytes\<close>.
\<close>

fun fill_page ::
    "('a \<Rightarrow> nat) \<Rightarrow> ('a \<Rightarrow> nat) \<Rightarrow> nat \<Rightarrow> 'a list \<Rightarrow> 'a list \<Rightarrow> nat
      \<Rightarrow> StoreError + ('a list \<times> nat option)" where
  "fill_page sequence bytes limit [] page payload_bytes = Inr (page, None)"
| "fill_page sequence bytes limit (e # es) page payload_bytes =
     (if limit \<le> length page then Inr (page, Some (sequence (last page)))
      else
        bindR (require (bytes e \<le> max_session_page_payload_bytes)
          (InvalidData ''stored session item exceeds the page payload limit'')) (\<lambda>_.
        if page \<noteq> [] \<and> max_session_page_payload_bytes < payload_bytes + bytes e
        then Inr (page, Some (sequence (last page)))
        else fill_page sequence bytes limit es (page @ [e]) (payload_bytes + bytes e)))"

definition page_entries ::
    "('a \<Rightarrow> nat) \<Rightarrow> ('a \<Rightarrow> nat) \<Rightarrow> 'a list \<Rightarrow> nat option \<Rightarrow> nat
      \<Rightarrow> StoreError + ('a list \<times> nat option)" where
  "page_entries sequence bytes entries after limit =
     fill_page sequence bytes (min 500 (max 1 limit))
       (filter (\<lambda>e. case after of None \<Rightarrow> True | Some a \<Rightarrow> a < sequence e) entries) [] 0"

definition session_entries_page ::
    "ext \<Rightarrow> SessionId \<Rightarrow> nat option \<Rightarrow> nat \<Rightarrow> db \<Rightarrow> StoreError + (SessionEntry list \<times> nat option)" where
  "session_entries_page X sid after limit d =
     bindR (session_entries X sid d) (\<lambda>es. page_entries se_sequence (x_entry_bytes X) es after limit)"

definition active_messages_page ::
    "ext \<Rightarrow> SessionId \<Rightarrow> nat option \<Rightarrow> nat \<Rightarrow> db
      \<Rightarrow> (StoreError + (Message list \<times> nat option) \<times> db) option" where
  "active_messages_page X sid after limit d =
     map_option (\<lambda>r. bindR r (\<lambda>(ms, d1).
        bindR (page_entries msg_sequence (x_message_bytes X) ms after limit) (\<lambda>page. Inr (page, d1))))
       (active_messages X sid d)"

end
