(* ===== verification/SessionOps.thy ===== *)
theory SessionOps
  imports SessionRead
begin

text \<open>
  The Session operations of \<open>crates/mews-store/src/sessions.rs\<close>: effects, Turn admission, ACP
  bindings, transcript appends, observations, compaction and leaf moves. Each is one
  transaction: guards that read, then journal entries recorded and projected one by one.
  Operations that read again after their commit answer with the result and the database
  separately, since a failing read leaves the commit in place.
\<close>

section \<open>Recording Session events\<close>

definition turn_actor ::
    "SessionId \<Rightarrow> TurnId \<Rightarrow> EventActorKind \<Rightarrow> db \<Rightarrow> StoreError + EventActor" where
  "turn_actor sid t kind d =
     bindR (case kind of
         AK_Host \<Rightarrow>
           bindR (okOr (Database QueryReturnedNoRows) (find (\<lambda>s. ses_id s = sid) (t_sessions d)))
             (\<lambda>s. Inr (ses_host_id s))
       | AK_Harness \<Rightarrow>
           bindR (okOr (Database QueryReturnedNoRows)
                   (find (\<lambda>r. turn_id_of (tw_turn r) = t \<and> turn_session_id (tw_turn r) = sid)
                     (t_turns d)))
             (\<lambda>r. Inr (case turn_harness (tw_turn r) of Some h \<Rightarrow> h | None \<Rightarrow> ''mews''))
       | _ \<Rightarrow> Inl (InvalidData ''invalid Turn actor kind'')) (\<lambda>i.
     Inr \<lparr>ea_kind = kind, ea_id = Some i\<rparr>)"

definition observation_exists :: "SessionId \<Rightarrow> string option \<Rightarrow> db \<Rightarrow> bool" where
  "observation_exists sid key d =
     (key \<noteq> None \<and> exists_where (\<lambda>r. se_session_id (er_entry r) = sid \<and> er_observation_key r = key)
        (t_entries d))"

definition record_session_event_correlated ::
    "ext \<Rightarrow> SessionId \<Rightarrow> EventActor \<Rightarrow> JournalEvent \<Rightarrow> string option \<Rightarrow> db
      \<Rightarrow> StoreError + JournalEntry \<times> db" where
  "record_session_event_correlated X sid actor payload correlation d =
     (let (eid, d1) = new_id X EventIdK d in
      record_journal_entry X ST_Session sid
        \<lparr>ne_id = eid, ne_actor = actor, ne_correlation_id = correlation, ne_payload = payload\<rparr> d1)"

definition record_session_event ::
    "ext \<Rightarrow> SessionId \<Rightarrow> EventActor \<Rightarrow> JournalEvent \<Rightarrow> db \<Rightarrow> StoreError + JournalEntry \<times> db" where
  "record_session_event X sid actor payload d =
     record_session_event_correlated X sid actor payload None d"

text \<open>
  The pair every operation makes: the event is recorded, then projected.
\<close>

definition commit_correlated ::
    "ext \<Rightarrow> SessionId \<Rightarrow> EventActor \<Rightarrow> JournalEvent \<Rightarrow> string option \<Rightarrow> db \<Rightarrow> StoreError + db" where
  "commit_correlated X sid actor payload correlation d =
     bindR (record_session_event_correlated X sid actor payload correlation d) (\<lambda>(je, d1).
     apply_session_journal_entry X je d1)"

definition commit_event ::
    "ext \<Rightarrow> SessionId \<Rightarrow> EventActor \<Rightarrow> JournalEvent \<Rightarrow> db \<Rightarrow> StoreError + db" where
  "commit_event X sid actor payload d = commit_correlated X sid actor payload None d"

section \<open>Effects\<close>

datatype EffectOutcome =
  EO_Succeeded "Value option" | EO_Failed string | EO_Uncertain string

definition schedule_effect_in ::
    "ext \<Rightarrow> SessionId \<Rightarrow> TurnId \<Rightarrow> EffectRequest \<Rightarrow> db \<Rightarrow> StoreError + OperationId \<times> db" where
  "schedule_effect_in X sid t effect d =
     (let (op, d1) = new_id X OperationIdK d in
      bindR (turn_actor sid t AK_Harness d1) (\<lambda>actor.
      bindR (commit_event X sid actor (JE_EffectScheduled op t effect) d1) (\<lambda>d2.
      Inr (op, d2))))"

definition effect_owned :: "SessionId \<Rightarrow> TurnId \<Rightarrow> OperationId \<Rightarrow> EffectStatus \<Rightarrow> db \<Rightarrow> bool" where
  "effect_owned sid t op st d =
     exists_where (\<lambda>r. ef_operation_id r = op \<and> ef_session_id r = sid \<and> ef_turn_id r = t
                       \<and> ef_status r = st) (t_effects d)"

definition mark_effect_started_in ::
    "ext \<Rightarrow> SessionId \<Rightarrow> TurnId \<Rightarrow> OperationId \<Rightarrow> db \<Rightarrow> StoreError + db" where
  "mark_effect_started_in X sid t op d =
     bindR (require (effect_owned sid t op ES_Scheduled d)
       (InvalidData (''scheduled effect '' @ op @ '' does not belong to active Turn '' @ t
          @ '' in Session '' @ sid))) (\<lambda>_.
     bindR (turn_actor sid t AK_Harness d) (\<lambda>actor.
     commit_event X sid actor (JE_EffectStarted op t) d))"

definition outcome_event :: "OperationId \<Rightarrow> TurnId \<Rightarrow> EffectOutcome \<Rightarrow> JournalEvent" where
  "outcome_event op t outcome = (case outcome of
       EO_Succeeded r \<Rightarrow> JE_EffectSucceeded op t r
     | EO_Failed e \<Rightarrow> JE_EffectFailed op t e
     | EO_Uncertain r \<Rightarrow> JE_EffectUncertain op t r)"

definition finish_effect_in ::
    "ext \<Rightarrow> SessionId \<Rightarrow> TurnId \<Rightarrow> OperationId \<Rightarrow> EffectOutcome \<Rightarrow> db \<Rightarrow> StoreError + db" where
  "finish_effect_in X sid t op outcome d =
     bindR (require (effect_owned sid t op ES_Started d)
       (InvalidData (''started effect '' @ op @ '' does not belong to active Turn '' @ t
          @ '' in Session '' @ sid))) (\<lambda>_.
     bindR (turn_actor sid t AK_Host d) (\<lambda>actor.
     commit_event X sid actor (outcome_event op t outcome) d))"

definition schedule_effect ::
    "ext \<Rightarrow> SessionId \<Rightarrow> TurnId \<Rightarrow> EffectRequest \<Rightarrow> db \<Rightarrow> StoreError + OperationId \<times> db" where
  "schedule_effect X sid t effect d =
     bindR (validate_active_turn sid t d) (\<lambda>_. schedule_effect_in X sid t effect d)"

definition mark_effect_started ::
    "ext \<Rightarrow> SessionId \<Rightarrow> TurnId \<Rightarrow> OperationId \<Rightarrow> db \<Rightarrow> StoreError + db" where
  "mark_effect_started X sid t op d =
     bindR (validate_active_turn sid t d) (\<lambda>_. mark_effect_started_in X sid t op d)"

definition start_effect ::
    "ext \<Rightarrow> SessionId \<Rightarrow> TurnId \<Rightarrow> EffectRequest \<Rightarrow> db \<Rightarrow> StoreError + OperationId \<times> db" where
  "start_effect X sid t effect d =
     bindR (validate_active_turn sid t d) (\<lambda>_.
     bindR (schedule_effect_in X sid t effect d) (\<lambda>(op, d1).
     bindR (mark_effect_started_in X sid t op d1) (\<lambda>d2. Inr (op, d2))))"

definition start_tool_effect ::
    "ext \<Rightarrow> SessionId \<Rightarrow> TurnId \<Rightarrow> ToolCall \<Rightarrow> db \<Rightarrow> StoreError + OperationId \<times> db" where
  "start_tool_effect X sid t call d = start_effect X sid t (ER_ToolCall call) d"

definition finish_effect ::
    "ext \<Rightarrow> SessionId \<Rightarrow> TurnId \<Rightarrow> OperationId \<Rightarrow> EffectOutcome \<Rightarrow> db \<Rightarrow> StoreError + db" where
  "finish_effect X sid t op outcome d =
     bindR (validate_active_turn sid t d) (\<lambda>_. finish_effect_in X sid t op outcome d)"

section \<open>Turn admission\<close>

text \<open>\<open>validate_turn_input\<close> of \<open>mews-protocol/src/domain/messages.rs\<close>.\<close>

definition protocol_validate_turn_input ::
    "ext \<Rightarrow> string \<Rightarrow> MessageContent \<Rightarrow> Value \<Rightarrow> MessageSource \<Rightarrow> string + unit" where
  "protocol_validate_turn_input X key content metadata source =
     bindR (require (key \<noteq> [] \<and> length key \<le> 200) ''invalid turn idempotency key'') (\<lambda>_.
     bindR (require ((ms_kind source = SK_Client \<or> ms_kind source = SK_Channel)
                     \<and> ms_id source \<noteq> [] \<and> length (ms_id source) \<le> 256)
       ''turn source must be a Client or Channel with a valid ID'') (\<lambda>_.
     bindR (require (x_value_bytes X metadata \<le> 64 * 1024) ''message metadata exceeds 64 KiB'') (\<lambda>_.
     bindR (require (case content of MC_Text s \<Rightarrow> \<not> is_blank s | _ \<Rightarrow> True)
       ''message text cannot be empty'') (\<lambda>_.
     require (x_item_bytes X (SP_UserMessage content metadata source) \<le> max_session_item_bytes)
       ''session item exceeds the page-safe size limit''))))"

definition validate_turn_input ::
    "ext \<Rightarrow> string \<Rightarrow> MessageContent \<Rightarrow> Value \<Rightarrow> MessageSource \<Rightarrow> StoreError + unit" where
  "validate_turn_input X key content metadata source =
     mapErr InvalidData (protocol_validate_turn_input X key content metadata source)"

definition validate_appended_message ::
    "ext \<Rightarrow> MessageContent \<Rightarrow> Value \<Rightarrow> MessageSource \<Rightarrow> StoreError + unit" where
  "validate_appended_message X content metadata source =
     bindR (require (ms_id source \<noteq> [] \<and> length (ms_id source) \<le> 256)
       (InvalidData ''message source must have a valid ID'')) (\<lambda>_.
     bindR (require (x_value_bytes X metadata \<le> 64 * 1024)
       (InvalidData ''message metadata exceeds 64 KiB'')) (\<lambda>_.
     bindR (require (case content of MC_Text s \<Rightarrow> \<not> is_blank s | _ \<Rightarrow> True)
       (InvalidData ''message text cannot be empty'')) (\<lambda>_.
     validate_session_item X (SP_UserMessage content metadata source))))"

definition turn_command_id :: "SessionId \<Rightarrow> string \<Rightarrow> string" where
  "turn_command_id sid key = ''turn:'' @ sid @ '':'' @ key"

definition turn_request_hash ::
    "ext \<Rightarrow> SessionId \<Rightarrow> MessageContent \<Rightarrow> Value \<Rightarrow> MessageSource \<Rightarrow> string" where
  "turn_request_hash X sid content metadata source =
     command_request_hash X (RQ_Turn sid content metadata source)"

definition load_turn_result ::
    "ext \<Rightarrow> SessionId \<Rightarrow> CommandResult \<Rightarrow> db \<Rightarrow> StoreError + Turn \<times> Message" where
  "load_turn_result X sid result d =
     (case result of
        CR_Turn t m \<Rightarrow>
          bindR (parse_id X TurnIdK t) (\<lambda>t.
          bindR (parse_id X MessageIdK m) (\<lambda>m.
          bindR (turn X t d) (\<lambda>tu.
          bindR (select_session_entry X sid m d) (\<lambda>entry.
          bindR (message_from_entry entry) (\<lambda>msg. Inr (tu, msg))))))
      | _ \<Rightarrow> Inl (InvalidData ''turn receipt is missing Turn ID''))"

definition replay_turn_idempotent ::
    "ext \<Rightarrow> SessionId \<Rightarrow> string \<Rightarrow> MessageContent \<Rightarrow> Value \<Rightarrow> MessageSource \<Rightarrow> db
      \<Rightarrow> StoreError + (Turn \<times> Message) option" where
  "replay_turn_idempotent X sid key request_content metadata source d =
     bindR (validate_turn_input X key request_content metadata source) (\<lambda>_.
     let cid = turn_command_id sid key in
     case select_command_receipt cid d of
       None \<Rightarrow> Inr None
     | Some r \<Rightarrow>
         bindR (require (rc_request_hash r = turn_request_hash X sid request_content metadata source)
           (CommandConflict cid)) (\<lambda>_.
         bindR (load_turn_result X sid (rc_result r) d) (\<lambda>res. Inr (Some res))))"

text \<open>The projection an admission hands to the append: the one entry it makes.\<close>

definition mutate_first :: "ext \<Rightarrow> JournalEntry list \<Rightarrow> db \<Rightarrow> StoreError + db" where
  "mutate_first X es d = apply_session_journal_entry X (hd es) d"

definition turn_append ::
    "ext \<Rightarrow> SessionId \<Rightarrow> string \<Rightarrow> MessageContent \<Rightarrow> MessageContent \<Rightarrow> Value \<Rightarrow> MessageSource
      \<Rightarrow> nat \<Rightarrow> db \<Rightarrow> JournalAppend \<times> db" where
  "turn_append X sid key request_content resolved_content metadata source agent_revision d =
     (let (t, d1) = new_id X TurnIdK d;
          (m, d2) = new_id X MessageIdK d1;
          (eid, d3) = new_id X EventIdK d2
      in (\<lparr>ja_command_id = turn_command_id sid key,
           ja_request_hash = turn_request_hash X sid request_content metadata source,
           ja_result = CR_Turn t m,
           ja_subjects = [\<lparr>sa_subject_type = ST_Session, sa_subject_id = sid,
             sa_entries = [\<lparr>ne_id = eid, ne_actor = actor_from_source source,
               ne_correlation_id = Some key,
               ne_payload = JE_TurnAccepted t agent_revision m resolved_content metadata source\<rparr>]\<rparr>]\<rparr>,
          d3))"

definition accept_turn_append ::
    "ext \<Rightarrow> SessionId \<Rightarrow> string \<Rightarrow> MessageContent \<Rightarrow> MessageContent \<Rightarrow> Value \<Rightarrow> MessageSource \<Rightarrow> db
      \<Rightarrow> StoreError + AppendOutcome \<times> db" where
  "accept_turn_append X sid key request_content resolved_content metadata source d =
     bindR (validate_turn_input X key request_content metadata source) (\<lambda>_.
     bindR (validate_turn_input X key resolved_content metadata source) (\<lambda>_.
     bindR (okOr (NotFound ''session'' sid)
       (case find (\<lambda>s. ses_id s = sid) (t_sessions d) of
          None \<Rightarrow> None
        | Some s \<Rightarrow> find (\<lambda>a. agent_id a = ses_agent_id s) (t_agents d))) (\<lambda>agent.
     let (a, d1) = turn_append X sid key request_content resolved_content metadata source
                     (agent_current_revision agent) d
     in append_journal_entries_in X a (mutate_first X) d1)))"

definition accept_turn_idempotent ::
    "ext \<Rightarrow> SessionId \<Rightarrow> string \<Rightarrow> MessageContent \<Rightarrow> MessageContent \<Rightarrow> Value \<Rightarrow> MessageSource \<Rightarrow> db
      \<Rightarrow> (StoreError + Turn \<times> Message \<times> bool) \<times> db" where
  "accept_turn_idempotent X sid key request_content resolved_content metadata source d =
     (case accept_turn_append X sid key request_content resolved_content metadata source d of
        Inl e \<Rightarrow> (Inl e, d)
      | Inr (out, d1) \<Rightarrow>
          (bindR (load_turn_result X sid (rc_result (outcome_receipt out)) d1) (\<lambda>(tu, msg).
           Inr (tu, msg, \<not> was_replayed out)), d1))"

end
