(* ===== verification/SessionAppend.thy ===== *)
theory SessionAppend
  imports SessionOps
begin

text \<open>
  The remaining Session operations of \<open>crates/mews-store/src/sessions.rs\<close>: creation, ACP
  bindings, transcript appends, observations, compaction and checked leaf moves, with the
  observation append of \<open>delivery.rs\<close>.
\<close>

section \<open>Creation and settings\<close>

text \<open>
  \<open>Path::components\<close> on Unix: repeated separators and inner \<open>.\<close> components are dropped, a
  leading \<open>.\<close> of a relative path is kept.
\<close>

datatype PathComponent = RootDir | CurDir | ParentDir | NormalDir string

definition path_is_absolute :: "string \<Rightarrow> bool" where
  "path_is_absolute p = (take 1 p = ''/'')"

fun path_part :: "string \<Rightarrow> PathComponent list" where
  "path_part s = (if s = [] \<or> s = ''.'' then [] else if s = ''..'' then [ParentDir] else [NormalDir s])"

definition path_components :: "string \<Rightarrow> PathComponent list" where
  "path_components p =
     (let parts = split_on (CHR ''/'') p in
      (if path_is_absolute p then [RootDir] else if hd parts = ''.'' then [CurDir] else [])
      @ concat (map path_part parts))"

definition create_session ::
    "ext \<Rightarrow> AgentId \<Rightarrow> HostId \<Rightarrow> string \<Rightarrow> db \<Rightarrow> StoreError + Session \<times> db" where
  "create_session X aid hid dir d =
     bindR (require (path_is_absolute dir)
       (InvalidData ''working directory must be absolute'')) (\<lambda>_.
     bindR (require (\<not> list_ex (\<lambda>c. c = CurDir \<or> c = ParentDir) (path_components dir))
       (InvalidData ''working directory must be Host-canonicalized'')) (\<lambda>_.
     bindR (require (exists_where (\<lambda>a. agent_id a = aid \<and> \<not> agent_archived a) (t_agents d))
       (NotFound ''agent'' aid)) (\<lambda>_.
     let (sid, d1) = new_id X SessionIdK d;
         (now, d2) = utc_now X d1;
         s = \<lparr>ses_id = sid, ses_agent_id = aid, ses_host_id = hid, ses_working_directory = dir,
              ses_model_override = None, ses_leaf_entry_id = None, ses_created_at = now\<rparr>
     in bindR (commit_event X sid actor_system (JE_SessionCreated s) d2) (\<lambda>d3. Inr (s, d3)))))"

text \<open>The result is read again after the commit.\<close>

definition reread_session ::
    "ext \<Rightarrow> SessionId \<Rightarrow> db \<Rightarrow> StoreError + db \<Rightarrow> (StoreError + Session) \<times> db" where
  "reread_session X sid d committed =
     (case committed of Inl e \<Rightarrow> (Inl e, d) | Inr d1 \<Rightarrow> (session X sid d1, d1))"

definition set_session_model_in ::
    "ext \<Rightarrow> SessionId \<Rightarrow> string option \<Rightarrow> db \<Rightarrow> StoreError + db" where
  "set_session_model_in X sid model d =
     bindR (require (case model of None \<Rightarrow> True | Some m \<Rightarrow> \<not> (is_blank m \<or> 200 < length m))
       (InvalidData ''invalid Session model override'')) (\<lambda>_.
     bindR (require (has_session sid d) (NotFound ''session'' sid)) (\<lambda>_.
     commit_event X sid actor_system (JE_SessionModelChanged model) d))"

definition set_session_model ::
    "ext \<Rightarrow> SessionId \<Rightarrow> string option \<Rightarrow> db \<Rightarrow> (StoreError + Session) \<times> db" where
  "set_session_model X sid model d = reread_session X sid d (set_session_model_in X sid model d)"

section \<open>ACP bindings\<close>

definition max_acp_session_id_bytes :: nat where
  "max_acp_session_id_bytes = 4 * 1024"

definition max_acp_context_bytes :: nat where
  "max_acp_context_bytes = 64 * 1024"

text \<open>
  The arguments of a binding; \<open>bi_version\<close> is the one field the store reads of the context
  snapshot.
\<close>

record BindingInput =
  bi_host_id :: HostId
  bi_harness :: string
  bi_definition_hash :: string
  bi_acp_session_id :: string
  bi_transition :: AcpBindingTransition
  bi_version :: nat
  bi_context_text :: string
  bi_channel :: AcpInstructionChannel
  bi_dispatched :: bool

definition decide_acp_binding ::
    "ext \<Rightarrow> SessionId \<Rightarrow> BindingInput \<Rightarrow> db \<Rightarrow> StoreError + AcpSessionBinding \<times> db" where
  "decide_acp_binding X sid b d =
     bindR (require (\<not> (bi_harness b = [] \<or> bi_definition_hash b = [] \<or> bi_acp_session_id b = []
                        \<or> max_acp_session_id_bytes < length (bi_acp_session_id b)
                        \<or> max_acp_context_bytes < length (bi_context_text b)))
       (InvalidData ''invalid ACP Session binding'')) (\<lambda>_.
     bindR (select_acp_binding X sid d) (\<lambda>existing.
     let (now, d1) = utc_now X d;
         conflict = Inl (InvalidData
           ''ACP Session binding conflicts with its existing Host or Harness'')
     in case (existing, bi_transition b) of
          (None, ABT_New) \<Rightarrow>
            Inr (\<lparr>ab_session_id = sid, ab_host_id = bi_host_id b, ab_harness = bi_harness b,
                  ab_harness_definition_hash = bi_definition_hash b,
                  ab_acp_session_id = bi_acp_session_id b, ab_context_version = bi_version b,
                  ab_context_hash = x_sha256 X (bi_context_text b),
                  ab_context_channel = bi_channel b, ab_context_text = bi_context_text b,
                  ab_context_dispatched = bi_dispatched b, ab_created_at = now,
                  ab_replaced_at = None, ab_last_replacement_reason = None\<rparr>, d1)
        | (Some old, ABT_Replace reason) \<Rightarrow>
            if ab_host_id old = bi_host_id b
            then Inr (old\<lparr>ab_acp_session_id := bi_acp_session_id b, ab_harness := bi_harness b,
                  ab_harness_definition_hash := bi_definition_hash b,
                  ab_context_version := bi_version b,
                  ab_context_hash := x_sha256 X (bi_context_text b),
                  ab_context_channel := bi_channel b, ab_context_text := bi_context_text b,
                  ab_context_dispatched := bi_dispatched b, ab_replaced_at := Some now,
                  ab_last_replacement_reason := Some reason\<rparr>, d1)
            else conflict
        | (Some old, ABT_New) \<Rightarrow>
            if ab_host_id old = bi_host_id b \<and> ab_harness old = bi_harness b
               \<and> ab_harness_definition_hash old = bi_definition_hash b
               \<and> ab_acp_session_id old = bi_acp_session_id b
            then Inr (old, d1) else conflict
        | _ \<Rightarrow> conflict))"

definition harness_actor :: "string \<Rightarrow> EventActor" where
  "harness_actor name = \<lparr>ea_kind = AK_Harness, ea_id = Some name\<rparr>"

definition bind_acp_session_in ::
    "ext \<Rightarrow> SessionId \<Rightarrow> BindingInput \<Rightarrow> db \<Rightarrow> StoreError + db" where
  "bind_acp_session_in X sid b d =
     bindR (decide_acp_binding X sid b d) (\<lambda>(binding, d1).
     commit_event X sid (harness_actor (bi_harness b)) (JE_AcpBindingChanged binding) d1)"

definition bind_acp_session ::
    "ext \<Rightarrow> SessionId \<Rightarrow> BindingInput \<Rightarrow> db \<Rightarrow> (StoreError + AcpSessionBinding) \<times> db" where
  "bind_acp_session X sid b d =
     (case bind_acp_session_in X sid b d of
        Inl e \<Rightarrow> (Inl e, d)
      | Inr d1 \<Rightarrow>
          (bindR (acp_session_binding X sid d1)
             (okOr (InvalidData ''ACP Session binding was not persisted'')), d1))"

definition observation_payload ::
    "ext \<Rightarrow> TurnId \<Rightarrow> MessageId \<Rightarrow> string option \<Rightarrow> AcpObservation \<Rightarrow> JournalEvent" where
  "observation_payload X t m acp_session_id observation =
     (case observation of
        AO_CompletedReasoning txt mid visibility \<Rightarrow>
          JE_ReasoningRecorded t m txt visibility (RP_Harness ''acp'' mid)
      | _ \<Rightarrow>
          let data = x_observation_value X observation;
              kind = (case value_get ''type'' data of
                        None \<Rightarrow> ''acp''
                      | Some v \<Rightarrow> (case value_as_str v of None \<Rightarrow> ''acp'' | Some s \<Rightarrow> s))
          in JE_HarnessObservationRecorded t m acp_session_id kind data)"

definition record_acp_observation_transaction ::
    "ext \<Rightarrow> SessionId \<Rightarrow> TurnId \<Rightarrow> string option \<Rightarrow> string option \<Rightarrow> AcpObservation \<Rightarrow> db
      \<Rightarrow> StoreError + db" where
  "record_acp_observation_transaction X sid t acp_session_id key observation d =
     (if observation_exists sid key d then Inr d
      else let (m, d1) = new_id X MessageIdK d in
        commit_correlated X sid (harness_actor ''acp'')
          (observation_payload X t m acp_session_id observation) key d1)"

definition bind_acp_session_with_observations ::
    "ext \<Rightarrow> SessionId \<Rightarrow> BindingInput \<Rightarrow> TurnId \<Rightarrow> db \<Rightarrow> StoreError + db" where
  "bind_acp_session_with_observations X sid b t d =
     (let binding_key = ''binding:'' @ t in
      if observation_exists sid (Some binding_key) d then Inr d
      else
        bindR (bind_acp_session_in X sid b d) (\<lambda>d1.
        bindR (record_acp_observation_transaction X sid t (Some (bi_acp_session_id b))
                 (Some binding_key) (AO_BindingChanged (bi_transition b)) d1) (\<lambda>d2.
        if bi_dispatched b
        then record_acp_observation_transaction X sid t (Some (bi_acp_session_id b))
               (Some (''context_dispatched:'' @ bi_acp_session_id b))
               (AO_ContextDispatched (bi_version b) (x_sha256 X (bi_context_text b))
                  (bi_channel b) (bi_context_text b)) d2
        else Inr d2)))"

definition mark_acp_context_dispatched_with_observation ::
    "ext \<Rightarrow> SessionId \<Rightarrow> TurnId \<Rightarrow> string \<Rightarrow> db \<Rightarrow> StoreError + db" where
  "mark_acp_context_dispatched_with_observation X sid t acp_session_id d =
     (let key = ''context_dispatched:'' @ acp_session_id in
      if observation_exists sid (Some key) d then Inr d
      else
        bindR (select_acp_binding X sid d) (\<lambda>found.
        bindR (okOr (NotFound ''ACP Session binding'' sid) found) (\<lambda>b.
        bindR (require (ab_acp_session_id b = acp_session_id)
          (NotFound ''ACP Session binding'' sid)) (\<lambda>_.
        bindR (commit_event X sid (harness_actor (ab_harness b))
                 (JE_AcpContextDispatched (ab_host_id b) (ab_harness b) (ab_context_version b)
                    (ab_context_hash b) (ab_context_channel b)) d) (\<lambda>d1.
        record_acp_observation_transaction X sid t (Some acp_session_id) (Some key)
          (AO_ContextDispatched (ab_context_version b) (ab_context_hash b)
             (ab_context_channel b) (ab_context_text b)) d1)))))"

section \<open>Transcript appends\<close>

definition append_tool_call ::
    "ext \<Rightarrow> SessionId \<Rightarrow> TurnId \<Rightarrow> EventActor \<Rightarrow> ToolCall \<Rightarrow> db \<Rightarrow> StoreError + db" where
  "append_tool_call X sid t actor call d =
     (let (m, d1) = new_id X MessageIdK d in
      commit_event X sid actor (JE_ToolCallRequested t m call) d1)"

definition append_assistant_response_with_tool_calls ::
    "ext \<Rightarrow> SessionId \<Rightarrow> TurnId \<Rightarrow> AssistantResponse \<Rightarrow> ToolCall list \<Rightarrow> db
      \<Rightarrow> StoreError + SessionEntry \<times> db" where
  "append_assistant_response_with_tool_calls X sid t response calls d =
     bindR (validate_active_turn sid t d) (\<lambda>_.
     bindR (turn_actor sid t AK_Harness d) (\<lambda>actor.
     let (m, d1) = new_id X MessageIdK d in
     bindR (commit_event X sid actor (JE_AssistantResponseRecorded t m response) d1) (\<lambda>d2.
     bindR (select_session_entry X sid m d2) (\<lambda>entry.
     bindR (foldR (append_tool_call X sid t actor) calls d2) (\<lambda>d3.
     Inr (entry, prune_client_events X d3))))))"

definition append_assistant_response ::
    "ext \<Rightarrow> SessionId \<Rightarrow> TurnId \<Rightarrow> AssistantResponse \<Rightarrow> db \<Rightarrow> StoreError + SessionEntry \<times> db" where
  "append_assistant_response X sid t response d =
     append_assistant_response_with_tool_calls X sid t response [] d"

definition append_tool_result ::
    "ext \<Rightarrow> SessionId \<Rightarrow> TurnId \<Rightarrow> ToolResult \<Rightarrow> db \<Rightarrow> StoreError + SessionEntry \<times> db" where
  "append_tool_result X sid t result d =
     bindR (validate_active_turn sid t d) (\<lambda>_.
     bindR (require (case find (\<lambda>r. ef_session_id r = sid \<and> ef_turn_id r = t
                                    \<and> ef_call_id r = Some (tr_call_id result)) (t_effects d) of
                       None \<Rightarrow> True
                     | Some r \<Rightarrow> \<not> is_open_status (ef_status r))
       (InvalidData (''tool result '' @ tr_call_id result
          @ '' cannot be recorded before its execution completes''))) (\<lambda>_.
     let (m, d1) = new_id X MessageIdK d in
     bindR (turn_actor sid t AK_Host d1) (\<lambda>actor.
     bindR (commit_event X sid actor (JE_ToolResultRecorded t m result) d1) (\<lambda>d2.
     bindR (select_session_entry X sid m d2) (\<lambda>entry. Inr (entry, d2))))))"

definition complete_tool_execution ::
    "ext \<Rightarrow> SessionId \<Rightarrow> TurnId \<Rightarrow> ToolResult \<Rightarrow> db \<Rightarrow> StoreError + db" where
  "complete_tool_execution X sid t result d =
     bindR (validate_active_turn sid t d) (\<lambda>_.
     bindR (okOr (InvalidData (''started tool effect '' @ tr_call_id result
                    @ '' is missing from Turn '' @ t))
       (find (\<lambda>r. ef_session_id r = sid \<and> ef_turn_id r = t
                  \<and> ef_call_id r = Some (tr_call_id result) \<and> ef_status r = ES_Started)
          (t_effects d))) (\<lambda>r.
     bindR (parse_id X OperationIdK (ef_operation_id r)) (\<lambda>op.
     bindR (turn_actor sid t AK_Host d) (\<lambda>actor.
     commit_event X sid actor (JE_ToolExecutionCompleted op t result) d))))"

definition append_tool_requested ::
    "ext \<Rightarrow> SessionId \<Rightarrow> TurnId \<Rightarrow> ToolCall \<Rightarrow> db \<Rightarrow> StoreError + SessionEntry \<times> db" where
  "append_tool_requested X sid t call d =
     bindR (validate_active_turn sid t d) (\<lambda>_.
     let (m, d1) = new_id X MessageIdK d in
     bindR (turn_actor sid t AK_Harness d1) (\<lambda>actor.
     bindR (commit_event X sid actor (JE_ToolCallRequested t m call) d1) (\<lambda>d2.
     bindR (select_session_entry X sid m d2) (\<lambda>entry. Inr (entry, d2)))))"

section \<open>Observations\<close>

definition append_reasoning ::
    "ext \<Rightarrow> SessionId \<Rightarrow> TurnId \<Rightarrow> string \<Rightarrow> ReasoningVisibility \<Rightarrow> ReasoningProvenance
      \<Rightarrow> string option \<Rightarrow> db \<Rightarrow> StoreError + db" where
  "append_reasoning X sid t txt visibility provenance key d =
     bindR (validate_active_turn sid t d) (\<lambda>_.
     if observation_exists sid key d then Inr d
     else let (m, d1) = new_id X MessageIdK d in
       bindR (turn_actor sid t AK_Harness d1) (\<lambda>actor.
       commit_correlated X sid actor (JE_ReasoningRecorded t m txt visibility provenance) key d1))"

record HarnessObservationInput =
  ho_harness_session_id :: "string option"
  ho_kind :: string
  ho_data :: Value
  ho_idempotency_key :: "string option"

text \<open>The hash set of keys seen so far, as the list of them.\<close>

fun check_observation_keys ::
    "ext \<Rightarrow> string list \<Rightarrow> HarnessObservationInput list \<Rightarrow> StoreError + unit" where
  "check_observation_keys X seen [] = Inr ()"
| "check_observation_keys X seen (ob # obs) =
     (case ho_idempotency_key ob of
        None \<Rightarrow> check_observation_keys X seen obs
      | Some k \<Rightarrow>
          if k \<in> set seen
          then Inl (InvalidData (''duplicate Harness observation key '' @ x_debug_str X k))
          else check_observation_keys X (k # seen) obs)"

definition append_observation ::
    "ext \<Rightarrow> SessionId \<Rightarrow> TurnId \<Rightarrow> EventActor \<Rightarrow> HarnessObservationInput \<Rightarrow> db \<Rightarrow> StoreError + db" where
  "append_observation X sid t actor ob d =
     (if observation_exists sid (ho_idempotency_key ob) d then Inr d
      else let (m, d1) = new_id X MessageIdK d in
        commit_correlated X sid actor
          (JE_HarnessObservationRecorded t m (ho_harness_session_id ob) (ho_kind ob) (ho_data ob))
          (ho_idempotency_key ob) d1)"

definition append_harness_observations ::
    "ext \<Rightarrow> SessionId \<Rightarrow> TurnId \<Rightarrow> HarnessObservationInput list \<Rightarrow> db \<Rightarrow> StoreError + db" where
  "append_harness_observations X sid t obs d =
     bindR (check_observation_keys X [] obs) (\<lambda>_.
     bindR (validate_active_turn sid t d) (\<lambda>_.
     bindR (turn_actor sid t AK_Harness d) (\<lambda>actor.
     foldR (append_observation X sid t actor) obs d)))"

definition append_harness_observation ::
    "ext \<Rightarrow> SessionId \<Rightarrow> TurnId \<Rightarrow> HarnessObservationInput \<Rightarrow> db \<Rightarrow> StoreError + db" where
  "append_harness_observation X sid t ob d = append_harness_observations X sid t [ob] d"

definition append_acp_observation ::
    "ext \<Rightarrow> SessionId \<Rightarrow> TurnId \<Rightarrow> string option \<Rightarrow> string option \<Rightarrow> AcpObservation \<Rightarrow> db
      \<Rightarrow> StoreError + db" where
  "append_acp_observation X sid t acp_session_id key observation d =
     record_acp_observation_transaction X sid t acp_session_id key observation d"

text \<open>From \<open>delivery.rs\<close>: an observation and the live signal it comes with, in one transaction.\<close>

definition append_acp_observation_with_client_event ::
    "ext \<Rightarrow> SessionId \<Rightarrow> TurnId \<Rightarrow> string option \<Rightarrow> string option \<Rightarrow> AcpObservation
      \<Rightarrow> ClientEventKind \<Rightarrow> db \<Rightarrow> StoreError + db" where
  "append_acp_observation_with_client_event X sid t acp_session_id key observation event d =
     (case observation of
        AO_AssistantDelta _ _ _ \<Rightarrow>
          bindR (okOr (InvalidData ''ACP delta must use a transient delivery kind'')
                   (runtime_payload_from_client event)) (\<lambda>payload.
          emit_runtime_signal_with_key X sid t payload key d)
      | _ \<Rightarrow>
          bindR (record_acp_observation_transaction X sid t acp_session_id key observation d) (\<lambda>d1.
          case runtime_payload_from_client event of
            None \<Rightarrow> Inr (prune_client_events X d1)
          | Some payload \<Rightarrow>
              bindR (okOr (Database QueryReturnedNoRows) (find_active_turn sid t d1)) (\<lambda>row.
              let (sig, d2) = new_signal X sid t (tw_channel_origin row) payload d1 in
              bindR (append_runtime_signal_in X sig key d2) (\<lambda>d3.
              Inr (prune_client_events X d3)))))"

section \<open>Compaction, messages and leaf moves\<close>

text \<open>\<open>None\<close>: reading the active branch does not end or panics.\<close>

definition append_context_compaction ::
    "ext \<Rightarrow> SessionId \<Rightarrow> string \<Rightarrow> MessageId \<Rightarrow> nat \<Rightarrow> db \<Rightarrow> (StoreError + SessionEntry \<times> db) option" where
  "append_context_compaction X sid summary first_kept tokens_before d =
     (if is_blank summary then Some (Inl (InvalidData ''compaction summary must not be empty''))
      else map_option (\<lambda>r.
        bindR r (\<lambda>active.
        bindR (require (list_ex (\<lambda>e. se_id e = first_kept) active)
          (InvalidData ''compaction boundary must be in the active branch'')) (\<lambda>_.
        let (m, d1) = new_id X MessageIdK d in
        bindR (commit_event X sid actor_system
                 (JE_ContextCompacted m summary first_kept tokens_before) d1) (\<lambda>d2.
        bindR (select_session_entry X sid m d2) (\<lambda>entry. Inr (entry, d2))))))
      (active_entries X sid d))"

definition checked_leaf :: "ext \<Rightarrow> SessionId \<Rightarrow> MessageId option \<Rightarrow> db \<Rightarrow> StoreError + unit" where
  "checked_leaf X sid expected d =
     bindR (okOr (NotFound ''session'' sid) (find (\<lambda>s. ses_id s = sid) (t_sessions d))) (\<lambda>s.
     bindR (parse_message_id X (ses_leaf_entry_id s)) (\<lambda>current.
     require (current = expected) (LeafConflict expected current)))"

definition append_message_checked ::
    "ext \<Rightarrow> SessionId \<Rightarrow> MessageId option \<Rightarrow> MessageRole \<Rightarrow> MessageContent \<Rightarrow> Value
      \<Rightarrow> MessageSource \<Rightarrow> db \<Rightarrow> StoreError + Message \<times> db" where
  "append_message_checked X sid expected role content metadata source d =
     bindR (require (role = RoleUser) (InvalidData
       ''append_message only accepts user messages; use a typed transcript append'')) (\<lambda>_.
     bindR (validate_appended_message X content metadata source) (\<lambda>_.
     bindR (checked_leaf X sid expected d) (\<lambda>_.
     let (m, d1) = new_id X MessageIdK d in
     bindR (commit_event X sid (actor_from_source source)
              (JE_UserMessageAppended m content metadata source) d1) (\<lambda>d2.
     bindR (select_session_entry X sid m d2) (\<lambda>entry.
     bindR (message_from_entry entry) (\<lambda>msg. Inr (msg, d2)))))))"

definition append_message ::
    "ext \<Rightarrow> SessionId \<Rightarrow> MessageRole \<Rightarrow> MessageContent \<Rightarrow> Value \<Rightarrow> MessageSource \<Rightarrow> db
      \<Rightarrow> StoreError + Message \<times> db" where
  "append_message X sid role content metadata source d =
     bindR (session X sid d) (\<lambda>s.
     append_message_checked X sid (ses_leaf_entry_id s) role content metadata source d)"

definition is_contextual_entry :: "SessionId \<Rightarrow> MessageId \<Rightarrow> db \<Rightarrow> bool" where
  "is_contextual_entry sid m d =
     exists_where (\<lambda>r. se_id (er_entry r) = m \<and> se_session_id (er_entry r) = sid
                       \<and> er_contextual r) (t_entries d)"

definition set_session_leaf_in ::
    "ext \<Rightarrow> SessionId \<Rightarrow> MessageId option \<Rightarrow> MessageId option \<Rightarrow> db \<Rightarrow> StoreError + db" where
  "set_session_leaf_in X sid expected new_leaf d =
     bindR (checked_leaf X sid expected d) (\<lambda>_.
     bindR (require (case new_leaf of None \<Rightarrow> True | Some m \<Rightarrow> is_contextual_entry sid m d)
       (InvalidData ''Session leaf must be a contextual entry in its Session'')) (\<lambda>_.
     commit_event X sid actor_system (JE_SessionLeafChanged new_leaf) d))"

definition set_session_leaf_checked ::
    "ext \<Rightarrow> SessionId \<Rightarrow> MessageId option \<Rightarrow> MessageId option \<Rightarrow> db \<Rightarrow> (StoreError + Session) \<times> db" where
  "set_session_leaf_checked X sid expected new_leaf d =
     reread_session X sid d (set_session_leaf_in X sid expected new_leaf d)"

end
