(* ===== verification/Turns.thy ===== *)
theory Turns
  imports SessionAppend
begin

text \<open>
  Turn completion and recovery: \<open>crates/mews-store/src/turns.rs\<close> and
  \<open>recover_interrupted_work\<close> of \<open>schema.rs\<close>. Ending a Turn closes its open effects, answers
  its unanswered tool calls and only then records the terminal event.
\<close>

section \<open>Synthetic tool results\<close>

definition record_tool_result ::
    "ext \<Rightarrow> SessionId \<Rightarrow> TurnId \<Rightarrow> ToolResult \<Rightarrow> db \<Rightarrow> StoreError + db" where
  "record_tool_result X sid t result d =
     (let (m, d1) = new_id X MessageIdK d in
      commit_event X sid actor_system (JE_ToolResultRecorded t m result) d1)"

definition record_interrupted_tool_processing ::
    "ext \<Rightarrow> SessionId \<Rightarrow> TurnId \<Rightarrow> ToolResult \<Rightarrow> db \<Rightarrow> StoreError + db" where
  "record_interrupted_tool_processing X sid t raw d =
     record_tool_result X sid t
       \<lparr>tr_call_id = tr_call_id raw, tr_tool = tr_tool raw,
        tr_result = VString ''tool execution completed, but result processing was interrupted before hooks finished'',
        tr_is_error = True, tr_uncertain = True\<rparr> d"

definition record_terminated_tool_result ::
    "ext \<Rightarrow> SessionId \<Rightarrow> TurnId \<Rightarrow> string \<Rightarrow> string \<Rightarrow> bool \<Rightarrow> db \<Rightarrow> StoreError + db" where
  "record_terminated_tool_result X sid t call_id tool uncertain d =
     record_tool_result X sid t
       \<lparr>tr_call_id = call_id, tr_tool = tool,
        tr_result = VString (if uncertain
          then ''outcome unknown because the Turn ended during tool execution''
          else ''tool execution did not start before the Turn ended''),
        tr_is_error = True, tr_uncertain = uncertain\<rparr> d"

section \<open>Closing what a Turn left open\<close>

definition open_effects :: "TurnId \<Rightarrow> db \<Rightarrow> EffectRow list" where
  "open_effects t d =
     sort_key ef_scheduled_at
       (filter (\<lambda>r. ef_turn_id r = t \<and> is_open_status (ef_status r)) (t_effects d))"

definition close_effect ::
    "ext \<Rightarrow> SessionId \<Rightarrow> TurnId \<Rightarrow> EffectRow \<Rightarrow> db \<Rightarrow> StoreError + db" where
  "close_effect X sid t r d =
     bindR (parse_id X OperationIdK (ef_operation_id r)) (\<lambda>op.
     let started = (ef_status r = ES_Started);
         payload = (if started
           then JE_EffectUncertain op t ''Turn terminated before the effect reported an outcome''
           else JE_EffectFailed op t ''Turn terminated before the effect started'')
     in bindR (commit_event X sid actor_system payload d) (\<lambda>d1.
        case (ef_call_id r, ef_tool r) of
          (Some call_id, Some tool) \<Rightarrow> record_terminated_tool_result X sid t call_id tool started d1
        | _ \<Rightarrow> Inr d1))"

definition close_open_effects :: "ext \<Rightarrow> SessionId \<Rightarrow> TurnId \<Rightarrow> db \<Rightarrow> StoreError + db" where
  "close_open_effects X sid t d = foldR (close_effect X sid t) (open_effects t d) d"

fun requested_call :: "TurnId \<Rightarrow> SessionEntryPayload \<Rightarrow> ToolCall list" where
  "requested_call t (SP_ToolStarted t' call) = (if t' = t then [call] else [])"
| "requested_call t _ = []"

fun completed_call :: "TurnId \<Rightarrow> SessionEntryPayload \<Rightarrow> string list" where
  "completed_call t (SP_ToolResult t' result) = (if t' = t then [tr_call_id result] else [])"
| "completed_call t _ = []"

definition session_payloads :: "SessionId \<Rightarrow> db \<Rightarrow> SessionEntryPayload list" where
  "session_payloads sid d =
     map se_payload (sort_key se_sequence (map er_entry (entry_rows sid d)))"

definition requested_calls :: "SessionId \<Rightarrow> TurnId \<Rightarrow> db \<Rightarrow> ToolCall list" where
  "requested_calls sid t d = concat (map (requested_call t) (session_payloads sid d))"

definition completed_calls :: "SessionId \<Rightarrow> TurnId \<Rightarrow> db \<Rightarrow> string list" where
  "completed_calls sid t d = concat (map (completed_call t) (session_payloads sid d))"

text \<open>The hash map of raw results: a later row replaces an earlier one with its call id.\<close>

definition raw_completions :: "SessionId \<Rightarrow> TurnId \<Rightarrow> db \<Rightarrow> string \<Rightarrow> ToolResult option" where
  "raw_completions sid t d =
     map_of (rev (concat (map (\<lambda>r. case ef_raw_result r of
         None \<Rightarrow> [] | Some raw \<Rightarrow> [(tr_call_id raw, raw)])
       (filter (\<lambda>r. ef_session_id r = sid \<and> ef_turn_id r = t) (t_effects d)))))"

definition close_orphan ::
    "ext \<Rightarrow> SessionId \<Rightarrow> TurnId \<Rightarrow> string list \<Rightarrow> (string \<Rightarrow> ToolResult option) \<Rightarrow> ToolCall \<Rightarrow> db
      \<Rightarrow> StoreError + db" where
  "close_orphan X sid t completed raws call d =
     (if tc_call_id call \<in> set completed then Inr d
      else case raws (tc_call_id call) of
        Some raw \<Rightarrow> record_interrupted_tool_processing X sid t raw d
      | None \<Rightarrow> record_terminated_tool_result X sid t (tc_call_id call) (tc_tool call) False d)"

definition close_orphan_tool_calls :: "ext \<Rightarrow> SessionId \<Rightarrow> TurnId \<Rightarrow> db \<Rightarrow> StoreError + db" where
  "close_orphan_tool_calls X sid t d =
     foldR (close_orphan X sid t (completed_calls sid t d) (raw_completions sid t d))
       (requested_calls sid t d) d"

section \<open>Finishing a Turn\<close>

definition terminal_event ::
    "TurnId \<Rightarrow> TurnStatus \<Rightarrow> string option \<Rightarrow> string option \<Rightarrow> JournalEvent" where
  "terminal_event t status err stop_reason =
     (case status of
        Completed \<Rightarrow> JE_TurnCompleted t stop_reason
      | Failed \<Rightarrow> JE_TurnFailed t (case err of Some e \<Rightarrow> e | None \<Rightarrow> ''Turn failed'')
      | _ \<Rightarrow> JE_TurnCancelled t)"

definition has_open_effects :: "TurnId \<Rightarrow> db \<Rightarrow> bool" where
  "has_open_effects t d =
     exists_where (\<lambda>r. ef_turn_id r = t \<and> is_open_status (ef_status r)) (t_effects d)"

definition finish_turn_with_stop_reason ::
    "ext \<Rightarrow> TurnId \<Rightarrow> TurnStatus \<Rightarrow> string option \<Rightarrow> string option \<Rightarrow> db \<Rightarrow> StoreError + db" where
  "finish_turn_with_stop_reason X t status err stop_reason d =
     bindR (require (status \<noteq> Running) (InvalidData ''a finished Turn cannot remain running'')) (\<lambda>_.
     case find (\<lambda>r. turn_id_of (tw_turn r) = t \<and> is_active r) (t_turns d) of
       None \<Rightarrow>
         bindR (turn X t d) (\<lambda>existing.
         bindR (require (turn_status existing = status)
           (InvalidData (''Turn already finished with status '' @ debug_status (turn_status existing))))
           (\<lambda>_. Inr d))
     | Some row \<Rightarrow>
         bindR (parse_id X SessionIdK (turn_session_id (tw_turn row))) (\<lambda>sid.
         bindR (require (\<not> (status = Completed \<and> has_open_effects t d))
           (InvalidData ''a Turn cannot complete while it has open effects'')) (\<lambda>_.
         bindR (if has_open_effects t d then close_open_effects X sid t d else Inr d) (\<lambda>d1.
         bindR (close_orphan_tool_calls X sid t d1) (\<lambda>d2.
         commit_event X sid actor_system (terminal_event t status err stop_reason) d2)))))"

definition finish_turn ::
    "ext \<Rightarrow> TurnId \<Rightarrow> TurnStatus \<Rightarrow> string option \<Rightarrow> db \<Rightarrow> StoreError + db" where
  "finish_turn X t status err d = finish_turn_with_stop_reason X t status err None d"

text \<open>
  \<open>record_turn_harness\<close>: a name without a definition hash fails the conversion of the row.
\<close>

definition record_turn_harness ::
    "ext \<Rightarrow> TurnId \<Rightarrow> string \<Rightarrow> string \<Rightarrow> string option \<Rightarrow> db \<Rightarrow> StoreError + db" where
  "record_turn_harness X t harness definition_hash version d =
     bindR (require (harness \<noteq> [] \<and> definition_hash \<noteq> [])
       (InvalidData ''Turn Harness name and definition hash must not be empty'')) (\<lambda>_.
     bindR (okOr (Database QueryReturnedNoRows)
       (find (\<lambda>r. turn_id_of (tw_turn r) = t \<and> is_active r) (t_turns d))) (\<lambda>row.
     bindR (parse_id X SessionIdK (turn_session_id (tw_turn row))) (\<lambda>sid.
     case turn_harness (tw_turn row) of
       Some name \<Rightarrow>
         bindR (okOr (Database InvalidColumnType)
                  (turn_harness_definition_hash (tw_turn row))) (\<lambda>hash.
         bindR (require (name = harness \<and> hash = definition_hash
                         \<and> turn_harness_version (tw_turn row) = version)
           (InvalidData ''Turn Harness provenance is already different'')) (\<lambda>_. Inr d))
     | None \<Rightarrow>
         commit_event X sid (harness_actor harness)
           (JE_TurnStarted t \<lparr>hp_name = harness, hp_definition_hash = definition_hash,
                             hp_version = version\<rparr>) d)))"

text \<open>
  The harness of the Session's last Turn before the given one, in rowid order; the rows of
  \<open>turns\<close> are kept in that order and never deleted.
\<close>

definition previous_turn_harness :: "SessionId \<Rightarrow> TurnId \<Rightarrow> db \<Rightarrow> string option option" where
  "previous_turn_harness sid t d =
     (if exists_where (\<lambda>r. turn_id_of (tw_turn r) = t) (t_turns d)
      then map_option (\<lambda>r. turn_harness (tw_turn r))
             (find (\<lambda>r. turn_session_id (tw_turn r) = sid)
                (rev (takeWhile (\<lambda>r. turn_id_of (tw_turn r) \<noteq> t) (t_turns d))))
      else None)"

section \<open>Recovery\<close>

definition interrupt_turn :: "ext \<Rightarrow> TurnRow \<Rightarrow> db \<Rightarrow> StoreError + db" where
  "interrupt_turn X row d =
     bindR (parse_id X TurnIdK (turn_id_of (tw_turn row))) (\<lambda>t.
     bindR (parse_id X SessionIdK (turn_session_id (tw_turn row))) (\<lambda>sid.
     bindR (close_open_effects X sid t d) (\<lambda>d1.
     bindR (close_orphan_tool_calls X sid t d1) (\<lambda>d2.
     commit_event X sid actor_system
       (JE_TurnInterrupted t ''Hub stopped before the Turn completed'') d2))))"

definition recover_interrupted_work :: "ext \<Rightarrow> db \<Rightarrow> StoreError + db" where
  "recover_interrupted_work X d =
     (let d1 = d\<lparr>t_client_events := filter (\<lambda>e. \<not> cr_transient e) (t_client_events d)\<rparr>
      in foldR (interrupt_turn X) (filter is_active (t_turns d1)) d1)"

end
