(* ===== verification/SessionSteps.thy ===== *)
theory SessionSteps
  imports Turns
begin

text \<open>
  The abstract specification of the Session tables: a step relation with one rule per kind of
  change the projection may make, and the refinement lemmas that every operation of the
  theories SessionOps, SessionAppend and Turns is a sequence of such steps. The invariants of
  theory SessionInv are proved once per rule and hold after every operation.
\<close>

section \<open>The steps\<close>

text \<open>The tables the steps are about; the journal, the feed and the catalog are outside.\<close>

definition core_eq :: "db \<Rightarrow> db \<Rightarrow> bool" where
  "core_eq d d' \<longleftrightarrow> t_sessions d' = t_sessions d \<and> t_entries d' = t_entries d
     \<and> t_turns d' = t_turns d \<and> t_effects d' = t_effects d \<and> t_acp_bindings d' = t_acp_bindings d"

definition active_in :: "SessionId \<Rightarrow> TurnId \<Rightarrow> db \<Rightarrow> bool" where
  "active_in sid t d = exists_where (\<lambda>r. turn_id_of (tw_turn r) = t
     \<and> turn_session_id (tw_turn r) = sid \<and> is_active r) (t_turns d)"

definition entry_exists :: "MessageId \<Rightarrow> db \<Rightarrow> bool" where
  "entry_exists m d = exists_where (\<lambda>r. se_id (er_entry r) = m) (t_entries d)"

definition answered :: "SessionId \<Rightarrow> TurnId \<Rightarrow> db \<Rightarrow> bool" where
  "answered sid t d \<longleftrightarrow>
     (\<forall>call. SP_ToolStarted t call \<in> (\<lambda>r. se_payload (er_entry r)) ` set (entry_rows sid d) \<longrightarrow>
        (\<exists>res. SP_ToolResult t res \<in> (\<lambda>r. se_payload (er_entry r)) ` set (entry_rows sid d)
             \<and> tr_call_id res = tc_call_id call))"

definition session_leaf :: "SessionId \<Rightarrow> db \<Rightarrow> MessageId option" where
  "session_leaf sid d = (case find (\<lambda>s. ses_id s = sid) (t_sessions d) of
       None \<Rightarrow> None | Some s \<Rightarrow> ses_leaf_entry_id s)"

text \<open>What an appended entry's payload may claim about the state it is appended to.\<close>

fun payload_allowed :: "SessionId \<Rightarrow> SessionEntryPayload \<Rightarrow> db \<Rightarrow> bool" where
  "payload_allowed sid (SP_ToolStarted t _) d = active_in sid t d"
| "payload_allowed sid (SP_ContextCompaction _ first_kept _) d = entry_exists first_kept d"
| "payload_allowed sid _ d = True"

definition put_entry :: "EntryRow \<Rightarrow> db \<Rightarrow> db" where
  "put_entry r d =
     (let d1 = d\<lparr>t_entries := t_entries d @ [r]\<rparr>; e = er_entry r
      in if er_contextual r then set_leaf (se_session_id e) (Some (se_id e)) d1 else d1)"

inductive session_step :: "db \<Rightarrow> db \<Rightarrow> bool" where
  Quiet: "core_eq d d' \<Longrightarrow> session_step d d'"
| NewSession:
    "\<not> has_session (ses_id s) d \<Longrightarrow> ses_leaf_entry_id s = None \<Longrightarrow>
     session_step d (d\<lparr>t_sessions := t_sessions d @ [s]\<rparr>)"
| Model:
    "session_step d (d\<lparr>t_sessions := update_where (\<lambda>s. ses_id s = sid)
       (\<lambda>s. s\<lparr>ses_model_override := model\<rparr>) (t_sessions d)\<rparr>)"
| Leaf:
    "(\<And>m. leaf = Some m \<Longrightarrow> is_contextual_entry sid m d) \<Longrightarrow> session_step d (set_leaf sid leaf d)"
| Entry:
    "has_session (se_session_id (er_entry r)) d \<Longrightarrow>
     \<not> entry_exists (se_id (er_entry r)) d \<Longrightarrow>
     se_sequence (er_entry r) = next_sequence (se_session_id (er_entry r)) d \<Longrightarrow>
     se_parent_id (er_entry r) = session_leaf (se_session_id (er_entry r)) d \<Longrightarrow>
     payload_allowed (se_session_id (er_entry r)) (se_payload (er_entry r)) d \<Longrightarrow>
     session_step d (put_entry r d)"
| NewTurn:
    "\<not> has_turn (turn_id_of (tw_turn r)) d \<Longrightarrow>
     turn_status (tw_turn r) = Running \<Longrightarrow> is_active r \<Longrightarrow>
     (\<And>q. q \<in> set (t_turns d) \<Longrightarrow> is_active q \<Longrightarrow>
        turn_session_id (tw_turn q) \<noteq> turn_session_id (tw_turn r)) \<Longrightarrow>
     session_step d (d\<lparr>t_turns := t_turns d @ [r]\<rparr>)"
| Harness:
    "session_step d (d\<lparr>t_turns := update_where (\<lambda>r. turn_id_of (tw_turn r) = t)
       (\<lambda>r. r\<lparr>tw_turn := (tw_turn r)\<lparr>turn_harness := name, turn_harness_definition_hash := hash,
            turn_harness_version := version\<rparr>\<rparr>) (t_turns d)\<rparr>)"
| Terminal:
    "status \<noteq> Running \<Longrightarrow> \<not> has_open_effects t d \<Longrightarrow> answered sid t d \<Longrightarrow> active_in sid t d \<Longrightarrow>
     session_step d (d\<lparr>t_turns := update_where (\<lambda>r. turn_id_of (tw_turn r) = t \<and> is_active r)
       (\<lambda>r. r\<lparr>tw_turn := (tw_turn r)\<lparr>turn_status := status, turn_error := err,
            turn_completed_at := Some at\<rparr>\<rparr>) (t_turns d)\<rparr>)"
| Schedule:
    "active_in (ef_session_id r) (ef_turn_id r) d \<Longrightarrow> ef_status r = ES_Scheduled \<Longrightarrow>
     ef_terminal_entry r = None \<Longrightarrow>
     (\<And>q. q \<in> set (t_effects d) \<Longrightarrow> ef_operation_id q \<noteq> ef_operation_id r) \<Longrightarrow>
     session_step d (d\<lparr>t_effects := t_effects d @ [r]\<rparr>)"
| Start:
    "session_step d (d\<lparr>t_effects := update_where
       (\<lambda>r. ef_operation_id r = op \<and> ef_status r = ES_Scheduled)
       (\<lambda>r. r\<lparr>ef_status := ES_Started, ef_started_at := Some at\<rparr>) (t_effects d)\<rparr>)"
| Finish:
    "\<not> is_open_status st \<Longrightarrow>
     session_step d (d\<lparr>t_effects := update_where
       (\<lambda>r. ef_operation_id r = op \<and> ef_session_id r = sid \<and> ef_turn_id r = t
            \<and> is_open_status (ef_status r))
       (\<lambda>r. r\<lparr>ef_status := st, ef_terminal_entry := Some je, ef_completed_at := Some at,
              ef_raw_result := raw\<rparr>) (t_effects d)\<rparr>)"
| Bindings: "session_step d (d\<lparr>t_acp_bindings := bs\<rparr>)"

abbreviation session_steps :: "db \<Rightarrow> db \<Rightarrow> bool" where
  "session_steps \<equiv> session_step\<^sup>*\<^sup>*"

lemma core_eq_refl [simp]: "core_eq d d"
  by (simp add: core_eq_def)

lemma core_eq_trans: "core_eq d d' \<Longrightarrow> core_eq d' d'' \<Longrightarrow> core_eq d d''"
  by (simp add: core_eq_def)

lemma steps_quiet: "core_eq d d' \<Longrightarrow> session_steps d d'"
  by (blast intro: Quiet)

text \<open>A trailing or leading change outside the tables is absorbed.\<close>

lemma steps_then_quiet: "session_steps d d' \<Longrightarrow> core_eq d' d'' \<Longrightarrow> session_steps d d''"
  by (meson Quiet rtranclp.rtrancl_into_rtrancl)

lemma quiet_then_steps: "core_eq d d' \<Longrightarrow> session_steps d' d'' \<Longrightarrow> session_steps d d''"
  by (meson Quiet converse_rtranclp_into_rtranclp)

lemmas steps_trans = rtranclp_trans [where r = session_step]

section \<open>What leaves the tables alone\<close>

lemma new_id_core [frame_simps]: "new_id X k d = (i, d') \<Longrightarrow> core_eq d d'"
  by (auto simp: new_id_def core_eq_def)

lemma utc_now_core [frame_simps]: "utc_now X d = (i, d') \<Longrightarrow> core_eq d d'"
  by (auto simp: utc_now_def core_eq_def)

lemma prune_core [simp]: "core_eq d (prune_client_events X d)"
  by (simp add: prune_client_events_def utc_now_def delete_consumers_def core_eq_def Let_def)

lemma record_correlated_core:
  "record_session_event_correlated X sid actor ev corr d = Inr (je, d') \<Longrightarrow> core_eq d d'"
  by (auto simp: record_session_event_correlated_def new_id_def core_eq_def
      dest!: record_journal_entry_Inr(1))

lemma record_correlated_entry:
  assumes "record_session_event_correlated X sid actor ev corr d = Inr (je, d')"
  shows "je_payload je = ev" and "journal_session_id X je = Inr sid"
proof -
  from assms have r: "record_journal_entry X ST_Session sid
      \<lparr>ne_id = fst (new_id X EventIdK d), ne_actor = actor, ne_correlation_id = corr, ne_payload = ev\<rparr>
      (snd (new_id X EventIdK d)) = Inr (je, d')"
    by (simp add: record_session_event_correlated_def split_beta)
  note * = record_journal_entry_Inr [OF r]
  show "je_payload je = ev" using * by simp
  have s: "je_subject je = \<lparr>js_kind = ST_Session, js_id = sid\<rparr>" using * by simp
  moreover have "journal_entry_validate (x_uuid_ok X) je = Inr ()" using * by simp
  ultimately have "subject_validate (x_uuid_ok X) \<lparr>js_kind = ST_Session, js_id = sid\<rparr> = Inr ()"
    by (auto simp: journal_entry_validate_def result_simps)
  then show "journal_session_id X je = Inr sid"
    using s by (auto simp: journal_session_id_def subject_validate_def id_from_str_def
        split: sum.splits option.splits if_splits)
qed

lemma insert_client_event_core: "insert_client_event r d = Inr d' \<Longrightarrow> core_eq d d'"
  by (auto simp: insert_client_event_def put_client_event_def core_eq_def result_simps)

lemma insert_or_ignore_client_event_core:
  "insert_or_ignore_client_event r d = Inr d' \<Longrightarrow> core_eq d d'"
  by (auto simp: insert_or_ignore_client_event_def put_client_event_def core_eq_def result_simps
      split: if_splits)

lemma append_durable_core: "append_durable_client_event X je m k d = Inr d' \<Longrightarrow> core_eq d d'"
  by (auto simp: append_durable_client_event_def Let_def result_simps dest: insert_client_event_core)

lemma append_signal_core: "append_runtime_signal_in X sig key d = Inr d' \<Longrightarrow> core_eq d d'"
  by (auto simp: append_runtime_signal_in_def Let_def result_simps split: option.splits
      dest: insert_client_event_core insert_or_ignore_client_event_core)

lemma new_signal_core: "new_signal X sid t orig p d = (sig, d') \<Longrightarrow> core_eq d d'"
  by (auto simp: new_signal_def new_id_def utc_now_def core_eq_def)

section \<open>The projection refines the steps\<close>

text \<open>What an operation has established before it records an event.\<close>

definition ready_to_end :: "SessionId \<Rightarrow> TurnId \<Rightarrow> db \<Rightarrow> bool" where
  "ready_to_end sid t d \<longleftrightarrow> \<not> has_open_effects t d \<and> answered sid t d \<and> active_in sid t d"

fun admissible :: "SessionId \<Rightarrow> JournalEvent \<Rightarrow> db \<Rightarrow> bool" where
  "admissible sid (JE_SessionLeafChanged leaf) d = (\<forall>m. leaf = Some m \<longrightarrow> is_contextual_entry sid m d)"
| "admissible sid (JE_ToolCallRequested t _ _) d = active_in sid t d"
| "admissible sid (JE_ContextCompacted _ _ first_kept _) d = entry_exists first_kept d"
| "admissible sid (JE_EffectScheduled _ t _) d = active_in sid t d"
| "admissible sid (JE_TurnCompleted t _) d = ready_to_end sid t d"
| "admissible sid (JE_TurnFailed t _) d = ready_to_end sid t d"
| "admissible sid (JE_TurnCancelled t) d = ready_to_end sid t d"
| "admissible sid (JE_TurnInterrupted t _) d = ready_to_end sid t d"
| "admissible sid _ d = True"

lemma core_eq_views:
  assumes "core_eq d d'"
  shows "active_in sid t d' = active_in sid t d" and "entry_exists m d' = entry_exists m d"
    and "answered sid t d' = answered sid t d" and "has_open_effects t d' = has_open_effects t d"
    and "is_contextual_entry sid m d' = is_contextual_entry sid m d"
    and "entry_rows sid d' = entry_rows sid d" and "session_leaf sid d' = session_leaf sid d"
    and "next_sequence sid d' = next_sequence sid d"
  using assms by (simp_all add: core_eq_def active_in_def entry_exists_def answered_def
      has_open_effects_def is_contextual_entry_def entry_rows_def session_leaf_def next_sequence_def)

lemma admissible_core: "core_eq d d' \<Longrightarrow> admissible sid ev d' = admissible sid ev d"
  by (cases ev) (simp_all add: core_eq_views ready_to_end_def)

lemma parse_id_Inr: "parse_id X k s = Inr i \<Longrightarrow> i = s"
  by (auto simp: parse_id_def id_from_str_def split: option.splits if_splits sum.splits)

lemma parse_message_id_Inr: "parse_message_id X m = Inr m' \<Longrightarrow> m' = m"
  by (auto simp: parse_message_id_def result_simps split: option.splits dest: parse_id_Inr)

lemma current_session_leaf_Inr: "current_session_leaf X sid d = Inr m \<Longrightarrow> m = session_leaf sid d"
  by (auto simp: current_session_leaf_def session_leaf_def result_simps dest: parse_message_id_Inr)

lemma insert_session_entry_Inr:
  assumes "insert_session_entry r d = Inr d'"
  shows "d' = d\<lparr>t_entries := t_entries d @ [r]\<rparr>" and "has_session (se_session_id (er_entry r)) d"
    and "\<not> entry_exists (se_id (er_entry r)) d"
  using assms by (auto simp: insert_session_entry_def Let_def result_simps entry_exists_def)

lemma append_session_entry_step:
  assumes "append_session_entry X je m p k c d = Inr (e, d')"
    and "journal_session_id X je = Inr sid" and "payload_allowed sid p d"
  shows "session_step d d'"
    and "d' = put_entry \<lparr>er_entry = e, er_kind = k, er_contextual = c,
           er_observation_key = (if is_observation p then je_correlation_id je else None)\<rparr> d"
    and "e = \<lparr>se_id = m, se_session_id = sid, se_sequence = next_sequence sid d,
             se_parent_id = session_leaf sid d, se_payload = p, se_created_at = je_recorded_at je\<rparr>"
proof -
  let ?r = "\<lparr>er_entry = e, er_kind = k, er_contextual = c,
             er_observation_key = (if is_observation p then je_correlation_id je else None)\<rparr>"
  from assms(1,2) obtain d1 where
    e: "e = \<lparr>se_id = m, se_session_id = sid, se_sequence = next_sequence sid d,
             se_parent_id = session_leaf sid d, se_payload = p, se_created_at = je_recorded_at je\<rparr>"
    and i: "insert_session_entry ?r d = Inr d1"
    and d': "d' = (if c then set_leaf sid (Some m) d1 else d1)"
    by (auto simp: append_session_entry_def Let_def result_simps dest!: current_session_leaf_Inr)
  note * = insert_session_entry_Inr [OF i]
  show d'_put: "d' = put_entry ?r d" using *(1) d' e by (simp add: put_entry_def Let_def)
  show "session_step d d'"
    unfolding d'_put by (rule Entry) (use * e assms(3) in simp_all)
  show "e = \<lparr>se_id = m, se_session_id = sid, se_sequence = next_sequence sid d,
             se_parent_id = session_leaf sid d, se_payload = p, se_created_at = je_recorded_at je\<rparr>"
    by (fact e)
qed

lemma find_None_iff_ball: "find p xs = None \<longleftrightarrow> (\<forall>x\<in>set xs. \<not> p x)"
  by (auto simp: find_None_iff)

lemma payload_allowed_turns:
  "t_entries d' = t_entries d \<Longrightarrow> (\<And>t call. p \<noteq> SP_ToolStarted t call) \<Longrightarrow>
   payload_allowed sid p d' = payload_allowed sid p d"
  by (cases p) (auto simp: entry_exists_def)

lemma append_only_step:
  assumes "append_only X je m p k c d = Inr d'" and "journal_session_id X je = Inr sid"
    and "payload_allowed sid p d"
  shows "session_steps d d'"
  using assms append_session_entry_step(1) by (fastforce simp: append_only_def result_simps)

lemma turn_accepted_steps:
  assumes "apply_turn_accepted X je sid t rv m content metadata source d = Inr d'"
  shows "session_steps d d'"
proof -
  let ?e = "\<lparr>er_entry = \<lparr>se_id = m, se_session_id = sid, se_sequence = next_sequence sid d,
               se_parent_id = session_leaf sid d, se_payload = SP_UserMessage content metadata source,
               se_created_at = je_recorded_at je\<rparr>,
             er_kind = ''user_message'', er_contextual = True, er_observation_key = None\<rparr>"
  let ?t = "\<lparr>tw_turn = \<lparr>turn_id_of = t, turn_session_id = sid, turn_agent_revision = rv,
                   turn_harness = None, turn_harness_definition_hash = None,
                   turn_harness_version = None, turn_status = Running, turn_error = None,
                   turn_created_at = je_recorded_at je, turn_completed_at = None\<rparr>,
        tw_idempotency_key = je_correlation_id je,
        tw_channel_origin = ms_channel_origin source\<rparr>"
  from assms obtain d1 where
    none: "find (\<lambda>r. turn_session_id (tw_turn r) = sid \<and> is_active r) (t_turns d) = None"
    and i: "insert_session_entry ?e d = Inr d1"
    and t: "insert_turn ?t (set_leaf sid (Some m) d1) = Inr d'"
    by (auto simp: apply_turn_accepted_def Let_def result_simps split: option.splits
        dest!: current_session_leaf_Inr)
  note * = insert_session_entry_Inr [OF i]
  have d1: "set_leaf sid (Some m) d1 = put_entry ?e d"
    using *(1) by (simp add: put_entry_def Let_def)
  have "session_step d (put_entry ?e d)"
    by (rule Entry) (use * in simp_all)
  moreover have "session_step (put_entry ?e d) d'"
  proof -
    from t have d': "d' = (put_entry ?e d)\<lparr>t_turns := t_turns (put_entry ?e d) @ [?t]\<rparr>"
      and n: "\<not> has_turn t (put_entry ?e d)"
      unfolding d1 by (auto simp: insert_turn_def Let_def result_simps has_turn_def)
    have turns: "t_turns (put_entry ?e d) = t_turns d"
      by (simp add: put_entry_def set_leaf_def Let_def)
    show ?thesis
      unfolding d' by (rule NewTurn) (use n none in \<open>auto simp: turns is_active_def find_None_iff_ball\<close>)
  qed
  ultimately show ?thesis by (meson converse_rtranclp_into_rtranclp r_into_rtranclp)
qed

lemma turn_started_steps:
  assumes "apply_turn_started X je sid t harness d = Inr d'" and "journal_session_id X je = Inr sid"
  shows "session_steps d d'"
proof -
  let ?d1 = "d\<lparr>t_turns := update_where (\<lambda>r. turn_id_of (tw_turn r) = t)
                (\<lambda>r. r\<lparr>tw_turn := (tw_turn r)\<lparr>turn_harness := Some (hp_name harness),
                   turn_harness_definition_hash := Some (hp_definition_hash harness),
                   turn_harness_version := hp_version harness\<rparr>\<rparr>) (t_turns d)\<rparr>"
  from assms(1) obtain m e d2 where
    a: "append_session_entry X je m (SP_TurnStarted t harness) ''turn_started'' False ?d1 = Inr (e, d2)"
    and f: "append_durable_client_event X je (Some m) (CE_TurnStarted t) d2 = Inr d'"
    by (auto simp: apply_turn_started_def Let_def result_simps)
  have "session_step d ?d1" by (rule Harness)
  moreover have "session_step ?d1 d2"
    by (rule append_session_entry_step(1) [OF a assms(2)]) simp
  ultimately show ?thesis
    using append_durable_core [OF f] by (meson rtranclp.intros steps_then_quiet)
qed

lemma entry_and_event_steps:
  assumes "append_session_entry X je m p k c d = Inr (e, d1)" and "journal_session_id X je = Inr sid"
    and "payload_allowed sid p d" and "core_eq d1 d'"
  shows "session_steps d d'"
  using append_session_entry_step(1) [OF assms(1-3)] assms(4) by (meson r_into_rtranclp steps_then_quiet)

lemma turn_terminal_steps:
  assumes "project_turn_terminal X je t status err p k d = Inr d'"
    and "journal_session_id X je = Inr sid" and "ready_to_end sid t d" and "status \<noteq> Running"
    and "\<And>d. payload_allowed sid p d"
  shows "session_steps d d'"
proof -
  let ?d1 = "d\<lparr>t_turns := update_where (\<lambda>r. turn_id_of (tw_turn r) = t \<and> is_active r)
       (\<lambda>r. r\<lparr>tw_turn := (tw_turn r)\<lparr>turn_status := status, turn_error := err,
            turn_completed_at := Some (je_recorded_at je)\<rparr>\<rparr>) (t_turns d)\<rparr>"
  from assms(1) obtain m e d2 where
    a: "append_session_entry X je m p (terminal_kind status) False ?d1 = Inr (e, d2)"
    and f: "append_durable_client_event X je (Some m) k d2 = Inr d'"
    by (auto simp: project_turn_terminal_def Let_def result_simps)
  have "session_step d ?d1"
    by (rule Terminal) (use assms(3,4) in \<open>auto simp: ready_to_end_def\<close>)
  moreover have "session_steps ?d1 d'"
    by (rule entry_and_event_steps [OF a assms(2) assms(5) append_durable_core [OF f]])
  ultimately show ?thesis by (rule converse_rtranclp_into_rtranclp)
qed

lemma effect_terminal_steps:
  assumes "set_effect_terminal X je op t st raw d = Inr d'" and "\<not> is_open_status st"
  shows "session_steps d d'"
  using assms by (auto simp: set_effect_terminal_def Let_def result_simps intro!: r_into_rtranclp Finish)

lemma effect_scheduled_steps:
  assumes "apply_effect_scheduled je sid op t effect d = Inr d'" and "active_in sid t d"
  shows "session_steps d d'"
  using assms
  by (auto simp: apply_effect_scheduled_def insert_effect_def Let_def result_simps split_beta
      intro!: r_into_rtranclp Schedule)

lemma completion_status_closed [simp]: "\<not> is_open_status (completion_status r)"
  by (simp add: completion_status_def is_open_status_def)

lemma closed_statuses [simp]:
  "\<not> is_open_status ES_Succeeded" "\<not> is_open_status ES_Failed" "\<not> is_open_status ES_Uncertain"
  "is_open_status ES_Scheduled" "is_open_status ES_Started"
  by (simp_all add: is_open_status_def)

text \<open>The simulation: projecting an admissible event is a sequence of steps.\<close>

lemma upsert_core: "upsert_acp_binding b d = Inr d' \<Longrightarrow> session_steps d d'"
  by (auto simp: upsert_acp_binding_def result_simps split: if_splits intro!: r_into_rtranclp Bindings)

lemma assistant_response_steps:
  assumes "apply_assistant_response X je sid t m response d = Inr d'"
    and "journal_session_id X je = Inr sid"
  shows "session_steps d d'"
proof -
  from assms(1) obtain e d1 where
    a: "append_session_entry X je m (SP_AssistantResponse t response) ''assistant_response'' True d
        = Inr (e, d1)"
    and f: "(if response_text response = [] then Inr d1
             else append_durable_client_event X je (Some m) (CE_AssistantMessage t
               (entry_message sid e RoleAssistant (MC_Text (response_text response)) je)) d1) = Inr d'"
    by (auto simp: apply_assistant_response_def Let_def result_simps)
  have "core_eq d1 d'" using f append_durable_core by (auto split: if_splits)
  with entry_and_event_steps [OF a assms(2)] show ?thesis by simp
qed

lemma tool_call_steps:
  assumes "apply_tool_call_requested X je sid t m call d = Inr d'"
    and "journal_session_id X je = Inr sid" and "active_in sid t d"
  shows "session_steps d d'"
  using assms
  by (auto simp: apply_tool_call_requested_def result_simps dest: append_durable_core
      dest!: entry_and_event_steps [where sid = sid])

lemma tool_result_steps:
  assumes "apply_tool_result_recorded X je sid t m r d = Inr d'"
    and "journal_session_id X je = Inr sid"
  shows "session_steps d d'"
  using assms
  by (auto simp: apply_tool_result_recorded_def result_simps dest: append_durable_core
      dest!: entry_and_event_steps [where sid = sid])

lemma session_created_steps:
  assumes "apply_session_created s d = Inr d'"
  shows "session_steps d d'"
  using assms
  by (auto simp: apply_session_created_def insert_session_def result_simps has_session_def
      intro!: r_into_rtranclp NewSession)

theorem apply_refines:
  assumes "apply_session_journal_entry X je d = Inr d'" and "journal_session_id X je = Inr sid"
    and "admissible sid (je_payload je) d"
  shows "session_steps d d'"
proof -
  note split_result = bindR_eq_Inr require_Inr
  show ?thesis
  proof (cases "je_payload je")
    case (JE_SessionModelChanged model)
    with assms show ?thesis
      by (auto simp: apply_session_journal_entry_def apply_session_model_changed_def split_result
          intro!: r_into_rtranclp Model)
  next
    case (JE_SessionLeafChanged leaf)
    with assms show ?thesis
      by (auto simp: apply_session_journal_entry_def apply_session_leaf_changed_def split_result
          intro!: r_into_rtranclp Leaf)
  next
    case (JE_EffectStarted op t)
    with assms show ?thesis
      by (auto simp: apply_session_journal_entry_def apply_effect_started_def Let_def split_result
          intro!: r_into_rtranclp Start)
  next
    case (JE_AcpContextDispatched h harness version hash channel)
    with assms show ?thesis
      by (auto simp: apply_session_journal_entry_def apply_acp_context_dispatched_def Let_def
          split_result intro!: r_into_rtranclp Bindings)
  qed (use assms in \<open>auto simp: apply_session_journal_entry_def
      intro: session_created_steps append_only_step turn_accepted_steps turn_started_steps
        assistant_response_steps tool_call_steps tool_result_steps effect_scheduled_steps upsert_core
      elim!: turn_terminal_steps effect_terminal_steps\<close>)
qed

section \<open>The operations refine the steps\<close>

lemma commit_correlated_steps:
  assumes "commit_correlated X sid actor ev corr d = Inr d'" and "admissible sid ev d"
  shows "session_steps d d'"
proof -
  from assms(1) obtain je d1 where
    r: "record_session_event_correlated X sid actor ev corr d = Inr (je, d1)"
    and a: "apply_session_journal_entry X je d1 = Inr d'"
    by (auto simp: commit_correlated_def result_simps)
  note e = record_correlated_entry [OF r] and c = record_correlated_core [OF r]
  have "admissible sid (je_payload je) d1" using assms(2) e(1) admissible_core [OF c] by simp
  with quiet_then_steps [OF c] apply_refines [OF a e(2)] show ?thesis by blast
qed

lemma commit_event_steps:
  "commit_event X sid actor ev d = Inr d' \<Longrightarrow> admissible sid ev d \<Longrightarrow> session_steps d d'"
  by (simp add: commit_event_def commit_correlated_steps)

text \<open>The usual form: a fresh identifier is drawn before the event is committed.\<close>

lemma new_id_commit:
  assumes "new_id X k d = (i, d1)" and "commit_correlated X sid actor ev corr d1 = Inr d'"
    and "admissible sid ev d"
  shows "session_steps d d'"
proof -
  from assms(1) have c: "core_eq d d1" by (rule new_id_core)
  show ?thesis
    using quiet_then_steps [OF c] commit_correlated_steps [OF assms(2)] assms(3)
    by (simp add: admissible_core [OF c])
qed

lemma validate_active_turn_Inr: "validate_active_turn sid t d = Inr u \<Longrightarrow> active_in sid t d"
  by (simp add: validate_active_turn_def active_in_def require_Inr)

lemma schedule_effect_in_steps:
  assumes "schedule_effect_in X sid t eff d = Inr (op, d')" and "active_in sid t d"
  shows "session_steps d d'"
proof -
  obtain i d1 where n: "new_id X OperationIdK d = (i, d1)" by fastforce
  with assms(1) obtain actor where
    "commit_event X sid actor (JE_EffectScheduled i t eff) d1 = Inr d'"
    by (auto simp: schedule_effect_in_def result_simps)
  with n assms(2) show ?thesis
    by (auto intro: new_id_commit simp: commit_event_def)
qed

lemma mark_effect_started_in_steps:
  "mark_effect_started_in X sid t op d = Inr d' \<Longrightarrow> session_steps d d'"
  by (auto simp: mark_effect_started_in_def result_simps intro: commit_event_steps)

lemma finish_effect_in_steps:
  "finish_effect_in X sid t op outcome d = Inr d' \<Longrightarrow> session_steps d d'"
  by (auto simp: finish_effect_in_def outcome_event_def result_simps split: EffectOutcome.splits
      intro: commit_event_steps)

theorem schedule_effect_steps:
  "schedule_effect X sid t eff d = Inr (op, d') \<Longrightarrow> session_steps d d'"
  by (auto simp: schedule_effect_def bindR_eq_Inr dest!: validate_active_turn_Inr
      intro: schedule_effect_in_steps)

theorem mark_effect_started_steps:
  "mark_effect_started X sid t op d = Inr d' \<Longrightarrow> session_steps d d'"
  by (auto simp: mark_effect_started_def bindR_eq_Inr intro: mark_effect_started_in_steps)

theorem start_effect_steps:
  "start_effect X sid t eff d = Inr (op, d') \<Longrightarrow> session_steps d d'"
  by (auto simp: start_effect_def bindR_eq_Inr dest!: validate_active_turn_Inr
      intro: steps_trans schedule_effect_in_steps mark_effect_started_in_steps)

theorem finish_effect_steps:
  "finish_effect X sid t op outcome d = Inr d' \<Longrightarrow> session_steps d d'"
  by (auto simp: finish_effect_def bindR_eq_Inr intro: finish_effect_in_steps)

lemma turn_append_parts:
  assumes "turn_append X sid key req res metadata source rv d = (a, d3)"
  shows "core_eq d d3" and "ja_command_id a = turn_command_id sid key"
    and "ja_request_hash a = turn_request_hash X sid req metadata source"
    and "\<exists>t m eid. ja_result a = CR_Turn t m \<and>
       ja_subjects a = [\<lparr>sa_subject_type = ST_Session, sa_subject_id = sid,
        sa_entries = [\<lparr>ne_id = eid, ne_actor = actor_from_source source, ne_correlation_id = Some key,
           ne_payload = JE_TurnAccepted t rv m res metadata source\<rparr>]\<rparr>]"
  using assms by (auto simp: turn_append_def new_id_def core_eq_def)

lemma accept_turn_append_Inr:
  assumes "accept_turn_append X sid key req res metadata source d = Inr (out, d')"
  obtains rv a d3 where "turn_append X sid key req res metadata source rv d = (a, d3)"
    and "append_journal_entries_in X a (mutate_first X) d3 = Inr (out, d')"
  using assms
  by (auto simp: accept_turn_append_def bindR_eq_Inr split_beta intro: surjective_pairing)

lemma accept_turn_append_steps:
  assumes "accept_turn_append X sid key req res metadata source d = Inr (out, d')"
  shows "session_steps d d'"
proof -
  from assms obtain rv a d3 where t: "turn_append X sid key req res metadata source rv d = (a, d3)"
    and ap: "append_journal_entries_in X a (mutate_first X) d3 = Inr (out, d')"
    by (rule accept_turn_append_Inr)
  from turn_append_parts(1) [OF t] have c3: "core_eq d d3" .
  from turn_append_parts(4) [OF t] obtain t m eid where
    sub: "ja_subjects a = [\<lparr>sa_subject_type = ST_Session, sa_subject_id = sid,
        sa_entries = [\<lparr>ne_id = eid, ne_actor = actor_from_source source, ne_correlation_id = Some key,
           ne_payload = JE_TurnAccepted t rv m res metadata source\<rparr>]\<rparr>]" by blast
  show ?thesis
  proof (cases "select_command_receipt (ja_command_id a) d3")
    case (Some r)
    with ap have "d' = d3" by (auto simp: append_journal_entries_in_def result_simps)
    with c3 show ?thesis by (simp add: steps_quiet)
  next
    case None
    from ap None sub obtain je d4 d5 where
      i: "insert_entry X (Some (ja_command_id a)) ST_Session sid (x_now X (ticks d3))
            \<lparr>ne_id = eid, ne_actor = actor_from_source source, ne_correlation_id = Some key,
             ne_payload = JE_TurnAccepted t rv m res metadata source\<rparr>
            (d3\<lparr>ticks := Suc (ticks d3)\<rparr>) = Inr (je, d4)"
      and m: "apply_session_journal_entry X je d4 = Inr d5" and c5: "core_eq d5 d'"
      by (fastforce simp: append_journal_entries_in_def append_subject_def append_entry_def
          mutate_first_def utc_now_def Let_def insert_receipt_def core_eq_def result_simps)
    note * = insert_entry_Inr [OF i]
    have "core_eq d d4" using c3 *(1) by (simp add: core_eq_def)
    moreover have "session_steps d4 d5"
    proof (rule apply_refines [OF m])
      show "journal_session_id X je = Inr sid"
        using *(2,4) by (auto simp: journal_session_id_def subject_validate_def id_from_str_def
            journal_entry_validate_def result_simps split: sum.splits option.splits if_splits)
      show "admissible sid (je_payload je) d4" using *(2) by simp
    qed
    ultimately show ?thesis using c5 by (blast intro: quiet_then_steps steps_then_quiet)
  qed
qed

lemma create_session_steps:
  assumes "create_session X aid hid dir d = Inr (s, d')"
  shows "session_steps d d'"
proof -
  from assms have "commit_event X (fst (new_id X SessionIdK d)) actor_system (JE_SessionCreated s)
      (snd (utc_now X (snd (new_id X SessionIdK d)))) = Inr d'"
    by (auto simp: create_session_def Let_def split_beta bindR_eq_Inr)
  moreover have "core_eq d (snd (utc_now X (snd (new_id X SessionIdK d))))"
    by (simp add: new_id_def utc_now_def core_eq_def)
  ultimately show ?thesis
    by (elim quiet_then_steps commit_event_steps) simp
qed

lemma set_session_model_in_steps: "set_session_model_in X sid model d = Inr d' \<Longrightarrow> session_steps d d'"
  by (auto simp: set_session_model_in_def result_simps intro: commit_event_steps)

lemma decide_acp_binding_core: "decide_acp_binding X sid b d = Inr (ab, d') \<Longrightarrow> core_eq d d'"
  unfolding decide_acp_binding_def utc_now_def Let_def prod.case bindR_eq_Inr
  by (elim exE conjE)
    (simp split: option.splits AcpBindingTransition.splits if_splits; clarify; simp add: core_eq_def)

lemma bind_acp_session_in_steps:
  assumes "bind_acp_session_in X sid b d = Inr d'"
  shows "session_steps d d'"
proof -
  from assms obtain ab d1 where "decide_acp_binding X sid b d = Inr (ab, d1)"
    and "commit_event X sid (harness_actor (bi_harness b)) (JE_AcpBindingChanged ab) d1 = Inr d'"
    by (auto simp: bind_acp_session_in_def result_simps)
  then show ?thesis
    by (rule quiet_then_steps [OF decide_acp_binding_core commit_event_steps]) simp
qed

lemma observation_payload_admissible [simp]: "admissible sid (observation_payload X t m a ob) d"
  by (cases ob) (simp_all add: observation_payload_def Let_def)

lemma new_id_commit_correlated:
  assumes "commit_correlated X sid actor ev corr (snd (new_id X k d)) = Inr d'" and "admissible sid ev d"
  shows "session_steps d d'"
  using new_id_commit [OF _ assms] by (metis surjective_pairing)

lemma new_id_commit_event:
  assumes "commit_event X sid actor ev (snd (new_id X k d)) = Inr d'" and "admissible sid ev d"
  shows "session_steps d d'"
  using assms by (auto simp: commit_event_def intro: new_id_commit_correlated)

lemma acp_observation_steps:
  assumes "record_acp_observation_transaction X sid t a key ob d = Inr d'"
  shows "session_steps d d'"
proof (cases "observation_exists sid key d")
  case False
  with assms have "commit_correlated X sid (harness_actor ''acp'')
      (observation_payload X t (fst (new_id X MessageIdK d)) a ob) key (snd (new_id X MessageIdK d)) = Inr d'"
    by (simp add: record_acp_observation_transaction_def split_beta)
  then show ?thesis by (rule new_id_commit_correlated) simp
qed (use assms in \<open>simp add: record_acp_observation_transaction_def\<close>)

lemma bind_acp_session_with_observations_steps:
  assumes "bind_acp_session_with_observations X sid b t d = Inr d'"
  shows "session_steps d d'"
  using assms
  by (auto simp: bind_acp_session_with_observations_def Let_def bindR_eq_Inr split: if_splits
      dest!: bind_acp_session_in_steps acp_observation_steps)

lemma mark_acp_context_dispatched_steps:
  assumes "mark_acp_context_dispatched_with_observation X sid t a d = Inr d'"
  shows "session_steps d d'"
  using assms
  by (auto simp: mark_acp_context_dispatched_with_observation_def Let_def result_simps
      split: if_splits dest!: commit_event_steps acp_observation_steps)

lemma append_tool_call_steps:
  "append_tool_call X sid t actor call d = Inr d' \<Longrightarrow> active_in sid t d \<Longrightarrow> session_steps d d'"
  by (auto simp: append_tool_call_def split_beta intro: new_id_commit_event)

text \<open>Recording in an active Turn keeps it active, as long as the event does not end it.\<close>

lemma append_session_entry_turns:
  "append_session_entry X je m p k c d = Inr (e, d') \<Longrightarrow> t_turns d' = t_turns d"
  by (auto simp: append_session_entry_def insert_session_entry_def set_leaf_def Let_def result_simps)

lemma tool_call_requested_active:
  assumes "commit_event X sid actor (JE_ToolCallRequested t m call) d = Inr d'"
  shows "active_in s' t' d' = active_in s' t' d"
proof -
  from assms obtain je d1 where
    r: "record_session_event_correlated X sid actor (JE_ToolCallRequested t m call) None d = Inr (je, d1)"
    and ap: "apply_session_journal_entry X je d1 = Inr d'"
    unfolding commit_event_def commit_correlated_def by (auto simp: bindR_eq_Inr)
  from ap obtain e d2 where
    a: "append_session_entry X je m (SP_ToolStarted t call) ''tool_started'' False d1 = Inr (e, d2)"
    and c: "core_eq d2 d'"
    using record_correlated_entry [OF r]
    by (auto simp: apply_session_journal_entry_def apply_tool_call_requested_def bindR_eq_Inr
        dest!: append_durable_core)
  with append_session_entry_turns [OF a] record_correlated_core [OF r] show ?thesis
    by (simp add: active_in_def core_eq_def)
qed

lemma append_tool_call_active:
  assumes "append_tool_call X sid t actor call d = Inr d'"
  shows "active_in s' t' d' = active_in s' t' d"
proof -
  obtain m d1 where n: "new_id X MessageIdK d = (m, d1)" by fastforce
  with assms have "commit_event X sid actor (JE_ToolCallRequested t m call) d1 = Inr d'"
    by (simp add: append_tool_call_def)
  then show ?thesis
    by (simp add: tool_call_requested_active core_eq_views(1) [OF new_id_core [OF n]])
qed

lemma append_tool_calls_steps:
  assumes "foldR (append_tool_call X sid t actor) calls d = Inr d'" and "active_in sid t d"
  shows "session_steps d d' \<and> active_in sid t d'"
  using assms(1)
proof (rule foldR_invariant [where P = "\<lambda>u. session_steps d u \<and> active_in sid t u"])
  show "session_steps d d \<and> active_in sid t d" using assms(2) by simp
  fix call u v
  assume s: "append_tool_call X sid t actor call u = Inr v"
    and u: "session_steps d u \<and> active_in sid t u"
  have "active_in sid t v" using append_tool_call_active [OF s] u by simp
  with append_tool_call_steps [OF s] u show "session_steps d v \<and> active_in sid t v"
    by (auto intro: steps_trans)
qed

lemma append_assistant_response_steps:
  assumes "append_assistant_response_with_tool_calls X sid t response calls d = Inr (e, d')"
  shows "session_steps d d'"
proof -
  obtain m d1 where n: "new_id X MessageIdK d = (m, d1)" by fastforce
  with assms obtain actor d2 d3 where a: "active_in sid t d"
    and c: "commit_event X sid actor (JE_AssistantResponseRecorded t m response) d1 = Inr d2"
    and f: "foldR (append_tool_call X sid t actor) calls d2 = Inr d3"
    and d': "d' = prune_client_events X d3"
    by (auto simp: append_assistant_response_with_tool_calls_def bindR_eq_Inr
        dest!: validate_active_turn_Inr)
  have s: "session_steps d d2"
    using new_id_commit_event [of X sid actor "JE_AssistantResponseRecorded t m response" MessageIdK d d2]
      c n by simp
  have "active_in sid t d2"
  proof -
    from c obtain je d4 e d5 where
      r: "record_session_event_correlated X sid actor (JE_AssistantResponseRecorded t m response) None d1
          = Inr (je, d4)"
      and ap: "apply_session_journal_entry X je d4 = Inr d2"
      unfolding commit_event_def commit_correlated_def by (auto simp: bindR_eq_Inr)
    from ap have "t_turns d2 = t_turns d4"
      using record_correlated_entry [OF r]
      by (auto simp: apply_session_journal_entry_def apply_assistant_response_def bindR_eq_Inr
          Let_def split: if_splits dest!: append_session_entry_turns append_durable_core)
        (simp add: core_eq_def)
    with a record_correlated_core [OF r] new_id_core [OF n] show ?thesis
      by (simp add: active_in_def core_eq_def)
  qed
  from append_tool_calls_steps [OF f this] s d' show ?thesis
    by (meson prune_core steps_then_quiet steps_trans)
qed

lemma append_tool_result_steps:
  "append_tool_result X sid t r d = Inr (e, d') \<Longrightarrow> session_steps d d'"
  by (auto simp: append_tool_result_def split_beta bindR_eq_Inr intro: new_id_commit_event)

lemma complete_tool_execution_steps:
  "complete_tool_execution X sid t r d = Inr d' \<Longrightarrow> session_steps d d'"
  by (auto simp: complete_tool_execution_def bindR_eq_Inr intro: commit_event_steps)

lemma append_tool_requested_steps:
  "append_tool_requested X sid t call d = Inr (e, d') \<Longrightarrow> session_steps d d'"
  by (auto simp: append_tool_requested_def split_beta bindR_eq_Inr dest!: validate_active_turn_Inr
      intro: new_id_commit_event)

lemma append_reasoning_steps:
  "append_reasoning X sid t txt v p key d = Inr d' \<Longrightarrow> session_steps d d'"
  by (auto simp: append_reasoning_def split_beta bindR_eq_Inr split: if_splits
      intro: new_id_commit_correlated)

lemma append_observation_steps:
  "append_observation X sid t actor ob d = Inr d' \<Longrightarrow> session_steps d d'"
  by (auto simp: append_observation_def split_beta split: if_splits intro: new_id_commit_correlated)

lemma append_harness_observations_steps:
  assumes "append_harness_observations X sid t obs d = Inr d'"
  shows "session_steps d d'"
proof -
  from assms obtain actor where "foldR (append_observation X sid t actor) obs d = Inr d'"
    by (auto simp: append_harness_observations_def bindR_eq_Inr)
  then show ?thesis
    by (rule foldR_invariant [where P = "session_steps d"])
      (auto intro: steps_trans append_observation_steps)
qed

lemma emit_signal_core:
  assumes "emit_runtime_signal_with_key X sid t p key d = Inr d'"
  shows "core_eq d d'"
proof (cases "signal_key_exists sid key d")
  case False
  with assms obtain row d2 where "find_active_turn sid t d = Some row"
    and s: "append_runtime_signal_in X (fst (new_signal X sid t (tw_channel_origin row) p d)) key
          (snd (new_signal X sid t (tw_channel_origin row) p d)) = Inr d2"
    and d': "d' = prune_client_events X d2"
    by (auto simp: emit_runtime_signal_with_key_def split_beta result_simps)
  have "core_eq d (snd (new_signal X sid t (tw_channel_origin row) p d))"
    by (metis new_signal_core surjective_pairing)
  with append_signal_core [OF s] show ?thesis
    unfolding d' by (meson core_eq_trans prune_core)
qed (use assms in \<open>simp add: emit_runtime_signal_with_key_def\<close>)

lemma acp_observation_with_event_steps:
  assumes "append_acp_observation_with_client_event X sid t a key ob ev d = Inr d'"
  shows "session_steps d d'"
proof (cases "\<exists>x y z. ob = AO_AssistantDelta x y z")
  case True
  with assms show ?thesis
    by (auto simp: append_acp_observation_with_client_event_def result_simps
        dest!: emit_signal_core steps_quiet)
next
  case False
  with assms obtain d1 where
    o': "record_acp_observation_transaction X sid t a key ob d = Inr d1"
    and r: "(case runtime_payload_from_client ev of
              None \<Rightarrow> Inr (prune_client_events X d1)
            | Some payload \<Rightarrow>
              bindR (okOr (Database QueryReturnedNoRows) (find_active_turn sid t d1)) (\<lambda>row.
              let (sig, d2) = new_signal X sid t (tw_channel_origin row) payload d1 in
              bindR (append_runtime_signal_in X sig key d2) (\<lambda>d3.
              Inr (prune_client_events X d3)))) = Inr d'"
    by (cases ob) (auto simp: append_acp_observation_with_client_event_def bindR_eq_Inr)
  have "core_eq d1 d'"
  proof (cases "runtime_payload_from_client ev")
    case None
    with r show ?thesis by auto
  next
    case (Some payload)
    with r obtain row :: TurnRow and d3 where
      s: "append_runtime_signal_in X (fst (new_signal X sid t (tw_channel_origin row) payload d1)) key
          (snd (new_signal X sid t (tw_channel_origin row) payload d1)) = Inr d3"
      and d': "d' = prune_client_events X d3"
      by (auto simp: split_beta result_simps)
    have "core_eq d1 (snd (new_signal X sid t (tw_channel_origin row) payload d1))"
      by (metis new_signal_core surjective_pairing)
    with append_signal_core [OF s] show ?thesis
      unfolding d' by (meson core_eq_trans prune_core)
  qed
  with acp_observation_steps [OF o'] show ?thesis by (rule steps_then_quiet)
qed

lemma append_message_checked_steps:
  "append_message_checked X sid expected role c md src d = Inr (msg, d') \<Longrightarrow> session_steps d d'"
  by (auto simp: append_message_checked_def split_beta bindR_eq_Inr intro: new_id_commit_event)

lemma append_message_steps:
  "append_message X sid role c md src d = Inr (msg, d') \<Longrightarrow> session_steps d d'"
  by (auto simp: append_message_def bindR_eq_Inr intro: append_message_checked_steps)

lemma set_session_leaf_in_steps:
  "set_session_leaf_in X sid expected leaf d = Inr d' \<Longrightarrow> session_steps d d'"
  by (auto simp: set_session_leaf_in_def result_simps intro!: commit_event_steps)

end
