(* ===== verification/CatalogSteps.thy ===== *)
theory CatalogSteps
  imports Installations SessionSteps
begin

text \<open>
  The catalog tables (Agents and their revisions, Hosts, invitations, the installation and
  its settings) as a step relation with one rule per kind of change, the refinement of every
  catalog operation to a sequence of such steps, and the invariants of the catalog.
\<close>

section \<open>What a command commits\<close>

definition catalog_eq :: "db \<Rightarrow> db \<Rightarrow> bool" where
  "catalog_eq d d' \<longleftrightarrow> t_agents d' = t_agents d \<and> t_agent_revisions d' = t_agent_revisions d
     \<and> t_hosts d' = t_hosts d \<and> t_invitations d' = t_invitations d
     \<and> t_installation d' = t_installation d \<and> t_settings d' = t_settings d"

definition tables_eq :: "db \<Rightarrow> db \<Rightarrow> bool" where
  "tables_eq d d' \<longleftrightarrow> core_eq d d' \<and> catalog_eq d d'"

lemma tables_eq_refl [simp]: "tables_eq d d"
  by (simp add: tables_eq_def core_eq_def catalog_eq_def)

lemma tables_eq_trans: "tables_eq d d' \<Longrightarrow> tables_eq d' d'' \<Longrightarrow> tables_eq d d''"
  by (simp add: tables_eq_def core_eq_def catalog_eq_def)

lemma utc_now_tables: "utc_now X d = (t, d') \<Longrightarrow> tables_eq d d'"
  by (auto simp: utc_now_def tables_eq_def core_eq_def catalog_eq_def)

lemma new_id_tables: "new_id X k d = (i, d') \<Longrightarrow> tables_eq d d'"
  by (auto simp: new_id_def tables_eq_def core_eq_def catalog_eq_def)

lemma ticks_frame [simp]: "tables_eq d (d\<lparr>ticks := n\<rparr>)"
  by (simp add: tables_eq_def core_eq_def catalog_eq_def)

lemma one_event_tables: "one_event X ty i actor ev d = (s, d') \<Longrightarrow> tables_eq d d'"
  by (auto simp: one_event_def new_journal_entry_def split: prod.splits dest: new_id_tables)

type_synonym commit = "JournalSubject \<times> JournalEvent"

definition planned :: "JournalSubjectAppend \<Rightarrow> commit list" where
  "planned s = map (\<lambda>e. (\<lparr>js_kind = sa_subject_type s, js_id = sa_subject_id s\<rparr>, ne_payload e))
     (sa_entries s)"

definition commit_of :: "JournalEntry \<Rightarrow> commit" where
  "commit_of je = (je_subject je, je_payload je)"

lemma one_event_planned [simp]:
  "one_event X ty i actor ev d = (s, d') \<Longrightarrow> planned s = [(\<lparr>js_kind = ty, js_id = i\<rparr>, ev)]"
  by (auto simp: one_event_def new_journal_entry_def planned_def split: prod.splits)

lemma decorate_planned:
  "concat (map planned (ja_subjects (decorate c a))) = concat (map planned (ja_subjects a))"
  by (simp add: decorate_def planned_def [abs_def] comp_def)

lemma append_entry_commits:
  assumes "append_entry X cid at s e (acc, d) = Inr (acc', d')"
  shows "\<exists>je. acc' = acc @ [je] \<and> commit_of je = (\<lparr>js_kind = sa_subject_type s, js_id = sa_subject_id s\<rparr>, ne_payload e)
     \<and> tables_eq d d'"
proof -
  from assms obtain je where
    je: "insert_entry X (Some cid) (sa_subject_type s) (sa_subject_id s) at e d = Inr (je, d')"
    and acc': "acc' = acc @ [je]"
    by (auto simp: append_entry_def result_simps)
  from insert_entry_Inr [OF je] acc' show ?thesis
    by (simp add: commit_of_def tables_eq_def core_eq_def catalog_eq_def)
qed

lemma append_entries_commits:
  assumes "foldR (append_entry X cid at s) es (acc, d) = Inr (acc', d')"
  shows "\<exists>new. acc' = acc @ new \<and> tables_eq d d' \<and>
    map commit_of new = map (\<lambda>e. (\<lparr>js_kind = sa_subject_type s, js_id = sa_subject_id s\<rparr>, ne_payload e)) es"
  using assms
proof (induction es arbitrary: acc d)
  case (Cons e es)
  then obtain acc1 d1 where 1: "append_entry X cid at s e (acc, d) = Inr (acc1, d1)"
    and 2: "foldR (append_entry X cid at s) es (acc1, d1) = Inr (acc', d')"
    by (auto simp: result_simps)
  from append_entry_commits [OF 1] Cons.IH [OF 2] show ?case
    by (fastforce intro: tables_eq_trans)
qed simp

lemma append_subjects_commits:
  assumes "foldR (append_subject X cid at) ss (acc, d) = Inr (acc', d')"
  shows "\<exists>new. acc' = acc @ new \<and> tables_eq d d' \<and> map commit_of new = concat (map planned ss)"
  using assms
proof (induction ss arbitrary: acc d)
  case (Cons s ss)
  then obtain acc1 d1 where "append_subject X cid at s (acc, d) = Inr (acc1, d1)"
    and 2: "foldR (append_subject X cid at) ss (acc1, d1) = Inr (acc', d')"
    by (auto simp: result_simps)
  then have 1: "foldR (append_entry X cid at s) (sa_entries s) (acc, d) = Inr (acc1, d1)"
    by (simp add: append_subject_def)
  from append_entries_commits [OF 1] Cons.IH [OF 2] show ?case
    by (fastforce intro: tables_eq_trans simp: planned_def)
qed simp

text \<open>
  An append either runs its projection once, on exactly the entries it was given, or changes
  no table.
\<close>

definition committed_by :: "(JournalEntry list \<Rightarrow> db \<Rightarrow> StoreError + db) \<Rightarrow> commit list \<Rightarrow> db \<Rightarrow> db \<Rightarrow> bool" where
  "committed_by mutate cs d d' \<longleftrightarrow>
     (\<exists>es d1 d2. map commit_of es = cs \<and> tables_eq d d1 \<and> mutate es d1 = Inr d2 \<and> tables_eq d2 d')"

lemma append_commits:
  assumes "append_journal_entries_in X a mutate d = Inr (out, d')"
  shows "d' = d \<or> committed_by mutate (concat (map planned (ja_subjects a))) d d'"
proof (cases "select_command_receipt (ja_command_id a) d")
  case (Some r)
  with assms show ?thesis by (auto simp: append_journal_entries_in_def result_simps)
next
  case None
  with assms obtain es d2 d3 r where
    f: "foldR (append_subject X (ja_command_id a) (x_now X (ticks d))) (ja_subjects a)
          ([], d\<lparr>ticks := Suc (ticks d)\<rparr>) = Inr (es, d2)"
    and m: "mutate es d2 = Inr d3" and i: "insert_receipt r d3 = Inr d'"
    by (auto simp: append_journal_entries_in_def utc_now_def Let_def result_simps)
  from append_subjects_commits [OF f]
  have "map commit_of es = concat (map planned (ja_subjects a))" "tables_eq d d2"
    by (auto simp: tables_eq_def core_eq_def catalog_eq_def)
  moreover from i have "tables_eq d3 d'"
    by (auto simp: insert_receipt_def result_simps tables_eq_def core_eq_def catalog_eq_def)
  ultimately show ?thesis using m unfolding committed_by_def by blast
qed

lemma committed_by_pre: "tables_eq d d0 \<Longrightarrow> committed_by mutate cs d0 d' \<Longrightarrow> committed_by mutate cs d d'"
  unfolding committed_by_def using tables_eq_trans by blast

text \<open>A command changes tables only by the projection of what it decided.\<close>

lemma transact_commits:
  assumes "transact_command X c operation hash to_result from_result decide mutate d = Inr ((t, b), d')"
  shows "d' = d \<or> (\<exists>subjects d0. decide d = Inr ((t, subjects), d0)
     \<and> (d' = d0 \<or> committed_by mutate (concat (map planned subjects)) d0 d'))"
proof (cases "select_command_receipt (context_operation_id c operation) d")
  case (Some r)
  with assms show ?thesis by (auto simp: transact_command_def result_simps)
next
  case None
  with assms obtain subjects d1 out where
    dec: "decide d = Inr ((t, subjects), d1)" and
    ap: "append_journal_entries_in X (decorate c \<lparr>ja_command_id = context_operation_id c operation,
           ja_request_hash = hash, ja_result = to_result t, ja_subjects = subjects\<rparr>) mutate d1
         = Inr (out, d')"
    by (auto simp: transact_command_def Let_def result_simps)
  from append_commits [OF ap] dec show ?thesis by (auto simp: decorate_planned)
qed

section \<open>The steps\<close>

text \<open>Whose row runs the Hub, and which rows the projections pick.\<close>

definition is_hub :: "HostId \<Rightarrow> db \<Rightarrow> bool" where
  "is_hub h d = (case t_installation d of None \<Rightarrow> False | Some i \<Rightarrow> ins_hub_host_id i = h)"

inductive catalog_step :: "db \<Rightarrow> db \<Rightarrow> bool" where
  Same: "catalog_eq d d' \<Longrightarrow> catalog_step d d'"
| Create:
    "\<forall>q \<in> set (t_agents d). agent_id q \<noteq> agent_id a \<and> agent_slug q \<noteq> agent_slug a \<Longrightarrow>
     agent_current_revision a = 1 \<Longrightarrow> rev_agent_id r = agent_id a \<Longrightarrow> rev_revision r = 1 \<Longrightarrow>
     catalog_step d (d\<lparr>t_agents := t_agents d @ [a], t_agent_revisions := t_agent_revisions d @ [r]\<rparr>)"
| Revise:
    "a \<in> set (t_agents d) \<Longrightarrow> \<not> agent_archived a \<Longrightarrow> rev_agent_id r = agent_id a \<Longrightarrow>
     rev_revision r = Suc (agent_current_revision a) \<Longrightarrow>
     catalog_step d (d\<lparr>t_agents := update_where (\<lambda>q. agent_id q = agent_id a
          \<and> agent_current_revision q = agent_current_revision a \<and> \<not> agent_archived q)
        (\<lambda>q. q\<lparr>agent_current_revision := rev_revision r\<rparr>) (t_agents d),
        t_agent_revisions := t_agent_revisions d @ [r]\<rparr>)"
| Rename:
    "\<forall>q \<in> set (t_agents d). agent_slug q = slug \<longrightarrow> agent_id q = aid \<Longrightarrow>
     catalog_step d (d\<lparr>t_agents := update_where (\<lambda>q. agent_id q = aid \<and> \<not> agent_archived q)
        (\<lambda>q. q\<lparr>agent_slug := slug\<rparr>) (t_agents d)\<rparr>)"
| Archive:
    "catalog_step d (d\<lparr>t_agents := update_where (\<lambda>q. agent_id q = aid \<and> \<not> agent_archived q)
        (\<lambda>q. q\<lparr>agent_archived := True\<rparr>) (t_agents d)\<rparr>)"
| Enroll:
    "\<not> has_host (host_id h) d \<Longrightarrow>
     catalog_step d (d\<lparr>t_hosts := t_hosts d @ [\<lparr>hr_host = h, hr_revoked = False\<rparr>]\<rparr>)"
| Revoke:
    "\<not> is_hub h d \<Longrightarrow>
     catalog_step d (d\<lparr>t_hosts := update_where (\<lambda>r. host_id (hr_host r) = h \<and> \<not> hr_revoked r)
        (\<lambda>r. r\<lparr>hr_revoked := True\<rparr>) (t_hosts d)\<rparr>)"
| Invite:
    "\<forall>q \<in> set (t_invitations d). iv_id q \<noteq> iv_id r \<Longrightarrow> iv_consumed_at r = None \<Longrightarrow>
     catalog_step d (d\<lparr>t_invitations := t_invitations d @ [r]\<rparr>)"
| Consume:
    "catalog_step d (d\<lparr>t_invitations := update_where (\<lambda>r. iv_id r = i \<and> iv_consumed_at r = None)
        (\<lambda>r. r\<lparr>iv_consumed_at := Some at\<rparr>) (t_invitations d)\<rparr>)"
| Install:
    "t_installation d = None \<Longrightarrow> live_host (ins_hub_host_id i) d \<Longrightarrow> ins_generation i = 1 \<Longrightarrow>
     catalog_step d (d\<lparr>t_installation := Some i\<rparr>)"
| Relay: "catalog_step d (apply_relay_changed url h d)"
| Defaults: "catalog_step d (d\<lparr>t_settings := kvs\<rparr>)"
| MoveHub:
    "t_installation d = Some i \<Longrightarrow> live_host h d \<Longrightarrow>
     catalog_step d (d\<lparr>t_installation := Some (i\<lparr>ins_hub_host_id := h,
        ins_generation := Suc (ins_generation i)\<rparr>)\<rparr>)"

abbreviation catalog_steps :: "db \<Rightarrow> db \<Rightarrow> bool" where
  "catalog_steps \<equiv> catalog_step\<^sup>*\<^sup>*"

lemma catalog_same: "tables_eq d d' \<Longrightarrow> catalog_step d d'"
  by (simp add: tables_eq_def Same)

text \<open>A committed event is one step, if the state it was decided in admits it.\<close>

fun decided :: "commit \<Rightarrow> db \<Rightarrow> bool" where
  "decided (s, JE_AgentCreated a r) d =
     (agent_current_revision a = 1 \<and> rev_agent_id r = agent_id a \<and> rev_revision r = 1)"
| "decided (s, JE_AgentRevisionCreated r) d = (0 < rev_revision r)"
| "decided (s, JE_InstallationCreated i) d = (ins_generation i = 1 \<and> live_host (ins_hub_host_id i) d)"
| "decided (s, JE_HubChanged h generation) d =
     (live_host h d \<and> (\<forall>i. t_installation d = Some i \<longrightarrow> generation = Suc (ins_generation i)))"
| "decided c d = True"

lemma decided_tables: "tables_eq d d' \<Longrightarrow> decided c d' = decided c d"
  by (induction c d rule: decided.induct)
    (auto simp: tables_eq_def catalog_eq_def live_host_def)

lemma count_where_gt0: "0 < count_where p xs \<longleftrightarrow> (\<exists>x\<in>set xs. p x)"
  using count_where_pos [of p xs] by simp

lemma apply_agent_revision_step:
  assumes "apply_agent_revision r d = Inr d'" and "0 < rev_revision r"
  shows "catalog_step d d'"
proof -
  let ?p = "\<lambda>a. agent_id a = rev_agent_id r \<and> agent_current_revision a = rev_revision r - 1
                  \<and> \<not> agent_archived a"
  from assms(1) have one: "count_where ?p (t_agents d) = 1"
    and d': "d' = d\<lparr>t_agents := update_where ?p (\<lambda>a. a\<lparr>agent_current_revision := rev_revision r\<rparr>)
                   (t_agents d), t_agent_revisions := t_agent_revisions d @ [r]\<rparr>"
    by (auto simp: apply_agent_revision_def insert_agent_revision_def Let_def result_simps
        split: if_splits)
  from one obtain a where "a \<in> set (t_agents d)" "?p a" using count_where_1D [of ?p] by auto
  with Revise [of a d r] assms(2) show ?thesis by (simp add: d')
qed

lemma apply_agent_event_step:
  assumes "apply_agent_event je d = Inr d'" and "decided (commit_of je) d"
  shows "catalog_step d d'"
proof (cases "je_payload je")
  case (JE_AgentCreated a r)
  with assms show ?thesis
    by (auto simp: apply_agent_event_def apply_agent_created_def insert_or_ignore_agent_def
        insert_agent_revision_def commit_of_def result_simps split: if_splits
        intro!: Create [simplified])
next
  case (JE_AgentRevisionCreated r)
  with assms show ?thesis
    by (simp add: apply_agent_event_def commit_of_def apply_agent_revision_step)
next
  case (JE_AgentRenamed slug)
  let ?aid = "js_id (je_subject je)"
  let ?p = "\<lambda>a. agent_id a = ?aid \<and> \<not> agent_archived a
      \<and> \<not> exists_where (\<lambda>b. agent_slug b = slug \<and> agent_id b \<noteq> ?aid) (t_agents d)"
  from assms JE_AgentRenamed have e: "\<exists>a \<in> set (t_agents d). ?p a"
    and d': "d' = d\<lparr>t_agents := update_where ?p (\<lambda>a. a\<lparr>agent_slug := slug\<rparr>) (t_agents d)\<rparr>"
    by (auto simp: apply_agent_event_def apply_agent_renamed_def Let_def result_simps count_where_gt0)
  then have free: "\<forall>q \<in> set (t_agents d). agent_slug q = slug \<longrightarrow> agent_id q = ?aid" by auto
  then have eq: "?p = (\<lambda>q. agent_id q = ?aid \<and> \<not> agent_archived q)" by auto
  show ?thesis unfolding d' eq by (rule Rename [OF free])
next
  case JE_AgentArchived
  with assms show ?thesis
    by (auto simp: apply_agent_event_def apply_agent_archived_def Let_def result_simps intro: Archive)
qed (use assms in \<open>auto simp: apply_agent_event_def intro: catalog_same\<close>)

lemma apply_host_event_step:
  assumes "apply_host_event je d = Inr d'"
  shows "catalog_step d d'"
proof (cases "je_payload je")
  case (JE_HostEnrolled h)
  with assms have "d' = d\<lparr>t_hosts := t_hosts d @ [\<lparr>hr_host = h, hr_revoked = False\<rparr>]\<rparr>"
    "\<not> has_host (host_id h) d"
    by (auto simp: apply_host_event_def insert_host_def has_host_def Let_def result_simps)
  then show ?thesis by (simp add: Enroll)
next
  case (JE_HostRevoked h)
  let ?p = "\<lambda>r. host_id (hr_host r) = h \<and> \<not> hr_revoked r
                  \<and> (case t_installation d of None \<Rightarrow> False
                      | Some i \<Rightarrow> host_id (hr_host r) \<noteq> ins_hub_host_id i)"
  from assms JE_HostRevoked have e: "\<exists>r \<in> set (t_hosts d). ?p r"
    and d': "d' = d\<lparr>t_hosts := update_where ?p (\<lambda>r. r\<lparr>hr_revoked := True\<rparr>) (t_hosts d)\<rparr>"
    by (auto simp: apply_host_event_def apply_host_revoked_def Let_def result_simps count_where_gt0)
  then have nh: "\<not> is_hub h d" "?p = (\<lambda>r. host_id (hr_host r) = h \<and> \<not> hr_revoked r)"
    by (auto simp: is_hub_def split: option.splits)
  show ?thesis unfolding d' nh(2) by (rule Revoke [OF nh(1)])
next
  case (JE_HostInvitationCreated i expires verifier)
  with assms show ?thesis
    by (auto simp: apply_host_event_def insert_invitation_def result_simps intro!: Invite)
next
  case (JE_HostInvitationConsumed i h)
  with assms show ?thesis
    by (auto simp: apply_host_event_def apply_invitation_consumed_def Let_def result_simps intro: Consume)
qed (use assms in \<open>auto simp: apply_host_event_def intro: catalog_same\<close>)

lemma apply_installation_event_step:
  assumes "apply_installation_event je d = Inr d'" and "decided (commit_of je) d"
  shows "catalog_step d d'"
proof (cases "je_payload je")
  case (JE_InstallationCreated i)
  with assms show ?thesis
    by (auto simp: apply_installation_event_def insert_installation_def commit_of_def result_simps
        intro!: Install)
next
  case (JE_RelayChanged url h)
  with assms show ?thesis by (auto simp: apply_installation_event_def intro: Relay)
next
  case (JE_ProviderDefaultsChanged p)
  have put: "\<exists>kvs. put_setting k v d = d\<lparr>t_settings := kvs\<rparr>" for k v and d :: db
    by (auto simp: put_setting_def split: option.splits)
  obtain k1 where k1: "put_setting ''default_model'' (pd_model p) d = d\<lparr>t_settings := k1\<rparr>"
    using put by blast
  obtain k2 where "put_setting ''default_reasoning'' (map_option reasoning_json (pd_reasoning p))
      (d\<lparr>t_settings := k1\<rparr>) = (d\<lparr>t_settings := k1\<rparr>)\<lparr>t_settings := k2\<rparr>"
    using put by blast
  with k1 have "apply_provider_defaults p d = d\<lparr>t_settings := k2\<rparr>"
    by (simp add: apply_provider_defaults_def)
  with JE_ProviderDefaultsChanged assms show ?thesis
    by (auto simp: apply_installation_event_def intro: Defaults)
next
  case (JE_HubChanged h generation)
  with assms show ?thesis
    by (auto simp: apply_installation_event_def apply_hub_changed_def commit_of_def result_simps
        split: option.splits intro: MoveHub catalog_same)
qed (use assms in \<open>auto simp: apply_installation_event_def intro: catalog_same\<close>)

section \<open>Every catalog operation is a sequence of steps\<close>

text \<open>The other half of the frame: a catalog projection leaves the Session tables alone.\<close>

lemma apply_agent_event_core: "apply_agent_event je d = Inr d' \<Longrightarrow> core_eq d d'"
  by (cases "je_payload je")
    (auto simp: apply_agent_event_def apply_agent_created_def insert_or_ignore_agent_def
      apply_agent_revision_def insert_agent_revision_def apply_agent_renamed_def
      apply_agent_archived_def core_eq_def Let_def result_simps split: if_splits)

lemma apply_host_event_core: "apply_host_event je d = Inr d' \<Longrightarrow> core_eq d d'"
  by (cases "je_payload je")
    (auto simp: apply_host_event_def insert_host_def apply_host_revoked_def insert_invitation_def
      apply_invitation_consumed_def core_eq_def Let_def result_simps)

lemma apply_installation_event_core: "apply_installation_event je d = Inr d' \<Longrightarrow> core_eq d d'"
  by (cases "je_payload je")
    (auto simp: apply_installation_event_def insert_installation_def apply_relay_changed_def
      apply_provider_defaults_def put_setting_def apply_hub_changed_def core_eq_def Let_def
      result_simps split: option.splits if_splits)

definition catalog_change :: "db \<Rightarrow> db \<Rightarrow> bool" where
  "catalog_change d d' \<longleftrightarrow> core_eq d d' \<and> catalog_steps d d'"

lemma catalog_change_refl [simp]: "catalog_change d d"
  by (simp add: catalog_change_def)

lemma catalog_change_trans:
  "catalog_change d d' \<Longrightarrow> catalog_change d' d'' \<Longrightarrow> catalog_change d d''"
  unfolding catalog_change_def by (meson core_eq_trans rtranclp_trans)

lemma tables_change: "tables_eq d d' \<Longrightarrow> catalog_change d d'"
  unfolding catalog_change_def using catalog_same by (auto simp: tables_eq_def)

lemma agent_event_change:
  "apply_agent_event je d = Inr d' \<Longrightarrow> decided (commit_of je) d \<Longrightarrow> catalog_change d d'"
  unfolding catalog_change_def using apply_agent_event_core apply_agent_event_step by blast

lemma host_event_change: "apply_host_event je d = Inr d' \<Longrightarrow> catalog_change d d'"
  unfolding catalog_change_def using apply_host_event_core apply_host_event_step by blast

lemma installation_event_change:
  "apply_installation_event je d = Inr d' \<Longrightarrow> decided (commit_of je) d \<Longrightarrow> catalog_change d d'"
  unfolding catalog_change_def using apply_installation_event_core apply_installation_event_step
  by blast

lemma host_events_change: "apply_host_events es d = Inr d' \<Longrightarrow> catalog_change d d'"
  unfolding apply_host_events_def
  by (erule foldR_invariant [where P = "catalog_change d"])
    (auto intro: catalog_change_trans host_event_change)

lemma committed_by_one:
  assumes "committed_by (foldR f) [c] d d'"
    and "\<And>je d1 d2. commit_of je = c \<Longrightarrow> f je d1 = Inr d2 \<Longrightarrow> tables_eq d d1 \<Longrightarrow> catalog_change d1 d2"
  shows "catalog_change d d'"
proof -
  from assms(1) obtain je d1 d2 where "commit_of je = c" "tables_eq d d1" "f je d1 = Inr d2" "tables_eq d2 d'"
    by (auto simp: committed_by_def bindR_eq_Inr Cons_eq_map_conv)
  with assms(2) [of je d1 d2] show ?thesis by (blast intro: catalog_change_trans tables_change)
qed

lemma agent_commit_change:
  "committed_by apply_agent_events [c] d d' \<Longrightarrow> decided c d \<Longrightarrow> catalog_change d d'"
  unfolding apply_agent_events_def [abs_def]
  by (erule committed_by_one) (auto simp: decided_tables intro: agent_event_change)

lemma installation_commit_change:
  "committed_by apply_installation_events [c] d d' \<Longrightarrow> decided c d \<Longrightarrow> catalog_change d d'"
  unfolding apply_installation_events_def [abs_def]
  by (erule committed_by_one) (auto simp: decided_tables intro: installation_event_change)

lemma host_commit_change: "committed_by apply_host_events cs d d' \<Longrightarrow> catalog_change d d'"
  unfolding committed_by_def
  by (blast intro: catalog_change_trans tables_change host_events_change)

text \<open>A command whose decision reads the tables and plans one event.\<close>

lemma transact_change:
  assumes "transact_command X c operation hash to_result from_result decide mutate d = Inr ((t, b), d')"
    and "\<And>subjects d0. decide d = Inr ((t, subjects), d0) \<Longrightarrow> tables_eq d d0"
    and "\<And>subjects d0. decide d = Inr ((t, subjects), d0) \<Longrightarrow>
      committed_by mutate (concat (map planned subjects)) d0 d' \<Longrightarrow> catalog_change d0 d'"
  shows "catalog_change d d'"
  using transact_commits [OF assms(1)] assms(2,3)
  by (metis catalog_change_refl catalog_change_trans tables_change)

text \<open>What each decision draws and plans.\<close>

lemmas draw_defs = utc_now_def new_id_def one_event_def new_journal_entry_def Let_def
lemmas tables_defs = tables_eq_def core_eq_def catalog_eq_def

lemma decide_create_agent_Inr:
  assumes "decide_create_agent X slug soul config_toml author d = Inr (((a, r), ss), d0)"
  shows "tables_eq d d0" and "concat (map planned ss) = [(\<lparr>js_kind = ST_Agent, js_id = agent_id a\<rparr>, JE_AgentCreated a r)]"
    and "agent_current_revision a = 1" and "rev_agent_id r = agent_id a" and "rev_revision r = 1"
    and "agent_slug a = slug"
  using assms by (auto simp: decide_create_agent_def draw_defs tables_defs planned_def revision_def)

lemma decide_rename_agent_Inr:
  assumes "decide_rename_agent X slug new_slug d = Inr ((a, ss), d0)"
  shows "tables_eq d d0" and "concat (map planned ss) = [(\<lparr>js_kind = ST_Agent, js_id = agent_id a\<rparr>, JE_AgentRenamed new_slug)]"
  using assms by (auto simp: decide_rename_agent_def draw_defs tables_defs planned_def result_simps)

lemma decide_archive_agent_Inr:
  assumes "decide_archive_agent X slug d = Inr ((u, ss), d0)"
  shows "tables_eq d d0" and "\<exists>i. concat (map planned ss) = [(\<lparr>js_kind = ST_Agent, js_id = i\<rparr>, JE_AgentArchived)]"
  using assms by (auto simp: decide_archive_agent_def draw_defs tables_defs planned_def result_simps)

lemma decide_update_agent_Inr:
  assumes "decide_update_agent X aid expected soul config_toml author d = Inr ((r, ss), d0)"
  shows "tables_eq d d0" and "concat (map planned ss) = [(\<lparr>js_kind = ST_Agent, js_id = aid\<rparr>, JE_AgentRevisionCreated r)]"
    and "rev_revision r = Suc expected" and "rev_agent_id r = aid"
    and "\<exists>a \<in> set (t_agents d). agent_id a = aid \<and> \<not> agent_archived a \<and> agent_current_revision a = expected"
  using assms by (auto simp: decide_update_agent_def draw_defs tables_defs planned_def revision_def
      result_simps dest!: find_SomeD)

lemma decide_revoke_host_Inr:
  "decide_revoke_host X h d = Inr ((u, ss), d0) \<Longrightarrow> tables_eq d d0"
  by (auto simp: decide_revoke_host_def draw_defs tables_defs result_simps)

lemma decide_consume_invitation_Inr:
  "decide_consume_invitation X i secret name pk nk url d = Inr ((h, ss), d0) \<Longrightarrow> tables_eq d d0"
  by (auto simp: decide_consume_invitation_def draw_defs tables_defs result_simps)

lemma decide_defaults_Inr:
  assumes "decide_defaults X f d = Inr ((u, ss), d0)"
  shows "tables_eq d d0" and "\<exists>i p. concat (map planned ss) = [(\<lparr>js_kind = ST_Installation, js_id = i\<rparr>, JE_ProviderDefaultsChanged p)]"
  using assms by (auto simp: decide_defaults_def draw_defs tables_defs planned_def result_simps)

lemma required_installation_Inr: "required_installation X d = Inr i \<Longrightarrow> t_installation d = Some i"
  by (auto simp: required_installation_def installation_def result_simps split: option.splits)

lemma decide_move_hub_Inr:
  assumes "decide_move_hub X expected target d = Inr ((i', ss), d0)"
  shows "tables_eq d d0" and "concat (map planned ss)
      = [(\<lparr>js_kind = ST_Installation, js_id = ins_id i'\<rparr>, JE_HubChanged target (ins_generation i'))]"
    and "live_host target d"
    and "\<exists>i. t_installation d = Some i \<and> ins_hub_host_id i = expected
           \<and> i' = i\<lparr>ins_hub_host_id := target, ins_generation := Suc (ins_generation i)\<rparr>"
  using assms by (auto simp: decide_move_hub_def draw_defs tables_defs planned_def result_simps
      dest!: required_installation_Inr)

lemma create_agent_change:
  assumes "create_agent X c slug soul config_toml author d = Inr ((a, r), d')"
  shows "catalog_change d d'"
proof -
  from assms obtain b where tr: "transact_command X c ''create_agent''
      (command_request_hash X (RQ_CreateAgent slug soul config_toml author))
      (\<lambda>(a, r). CR_AgentCreated a r) created_result
      (decide_create_agent X slug soul config_toml author) apply_agent_events d = Inr (((a, r), b), d')"
    by (auto simp: create_agent_def result_simps)
  show ?thesis
    by (rule transact_change [OF tr])
      (auto simp: decide_create_agent_Inr intro: agent_commit_change)
qed

lemma rename_agent_change:
  assumes "rename_agent_with_command X c command slug new_slug d = Inr (a, d')"
  shows "catalog_change d d'"
proof -
  from assms obtain b where tr: "transact_command X c command
      (command_request_hash X (RQ_RenameAgent slug new_slug)) CR_Agent agent_result
      (decide_rename_agent X slug new_slug) apply_agent_events d = Inr ((a, b), d')"
    by (auto simp: rename_agent_with_command_def result_simps)
  show ?thesis
    by (rule transact_change [OF tr])
      (auto simp: decide_rename_agent_Inr intro: agent_commit_change)
qed

lemma archive_agent_change:
  assumes "archive_agent X c slug d = Inr d'"
  shows "catalog_change d d'"
proof -
  from assms obtain b where tr: "transact_command X c ''archive_agent''
      (command_request_hash X (RQ_ArchiveAgent slug)) (\<lambda>_. CR_Unit) unit_result
      (decide_archive_agent X slug) apply_agent_events d = Inr (((), b), d')"
    by (auto simp: archive_agent_def result_simps)
  show ?thesis
    by (rule transact_change [OF tr])
      (use decide_archive_agent_Inr in \<open>fastforce intro: agent_commit_change\<close>)+
qed

lemma update_agent_change:
  assumes "update_agent X c aid expected soul config_toml author d = Inr (r, d')"
  shows "catalog_change d d'"
proof -
  from assms obtain b where tr: "transact_command X c ''update_agent''
      (command_request_hash X (RQ_UpdateAgent aid expected soul config_toml author))
      CR_AgentRevision revision_result
      (decide_update_agent X aid expected soul config_toml author) apply_agent_events d = Inr ((r, b), d')"
    by (auto simp: update_agent_def result_simps)
  show ?thesis
    by (rule transact_change [OF tr])
      (auto simp: decide_update_agent_Inr intro: agent_commit_change)
qed

lemma revoke_host_change:
  assumes "revoke_host X c h d = Inr d'"
  shows "catalog_change d d'"
proof -
  from assms obtain b where tr: "transact_command X c ''revoke_host''
      (command_request_hash X (RQ_RevokeHost h)) (\<lambda>_. CR_Unit) unit_result
      (decide_revoke_host X h) apply_host_events d = Inr (((), b), d')"
    by (auto simp: revoke_host_def result_simps)
  show ?thesis
    by (rule transact_change [OF tr]) (auto dest: decide_revoke_host_Inr intro: host_commit_change)
qed

text \<open>An append whose subjects the operation has built itself.\<close>

lemma append_change:
  assumes "append_journal_entries_in X a mutate d0 = Inr (out, d')" and "tables_eq d d0"
    and "committed_by mutate (concat (map planned (ja_subjects a))) d d' \<Longrightarrow> catalog_change d d'"
  shows "catalog_change d d'"
  using append_commits [OF assms(1)] committed_by_pre [OF assms(2)] assms(2,3) tables_change by blast

lemma create_invitation_change:
  assumes "create_invitation X c expires d = Inr (iv, d')"
  shows "catalog_change d d'"
proof -
  from assms obtain a d0 out where ap: "append_journal_entries_in X a apply_host_events d0 = Inr (out, d')"
    and "d0 = d\<lparr>ticks := ticks d0\<rparr>"
    by (auto simp: create_invitation_def new_secret_def draw_defs result_simps)
  then have "tables_eq d d0" by (metis (no_types) tables_eq_refl ticks_frame)
  with ap show ?thesis by (rule append_change) (rule host_commit_change)
qed

lemma consume_invitation_change:
  assumes "consume_invitation X c i secret name pk nk url d = Inr (h, d')"
  shows "catalog_change d d'"
proof -
  from assms obtain b where tr: "transact_command X c ''consume_invitation''
      (command_request_hash X (RQ_ConsumeInvitation i (secret_hash X secret) name pk nk url))
      CR_Host host_result (decide_consume_invitation X i secret name pk nk url)
      apply_host_events d = Inr ((h, b), d')"
    by (auto simp: consume_invitation_def result_simps)
  show ?thesis
    by (rule transact_change [OF tr])
      (auto dest: decide_consume_invitation_Inr intro: host_commit_change)
qed

lemma append_installation_event_change:
  assumes "append_installation_event X c command request payload d = Inr d'"
    and "\<And>s. decided (s, payload) d"
  shows "catalog_change d d'"
proof -
  from assms(1) obtain i where i: "required_installation X d = Inr i"
    by (auto simp: append_installation_event_def result_simps)
  obtain s d0 where s: "one_event X ST_Installation (ins_id i) actor_system payload d = (s, d0)"
    by (cases "one_event X ST_Installation (ins_id i) actor_system payload d")
  let ?a = "decorate c \<lparr>ja_command_id = context_operation_id c command,
     ja_request_hash = command_request_hash X request, ja_result = CR_Unit, ja_subjects = [s]\<rparr>"
  from assms(1) i s obtain out where
    ap: "append_journal_entries_in X ?a apply_installation_events d0 = Inr (out, d')"
    by (auto simp: append_installation_event_def result_simps)
  have a: "concat (map planned (ja_subjects ?a)) = planned s" by (simp add: decorate_planned)
  show ?thesis
    by (rule append_change [OF ap one_event_tables [OF s]])
      (use assms(2) in \<open>auto simp: a one_event_planned [OF s] intro: installation_commit_change\<close>)
qed

lemma set_relay_url_change: "set_relay_url X c url d = Inr d' \<Longrightarrow> catalog_change d d'"
  by (auto simp: set_relay_url_def result_simps elim: append_installation_event_change)

lemma set_installation_relay_url_change:
  "set_installation_relay_url X c url d = Inr d' \<Longrightarrow> catalog_change d d'"
  by (auto simp: set_installation_relay_url_def elim: append_installation_event_change)

lemma decide_defaults_change:
  assumes "transact_command X c operation hash (\<lambda>_. CR_Unit) unit_result (decide_defaults X f)
    apply_installation_events d = Inr ((u, b), d')"
  shows "catalog_change d d'"
proof (rule transact_change [OF assms])
  fix ss d0 assume dec: "decide_defaults X f d = Inr ((u, ss), d0)"
  show "tables_eq d d0" by (rule decide_defaults_Inr(1) [OF dec])
  assume "committed_by apply_installation_events (concat (map planned ss)) d0 d'"
  with decide_defaults_Inr(2) [OF dec] show "catalog_change d0 d'"
    by (auto intro: installation_commit_change)
qed

lemma set_default_model_change: "set_default_model X c model d = Inr d' \<Longrightarrow> catalog_change d d'"
  by (auto simp: set_default_model_def result_simps elim: decide_defaults_change)

lemma set_default_reasoning_change: "set_default_reasoning X c r d = Inr d' \<Longrightarrow> catalog_change d d'"
  by (auto simp: set_default_reasoning_def result_simps elim: decide_defaults_change)

lemma move_hub_change:
  assumes "move_hub X c expected target d = Inr (i, d')"
  shows "catalog_change d d'"
proof -
  from assms obtain b where tr: "transact_command X c ''move_hub''
      (command_request_hash X (RQ_MoveHub expected target)) CR_Installation installation_result
      (decide_move_hub X expected target) apply_installation_events d = Inr ((i, b), d')"
    by (auto simp: move_hub_def result_simps)
  show ?thesis
  proof (rule transact_change [OF tr])
    fix ss d0 assume dec: "decide_move_hub X expected target d = Inr ((i, ss), d0)"
    show t: "tables_eq d d0" by (rule decide_move_hub_Inr(1) [OF dec])
    assume "committed_by apply_installation_events (concat (map planned ss)) d0 d'"
    moreover have "decided (\<lparr>js_kind = ST_Installation, js_id = ins_id i\<rparr>,
        JE_HubChanged target (ins_generation i)) d0"
      unfolding decided_tables [OF t] using decide_move_hub_Inr(3,4) [OF dec] by auto
    ultimately show "catalog_change d0 d'"
      unfolding decide_move_hub_Inr(2) [OF dec] by (rule installation_commit_change)
  qed
qed

text \<open>Initialization commits the first Host and the installation it runs, in this order.\<close>

lemma initial_events_change:
  assumes "committed_by apply_initial_events [(s1, JE_HostEnrolled h), (s2, JE_InstallationCreated i)] d d'"
    and "ins_hub_host_id i = host_id h" and "ins_generation i = 1"
  shows "catalog_change d d'"
proof -
  from assms(1) obtain e1 e2 d1 d2 d3 where t: "tables_eq d d1" "tables_eq d3 d'"
    and p: "je_payload e1 = JE_HostEnrolled h" "je_payload e2 = JE_InstallationCreated i"
    and hs: "apply_host_events [e1, e2] d1 = Inr d2"
    and ie: "apply_installation_events [e1, e2] d2 = Inr d3"
    by (auto simp: committed_by_def commit_of_def apply_initial_events_def bindR_eq_Inr Cons_eq_map_conv)
  from hs p have "live_host (host_id h) d2"
    by (auto simp: apply_host_events_def apply_host_event_def insert_host_def live_host_def Let_def
        result_simps)
  moreover from ie p have "apply_installation_event e2 d2 = Inr d3"
    by (simp add: apply_installation_events_def apply_installation_event_def result_simps)
  ultimately have "catalog_change d2 d3"
    using p assms(2,3) by (intro installation_event_change [of e2]) (simp_all add: commit_of_def)
  with t host_events_change [OF hs] show ?thesis by (blast intro: catalog_change_trans tables_change)
qed

lemma initialize_change:
  assumes "initialize X c name pk nk ik d = Inr (i, d')"
  shows "catalog_change d d'"
proof (cases "d' = d")
  case False
  let ?now = "x_now X (ticks d)" and ?hid = "fst (new_id X HostIdK (d\<lparr>ticks := ticks d + 1\<rparr>))"
    and ?d3 = "d\<lparr>ticks := ticks d + 3\<rparr>" and ?d0 = "d\<lparr>ticks := ticks d + 5\<rparr>"
  let ?h = "\<lparr>host_id = ?hid, host_name = name, host_public_key = pk, host_noise_public_key = nk,
      host_relay_url = None, host_created_at = ?now\<rparr>"
  let ?e1 = "one_event X ST_Host ?hid actor_system (JE_HostEnrolled ?h) ?d3"
  let ?e2 = "one_event X ST_Installation (ins_id i) actor_system (JE_InstallationCreated i)
      (d\<lparr>ticks := ticks d + 4\<rparr>)"
  let ?a = "decorate c \<lparr>ja_command_id = context_operation_id c ''initialize'',
      ja_request_hash = command_request_hash X (RQ_Initialize name pk nk ik),
      ja_result = CR_Installation i, ja_subjects = [fst ?e1, fst ?e2]\<rparr>"
  have i: "ins_hub_host_id i = ?hid" "ins_generation i = 1"
    using assms False by (auto simp: initialize_def draw_defs result_simps split: option.splits)
  obtain out where ap: "append_journal_entries_in X ?a apply_initial_events ?d0 = Inr (out, d')"
    using assms False
    by (auto simp: initialize_def draw_defs result_simps eval_nat_numeral split: option.splits)
  have a: "concat (map planned (ja_subjects ?a))
     = [(\<lparr>js_kind = ST_Host, js_id = ?hid\<rparr>, JE_HostEnrolled ?h),
        (\<lparr>js_kind = ST_Installation, js_id = ins_id i\<rparr>, JE_InstallationCreated i)]"
    by (simp add: decorate_planned planned_def draw_defs)
  show ?thesis
    by (rule append_change [OF ap ticks_frame], unfold a, erule initial_events_change)
      (simp_all add: i)
qed simp

end
