(* ===== verification/CatalogInv.thy ===== *)
theory CatalogInv
  imports CatalogSteps
begin

text \<open>
  The invariants of the catalog tables and what a change may never undo. Each is proved for
  one catalog step and carried to every catalog operation by the interface \<open>step_invariant\<close>.
\<close>

section \<open>Agents\<close>

definition revisions_of :: "AgentId \<Rightarrow> db \<Rightarrow> AgentRevision list" where
  "revisions_of aid d = filter (\<lambda>r. rev_agent_id r = aid) (t_agent_revisions d)"

text \<open>Identifiers and slugs are unique; the revisions of an Agent are 1 to the current one.\<close>

definition agents_ok :: "db \<Rightarrow> bool" where
  "agents_ok d \<longleftrightarrow> distinct (map agent_id (t_agents d)) \<and> distinct (map agent_slug (t_agents d))
     \<and> (\<forall>a \<in> set (t_agents d).
          map rev_revision (revisions_of (agent_id a) d) = [1..<Suc (agent_current_revision a)])
     \<and> (\<forall>r \<in> set (t_agent_revisions d). has_agent (rev_agent_id r) d)"

lemma agents_ok_cong:
  "t_agents d' = t_agents d \<Longrightarrow> t_agent_revisions d' = t_agent_revisions d \<Longrightarrow> agents_ok d' = agents_ok d"
  by (simp add: agents_ok_def revisions_of_def has_agent_def)

lemma agents_okD:
  assumes "agents_ok d" and "a \<in> set (t_agents d)"
  shows "map rev_revision (revisions_of (agent_id a) d) = [1..<Suc (agent_current_revision a)]"
  using assms unfolding agents_ok_def by blast

lemma agents_ok_unique:
  "agents_ok d \<Longrightarrow> a \<in> set (t_agents d) \<Longrightarrow> b \<in> set (t_agents d) \<Longrightarrow> agent_id a = agent_id b \<Longrightarrow> a = b"
  by (auto simp: agents_ok_def dest: distinct_map_eqD)

lemma has_agent_ids: "has_agent aid d \<longleftrightarrow> aid \<in> set (map agent_id (t_agents d))"
  by (auto simp: has_agent_def)

text \<open>A row that had a property keeps it under its key when the update respects both.\<close>

lemma update_where_keeps:
  assumes "\<And>x. q x \<Longrightarrow> p x \<Longrightarrow> q (f x) \<and> k (f x) = k x"
  shows "k ` {x \<in> set xs. q x} \<subseteq> k ` {x \<in> set (update_where p f xs). q x}"
proof
  fix y assume "y \<in> k ` {x \<in> set xs. q x}"
  then obtain x where x: "x \<in> set xs" "q x" "y = k x" by blast
  let ?x = "if p x then f x else x"
  have "?x \<in> set (update_where p f xs)" using x(1) by (simp only: set_update_where image_eqI)
  moreover have "q ?x" "k ?x = y" using assms [of x] x by auto
  ultimately show "y \<in> k ` {x \<in> set (update_where p f xs). q x}" by blast
qed

lemma distinct_update_key:
  assumes "distinct (map k xs)" and "distinct (map s xs)" and "\<And>x. p x \<Longrightarrow> k x = key"
    and "\<forall>x \<in> set xs. s x = new \<longrightarrow> k x = key" and "\<And>x. s (f x) = new"
  shows "distinct (map s (update_where p f xs))"
  using assms(1,2,4)
proof (induction xs)
  case (Cons x xs)
  have tail: "distinct (map s (update_where p f xs))" using Cons by simp
  have px: "\<forall>y \<in> set xs. \<not> p y" if "p x"
  proof (intro ballI notI)
    fix y assume "y \<in> set xs" "p y"
    with assms(3) [OF that] assms(3) [of y] have "k x \<in> k ` set xs" by (auto intro: image_eqI [of _ _ y])
    with Cons.prems(1) show False by simp
  qed
  have fresh: "new \<notin> s ` set xs" if "p x"
    using Cons.prems(1,3) assms(3) [OF that] by (auto simp: image_iff)
  have sx: "s x \<noteq> new" if "y \<in> set xs" "p y" for y
    using Cons.prems(1,3) assms(3) [OF that(2)] that(1) by force
  show ?case
  proof (cases "p x")
    case True
    with px have "update_where p f xs = xs" by (auto intro: update_where_id)
    with tail fresh True show ?thesis by (simp add: assms(5))
  next
    case False
    have "s x \<notin> s ` set (update_where p f xs)"
    proof
      assume "s x \<in> s ` set (update_where p f xs)"
      then obtain y where "y \<in> set xs" "s x = s (if p y then f y else y)"
        by (auto simp only: set_update_where image_iff)
      with sx [of y] Cons.prems(2) show False by (cases "p y") (auto simp: assms(5))
    qed
    with tail False show ?thesis by simp
  qed
qed simp

text \<open>A change of Agent rows that keeps identifiers and current revisions.\<close>

lemma agents_ok_rows:
  assumes "agents_ok d" and "t_agent_revisions d' = t_agent_revisions d"
    and "t_agents d' = update_where p f (t_agents d)"
    and "\<And>a. agent_id (f a) = agent_id a" and "\<And>a. agent_current_revision (f a) = agent_current_revision a"
    and "distinct (map agent_slug (t_agents d'))"
  shows "agents_ok d'"
proof -
  have "map agent_id (t_agents d') = map agent_id (t_agents d)" by (simp add: assms(3,4) map_update_where)
  moreover have "\<exists>b \<in> set (t_agents d). agent_id a = agent_id b
      \<and> agent_current_revision a = agent_current_revision b" if "a \<in> set (t_agents d')" for a
    using that by (force simp: assms(3,4,5) set_update_where)
  ultimately show ?thesis
    using assms(1,2,6) unfolding agents_ok_def revisions_of_def has_agent_ids by metis
qed

lemma agents_ok_step: "catalog_step d d' \<Longrightarrow> agents_ok d \<Longrightarrow> agents_ok d'"
proof (induction rule: catalog_step.induct)
  case (Create d a r)
  have none: "revisions_of (agent_id a) d = []"
    using Create.hyps(1) Create.prems by (auto simp: agents_ok_def revisions_of_def has_agent_def filter_empty_conv)
  show ?case
    using Create.hyps Create.prems none
    by (auto simp: agents_ok_def revisions_of_def has_agent_def)
next
  case (Revise a d r)
  let ?p = "\<lambda>q. agent_id q = agent_id a \<and> agent_current_revision q = agent_current_revision a
      \<and> \<not> agent_archived q"
  have p: "?p q \<longleftrightarrow> q = a" if "q \<in> set (t_agents d)" for q
    using agents_ok_unique [OF Revise.prems that Revise.hyps(1)] Revise.hyps(2) by auto
  have other: "agent_id q \<noteq> agent_id a" if "q \<in> set (t_agents d)" "q \<noteq> a" for q
    using agents_ok_unique [OF Revise.prems that(1) Revise.hyps(1)] that(2) by auto
  let ?d' = "d\<lparr>t_agents := update_where ?p (\<lambda>q. q\<lparr>agent_current_revision := rev_revision r\<rparr>) (t_agents d),
      t_agent_revisions := t_agent_revisions d @ [r]\<rparr>"
  have ids: "map agent_id (t_agents ?d') = map agent_id (t_agents d)"
    "map agent_slug (t_agents ?d') = map agent_slug (t_agents d)" by (simp_all add: map_update_where)
  have "map rev_revision (revisions_of (agent_id b) ?d') = [1..<Suc (agent_current_revision b)]"
    if "b \<in> set (t_agents ?d')" for b
  proof -
    from that obtain q where q: "q \<in> set (t_agents d)"
      "b = (if ?p q then q\<lparr>agent_current_revision := rev_revision r\<rparr> else q)"
      by (auto simp: set_update_where simp del: if_image_distrib)
    show ?thesis
    proof (cases "q = a")
      case True
      with q(2) p [OF q(1)] have "b = a\<lparr>agent_current_revision := Suc (agent_current_revision a)\<rparr>"
        by (simp add: Revise.hyps(4))
      with agents_okD [OF Revise.prems Revise.hyps(1)] show ?thesis
        by (simp add: revisions_of_def Revise.hyps(3,4))
    next
      case False
      with q(2) p [OF q(1)] have "b = q" by simp
      with agents_okD [OF Revise.prems q(1)] other [OF q(1) False] show ?thesis
        by (simp add: revisions_of_def Revise.hyps(3))
    qed
  qed
  moreover have "has_agent (rev_agent_id r') ?d'" if "r' \<in> set (t_agent_revisions ?d')" for r'
    using that Revise.prems Revise.hyps(1,3) unfolding has_agent_ids ids
    by (auto simp: agents_ok_def has_agent_ids)
  ultimately show ?case using Revise.prems unfolding agents_ok_def ids by blast
next
  case (Rename d slug aid)
  have "distinct (map agent_slug (update_where (\<lambda>q. agent_id q = aid \<and> \<not> agent_archived q)
        (\<lambda>q. q\<lparr>agent_slug := slug\<rparr>) (t_agents d)))"
    using Rename by (intro distinct_update_key [where k = agent_id]) (auto simp: agents_ok_def)
  then show ?case
    by (intro agents_ok_rows [OF Rename.prems, where p = "\<lambda>q. agent_id q = aid \<and> \<not> agent_archived q"
          and f = "\<lambda>q. q\<lparr>agent_slug := slug\<rparr>"]) simp_all
next
  case (Archive d aid)
  show ?case
    by (rule agents_ok_rows [OF Archive.prems, where p = "\<lambda>q. agent_id q = aid \<and> \<not> agent_archived q"
          and f = "\<lambda>q. q\<lparr>agent_archived := True\<rparr>"])
      (use Archive.prems in \<open>simp_all add: map_update_where agents_ok_def\<close>)
qed (auto simp: catalog_eq_def apply_relay_changed_def Let_def split: option.splits elim: agents_ok_cong [THEN iffD2, rotated 2])

section \<open>Hosts\<close>

text \<open>The Host that runs the Hub is enrolled and was never revoked.\<close>

definition hosts_ok :: "db \<Rightarrow> bool" where
  "hosts_ok d \<longleftrightarrow> distinct (map (\<lambda>r. host_id (hr_host r)) (t_hosts d))
     \<and> (\<forall>i. t_installation d = Some i \<longrightarrow> live_host (ins_hub_host_id i) d \<and> 1 \<le> ins_generation i)"

lemma live_host_keys:
  "live_host h d \<longleftrightarrow> (h, False) \<in> set (map (\<lambda>r. (host_id (hr_host r), hr_revoked r)) (t_hosts d))"
  by (auto simp: live_host_def)

lemma hosts_ok_cong:
  "t_hosts d' = t_hosts d \<Longrightarrow> t_installation d' = t_installation d \<Longrightarrow> hosts_ok d' = hosts_ok d"
  by (simp add: hosts_ok_def live_host_def)

lemma hosts_ok_relay:
  assumes "hosts_ok d"
  shows "hosts_ok (apply_relay_changed url h d)"
proof -
  have ids: "map (\<lambda>r. host_id (hr_host r)) (t_hosts (apply_relay_changed url h d))
      = map (\<lambda>r. host_id (hr_host r)) (t_hosts d)"
    by (cases h) (simp_all add: apply_relay_changed_def Let_def map_update_where)
  have live: "live_host x (apply_relay_changed url h d) = live_host x d" for x
    by (cases h) (simp_all add: apply_relay_changed_def live_host_keys Let_def map_update_where
        del: set_map)
  have inst: "t_installation (apply_relay_changed url h d)
      = map_option (\<lambda>i. i\<lparr>ins_relay_url := url\<rparr>) (t_installation d)"
    by (cases h) (simp_all add: apply_relay_changed_def Let_def)
  from assms show ?thesis unfolding hosts_ok_def ids live inst by auto
qed

lemma hosts_ok_step: "catalog_step d d' \<Longrightarrow> hosts_ok d \<Longrightarrow> hosts_ok d'"
proof (induction rule: catalog_step.induct)
  case (Enroll h d)
  then show ?case by (auto simp: hosts_ok_def has_host_def live_host_def)
next
  case (Revoke h d)
  have "live_host x (d\<lparr>t_hosts := update_where (\<lambda>r. host_id (hr_host r) = h \<and> \<not> hr_revoked r)
        (\<lambda>r. r\<lparr>hr_revoked := True\<rparr>) (t_hosts d)\<rparr>)" if "live_host x d" "x \<noteq> h" for x
    using that by (fastforce simp: live_host_def set_update_where)
  with Revoke show ?case by (auto simp: hosts_ok_def map_update_where is_hub_def)
next
  case (Relay d url h)
  then show ?case by (rule hosts_ok_relay)
qed (auto simp: catalog_eq_def hosts_ok_def live_host_def)

definition invitations_ok :: "db \<Rightarrow> bool" where
  "invitations_ok d \<longleftrightarrow> distinct (map iv_id (t_invitations d))"

lemma invitations_ok_step: "catalog_step d d' \<Longrightarrow> invitations_ok d \<Longrightarrow> invitations_ok d'"
proof (induction rule: catalog_step.induct)
qed (auto simp: catalog_eq_def invitations_ok_def map_update_where apply_relay_changed_def Let_def
      split: option.splits)

definition catalog_ok :: "db \<Rightarrow> bool" where
  "catalog_ok d \<longleftrightarrow> agents_ok d \<and> hosts_ok d \<and> invitations_ok d"

lemma catalog_ok_parts:
  "catalog_ok d \<Longrightarrow> agents_ok d" "catalog_ok d \<Longrightarrow> hosts_ok d" "catalog_ok d \<Longrightarrow> invitations_ok d"
  by (simp_all add: catalog_ok_def)

lemma catalog_ok_empty: "catalog_ok empty_db"
  by (simp add: catalog_ok_def agents_ok_def hosts_ok_def invitations_ok_def empty_db_def)

section \<open>What is never undone\<close>

definition follows_installation :: "Installation option \<Rightarrow> Installation option \<Rightarrow> bool" where
  "follows_installation old now \<longleftrightarrow> (\<forall>i0. old = Some i0 \<longrightarrow>
     (\<exists>i. now = Some i \<and> ins_id i = ins_id i0 \<and> ins_generation i0 \<le> ins_generation i
        \<and> (ins_generation i = ins_generation i0 \<longrightarrow> ins_hub_host_id i = ins_hub_host_id i0)))"

definition archived_ids :: "db \<Rightarrow> AgentId set" where
  "archived_ids d = agent_id ` {a \<in> set (t_agents d). agent_archived a}"

definition revoked_ids :: "db \<Rightarrow> HostId set" where
  "revoked_ids d = (\<lambda>r. host_id (hr_host r)) ` {r \<in> set (t_hosts d). hr_revoked r}"

definition used_invitations :: "db \<Rightarrow> (InvitationId \<times> DateTime option) set" where
  "used_invitations d = (\<lambda>r. (iv_id r, iv_consumed_at r)) ` {r \<in> set (t_invitations d). iv_consumed_at r \<noteq> None}"

definition catalog_follows :: "db \<Rightarrow> db \<Rightarrow> bool" where
  "catalog_follows d0 d \<longleftrightarrow> prefix (t_agent_revisions d0) (t_agent_revisions d)
     \<and> archived_ids d0 \<subseteq> archived_ids d \<and> revoked_ids d0 \<subseteq> revoked_ids d
     \<and> used_invitations d0 \<subseteq> used_invitations d
     \<and> follows_installation (t_installation d0) (t_installation d)"

lemma catalog_follows_refl: "catalog_follows d d"
  by (simp add: catalog_follows_def follows_installation_def)

lemma follows_installation_trans:
  "follows_installation a b \<Longrightarrow> follows_installation b c \<Longrightarrow> follows_installation a c"
  unfolding follows_installation_def by (cases a; cases b; cases c) (fastforce dest: le_antisym)+

lemma catalog_follows_trans:
  "catalog_follows d0 d \<Longrightarrow> catalog_follows d d' \<Longrightarrow> catalog_follows d0 d'"
  unfolding catalog_follows_def
  by (blast intro: follows_installation_trans prefix_order.trans)

lemma catalog_follows_parts:
  assumes "prefix (t_agent_revisions d) (t_agent_revisions d')"
    and "archived_ids d \<subseteq> archived_ids d'" and "revoked_ids d \<subseteq> revoked_ids d'"
    and "used_invitations d \<subseteq> used_invitations d'"
    and "follows_installation (t_installation d) (t_installation d')"
  shows "catalog_follows d d'"
  using assms by (simp add: catalog_follows_def)

lemmas followed_defs = archived_ids_def revoked_ids_def used_invitations_def follows_installation_def

lemma catalog_step_follows: "catalog_step d d' \<Longrightarrow> catalog_follows d d'"
proof (induction rule: catalog_step.induct)
  case (Same d d')
  then show ?case
    by (intro catalog_follows_parts) (simp_all add: catalog_eq_def followed_defs)
next
  case (Create d a r)
  show ?case by (intro catalog_follows_parts) (auto simp: followed_defs)
next
  case (Revise a d r)
  show ?case
    by (intro catalog_follows_parts) (simp_all add: followed_defs update_where_keeps)
next
  case (Rename d slug aid)
  show ?case
    by (intro catalog_follows_parts) (simp_all add: followed_defs update_where_keeps)
next
  case (Archive d aid)
  show ?case
    by (intro catalog_follows_parts) (simp_all add: followed_defs update_where_keeps)
next
  case (Enroll h d)
  show ?case by (intro catalog_follows_parts) (auto simp: followed_defs)
next
  case (Revoke h d)
  show ?case
    by (intro catalog_follows_parts) (simp_all add: followed_defs update_where_keeps)
next
  case (Invite d r)
  show ?case by (intro catalog_follows_parts) (auto simp: followed_defs)
next
  case (Consume d i at)
  have "used_invitations d \<subseteq> used_invitations (d\<lparr>t_invitations :=
      update_where (\<lambda>r. iv_id r = i \<and> iv_consumed_at r = None)
        (\<lambda>r. r\<lparr>iv_consumed_at := Some at\<rparr>) (t_invitations d)\<rparr>)"
    unfolding used_invitations_def by simp (rule update_where_keeps, auto)
  then show ?case
    by (intro catalog_follows_parts) (simp_all add: archived_ids_def revoked_ids_def follows_installation_def)
next
  case (Relay d url h)
  show ?case
    by (cases h; intro catalog_follows_parts)
      (simp_all add: apply_relay_changed_def followed_defs Let_def update_where_keeps)
qed (intro catalog_follows_parts; simp add: followed_defs)+

section \<open>The interface on the model\<close>

interpretation catalog_wf: step_invariant catalog_step catalog_ok
  by unfold_locales (auto simp: catalog_ok_def intro: agents_ok_step hosts_ok_step invitations_ok_step)

interpretation catalog_log: step_invariant catalog_step "catalog_follows d0" for d0
  by unfold_locales (rule catalog_follows_trans [OF _ catalog_step_follows])

lemma catalog_change_ok: "catalog_change d d' \<Longrightarrow> catalog_ok d \<Longrightarrow> catalog_ok d'"
  by (auto simp: catalog_change_def intro: catalog_wf.steps)

lemma catalog_change_follows: "catalog_change d d' \<Longrightarrow> catalog_follows d d'"
  by (auto simp: catalog_change_def intro: catalog_log.steps catalog_follows_refl)

end
