(* ===== verification/SessionInv.thy ===== *)
theory SessionInv
  imports SessionSteps
begin

text \<open>
  The invariants of the Session tables. Each is proved for one step; the interface
  \<open>session_invariant\<close> carries it to every sequence of steps, hence to every operation, by the
  refinement lemmas of theory SessionSteps.
\<close>

section \<open>The interface of an invariant\<close>

lemma core_eq_sym: "core_eq d d' \<Longrightarrow> core_eq d' d"
  by (simp add: core_eq_def)

locale session_invariant = step_invariant session_step P for P :: "db \<Rightarrow> bool"
begin

lemma quiet: "core_eq d d' \<Longrightarrow> P d \<longleftrightarrow> P d'"
  using step [OF Quiet] core_eq_sym by blast

end

section \<open>Tables after a step\<close>

lemma put_entry_tables [simp]:
  "t_entries (put_entry r d) = t_entries d @ [r]"
  "t_turns (put_entry r d) = t_turns d" "t_effects (put_entry r d) = t_effects d"
  "t_acp_bindings (put_entry r d) = t_acp_bindings d"
  "t_sessions (put_entry r d) = (if er_contextual r
     then update_where (\<lambda>s. ses_id s = se_session_id (er_entry r))
            (\<lambda>s. s\<lparr>ses_leaf_entry_id := Some (se_id (er_entry r))\<rparr>) (t_sessions d)
     else t_sessions d)"
  by (simp_all add: put_entry_def set_leaf_def Let_def)

lemma set_leaf_tables [simp]:
  "t_entries (set_leaf sid leaf d) = t_entries d" "t_turns (set_leaf sid leaf d) = t_turns d"
  "t_effects (set_leaf sid leaf d) = t_effects d"
  "t_acp_bindings (set_leaf sid leaf d) = t_acp_bindings d"
  "t_sessions (set_leaf sid leaf d) = update_where (\<lambda>s. ses_id s = sid)
     (\<lambda>s. s\<lparr>ses_leaf_entry_id := leaf\<rparr>) (t_sessions d)"
  by (simp_all add: set_leaf_def)

lemma entry_rows_put [simp]:
  "entry_rows sid (put_entry r d) =
     entry_rows sid d @ (if se_session_id (er_entry r) = sid then [r] else [])"
  by (simp add: entry_rows_def)

lemma entry_rows_cong: "t_entries d' = t_entries d \<Longrightarrow> entry_rows sid d' = entry_rows sid d"
  by (simp add: entry_rows_def)

section \<open>Transcripts\<close>

definition entries_ok :: "db \<Rightarrow> bool" where
  "entries_ok d \<longleftrightarrow> distinct (map (\<lambda>r. se_id (er_entry r)) (t_entries d))
     \<and> (\<forall>sid. map (\<lambda>r. se_sequence (er_entry r)) (entry_rows sid d)
            = [1..<Suc (length (entry_rows sid d))])"

lemma entries_ok_cong: "t_entries d' = t_entries d \<Longrightarrow> entries_ok d' = entries_ok d"
  by (simp add: entries_ok_def entry_rows_def)

lemma next_sequence_ok: "entries_ok d \<Longrightarrow> next_sequence sid d = Suc (length (entry_rows sid d))"
  by (simp add: entries_ok_def next_sequence_def max_of_upt del: upt_Suc)

lemma entries_ok_step: "session_step d d' \<Longrightarrow> entries_ok d \<Longrightarrow> entries_ok d'"
proof (induction rule: session_step.induct)
  case (Entry r d)
  from Entry.prems Entry.hyps(2) have "distinct (map (\<lambda>r. se_id (er_entry r)) (t_entries d @ [r]))"
    by (auto simp: entries_ok_def entry_exists_def)
  moreover from Entry.hyps(3) next_sequence_ok [OF Entry.prems]
  have "se_sequence (er_entry r) = Suc (length (entry_rows (se_session_id (er_entry r)) d))" by simp
  ultimately show ?case using Entry.prems by (auto simp: entries_ok_def)
qed (simp_all add: core_eq_def cong: entries_ok_cong)

text \<open>
  Parents and leaves: an entry hangs below an earlier contextual entry of its Session, and
  the leaf of a Session is one of its contextual entries.
\<close>

definition hangs :: "db \<Rightarrow> EntryRow \<Rightarrow> bool" where
  "hangs d r \<longleftrightarrow>
     (\<forall>p. se_parent_id (er_entry r) = Some p \<longrightarrow>
        (\<exists>q \<in> set (entry_rows (se_session_id (er_entry r)) d).
           se_id (er_entry q) = p \<and> er_contextual q
         \<and> se_sequence (er_entry q) < se_sequence (er_entry r)))"

definition chain_ok :: "db \<Rightarrow> bool" where
  "chain_ok d \<longleftrightarrow> (\<forall>r \<in> set (t_entries d). hangs d r)
   \<and> (\<forall>s \<in> set (t_sessions d). \<forall>m. ses_leaf_entry_id s = Some m \<longrightarrow> is_contextual_entry (ses_id s) m d)"

lemma hangs_mono: "hangs d r \<Longrightarrow> set (t_entries d) \<subseteq> set (t_entries d') \<Longrightarrow> hangs d' r"
  by (fastforce simp: hangs_def entry_rows_def)

lemma is_contextual_entry_iff:
  "is_contextual_entry sid m d \<longleftrightarrow> (\<exists>q \<in> set (entry_rows sid d). se_id (er_entry q) = m \<and> er_contextual q)"
  by (auto simp: is_contextual_entry_def entry_rows_def)

lemma sequence_less_next:
  "q \<in> set (entry_rows sid d) \<Longrightarrow> se_sequence (er_entry q) < next_sequence sid d"
  using max_of_ge [of q "entry_rows sid d" "\<lambda>r. se_sequence (er_entry r)"]
  by (simp add: next_sequence_def less_Suc_eq_le)

lemma session_leaf_contextual:
  "chain_ok d \<Longrightarrow> session_leaf sid d = Some m \<Longrightarrow> is_contextual_entry sid m d"
  by (auto simp: chain_ok_def session_leaf_def split: option.splits dest!: find_SomeD)

lemma is_contextual_entry_put:
  "is_contextual_entry sid m (put_entry r d) \<longleftrightarrow> is_contextual_entry sid m d
     \<or> (se_session_id (er_entry r) = sid \<and> se_id (er_entry r) = m \<and> er_contextual r)"
  by (auto simp: is_contextual_entry_iff)

lemma chain_ok_mono:
  assumes "chain_ok d" and "t_entries d' = t_entries d"
    and "\<And>s' m. s' \<in> set (t_sessions d') \<Longrightarrow> ses_leaf_entry_id s' = Some m
           \<Longrightarrow> is_contextual_entry (ses_id s') m d"
  shows "chain_ok d'"
  using assms hangs_mono [of d _ d'] by (simp add: chain_ok_def is_contextual_entry_def)

lemma chain_ok_leaf:
  "chain_ok d \<Longrightarrow> s \<in> set (t_sessions d) \<Longrightarrow> ses_leaf_entry_id s = Some m
     \<Longrightarrow> is_contextual_entry (ses_id s) m d"
  by (simp add: chain_ok_def)

lemma chain_ok_keep:
  assumes "chain_ok d" and "t_entries d' = t_entries d"
    and "\<And>s'. s' \<in> set (t_sessions d') \<Longrightarrow> ses_leaf_entry_id s' = None
           \<or> (\<exists>s \<in> set (t_sessions d). ses_id s' = ses_id s
                \<and> ses_leaf_entry_id s' = ses_leaf_entry_id s)"
  shows "chain_ok d'"
  using assms(3) chain_ok_leaf [OF assms(1)]
  by (intro chain_ok_mono [OF assms(1,2)]) force

lemma chain_ok_step: "session_step d d' \<Longrightarrow> chain_ok d \<Longrightarrow> chain_ok d'"
proof (induction rule: session_step.induct)
  case (Leaf leaf sid d)
  show ?case
    by (rule chain_ok_mono [OF Leaf.prems])
      (use Leaf.hyps in \<open>auto simp: set_update_where split: if_splits intro: chain_ok_leaf [OF Leaf.prems]\<close>)
next
  case (Entry r d)
  let ?s = "se_session_id (er_entry r)"
  have sub: "set (t_entries d) \<subseteq> set (t_entries (put_entry r d))" by auto
  have "hangs d r"
    using session_leaf_contextual [OF Entry.prems] Entry.hyps(3,4) sequence_less_next
    by (fastforce simp: hangs_def is_contextual_entry_iff)
  then have "hangs (put_entry r d) q" if "q \<in> set (t_entries (put_entry r d))" for q
    using that Entry.prems hangs_mono [OF _ sub] by (auto simp: chain_ok_def)
  moreover have "is_contextual_entry (ses_id s) m (put_entry r d)"
    if "s \<in> set (t_sessions (put_entry r d))" "ses_leaf_entry_id s = Some m" for s m
    using that Entry.prems
    by (auto simp: chain_ok_def is_contextual_entry_put set_update_where split: if_splits)
  ultimately show ?case by (simp add: chain_ok_def)
qed (auto simp: core_eq_def set_update_where split: if_splits elim!: chain_ok_keep, blast+)

text \<open>A compaction keeps from an entry that is older than itself.\<close>

definition compaction_ok :: "db \<Rightarrow> bool" where
  "compaction_ok d \<longleftrightarrow>
     (\<forall>r \<in> set (t_entries d). \<forall>m. compaction_of (er_entry r) = Some m \<longrightarrow>
        entry_exists m d
      \<and> (\<forall>q \<in> set (t_entries d). se_id (er_entry q) = m
           \<longrightarrow> se_session_id (er_entry q) = se_session_id (er_entry r)
           \<longrightarrow> se_sequence (er_entry q) < se_sequence (er_entry r)))"

lemma compaction_ok_cong: "t_entries d' = t_entries d \<Longrightarrow> compaction_ok d' = compaction_ok d"
  by (simp add: compaction_ok_def entry_exists_def)

lemma compaction_ok_step: "session_step d d' \<Longrightarrow> compaction_ok d \<Longrightarrow> compaction_ok d'"
proof (induction rule: session_step.induct)
  case (Entry r d)
  let ?s = "se_session_id (er_entry r)"
  have new: "entry_exists m d" if "compaction_of (er_entry r) = Some m" for m
    using that Entry.hyps(5) by (cases "se_payload (er_entry r)") auto
  have older: "se_sequence (er_entry q) < se_sequence (er_entry r)"
    if "q \<in> set (t_entries d)" "se_session_id (er_entry q) = ?s" for q
    using that Entry.hyps(3) sequence_less_next [of q ?s d] by (auto simp: entry_rows_def)
  have fresh: "m \<noteq> se_id (er_entry r)" if "entry_exists m d" for m
    using that Entry.hyps(2) by auto
  have ex: "entry_exists m (put_entry r d)" if "entry_exists m d" for m
    using that by (auto simp: entry_exists_def)
  show ?case
    unfolding compaction_ok_def
  proof (intro ballI allI impI conjI)
    fix r' m
    assume r': "r' \<in> set (t_entries (put_entry r d))" and m: "compaction_of (er_entry r') = Some m"
    have md: "entry_exists m d"
      using r' m new Entry.prems unfolding compaction_ok_def put_entry_tables by auto
    then show "entry_exists m (put_entry r d)" by (rule ex)
    fix q
    assume q: "q \<in> set (t_entries (put_entry r d))" "se_id (er_entry q) = m"
      "se_session_id (er_entry q) = se_session_id (er_entry r')"
    with fresh [OF md] have qd: "q \<in> set (t_entries d)" by auto
    show "se_sequence (er_entry q) < se_sequence (er_entry r')"
    proof (cases "r' = r")
      case True
      with older [OF qd] q(3) show ?thesis by simp
    next
      case False
      with r' qd q m Entry.prems show ?thesis unfolding compaction_ok_def put_entry_tables by auto
    qed
  qed
qed (simp_all add: core_eq_def cong: compaction_ok_cong)

section \<open>Turns\<close>

definition turns_ok :: "db \<Rightarrow> bool" where
  "turns_ok d \<longleftrightarrow> distinct (map (\<lambda>r. turn_id_of (tw_turn r)) (t_turns d))
     \<and> distinct (map (\<lambda>r. turn_session_id (tw_turn r)) (filter is_active (t_turns d)))
     \<and> (\<forall>r \<in> set (t_turns d). turn_status (tw_turn r) = Running \<longleftrightarrow> is_active r)"

lemma turns_ok_cong: "t_turns d' = t_turns d \<Longrightarrow> turns_ok d' = turns_ok d"
  by (simp add: turns_ok_def)

text \<open>Updating a row keeps its keys; here also whether it is active, or its activity ends.\<close>

lemma turns_ok_update:
  assumes "turns_ok d" and "t_turns d' = update_where p f (t_turns d)"
    and "\<And>r. turn_id_of (tw_turn (f r)) = turn_id_of (tw_turn r)"
    and "\<And>r. turn_session_id (tw_turn (f r)) = turn_session_id (tw_turn r)"
    and "\<And>r. r \<in> set (t_turns d) \<Longrightarrow> p r \<Longrightarrow> is_active (f r) \<Longrightarrow> is_active r"
    and "\<And>r. r \<in> set (t_turns d) \<Longrightarrow> p r \<Longrightarrow> turn_status (tw_turn (f r)) = Running \<longleftrightarrow> is_active (f r)"
  shows "turns_ok d'"
proof -
  have "distinct (map (\<lambda>r. turn_session_id (tw_turn r)) (filter is_active (update_where p f rs)))"
    if "distinct (map (\<lambda>r. turn_session_id (tw_turn r)) (filter is_active rs))"
      and "set rs \<subseteq> set (t_turns d)" for rs
    using that assms(4,5) by (induction rs) (fastforce simp: set_update_where split: if_splits)+
  with assms(1,2,3,6) show ?thesis
    by (auto simp: turns_ok_def map_update_where set_update_where)
qed

lemma turns_ok_step: "session_step d d' \<Longrightarrow> turns_ok d \<Longrightarrow> turns_ok d'"
proof (induction rule: session_step.induct)
  case (NewTurn r d)
  have "turn_session_id (tw_turn r) \<notin> (\<lambda>q. turn_session_id (tw_turn q)) ` set (filter is_active (t_turns d))"
    using NewTurn.hyps(4) by force
  with NewTurn.hyps(1-3) NewTurn.prems show ?case
    by (auto simp: turns_ok_def has_turn_def)
next
  case (Harness d t version hash name)
  show ?case
    by (rule turns_ok_update [OF Harness.prems, where p = "\<lambda>r. turn_id_of (tw_turn r) = t"
          and f = "\<lambda>r. r\<lparr>tw_turn := (tw_turn r)\<lparr>turn_harness := name,
            turn_harness_definition_hash := hash, turn_harness_version := version\<rparr>\<rparr>"])
      (use Harness.prems in \<open>auto simp: turns_ok_def is_active_def\<close>)
next
  case (Terminal status t d sid at err)
  show ?case
    by (rule turns_ok_update [OF Terminal.prems,
          where p = "\<lambda>r. turn_id_of (tw_turn r) = t \<and> is_active r"
          and f = "\<lambda>r. r\<lparr>tw_turn := (tw_turn r)\<lparr>turn_status := status, turn_error := err,
            turn_completed_at := Some at\<rparr>\<rparr>"])
      (use Terminal.hyps in \<open>auto simp: is_active_def\<close>)
qed (simp_all add: core_eq_def cong: turns_ok_cong)

lemma turns_ok_unique:
  assumes "turns_ok d" and "r \<in> set (t_turns d)" and "q \<in> set (t_turns d)"
    and "turn_id_of (tw_turn r) = turn_id_of (tw_turn q)"
  shows "r = q"
  using assms by (auto simp: turns_ok_def dest: distinct_map_eqD)

lemma turns_ok_one_active:
  assumes "turns_ok d" and "r \<in> set (t_turns d)" and "q \<in> set (t_turns d)"
    and "is_active r" and "is_active q"
    and "turn_session_id (tw_turn r) = turn_session_id (tw_turn q)"
  shows "r = q"
  using assms distinct_map_eqD [of "\<lambda>r. turn_session_id (tw_turn r)" "filter is_active (t_turns d)" r q]
  by (simp add: turns_ok_def)

text \<open>Rows keep their key: a Turn never moves to another Session.\<close>

definition turn_keys :: "db \<Rightarrow> (TurnId \<times> SessionId) list" where
  "turn_keys d = map (\<lambda>r. (turn_id_of (tw_turn r), turn_session_id (tw_turn r))) (t_turns d)"

lemma turn_keys_step: "session_step d d' \<Longrightarrow> set (turn_keys d) \<subseteq> set (turn_keys d')"
proof (induction rule: session_step.induct)
qed (auto simp: core_eq_def turn_keys_def map_update_where)

lemma turn_keys_steps: "session_steps d d' \<Longrightarrow> set (turn_keys d) \<subseteq> set (turn_keys d')"
  by (induction rule: rtranclp_induct) (use turn_keys_step in blast)+

section \<open>Finished Turns\<close>

text \<open>A Turn that ended has a result for every call it requested.\<close>

definition answered_ok :: "db \<Rightarrow> bool" where
  "answered_ok d \<longleftrightarrow> turns_ok d \<and> (\<forall>r \<in> set (t_turns d). \<not> is_active r \<longrightarrow>
     answered (turn_session_id (tw_turn r)) (turn_id_of (tw_turn r)) d)"

lemma answered_cong: "t_entries d' = t_entries d \<Longrightarrow> answered sid t d' = answered sid t d"
  by (simp add: answered_def entry_rows_def)

lemma answered_put:
  assumes "answered sid t d"
    and "\<And>call. se_session_id (er_entry r) = sid \<Longrightarrow> se_payload (er_entry r) \<noteq> SP_ToolStarted t call"
  shows "answered sid t (put_entry r d)"
  unfolding answered_def
proof (intro allI impI)
  let ?P = "\<lambda>d. (\<lambda>r. se_payload (er_entry r)) ` set (entry_rows sid d)"
  fix call assume "SP_ToolStarted t call \<in> ?P (put_entry r d)"
  then have "SP_ToolStarted t call \<in> ?P d"
    using assms(2) [of call] by (auto split: if_splits)
  then obtain res where "SP_ToolResult t res \<in> ?P d" "tr_call_id res = tc_call_id call"
    using assms(1) unfolding answered_def by blast
  then show "\<exists>res. SP_ToolResult t res \<in> ?P (put_entry r d) \<and> tr_call_id res = tc_call_id call"
    by auto
qed

lemma answered_ok_turns:
  assumes "answered_ok d" and "turns_ok d'" and "t_entries d' = t_entries d"
    and "\<And>r. r \<in> set (t_turns d') \<Longrightarrow> \<not> is_active r
      \<Longrightarrow> answered (turn_session_id (tw_turn r)) (turn_id_of (tw_turn r)) d"
  shows "answered_ok d'"
  using assms(2,4) answered_cong [OF assms(3)] by (simp add: answered_ok_def)

lemma answered_ok_D:
  "answered_ok d \<Longrightarrow> r \<in> set (t_turns d) \<Longrightarrow> \<not> is_active r
     \<Longrightarrow> answered (turn_session_id (tw_turn r)) (turn_id_of (tw_turn r)) d"
  by (simp add: answered_ok_def)

lemma answered_ok_step: "session_step d d' \<Longrightarrow> answered_ok d \<Longrightarrow> answered_ok d'"
proof -
  assume st: "session_step d d'" and ok: "answered_ok d"
  then have ok': "turns_ok d'" by (auto simp: answered_ok_def intro: turns_ok_step)
  from st ok ok' show ?thesis
  proof (induction rule: session_step.induct)
    case (Entry r d)
    have "answered (turn_session_id (tw_turn q)) (turn_id_of (tw_turn q)) (put_entry r d)"
      if q: "q \<in> set (t_turns d)" "\<not> is_active q" for q
    proof (rule answered_put [OF answered_ok_D [OF Entry.prems(1) q]])
      fix call
      assume s: "se_session_id (er_entry r) = turn_session_id (tw_turn q)"
      show "se_payload (er_entry r) \<noteq> SP_ToolStarted (turn_id_of (tw_turn q)) call"
      proof
      assume "se_payload (er_entry r) = SP_ToolStarted (turn_id_of (tw_turn q)) call"
      with Entry.hyps(5) s obtain q' where "q' \<in> set (t_turns d)" "is_active q'"
        "turn_id_of (tw_turn q') = turn_id_of (tw_turn q)"
        by (auto simp: active_in_def)
      with q Entry.prems(1) show False by (auto simp: answered_ok_def dest: turns_ok_unique)
      qed
    qed
    with Entry.prems show ?case by (simp add: answered_ok_def)
  next
    case (NewTurn r d)
    show ?case
      by (rule answered_ok_turns [OF NewTurn.prems])
        (use NewTurn.hyps in \<open>auto intro: answered_ok_D [OF NewTurn.prems(1)]\<close>)
  next
    case (Harness d t version hash name)
    show ?case
    proof (rule answered_ok_turns [OF Harness.prems])
      fix r assume "r \<in> set (t_turns (d\<lparr>t_turns := update_where (\<lambda>r. turn_id_of (tw_turn r) = t)
          (\<lambda>r. r\<lparr>tw_turn := (tw_turn r)\<lparr>turn_harness := name, turn_harness_definition_hash := hash,
            turn_harness_version := version\<rparr>\<rparr>) (t_turns d)\<rparr>))" and "\<not> is_active r"
      then obtain x where "x \<in> set (t_turns d)" "\<not> is_active x"
        "turn_session_id (tw_turn x) = turn_session_id (tw_turn r)"
        "turn_id_of (tw_turn x) = turn_id_of (tw_turn r)"
        by (auto simp: set_update_where is_active_def split: if_splits)
      with answered_ok_D [OF Harness.prems(1)]
      show "answered (turn_session_id (tw_turn r)) (turn_id_of (tw_turn r)) d" by metis
    qed simp
  next
    case (Terminal status t d sid at err)
    have sid: "turn_session_id (tw_turn r) = sid"
      if "r \<in> set (t_turns d)" "turn_id_of (tw_turn r) = t" for r
      using that Terminal.hyps(4) Terminal.prems(1)
      by (auto simp: active_in_def answered_ok_def dest: turns_ok_unique)
    show ?case
    proof (rule answered_ok_turns [OF Terminal.prems])
      fix r assume "r \<in> set (t_turns (d\<lparr>t_turns :=
          update_where (\<lambda>r. turn_id_of (tw_turn r) = t \<and> is_active r)
          (\<lambda>r. r\<lparr>tw_turn := (tw_turn r)\<lparr>turn_status := status, turn_error := err,
            turn_completed_at := Some at\<rparr>\<rparr>) (t_turns d)\<rparr>))" and "\<not> is_active r"
      then obtain x where x: "x \<in> set (t_turns d)" "\<not> is_active x \<or> turn_id_of (tw_turn x) = t"
        "turn_session_id (tw_turn x) = turn_session_id (tw_turn r)"
        "turn_id_of (tw_turn x) = turn_id_of (tw_turn r)"
        by (auto simp: set_update_where split: if_splits)
      with sid Terminal.hyps(3) answered_ok_D [OF Terminal.prems(1)]
      show "answered (turn_session_id (tw_turn r)) (turn_id_of (tw_turn r)) d" by metis
    qed simp
  qed (auto simp: core_eq_def answered_ok_def cong: answered_cong)
qed

section \<open>Effects\<close>

text \<open>
  The order of an effect's states: scheduled, started, then one of three outcomes that never
  turn into each other.
\<close>

fun effect_rank :: "EffectStatus \<Rightarrow> nat" where
  "effect_rank ES_Scheduled = 0"
| "effect_rank ES_Started = 1"
| "effect_rank _ = 2"

instantiation EffectStatus :: order
begin

definition less_eq_EffectStatus :: "EffectStatus \<Rightarrow> EffectStatus \<Rightarrow> bool" where
  "s \<le> s' \<longleftrightarrow> s = s' \<or> effect_rank s < effect_rank s'"

definition less_EffectStatus :: "EffectStatus \<Rightarrow> EffectStatus \<Rightarrow> bool" where
  "s < s' \<longleftrightarrow> effect_rank s < effect_rank s'"

instance
  by standard (auto simp: less_eq_EffectStatus_def less_EffectStatus_def)

end

lemma open_status_le [simp]: "is_open_status s \<Longrightarrow> \<not> is_open_status s' \<Longrightarrow> s \<le> s'"
  by (cases s; cases s') (auto simp: less_eq_EffectStatus_def is_open_status_def)

lemma scheduled_le [simp]: "ES_Scheduled \<le> s"
  by (cases s) (auto simp: less_eq_EffectStatus_def)

definition effects_ok :: "db \<Rightarrow> bool" where
  "effects_ok d \<longleftrightarrow> distinct (map ef_operation_id (t_effects d))
     \<and> (\<forall>r \<in> set (t_effects d).
          (is_open_status (ef_status r) \<longrightarrow> active_in (ef_session_id r) (ef_turn_id r) d)
        \<and> (ef_terminal_entry r = None \<longleftrightarrow> is_open_status (ef_status r)))"

lemma effects_ok_update:
  assumes "effects_ok d" and "t_effects d' = update_where p f (t_effects d)"
    and "t_turns d' = t_turns d"
    and "\<And>r. ef_operation_id (f r) = ef_operation_id r" and "\<And>r. ef_session_id (f r) = ef_session_id r"
    and "\<And>r. ef_turn_id (f r) = ef_turn_id r"
    and "\<And>r. p r \<Longrightarrow> is_open_status (ef_status (f r)) \<Longrightarrow> is_open_status (ef_status r)"
    and "\<And>r. r \<in> set (t_effects d) \<Longrightarrow> p r \<Longrightarrow>
           (ef_terminal_entry (f r) = None \<longleftrightarrow> is_open_status (ef_status (f r)))"
  shows "effects_ok d'"
  using assms by (auto simp: effects_ok_def map_update_where set_update_where active_in_def)

lemma effects_ok_turns:
  assumes "effects_ok d" and "t_effects d' = t_effects d"
    and "\<And>r. r \<in> set (t_effects d) \<Longrightarrow> is_open_status (ef_status r)
           \<Longrightarrow> active_in (ef_session_id r) (ef_turn_id r) d
           \<Longrightarrow> active_in (ef_session_id r) (ef_turn_id r) d'"
  shows "effects_ok d'"
  using assms by (auto simp: effects_ok_def)

lemma bex_update_where:
  "(\<exists>x \<in> set (update_where p f xs). q x) \<longleftrightarrow> (\<exists>x \<in> set xs. q (if p x then f x else x))"
  by (induction xs) auto

lemma active_in_update:
  assumes "t_turns d' = update_where p f (t_turns d)"
    and "\<And>r. turn_id_of (tw_turn (f r)) = turn_id_of (tw_turn r)"
    and "\<And>r. turn_session_id (tw_turn (f r)) = turn_session_id (tw_turn r)"
    and "\<And>r. p r \<Longrightarrow> turn_id_of (tw_turn r) = t \<Longrightarrow> is_active (f r) = is_active r"
  shows "active_in sid t d' = active_in sid t d"
  unfolding active_in_def exists_where_iff assms(1) bex_update_where
  by (rule bex_cong) (use assms(2-4) in auto)

lemma effects_ok_step: "session_step d d' \<Longrightarrow> effects_ok d \<Longrightarrow> effects_ok d'"
proof (induction rule: session_step.induct)
  case (NewTurn r d)
  show ?case
    by (rule effects_ok_turns [OF NewTurn.prems]) (auto simp: active_in_def)
next
  case (Harness d t version hash name)
  show ?case
  proof (rule effects_ok_turns [OF Harness.prems])
    fix sid u assume a: "active_in sid u d"
    show "active_in sid u (d\<lparr>t_turns := update_where (\<lambda>r. turn_id_of (tw_turn r) = t)
          (\<lambda>r. r\<lparr>tw_turn := (tw_turn r)\<lparr>turn_harness := name, turn_harness_definition_hash := hash,
            turn_harness_version := version\<rparr>\<rparr>) (t_turns d)\<rparr>)"
      by (subst active_in_update [where p = "\<lambda>r. turn_id_of (tw_turn r) = t" and d = d
          and f = "\<lambda>r. r\<lparr>tw_turn := (tw_turn r)\<lparr>turn_harness := name,
            turn_harness_definition_hash := hash, turn_harness_version := version\<rparr>\<rparr>"])
        (use a in \<open>simp_all add: is_active_def\<close>)
  qed simp
next
  case (Terminal status t d sid at err)
  show ?case
  proof (rule effects_ok_turns [OF Terminal.prems])
    fix r assume r: "r \<in> set (t_effects d)" "is_open_status (ef_status r)"
      and a: "active_in (ef_session_id r) (ef_turn_id r) d"
    from r Terminal.hyps(2) have "ef_turn_id r \<noteq> t" by (auto simp: has_open_effects_def)
    with a show "active_in (ef_session_id r) (ef_turn_id r) (d\<lparr>t_turns :=
        update_where (\<lambda>r. turn_id_of (tw_turn r) = t \<and> is_active r)
          (\<lambda>r. r\<lparr>tw_turn := (tw_turn r)\<lparr>turn_status := status, turn_error := err,
            turn_completed_at := Some at\<rparr>\<rparr>) (t_turns d)\<rparr>)"
      by (subst active_in_update [where p = "\<lambda>r. turn_id_of (tw_turn r) = t \<and> is_active r" and d = d
          and f = "\<lambda>r. r\<lparr>tw_turn := (tw_turn r)\<lparr>turn_status := status, turn_error := err,
            turn_completed_at := Some at\<rparr>\<rparr>"]) simp_all
  qed simp
next
  case (Schedule r d)
  have "ef_operation_id r \<notin> ef_operation_id ` set (t_effects d)"
    using Schedule.hyps(4) by force
  with Schedule.hyps(1-3) Schedule.prems show ?case
    by (auto simp: effects_ok_def active_in_def)
next
  case (Start d op at)
  show ?case
    by (rule effects_ok_update [OF Start.prems,
          where p = "\<lambda>r. ef_operation_id r = op \<and> ef_status r = ES_Scheduled"
          and f = "\<lambda>r. r\<lparr>ef_status := ES_Started, ef_started_at := Some at\<rparr>"])
      (use Start.prems in \<open>auto simp: effects_ok_def\<close>)
next
  case (Finish st d op sid t raw at je)
  show ?case
    by (rule effects_ok_update [OF Finish.prems,
          where p = "\<lambda>r. ef_operation_id r = op \<and> ef_session_id r = sid \<and> ef_turn_id r = t
            \<and> is_open_status (ef_status r)"
          and f = "\<lambda>r. r\<lparr>ef_status := st, ef_terminal_entry := Some je, ef_completed_at := Some at,
              ef_raw_result := raw\<rparr>"])
      (use Finish.hyps in auto)
qed (auto simp: core_eq_def effects_ok_def active_in_def)

section \<open>What never changes\<close>

text \<open>The transcript is append-only.\<close>

definition extends_transcript :: "db \<Rightarrow> db \<Rightarrow> bool" where
  "extends_transcript d0 d \<longleftrightarrow> (\<exists>new. t_entries d = t_entries d0 @ new)"

lemma extends_transcript_step:
  "session_step d d' \<Longrightarrow> extends_transcript d0 d \<Longrightarrow> extends_transcript d0 d'"
  by (induction rule: session_step.induct) (auto simp: core_eq_def extends_transcript_def)

text \<open>An effect only advances, and a closed effect is never written again.\<close>

definition effect_follows :: "EffectRow \<Rightarrow> EffectRow \<Rightarrow> bool" where
  "effect_follows r r' \<longleftrightarrow>
     ef_operation_id r' = ef_operation_id r \<and> ef_session_id r' = ef_session_id r
   \<and> ef_turn_id r' = ef_turn_id r \<and> ef_call_id r' = ef_call_id r \<and> ef_request r' = ef_request r
   \<and> ef_status r \<le> ef_status r' \<and> (\<not> is_open_status (ef_status r) \<longrightarrow> r' = r)"

definition advances_effects :: "db \<Rightarrow> db \<Rightarrow> bool" where
  "advances_effects d0 d \<longleftrightarrow> list_all2 effect_follows (t_effects d0) (take (length (t_effects d0)) (t_effects d))"

lemma effect_follows_refl: "effect_follows r r"
  by (simp add: effect_follows_def)

lemma effect_follows_trans: "effect_follows r r' \<Longrightarrow> effect_follows r' r'' \<Longrightarrow> effect_follows r r''"
  unfolding effect_follows_def by (metis order_trans)

lemma advances_effects_refl: "advances_effects d d"
  by (simp add: advances_effects_def list_all2_refl effect_follows_refl)

lemma advances_effects_update:
  assumes "advances_effects d0 d" and "t_effects d' = update_where p f (t_effects d)"
    and "\<And>r. p r \<Longrightarrow> effect_follows r (f r)"
  shows "advances_effects d0 d'"
proof -
  have "take n (update_where p f rs) = update_where p f (take n rs)" for n rs
    by (simp add: update_where_def take_map)
  with assms show ?thesis
    by (auto simp: advances_effects_def update_where_def list_all2_conv_all_nth
        intro: effect_follows_trans)
qed

lemma advances_effects_step:
  "session_step d d' \<Longrightarrow> advances_effects d0 d \<Longrightarrow> advances_effects d0 d'"
proof (induction rule: session_step.induct)
  case (Schedule r d)
  then have "length (t_effects d0) \<le> length (t_effects d)"
    by (auto simp: advances_effects_def min_def dest!: list_all2_lengthD split: if_splits)
  with Schedule.prems show ?case by (simp add: advances_effects_def)
next
  case (Start d op at)
  show ?case
    by (rule advances_effects_update [OF Start.prems,
          where p = "\<lambda>r. ef_operation_id r = op \<and> ef_status r = ES_Scheduled"
          and f = "\<lambda>r. r\<lparr>ef_status := ES_Started, ef_started_at := Some at\<rparr>"])
      (auto simp: effect_follows_def)
next
  case (Finish st d op sid t raw at je)
  show ?case
    by (rule advances_effects_update [OF Finish.prems,
          where p = "\<lambda>r. ef_operation_id r = op \<and> ef_session_id r = sid \<and> ef_turn_id r = t
            \<and> is_open_status (ef_status r)"
          and f = "\<lambda>r. r\<lparr>ef_status := st, ef_terminal_entry := Some je, ef_completed_at := Some at,
              ef_raw_result := raw\<rparr>"])
      (use Finish.hyps in \<open>auto simp: effect_follows_def\<close>)
qed (simp_all add: core_eq_def advances_effects_def)

text \<open>The outcome of a finished Turn is final.\<close>

definition turn_outcome :: "TurnRow \<Rightarrow> TurnId \<times> SessionId \<times> TurnStatus \<times> string option \<times> DateTime option" where
  "turn_outcome r = (turn_id_of (tw_turn r), turn_session_id (tw_turn r), turn_status (tw_turn r),
     turn_error (tw_turn r), turn_completed_at (tw_turn r))"

definition keeps_outcomes :: "db \<Rightarrow> db \<Rightarrow> bool" where
  "keeps_outcomes d0 d \<longleftrightarrow>
     turn_outcome ` set (filter (\<lambda>r. \<not> is_active r) (t_turns d0))
       \<subseteq> turn_outcome ` set (filter (\<lambda>r. \<not> is_active r) (t_turns d))"

lemma keeps_outcomes_update:
  assumes "keeps_outcomes d0 d" and "t_turns d' = update_where p f (t_turns d)"
    and "\<And>r. p r \<Longrightarrow> \<not> is_active r \<Longrightarrow> turn_outcome (f r) = turn_outcome r \<and> \<not> is_active (f r)"
  shows "keeps_outcomes d0 d'"
proof -
  have "turn_outcome ` set (filter (\<lambda>r. \<not> is_active r) (t_turns d))
      \<subseteq> turn_outcome ` set (filter (\<lambda>r. \<not> is_active r) (update_where p f (t_turns d)))"
  proof
    fix y assume "y \<in> turn_outcome ` set (filter (\<lambda>r. \<not> is_active r) (t_turns d))"
    then obtain r where r: "r \<in> set (t_turns d)" "\<not> is_active r" "y = turn_outcome r" by auto
    have "\<not> is_active (if p r then f r else r)" using assms(3) [of r] r(2) by (cases "p r") simp_all
    with r(1) have mem: "(if p r then f r else r) \<in> set (filter (\<lambda>r. \<not> is_active r) (update_where p f (t_turns d)))"
      by (simp add: set_update_where)
    have "y = turn_outcome (if p r then f r else r)"
      using assms(3) [of r] r(2,3) by (cases "p r") simp_all
    then show "y \<in> turn_outcome ` set (filter (\<lambda>r. \<not> is_active r) (update_where p f (t_turns d)))"
      using mem by (rule image_eqI)
  qed
  from subset_trans [OF assms(1) [unfolded keeps_outcomes_def] this] show ?thesis
    unfolding keeps_outcomes_def assms(2) .
qed

lemma keeps_outcomes_step: "session_step d d' \<Longrightarrow> keeps_outcomes d0 d \<Longrightarrow> keeps_outcomes d0 d'"
proof (induction rule: session_step.induct)
  case (Harness d t version hash name)
  show ?case
    by (rule keeps_outcomes_update [OF Harness.prems, where p = "\<lambda>r. turn_id_of (tw_turn r) = t"
          and f = "\<lambda>r. r\<lparr>tw_turn := (tw_turn r)\<lparr>turn_harness := name,
            turn_harness_definition_hash := hash, turn_harness_version := version\<rparr>\<rparr>"])
      (auto simp: turn_outcome_def is_active_def)
next
  case (Terminal status t d sid at err)
  show ?case
    by (rule keeps_outcomes_update [OF Terminal.prems,
          where p = "\<lambda>r. turn_id_of (tw_turn r) = t \<and> is_active r"
          and f = "\<lambda>r. r\<lparr>tw_turn := (tw_turn r)\<lparr>turn_status := status, turn_error := err,
            turn_completed_at := Some at\<rparr>\<rparr>"])
      auto
qed (auto simp: core_eq_def keeps_outcomes_def)

section \<open>The interface on the model\<close>

definition session_ok :: "db \<Rightarrow> bool" where
  "session_ok d \<longleftrightarrow> entries_ok d \<and> chain_ok d \<and> compaction_ok d \<and> answered_ok d \<and> effects_ok d"

lemma session_ok_parts:
  "session_ok d \<Longrightarrow> entries_ok d" "session_ok d \<Longrightarrow> chain_ok d" "session_ok d \<Longrightarrow> compaction_ok d"
  "session_ok d \<Longrightarrow> answered_ok d" "session_ok d \<Longrightarrow> effects_ok d" "session_ok d \<Longrightarrow> turns_ok d"
  by (simp_all add: session_ok_def answered_ok_def)

interpretation wf: session_invariant session_ok
  by unfold_locales (auto simp: session_ok_def intro: entries_ok_step chain_ok_step
      compaction_ok_step answered_ok_step effects_ok_step)

interpretation transcript: session_invariant "extends_transcript d0" for d0
  by unfold_locales (rule extends_transcript_step)

interpretation effect_log: session_invariant "advances_effects d0" for d0
  by unfold_locales (rule advances_effects_step)

interpretation outcome_log: session_invariant "keeps_outcomes d0" for d0
  by unfold_locales (rule keeps_outcomes_step)

lemma session_ok_empty: "session_ok empty_db"
  by (simp add: session_ok_def entries_ok_def chain_ok_def compaction_ok_def answered_ok_def
      turns_ok_def effects_ok_def empty_db_def entry_rows_def)

end
