(* ===== verification/TurnSteps.thy ===== *)
theory TurnSteps
  imports SessionInv
begin

text \<open>
  Ending a Turn: what closing the open effects and the unanswered tool calls establishes, so
  that the terminal event is admissible, and the refinement of \<open>finish_turn\<close>,
  \<open>record_turn_harness\<close> and \<open>recover_interrupted_work\<close> by Session steps.
\<close>

section \<open>Recording a synthetic tool result\<close>

text \<open>The effect on the tables of a recorded result: one more entry of the Session.\<close>

definition adds_result :: "SessionId \<Rightarrow> TurnId \<Rightarrow> string \<Rightarrow> db \<Rightarrow> db \<Rightarrow> bool" where
  "adds_result sid t call_id d d' \<longleftrightarrow>
     t_turns d' = t_turns d \<and> t_effects d' = t_effects d
   \<and> (\<exists>r res. t_entries d' = t_entries d @ [r] \<and> se_session_id (er_entry r) = sid
        \<and> se_payload (er_entry r) = SP_ToolResult t res \<and> tr_call_id res = call_id)"

lemma tool_result_adds:
  assumes "commit_event X sid actor (JE_ToolResultRecorded t m res) d = Inr d'"
  shows "adds_result sid t (tr_call_id res) d d'"
proof -
  from assms obtain je d1 where
    r: "record_session_event_correlated X sid actor (JE_ToolResultRecorded t m res) None d = Inr (je, d1)"
    and ap: "apply_session_journal_entry X je d1 = Inr d'"
    unfolding commit_event_def commit_correlated_def by (auto simp: bindR_eq_Inr)
  note je = record_correlated_entry [OF r]
  from ap je obtain e d2 where
    a: "append_session_entry X je m (SP_ToolResult t res) ''tool_result'' True d1 = Inr (e, d2)"
    and c: "core_eq d2 d'"
    by (auto simp: apply_session_journal_entry_def apply_tool_result_recorded_def bindR_eq_Inr
        dest!: append_durable_core)
  note st = append_session_entry_step [OF a je(2)]
  have "t_turns d2 = t_turns d1" "t_effects d2 = t_effects d1"
    "\<exists>r. t_entries d2 = t_entries d1 @ [r] \<and> er_entry r = e"
    using st(2) by simp_all
  with c record_correlated_core [OF r] st(3) show ?thesis
    by (fastforce simp: adds_result_def core_eq_def)
qed

lemma record_tool_result_spec:
  assumes "record_tool_result X sid t res d = Inr d'"
  shows "session_steps d d'" and "adds_result sid t (tr_call_id res) d d'"
proof -
  obtain m d1 where n: "new_id X MessageIdK d = (m, d1)" by fastforce
  with assms have c: "commit_event X sid actor_system (JE_ToolResultRecorded t m res) d1 = Inr d'"
    by (simp add: record_tool_result_def)
  show "session_steps d d'"
    using new_id_commit [OF n, of sid actor_system "JE_ToolResultRecorded t m res" None] c
    by (simp add: commit_event_def)
  show "adds_result sid t (tr_call_id res) d d'"
    using tool_result_adds [OF c] new_id_core [OF n] by (simp add: adds_result_def core_eq_def)
qed

section \<open>Closing effects\<close>

definition open_count :: "TurnId \<Rightarrow> db \<Rightarrow> nat" where
  "open_count t d = count_where (\<lambda>r. ef_turn_id r = t \<and> is_open_status (ef_status r)) (t_effects d)"

lemma length_open_effects: "length (open_effects t d) = open_count t d"
  by (simp add: open_effects_def open_count_def count_where_def)

lemma has_open_effects_count: "has_open_effects t d \<longleftrightarrow> open_count t d \<noteq> 0"
  unfolding has_open_effects_def open_count_def count_where_pos exists_where_iff ..

lemma set_effect_terminal_count:
  assumes "set_effect_terminal X je op t st raw d = Inr d'" and "\<not> is_open_status st"
  shows "open_count t d = Suc (open_count t d')" and "t_turns d' = t_turns d"
    and "t_entries d' = t_entries d"
proof -
  from assms(1) obtain sid where
    one: "count_where (\<lambda>r. ef_operation_id r = op \<and> ef_session_id r = sid \<and> ef_turn_id r = t
            \<and> is_open_status (ef_status r)) (t_effects d) = 1"
    and d': "d' = d\<lparr>t_effects := update_where (\<lambda>r. ef_operation_id r = op \<and> ef_session_id r = sid
            \<and> ef_turn_id r = t \<and> is_open_status (ef_status r))
          (\<lambda>r. r\<lparr>ef_status := st, ef_terminal_entry := Some (je_id je),
               ef_completed_at := Some (je_recorded_at je), ef_raw_result := raw\<rparr>) (t_effects d)\<rparr>"
    by (auto simp: set_effect_terminal_def Let_def result_simps)
  show "open_count t d = Suc (open_count t d')"
    unfolding open_count_def d'
    using count_update_where [of "\<lambda>r. ef_operation_id r = op \<and> ef_session_id r = sid \<and> ef_turn_id r = t
            \<and> is_open_status (ef_status r)" "\<lambda>r. ef_turn_id r = t \<and> is_open_status (ef_status r)"
        "\<lambda>r. r\<lparr>ef_status := st, ef_terminal_entry := Some (je_id je),
               ef_completed_at := Some (je_recorded_at je), ef_raw_result := raw\<rparr>" "t_effects d"]
      one assms(2) by simp
  show "t_turns d' = t_turns d" "t_entries d' = t_entries d" by (simp_all add: d')
qed

text \<open>The events \<open>close_effect\<close> records.\<close>

definition closing_event :: "OperationId \<Rightarrow> TurnId \<Rightarrow> bool \<Rightarrow> JournalEvent" where
  "closing_event op t started = (if started
     then JE_EffectUncertain op t ''Turn terminated before the effect reported an outcome''
     else JE_EffectFailed op t ''Turn terminated before the effect started'')"

lemma closing_event_count:
  assumes "commit_event X sid actor (closing_event op t b) d = Inr d'"
  shows "open_count t d = Suc (open_count t d')" and "t_turns d' = t_turns d"
    and "t_entries d' = t_entries d"
proof -
  from assms obtain je d1 where
    r: "record_session_event_correlated X sid actor (closing_event op t b) None d = Inr (je, d1)"
    and ap: "apply_session_journal_entry X je d1 = Inr d'"
    unfolding commit_event_def commit_correlated_def by (auto simp: bindR_eq_Inr)
  from ap record_correlated_entry [OF r] obtain st where
    "set_effect_terminal X je op t st None d1 = Inr d'" "\<not> is_open_status st"
    by (auto simp: apply_session_journal_entry_def closing_event_def split: if_splits)
  note * = set_effect_terminal_count [OF this]
  with record_correlated_core [OF r]
  show "open_count t d = Suc (open_count t d')" "t_turns d' = t_turns d" "t_entries d' = t_entries d"
    by (simp_all add: core_eq_def open_count_def)
qed

lemma close_effect_spec:
  assumes "close_effect X sid t r d = Inr d'"
  shows "session_steps d d'" and "open_count t d = Suc (open_count t d')"
    and "t_turns d' = t_turns d"
proof -
  from assms obtain op d1 where
    c: "commit_event X sid actor_system (closing_event op t (ef_status r = ES_Started)) d = Inr d1"
    and rest: "d' = d1 \<or> (\<exists>res. record_tool_result X sid t res d1 = Inr d')"
    by (fastforce simp: close_effect_def closing_event_def Let_def bindR_eq_Inr
        record_terminated_tool_result_def split: option.splits)
  note * = closing_event_count [OF c]
  have "session_steps d d1"
    using c by (rule commit_event_steps) (simp add: closing_event_def)
  with rest show "session_steps d d'"
    by (auto dest: record_tool_result_spec(1))
  from rest * show "open_count t d = Suc (open_count t d')" "t_turns d' = t_turns d"
    by (auto dest!: record_tool_result_spec(2) simp: adds_result_def open_count_def)
qed

lemma close_effects_spec:
  assumes "foldR (close_effect X sid t) rs d = Inr d'"
  shows "session_steps d d' \<and> open_count t d = length rs + open_count t d' \<and> t_turns d' = t_turns d"
  using assms
proof (induction rs arbitrary: d)
  case (Cons r rs)
  then obtain d1 where "close_effect X sid t r d = Inr d1" and "foldR (close_effect X sid t) rs d1 = Inr d'"
    by (auto simp: bindR_eq_Inr)
  with close_effect_spec [of X sid t r d d1] Cons.IH [of d1] show ?case
    by (auto intro: steps_trans)
qed simp

lemma close_open_effects_spec:
  assumes "close_open_effects X sid t d = Inr d'"
  shows "session_steps d d'" and "\<not> has_open_effects t d'" and "t_turns d' = t_turns d"
  using close_effects_spec [OF assms [unfolded close_open_effects_def]]
  by (simp_all add: length_open_effects has_open_effects_count)

section \<open>Answering tool calls\<close>

definition has_result :: "SessionId \<Rightarrow> TurnId \<Rightarrow> string \<Rightarrow> db \<Rightarrow> bool" where
  "has_result sid t call_id d \<longleftrightarrow>
     (\<exists>res. SP_ToolResult t res \<in> (\<lambda>r. se_payload (er_entry r)) ` set (entry_rows sid d)
          \<and> tr_call_id res = call_id)"

lemma answered_iff:
  "answered sid t d \<longleftrightarrow>
     (\<forall>call. SP_ToolStarted t call \<in> (\<lambda>r. se_payload (er_entry r)) ` set (entry_rows sid d)
        \<longrightarrow> has_result sid t (tc_call_id call) d)"
  by (simp add: answered_def has_result_def)

lemma set_session_payloads:
  "set (session_payloads sid d) = (\<lambda>r. se_payload (er_entry r)) ` set (entry_rows sid d)"
  by (auto simp: session_payloads_def)

lemma requested_call_iff: "call \<in> set (requested_call t p) \<longleftrightarrow> p = SP_ToolStarted t call"
  by (cases p) auto

lemma completed_call_iff:
  "c \<in> set (completed_call t p) \<longleftrightarrow> (\<exists>res. p = SP_ToolResult t res \<and> tr_call_id res = c)"
  by (cases p) auto

lemma requested_calls_iff:
  "call \<in> set (requested_calls sid t d) \<longleftrightarrow>
     SP_ToolStarted t call \<in> (\<lambda>r. se_payload (er_entry r)) ` set (entry_rows sid d)"
  by (simp add: requested_calls_def requested_call_iff set_session_payloads image_iff)
    (metis (no_types))

lemma completed_calls_iff: "c \<in> set (completed_calls sid t d) \<longleftrightarrow> has_result sid t c d"
  by (simp add: completed_calls_def completed_call_iff set_session_payloads has_result_def image_iff)
    (metis (no_types))

lemma adds_result_has:
  assumes "adds_result sid t c d d'"
  shows "has_result sid t c d'" and "has_result sid t c0 d \<Longrightarrow> has_result sid t c0 d'"
    and "SP_ToolStarted t call \<in> (\<lambda>r. se_payload (er_entry r)) ` set (entry_rows sid d')
         \<longleftrightarrow> SP_ToolStarted t call \<in> (\<lambda>r. se_payload (er_entry r)) ` set (entry_rows sid d)"
proof -
  from assms obtain r res where e: "t_entries d' = t_entries d @ [r]" "se_session_id (er_entry r) = sid"
    "se_payload (er_entry r) = SP_ToolResult t res" "tr_call_id res = c"
    by (auto simp: adds_result_def)
  then have "(\<lambda>r. se_payload (er_entry r)) ` set (entry_rows sid d') =
      insert (SP_ToolResult t res) ((\<lambda>r. se_payload (er_entry r)) ` set (entry_rows sid d))"
    by (auto simp: entry_rows_def)
  with e(4) show "has_result sid t c d'" "has_result sid t c0 d \<Longrightarrow> has_result sid t c0 d'"
    "SP_ToolStarted t call \<in> (\<lambda>r. se_payload (er_entry r)) ` set (entry_rows sid d')
       \<longleftrightarrow> SP_ToolStarted t call \<in> (\<lambda>r. se_payload (er_entry r)) ` set (entry_rows sid d)"
    by (auto simp: has_result_def)
qed

text \<open>The state a closing loop keeps between two orphans.\<close>

definition answering :: "SessionId \<Rightarrow> TurnId \<Rightarrow> db \<Rightarrow> db \<Rightarrow> bool" where
  "answering sid t d d' \<longleftrightarrow> session_steps d d' \<and> t_turns d' = t_turns d \<and> t_effects d' = t_effects d
     \<and> (\<forall>c. has_result sid t c d \<longrightarrow> has_result sid t c d')
     \<and> (\<forall>call. SP_ToolStarted t call \<in> (\<lambda>r. se_payload (er_entry r)) ` set (entry_rows sid d')
         \<longleftrightarrow> SP_ToolStarted t call \<in> (\<lambda>r. se_payload (er_entry r)) ` set (entry_rows sid d))"

lemma answering_refl: "answering sid t d d"
  by (simp add: answering_def)

lemma answering_trans: "answering sid t d d' \<Longrightarrow> answering sid t d' d'' \<Longrightarrow> answering sid t d d''"
  unfolding answering_def by (metis steps_trans)

lemma raw_completions_key: "raw_completions sid t d c = Some raw \<Longrightarrow> tr_call_id raw = c"
  by (auto simp: raw_completions_def dest!: map_of_SomeD split: option.splits)

lemma close_orphan_spec:
  assumes "close_orphan X sid t completed raws call d = Inr d'"
    and "\<And>c raw. raws c = Some raw \<Longrightarrow> tr_call_id raw = c"
  shows "answering sid t d d'"
    and "has_result sid t (tc_call_id call) d' \<or> tc_call_id call \<in> set completed"
proof -
  have "answering sid t d d' \<and> has_result sid t (tc_call_id call) d'"
    if n: "tc_call_id call \<notin> set completed"
  proof -
    from assms n obtain res where
      r: "record_tool_result X sid t res d = Inr d'" and c: "tr_call_id res = tc_call_id call"
      by (fastforce simp: close_orphan_def record_interrupted_tool_processing_def
          record_terminated_tool_result_def split: option.splits)
    note * = record_tool_result_spec [OF r]
    from adds_result_has [OF *(2)] *(1) *(2) c show ?thesis
      by (simp add: answering_def adds_result_def)
  qed
  moreover have "d' = d" if "tc_call_id call \<in> set completed"
    using assms(1) that by (simp add: close_orphan_def)
  ultimately show "answering sid t d d'"
    "has_result sid t (tc_call_id call) d' \<or> tc_call_id call \<in> set completed"
    by (auto intro: answering_refl)
qed

lemma close_orphans_spec:
  assumes "foldR (close_orphan X sid t completed raws) calls d = Inr d'"
    and "\<And>c raw. raws c = Some raw \<Longrightarrow> tr_call_id raw = c"
  shows "answering sid t d d' \<and>
    (\<forall>call \<in> set calls. has_result sid t (tc_call_id call) d' \<or> tc_call_id call \<in> set completed)"
  using assms(1)
proof (induction calls arbitrary: d)
  case (Cons call calls)
  then obtain d1 where 1: "close_orphan X sid t completed raws call d = Inr d1"
    and 2: "foldR (close_orphan X sid t completed raws) calls d1 = Inr d'"
    by (auto simp: bindR_eq_Inr)
  note c = close_orphan_spec [OF 1 assms(2)] and ih = Cons.IH [OF 2]
  from c(2) ih have "has_result sid t (tc_call_id call) d' \<or> tc_call_id call \<in> set completed"
    by (auto simp: answering_def)
  with ih answering_trans [OF c(1)] show ?case by auto
qed (simp add: answering_refl)

lemma close_orphan_tool_calls_spec:
  assumes "close_orphan_tool_calls X sid t d = Inr d'"
  shows "session_steps d d'" and "answered sid t d'" and "t_turns d' = t_turns d"
    and "t_effects d' = t_effects d"
proof -
  note * = close_orphans_spec [OF assms [unfolded close_orphan_tool_calls_def]
      raw_completions_key [of sid t d]]
  note a = conjunct1 [OF *] and r = conjunct2 [OF *]
  from a show "session_steps d d'" "t_turns d' = t_turns d" "t_effects d' = t_effects d"
    by (simp_all add: answering_def)
  from a r show "answered sid t d'"
    unfolding answered_iff answering_def Ball_def requested_calls_iff completed_calls_iff by blast
qed

section \<open>Finishing, starting and recovering Turns\<close>

lemma active_in_cong: "t_turns d' = t_turns d \<Longrightarrow> active_in sid t d' = active_in sid t d"
  by (simp add: active_in_def)

lemma terminal_event_admissible:
  "ready_to_end sid t d \<Longrightarrow> admissible sid (terminal_event t st err sr) d"
  by (cases st) (simp_all add: terminal_event_def)

text \<open>The two loops of every ending, in either of their calls, make the Turn ready to end.\<close>

lemma closing_ready:
  assumes "(if b then close_open_effects X sid t d else Inr d) = Inr d1"
    and "b \<longleftrightarrow> has_open_effects t d"
    and "close_orphan_tool_calls X sid t d1 = Inr d2" and "active_in sid t d2"
  shows "session_steps d d2 \<and> ready_to_end sid t d2 \<and> t_turns d2 = t_turns d"
proof -
  have 1: "session_steps d d1 \<and> \<not> has_open_effects t d1 \<and> t_turns d1 = t_turns d"
    using assms(1,2) close_open_effects_spec [of X sid t d d1] by (auto split: if_splits)
  note 2 = close_orphan_tool_calls_spec [OF assms(3)]
  have "\<not> has_open_effects t d2" using 1 2(4) by (simp add: has_open_effects_def)
  with 1 2 assms(4) show ?thesis
    by (auto simp: ready_to_end_def intro: steps_trans)
qed

lemma finish_turn_active:
  assumes "finish_turn_with_stop_reason X t status err sr d = Inr d'"
    and "find (\<lambda>r. turn_id_of (tw_turn r) = t \<and> is_active r) (t_turns d) = Some row"
  obtains d2 where "session_steps d d2" and "ready_to_end (turn_session_id (tw_turn row)) t d2"
    and "commit_event X (turn_session_id (tw_turn row)) actor_system (terminal_event t status err sr) d2
         = Inr d'"
proof -
  let ?sid = "turn_session_id (tw_turn row)"
  from assms obtain d1 d2 where
    1: "(if has_open_effects t d then close_open_effects X ?sid t d else Inr d) = Inr d1"
    and 2: "close_orphan_tool_calls X ?sid t d1 = Inr d2"
    and 3: "commit_event X ?sid actor_system (terminal_event t status err sr) d2 = Inr d'"
    by (auto simp: finish_turn_with_stop_reason_def result_simps dest!: parse_id_Inr)
  from find_SomeD [OF assms(2)] have "active_in ?sid t d" by (auto simp: active_in_def)
  moreover have "t_turns d2 = t_turns d"
    using close_orphan_tool_calls_spec(3) [OF 2] 1 close_open_effects_spec(3) [of X ?sid t d d1]
    by (auto split: if_splits)
  ultimately have "active_in ?sid t d2" by (simp add: active_in_def)
  from closing_ready [OF 1 refl 2 this] 3 show ?thesis by (auto intro: that)
qed

lemma finish_turn_steps:
  assumes "finish_turn_with_stop_reason X t status err sr d = Inr d'"
  shows "session_steps d d'"
proof (cases "find (\<lambda>r. turn_id_of (tw_turn r) = t \<and> is_active r) (t_turns d)")
  case None
  with assms show ?thesis by (auto simp: finish_turn_with_stop_reason_def result_simps)
next
  case (Some row)
  from finish_turn_active [OF assms this] obtain d2 where "session_steps d d2"
    and r: "ready_to_end (turn_session_id (tw_turn row)) t d2"
    and c: "commit_event X (turn_session_id (tw_turn row)) actor_system (terminal_event t status err sr) d2
         = Inr d'" .
  moreover have "session_steps d2 d'"
    by (rule commit_event_steps [OF c terminal_event_admissible [OF r]])
  ultimately show ?thesis by (blast intro: steps_trans)
qed

lemma record_turn_harness_steps:
  assumes "record_turn_harness X t h hash v d = Inr d'"
  shows "session_steps d d'"
proof -
  from assms obtain row sid where
    "find (\<lambda>r. turn_id_of (tw_turn r) = t \<and> is_active r) (t_turns d) = Some row"
    and body: "(case turn_harness (tw_turn row) of
       Some name \<Rightarrow>
         bindR (okOr (Database InvalidColumnType) (turn_harness_definition_hash (tw_turn row))) (\<lambda>hash'.
         bindR (require (name = h \<and> hash' = hash \<and> turn_harness_version (tw_turn row) = v)
           (InvalidData ''Turn Harness provenance is already different'')) (\<lambda>_. Inr d))
     | None \<Rightarrow>
         commit_event X sid (harness_actor h)
           (JE_TurnStarted t \<lparr>hp_name = h, hp_definition_hash = hash, hp_version = v\<rparr>) d) = Inr d'"
    unfolding record_turn_harness_def bindR_eq_Inr okOr_Inr by blast
  show ?thesis
  proof (cases "turn_harness (tw_turn row)")
    case None
    with body show ?thesis by (auto elim: commit_event_steps)
  next
    case (Some name)
    with body show ?thesis by (auto simp: result_simps)
  qed
qed

text \<open>
  Recovery goes through the Turns that were active when it began. The row of a Turn keeps its
  Session, so the interrupted event finds the Turn it means.
\<close>

lemma commit_terminal_was_active:
  assumes "commit_event X sid actor (JE_TurnInterrupted t reason) d = Inr d'"
  shows "\<exists>r \<in> set (t_turns d). turn_id_of (tw_turn r) = t \<and> is_active r"
proof -
  from assms obtain je d1 where
    r: "record_session_event_correlated X sid actor (JE_TurnInterrupted t reason) None d = Inr (je, d1)"
    and ap: "apply_session_journal_entry X je d1 = Inr d'"
    unfolding commit_event_def commit_correlated_def by (auto simp: bindR_eq_Inr)
  from ap record_correlated_entry [OF r]
  have "count_where (\<lambda>r. turn_id_of (tw_turn r) = t \<and> is_active r) (t_turns d1) = Suc 0"
    by (auto simp: apply_session_journal_entry_def project_turn_terminal_def Let_def result_simps)
  from count_where_1D [OF this] record_correlated_core [OF r] show ?thesis
    by (simp add: core_eq_def)
qed

lemma interrupt_turn_steps:
  assumes "interrupt_turn X row d = Inr d'" and "turns_ok d"
    and "(turn_id_of (tw_turn row), turn_session_id (tw_turn row)) \<in> set (turn_keys d)"
  shows "session_steps d d'"
proof -
  let ?t = "turn_id_of (tw_turn row)" and ?sid = "turn_session_id (tw_turn row)"
  from assms(1) obtain d1 d2 where 1: "close_open_effects X ?sid ?t d = Inr d1"
    and 2: "close_orphan_tool_calls X ?sid ?t d1 = Inr d2"
    and 3: "commit_event X ?sid actor_system
      (JE_TurnInterrupted ?t ''Hub stopped before the Turn completed'') d2 = Inr d'"
    by (auto simp: interrupt_turn_def bindR_eq_Inr dest!: parse_id_Inr)
  note c1 = close_open_effects_spec [OF 1] and c2 = close_orphan_tool_calls_spec [OF 2]
  from c1(3) c2(3) have tt: "t_turns d2 = t_turns d" by simp
  from commit_terminal_was_active [OF 3] obtain r where
    r: "r \<in> set (t_turns d)" "turn_id_of (tw_turn r) = ?t" "is_active r" by (auto simp: tt)
  from assms(3) obtain q where q: "q \<in> set (t_turns d)" "turn_id_of (tw_turn q) = ?t"
    "turn_session_id (tw_turn q) = ?sid" by (auto simp: turn_keys_def)
  from turns_ok_unique [OF assms(2) r(1) q(1)] r q have "active_in ?sid ?t d2"
    by (auto simp: active_in_def tt)
  moreover have "\<not> has_open_effects ?t d2" using c1(2) c2(4) by (simp add: has_open_effects_def)
  ultimately have "ready_to_end ?sid ?t d2" using c2(2) by (simp add: ready_to_end_def)
  then have "session_steps d2 d'" by (intro commit_event_steps [OF 3]) simp
  with c1(1) c2(1) show ?thesis by (meson steps_trans)
qed

interpretation turn_table: session_invariant turns_ok
  by unfold_locales (rule turns_ok_step)

lemma interrupt_turns_steps:
  assumes "foldR (interrupt_turn X) rows d = Inr d'" and "turns_ok d"
    and "\<And>row. row \<in> set rows \<Longrightarrow>
      (turn_id_of (tw_turn row), turn_session_id (tw_turn row)) \<in> set (turn_keys d)"
  shows "session_steps d d'"
  using assms
proof (induction rows arbitrary: d)
  case (Cons row rows)
  then obtain d1 where 1: "interrupt_turn X row d = Inr d1"
    and 2: "foldR (interrupt_turn X) rows d1 = Inr d'"
    by (auto simp: bindR_eq_Inr)
  have st: "session_steps d d1"
    by (rule interrupt_turn_steps [OF 1 Cons.prems(2) Cons.prems(3)]) simp
  have "session_steps d1 d'"
    using Cons.IH [OF 2 turn_table.steps [OF st Cons.prems(2)]] Cons.prems(3) turn_keys_steps [OF st]
    by auto
  with st show ?case by (rule steps_trans)
qed simp

lemma recover_steps:
  assumes "recover_interrupted_work X d = Inr d'" and "turns_ok d"
  shows "session_steps d d'"
proof -
  let ?d1 = "d\<lparr>t_client_events := filter (\<lambda>e. \<not> cr_transient e) (t_client_events d)\<rparr>"
  have f: "foldR (interrupt_turn X) (filter is_active (t_turns ?d1)) ?d1 = Inr d'"
    using assms(1) by (simp add: recover_interrupted_work_def)
  have "session_steps ?d1 d'"
    by (rule interrupt_turns_steps [OF f]) (use assms(2) in \<open>auto simp: turns_ok_def turn_keys_def\<close>)
  then show ?thesis by (rule quiet_then_steps [rotated]) (simp add: core_eq_def)
qed

end
