(* ===== verification/Branch.thy ===== *)
theory Branch
  imports TurnSteps "HOL-Library.Multiset"
begin

text \<open>
  The active branch: the walk along parent links ends on every well-formed database, it is
  the path from the root to the leaf, and compaction never panics. With that, the refinement
  of \<open>append_context_compaction\<close>.
\<close>

section \<open>The walk\<close>

lemma mapR_map_Inr: "(\<And>x y. x \<in> set xs \<Longrightarrow> f x = Inr y \<Longrightarrow> y = g x) \<Longrightarrow> mapR f xs = Inr ys \<Longrightarrow> ys = map g xs"
  by (induction xs arbitrary: ys) (auto simp: bindR_eq_Inr)

lemma branch_from_subset:
  "branch_from n rows e = Some es \<Longrightarrow> set es \<subseteq> insert e (er_entry ` set rows)"
proof (induction n rows e arbitrary: es rule: branch_from.induct)
  case (2 n rows e)
  then show ?case
    by (fastforce split: option.splits dest: find_SomeD)
qed simp

lemma active_branch_subset:
  "active_branch sid d = Some es \<Longrightarrow> set es \<subseteq> er_entry ` set (t_entries d)"
  by (fastforce simp: active_branch_def split: option.splits dest: find_SomeD branch_from_subset)

lemma entry_of_row_Inr: "entry_of_row X sid e = Inr e' \<Longrightarrow> e' = e\<lparr>se_session_id := sid\<rparr>"
  by (auto simp: entry_of_row_def result_simps)

lemma apply_latest_compaction_subset:
  assumes "apply_latest_compaction es = Some es'"
  shows "set es' \<subseteq> set es"
proof (cases "last_compaction es")
  case (Some p)
  obtain ci m where p: "p = (ci, m)" by fastforce
  have "ci < length es" using Some p
    by (induction es arbitrary: ci p) (auto split: option.splits)
  with Some p assms show ?thesis
    by (auto simp: apply_latest_compaction_def split: option.splits if_splits)
      (meson in_set_takeD in_set_dropD)+
qed (use assms in \<open>simp add: apply_latest_compaction_def\<close>)

lemma active_entries_exist:
  assumes "active_entries X sid d = Some (Inr es)" and "e \<in> set es"
  shows "entry_exists (se_id e) d"
proof -
  from assms(1) obtain br es' where b: "active_branch sid d = Some br"
    and m: "mapR (entry_of_row X sid) (sort_key se_sequence br) = Inr es'"
    and c: "apply_latest_compaction es' = Some es"
    by (auto simp: active_entries_def split: option.splits sum.splits)
  have es': "es' = map (\<lambda>e. e\<lparr>se_session_id := sid\<rparr>) (sort_key se_sequence br)"
    by (rule mapR_map_Inr [OF _ m]) (rule entry_of_row_Inr)
  from assms(2) apply_latest_compaction_subset [OF c] have "e \<in> set es'" by blast
  then obtain e0 where "e0 \<in> set br" "se_id e = se_id e0" by (auto simp: es')
  with active_branch_subset [OF b] show ?thesis by (fastforce simp: entry_exists_def)
qed

lemma append_context_compaction_steps:
  assumes "append_context_compaction X sid summary fk n d = Some (Inr (e, d'))"
  shows "session_steps d d'"
proof -
  from assms obtain es where a: "active_entries X sid d = Some (Inr es)"
    and l: "list_ex (\<lambda>e. se_id e = fk) es"
    and c: "commit_event X sid actor_system
        (JE_ContextCompacted (fst (new_id X MessageIdK d)) summary fk n) (snd (new_id X MessageIdK d)) = Inr d'"
    by (auto simp: append_context_compaction_def split_beta result_simps split: if_splits)
  from l active_entries_exist [OF a] have "entry_exists fk d" by (auto simp: list_ex_iff)
  with c show ?thesis by (auto intro: new_id_commit_event)
qed

section \<open>The walk ends and is the path to the root\<close>

text \<open>A leaf-first path: every entry but the last names the next one as its parent.\<close>

fun linked :: "SessionEntry list \<Rightarrow> bool" where
  "linked [] = True"
| "linked [e] = (se_parent_id e = None)"
| "linked (e # p # es) = (se_parent_id e = Some (se_id p) \<and> linked (p # es))"

definition below :: "db \<Rightarrow> SessionEntry \<Rightarrow> EntryRow list" where
  "below d e = filter (\<lambda>r. se_session_id (er_entry r) = se_session_id e
                        \<and> se_sequence (er_entry r) \<le> se_sequence e) (t_entries d)"

lemma below_less:
  assumes "r \<in> set (t_entries d)" and "se_session_id q = se_session_id (er_entry r)"
    and "se_sequence q < se_sequence (er_entry r)"
  shows "length (below d q) < length (below d (er_entry r))"
proof -
  let ?p = "\<lambda>x. se_session_id (er_entry x) = se_session_id q \<and> se_sequence (er_entry x) \<le> se_sequence q"
  have "below d q = filter ?p (below d (er_entry r))"
    using assms(2,3) by (auto simp: below_def intro!: filter_cong)
  moreover have "r \<in> set (below d (er_entry r))" using assms(1) by (simp add: below_def)
  ultimately show ?thesis using assms(3) length_filter_less [of r "below d (er_entry r)" ?p] by simp
qed

lemma parent_row:
  assumes "entries_ok d" and "chain_ok d" and "r \<in> set (t_entries d)"
    and "se_parent_id (er_entry r) = Some p"
  obtains q where "find (\<lambda>x. se_id (er_entry x) = p
       \<and> se_session_id (er_entry x) = se_session_id (er_entry r)) (t_entries d) = Some q"
    and "q \<in> set (t_entries d)" and "se_id (er_entry q) = p" and "er_contextual q"
    and "se_session_id (er_entry q) = se_session_id (er_entry r)"
    and "se_sequence (er_entry q) < se_sequence (er_entry r)"
proof -
  from assms(2-4) obtain q where q: "q \<in> set (t_entries d)" "se_id (er_entry q) = p"
    "er_contextual q" "se_session_id (er_entry q) = se_session_id (er_entry r)"
    "se_sequence (er_entry q) < se_sequence (er_entry r)"
    by (fastforce simp: chain_ok_def hangs_def entry_rows_def)
  obtain q' where f: "find (\<lambda>x. se_id (er_entry x) = p
       \<and> se_session_id (er_entry x) = se_session_id (er_entry r)) (t_entries d) = Some q'"
    using find_exI [of q "t_entries d"] q by fastforce
  from find_SomeD [OF f] q assms(1) have "q' = q"
    by (auto simp: entries_ok_def dest: distinct_map_eqD)
  with f q show ?thesis by (intro that [of q]) simp_all
qed

lemma branch_from_path:
  assumes "entries_ok d" and "chain_ok d" and "r \<in> set (t_entries d)"
    and "length (below d (er_entry r)) \<le> n"
  shows "\<exists>es. branch_from n (t_entries d) (er_entry r) = Some (er_entry r # es)
    \<and> linked (er_entry r # es)
    \<and> sorted_wrt (>) (map se_sequence (er_entry r # es))
    \<and> set es \<subseteq> er_entry ` {q \<in> set (t_entries d). er_contextual q
          \<and> se_session_id (er_entry q) = se_session_id (er_entry r)}"
  using assms(3,4)
proof (induction n arbitrary: r)
  case 0
  from 0(1) have "r \<in> set (below d (er_entry r))" by (simp add: below_def)
  then have "0 < length (below d (er_entry r))" by (rule length_pos_if_in_set)
  with 0(2) show ?case by linarith
next
  case (Suc n)
  show ?case
  proof (cases "se_parent_id (er_entry r)")
    case None
    then show ?thesis by simp
  next
    case (Some p)
    from parent_row [OF assms(1,2) Suc.prems(1) Some] obtain q where
      f: "find (\<lambda>x. se_id (er_entry x) = p
       \<and> se_session_id (er_entry x) = se_session_id (er_entry r)) (t_entries d) = Some q"
      and q: "q \<in> set (t_entries d)" "se_id (er_entry q) = p" "er_contextual q"
        "se_session_id (er_entry q) = se_session_id (er_entry r)"
        "se_sequence (er_entry q) < se_sequence (er_entry r)" .
    from below_less [OF Suc.prems(1) q(4,5)] Suc.prems(2)
    have "length (below d (er_entry q)) \<le> n" by simp
    from Suc.IH [OF q(1) this] obtain es where
      es: "branch_from n (t_entries d) (er_entry q) = Some (er_entry q # es)"
        "linked (er_entry q # es)" "sorted_wrt (>) (map se_sequence (er_entry q # es))"
        "set es \<subseteq> er_entry ` {x \<in> set (t_entries d). er_contextual x
            \<and> se_session_id (er_entry x) = se_session_id (er_entry q)}" by blast
    have "branch_from (Suc n) (t_entries d) (er_entry r) = Some (er_entry r # er_entry q # es)"
      using Some f es(1) by simp
    moreover have "linked (er_entry r # er_entry q # es)" using Some q(2) es(2) by simp
    moreover have "sorted_wrt (>) (map se_sequence (er_entry r # er_entry q # es))"
      using es(3) q(5) by auto
    moreover have "set (er_entry q # es) \<subseteq> er_entry ` {x \<in> set (t_entries d). er_contextual x
          \<and> se_session_id (er_entry x) = se_session_id (er_entry r)}"
      using es(4) q by auto
    ultimately show ?thesis by blast
  qed
qed

lemma below_length: "length (below d e) \<le> length (t_entries d)"
  by (simp add: below_def)

lemma active_branch_path:
  assumes "entries_ok d" and "chain_ok d"
  shows "\<exists>es. active_branch sid d = Some es \<and> linked es
    \<and> sorted_wrt (>) (map se_sequence es)
    \<and> map_option se_id (if es = [] then None else Some (hd es)) = session_leaf sid d
    \<and> (\<forall>e \<in> set es. se_session_id e = sid
         \<and> (\<exists>r \<in> set (t_entries d). er_entry r = e \<and> er_contextual r))"
proof (cases "session_leaf sid d")
  case None
  then show ?thesis by (auto simp: active_branch_def session_leaf_def split: option.splits)
next
  case (Some m)
  from session_leaf_contextual [OF assms(2) Some] obtain q where
    q: "q \<in> set (t_entries d)" "se_id (er_entry q) = m" "se_session_id (er_entry q) = sid"
      "er_contextual q"
    by (auto simp: is_contextual_entry_def)
  then obtain r where f: "find (\<lambda>r. se_id (er_entry r) = m) (t_entries d) = Some r"
    using find_exI [of q "t_entries d"] by fastforce
  from find_SomeD [OF f] q assms(1) have rq: "r = q"
    by (auto simp: entries_ok_def dest: distinct_map_eqD)
  from Some obtain s where s: "find (\<lambda>s. ses_id s = sid) (t_sessions d) = Some s"
    "ses_leaf_entry_id s = Some m"
    by (auto simp: session_leaf_def split: option.splits)
  from branch_from_path [OF assms q(1) below_length] obtain es where
    es: "branch_from (length (t_entries d)) (t_entries d) (er_entry q) = Some (er_entry q # es)"
      "linked (er_entry q # es)" "sorted_wrt (>) (map se_sequence (er_entry q # es))"
      "set es \<subseteq> er_entry ` {x \<in> set (t_entries d). er_contextual x
            \<and> se_session_id (er_entry x) = se_session_id (er_entry q)}" by blast
  have "active_branch sid d = Some (er_entry q # es)"
    using s f es(1) by (simp add: active_branch_def rq)
  with es q Some show ?thesis by (intro exI [of _ "er_entry q # es"]) auto
qed

section \<open>Compaction\<close>

declare compaction_of.simps [simp del]

lemma last_compaction_Some:
  "last_compaction es = Some (i, m) \<Longrightarrow> i < length es \<and> compaction_of (es ! i) = Some m"
  by (induction es arbitrary: i) (auto split: option.splits)

lemma last_compaction_split:
  assumes "compaction_of c = Some m" and "\<And>e. e \<in> set post \<Longrightarrow> compaction_of e = None"
  shows "last_compaction (pre @ c # post) = Some (length pre, m)"
proof -
  have "last_compaction post = None"
    using assms(2) by (induction post) (auto split: option.splits)
  with assms(1) have "last_compaction (c # post) = Some (0, m)" by simp
  then show ?thesis by (induction pre) simp_all
qed

lemma last_compaction_None: "last_compaction es = None \<longleftrightarrow> (\<forall>e \<in> set es. compaction_of e = None)"
  by (induction es) (auto split: option.splits)

lemma position_of_Some: "position_of m es = Some i \<Longrightarrow> i < length es \<and> se_id (es ! i) = m"
  by (induction es arbitrary: i) (auto split: if_splits)

lemma position_of_split:
  assumes "\<And>e. e \<in> set pre \<Longrightarrow> se_id e \<noteq> se_id k"
  shows "position_of (se_id k) (pre @ k # post) = Some (length pre)"
  using assms by (induction pre) auto

text \<open>
  The compacted view: the summary first, then the kept entries, then what came after; the
  entries before the first kept one are left out.
\<close>

lemma apply_latest_compaction_eq:
  assumes "compaction_of c = Some (se_id k)"
    and "\<And>e. e \<in> set post \<Longrightarrow> compaction_of e = None" and "\<And>e. e \<in> set old \<Longrightarrow> se_id e \<noteq> se_id k"
  shows "apply_latest_compaction (old @ k # kept @ c # post) = Some (c # k # kept @ post)"
proof -
  have "last_compaction ((old @ k # kept) @ c # post) = Some (length (old @ k # kept), se_id k)"
    by (rule last_compaction_split [OF assms(1,2)])
  moreover have "position_of (se_id k) (old @ k # kept @ c # post) = Some (length old)"
    by (rule position_of_split [OF assms(3)])
  ultimately show ?thesis
    by (simp add: apply_latest_compaction_def nth_append)
qed

lemma apply_latest_compaction_total:
  assumes "sorted_wrt (<) (map se_sequence es)"
    and "\<And>c m e. c \<in> set es \<Longrightarrow> compaction_of c = Some m \<Longrightarrow> e \<in> set es \<Longrightarrow> se_id e = m
           \<Longrightarrow> se_sequence e < se_sequence c"
  shows "apply_latest_compaction es \<noteq> None"
proof
  assume "apply_latest_compaction es = None"
  then obtain ci m fi where l: "last_compaction es = Some (ci, m)" and p: "position_of m es = Some fi"
    and less: "ci < fi"
    by (auto simp: apply_latest_compaction_def split: option.splits if_splits)
  from last_compaction_Some [OF l] position_of_Some [OF p] have
    "ci < length es" "compaction_of (es ! ci) = Some m" "fi < length es" "se_id (es ! fi) = m" by auto
  then have "se_sequence (es ! fi) < se_sequence (es ! ci)"
    using assms(2) [of "es ! ci" m "es ! fi"] by simp
  moreover have "se_sequence (es ! ci) < se_sequence (es ! fi)"
    using assms(1) less \<open>fi < length es\<close> by (simp add: sorted_wrt_iff_nth_less)
  ultimately show False by simp
qed

section \<open>Reading the active branch\<close>

lemma sort_key_sorted: "sorted (map f xs) \<Longrightarrow> sort_key f xs = xs"
  by (induction xs) (auto intro: insort_is_Cons)

lemma filter_key_rev:
  "distinct (map f xs) \<Longrightarrow> filter (\<lambda>x. f k = f x) (rev xs) = filter (\<lambda>x. f k = f x) xs"
proof (induction xs)
  case (Cons a xs)
  have "filter (\<lambda>x. f k = f x) xs = []" if "f k = f a"
    using Cons.prems that by (auto simp: filter_empty_conv)
  with Cons show ?case by auto
qed simp

lemma sort_key_rev:
  assumes "sorted_wrt (>) (map f xs)"
  shows "sort_key f xs = rev xs"
proof (rule properties_for_sort_key)
  have "distinct (map f xs)"
    using assms by (simp add: sorted_wrt_map distinct_map sorted_wrt_iff_nth_less inj_on_def distinct_conv_nth)
      (metis in_set_conv_nth less_irrefl linorder_neqE_nat)
  then show "filter (\<lambda>x. f k = f x) (rev xs) = filter (\<lambda>x. f k = f x) xs" if "k \<in> set (rev xs)" for k
    by (rule filter_key_rev)
  show "sorted (map f (rev xs))"
    using sorted_wrt_mono_rel [OF _ assms, of "(\<ge>)"] by (simp add: rev_map [symmetric] sorted_wrt_rev)
qed simp

lemma active_branch_read:
  assumes "entries_ok d" and "chain_ok d"
  obtains br where "active_branch sid d = Some br" and "sort_key se_sequence br = rev br"
    and "linked br" and "sorted_wrt (<) (map se_sequence (rev br))"
    and "map_option se_id (if br = [] then None else Some (hd br)) = session_leaf sid d"
    and "\<And>e. e \<in> set br \<Longrightarrow> se_session_id e = sid \<and> e \<in> er_entry ` {r \<in> set (t_entries d). er_contextual r}"
    and "\<And>es. mapR (entry_of_row X sid) (rev br) = Inr es \<Longrightarrow> es = rev br"
proof -
  from active_branch_path [OF assms, of sid] obtain br where
    br: "active_branch sid d = Some br" "linked br" "sorted_wrt (>) (map se_sequence br)"
      "map_option se_id (if br = [] then None else Some (hd br)) = session_leaf sid d"
      "\<forall>e \<in> set br. se_session_id e = sid \<and> (\<exists>r \<in> set (t_entries d). er_entry r = e \<and> er_contextual r)"
    by blast
  have "es = rev br" if "mapR (entry_of_row X sid) (rev br) = Inr es" for es
  proof -
    have "es = map (\<lambda>e. e\<lparr>se_session_id := sid\<rparr>) (rev br)"
      by (rule mapR_map_Inr [OF _ that]) (rule entry_of_row_Inr)
    also have "\<dots> = rev br" using br(5) by (intro map_idI) auto
    finally show ?thesis .
  qed
  with br show ?thesis
    by (intro that [of br]) (auto simp: sort_key_rev rev_map [symmetric] sorted_wrt_rev)
qed

lemma active_entries_total:
  assumes "session_ok d"
  shows "active_entries X sid d \<noteq> None"
proof -
  note ok = session_ok_parts(1,2) [OF assms]
  obtain br where
    b1: "active_branch sid d = Some br" and b2: "sort_key se_sequence br = rev br"
    and b3: "linked br" and b4: "sorted_wrt (<) (map se_sequence (rev br))"
    and b5: "map_option se_id (if br = [] then None else Some (hd br)) = session_leaf sid d"
    and b6: "\<And>e. e \<in> set br \<Longrightarrow> se_session_id e = sid \<and> e \<in> er_entry ` {r \<in> set (t_entries d). er_contextual r}"
    and b7: "\<And>es. mapR (entry_of_row X sid) (rev br) = Inr es \<Longrightarrow> es = rev br"
    by (rule active_branch_read [OF ok]) blast
  have "apply_latest_compaction (rev br) \<noteq> None"
  proof (rule apply_latest_compaction_total [OF b4])
    fix c m e assume c: "c \<in> set (rev br)" "compaction_of c = Some m" and e: "e \<in> set (rev br)" "se_id e = m"
    from b6 [of c] b6 [of e] c(1) e(1) obtain rc re where
      "rc \<in> set (t_entries d)" "er_entry rc = c" "re \<in> set (t_entries d)" "er_entry re = e"
      "se_session_id c = sid" "se_session_id e = sid" by auto
    with session_ok_parts(3) [OF assms] c(2) e(2) show "se_sequence e < se_sequence c"
      unfolding compaction_ok_def by blast
  qed
  with b1 b2 b7 show ?thesis
    by (auto simp: active_entries_def split: sum.splits)
qed

lemma active_entries_path:
  assumes "session_ok d" and "active_entries X sid d = Some (Inr es)"
    and "\<And>e. e \<in> set es \<Longrightarrow> compaction_of e = None"
  shows "linked (rev es)"
    and "map_option se_id (if es = [] then None else Some (last es)) = session_leaf sid d"
    and "set es \<subseteq> er_entry ` {r \<in> set (entry_rows sid d). er_contextual r}"
proof -
  note ok = session_ok_parts(1,2) [OF assms(1)]
  obtain br where
    b1: "active_branch sid d = Some br" and b2: "sort_key se_sequence br = rev br"
    and b3: "linked br" and b4: "sorted_wrt (<) (map se_sequence (rev br))"
    and b5: "map_option se_id (if br = [] then None else Some (hd br)) = session_leaf sid d"
    and b6: "\<And>e. e \<in> set br \<Longrightarrow> se_session_id e = sid \<and> e \<in> er_entry ` {r \<in> set (t_entries d). er_contextual r}"
    and b7: "\<And>es. mapR (entry_of_row X sid) (rev br) = Inr es \<Longrightarrow> es = rev br"
    by (rule active_branch_read [OF ok]) blast
  from assms(2) b1 b2 b7 have c: "apply_latest_compaction (rev br) = Some es"
    by (auto simp: active_entries_def split: sum.splits)
  have "es = rev br"
  proof (cases "last_compaction (rev br)")
    case None
    with c show ?thesis by (simp add: apply_latest_compaction_def)
  next
    case (Some p)
    obtain ci m where p: "p = (ci, m)" by fastforce
    note l = last_compaction_Some [OF Some [unfolded p]]
    show ?thesis
    proof (cases "position_of m (rev br)")
      case None
      with c Some p show ?thesis by (simp add: apply_latest_compaction_def)
    next
      case (Some fi)
      with c \<open>last_compaction (rev br) = Some p\<close> p have "rev br ! ci \<in> set es"
        by (auto simp: apply_latest_compaction_def split: if_splits)
      with assms(3) l show ?thesis by fastforce
    qed
  qed
  with b3 b5 b6 show "linked (rev es)"
    "map_option se_id (if es = [] then None else Some (last es)) = session_leaf sid d"
    "set es \<subseteq> er_entry ` {r \<in> set (entry_rows sid d). er_contextual r}"
    by (auto simp: last_rev entry_rows_def)
qed

end
