(* ===== verification/Paging.thy ===== *)
theory Paging
  imports Branch
begin

text \<open>
  The guarantees of the transcript pages of \<open>crates/mews-store/src/sessions.rs\<close>: a page stays
  inside its limits and reading page after page by the returned cursor yields every item once.
\<close>

section \<open>One page\<close>

text \<open>
  What the loop keeps: the page is a prefix of the items, inside the count and the byte
  budget, and it stops early only with its last sequence as the cursor.
\<close>

definition page_result ::
    "('a \<Rightarrow> nat) \<Rightarrow> ('a \<Rightarrow> nat) \<Rightarrow> nat \<Rightarrow> 'a list \<Rightarrow> 'a list \<Rightarrow> nat option \<Rightarrow> bool" where
  "page_result sequence bytes limit items result nxt \<longleftrightarrow>
     (\<exists>rest. items = result @ rest \<and> length result \<le> limit
        \<and> sum_list (map bytes result) \<le> max_session_page_payload_bytes
        \<and> (case nxt of None \<Rightarrow> rest = []
           | Some c \<Rightarrow> rest \<noteq> [] \<and> result \<noteq> [] \<and> c = sequence (last result)))"

lemma fill_page_spec:
  assumes "fill_page sequence bytes limit rest page n = Inr (result, nxt)"
    and "n = sum_list (map bytes page)" and "n \<le> max_session_page_payload_bytes"
    and "length page \<le> limit" and "0 < limit"
  shows "page_result sequence bytes limit (page @ rest) result nxt"
  using assms
proof (induction sequence bytes limit rest page n rule: fill_page.induct)
  case (1 sequence bytes limit page n)
  then show ?case by (simp add: page_result_def)
next
  case (2 sequence bytes limit e es page n)
  show ?case
  proof (cases "limit \<le> length page \<or> (page \<noteq> [] \<and> max_session_page_payload_bytes < n + bytes e)")
    case True
    with 2(2) have "result = page" "nxt = Some (sequence (last page))"
      by (auto simp: result_simps split: if_splits)
    with True 2(3-) show ?thesis by (auto simp: page_result_def)
  next
    case False
    with 2(2) have b: "bytes e \<le> max_session_page_payload_bytes"
      and f: "fill_page sequence bytes limit es (page @ [e]) (n + bytes e) = Inr (result, nxt)"
      by (auto simp: result_simps split: if_splits)
    have "n + bytes e \<le> max_session_page_payload_bytes"
      using False b 2(3) by (cases "page = []") auto
    then have "page_result sequence bytes limit ((page @ [e]) @ es) result nxt"
      using False b 2(3,5,6) by (intro 2(1) [of "()", OF _ _ _ f]) simp_all
    then show ?thesis by simp
  qed
qed

definition after_cursor :: "('a \<Rightarrow> nat) \<Rightarrow> nat option \<Rightarrow> 'a list \<Rightarrow> 'a list" where
  "after_cursor sequence after es =
     filter (\<lambda>e. case after of None \<Rightarrow> True | Some a \<Rightarrow> a < sequence e) es"

lemma page_entries_spec:
  assumes "page_entries sequence bytes es after limit = Inr (page, nxt)"
  shows "page_result sequence bytes (min 500 (max 1 limit)) (after_cursor sequence after es) page nxt"
proof -
  have "0 < max 1 limit" by (simp add: less_max_iff_disj)
  with fill_page_spec [of sequence bytes "min 500 (max 1 limit)" "after_cursor sequence after es" "[]" 0]
  show ?thesis using assms by (simp add: page_entries_def after_cursor_def)
qed

section \<open>Page after page\<close>

text \<open>
  What a caller does with the cursors: ask again from each returned one. The fuel bounds the
  number of requests; \<open>None\<close> is running out of it.
\<close>

fun read_pages ::
    "('a \<Rightarrow> nat) \<Rightarrow> ('a \<Rightarrow> nat) \<Rightarrow> 'a list \<Rightarrow> nat \<Rightarrow> nat \<Rightarrow> nat option \<Rightarrow> (StoreError + 'a list) option" where
  "read_pages sequence bytes es limit 0 after = None"
| "read_pages sequence bytes es limit (Suc n) after =
     (case page_entries sequence bytes es after limit of
        Inl e \<Rightarrow> Some (Inl e)
      | Inr (page, None) \<Rightarrow> Some (Inr page)
      | Inr (page, Some c) \<Rightarrow>
          map_option (\<lambda>r. bindR r (\<lambda>rest. Inr (page @ rest)))
            (read_pages sequence bytes es limit n (Some c)))"

text \<open>
  The interface of the trait \<open>HasSequence\<close>: listings whose items rise strictly in sequence.
\<close>

locale paged_listing =
  fixes sequence :: "'a \<Rightarrow> nat" and listing :: "'d \<Rightarrow> 'a list" and ok :: "'d \<Rightarrow> bool"
  assumes increasing: "ok d \<Longrightarrow> sorted_wrt (<) (map sequence (listing d))"
begin

lemma after_next:
  assumes "ok d" and "after_cursor sequence after (listing d) = page @ rest" and "page \<noteq> []"
  shows "after_cursor sequence (Some (sequence (last page))) (listing d) = rest"
proof -
  let ?c = "sequence (last page)"
  have le: "case after of None \<Rightarrow> True | Some a \<Rightarrow> a < sequence (last page)"
  proof -
    from assms(2,3) have "last page \<in> set (after_cursor sequence after (listing d))" by simp
    then show ?thesis by (simp add: after_cursor_def)
  qed
  have "after_cursor sequence (Some ?c) (listing d)
      = filter (\<lambda>e. ?c < sequence e) (after_cursor sequence after (listing d))"
    using le by (auto simp: after_cursor_def intro!: filter_cong split: option.splits)
  also have "\<dots> = filter (\<lambda>e. ?c < sequence e) page @ filter (\<lambda>e. ?c < sequence e) rest"
    by (simp add: assms(2))
  also have "\<dots> = rest"
  proof -
    have "sorted_wrt (\<lambda>x y. sequence x < sequence y) (listing d)"
      using increasing [OF assms(1)] by (simp add: sorted_wrt_map)
    from sorted_wrt_filter [OF this] have s: "sorted_wrt (\<lambda>x y. sequence x < sequence y) (page @ rest)"
      unfolding assms(2) [symmetric] after_cursor_def .
    then have r: "\<forall>e \<in> set rest. ?c < sequence e"
      using assms(3) by (simp add: sorted_wrt_append)
    obtain init where i: "page = init @ [last page]" using assms(3) by (metis append_butlast_last_id)
    with s have "\<forall>e \<in> set init. sequence e < ?c" by (metis list.set_intros(1) sorted_wrt_append)
    then have "\<forall>e \<in> set page. \<not> ?c < sequence e" by (subst i) auto
    with r show ?thesis by (simp add: filter_id_conv filter_empty_conv)
  qed
  finally show ?thesis .
qed

lemma read_pages_complete:
  assumes "ok d" and "length (after_cursor sequence after (listing d)) < n"
    and "\<And>e. e \<in> set (listing d) \<Longrightarrow> bytes e \<le> max_session_page_payload_bytes"
  shows "read_pages sequence bytes (listing d) limit n after
    = Some (Inr (after_cursor sequence after (listing d)))"
  using assms(2)
proof (induction n arbitrary: after)
  case (Suc n)
  have "\<exists>r. fill_page sequence bytes l rest page m = Inr r"
    if "set rest \<subseteq> set (listing d)" for l rest page m
    using that assms(3)
    by (induction sequence bytes l rest page m rule: fill_page.induct) (auto simp: require_def)
  then obtain page nxt where p: "page_entries sequence bytes (listing d) after limit = Inr (page, nxt)"
    by (fastforce simp: page_entries_def)
  from page_entries_spec [OF p] obtain rest where
    r: "after_cursor sequence after (listing d) = page @ rest"
    and n: "case nxt of None \<Rightarrow> rest = [] | Some c \<Rightarrow> rest \<noteq> [] \<and> page \<noteq> [] \<and> c = sequence (last page)"
    unfolding page_result_def by blast
  show ?case
  proof (cases nxt)
    case None
    with p r n show ?thesis by simp
  next
    case (Some c)
    with n after_next [OF assms(1) r] have a: "after_cursor sequence (Some c) (listing d) = rest"
      and "page \<noteq> []" by simp_all
    with Suc.prems r have "length (after_cursor sequence (Some c) (listing d)) < n"
      by (cases page) auto
    from Suc.IH [OF this] p Some a r show ?thesis by simp
  qed
qed simp

end

section \<open>The two listings\<close>

definition transcript_of :: "SessionId \<Rightarrow> db \<Rightarrow> SessionEntry list" where
  "transcript_of sid d = sort_key se_sequence (map er_entry (entry_rows sid d))"

lemma transcript_of_ok:
  assumes "entries_ok d"
  shows "transcript_of sid d = map er_entry (entry_rows sid d)"
    and "map se_sequence (transcript_of sid d) = [1..<Suc (length (entry_rows sid d))]"
proof -
  have "map se_sequence (map er_entry (entry_rows sid d)) = [1..<Suc (length (entry_rows sid d))]"
    using assms by (simp add: entries_ok_def comp_def)
  then show "transcript_of sid d = map er_entry (entry_rows sid d)"
    and "map se_sequence (transcript_of sid d) = [1..<Suc (length (entry_rows sid d))]"
    by (simp_all add: transcript_of_def sort_key_sorted del: upt_Suc)
qed

interpretation transcript_pages: paged_listing se_sequence "transcript_of sid" entries_ok for sid
  by unfold_locales (simp add: transcript_of_ok(2) del: upt_Suc)

lemma number_history_sequences:
  "map msg_sequence (fst (number_history X es i items d)) = [Suc i..<Suc (i + length items)]"
proof (induction items arbitrary: i d)
  case (Cons item items)
  then show ?case by (simp add: split_beta Let_def upt_conv_Cons del: upt_Suc)
qed simp

definition messages_of :: "ext \<times> db \<Rightarrow> SessionEntry list \<Rightarrow> Message list" where
  "messages_of w es = fst (entries_to_messages (fst w) es (snd w))"

lemma messages_of_sequences:
  "map msg_sequence (messages_of w es) = [1..<Suc (length (messages_of w es))]"
proof -
  have "length (fst (number_history X es i items d)) = length items" for X i items d
    using arg_cong [OF number_history_sequences, of length] by (simp del: upt_Suc)
  then show ?thesis
    by (simp add: messages_of_def entries_to_messages_def number_history_sequences del: upt_Suc)
qed

interpretation message_pages: paged_listing msg_sequence "messages_of w" "\<lambda>_. True" for w
  by unfold_locales (simp add: messages_of_sequences del: upt_Suc)

end
