(* ===== verification/Feed.thy ===== *)
theory Feed
  imports Paging
begin

text \<open>
  The guarantees of the client event feed of \<open>crates/mews-store/src/delivery.rs\<close>: sequences
  only rise, pruning never takes an event a durable consumer still waits for, and reading a
  page and acknowledging its checkpoint moves a consumer on by exactly that page.
\<close>

abbreviation event_seq :: "ClientEventRow \<Rightarrow> nat" where
  "event_seq e \<equiv> ce_sequence (cr_event e)"

section \<open>The feed's invariant\<close>

definition feed_ok :: "db \<Rightarrow> bool" where
  "feed_ok d \<longleftrightarrow> sorted_wrt (<) (map event_seq (t_client_events d))
     \<and> (\<forall>e \<in> set (t_client_events d). 0 < event_seq e \<and> event_seq e \<le> client_seq d)
     \<and> distinct (map cn_id (t_consumers d))
     \<and> (\<forall>r \<in> set (t_consumers d). cn_cursor r \<le> client_seq d)"

definition feed_eq :: "db \<Rightarrow> db \<Rightarrow> bool" where
  "feed_eq d d' \<longleftrightarrow> t_client_events d' = t_client_events d \<and> client_seq d' = client_seq d
     \<and> t_consumers d' = t_consumers d \<and> t_subscriptions d' = t_subscriptions d"

lemma feed_ok_eq: "feed_eq d d' \<Longrightarrow> feed_ok d' = feed_ok d"
  by (simp add: feed_eq_def feed_ok_def)

lemma feed_ok_put: "feed_ok d \<Longrightarrow> feed_ok (put_client_event r d)"
  by (fastforce simp: feed_ok_def put_client_event_def sorted_wrt_append)

lemma feed_ok_insert: "insert_client_event r d = Inr d' \<Longrightarrow> feed_ok d \<Longrightarrow> feed_ok d'"
  by (auto simp: insert_client_event_def result_simps intro: feed_ok_put)

lemma feed_ok_insert_or_ignore:
  "insert_or_ignore_client_event r d = Inr d' \<Longrightarrow> feed_ok d \<Longrightarrow> feed_ok d'"
  by (auto simp: insert_or_ignore_client_event_def result_simps split: if_splits intro: feed_ok_put)

lemma feed_ok_signal: "append_runtime_signal_in X sig key d = Inr d' \<Longrightarrow> feed_ok d \<Longrightarrow> feed_ok d'"
  by (auto simp: append_runtime_signal_in_def Let_def result_simps split: option.splits
      intro: feed_ok_insert feed_ok_insert_or_ignore)

lemma feed_ok_durable: "append_durable_client_event X je m k d = Inr d' \<Longrightarrow> feed_ok d \<Longrightarrow> feed_ok d'"
  by (auto simp: append_durable_client_event_def Let_def result_simps intro: feed_ok_insert)

lemma sorted_wrt_map_filter: "sorted_wrt R (map f xs) \<Longrightarrow> sorted_wrt R (map f (filter p xs))"
  by (simp add: sorted_wrt_map sorted_wrt_filter)

lemma feed_ok_filter:
  assumes "feed_ok d" and "t_client_events d' = filter p (t_client_events d)"
    and "t_consumers d' = filter q (t_consumers d)" and "client_seq d' = client_seq d"
  shows "feed_ok d'"
  using assms by (auto simp: feed_ok_def sorted_wrt_map_filter distinct_map_filter)

lemma prune_tables:
  obtains p q where "t_client_events (prune_client_events X d) = filter p (t_client_events d)"
    and "t_consumers (prune_client_events X d) = filter q (t_consumers d)"
    and "client_seq (prune_client_events X d) = client_seq d"
  by (simp add: prune_client_events_def utc_now_def delete_consumers_def Let_def)

lemma feed_ok_prune: "feed_ok d \<Longrightarrow> feed_ok (prune_client_events X d)"
  by (rule prune_tables [of X d]) (rule feed_ok_filter)

lemma feed_ok_consumers:
  assumes "feed_ok d" and "t_client_events d' = t_client_events d" and "client_seq d' = client_seq d"
    and "t_consumers d' = update_where p f (t_consumers d)" and "\<And>r. cn_id (f r) = cn_id r"
    and "\<And>r. cn_cursor r \<le> client_seq d \<Longrightarrow> cn_cursor (f r) \<le> client_seq d"
  shows "feed_ok d'"
  using assms by (auto simp: feed_ok_def map_update_where set_update_where)

lemma feed_ok_emit:
  assumes "emit_runtime_signal_with_key X sid t p key d = Inr d'" and "feed_ok d"
  shows "feed_ok d'"
proof (cases "signal_key_exists sid key d")
  case False
  with assms(1) obtain row :: TurnRow and d2 where
    s: "append_runtime_signal_in X (fst (new_signal X sid t (tw_channel_origin row) p d)) key
          (snd (new_signal X sid t (tw_channel_origin row) p d)) = Inr d2"
    and d': "d' = prune_client_events X d2"
    by (auto simp: emit_runtime_signal_with_key_def split_beta result_simps)
  have "feed_ok (snd (new_signal X sid t (tw_channel_origin row) p d))"
    using assms(2) by (simp add: new_signal_def new_id_def utc_now_def feed_ok_def)
  from feed_ok_signal [OF s this] show ?thesis unfolding d' by (rule feed_ok_prune)
qed (use assms in \<open>simp add: emit_runtime_signal_with_key_def\<close>)

lemma feed_ok_append_signal: "append_runtime_signal X sig d = Inr d' \<Longrightarrow> feed_ok d \<Longrightarrow> feed_ok d'"
  by (auto simp: append_runtime_signal_def result_simps intro: feed_ok_prune feed_ok_signal)

lemma max_sequence_le: "feed_ok d \<Longrightarrow> max_of event_seq (t_client_events d) \<le> client_seq d"
  by (rule max_of_le) (simp add: feed_ok_def)

lemma feed_ok_subscribe:
  assumes "subscribe_session X c sid kind d = Inr d'" and "feed_ok d"
  shows "feed_ok d'"
proof (cases "has_consumer c d")
  case True
  with assms show ?thesis
    by (auto simp: subscribe_session_def utc_now_def Let_def result_simps has_consumer_def
        intro!: feed_ok_consumers [OF assms(2), where p = "\<lambda>r. cn_id r = c"
          and f = "\<lambda>r. r\<lparr>cn_kind := kind, cn_last_seen_at := x_now X (ticks d)\<rparr>"] split: if_splits)
next
  case False
  with assms max_sequence_le [OF assms(2)] show ?thesis
    by (auto simp: subscribe_session_def utc_now_def Let_def result_simps has_consumer_def feed_ok_def
        split: if_splits)
qed

lemma feed_ok_acknowledge:
  assumes "acknowledge_events X c ck d = Inr d'" and "feed_ok d"
  shows "feed_ok d'"
proof -
  let ?f = "\<lambda>r. r\<lparr>cn_cursor := max (cn_cursor r) ck, cn_last_seen_at := x_now X (ticks d)\<rparr>"
  from assms(1) have ck: "ck \<le> client_seq d" and
    d': "d' = prune_client_events X (d\<lparr>ticks := Suc (ticks d),
           t_consumers := update_where (\<lambda>r. cn_id r = c) ?f (t_consumers d)\<rparr>)"
    by (auto simp: acknowledge_events_def utc_now_def Let_def result_simps)
  show ?thesis
    unfolding d'
    by (intro feed_ok_prune feed_ok_consumers [OF assms(2), where p = "\<lambda>r. cn_id r = c" and f = ?f])
      (use ck in simp_all)
qed

section \<open>Pruning\<close>

lemma list_ex_iff': "list_ex p xs \<longleftrightarrow> (\<exists>x \<in> set xs. p x)"
  by (rule list_ex_iff)

lemma subscriber_with_iff:
  "subscriber_with p sid d \<longleftrightarrow>
     (\<exists>r \<in> set (t_consumers d). p r \<and> (cn_id r, sid) \<in> set (t_subscriptions d))"
  by (auto simp: subscriber_with_def list_ex_iff)

lemma not_prunable:
  assumes "r \<in> set (t_consumers d)" and "cn_kind r = Durable"
    and "(cn_id r, ce_session_id (cr_event e)) \<in> set (t_subscriptions d)" and "cn_cursor r < event_seq e"
  shows "\<not> prunable d e"
  using assms by (auto simp: prunable_def Let_def subscriber_with_iff)

lemma subscribed_rows_cong:
  assumes "\<And>s. (c, s) \<in> set (t_subscriptions d') \<longleftrightarrow> (c, s) \<in> set (t_subscriptions d)"
    and "filter (\<lambda>e. (c, ce_session_id (cr_event e)) \<in> set (t_subscriptions d) \<and> cur < event_seq e)
           (t_client_events d')
       = filter (\<lambda>e. (c, ce_session_id (cr_event e)) \<in> set (t_subscriptions d) \<and> cur < event_seq e)
           (t_client_events d)"
  shows "subscribed_rows c cur d' = subscribed_rows c cur d"
  using assms by (simp add: subscribed_rows_def)

lemma prune_keeps_durable:
  assumes "distinct (map cn_id (t_consumers d))" and "r \<in> set (t_consumers d)"
    and "cn_kind r = Durable"
  shows "r \<in> set (t_consumers (prune_client_events X d))"
    and "subscribed_rows (cn_id r) (cn_cursor r) (prune_client_events X d)
       = subscribed_rows (cn_id r) (cn_cursor r) d"
proof -
  let ?p = "\<lambda>q. cn_kind q = Ephemeral \<and> cn_last_seen_at q + ephemeral_consumer_lease_ms < x_now X (ticks d)"
  let ?d2 = "delete_consumers ?p (d\<lparr>ticks := Suc (ticks d)\<rparr>)"
  have pr: "prune_client_events X d = ?d2\<lparr>t_client_events := filter (\<lambda>e. \<not> prunable ?d2 e) (t_client_events ?d2)\<rparr>"
    by (simp add: prune_client_events_def utc_now_def Let_def)
  have r2: "r \<in> set (t_consumers ?d2)" using assms(2,3) by (simp add: delete_consumers_def)
  then show "r \<in> set (t_consumers (prune_client_events X d))" by (simp add: pr)
  have "q = r" if "q \<in> set (t_consumers d)" "cn_id q = cn_id r" for q
    using assms(1,2) that by (auto dest: distinct_map_eqD)
  with assms(3) have subs: "(cn_id r, s) \<in> set (t_subscriptions ?d2) \<longleftrightarrow> (cn_id r, s) \<in> set (t_subscriptions d)" for s
    by (fastforce simp: delete_consumers_def)
  have np: "\<not> prunable ?d2 e" if "(cn_id r, ce_session_id (cr_event e)) \<in> set (t_subscriptions d)"
      "cn_cursor r < event_seq e" for e
    using not_prunable [OF r2 assms(3)] that by (simp add: subs)
  have ev: "t_client_events ?d2 = t_client_events d" by (simp add: delete_consumers_def)
  show "subscribed_rows (cn_id r) (cn_cursor r) (prune_client_events X d)
      = subscribed_rows (cn_id r) (cn_cursor r) d"
  proof (rule subscribed_rows_cong)
    show "(cn_id r, s) \<in> set (t_subscriptions (prune_client_events X d))
        \<longleftrightarrow> (cn_id r, s) \<in> set (t_subscriptions d)" for s
      using subs [of s] by (simp add: pr)
    show "filter (\<lambda>e. (cn_id r, ce_session_id (cr_event e)) \<in> set (t_subscriptions d)
          \<and> cn_cursor r < event_seq e) (t_client_events (prune_client_events X d))
       = filter (\<lambda>e. (cn_id r, ce_session_id (cr_event e)) \<in> set (t_subscriptions d)
          \<and> cn_cursor r < event_seq e) (t_client_events d)"
      by (auto simp: pr ev dest: np intro!: filter_cong)
  qed
qed

section \<open>One page of the feed\<close>

lemma event_from_row_Inr: "event_from_row X r = Inr e \<Longrightarrow> e = cr_event r"
  by (auto simp: event_from_row_def result_simps)

lemma collect_events_spec:
  assumes "collect_events X rows events n = Inr result"
    and "n = sum_list (map (x_event_bytes X) events)" and "n \<le> max_event_page_payload_bytes"
  shows "\<exists>k \<le> length rows. result = events @ map cr_event (take k rows)
    \<and> sum_list (map (x_event_bytes X) result) \<le> max_event_page_payload_bytes
    \<and> (events = [] \<longrightarrow> rows \<noteq> [] \<longrightarrow> result \<noteq> [])"
  using assms
proof (induction X rows events n rule: collect_events.induct)
  case (1 X events n)
  then show ?case by simp
next
  case (2 X r rs events n)
  from 2(2) have row: "event_from_row X r = Inr (cr_event r)"
    by (auto simp: bindR_eq_Inr dest: event_from_row_Inr)
  let ?b = "x_event_bytes X (cr_event r)"
  from 2(2) have b: "?b \<le> max_event_page_payload_bytes" by (simp add: row result_simps Let_def)
  show ?case
  proof (cases "events \<noteq> [] \<and> max_event_page_payload_bytes < n + ?b")
    case True
    with 2(2,3,4) b row have "result = events" by (simp add: Let_def)
    with True 2(3,4) show ?thesis by (intro exI [of _ 0]) simp
  next
    case False
    with 2(2) b row have c: "collect_events X rs (events @ [cr_event r]) (n + ?b) = Inr result"
      by (auto simp: Let_def)
    have "n + ?b \<le> max_event_page_payload_bytes" using False b 2(3) by (cases "events = []") auto
    then obtain k where "k \<le> length rs" "result = (events @ [cr_event r]) @ map cr_event (take k rs)"
      "sum_list (map (x_event_bytes X) result) \<le> max_event_page_payload_bytes"
      using 2(1) [OF row refl _ False c] b 2(3) by auto
    then show ?thesis by (intro exI [of _ "Suc k"]) auto
  qed
qed

lemma last_take: "0 < k \<Longrightarrow> k \<le> length xs \<Longrightarrow> last (take k xs) = xs ! (k - 1)"
  by (subst last_conv_nth) auto

lemma subscribed_rows_sorted:
  assumes "feed_ok d"
  shows "subscribed_rows c cur d =
      filter (\<lambda>e. (c, ce_session_id (cr_event e)) \<in> set (t_subscriptions d) \<and> cur < event_seq e)
        (t_client_events d)"
    and "sorted_wrt (<) (map event_seq (subscribed_rows c cur d))"
proof -
  let ?rows = "filter (\<lambda>e. (c, ce_session_id (cr_event e)) \<in> set (t_subscriptions d) \<and> cur < event_seq e)
        (t_client_events d)"
  have s: "sorted_wrt (<) (map event_seq ?rows)"
    using assms by (intro sorted_wrt_map_filter) (simp add: feed_ok_def)
  then have "sorted (map event_seq ?rows)" by (rule strict_sorted_imp_sorted)
  then show eq: "subscribed_rows c cur d = ?rows" by (simp add: subscribed_rows_def sort_key_sorted)
  show "sorted_wrt (<) (map event_seq (subscribed_rows c cur d))" unfolding eq by (rule s)
qed

interpretation feed_pages: paged_listing event_seq "subscribed_rows c 0" feed_ok for c
  by unfold_locales (rule subscribed_rows_sorted(2))

lemma subscribed_rows_after:
  assumes "feed_ok d"
  shows "after_cursor event_seq (Some cur) (subscribed_rows c 0 d) = subscribed_rows c cur d"
proof -
  have "0 < event_seq e" if "e \<in> set (t_client_events d)" for e
    using assms that by (simp add: feed_ok_def)
  then show ?thesis
    by (auto simp: subscribed_rows_sorted(1) [OF assms] after_cursor_def intro!: filter_cong)
qed

text \<open>What a successful read returns, and where its checkpoint stands.\<close>

lemma client_events_spec:
  assumes "client_events X c limit d = (Inr batch, d')" and "feed_ok d"
  obtains row k where "find (\<lambda>r. cn_id r = c) (t_consumers d) = Some row"
    and "k \<le> limit" and "k \<le> length (subscribed_rows c (cn_cursor row) d)"
    and "eb_events batch = map cr_event (take k (subscribed_rows c (cn_cursor row) d))"
    and "sum_list (map (x_event_bytes X) (eb_events batch)) \<le> max_event_page_payload_bytes"
    and "0 < limit \<Longrightarrow> subscribed_rows c (cn_cursor row) d \<noteq> [] \<Longrightarrow> 0 < k"
    and "eb_checkpoint batch = (if k = 0 then cn_cursor row
           else event_seq (subscribed_rows c (cn_cursor row) d ! (k - 1)))"
    and "subscribed_rows c (eb_checkpoint batch) d = drop k (subscribed_rows c (cn_cursor row) d)"
proof -
  from assms(1) obtain row where f: "find (\<lambda>r. cn_id r = c) (t_consumers d) = Some row"
    by (auto simp: client_events_def utc_now_def split: option.splits)
  let ?rows = "subscribed_rows c (cn_cursor row) d"
  have "subscribed_rows c (cn_cursor row) (d\<lparr>ticks := t, t_consumers := cs\<rparr>) = ?rows" for t cs
    by (simp add: subscribed_rows_def)
  with assms(1) f obtain events where ce: "collect_events X (take limit ?rows) [] 0 = Inr events"
    and batch: "eb_events batch = events"
      "eb_checkpoint batch = (if events = [] then cn_cursor row else ce_sequence (last events))"
    by (auto simp: client_events_def utc_now_def Let_def result_simps)
  from collect_events_spec [OF ce] obtain k where
    k: "k \<le> length (take limit ?rows)" "events = map cr_event (take k (take limit ?rows))"
      "sum_list (map (x_event_bytes X) events) \<le> max_event_page_payload_bytes"
      "take limit ?rows \<noteq> [] \<longrightarrow> events \<noteq> []"
    unfolding append_Nil by fastforce
  from k(1,2) have ev: "events = map cr_event (take k ?rows)" by (simp add: min_absorb1)
  have cp: "eb_checkpoint batch = (if k = 0 then cn_cursor row else event_seq (?rows ! (k - 1)))"
    using k(1) by (auto simp: batch ev last_map last_take)
  have "subscribed_rows c (eb_checkpoint batch) d = drop k ?rows"
  proof (cases "k = 0")
    case False
    have "take k ?rows \<noteq> []" using False k(1) by auto
    moreover have "event_seq (last (take k ?rows)) = eb_checkpoint batch"
      using False k(1) by (simp add: cp last_take)
    ultimately show ?thesis
      using feed_pages.after_next [OF assms(2), of "Some (cn_cursor row)" c "take k ?rows" "drop k ?rows"]
      by (simp add: subscribed_rows_after [OF assms(2)])
  qed (simp add: cp)
  with f k batch ev cp show ?thesis by (intro that [of row k]) auto
qed

end
