(* ===== verification/Frames.thy ===== *)
theory Frames
  imports CatalogInv Feed
begin

text \<open>
  What Session operations leave alone or only extend: the catalog tables are unchanged, the
  journal and the receipts only grow and stay well formed, and the feed keeps its invariant.
  With it the Session projection implements the interface \<open>projection\<close>, so an admission
  has the guarantees of theory Journal.
\<close>

section \<open>The projection\<close>

definition writes_only :: "db \<Rightarrow> db \<Rightarrow> bool" where
  "writes_only d d' \<longleftrightarrow> catalog_eq d d' \<and> log_eq d d' \<and> (feed_ok d \<longrightarrow> feed_ok d')"

definition outer_eq :: "db \<Rightarrow> db \<Rightarrow> bool" where
  "outer_eq d d' \<longleftrightarrow> catalog_eq d d' \<and> log_eq d d' \<and> feed_eq d d'"

lemmas outer_defs = outer_eq_def catalog_eq_def log_eq_def feed_eq_def

lemma outer_writes: "outer_eq d d' \<Longrightarrow> writes_only d d'"
  unfolding outer_eq_def writes_only_def using feed_ok_eq by blast

lemma writes_only_refl [simp]: "writes_only d d"
  by (simp add: writes_only_def catalog_eq_def log_eq_def)

lemma writes_only_trans: "writes_only d d' \<Longrightarrow> writes_only d' d'' \<Longrightarrow> writes_only d d''"
  by (simp add: writes_only_def catalog_eq_def log_eq_def)

lemma append_session_entry_outer:
  "append_session_entry X je m p k c d = Inr (e, d') \<Longrightarrow> outer_eq d d'"
  by (auto simp: append_session_entry_def insert_session_entry_def set_leaf_def Let_def outer_defs
      result_simps)

lemma append_durable_writes:
  assumes "append_durable_client_event X je m k d = Inr d'"
  shows "writes_only d d'"
proof -
  from assms have "catalog_eq d d' \<and> log_eq d d'"
    by (auto simp: append_durable_client_event_def insert_client_event_def put_client_event_def
        Let_def catalog_eq_def log_eq_def result_simps)
  with feed_ok_durable [OF assms] show ?thesis by (simp add: writes_only_def)
qed

lemma entry_then_event_writes:
  assumes "append_session_entry X je m p k c d = Inr (e, d1)"
    and "append_durable_client_event X je m' ck d1 = Inr d'"
  shows "writes_only d d'"
  using append_session_entry_outer [OF assms(1)] append_durable_writes [OF assms(2)]
  by (blast intro: writes_only_trans outer_writes)

lemma project_turn_terminal_writes:
  assumes "project_turn_terminal X je t st err p ck d = Inr d'"
  shows "writes_only d d'"
proof -
  from assms obtain rows e m d2 where
    a: "append_session_entry X je m p (terminal_kind st) False (d\<lparr>t_turns := rows\<rparr>) = Inr (e, d2)"
    and b: "append_durable_client_event X je (Some m) ck d2 = Inr d'"
    by (auto simp: project_turn_terminal_def Let_def result_simps)
  have "outer_eq d (d\<lparr>t_turns := rows\<rparr>)" by (simp add: outer_defs)
  with entry_then_event_writes [OF a b] show ?thesis by (blast intro: writes_only_trans outer_writes)
qed

lemma apply_turn_started_writes:
  assumes "apply_turn_started X je sid t h d = Inr d'"
  shows "writes_only d d'"
proof -
  from assms obtain rows e m p k d2 where
    a: "append_session_entry X je m p k False (d\<lparr>t_turns := rows\<rparr>) = Inr (e, d2)"
    and b: "append_durable_client_event X je (Some m) (CE_TurnStarted t) d2 = Inr d'"
    by (auto simp: apply_turn_started_def Let_def result_simps)
  have "outer_eq d (d\<lparr>t_turns := rows\<rparr>)" by (simp add: outer_defs)
  with entry_then_event_writes [OF a b] show ?thesis by (blast intro: writes_only_trans outer_writes)
qed

lemma arm_outer:
  "apply_session_created s d = Inr d' \<Longrightarrow> outer_eq d d'"
  "apply_session_model_changed sid model d = Inr d' \<Longrightarrow> outer_eq d d'"
  "apply_session_leaf_changed sid leaf d = Inr d' \<Longrightarrow> outer_eq d d'"
  "apply_turn_accepted X je sid t n m c md src d = Inr d' \<Longrightarrow> outer_eq d d'"
  "apply_effect_scheduled je sid op t eff d = Inr d' \<Longrightarrow> outer_eq d d'"
  "apply_effect_started je op d = Inr d' \<Longrightarrow> outer_eq d d'"
  "set_effect_terminal X je op t st raw d = Inr d' \<Longrightarrow> outer_eq d d'"
  "upsert_acp_binding b d = Inr d' \<Longrightarrow> outer_eq d d'"
  "apply_acp_context_dispatched sid h harness version hash channel d = Inr d' \<Longrightarrow> outer_eq d d'"
  "append_only X je m p k contextual d = Inr d' \<Longrightarrow> outer_eq d d'"
  by (auto simp: apply_session_created_def insert_session_def apply_session_model_changed_def
      apply_session_leaf_changed_def set_leaf_def apply_turn_accepted_def insert_session_entry_def
      insert_turn_def apply_effect_scheduled_def insert_effect_def apply_effect_started_def
      set_effect_terminal_def upsert_acp_binding_def apply_acp_context_dispatched_def
      append_only_def Let_def outer_defs result_simps split: prod.splits option.splits if_splits
      dest!: append_session_entry_outer)

lemma apply_session_writes:
  assumes "apply_session_journal_entry X je d = Inr d'"
  shows "writes_only d d'"
proof -
  from assms obtain sid where "journal_session_id X je = Inr sid"
    by (auto simp: apply_session_journal_entry_def result_simps)
  with assms show ?thesis
    by (cases "je_payload je")
      (auto simp: apply_session_journal_entry_def apply_assistant_response_def
        apply_tool_call_requested_def apply_tool_result_recorded_def Let_def result_simps
        split: if_splits
        intro: outer_writes arm_outer append_session_entry_outer entry_then_event_writes
          project_turn_terminal_writes apply_turn_started_writes)
qed

interpretation session_projection: projection "mutate_first X" for X
  by unfold_locales
    (auto simp: mutate_first_def writes_only_def log_eq_def dest!: apply_session_writes)

section \<open>The operations\<close>

definition framed :: "ext \<Rightarrow> db \<Rightarrow> db \<Rightarrow> bool" where
  "framed X d d' \<longleftrightarrow> catalog_eq d d' \<and> prefix (t_journal d) (t_journal d')
     \<and> prefix (t_receipts d) (t_receipts d') \<and> (journal_ok X d \<longrightarrow> journal_ok X d')
     \<and> (feed_ok d \<longrightarrow> feed_ok d')"

lemma framed_refl [simp]: "framed X d d"
  by (simp add: framed_def catalog_eq_def)

lemma framed_trans: "framed X d d' \<Longrightarrow> framed X d' d'' \<Longrightarrow> framed X d d''"
  by (auto simp: framed_def catalog_eq_def intro: prefix_order.trans)

lemma writes_framed: "writes_only d d' \<Longrightarrow> framed X d d'"
  using journal_ok_cong [of d' d X] by (simp add: writes_only_def framed_def log_eq_def)

lemma outer_framed: "outer_eq d d' \<Longrightarrow> framed X d d'"
  by (intro writes_framed outer_writes)

lemma new_id_framed: "new_id X k d = (i, d') \<Longrightarrow> framed X d d'"
  by (rule outer_framed) (auto simp: new_id_def outer_defs)

lemma utc_now_framed: "utc_now X d = (i, d') \<Longrightarrow> framed X d d'"
  by (rule outer_framed) (auto simp: utc_now_def outer_defs)

lemma prune_framed: "framed X d (prune_client_events X d)"
  using feed_ok_prune [of d X]
  by (intro writes_framed)
    (auto simp: writes_only_def prune_client_events_def utc_now_def delete_consumers_def Let_def
      catalog_eq_def log_eq_def)

lemma record_framed:
  assumes "record_session_event_correlated X sid actor ev corr d = Inr (je, d')"
  shows "framed X d d'"
proof -
  obtain i d1 where n: "new_id X EventIdK d = (i, d1)" by fastforce
  with assms have r: "record_journal_entry X ST_Session sid
      \<lparr>ne_id = i, ne_actor = actor, ne_correlation_id = corr, ne_payload = ev\<rparr> d1 = Inr (je, d')"
    by (simp add: record_session_event_correlated_def)
  have "framed X d1 d'"
    using record_journal_entry_Inr(1) [OF r] journal_ok_record [OF r]
    by (auto simp: framed_def catalog_eq_def feed_ok_def)
  with new_id_framed [OF n] show ?thesis by (rule framed_trans)
qed

lemma commit_correlated_framed:
  assumes "commit_correlated X sid actor ev corr d = Inr d'"
  shows "framed X d d'"
proof -
  from assms obtain je d1 where
    r: "record_session_event_correlated X sid actor ev corr d = Inr (je, d1)"
    and a: "apply_session_journal_entry X je d1 = Inr d'"
    by (auto simp: commit_correlated_def result_simps)
  show ?thesis
    by (rule framed_trans [OF record_framed [OF r] writes_framed [OF apply_session_writes [OF a]]])
qed

lemma commit_event_framed: "commit_event X sid actor ev d = Inr d' \<Longrightarrow> framed X d d'"
  by (simp add: commit_event_def commit_correlated_framed)

lemma new_id_commit_framed:
  "new_id X k d = (i, d1) \<Longrightarrow> commit_correlated X sid actor ev corr d1 = Inr d' \<Longrightarrow> framed X d d'"
  "new_id X k d = (i, d1) \<Longrightarrow> commit_event X sid actor ev d1 = Inr d' \<Longrightarrow> framed X d d'"
  by (blast intro: framed_trans new_id_framed commit_correlated_framed commit_event_framed)+

lemma foldR_framed:
  assumes "foldR f xs d = Inr d'" and "\<And>x d d'. f x d = Inr d' \<Longrightarrow> framed X d d'"
  shows "framed X d d'"
  using assms(1) by (rule foldR_invariant [where P = "framed X d"])
    (auto intro: framed_trans assms(2))

lemma schedule_effect_in_framed:
  "schedule_effect_in X sid t eff d = Inr (op, d') \<Longrightarrow> framed X d d'"
  by (auto simp: schedule_effect_in_def result_simps split: prod.splits dest: new_id_commit_framed)

lemma mark_effect_started_in_framed: "mark_effect_started_in X sid t op d = Inr d' \<Longrightarrow> framed X d d'"
  by (auto simp: mark_effect_started_in_def result_simps dest: commit_event_framed)

lemma effect_ops_framed:
  "schedule_effect X sid t eff d = Inr (op, d') \<Longrightarrow> framed X d d'"
  "mark_effect_started X sid t op d = Inr d' \<Longrightarrow> framed X d d'"
  "start_effect X sid t eff d = Inr (op, d') \<Longrightarrow> framed X d d'"
  "finish_effect X sid t op out d = Inr d' \<Longrightarrow> framed X d d'"
  by (auto simp: schedule_effect_def mark_effect_started_def start_effect_def finish_effect_def
      finish_effect_in_def result_simps
      dest!: schedule_effect_in_framed mark_effect_started_in_framed commit_event_framed
      intro: framed_trans)

lemma append_entry_feed:
  "append_entry X cid at s e (acc, d) = Inr (acc', d') \<Longrightarrow> feed_eq d d'"
  by (auto simp: append_entry_def feed_eq_def result_simps dest!: insert_entry_Inr(1))

lemma append_subject_feed:
  assumes "append_subject X cid at s p = Inr p'"
  shows "feed_eq (snd p) (snd p')"
  using assms unfolding append_subject_def
  by (rule foldR_invariant [where P = "\<lambda>q. feed_eq (snd p) (snd q)"])
    (auto simp: feed_eq_def dest!: append_entry_feed)

lemma append_feed:
  assumes "append_journal_entries_in X a (mutate_first X) d = Inr (out, d')" and "feed_ok d"
  shows "feed_ok d'"
proof (cases "select_command_receipt (ja_command_id a) d")
  case (Some r)
  with assms show ?thesis by (auto simp: append_journal_entries_in_def result_simps)
next
  case None
  with assms(1) obtain es d2 d3 r where
    f: "foldR (append_subject X (ja_command_id a) (x_now X (ticks d))) (ja_subjects a)
          ([], d\<lparr>ticks := Suc (ticks d)\<rparr>) = Inr (es, d2)"
    and m: "mutate_first X es d2 = Inr d3" and i: "insert_receipt r d3 = Inr d'"
    by (auto simp: append_journal_entries_in_def utc_now_def Let_def result_simps)
  from f have "feed_eq d (snd (es, d2))"
    by (rule foldR_invariant [where P = "\<lambda>q. feed_eq d (snd q)"])
      (auto simp: feed_eq_def dest!: append_subject_feed)
  with assms(2) have "feed_ok d2" by (simp add: feed_ok_eq)
  with m have "feed_ok d3" by (auto simp: mutate_first_def writes_only_def dest!: apply_session_writes)
  with i show ?thesis by (auto simp: insert_receipt_def feed_ok_def result_simps)
qed

lemma append_framed:
  assumes "append_journal_entries_in X a (mutate_first X) d = Inr (out, d')"
  shows "framed X d d'"
proof (cases "d' = d")
  case False
  from append_commits [OF assms] False obtain es d1 d2 where
    "tables_eq d d1" "mutate_first X es d1 = Inr d2" "tables_eq d2 d'"
    by (auto simp: committed_by_def)
  then have c: "catalog_eq d d'"
    by (auto simp: mutate_first_def tables_eq_def catalog_eq_def writes_only_def
        dest!: apply_session_writes)
  from False obtain es r where out: "out = Appended es r"
    using session_projection.append_Replayed(1) assms by (cases out) auto
  note ap = session_projection.append_Appended [OF assms [unfolded out]]
  have "feed_ok d'" if "feed_ok d"
    using append_feed [OF assms that] .
  with c ap(1,4,10) show ?thesis by (simp add: framed_def)
qed simp

lemma turn_append_framed: "turn_append X sid key rc c md src n d = (a, d') \<Longrightarrow> framed X d d'"
  by (rule outer_framed) (auto simp: turn_append_def new_id_def Let_def outer_defs)

lemma accept_turn_append_framed:
  assumes "accept_turn_append X sid key rc c md src d = Inr (out, d')"
  shows "framed X d d'"
proof -
  from assms obtain n a d1 where "turn_append X sid key rc c md src n d = (a, d1)"
    and "append_journal_entries_in X a (mutate_first X) d1 = Inr (out, d')"
    by (rule accept_turn_append_Inr)
  then show ?thesis by (blast intro: framed_trans turn_append_framed append_framed)
qed

lemma create_session_framed:
  "create_session X aid hid dir d = Inr (s, d') \<Longrightarrow> framed X d d'"
  by (auto simp: create_session_def Let_def result_simps split: prod.splits
      dest!: new_id_framed utc_now_framed commit_event_framed intro: framed_trans)

lemma set_session_model_in_framed: "set_session_model_in X sid model d = Inr d' \<Longrightarrow> framed X d d'"
  by (auto simp: set_session_model_in_def result_simps dest: commit_event_framed)

lemma decide_acp_binding_framed:
  assumes "decide_acp_binding X sid b d = Inr (ab, d')"
  shows "framed X d d'"
proof -
  from assms have "d' = d\<lparr>ticks := Suc (ticks d)\<rparr>"
    unfolding decide_acp_binding_def utc_now_def Let_def prod.case bindR_eq_Inr
    by (elim exE conjE)
      (simp split: option.splits AcpBindingTransition.splits if_splits; clarify; simp)
  then show ?thesis by (intro outer_framed) (simp add: outer_defs)
qed

lemma bind_acp_session_in_framed: "bind_acp_session_in X sid b d = Inr d' \<Longrightarrow> framed X d d'"
  by (auto simp: bind_acp_session_in_def result_simps
      dest!: decide_acp_binding_framed commit_event_framed intro: framed_trans)

lemma acp_observation_framed:
  "record_acp_observation_transaction X sid t a key ob d = Inr d' \<Longrightarrow> framed X d d'"
  by (auto simp: record_acp_observation_transaction_def split: if_splits prod.splits
      dest: new_id_commit_framed)

lemma bind_acp_session_with_observations_framed:
  "bind_acp_session_with_observations X sid b t d = Inr d' \<Longrightarrow> framed X d d'"
  by (auto simp: bind_acp_session_with_observations_def Let_def result_simps split: if_splits
      dest!: bind_acp_session_in_framed acp_observation_framed intro: framed_trans)

lemma mark_acp_context_dispatched_framed:
  "mark_acp_context_dispatched_with_observation X sid t a d = Inr d' \<Longrightarrow> framed X d d'"
  by (auto simp: mark_acp_context_dispatched_with_observation_def Let_def result_simps
      split: if_splits dest!: commit_event_framed acp_observation_framed intro: framed_trans)

lemma append_tool_call_framed: "append_tool_call X sid t actor call d = Inr d' \<Longrightarrow> framed X d d'"
  by (auto simp: append_tool_call_def split: prod.splits dest: new_id_commit_framed)

lemma append_assistant_response_framed:
  assumes "append_assistant_response_with_tool_calls X sid t response calls d = Inr (e, d')"
  shows "framed X d d'"
proof -
  obtain m d1 where n: "new_id X MessageIdK d = (m, d1)" by fastforce
  with assms obtain actor d2 d3 where
    c: "commit_event X sid actor (JE_AssistantResponseRecorded t m response) d1 = Inr d2"
    and f: "foldR (append_tool_call X sid t actor) calls d2 = Inr d3"
    and d': "d' = prune_client_events X d3"
    by (auto simp: append_assistant_response_with_tool_calls_def bindR_eq_Inr)
  have "framed X d2 d3" by (rule foldR_framed [OF f]) (rule append_tool_call_framed)
  with new_id_commit_framed(2) [OF n c] prune_framed [of X d3] show ?thesis
    unfolding d' by (blast intro: framed_trans)
qed

lemma append_tool_result_framed: "append_tool_result X sid t result d = Inr (e, d') \<Longrightarrow> framed X d d'"
  by (auto simp: append_tool_result_def result_simps split: prod.splits dest: new_id_commit_framed)

lemma complete_tool_execution_framed: "complete_tool_execution X sid t result d = Inr d' \<Longrightarrow> framed X d d'"
  by (auto simp: complete_tool_execution_def result_simps dest: commit_event_framed)

lemma append_tool_requested_framed: "append_tool_requested X sid t call d = Inr (e, d') \<Longrightarrow> framed X d d'"
  by (auto simp: append_tool_requested_def result_simps split: prod.splits dest: new_id_commit_framed)

lemma append_reasoning_framed:
  "append_reasoning X sid t txt visibility provenance key d = Inr d' \<Longrightarrow> framed X d d'"
  by (auto simp: append_reasoning_def result_simps split: if_splits prod.splits dest: new_id_commit_framed)

lemma append_observation_framed: "append_observation X sid t actor ob d = Inr d' \<Longrightarrow> framed X d d'"
  by (auto simp: append_observation_def split: if_splits prod.splits dest: new_id_commit_framed)

lemma append_harness_observations_framed:
  "append_harness_observations X sid t obs d = Inr d' \<Longrightarrow> framed X d d'"
  by (auto simp: append_harness_observations_def result_simps
      intro: foldR_framed append_observation_framed)

lemma append_context_compaction_framed:
  "append_context_compaction X sid summary m n d = Some (Inr (e, d')) \<Longrightarrow> framed X d d'"
  by (auto simp: append_context_compaction_def result_simps split: if_splits prod.splits
      dest: new_id_commit_framed)

lemma append_message_checked_framed:
  "append_message_checked X sid expected role c md src d = Inr (msg, d') \<Longrightarrow> framed X d d'"
  by (auto simp: append_message_checked_def result_simps split: prod.splits dest: new_id_commit_framed)

lemma append_message_framed:
  "append_message X sid role c md src d = Inr (msg, d') \<Longrightarrow> framed X d d'"
  by (auto simp: append_message_def result_simps dest: append_message_checked_framed)

lemma set_session_leaf_in_framed: "set_session_leaf_in X sid expected leaf d = Inr d' \<Longrightarrow> framed X d d'"
  by (auto simp: set_session_leaf_in_def result_simps dest: commit_event_framed)

section \<open>Turns\<close>

lemma record_tool_result_framed: "record_tool_result X sid t result d = Inr d' \<Longrightarrow> framed X d d'"
  by (auto simp: record_tool_result_def split: prod.splits dest: new_id_commit_framed)

lemma close_effect_framed: "close_effect X sid t r d = Inr d' \<Longrightarrow> framed X d d'"
  by (auto simp: close_effect_def record_terminated_tool_result_def Let_def result_simps
      split: option.splits dest!: commit_event_framed record_tool_result_framed intro: framed_trans)

lemma close_open_effects_framed: "close_open_effects X sid t d = Inr d' \<Longrightarrow> framed X d d'"
  unfolding close_open_effects_def by (erule foldR_framed) (rule close_effect_framed)

lemma close_orphan_framed: "close_orphan X sid t done raws call d = Inr d' \<Longrightarrow> framed X d d'"
  by (auto simp: close_orphan_def record_terminated_tool_result_def
      record_interrupted_tool_processing_def split: if_splits option.splits
      dest: record_tool_result_framed)

lemma close_orphan_tool_calls_framed: "close_orphan_tool_calls X sid t d = Inr d' \<Longrightarrow> framed X d d'"
  unfolding close_orphan_tool_calls_def by (erule foldR_framed) (rule close_orphan_framed)

lemma finish_turn_framed:
  "finish_turn_with_stop_reason X t status err reason d = Inr d' \<Longrightarrow> framed X d d'"
  by (auto simp: finish_turn_with_stop_reason_def result_simps split: option.splits if_splits
      dest!: close_open_effects_framed close_orphan_tool_calls_framed commit_event_framed
      intro: framed_trans)

lemma record_turn_harness_framed: "record_turn_harness X t h hash v d = Inr d' \<Longrightarrow> framed X d d'"
  by (auto simp: record_turn_harness_def result_simps split: option.splits dest: commit_event_framed)

lemma interrupt_turn_framed: "interrupt_turn X row d = Inr d' \<Longrightarrow> framed X d d'"
  by (auto simp: interrupt_turn_def result_simps
      dest!: close_open_effects_framed close_orphan_tool_calls_framed commit_event_framed
      intro: framed_trans)

lemma recover_framed:
  assumes "recover_interrupted_work X d = Inr d'"
  shows "framed X d d'"
proof -
  let ?d1 = "d\<lparr>t_client_events := filter (\<lambda>e. \<not> cr_transient e) (t_client_events d)\<rparr>"
  from assms have f: "foldR (interrupt_turn X) (filter is_active (t_turns ?d1)) ?d1 = Inr d'"
    by (simp add: recover_interrupted_work_def Let_def)
  have "feed_ok d \<Longrightarrow> feed_ok ?d1"
    by (rule feed_ok_filter [where p = "\<lambda>e. \<not> cr_transient e" and q = "\<lambda>_. True"]) simp_all
  then have "writes_only d ?d1" by (simp add: writes_only_def catalog_eq_def log_eq_def)
  moreover have "framed X ?d1 d'" by (rule foldR_framed [OF f]) (rule interrupt_turn_framed)
  ultimately show ?thesis by (blast intro: framed_trans writes_framed)
qed

end
