(* ===== verification/System.thy ===== *)
theory System
  imports Frames TurnSteps Branch
begin

text \<open>
  The store as one transition system: a step per public operation that committed. Every
  operation is a sequence of Session steps and of catalog steps and only extends the journal,
  so the invariants of all parts hold in every state reached from the empty database, and
  what any operation may never undo is never undone.
\<close>

section \<open>Catalog commands and the journal\<close>

definition logged :: "ext \<Rightarrow> db \<Rightarrow> db \<Rightarrow> bool" where
  "logged X d d' \<longleftrightarrow> prefix (t_journal d) (t_journal d') \<and> prefix (t_receipts d) (t_receipts d')
     \<and> (journal_ok X d \<longrightarrow> journal_ok X d') \<and> (feed_ok d \<longrightarrow> feed_ok d')"

lemma logged_refl [simp]: "logged X d d"
  by (simp add: logged_def)

lemma logged_trans: "logged X d d' \<Longrightarrow> logged X d' d'' \<Longrightarrow> logged X d d''"
  by (auto simp: logged_def intro: prefix_order.trans)

lemma framed_logged: "framed X d d' \<Longrightarrow> logged X d d'"
  by (simp add: framed_def logged_def)

text \<open>A decision draws identifiers and reads the clock, nothing else.\<close>

definition drawn :: "db \<Rightarrow> db \<Rightarrow> bool" where
  "drawn d d' \<longleftrightarrow> (\<exists>n. d' = d\<lparr>ticks := n\<rparr>)"

lemma drawn_outer: "drawn d d' \<Longrightarrow> outer_eq d d'"
  by (auto simp: drawn_def outer_defs)

lemma decide_drawn:
  "decide_create_agent X slug soul cfg author d = Inr (y1, d0) \<Longrightarrow> drawn d d0"
  "decide_rename_agent X slug new_slug d = Inr (y2, d0) \<Longrightarrow> drawn d d0"
  "decide_archive_agent X slug d = Inr (y3, d0) \<Longrightarrow> drawn d d0"
  "decide_update_agent X aid n soul cfg author d = Inr (y4, d0) \<Longrightarrow> drawn d d0"
  "decide_revoke_host X h d = Inr (y3, d0) \<Longrightarrow> drawn d d0"
  "decide_consume_invitation X i secret name pk nk url d = Inr (y5, d0) \<Longrightarrow> drawn d d0"
  "decide_defaults X f d = Inr (y3, d0) \<Longrightarrow> drawn d d0"
  "decide_move_hub X expected target d = Inr (y6, d0) \<Longrightarrow> drawn d d0"
  by (auto simp: drawn_def decide_create_agent_def decide_rename_agent_def decide_archive_agent_def
      decide_update_agent_def decide_revoke_host_def decide_consume_invitation_def
      decide_defaults_def decide_move_hub_def draw_defs result_simps)

text \<open>A projection that leaves the client feed alone, as those of the catalog do.\<close>

locale quiet_projection = projection +
  assumes mutate_feed: "mutate es d = Inr d' \<Longrightarrow> feed_eq d d'"
begin

lemma append_feed_ok:
  assumes "append_journal_entries_in X a mutate d = Inr (out, d')" and "feed_ok d"
  shows "feed_ok d'"
proof (cases "select_command_receipt (ja_command_id a) d")
  case (Some r)
  with assms show ?thesis by (auto simp: append_journal_entries_in_def result_simps)
next
  case None
  with assms(1) obtain es d2 d3 r where
    f: "foldR (append_subject X (ja_command_id a) (x_now X (ticks d))) (ja_subjects a)
          ([], d\<lparr>ticks := Suc (ticks d)\<rparr>) = Inr (es, d2)"
    and m: "mutate es d2 = Inr d3" and i: "insert_receipt r d3 = Inr d'"
    by (auto simp: append_journal_entries_in_def utc_now_def Let_def result_simps)
  from f have "feed_eq d (snd (es, d2))"
    by (rule foldR_invariant [where P = "\<lambda>q. feed_eq d (snd q)"])
      (auto simp: feed_eq_def dest!: append_subject_feed)
  with assms(2) feed_ok_eq [OF mutate_feed [OF m]] have "feed_ok d3" by (simp add: feed_ok_eq)
  with i show ?thesis by (auto simp: insert_receipt_def feed_ok_def result_simps)
qed

lemma append_logged:
  assumes "append_journal_entries_in X a mutate d = Inr (out, d')"
  shows "logged X d d'"
proof (cases out)
  case (Appended es r)
  note ap = append_Appended [OF assms [unfolded Appended]]
  from ap(1,4,10) append_feed_ok [OF assms] show ?thesis by (simp add: logged_def)
next
  case (Replayed r)
  with append_Replayed(1) assms show ?thesis by fastforce
qed

lemma drawn_append_logged:
  "drawn d d0 \<Longrightarrow> append_journal_entries_in X a mutate d0 = Inr (out, d') \<Longrightarrow> logged X d d'"
  by (blast intro: logged_trans framed_logged outer_framed drawn_outer append_logged)

lemma transact_logged:
  assumes "transact_command X c operation hash to_result from_result decide mutate d = Inr (y, d')"
    and "\<And>y d0. decide d = Inr (y, d0) \<Longrightarrow> drawn d d0"
  shows "logged X d d'"
proof (cases "select_command_receipt (context_operation_id c operation) d")
  case (Some r)
  with assms show ?thesis by (auto simp: transact_command_def result_simps)
next
  case None
  with assms(1) obtain z d0 a out where dec: "decide d = Inr (z, d0)"
    and ap: "append_journal_entries_in X a mutate d0 = Inr (out, d')"
    by (auto simp: transact_command_def Let_def result_simps)
  show ?thesis by (rule drawn_append_logged [OF assms(2) [OF dec] ap])
qed

end

lemma apply_agent_events_feed: "apply_agent_events es d = Inr d' \<Longrightarrow> feed_eq d d'"
  unfolding apply_agent_events_def
proof (erule foldR_invariant [where P = "feed_eq d"])
  fix je d1 d2 assume "apply_agent_event je d1 = Inr d2" "feed_eq d d1"
  then show "feed_eq d d2"
    by (cases "je_payload je")
      (auto simp: apply_agent_event_def apply_agent_created_def insert_or_ignore_agent_def
        apply_agent_revision_def insert_agent_revision_def apply_agent_renamed_def
        apply_agent_archived_def feed_eq_def Let_def result_simps split: if_splits)
qed (simp add: feed_eq_def)

lemma apply_host_events_feed: "apply_host_events es d = Inr d' \<Longrightarrow> feed_eq d d'"
  unfolding apply_host_events_def
proof (erule foldR_invariant [where P = "feed_eq d"])
  fix je d1 d2 assume "apply_host_event je d1 = Inr d2" "feed_eq d d1"
  then show "feed_eq d d2"
    by (cases "je_payload je")
      (auto simp: apply_host_event_def insert_host_def apply_host_revoked_def insert_invitation_def
        apply_invitation_consumed_def feed_eq_def Let_def result_simps)
qed (simp add: feed_eq_def)

lemma apply_installation_events_feed: "apply_installation_events es d = Inr d' \<Longrightarrow> feed_eq d d'"
  unfolding apply_installation_events_def
proof (erule foldR_invariant [where P = "feed_eq d"])
  fix je d1 d2 assume "apply_installation_event je d1 = Inr d2" "feed_eq d d1"
  then show "feed_eq d d2"
    by (cases "je_payload je")
      (auto simp: apply_installation_event_def insert_installation_def apply_relay_changed_def
        apply_provider_defaults_def put_setting_def apply_hub_changed_def feed_eq_def Let_def
        result_simps split: option.splits if_splits)
qed (simp add: feed_eq_def)

interpretation agent_catalog: quiet_projection apply_agent_events
  by unfold_locales (rule apply_agent_events_feed)

interpretation host_catalog: quiet_projection apply_host_events
  by unfold_locales (rule apply_host_events_feed)

interpretation installation_catalog: quiet_projection apply_installation_events
  by unfold_locales (rule apply_installation_events_feed)

interpretation initial_catalog: quiet_projection apply_initial_events
  by unfold_locales
    (auto simp: apply_initial_events_def bindR_eq_Inr feed_eq_def
      dest!: apply_host_events_feed apply_installation_events_feed)

lemma agent_commands_logged:
  "create_agent X c slug soul cfg author d = Inr (ar, d') \<Longrightarrow> logged X d d'"
  "rename_agent_with_command X c command slug new_slug d = Inr (a, d') \<Longrightarrow> logged X d d'"
  "archive_agent X c slug d = Inr d' \<Longrightarrow> logged X d d'"
  "update_agent X c aid n soul cfg author d = Inr (r, d') \<Longrightarrow> logged X d d'"
  by (auto simp: create_agent_def rename_agent_with_command_def archive_agent_def update_agent_def
      bindR_eq_Inr elim!: agent_catalog.transact_logged intro: decide_drawn)

lemma host_commands_logged:
  "revoke_host X c h d = Inr d' \<Longrightarrow> logged X d d'"
  "consume_invitation X c i secret name pk nk url d = Inr (h', d') \<Longrightarrow> logged X d d'"
  by (auto simp: revoke_host_def consume_invitation_def bindR_eq_Inr
      elim!: host_catalog.transact_logged intro: decide_drawn)

lemma create_invitation_logged:
  assumes "create_invitation X c expires d = Inr (iv, d')"
  shows "logged X d d'"
proof -
  from assms obtain a d0 out where "append_journal_entries_in X a apply_host_events d0 = Inr (out, d')"
    and "d0 = d\<lparr>ticks := ticks d0\<rparr>"
    by (auto simp: create_invitation_def new_secret_def draw_defs result_simps)
  then show ?thesis by (intro host_catalog.drawn_append_logged [of d d0]) (auto simp: drawn_def)
qed

lemma append_installation_event_logged:
  assumes "append_installation_event X c command request payload d = Inr d'"
  shows "logged X d d'"
proof -
  from assms obtain a d0 out where
    "append_journal_entries_in X a apply_installation_events d0 = Inr (out, d')"
    and "d0 = d\<lparr>ticks := ticks d0\<rparr>"
    by (auto simp: append_installation_event_def draw_defs result_simps)
  then show ?thesis by (intro installation_catalog.drawn_append_logged [of d d0]) (auto simp: drawn_def)
qed

lemma installation_commands_logged:
  "set_relay_url X c url d = Inr d' \<Longrightarrow> logged X d d'"
  "set_installation_relay_url X c url d = Inr d' \<Longrightarrow> logged X d d'"
  "set_default_model X c model d = Inr d' \<Longrightarrow> logged X d d'"
  "set_default_reasoning X c reasoning d = Inr d' \<Longrightarrow> logged X d d'"
  "move_hub X c expected target d = Inr (i, d') \<Longrightarrow> logged X d d'"
  by (auto simp: set_relay_url_def set_installation_relay_url_def set_default_model_def
      set_default_reasoning_def move_hub_def bindR_eq_Inr
      elim!: installation_catalog.transact_logged append_installation_event_logged
      intro: decide_drawn)

lemma initialize_logged:
  assumes "initialize X c name pk nk ik d = Inr (i, d')"
  shows "logged X d d'"
proof (cases "d' = d")
  case False
  with assms obtain a d0 out where "append_journal_entries_in X a apply_initial_events d0 = Inr (out, d')"
    and "d0 = d\<lparr>ticks := ticks d0\<rparr>"
    by (auto simp: initialize_def draw_defs result_simps split: option.splits)
  then show ?thesis by (intro initial_catalog.drawn_append_logged [of d d0]) (auto simp: drawn_def)
qed simp

section \<open>The steps of the store\<close>

inductive op_step :: "ext \<Rightarrow> db \<Rightarrow> db \<Rightarrow> bool" for X where
  OpInitialize: "initialize X c name pk nk ik d = Inr (i, d') \<Longrightarrow> op_step X d d'"
| OpRelay: "set_relay_url X c url d = Inr d' \<Longrightarrow> op_step X d d'"
| OpInstallationRelay: "set_installation_relay_url X c url d = Inr d' \<Longrightarrow> op_step X d d'"
| OpDefaultModel: "set_default_model X c model d = Inr d' \<Longrightarrow> op_step X d d'"
| OpDefaultReasoning: "set_default_reasoning X c r d = Inr d' \<Longrightarrow> op_step X d d'"
| OpMoveHub: "move_hub X c expected target d = Inr (i, d') \<Longrightarrow> op_step X d d'"
| OpRevokeHost: "revoke_host X c h d = Inr d' \<Longrightarrow> op_step X d d'"
| OpCreateInvitation: "create_invitation X c expires d = Inr (iv, d') \<Longrightarrow> op_step X d d'"
| OpConsumeInvitation: "consume_invitation X c iid secret name pk nk url d = Inr (h', d') \<Longrightarrow> op_step X d d'"
| OpCreateAgent: "create_agent X c slug soul cfg author d = Inr (ar, d') \<Longrightarrow> op_step X d d'"
| OpRenameAgent: "rename_agent X c slug new_slug d = Inr (a, d') \<Longrightarrow> op_step X d d'"
| OpRollbackRename: "rollback_agent_rename X c slug new_slug d = Inr (a, d') \<Longrightarrow> op_step X d d'"
| OpArchiveAgent: "archive_agent X c slug d = Inr d' \<Longrightarrow> op_step X d d'"
| OpUpdateAgent: "update_agent X c aid expected soul cfg author d = Inr (r', d') \<Longrightarrow> op_step X d d'"
| OpCreateSession: "create_session X aid h dir d = Inr (s, d') \<Longrightarrow> op_step X d d'"
| OpSessionModel: "set_session_model X sid m d = (res, d') \<Longrightarrow> op_step X d d'"
| OpAcceptTurn: "accept_turn_idempotent X sid key req con md src d = (res, d') \<Longrightarrow> op_step X d d'"
| OpBind: "bind_acp_session X sid b d = (res, d') \<Longrightarrow> op_step X d d'"
| OpBindObserved: "bind_acp_session_with_observations X sid b t d = Inr d' \<Longrightarrow> op_step X d d'"
| OpDispatched: "mark_acp_context_dispatched_with_observation X sid t asid d = Inr d' \<Longrightarrow> op_step X d d'"
| OpScheduleEffect: "schedule_effect X sid t eff d = Inr (op, d') \<Longrightarrow> op_step X d d'"
| OpMarkStarted: "mark_effect_started X sid t op d = Inr d' \<Longrightarrow> op_step X d d'"
| OpStartEffect: "start_effect X sid t eff d = Inr (op, d') \<Longrightarrow> op_step X d d'"
| OpFinishEffect: "finish_effect X sid t op out d = Inr d' \<Longrightarrow> op_step X d d'"
| OpMessage: "append_message X sid role con md src d = Inr (msg, d') \<Longrightarrow> op_step X d d'"
| OpMessageChecked:
    "append_message_checked X sid leaf role con md src d = Inr (msg, d') \<Longrightarrow> op_step X d d'"
| OpAssistantResponse:
    "append_assistant_response_with_tool_calls X sid t response calls d = Inr (e, d') \<Longrightarrow> op_step X d d'"
| OpToolResult: "append_tool_result X sid t result d = Inr (e, d') \<Longrightarrow> op_step X d d'"
| OpCompleteTool: "complete_tool_execution X sid t result d = Inr d' \<Longrightarrow> op_step X d d'"
| OpToolRequested: "append_tool_requested X sid t call d = Inr (e, d') \<Longrightarrow> op_step X d d'"
| OpReasoning: "append_reasoning X sid t txt visibility provenance okey d = Inr d' \<Longrightarrow> op_step X d d'"
| OpObservations: "append_harness_observations X sid t obs d = Inr d' \<Longrightarrow> op_step X d d'"
| OpAcpObservation: "append_acp_observation X sid t oasid okey ob d = Inr d' \<Longrightarrow> op_step X d d'"
| OpAcpObservationEvent:
    "append_acp_observation_with_client_event X sid t oasid okey ob ev d = Inr d' \<Longrightarrow> op_step X d d'"
| OpCompaction: "append_context_compaction X sid summary kept tokens d = Some (Inr (e, d')) \<Longrightarrow> op_step X d d'"
| OpLeaf: "set_session_leaf_checked X sid leaf leaf' d = (res, d') \<Longrightarrow> op_step X d d'"
| OpFinishTurn: "finish_turn_with_stop_reason X t status err reason d = Inr d' \<Longrightarrow> op_step X d d'"
| OpHarness: "record_turn_harness X t harness hash version d = Inr d' \<Longrightarrow> op_step X d d'"
| OpRecover: "recover_interrupted_work X d = Inr d' \<Longrightarrow> op_step X d d'"
| OpSignal: "emit_runtime_signal_with_key X sid t payload okey d = Inr d' \<Longrightarrow> op_step X d d'"
| OpAppendSignal: "append_runtime_signal X sig d = Inr d' \<Longrightarrow> op_step X d d'"
| OpSubscribe: "subscribe_session X cid sid kind d = Inr d' \<Longrightarrow> op_step X d d'"
| OpDeleteConsumer: "delete_consumer X cid d = Inr d' \<Longrightarrow> op_step X d d'"
| OpUnsubscribe: "unsubscribe_session X cid sid d = Inr d' \<Longrightarrow> op_step X d d'"
| OpReadEvents: "client_events X cid limit d = (batch, d') \<Longrightarrow> op_step X d d'"
| OpAcknowledge: "acknowledge_events X cid checkpoint d = Inr d' \<Longrightarrow> op_step X d d'"

text \<open>What a step does to the Session tables, to the catalog and to the journal.\<close>

definition system_change :: "ext \<Rightarrow> db \<Rightarrow> db \<Rightarrow> bool" where
  "system_change X d d' \<longleftrightarrow> session_steps d d' \<and> catalog_steps d d' \<and> logged X d d'"

lemma system_refl [simp]: "system_change X d d"
  by (simp add: system_change_def)

lemma catalog_system: "catalog_change d d' \<Longrightarrow> logged X d d' \<Longrightarrow> system_change X d d'"
  by (simp add: system_change_def catalog_change_def steps_quiet)

lemma session_system: "session_steps d d' \<Longrightarrow> framed X d d' \<Longrightarrow> system_change X d d'"
  unfolding system_change_def using framed_logged [of X d d']
  by (auto simp: framed_def intro: r_into_rtranclp Same)

lemma feed_system:
  assumes "core_eq d d'" and "catalog_eq d d'" and "log_eq d d'" and "feed_ok d \<Longrightarrow> feed_ok d'"
  shows "system_change X d d'"
  using assms by (intro session_system steps_quiet writes_framed) (simp_all add: writes_only_def)

section \<open>Each operation\<close>

lemma rename_agent_system:
  "rename_agent_with_command X c command slug new_slug d = Inr (a, d') \<Longrightarrow> system_change X d d'"
  by (intro catalog_system rename_agent_change agent_commands_logged)

lemma create_agent_system: "create_agent X c slug soul cfg author d = Inr (ar, d') \<Longrightarrow> system_change X d d'"
  by (cases ar) (auto intro: catalog_system create_agent_change agent_commands_logged)

lemmas catalog_systems =
  catalog_system [OF initialize_change initialize_logged]
  catalog_system [OF set_relay_url_change installation_commands_logged(1)]
  catalog_system [OF set_installation_relay_url_change installation_commands_logged(2)]
  catalog_system [OF set_default_model_change installation_commands_logged(3)]
  catalog_system [OF set_default_reasoning_change installation_commands_logged(4)]
  catalog_system [OF move_hub_change installation_commands_logged(5)]
  catalog_system [OF revoke_host_change host_commands_logged(1)]
  catalog_system [OF create_invitation_change create_invitation_logged]
  catalog_system [OF consume_invitation_change host_commands_logged(2)]
  catalog_system [OF archive_agent_change agent_commands_logged(3)]
  catalog_system [OF update_agent_change agent_commands_logged(4)]

lemma reread_system:
  assumes "reread_session X sid d committed = (res, d')"
    and "\<And>d1. committed = Inr d1 \<Longrightarrow> system_change X d d1"
  shows "system_change X d d'"
  using assms by (auto simp: reread_session_def split: sum.splits)

lemma set_session_model_system: "set_session_model X sid m d = (res, d') \<Longrightarrow> system_change X d d'"
  unfolding set_session_model_def
  by (erule reread_system)
    (blast intro: session_system set_session_model_in_steps set_session_model_in_framed)

lemma set_session_leaf_system:
  "set_session_leaf_checked X sid leaf leaf' d = (res, d') \<Longrightarrow> system_change X d d'"
  unfolding set_session_leaf_checked_def
  by (erule reread_system)
    (blast intro: session_system set_session_leaf_in_steps set_session_leaf_in_framed)

lemma bind_acp_session_system: "bind_acp_session X sid b d = (res, d') \<Longrightarrow> system_change X d d'"
  by (auto simp: bind_acp_session_def split: sum.splits
      intro: session_system bind_acp_session_in_steps bind_acp_session_in_framed)

lemma accept_turn_system:
  "accept_turn_idempotent X sid key req con md src d = (res, d') \<Longrightarrow> system_change X d d'"
  by (auto simp: accept_turn_idempotent_def split: sum.splits prod.splits
      intro: session_system accept_turn_append_steps accept_turn_append_framed)

lemmas session_systems =
  session_system [OF create_session_steps create_session_framed]
  session_system [OF bind_acp_session_with_observations_steps bind_acp_session_with_observations_framed]
  session_system [OF mark_acp_context_dispatched_steps mark_acp_context_dispatched_framed]
  session_system [OF schedule_effect_steps effect_ops_framed(1)]
  session_system [OF mark_effect_started_steps effect_ops_framed(2)]
  session_system [OF start_effect_steps effect_ops_framed(3)]
  session_system [OF finish_effect_steps effect_ops_framed(4)]
  session_system [OF append_message_steps append_message_framed]
  session_system [OF append_message_checked_steps append_message_checked_framed]
  session_system [OF append_assistant_response_steps append_assistant_response_framed]
  session_system [OF append_tool_result_steps append_tool_result_framed]
  session_system [OF complete_tool_execution_steps complete_tool_execution_framed]
  session_system [OF append_tool_requested_steps append_tool_requested_framed]
  session_system [OF append_reasoning_steps append_reasoning_framed]
  session_system [OF append_harness_observations_steps append_harness_observations_framed]
  session_system [OF acp_observation_steps acp_observation_framed]
  session_system [OF append_context_compaction_steps append_context_compaction_framed]
  session_system [OF finish_turn_steps finish_turn_framed]
  session_system [OF record_turn_harness_steps record_turn_harness_framed]
  session_system [OF recover_steps recover_framed]

section \<open>The feed\<close>

lemma prune_outside: "catalog_eq d (prune_client_events X d)" "log_eq d (prune_client_events X d)"
  by (simp_all add: prune_client_events_def utc_now_def delete_consumers_def Let_def
      catalog_eq_def log_eq_def)

lemma catalog_eq_trans: "catalog_eq d d' \<Longrightarrow> catalog_eq d' d'' \<Longrightarrow> catalog_eq d d''"
  by (simp add: catalog_eq_def)

lemma log_eq_trans: "log_eq d d' \<Longrightarrow> log_eq d' d'' \<Longrightarrow> log_eq d d''"
  by (simp add: log_eq_def)

lemma insert_signal_outside:
  assumes "append_runtime_signal_in X sig key d = Inr d'"
  shows "catalog_eq d d' \<and> log_eq d d'"
  using assms by (auto simp: append_runtime_signal_in_def insert_client_event_def
      insert_or_ignore_client_event_def put_client_event_def Let_def catalog_eq_def log_eq_def
      result_simps split: option.splits if_splits)

lemma signal_system:
  assumes "append_runtime_signal_in X sig key d = Inr d'"
  shows "system_change X d d'"
  using insert_signal_outside [OF assms] append_signal_core [OF assms] feed_ok_signal [OF assms]
  by (intro feed_system) simp_all

lemma prune_system: "system_change X d (prune_client_events X d)"
  by (intro feed_system prune_outside feed_ok_prune prune_core)

lemma system_trans: "system_change X d d' \<Longrightarrow> system_change X d' d'' \<Longrightarrow> system_change X d d''"
  unfolding system_change_def by (meson logged_trans rtranclp_trans)

lemma outer_system: "core_eq d d' \<Longrightarrow> outer_eq d d' \<Longrightarrow> system_change X d d'"
  by (intro session_system steps_quiet outer_framed)

lemma new_signal_system: "new_signal X sid t origin p d = (sig, d') \<Longrightarrow> system_change X d d'"
  by (rule outer_system)
    (auto simp: new_signal_def new_id_def utc_now_def core_eq_def outer_defs)

lemma append_runtime_signal_system: "append_runtime_signal X sig d = Inr d' \<Longrightarrow> system_change X d d'"
  by (auto simp: append_runtime_signal_def bindR_eq_Inr intro: system_trans signal_system prune_system)

lemma emit_signal_system:
  assumes "emit_runtime_signal_with_key X sid t p key d = Inr d'"
  shows "system_change X d d'"
proof (cases "signal_key_exists sid key d")
  case False
  with assms obtain row :: TurnRow and d2 where
    s: "append_runtime_signal_in X (fst (new_signal X sid t (tw_channel_origin row) p d)) key
          (snd (new_signal X sid t (tw_channel_origin row) p d)) = Inr d2"
    and d': "d' = prune_client_events X d2"
    by (auto simp: emit_runtime_signal_with_key_def split_beta bindR_eq_Inr)
  have "system_change X d (snd (new_signal X sid t (tw_channel_origin row) p d))"
    by (metis new_signal_system surjective_pairing)
  with signal_system [OF s] prune_system show ?thesis unfolding d' by (meson system_trans)
qed (use assms in \<open>simp add: emit_runtime_signal_with_key_def\<close>)

lemma acp_observation_with_event_system:
  assumes "append_acp_observation_with_client_event X sid t a key ob ev d = Inr d'"
  shows "system_change X d d'"
proof (cases "\<exists>x y z. ob = AO_AssistantDelta x y z")
  case True
  with assms show ?thesis
    by (auto simp: append_acp_observation_with_client_event_def bindR_eq_Inr dest: emit_signal_system)
next
  case False
  with assms obtain d1 where
    o': "record_acp_observation_transaction X sid t a key ob d = Inr d1"
    and r: "(case runtime_payload_from_client ev of
              None \<Rightarrow> Inr (prune_client_events X d1)
            | Some payload \<Rightarrow>
              bindR (okOr (Database QueryReturnedNoRows) (find_active_turn sid t d1)) (\<lambda>row.
              let (sig, d2) = new_signal X sid t (tw_channel_origin row) payload d1 in
              bindR (append_runtime_signal_in X sig key d2) (\<lambda>d3.
              Inr (prune_client_events X d3)))) = Inr d'"
    by (cases ob) (auto simp: append_acp_observation_with_client_event_def bindR_eq_Inr)
  have "system_change X d1 d'"
  proof (cases "runtime_payload_from_client ev")
    case None
    with r show ?thesis by (auto intro: prune_system)
  next
    case (Some payload)
    with r obtain row :: TurnRow and d3 where
      s: "append_runtime_signal_in X (fst (new_signal X sid t (tw_channel_origin row) payload d1)) key
          (snd (new_signal X sid t (tw_channel_origin row) payload d1)) = Inr d3"
      and d': "d' = prune_client_events X d3"
      by (auto simp: split_beta bindR_eq_Inr)
    have "system_change X d1 (snd (new_signal X sid t (tw_channel_origin row) payload d1))"
      by (metis new_signal_system surjective_pairing)
    with signal_system [OF s] prune_system show ?thesis unfolding d' by (meson system_trans)
  qed
  with session_system [OF acp_observation_steps [OF o'] acp_observation_framed [OF o']]
  show ?thesis by (rule system_trans)
qed

lemma feed_only_system:
  "core_eq d d' \<Longrightarrow> catalog_eq d d' \<and> log_eq d d' \<Longrightarrow> (feed_ok d \<Longrightarrow> feed_ok d') \<Longrightarrow> system_change X d d'"
  by (intro feed_system) simp_all

lemma subscribe_system:
  assumes "subscribe_session X c sid kind d = Inr d'"
  shows "system_change X d d'"
proof -
  have "core_eq d d' \<and> catalog_eq d d' \<and> log_eq d d'"
    using assms by (auto simp: subscribe_session_def utc_now_def Let_def bindR_eq_Inr require_Inr
        core_eq_def catalog_eq_def log_eq_def split: if_splits)
  with feed_ok_subscribe [OF assms] show ?thesis by (intro feed_system) simp_all
qed

lemma delete_consumer_system:
  assumes "delete_consumer X c d = Inr d'"
  shows "system_change X d d'"
proof -
  let ?d1 = "delete_consumers (\<lambda>r. cn_id r = c) d"
  have "feed_ok d \<Longrightarrow> feed_ok ?d1"
    by (rule feed_ok_filter [where p = "\<lambda>_. True" and q = "\<lambda>r. cn_id r \<noteq> c"])
      (simp_all add: delete_consumers_def)
  then have "system_change X d ?d1"
    by (intro feed_system) (simp_all add: delete_consumers_def core_eq_def catalog_eq_def log_eq_def)
  with assms prune_system show ?thesis by (auto simp: delete_consumer_def intro: system_trans)
qed

lemma unsubscribe_system:
  assumes "unsubscribe_session X c sid d = Inr d'"
  shows "system_change X d d'"
proof -
  let ?d1 = "d\<lparr>t_subscriptions := filter (\<lambda>s. s \<noteq> (c, sid)) (t_subscriptions d)\<rparr>"
  have "system_change X d ?d1"
    by (intro feed_system) (simp_all add: feed_ok_def core_eq_def catalog_eq_def log_eq_def)
  with assms prune_system show ?thesis by (auto simp: unsubscribe_session_def intro: system_trans)
qed

lemma client_events_system:
  assumes "client_events X c limit d = (batch, d')"
  shows "system_change X d d'"
proof -
  let ?d1 = "d\<lparr>ticks := Suc (ticks d)\<rparr>"
  let ?f = "\<lambda>r. r\<lparr>cn_last_seen_at := x_now X (ticks d)\<rparr>"
  let ?d2 = "?d1\<lparr>t_consumers := update_where (\<lambda>r. cn_id r = c) ?f (t_consumers ?d1)\<rparr>"
  have "d' = ?d1 \<or> d' = ?d2"
    using assms by (auto simp: client_events_def utc_now_def Let_def split: option.splits)
  moreover have "feed_ok ?d2" if "feed_ok d"
    by (rule feed_ok_consumers [OF that, where p = "\<lambda>r. cn_id r = c" and f = ?f]) simp_all
  moreover have "feed_ok ?d1" if "feed_ok d"
    using that by (simp add: feed_ok_def)
  ultimately show ?thesis
    by (intro feed_system) (auto simp: core_eq_def catalog_eq_def log_eq_def)
qed

lemma acknowledge_system:
  assumes "acknowledge_events X c checkpoint d = Inr d'"
  shows "system_change X d d'"
proof -
  from assms obtain d1 where d': "d' = prune_client_events X d1"
    and "core_eq d d1" "catalog_eq d d1" "log_eq d d1"
    by (auto simp: acknowledge_events_def utc_now_def Let_def bindR_eq_Inr core_eq_def
        catalog_eq_def log_eq_def)
  then have "core_eq d d'" "catalog_eq d d'" "log_eq d d'"
    using prune_outside prune_core by (auto intro: core_eq_trans catalog_eq_trans log_eq_trans)
  with feed_ok_acknowledge [OF assms] show ?thesis by (intro feed_system) simp_all
qed

section \<open>Every step\<close>

lemma op_step_change: "op_step X d d' \<Longrightarrow> turns_ok d \<Longrightarrow> system_change X d d'"
  by (induction rule: op_step.induct)
    (auto simp: rename_agent_def rollback_agent_rename_def append_acp_observation_def
      intro: rename_agent_system create_agent_system catalog_systems session_systems
        set_session_model_system set_session_leaf_system bind_acp_session_system accept_turn_system
        append_runtime_signal_system emit_signal_system acp_observation_with_event_system
        subscribe_system delete_consumer_system unsubscribe_system client_events_system
        acknowledge_system)

end
