(* ===== verification/Reach.thy ===== *)
theory Reach
  imports System
begin

text \<open>
  The reachable states of the store: the invariant of all its parts together, and the order
  in which two states of one run stand.
\<close>

section \<open>The invariant of the whole store\<close>

abbreviation op_steps :: "ext \<Rightarrow> db \<Rightarrow> db \<Rightarrow> bool" where
  "op_steps X \<equiv> (op_step X)\<^sup>*\<^sup>*"

definition reachable :: "ext \<Rightarrow> db \<Rightarrow> bool" where
  "reachable X d \<longleftrightarrow> op_steps X empty_db d"

definition store_ok :: "ext \<Rightarrow> db \<Rightarrow> bool" where
  "store_ok X d \<longleftrightarrow> session_ok d \<and> catalog_ok d \<and> journal_ok X d \<and> feed_ok d"

lemma store_ok_parts:
  assumes "store_ok X d"
  shows "session_ok d" and "catalog_ok d" and "journal_ok X d" and "feed_ok d" and "turns_ok d"
  using assms session_ok_parts(6) by (auto simp: store_ok_def)

lemma store_ok_empty: "store_ok X empty_db"
  by (simp add: store_ok_def session_ok_empty catalog_ok_empty)
    (simp add: journal_ok_def feed_ok_def empty_db_def)

lemma op_step_store_ok:
  assumes "op_step X d d'" and "store_ok X d"
  shows "store_ok X d'"
proof -
  from op_step_change [OF assms(1) store_ok_parts(5) [OF assms(2)]]
  have "session_steps d d'" "catalog_steps d d'" "logged X d d'" by (simp_all add: system_change_def)
  with assms(2) wf.steps [of d d'] catalog_wf.steps [of d d'] show ?thesis
    by (simp add: store_ok_def logged_def)
qed

section \<open>What no operation undoes\<close>

definition store_follows :: "db \<Rightarrow> db \<Rightarrow> bool" where
  "store_follows d0 d \<longleftrightarrow> extends_transcript d0 d \<and> advances_effects d0 d \<and> keeps_outcomes d0 d
     \<and> set (turn_keys d0) \<subseteq> set (turn_keys d) \<and> catalog_follows d0 d
     \<and> prefix (t_journal d0) (t_journal d) \<and> prefix (t_receipts d0) (t_receipts d)"

lemma store_follows_refl: "store_follows d d"
  by (simp add: store_follows_def catalog_follows_refl extends_transcript_def
      advances_effects_refl keeps_outcomes_def)

lemma op_step_follows:
  assumes "op_step X d d'" and "store_ok X d" and "store_follows d0 d"
  shows "store_follows d0 d'"
proof -
  from op_step_change [OF assms(1) store_ok_parts(5) [OF assms(2)]]
  have s: "session_steps d d'" and c: "catalog_steps d d'" and l: "logged X d d'"
    by (simp_all add: system_change_def)
  note f = assms(3) [unfolded store_follows_def]
  from f transcript.steps [OF s, of d0] effect_log.steps [OF s, of d0] outcome_log.steps [OF s, of d0]
    turn_keys_steps [OF s] catalog_log.steps [OF c, of d0] l
  show ?thesis by (auto simp: store_follows_def logged_def intro: prefix_order.trans)
qed

interpretation store_wf: step_invariant "op_step X" "store_ok X" for X
  by unfold_locales (rule op_step_store_ok)

interpretation store_log: step_invariant "op_step X" "\<lambda>d. store_ok X d \<and> store_follows d0 d" for X d0
  by unfold_locales (blast intro: op_step_store_ok op_step_follows)

lemma reachable_ok: "reachable X d \<Longrightarrow> store_ok X d"
  unfolding reachable_def by (rule store_wf.steps [OF _ store_ok_empty])

lemma reachable_later:
  assumes "reachable X d" and "op_steps X d d'"
  shows "reachable X d'" and "store_follows d d'"
  using assms store_log.steps [OF assms(2), of d] reachable_ok [OF assms(1)] store_follows_refl
  by (auto simp: reachable_def)

end
