(* ===== verification/Demo.thy ===== *)
theory Demo
  imports Reach "HOL-Library.Code_Target_Nat"
begin

text \<open>
  A concrete run of the store on a concrete outside world, evaluated step by step. The
  theorems of the development are applied to its states.
\<close>

definition demo_ext :: ext where
  "demo_ext = \<lparr>x_uuid = show_nat, x_uuid_ok = (\<lambda>_. True), x_now = (\<lambda>n. 1000 * n),
     x_item_bytes = (\<lambda>_. 100), x_entry_bytes = (\<lambda>_. 100), x_message_bytes = (\<lambda>_. 100),
     x_event_bytes = (\<lambda>_. 100), x_value_bytes = (\<lambda>_. 10), x_request_json = (\<lambda>r. case r of RQ_Turn _ (MC_Text s) _ _ \<Rightarrow> s | _ \<Rightarrow> []),
     x_result_error = (\<lambda>_. []), x_json_error = (\<lambda>_. []),
     x_sha256 = (\<lambda>s. replicate 63 (CHR ''0'') @ [if even (length s) then CHR ''0'' else CHR ''1'']), x_observation_value = (\<lambda>_. VNull),
     x_debug_str = (\<lambda>s. s), x_secret = show_nat, x_parse_config = (\<lambda>_. Inr \<lparr>cfg_harness = ''mews'', cfg_harness_options = [(''model'', ''p/m'')],
       cfg_tools = [''*''], cfg_tool_execution = Parallel\<rparr>)\<rparr>"

definition demo_context :: "string \<Rightarrow> CommandContext" where
  "demo_context cid = context_new cid actor_system"

definition state_of :: "StoreError + 'a \<times> db \<Rightarrow> db" where
  "state_of r = (case r of Inl _ \<Rightarrow> empty_db | Inr (_, d) \<Rightarrow> d)"

definition state_only :: "StoreError + db \<Rightarrow> db" where
  "state_only r = (case r of Inl _ \<Rightarrow> empty_db | Inr d \<Rightarrow> d)"

definition demo_source :: MessageSource where
  "demo_source = \<lparr>ms_kind = SK_Client, ms_id = ''cli'', ms_channel_origin = None\<rparr>"

definition demo_call :: ToolCall where
  "demo_call = \<lparr>tc_call_id = ''call1'', tc_tool = ''read'', tc_arguments = VNull, tc_thought_signature = None\<rparr>"

definition demo_response :: AssistantResponse where
  "demo_response = \<lparr>ar_provider = ''p'', ar_model = ''m'', ar_api = ''a'', ar_response_id = None,
     ar_blocks = [AB_Text ''hello''], ar_usage = None, ar_stop_reason = None\<rparr>"

definition demo_session :: SessionId where "demo_session = ''ses_10''"
definition demo_turn :: TurnId where "demo_turn = ''turn_15''"
definition demo_consumer :: ConsumerId where "demo_consumer = ''web''"

definition demo1 :: db where
  "demo1 = state_of (initialize demo_ext (demo_context ''c1'') ''laptop'' ''pk'' ''nk'' ''ik'' empty_db)"

definition demo2 :: db where
  "demo2 = state_of (create_agent demo_ext (demo_context ''c2'') ''coder'' ''soul'' [] ''hst_1'' demo1)"

definition demo3 :: db where
  "demo3 = state_of (create_session demo_ext ''agt_7'' ''hst_1'' ''/work'' demo2)"

definition demo4 :: db where
  "demo4 = state_only (subscribe_session demo_ext demo_consumer demo_session Durable demo3)"

definition demo5 :: db where
  "demo5 = snd (accept_turn_idempotent demo_ext demo_session ''k1'' (MC_Text ''hi'') (MC_Text ''hi'')
     VNull demo_source demo4)"

definition demo6 :: db where
  "demo6 = state_only (record_turn_harness demo_ext demo_turn ''native'' ''hash'' None demo5)"

definition demo7 :: db where
  "demo7 = state_of (append_assistant_response_with_tool_calls demo_ext demo_session demo_turn
     demo_response [demo_call] demo6)"

definition demo8 :: db where
  "demo8 = state_of (start_effect demo_ext demo_session demo_turn (ER_ToolCall demo_call) demo7)"

definition demo9 :: db where
  "demo9 = state_only (finish_turn demo_ext demo_turn Failed (Some ''stop'') demo8)"

section \<open>The run is a run\<close>

lemma state_of_Inr: "\<not> isl r \<Longrightarrow> r = Inr (fst (projr r), state_of r)"
  by (cases r) (auto simp: state_of_def)

lemma state_only_Inr: "\<not> isl r \<Longrightarrow> r = Inr (state_only r)"
  by (cases r) (auto simp: state_only_def)

lemma demo_step1: "op_step demo_ext empty_db demo1"
  unfolding demo1_def by (rule OpInitialize [OF state_of_Inr]) code_simp

lemma demo_step2: "op_step demo_ext demo1 demo2"
  unfolding demo2_def by (rule OpCreateAgent [OF state_of_Inr]) code_simp

lemma demo_step3: "op_step demo_ext demo2 demo3"
  unfolding demo3_def by (rule OpCreateSession [OF state_of_Inr]) code_simp

lemma demo_step4: "op_step demo_ext demo3 demo4"
  unfolding demo4_def by (rule OpSubscribe [OF state_only_Inr]) code_simp

lemma demo_step5: "op_step demo_ext demo4 demo5"
  unfolding demo5_def by (rule OpAcceptTurn [OF surjective_pairing])

lemma demo_step6: "op_step demo_ext demo5 demo6"
  unfolding demo6_def by (rule OpHarness [OF state_only_Inr]) code_simp

lemma demo_step7: "op_step demo_ext demo6 demo7"
  unfolding demo7_def by (rule OpAssistantResponse [OF state_of_Inr]) code_simp

lemma demo_step8: "op_step demo_ext demo7 demo8"
  unfolding demo8_def by (rule OpStartEffect [OF state_of_Inr]) code_simp

lemma demo_step9: "op_step demo_ext demo8 demo9"
  unfolding demo9_def finish_turn_def by (rule OpFinishTurn [OF state_only_Inr]) code_simp

lemma demo_reachable:
  "reachable demo_ext demo4" "reachable demo_ext demo8" "reachable demo_ext demo9"
  unfolding reachable_def
  by (meson demo_step1 demo_step2 demo_step3 demo_step4 demo_step5 demo_step6 demo_step7
      demo_step8 demo_step9 rtranclp.rtrancl_into_rtrancl rtranclp.rtrancl_refl)+

end
