(* ===== verification/TurnEnd.thy ===== *)
theory TurnEnd
  imports Demo
begin

text \<open>
  How Turns end: what \<open>finish_turn\<close> and the recovery at startup leave behind, in every
  reachable state of the store.
\<close>

section \<open>The terminal event\<close>

lemma commit_event_parts:
  assumes "commit_event X sid actor ev d = Inr d'"
  obtains je d1 where "core_eq d d1" and "je_payload je = ev" and "journal_session_id X je = Inr sid"
    and "apply_session_journal_entry X je d1 = Inr d'"
proof -
  from assms obtain je d1 where
    r: "record_session_event_correlated X sid actor ev None d = Inr (je, d1)"
    and a: "apply_session_journal_entry X je d1 = Inr d'"
    by (auto simp: commit_event_def commit_correlated_def result_simps)
  from record_correlated_core [OF r] record_correlated_entry [OF r] a show ?thesis by (rule that)
qed

text \<open>The one row a terminal event writes.\<close>

definition ends_turn :: "TurnId \<Rightarrow> TurnStatus \<Rightarrow> string option \<Rightarrow> db \<Rightarrow> db \<Rightarrow> bool" where
  "ends_turn t status err d d' \<longleftrightarrow>
     (\<exists>at. t_turns d' = update_where (\<lambda>r. turn_id_of (tw_turn r) = t \<and> is_active r)
        (\<lambda>r. r\<lparr>tw_turn := (tw_turn r)\<lparr>turn_status := status, turn_error := err,
               turn_completed_at := Some at\<rparr>\<rparr>) (t_turns d))
   \<and> (\<exists>r \<in> set (t_turns d). turn_id_of (tw_turn r) = t \<and> is_active r)"

lemma project_turn_terminal_ends:
  assumes "project_turn_terminal X je t status err p k d = Inr d'"
  shows "ends_turn t status err d d'"
proof -
  let ?p = "\<lambda>r. turn_id_of (tw_turn r) = t \<and> is_active r"
  let ?f = "\<lambda>r. r\<lparr>tw_turn := (tw_turn r)\<lparr>turn_status := status, turn_error := err,
      turn_completed_at := Some (je_recorded_at je)\<rparr>\<rparr>"
  from assms obtain m e d2 where one: "count_where ?p (t_turns d) = Suc 0"
    and a: "append_session_entry X je m p (terminal_kind status) False
        (d\<lparr>t_turns := update_where ?p ?f (t_turns d)\<rparr>) = Inr (e, d2)"
    and b: "append_durable_client_event X je (Some m) k d2 = Inr d'"
    by (auto simp: project_turn_terminal_def Let_def result_simps)
  from append_session_entry_turns [OF a] append_durable_core [OF b]
  have "t_turns d' = update_where ?p ?f (t_turns d)" by (simp add: core_eq_def)
  with count_where_1D [OF one] show ?thesis unfolding ends_turn_def by blast
qed

lemma ends_turn_core: "core_eq d d1 \<Longrightarrow> ends_turn t status err d1 d' \<Longrightarrow> ends_turn t status err d d'"
  by (simp add: core_eq_def ends_turn_def)

lemma commit_terminal_ends:
  assumes "commit_event X sid actor (terminal_event t status err sr) d = Inr d'" and "status \<noteq> Running"
  shows "\<exists>e. ends_turn t status e d d'"
proof -
  from assms(1) obtain je d1 where c: "core_eq d d1"
    and p: "je_payload je = terminal_event t status err sr"
    and s: "journal_session_id X je = Inr sid" and a: "apply_session_journal_entry X je d1 = Inr d'"
    by (rule commit_event_parts)
  from a s p assms(2) obtain e pl k where "project_turn_terminal X je t status e pl k d1 = Inr d'"
    by (cases status) (auto simp: apply_session_journal_entry_def terminal_event_def)
  then show ?thesis using ends_turn_core [OF c] project_turn_terminal_ends by blast
qed

lemma commit_interrupt_ends:
  assumes "commit_event X sid actor (JE_TurnInterrupted t reason) d = Inr d'"
  shows "ends_turn t Failed (Some reason) d d'"
proof -
  from assms obtain je d1 where c: "core_eq d d1" and p: "je_payload je = JE_TurnInterrupted t reason"
    and s: "journal_session_id X je = Inr sid" and a: "apply_session_journal_entry X je d1 = Inr d'"
    by (rule commit_event_parts)
  from a s p have "project_turn_terminal X je t Failed (Some reason) (SP_TurnFailed t reason)
      (CE_TurnFailed t reason) d1 = Inr d'"
    by (simp add: apply_session_journal_entry_def)
  then show ?thesis by (rule ends_turn_core [OF c project_turn_terminal_ends])
qed

text \<open>The row after the event: ended with the status, and no longer active.\<close>

lemma ends_turn_row:
  assumes "ends_turn t status err d d'"
  shows "\<exists>r \<in> set (t_turns d'). turn_id_of (tw_turn r) = t \<and> turn_status (tw_turn r) = status
           \<and> turn_error (tw_turn r) = err \<and> \<not> is_active r"
proof -
  from assms obtain at r where u: "t_turns d' = update_where (\<lambda>r. turn_id_of (tw_turn r) = t \<and> is_active r)
        (\<lambda>r. r\<lparr>tw_turn := (tw_turn r)\<lparr>turn_status := status, turn_error := err,
               turn_completed_at := Some at\<rparr>\<rparr>) (t_turns d)"
    and r: "r \<in> set (t_turns d)" "turn_id_of (tw_turn r) = t \<and> is_active r"
    by (auto simp: ends_turn_def)
  have "r\<lparr>tw_turn := (tw_turn r)\<lparr>turn_status := status, turn_error := err,
               turn_completed_at := Some at\<rparr>\<rparr> \<in> set (t_turns d')"
    unfolding u set_update_where using r by (intro image_eqI [of _ _ r]) simp_all
  with r(2) show ?thesis by (intro bexI) (auto simp: is_active_def)
qed

lemma ends_turn_active:
  assumes "ends_turn t status err d d'"
  shows "filter is_active (t_turns d')
    = filter (\<lambda>r. is_active r \<and> turn_id_of (tw_turn r) \<noteq> t) (t_turns d)"
proof -
  have "filter is_active (update_where (\<lambda>r. turn_id_of (tw_turn r) = t \<and> is_active r)
        (\<lambda>r. r\<lparr>tw_turn := (tw_turn r)\<lparr>turn_status := status, turn_error := err,
               turn_completed_at := Some at\<rparr>\<rparr>) rs)
      = filter (\<lambda>r. is_active r \<and> turn_id_of (tw_turn r) \<noteq> t) rs" for at rs
    by (induction rs) (auto simp: is_active_def)
  with assms show ?thesis by (auto simp: ends_turn_def)
qed

section \<open>Finishing\<close>

lemma finish_turn_row:
  assumes "finish_turn_with_stop_reason X t status err sr d = Inr d'" and "turns_ok d"
  shows "\<exists>r \<in> set (t_turns d'). turn_id_of (tw_turn r) = t \<and> turn_status (tw_turn r) = status
           \<and> \<not> is_active r"
proof -
  from assms(1) have running: "status \<noteq> Running"
    by (auto simp: finish_turn_with_stop_reason_def result_simps)
  show ?thesis
  proof (cases "find (\<lambda>r. turn_id_of (tw_turn r) = t \<and> is_active r) (t_turns d)")
    case None
    with assms(1) obtain r where "d' = d" "find (\<lambda>r. turn_id_of (tw_turn r) = t) (t_turns d) = Some r"
      "turn_status (tw_turn r) = status"
      by (auto simp: finish_turn_with_stop_reason_def turn_def select_turn_def result_simps)
    with None show ?thesis
      by (auto dest!: find_SomeD simp: find_None_iff intro!: bexI [of _ r])
  next
    case (Some row)
    from finish_turn_active [OF assms(1) Some] obtain d2 where
      "commit_event X (turn_session_id (tw_turn row)) actor_system (terminal_event t status err sr) d2
         = Inr d'" by blast
    from commit_terminal_ends [OF this running] show ?thesis by (blast dest: ends_turn_row)
  qed
qed

text \<open>In a consistent store an ended Turn has no open effect.\<close>

lemma ended_closed:
  assumes "session_ok d" and "r \<in> set (t_turns d)" and "\<not> is_active r"
  shows "\<not> has_open_effects (turn_id_of (tw_turn r)) d"
proof
  assume "has_open_effects (turn_id_of (tw_turn r)) d"
  then obtain f where "f \<in> set (t_effects d)" "ef_turn_id f = turn_id_of (tw_turn r)"
    "is_open_status (ef_status f)" by (auto simp: has_open_effects_def)
  with session_ok_parts(5) [OF assms(1)] obtain q where "q \<in> set (t_turns d)" "is_active q"
    "turn_id_of (tw_turn q) = turn_id_of (tw_turn r)"
    by (auto simp: effects_ok_def active_in_def)
  with turns_ok_unique [OF session_ok_parts(6) [OF assms(1)] assms(2)] assms(3) show False by metis
qed

section \<open>Recovery\<close>

lemma interrupt_turn_ends:
  assumes "interrupt_turn X row d = Inr d'"
  shows "ends_turn (turn_id_of (tw_turn row)) Failed
    (Some ''Hub stopped before the Turn completed'') d d'"
proof -
  let ?t = "turn_id_of (tw_turn row)" and ?sid = "turn_session_id (tw_turn row)"
  from assms obtain d1 d2 where 1: "close_open_effects X ?sid ?t d = Inr d1"
    and 2: "close_orphan_tool_calls X ?sid ?t d1 = Inr d2"
    and 3: "commit_event X ?sid actor_system
        (JE_TurnInterrupted ?t ''Hub stopped before the Turn completed'') d2 = Inr d'"
    by (auto simp: interrupt_turn_def result_simps dest!: parse_id_Inr)
  from close_open_effects_spec(3) [OF 1] close_orphan_tool_calls_spec(3) [OF 2]
  have "t_turns d2 = t_turns d" by simp
  with commit_interrupt_ends [OF 3] show ?thesis by (simp add: ends_turn_def)
qed

lemma interrupt_turns_active:
  assumes "foldR (interrupt_turn X) rows d = Inr d'"
  shows "filter is_active (t_turns d') = filter (\<lambda>r. is_active r
    \<and> turn_id_of (tw_turn r) \<notin> (\<lambda>r. turn_id_of (tw_turn r)) ` set rows) (t_turns d)"
  using assms
proof (induction rows arbitrary: d)
  case (Cons row rows)
  then obtain d1 where 1: "interrupt_turn X row d = Inr d1"
    and 2: "foldR (interrupt_turn X) rows d1 = Inr d'" by (auto simp: bindR_eq_Inr)
  let ?ids = "(\<lambda>r. turn_id_of (tw_turn r)) ` set rows"
  have "filter is_active (t_turns d')
      = filter (\<lambda>r. turn_id_of (tw_turn r) \<notin> ?ids) (filter is_active (t_turns d1))"
    using Cons.IH [OF 2] by (simp add: conj_commute)
  then show ?case
    unfolding ends_turn_active [OF interrupt_turn_ends [OF 1]]
    by (auto intro!: filter_cong)
qed simp

text \<open>Every interrupted Turn has failed, and later interruptions leave it so.\<close>

lemma interrupt_turns_failed:
  assumes "foldR (interrupt_turn X) rows d = Inr d'" and "turns_ok d"
    and "\<And>row. row \<in> set rows \<Longrightarrow>
      (turn_id_of (tw_turn row), turn_session_id (tw_turn row)) \<in> set (turn_keys d)"
    and "row \<in> set rows"
  shows "\<exists>r \<in> set (t_turns d'). turn_id_of (tw_turn r) = turn_id_of (tw_turn row)
    \<and> turn_status (tw_turn r) = Failed
    \<and> turn_error (tw_turn r) = Some ''Hub stopped before the Turn completed'' \<and> \<not> is_active r"
  using assms
proof (induction rows arbitrary: d)
  case (Cons a rows)
  then obtain d1 where 1: "interrupt_turn X a d = Inr d1"
    and 2: "foldR (interrupt_turn X) rows d1 = Inr d'" by (auto simp: bindR_eq_Inr)
  have s: "session_steps d d1"
    by (rule interrupt_turn_steps [OF 1 Cons.prems(2) Cons.prems(3)]) simp
  have ok1: "turns_ok d1" by (rule turn_table.steps [OF s Cons.prems(2)])
  have keys: "(turn_id_of (tw_turn r), turn_session_id (tw_turn r)) \<in> set (turn_keys d1)"
    if "r \<in> set rows" for r
    using that Cons.prems(3) [of r] turn_keys_steps [OF s] by auto
  show ?case
  proof (cases "row = a")
    case True
    from ends_turn_row [OF interrupt_turn_ends [OF 1]] obtain r where
      r: "r \<in> set (t_turns d1)" "turn_id_of (tw_turn r) = turn_id_of (tw_turn a)"
        "turn_status (tw_turn r) = Failed"
        "turn_error (tw_turn r) = Some ''Hub stopped before the Turn completed''" "\<not> is_active r"
      by blast
    have "session_steps d1 d'" by (rule interrupt_turns_steps [OF 2 ok1 keys])
    from outcome_log.steps [OF this, of d1]
    have "turn_outcome r \<in> turn_outcome ` set (filter (\<lambda>r. \<not> is_active r) (t_turns d'))"
      using r(1,5) by (auto simp: keeps_outcomes_def)
    with r True show ?thesis by (auto simp: turn_outcome_def)
  next
    case False
    with Cons.prems(4) have "row \<in> set rows" by simp
    from Cons.IH [OF 2 ok1 keys this] show ?thesis .
  qed
qed simp

section \<open>The concrete run\<close>

text \<open>
  The states of the run are evaluated as arguments of these checks, each once.
\<close>

definition demo_row :: TurnRow where "demo_row = hd (t_turns demo9)"

definition ended_check :: "db \<Rightarrow> bool" where
  "ended_check d = (t_turns d \<noteq> [] \<and> \<not> is_active (hd (t_turns d))
     \<and> turn_status (tw_turn (hd (t_turns d))) = Failed
     \<and> turn_id_of (tw_turn (hd (t_turns d))) = demo_turn
     \<and> turn_session_id (tw_turn (hd (t_turns d))) = demo_session
     \<and> list_ex (\<lambda>r. demo_call \<in> set (requested_call demo_turn (se_payload (er_entry r))))
         (entry_rows demo_session d))"

definition running_check :: "db \<Rightarrow> bool" where
  "running_check d = (t_turns d \<noteq> [] \<and> is_active (hd (t_turns d)) \<and> t_effects d \<noteq> []
      \<and> is_open_status (ef_status (hd (t_effects d))))"

lemma demo9_facts:
  "demo_row \<in> set (t_turns demo9)" "\<not> is_active demo_row" "turn_status (tw_turn demo_row) = Failed"
  "turn_id_of (tw_turn demo_row) = demo_turn" "turn_session_id (tw_turn demo_row) = demo_session"
  "SP_ToolStarted demo_turn demo_call
     \<in> (\<lambda>r. se_payload (er_entry r)) ` set (entry_rows demo_session demo9)"
proof -
  have "ended_check demo9" by code_simp
  then show "demo_row \<in> set (t_turns demo9)" "\<not> is_active demo_row"
    "turn_status (tw_turn demo_row) = Failed"
    "turn_id_of (tw_turn demo_row) = demo_turn" "turn_session_id (tw_turn demo_row) = demo_session"
    "SP_ToolStarted demo_turn demo_call
       \<in> (\<lambda>r. se_payload (er_entry r)) ` set (entry_rows demo_session demo9)"
    by (auto simp: ended_check_def demo_row_def list_ex_iff requested_call_iff image_iff)
      (metis (no_types))
qed

lemma demo8_active: "hd (t_turns demo8) \<in> set (t_turns demo8)" "is_active (hd (t_turns demo8))"
  "hd (t_effects demo8) \<in> set (t_effects demo8)" "is_open_status (ef_status (hd (t_effects demo8)))"
proof -
  have "running_check demo8" by code_simp
  then show "hd (t_turns demo8) \<in> set (t_turns demo8)" "is_active (hd (t_turns demo8))"
    "hd (t_effects demo8) \<in> set (t_effects demo8)" "is_open_status (ef_status (hd (t_effects demo8)))"
    by (simp_all add: running_check_def)
qed

lemma demo9_finish: "finish_turn_with_stop_reason demo_ext demo_turn Failed (Some ''stop'') None demo8 = Inr demo9"
proof -
  have "\<not> isl (finish_turn demo_ext demo_turn Failed (Some ''stop'') demo8)" by code_simp
  from state_only_Inr [OF this] show ?thesis by (simp add: demo9_def finish_turn_def)
qed

definition demo_recovered :: db where
  "demo_recovered = state_only (recover_interrupted_work demo_ext demo8)"

lemma demo_recovery: "recover_interrupted_work demo_ext demo8 = Inr demo_recovered"
  unfolding demo_recovered_def by (rule state_only_Inr) code_simp

section \<open>Properties\<close>

text \<open>
  C3. In every reachable state of the store, each tool call a Turn requested in its Session
  has a recorded tool result once the Turn has ended.
\<close>

theorem finished_turn_answered:
  assumes "reachable X d" and "r \<in> set (t_turns d)" and "\<not> is_active r"
    and "SP_ToolStarted (turn_id_of (tw_turn r)) call
           \<in> (\<lambda>q. se_payload (er_entry q)) ` set (entry_rows (turn_session_id (tw_turn r)) d)"
  shows "\<exists>res. SP_ToolResult (turn_id_of (tw_turn r)) res
           \<in> (\<lambda>q. se_payload (er_entry q)) ` set (entry_rows (turn_session_id (tw_turn r)) d)
         \<and> tr_call_id res = tc_call_id call"
proof -
  from reachable_ok [OF assms(1)] have "answered_ok d"
    by (intro session_ok_parts(4)) (rule store_ok_parts(1))
  from answered_ok_D [OF this assms(2,3)] assms(4) show ?thesis by (simp add: answered_def)
qed

theorem finished_turn_answered_witness:
  "\<exists>res. SP_ToolResult demo_turn res
       \<in> (\<lambda>q. se_payload (er_entry q)) ` set (entry_rows demo_session demo9)
     \<and> tr_call_id res = tc_call_id demo_call"
  using finished_turn_answered [OF demo_reachable(3) demo9_facts(1,2), of demo_call] demo9_facts(4-6)
  by simp

text \<open>
  C4. In every reachable state a Session has at most one active Turn, and a Turn's status is
  running exactly while it is active.
\<close>

theorem one_active_turn:
  assumes "reachable X d" and "r \<in> set (t_turns d)" and "is_active r"
  shows "turn_status (tw_turn r) = Running
    \<and> (\<forall>q \<in> set (t_turns d). is_active q
          \<and> turn_session_id (tw_turn q) = turn_session_id (tw_turn r) \<longrightarrow> q = r)"
proof -
  have ok: "turns_ok d" by (rule store_ok_parts(5) [OF reachable_ok [OF assms(1)]])
  from turns_ok_one_active [OF ok _ assms(2) _ assms(3)] ok assms(2,3)
  show ?thesis by (auto simp: turns_ok_def)
qed

theorem one_active_turn_witness: "turn_status (tw_turn (hd (t_turns demo8))) = Running"
  using one_active_turn [OF demo_reachable(2) demo8_active(1,2)] by blast





text \<open>
  In every reachable state, an effect that is scheduled or started belongs to an active
  Turn of its Session.
\<close>

theorem open_effect_has_active_turn:
  assumes "reachable X d" and "f \<in> set (t_effects d)" and "is_open_status (ef_status f)"
  shows "\<exists>r \<in> set (t_turns d). turn_id_of (tw_turn r) = ef_turn_id f
           \<and> turn_session_id (tw_turn r) = ef_session_id f \<and> is_active r"
proof -
  from reachable_ok [OF assms(1)] have "effects_ok d"
    by (intro session_ok_parts(5)) (rule store_ok_parts(1))
  with assms(2,3) show ?thesis by (auto simp: effects_ok_def active_in_def)
qed

theorem open_effect_has_active_turn_witness: "\<exists>r \<in> set (t_turns demo8). is_active r"
  using open_effect_has_active_turn [OF demo_reachable(2) demo8_active(3,4)] by blast

text \<open>
  \<open>finish_turn\<close> refuses to leave a Turn running, refuses to complete a Turn with open
  effects, and on a Turn that has ended changes nothing: it succeeds with the status the
  Turn has and fails with any other.
\<close>

theorem finish_turn_refusals:
  assumes "find (\<lambda>r. turn_id_of (tw_turn r) = t) (t_turns d) = Some r"
    and "parse_id X SessionIdK (turn_session_id (tw_turn r)) = Inr (turn_session_id (tw_turn r))"
    and "turns_ok d"
  shows "finish_turn_with_stop_reason X t Running err reason d
           = Inl (InvalidData ''a finished Turn cannot remain running'')
    \<and> (is_active r \<longrightarrow> has_open_effects t d \<longrightarrow>
         finish_turn_with_stop_reason X t Completed err reason d
           = Inl (InvalidData ''a Turn cannot complete while it has open effects''))
    \<and> (\<not> is_active r \<longrightarrow> status \<noteq> Running \<longrightarrow>
         finish_turn_with_stop_reason X t status err reason d
           = (if turn_status (tw_turn r) = status then Inr d
              else Inl (InvalidData (''Turn already finished with status ''
                     @ debug_status (turn_status (tw_turn r))))))"
proof -
  from assms(1) have r: "r \<in> set (t_turns d)" "turn_id_of (tw_turn r) = t"
    by (auto dest: find_SomeD)
  have u: "q = r" if "q \<in> set (t_turns d)" "turn_id_of (tw_turn q) = t" for q
    using turns_ok_unique [OF assms(3) that(1) r(1)] that(2) r(2) by simp
  have active: "find (\<lambda>r. turn_id_of (tw_turn r) = t \<and> is_active r) (t_turns d)
      = (if is_active r then Some r else None)"
  proof (cases "is_active r")
    case True
    with r find_exI [of r "t_turns d" "\<lambda>r. turn_id_of (tw_turn r) = t \<and> is_active r"]
    obtain q where "find (\<lambda>r. turn_id_of (tw_turn r) = t \<and> is_active r) (t_turns d) = Some q" by auto
    with True u show ?thesis by (auto dest!: find_SomeD)
  next
    case False
    with u show ?thesis by (auto simp: find_None_iff)
  qed
  show ?thesis
    using assms(1,2)
    by (simp add: finish_turn_with_stop_reason_def active turn_def select_turn_def require_def)
qed

theorem finish_turn_refusals_witness:
  "finish_turn_with_stop_reason demo_ext demo_turn Cancelled None None demo9
     = Inl (InvalidData ''Turn already finished with status Failed'')"
proof -
  have "turns_ok demo9" by (rule store_ok_parts(5) [OF reachable_ok [OF demo_reachable(3)]])
  moreover have "find (\<lambda>r. turn_id_of (tw_turn r) = demo_turn) (t_turns demo9) = Some demo_row"
    using demo9_facts(1,4) by (cases "t_turns demo9") (auto simp: demo_row_def)
  moreover have "parse_id demo_ext SessionIdK demo_session = Inr demo_session" by code_simp
  ultimately show ?thesis
    using finish_turn_refusals [where t = demo_turn and d = demo9 and r = demo_row and X = demo_ext
        and status = Cancelled and err = None and reason = None] demo9_facts
    by simp
qed

end
