(* ===== verification/StoreProps.thy ===== *)
theory StoreProps
  imports TurnEnd
begin

text \<open>
  The properties of every reachable state of the store, and of every two states one of which
  the store reaches from the other: transcripts, leaves, effects, outcomes, journal, catalog.
\<close>

section \<open>Facts of the run\<close>

lemma demo_later: "op_steps demo_ext demo8 demo9" "op_steps demo_ext demo4 demo8"
proof -
  show "op_steps demo_ext demo8 demo9" using demo_step9 by blast
  show "op_steps demo_ext demo4 demo8"
    by (meson demo_step5 demo_step6 demo_step7 demo_step8 rtranclp.rtrancl_into_rtrancl
        rtranclp.rtrancl_refl)
qed

definition transcript_check :: "db \<Rightarrow> bool" where
  "transcript_check d = (length (entry_rows demo_session d) = 6 \<and> t_sessions d \<noteq> []
     \<and> ses_leaf_entry_id (hd (t_sessions d)) \<noteq> None)"

lemma demo9_transcript: "length (entry_rows demo_session demo9) = 6" "t_sessions demo9 \<noteq> []"
  "\<exists>m. ses_leaf_entry_id (hd (t_sessions demo9)) = Some m"
proof -
  have "transcript_check demo9" by code_simp
  then show "length (entry_rows demo_session demo9) = 6" "t_sessions demo9 \<noteq> []"
    "\<exists>m. ses_leaf_entry_id (hd (t_sessions demo9)) = Some m"
    by (auto simp: transcript_check_def)
qed

section \<open>Transcripts\<close>

text \<open>
  C1. In every reachable state the entries of each Session are numbered 1, 2, 3, ... without a
  gap, in the order they were appended, and no two entries share an identifier.
\<close>

theorem transcript_numbered:
  assumes "reachable X d"
  shows "map (\<lambda>r. se_sequence (er_entry r)) (entry_rows sid d) = [1..<Suc (length (entry_rows sid d))]
    \<and> distinct (map (\<lambda>r. se_id (er_entry r)) (t_entries d))"
proof -
  from reachable_ok [OF assms] have "entries_ok d"
    by (intro session_ok_parts(1)) (rule store_ok_parts(1))
  then show ?thesis unfolding entries_ok_def by blast
qed

theorem transcript_numbered_witness:
  "map (\<lambda>r. se_sequence (er_entry r)) (entry_rows demo_session demo9) = [1, 2, 3, 4, 5, 6]"
  using transcript_numbered [OF demo_reachable(3), of demo_session] demo9_transcript(1)
  by (simp add: upt_conv_Cons)

text \<open>
  C2. Whatever the store does later, the transcript is only appended to: the entries of a
  reachable state are an unchanged beginning of the entries of every later state.
\<close>

theorem transcript_append_only:
  assumes "reachable X d" and "op_steps X d d'"
  shows "\<exists>new. t_entries d' = t_entries d @ new"
  using reachable_later(2) [OF assms] by (simp add: store_follows_def extends_transcript_def)

theorem transcript_append_only_witness: "\<exists>new. t_entries demo9 = t_entries demo8 @ new"
  by (rule transcript_append_only [OF demo_reachable(2) demo_later(1)])

text \<open>
  In every reachable state the parent of an entry is an earlier contextual entry of the
  same Session, and the leaf of a Session is a contextual entry of that Session.
\<close>

theorem parents_and_leaves:
  assumes "reachable X d"
  shows "(\<forall>r \<in> set (t_entries d). \<forall>p. se_parent_id (er_entry r) = Some p \<longrightarrow>
       (\<exists>q \<in> set (t_entries d). se_id (er_entry q) = p \<and> er_contextual q
          \<and> se_session_id (er_entry q) = se_session_id (er_entry r)
          \<and> se_sequence (er_entry q) < se_sequence (er_entry r)))
    \<and> (\<forall>s \<in> set (t_sessions d). \<forall>m. ses_leaf_entry_id s = Some m \<longrightarrow>
         is_contextual_entry (ses_id s) m d)"
proof -
  from reachable_ok [OF assms] have "chain_ok d"
    by (intro session_ok_parts(2)) (rule store_ok_parts(1))
  then show ?thesis by (fastforce simp: chain_ok_def hangs_def entry_rows_def)
qed

theorem parents_and_leaves_witness:
  "\<exists>m. is_contextual_entry (ses_id (hd (t_sessions demo9))) m demo9"
proof -
  have "hd (t_sessions demo9) \<in> set (t_sessions demo9)" using demo9_transcript(2) by simp
  with parents_and_leaves [OF demo_reachable(3)] demo9_transcript(3) show ?thesis by blast
qed



section \<open>Effects and outcomes\<close>

text \<open>
  Effects are never removed or reordered and only advance: from scheduled to started to
  one outcome, keeping operation, Session, Turn, call and request; a closed effect is never
  written again.
\<close>

theorem effects_only_advance:
  assumes "reachable X d" and "op_steps X d d'" and "i < length (t_effects d)"
  shows "i < length (t_effects d') \<and> ef_operation_id (t_effects d' ! i) = ef_operation_id (t_effects d ! i)
    \<and> ef_request (t_effects d' ! i) = ef_request (t_effects d ! i)
    \<and> ef_status (t_effects d ! i) \<le> ef_status (t_effects d' ! i)
    \<and> (\<not> is_open_status (ef_status (t_effects d ! i)) \<longrightarrow> t_effects d' ! i = t_effects d ! i)"
proof -
  from reachable_later(2) [OF assms(1,2)]
  have a: "list_all2 effect_follows (t_effects d) (take (length (t_effects d)) (t_effects d'))"
    by (simp add: store_follows_def advances_effects_def)
  from list_all2_lengthD [OF a] assms(3) have "i < length (t_effects d')" by simp
  with list_all2_nthD [OF a assms(3)] assms(3) show ?thesis by (simp add: effect_follows_def)
qed

theorem effects_only_advance_witness:
  "ef_operation_id (t_effects demo9 ! 0) = ef_operation_id (t_effects demo8 ! 0)"
proof -
  have "0 < length (t_effects demo8)" using demo8_active(3) by (cases "t_effects demo8") auto
  from effects_only_advance [OF demo_reachable(2) demo_later(1) this] show ?thesis by blast
qed

text \<open>
  C13. The outcome of a Turn is final: the identifier, Session, status, error and completion
  time of a Turn that has ended are found again in every later state.
\<close>

theorem outcome_is_final:
  assumes "reachable X d" and "op_steps X d d'" and "r \<in> set (t_turns d)" and "\<not> is_active r"
  shows "\<exists>r' \<in> set (t_turns d'). \<not> is_active r'
    \<and> turn_id_of (tw_turn r') = turn_id_of (tw_turn r)
    \<and> turn_session_id (tw_turn r') = turn_session_id (tw_turn r)
    \<and> turn_status (tw_turn r') = turn_status (tw_turn r)
    \<and> turn_error (tw_turn r') = turn_error (tw_turn r)
    \<and> turn_completed_at (tw_turn r') = turn_completed_at (tw_turn r)"
proof -
  from reachable_later(2) [OF assms(1,2)] assms(3,4)
  have "turn_outcome r \<in> turn_outcome ` set (filter (\<lambda>r. \<not> is_active r) (t_turns d'))"
    by (auto simp: store_follows_def keeps_outcomes_def)
  then show ?thesis by (auto simp: turn_outcome_def)
qed

theorem outcome_is_final_witness: "\<exists>r' \<in> set (t_turns demo9). turn_status (tw_turn r') = Failed"
  using outcome_is_final [OF demo_reachable(3) rtranclp.rtrancl_refl demo9_facts(1,2)] demo9_facts(3)
  by auto

section \<open>The journal\<close>



section \<open>The feed\<close>

text \<open>
  In every reachable state the client events lie in strictly rising sequence, no sequence
  is above the counter, and no consumer's cursor is ahead of it.
\<close>

theorem feed_in_order:
  assumes "reachable X d"
  shows "sorted_wrt (<) (map (\<lambda>e. ce_sequence (cr_event e)) (t_client_events d))
    \<and> (\<forall>e \<in> set (t_client_events d). ce_sequence (cr_event e) \<le> client_seq d)
    \<and> (\<forall>r \<in> set (t_consumers d). cn_cursor r \<le> client_seq d)"
  using store_ok_parts(4) [OF reachable_ok [OF assms]] by (simp add: feed_ok_def)

theorem feed_in_order_witness:
  "sorted_wrt (<) (map (\<lambda>e. ce_sequence (cr_event e)) (t_client_events demo9))"
  using feed_in_order [OF demo_reachable(3)] by blast

section \<open>The catalog\<close>

text \<open>
  In every reachable state the revisions of each Agent are numbered 1 up to its current
  revision without a gap, and slugs and identifiers of Agents are unique.
\<close>

theorem agent_revisions_contiguous:
  assumes "reachable X d" and "a \<in> set (t_agents d)"
  shows "map rev_revision (filter (\<lambda>r. rev_agent_id r = agent_id a) (t_agent_revisions d))
      = [1..<Suc (agent_current_revision a)]
    \<and> distinct (map agent_slug (t_agents d)) \<and> distinct (map agent_id (t_agents d))"
proof -
  from reachable_ok [OF assms(1)] have "agents_ok d"
    by (intro catalog_ok_parts(1)) (rule store_ok_parts(2))
  with agents_okD [OF this assms(2)] show ?thesis
    unfolding agents_ok_def revisions_of_def by blast
qed

definition agent_check :: "db \<Rightarrow> bool" where
  "agent_check d = (t_agents d \<noteq> [] \<and> agent_current_revision (hd (t_agents d)) = 1)"

theorem agent_revisions_contiguous_witness:
  "map rev_revision (filter (\<lambda>r. rev_agent_id r = agent_id (hd (t_agents demo4))) (t_agent_revisions demo4)) = [1]"
proof -
  have c: "agent_check demo4" by code_simp
  then have "hd (t_agents demo4) \<in> set (t_agents demo4)" by (simp add: agent_check_def)
  from agent_revisions_contiguous [OF demo_reachable(1) this] c
  show ?thesis by (simp add: agent_check_def)
qed

text \<open>
  C25. In every reachable state with an installation, the Host that runs the Hub is enrolled
  and not revoked, and the generation is positive; removing that Host is refused.
\<close>

theorem hub_host_is_live:
  assumes "reachable X d" and "t_installation d = Some i"
  shows "live_host (ins_hub_host_id i) d \<and> 1 \<le> ins_generation i
    \<and> (\<forall>outcome. decide_revoke_host X (ins_hub_host_id i) d \<noteq> Inr outcome)"
proof -
  from reachable_ok [OF assms(1)] have "hosts_ok d"
    by (intro catalog_ok_parts(2)) (rule store_ok_parts(2))
  with assms(2) show ?thesis
    by (auto simp: hosts_ok_def decide_revoke_host_def result_simps dest!: required_installation_Inr)
qed

definition hub_check :: "db \<Rightarrow> bool" where
  "hub_check d = (case t_installation d of None \<Rightarrow> False | Some i \<Rightarrow> ins_hub_host_id i = ''hst_1'')"

theorem hub_host_is_live_witness: "live_host ''hst_1'' demo4"
proof -
  have "hub_check demo4" by code_simp
  then obtain i where "t_installation demo4 = Some i" "ins_hub_host_id i = ''hst_1''"
    by (auto simp: hub_check_def split: option.splits)
  with hub_host_is_live [OF demo_reachable(1)] show ?thesis by metis
qed

text \<open>
  What the catalog records is never undone: revisions are append-only, an archived Agent
  stays archived, a revoked Host stays revoked, a consumed invitation stays consumed at its
  time, and the Hub moves only to a higher generation.
\<close>

theorem catalog_never_undone:
  assumes "reachable X d" and "op_steps X d d'"
  shows "prefix (t_agent_revisions d) (t_agent_revisions d')
    \<and> (\<forall>a \<in> set (t_agents d). agent_archived a \<longrightarrow>
         (\<exists>b \<in> set (t_agents d'). agent_id b = agent_id a \<and> agent_archived b))
    \<and> (\<forall>r \<in> set (t_hosts d). hr_revoked r \<longrightarrow>
         (\<exists>q \<in> set (t_hosts d'). host_id (hr_host q) = host_id (hr_host r) \<and> hr_revoked q))
    \<and> (\<forall>v \<in> set (t_invitations d). iv_consumed_at v \<noteq> None \<longrightarrow>
         (\<exists>w \<in> set (t_invitations d'). iv_id w = iv_id v \<and> iv_consumed_at w = iv_consumed_at v))
    \<and> (\<forall>i. t_installation d = Some i \<longrightarrow>
         (\<exists>j. t_installation d' = Some j \<and> ins_generation i \<le> ins_generation j
            \<and> (ins_generation j = ins_generation i \<longrightarrow> ins_hub_host_id j = ins_hub_host_id i)))"
proof -
  from reachable_later(2) [OF assms] have c: "catalog_follows d d'" by (simp add: store_follows_def)
  have a: "\<exists>b \<in> set (t_agents d'). agent_id b = agent_id a \<and> agent_archived b"
    if "a \<in> set (t_agents d)" "agent_archived a" for a
  proof -
    from that have "agent_id a \<in> archived_ids d" by (auto simp: archived_ids_def)
    with c show ?thesis by (auto simp: catalog_follows_def archived_ids_def dest!: subsetD)
  qed
  have r: "\<exists>q \<in> set (t_hosts d'). host_id (hr_host q) = host_id (hr_host h) \<and> hr_revoked q"
    if "h \<in> set (t_hosts d)" "hr_revoked h" for h
  proof -
    from that have "host_id (hr_host h) \<in> revoked_ids d" by (auto simp: revoked_ids_def)
    with c show ?thesis by (auto simp: catalog_follows_def revoked_ids_def dest!: subsetD)
  qed
  have v: "\<exists>w \<in> set (t_invitations d'). iv_id w = iv_id v \<and> iv_consumed_at w = iv_consumed_at v"
    if "v \<in> set (t_invitations d)" "iv_consumed_at v \<noteq> None" for v
  proof -
    from that have "(iv_id v, iv_consumed_at v) \<in> used_invitations d" by (auto simp: used_invitations_def)
    with c show ?thesis by (auto simp: catalog_follows_def used_invitations_def dest!: subsetD)
  qed
  from c a r v show ?thesis
    by (simp add: catalog_follows_def follows_installation_def) blast
qed

theorem catalog_never_undone_witness: "prefix (t_agent_revisions demo4) (t_agent_revisions demo8)"
  using catalog_never_undone [OF demo_reachable(1) demo_later(2)] by blast

section \<open>Refinement\<close>

text \<open>
  C35. Every operation that commits refines the abstract specification: in a store whose Turns
  are consistent it is a sequence of Session steps and a sequence of catalog steps.
\<close>

theorem operations_refine_steps:
  assumes "op_step X d d'" and "turns_ok d"
  shows "session_steps d d' \<and> catalog_steps d d'"
  using op_step_change [OF assms] by (simp add: system_change_def)

theorem operations_refine_steps_witness: "session_steps demo8 demo9 \<and> catalog_steps demo8 demo9"
  by (rule operations_refine_steps [OF demo_step9
        store_ok_parts(5) [OF reachable_ok [OF demo_reachable(2)]]])

end
