(* ===== verification/ReadProps.thy ===== *)
theory ReadProps
  imports TurnEnd
begin

text \<open>
  The properties of reading: the compacted view of a branch, transcript pages, and the client
  event feed of a durable consumer.
\<close>

section \<open>Facts of the run\<close>

definition demo10 :: db where
  "demo10 = (case append_context_compaction demo_ext demo_session ''summary'' ''msg_21'' 10 demo9 of
     Some (Inr (_, d)) \<Rightarrow> d | _ \<Rightarrow> empty_db)"

definition branch_check :: "db \<Rightarrow> bool" where
  "branch_check d = (case active_branch demo_session d of
      Some [b3, b2, b1, b0] \<Rightarrow> compaction_of b3 = Some (se_id b1)
        \<and> (case active_entries demo_ext demo_session d of Some (Inr es) \<Rightarrow> True | _ \<Rightarrow> False)
    | _ \<Rightarrow> False)"

definition pages_check :: "db \<Rightarrow> bool" where
  "pages_check d = (\<not> isl (session_entries demo_ext demo_session d)
     \<and> length (entry_rows demo_session d) = 6
     \<and> \<not> isl (session_entries_page demo_ext demo_session None 2 d))"

lemma demo10_step: "op_step demo_ext demo9 demo10"
proof -
  have "(case append_context_compaction demo_ext demo_session ''summary'' ''msg_21'' 10 demo9 of
     Some (Inr _) \<Rightarrow> True | _ \<Rightarrow> False)" by code_simp
  then obtain e d where "append_context_compaction demo_ext demo_session ''summary'' ''msg_21'' 10 demo9
      = Some (Inr (e, d))"
    by (auto split: option.splits sum.splits)
  then show ?thesis unfolding demo10_def by (auto intro: OpCompaction)
qed

lemma demo10_reachable: "reachable demo_ext demo10"
  using demo_reachable(3) demo10_step unfolding reachable_def by (rule rtranclp.rtrancl_into_rtrancl)

lemma demo10_branch:
  obtains es b0 b1 b2 b3 where "active_entries demo_ext demo_session demo10 = Some (Inr es)"
    and "active_branch demo_session demo10 = Some [b3, b2, b1, b0]"
    and "compaction_of b3 = Some (se_id b1)"
proof -
  have "branch_check demo10" by code_simp
  then show ?thesis
    unfolding branch_check_def
    by (simp del: compaction_of.simps split: option.splits list.splits sum.splits) (rule that)
qed

lemma demo9_pages:
  obtains es page nxt where "session_entries demo_ext demo_session demo9 = Inr es"
    and "session_entries_page demo_ext demo_session None 2 demo9 = Inr (page, nxt)"
proof -
  have "pages_check demo9" by code_simp
  then show ?thesis
    by (cases "session_entries demo_ext demo_session demo9";
        cases "session_entries_page demo_ext demo_session None 2 demo9")
      (auto simp: pages_check_def intro: that)
qed

section \<open>The active branch\<close>

lemma active_entries_branch:
  assumes "session_ok d" and "active_entries X sid d = Some (Inr es)" and "active_branch sid d = Some br"
  shows "apply_latest_compaction (rev br) = Some es"
    and "\<And>e. e \<in> set br \<Longrightarrow> e \<in> er_entry ` set (t_entries d)"
    and "sorted_wrt (<) (map se_sequence (rev br))"
proof -
  obtain br' where
    b: "active_branch sid d = Some br'" "sort_key se_sequence br' = rev br'"
      "sorted_wrt (<) (map se_sequence (rev br'))"
      "\<And>e. e \<in> set br' \<Longrightarrow> se_session_id e = sid \<and> e \<in> er_entry ` {r \<in> set (t_entries d). er_contextual r}"
      "\<And>es. mapR (entry_of_row X sid) (rev br') = Inr es \<Longrightarrow> es = rev br'"
    by (rule active_branch_read [OF session_ok_parts(1,2) [OF assms(1)], of sid X]) (rule that; blast)
  from b(1) assms(3) have eq: "br' = br" by simp
  from assms(2) b(1,2,5) show "apply_latest_compaction (rev br) = Some es"
    unfolding eq by (auto simp: active_entries_def split: sum.splits)
  show "sorted_wrt (<) (map se_sequence (rev br))" using b(3) unfolding eq .
  show "e \<in> er_entry ` set (t_entries d)" if "e \<in> set br" for e
    using b(4) [of e] that unfolding eq by blast
qed

text \<open>
  C16. The compacted view: when the branch of a reachable state, oldest entry first, is some
  old entries, the first kept entry, kept entries, the latest compaction and what came after,
  then reading it gives the compaction first, the kept entries and what came after, and none
  of the old ones.
\<close>

theorem compacted_view:
  assumes "reachable X d" and "active_entries X sid d = Some (Inr es)"
    and "active_branch sid d = Some (rev (old @ k # kept @ c # post))"
    and "compaction_of c = Some (se_id k)" and "\<forall>e \<in> set post. compaction_of e = None"
  shows "es = c # k # kept @ post"
proof -
  have ok: "session_ok d" by (rule store_ok_parts(1) [OF reachable_ok [OF assms(1)]])
  note b = active_entries_branch [OF ok assms(2,3), simplified rev_rev_ident]
  have "se_id e \<noteq> se_id k" if e: "e \<in> set old" for e
  proof
    assume "se_id e = se_id k"
    moreover have "e \<in> er_entry ` set (t_entries d)" "k \<in> er_entry ` set (t_entries d)"
      using b(2) e by auto
    moreover have "distinct (map (\<lambda>r. se_id (er_entry r)) (t_entries d))"
      using session_ok_parts(1) [OF ok] by (simp add: entries_ok_def)
    ultimately have "e = k" by (auto dest: distinct_map_eqD)
    moreover have "se_sequence e < se_sequence k"
      using b(3) e by (auto simp: sorted_wrt_append)
    ultimately show False by simp
  qed
  from apply_latest_compaction_eq [OF assms(4) bspec [OF assms(5)] this] b(1) show ?thesis by simp
qed

theorem compacted_view_witness:
  "\<exists>b0 b1 b2 b3. active_branch demo_session demo10 = Some [b3, b2, b1, b0]
     \<and> active_entries demo_ext demo_session demo10 = Some (Inr [b3, b1, b2])"
proof -
  obtain es b0 b1 b2 b3 where a: "active_entries demo_ext demo_session demo10 = Some (Inr es)"
    and b: "active_branch demo_session demo10 = Some [b3, b2, b1, b0]"
    and c: "compaction_of b3 = Some (se_id b1)" by (rule demo10_branch)
  from compacted_view [OF demo10_reachable a, of "[b0]" b1 "[b2]" b3 "[]"] b c
  have "es = [b3, b1, b2]" by simp
  with a b show ?thesis by blast
qed

section \<open>Pages\<close>

lemma session_entries_transcript:
  assumes "entries_ok d" and "session_entries X sid d = Inr es"
  shows "es = transcript_of sid d"
proof -
  have "es = map (\<lambda>e. e\<lparr>se_session_id := sid\<rparr>) (transcript_of sid d)"
    using assms(2) unfolding session_entries_def transcript_of_def
    by (rule mapR_map_Inr [rotated]) (rule entry_of_row_Inr)
  also have "\<dots> = transcript_of sid d"
    unfolding transcript_of_ok(1) [OF assms(1)]
    by (rule map_idI) (auto simp: entry_rows_def)
  finally show ?thesis .
qed

text \<open>
  C17. Reading a transcript page after page: in a reachable state, asking again from each
  returned cursor until there is none yields exactly the entries of the Session, each once
  and in order, whatever the page limit, in at most one request more than there are entries.
\<close>

theorem pages_cover_transcript:
  assumes "reachable X d" and "session_entries X sid d = Inr es"
    and "\<forall>e \<in> set es. x_entry_bytes X e \<le> max_session_page_payload_bytes"
  shows "read_pages se_sequence (x_entry_bytes X) es limit (Suc (length es)) None = Some (Inr es)
    \<and> es = map er_entry (entry_rows sid d)"
proof -
  have ok: "entries_ok d"
    by (rule session_ok_parts(1) [OF store_ok_parts(1) [OF reachable_ok [OF assms(1)]]])
  note t = session_entries_transcript [OF ok assms(2)]
  from transcript_pages.read_pages_complete [OF ok, of None sid "Suc (length es)" "x_entry_bytes X" limit]
    assms(3) t transcript_of_ok(1) [OF ok, of sid]
  show ?thesis by (simp add: after_cursor_def)
qed

theorem pages_cover_transcript_witness:
  "\<exists>es. session_entries demo_ext demo_session demo9 = Inr es
     \<and> read_pages se_sequence (x_entry_bytes demo_ext) es 2 (Suc (length es)) None = Some (Inr es)"
proof -
  obtain es page nxt where e: "session_entries demo_ext demo_session demo9 = Inr es"
    by (rule demo9_pages)
  have "\<forall>e \<in> set es. x_entry_bytes demo_ext e \<le> max_session_page_payload_bytes"
    by (simp add: demo_ext_def max_session_page_payload_bytes_def)
  from pages_cover_transcript [OF demo_reachable(3) e this] e show ?thesis by blast
qed

text \<open>
  A transcript page holds at most the requested number of entries, never more than 500,
  and at most the page budget of bytes; it is a prefix of what follows the cursor, ends the
  listing exactly when no cursor is returned, and the cursor is the sequence of its last entry.
\<close>

theorem page_within_limits:
  assumes "session_entries X sid d = Inr es"
    and "session_entries_page X sid after limit d = Inr (page, nxt)"
  shows "length page \<le> min 500 (max 1 limit)
    \<and> sum_list (map (x_entry_bytes X) page) \<le> max_session_page_payload_bytes
    \<and> (\<exists>rest. filter (\<lambda>e. case after of None \<Rightarrow> True | Some a \<Rightarrow> a < se_sequence e) es = page @ rest
         \<and> (nxt = None \<longleftrightarrow> rest = [])
         \<and> (\<forall>c. nxt = Some c \<longrightarrow> page \<noteq> [] \<and> c = se_sequence (last page)))"
proof -
  from assms have "page_entries se_sequence (x_entry_bytes X) es after limit = Inr (page, nxt)"
    by (simp add: session_entries_page_def)
  from page_entries_spec [OF this] show ?thesis
    by (cases nxt) (auto simp: page_result_def after_cursor_def)
qed

theorem page_within_limits_witness:
  "\<exists>page nxt. session_entries_page demo_ext demo_session None 2 demo9 = Inr (page, nxt) \<and> length page \<le> 2"
proof -
  obtain es page nxt where e: "session_entries demo_ext demo_session demo9 = Inr es"
    and p: "session_entries_page demo_ext demo_session None 2 demo9 = Inr (page, nxt)"
    by (rule demo9_pages)
  from page_within_limits [OF e p] p show ?thesis by auto
qed

section \<open>The feed\<close>

lemma subscribed_rows_frame:
  "t_client_events d' = t_client_events d \<Longrightarrow> t_subscriptions d' = t_subscriptions d
     \<Longrightarrow> subscribed_rows c cur d' = subscribed_rows c cur d"
  by (simp add: subscribed_rows_def)

lemma find_update_consumer:
  assumes "find (\<lambda>r. cn_id r = c) rs = Some row" and "\<And>r. cn_id (f r) = cn_id r"
  shows "find (\<lambda>r. cn_id r = c) (update_where (\<lambda>r. cn_id r = c) f rs) = Some (f row)"
proof -
  from find_SomeD [OF assms(1)] have "cn_id row = c" by simp
  with find_update_where [of "\<lambda>r. cn_id r = c" "\<lambda>r. cn_id r = c" f rs] assms show ?thesis by simp
qed

lemma client_events_state:
  assumes "client_events X c limit d = (Inr batch, d')"
  shows "d' = d\<lparr>ticks := Suc (ticks d), t_consumers := update_where (\<lambda>r. cn_id r = c)
           (\<lambda>r. r\<lparr>cn_last_seen_at := x_now X (ticks d)\<rparr>) (t_consumers d)\<rparr>"
  using assms by (auto simp: client_events_def utc_now_def Let_def split: option.splits)


definition demo_after_read :: db where
  "demo_after_read = snd (client_events demo_ext demo_consumer 2 demo6)"

definition read_check :: "StoreError + EventBatch \<Rightarrow> bool" where
  "read_check r = (case r of Inl _ \<Rightarrow> False | Inr b \<Rightarrow> eb_checkpoint b = 1)"

definition feed_check :: "db \<Rightarrow> bool" where
  "feed_check d = (case t_consumers d of
     [r] \<Rightarrow> cn_id r = demo_consumer \<and> cn_kind r = Durable | _ \<Rightarrow> False)"

lemma demo6_consumer:
  obtains row where "t_consumers demo6 = [row]" and "cn_id row = demo_consumer" and "cn_kind row = Durable"
proof -
  have "feed_check demo6" by code_simp
  then show ?thesis by (auto simp: feed_check_def split: list.splits intro: that)
qed

lemma demo6_acknowledged:
  obtains batch d1 d2 where "client_events demo_ext demo_consumer 2 demo6 = (Inr batch, d1)"
    and "eb_checkpoint batch = 1"
    and "acknowledge_events demo_ext demo_consumer (eb_checkpoint batch) d1 = Inr d2"
proof -
  have "read_check (fst (client_events demo_ext demo_consumer 2 demo6))" by code_simp
  then obtain batch where b: "fst (client_events demo_ext demo_consumer 2 demo6) = Inr batch"
    "eb_checkpoint batch = 1"
    by (auto simp: read_check_def split: sum.splits)
  then have c: "client_events demo_ext demo_consumer 2 demo6 = (Inr batch, demo_after_read)"
    by (simp add: demo_after_read_def prod_eq_iff)
  have "\<not> isl (acknowledge_events demo_ext demo_consumer 1 demo_after_read)" by code_simp
  then obtain d2 where "acknowledge_events demo_ext demo_consumer 1 demo_after_read = Inr d2"
    by (cases "acknowledge_events demo_ext demo_consumer 1 demo_after_read") auto
  with b(2) c show ?thesis by (intro that [of batch demo_after_read d2]) simp_all
qed

lemma demo6_reachable: "reachable demo_ext demo6"
  unfolding reachable_def
  by (meson demo_step1 demo_step2 demo_step3 demo_step4 demo_step5 demo_step6
      rtranclp.rtrancl_into_rtrancl rtranclp.rtrancl_refl)


text \<open>
  C21. Pruning never costs a durable consumer an event: it keeps the consumer with its cursor
  and leaves the events the consumer still waits for as they are.
\<close>

theorem pruning_keeps_durable:
  assumes "reachable X d" and "r \<in> set (t_consumers d)" and "cn_kind r = Durable"
  shows "r \<in> set (t_consumers (prune_client_events X d))
    \<and> subscribed_rows (cn_id r) (cn_cursor r) (prune_client_events X d)
        = subscribed_rows (cn_id r) (cn_cursor r) d"
proof -
  from store_ok_parts(4) [OF reachable_ok [OF assms(1)]] have "distinct (map cn_id (t_consumers d))"
    by (simp add: feed_ok_def)
  from prune_keeps_durable [OF this assms(2,3), of X] show ?thesis by blast
qed

theorem pruning_keeps_durable_witness:
  "\<exists>r \<in> set (t_consumers demo6). r \<in> set (t_consumers (prune_client_events demo_ext demo6))"
proof -
  obtain row where r: "t_consumers demo6 = [row]" "cn_kind row = Durable" by (rule demo6_consumer)
  then have "row \<in> set (t_consumers demo6)" by simp
  from pruning_keeps_durable [OF demo6_reachable this r(2)] this show ?thesis by blast
qed

end
