(* ===== verification/CommandProps.thy ===== *)
theory CommandProps
  imports TurnEnd
begin

text \<open>
  The properties of commands: a committed command is answered from its receipt for ever, a
  command identifier is never reused for another request, and what a command appends to the
  journal. The changes of the catalog that are fenced by what the caller expects.
\<close>

section \<open>Receipts\<close>

lemma receipt_kept:
  assumes "select_command_receipt cid d = Some r" and "prefix (t_receipts d) (t_receipts d')"
  shows "select_command_receipt cid d' = Some r"
  using assms by (auto simp: select_command_receipt_def prefix_def find_append_if)

lemma later_receipts: "reachable X d \<Longrightarrow> op_steps X d d' \<Longrightarrow> prefix (t_receipts d) (t_receipts d')"
  using reachable_later(2) by (auto simp: store_follows_def)

lemma drawn_receipts: "drawn d d' \<Longrightarrow> t_receipts d' = t_receipts d"
  by (auto simp: drawn_def)

context projection
begin

text \<open>
  The receipt a command leaves: its retry would fail if it had to decide again.
\<close>

lemma transact_receipt:
  assumes "transact_command X c operation hash to_result from_result decide mutate d = Inr ((t, b), d')"
    and "\<And>t. from_result (to_result t) = Some t"
    and "\<And>y d1. decide d = Inr (y, d1) \<Longrightarrow> t_receipts d1 = t_receipts d"
  obtains r where "select_command_receipt (context_operation_id c operation) d' = Some r"
    and "rc_request_hash r = hash" and "from_result (rc_result r) = Some t"
proof -
  have retry: "transact_command X c operation hash to_result from_result
      (\<lambda>_. Inl (InvalidData [])) mutate d' = Inr ((t, True), d')"
    by (rule transact_retry [OF assms(1)]) (use assms(2,3) in auto)
  show ?thesis
  proof (cases "select_command_receipt (context_operation_id c operation) d'")
    case None
    with retry show ?thesis by (simp add: transact_command_def)
  next
    case (Some r)
    with retry show ?thesis by (auto simp: transact_replay split: if_splits option.splits intro: that)
  qed
qed

text \<open>A command whose identifier is new commits what it decided.\<close>

lemma transact_fresh:
  assumes "transact_command X c operation hash to_result from_result decide mutate d = Inr ((t, b), d')"
    and "select_command_receipt (context_operation_id c operation) d = None"
    and "\<And>y d1. decide d = Inr (y, d1) \<Longrightarrow> t_receipts d1 = t_receipts d"
  obtains subjects d0 where "decide d = Inr ((t, subjects), d0)"
    and "committed_by mutate (concat (map planned subjects)) d0 d'"
proof -
  from assms(1,2) obtain subjects d0 out where dec: "decide d = Inr ((t, subjects), d0)"
    and ap: "append_journal_entries_in X (decorate c \<lparr>ja_command_id = context_operation_id c operation,
           ja_request_hash = hash, ja_result = to_result t, ja_subjects = subjects\<rparr>) mutate d0
         = Inr (out, d')"
    by (auto simp: transact_command_def Let_def result_simps)
  let ?a = "decorate c \<lparr>ja_command_id = context_operation_id c operation,
           ja_request_hash = hash, ja_result = to_result t, ja_subjects = subjects\<rparr>"
  have none: "select_command_receipt (ja_command_id ?a) d0 = None"
    using assms(2) assms(3) [OF dec] by (simp add: select_command_receipt_def decorate_def)
  then obtain es r where out: "out = Appended es r"
    using append_Replayed(2) [of X ?a d0 _ d'] ap by (cases out) auto
  have "select_command_receipt (ja_command_id ?a) d' \<noteq> None"
    using append_Replayed(2) [OF append_retry [OF ap]] by simp
  with none have "d' \<noteq> d0" by metis
  with append_commits [OF ap] have "committed_by mutate (concat (map planned subjects)) d0 d'"
    by (simp add: decorate_planned)
  with dec show ?thesis by (rule that)
qed

end

section \<open>Turn admission\<close>

lemma accept_turn_commit:
  assumes "accept_turn_append X sid key req con md src d = Inr (out, d')"
  obtains a d0 where "drawn d d0" and "ja_command_id a = turn_command_id sid key"
    and "ja_request_hash a = turn_request_hash X sid req md src"
    and "append_journal_entries_in X a (mutate_first X) d0 = Inr (out, d')"
proof -
  from assms obtain rv a d0 where a: "turn_append X sid key req con md src rv d = (a, d0)"
    and ap: "append_journal_entries_in X a (mutate_first X) d0 = Inr (out, d')"
    by (rule accept_turn_append_Inr)
  from a have "drawn d d0" by (auto simp: turn_append_def new_id_def drawn_def)
  then show ?thesis by (rule that) (use turn_append_parts [OF a] ap in auto)
qed

text \<open>What an admission does when its command has a receipt: only identifiers are drawn.\<close>

lemma accept_turn_replay:
  assumes "select_command_receipt (turn_command_id sid key) d = Some r"
    and "accept_turn_append X sid key req con md src d = result"
  shows "(\<exists>e. result = Inl e) \<or> (\<exists>d'. drawn d d' \<and> result = Inr (Replayed r, d'))"
proof (cases result)
  case (Inr p)
  obtain out d' where p: "p = (out, d')" by fastforce
  from assms(2) Inr p have "accept_turn_append X sid key req con md src d = Inr (out, d')" by simp
  then obtain a d0 where dr: "drawn d d0" and id: "ja_command_id a = turn_command_id sid key"
    and ap: "append_journal_entries_in X a (mutate_first X) d0 = Inr (out, d')"
    by (rule accept_turn_commit)
  have "select_command_receipt (ja_command_id a) d0 = Some r"
    using assms(1) dr id by (simp add: select_command_receipt_def drawn_receipts)
  with ap have "out = Replayed r" "d' = d0"
    by (auto simp: append_journal_entries_in_def result_simps)
  with dr Inr p show ?thesis by blast
qed simp

lemma accept_turn_receipt:
  assumes "accept_turn_append X sid key req con md src d = Inr (out, d')"
  shows "select_command_receipt (turn_command_id sid key) d' = Some (outcome_receipt out)"
    and "rc_request_hash (outcome_receipt out) = turn_request_hash X sid req md src"
proof -
  from assms obtain a d0 where a: "ja_command_id a = turn_command_id sid key"
    "ja_request_hash a = turn_request_hash X sid req md src"
    and ap: "append_journal_entries_in X a (mutate_first X) d0 = Inr (out, d')"
    by (rule accept_turn_commit)
  from session_projection.append_Replayed(2,3) [OF session_projection.append_retry [OF ap]] a
  show "select_command_receipt (turn_command_id sid key) d' = Some (outcome_receipt out)"
    "rc_request_hash (outcome_receipt out) = turn_request_hash X sid req md src" by simp_all
qed

definition demo_admit :: "string \<Rightarrow> db \<Rightarrow> StoreError + AppendOutcome \<times> db" where
  "demo_admit text d = accept_turn_append demo_ext demo_session ''k1'' (MC_Text text) (MC_Text text)
     VNull demo_source d"

definition admission_check :: "StoreError + AppendOutcome \<times> db \<Rightarrow> bool" where
  "admission_check r = (case r of Inr (Appended es _, _) \<Rightarrow> length es = 1 | _ \<Rightarrow> False)"

lemma demo5_admitted:
  obtains es r where "demo_admit ''hi'' demo4 = Inr (Appended es r, demo5)" and "length es = 1"
proof -
  have "admission_check (demo_admit ''hi'' demo4)" by code_simp
  then show ?thesis
    by (auto simp: admission_check_def demo5_def accept_turn_idempotent_def demo_admit_def
        split: sum.splits prod.splits AppendOutcome.splits intro: that)
qed

lemma demo5_reachable: "reachable demo_ext demo5"
  unfolding reachable_def
  by (meson demo_step1 demo_step2 demo_step3 demo_step4 demo_step5
      rtranclp.rtrancl_into_rtrancl rtranclp.rtrancl_refl)

lemma demo5_retried: obtains out d where "demo_admit ''hi'' demo5 = Inr (out, d)"
proof -
  have "\<not> isl (demo_admit ''hi'' demo5)" by code_simp
  then show ?thesis by (cases "demo_admit ''hi'' demo5") (auto intro: that)
qed



text \<open>
  C8. A key is never reused for another request: after a request with the key has committed,
  a request with the key whose content, metadata or source hash differently is never admitted.
\<close>

theorem accept_turn_conflict:
  assumes "reachable X d'" and "accept_turn_append X sid key req con md src d = Inr (out, d')"
    and "op_steps X d' d''"
    and "turn_request_hash X sid req' md' src' \<noteq> turn_request_hash X sid req md src"
  shows "accept_turn_append X sid key req' con' md' src' d'' \<noteq> Inr (out', d3)"
proof
  assume acc: "accept_turn_append X sid key req' con' md' src' d'' = Inr (out', d3)"
  note r = accept_turn_receipt [OF assms(2)]
  have "select_command_receipt (turn_command_id sid key) d'' = Some (outcome_receipt out)"
    by (rule receipt_kept [OF r(1) later_receipts [OF assms(1,3)]])
  from accept_turn_replay [OF this acc] have "out' = Replayed (outcome_receipt out)" by auto
  with accept_turn_receipt(2) [OF acc] r(2) assms(4) show False by (simp add: outcome_receipt_def)
qed

theorem accept_turn_conflict_witness: "\<nexists>r. demo_admit ''hello'' demo5 = Inr r"
proof -
  obtain es r where 1: "demo_admit ''hi'' demo4 = Inr (Appended es r, demo5)" by (rule demo5_admitted)
  have "turn_request_hash demo_ext demo_session (MC_Text ''hello'') VNull demo_source
      \<noteq> turn_request_hash demo_ext demo_session (MC_Text ''hi'') VNull demo_source" by code_simp
  from accept_turn_conflict [OF demo5_reachable 1 [unfolded demo_admit_def] rtranclp.rtrancl_refl this]
  have "demo_admit ''hello'' demo5 \<noteq> Inr (out, d)" for out d by (simp add: demo_admit_def)
  then show ?thesis by auto
qed

text \<open>
  An admission that commits appends its entries at the next consecutive journal positions
  and records one receipt that names them; a replay appends nothing.
\<close>

theorem admission_appends:
  assumes "accept_turn_append X sid key req con md src d = Inr (Appended es r, d')"
  shows "t_journal d' = t_journal d @ es
    \<and> map je_position es = [Suc (journal_seq d)..<Suc (journal_seq d + length es)]
    \<and> journal_seq d' = journal_seq d + length es
    \<and> t_receipts d' = t_receipts d @ [r] \<and> rc_command_id r = turn_command_id sid key
    \<and> rc_last_position r = (if es = [] then None else Some (journal_seq d'))"
proof -
  from assms obtain a d0 where dr: "drawn d d0" and a: "ja_command_id a = turn_command_id sid key"
    and ap: "append_journal_entries_in X a (mutate_first X) d0 = Inr (Appended es r, d')"
    by (rule accept_turn_commit)
  from dr have "t_journal d0 = t_journal d" "journal_seq d0 = journal_seq d" "t_receipts d0 = t_receipts d"
    by (auto simp: drawn_def)
  with session_projection.append_Appended [OF ap] a show ?thesis by (simp del: upt_Suc)
qed

theorem admission_appends_witness: "\<exists>je. t_journal demo5 = t_journal demo4 @ [je]"
proof -
  obtain es r where 1: "demo_admit ''hi'' demo4 = Inr (Appended es r, demo5)" and l: "length es = 1"
    by (rule demo5_admitted)
  from admission_appends [OF 1 [unfolded demo_admit_def]] l show ?thesis
    by (cases es) auto
qed

section \<open>Catalog commands\<close>

lemma revision_roundtrip: "revision_result (CR_AgentRevision r) = Some r"
  by (simp add: revision_result_def)

lemma installation_roundtrip: "installation_result (CR_Installation i) = Some i"
  by (simp add: installation_result_def)

lemma host_roundtrip: "host_result (CR_Host h) = Some h"
  by (simp add: host_result_def)

text \<open>
  A catalog command is carried out once: after \<open>update_agent\<close> has committed, the same call
  with the same command, at any later time, returns the revision it created then and changes
  nothing.
\<close>

theorem update_agent_once:
  assumes "reachable X d'" and "update_agent X c aid expected soul config author d = Inr (r, d')"
    and "op_steps X d' d''"
  shows "update_agent X c aid expected soul config author d'' = Inr (r, d'')"
proof -
  let ?h = "command_request_hash X (RQ_UpdateAgent aid expected soul config author)"
  from assms(2) obtain cf b where v: "validate_definition X soul config = Inr cf"
    and tr: "transact_command X c ''update_agent'' ?h CR_AgentRevision revision_result
      (decide_update_agent X aid expected soul config author) apply_agent_events d = Inr ((r, b), d')"
    by (auto simp: update_agent_def result_simps)
  obtain rc where rc: "select_command_receipt (context_operation_id c ''update_agent'') d' = Some rc"
    "rc_request_hash rc = ?h" "revision_result (rc_result rc) = Some r"
    by (rule agent_projection.transact_receipt [OF tr revision_roundtrip])
      (auto dest: decide_drawn drawn_receipts)
  have "select_command_receipt (context_operation_id c ''update_agent'') d'' = Some rc"
    by (rule receipt_kept [OF rc(1) later_receipts [OF assms(1,3)]])
  with rc(2,3) v show ?thesis
    by (simp add: update_agent_def agent_projection.transact_replay)
qed

definition demo_update :: "db \<Rightarrow> StoreError + AgentRevision \<times> db" where
  "demo_update d = update_agent demo_ext (demo_context ''c9'') ''agt_7'' 1 ''soul two'' [] ''hst_1'' d"

definition demo_updated :: db where "demo_updated = state_of (demo_update demo2)"

lemma demo_update_step:
  obtains r where "demo_update demo2 = Inr (r, demo_updated)" and "reachable demo_ext demo_updated"
proof -
  have "\<not> isl (demo_update demo2)" by code_simp
  from state_of_Inr [OF this] have u: "demo_update demo2 = Inr (fst (projr (demo_update demo2)), demo_updated)"
    by (simp add: demo_updated_def)
  have "reachable demo_ext demo_updated"
    unfolding reachable_def
    by (meson demo_step1 demo_step2 OpUpdateAgent [OF u [unfolded demo_update_def]]
        rtranclp.rtrancl_into_rtrancl rtranclp.rtrancl_refl)
  with u show ?thesis by (rule that)
qed

theorem update_agent_once_witness: "\<exists>r. demo_update demo_updated = Inr (r, demo_updated)"
proof -
  obtain r where u: "demo_update demo2 = Inr (r, demo_updated)" and re: "reachable demo_ext demo_updated"
    by (rule demo_update_step)
  from update_agent_once [OF re u [unfolded demo_update_def] rtranclp.rtrancl_refl]
  show ?thesis by (auto simp: demo_update_def)
qed

text \<open>
  Agent updates are fenced: an update under a new command identifier that expects another
  revision than the current one is refused with a revision conflict, and one that returns has
  created and installed the revision after the expected one.
\<close>

theorem update_agent_fenced:
  assumes "select_command_receipt (context_operation_id c ''update_agent'') d = None"
    and "validate_definition X soul config = Inr cf"
    and "find (\<lambda>a. agent_id a = aid \<and> \<not> agent_archived a) (t_agents d) = Some a"
  shows "(agent_current_revision a \<noteq> expected \<longrightarrow> update_agent X c aid expected soul config author d
            = Inl (RevisionConflict expected (agent_current_revision a)))
    \<and> (\<forall>r d'. update_agent X c aid expected soul config author d = Inr (r, d') \<longrightarrow>
         rev_revision r = Suc expected \<and> rev_soul r = soul \<and> r \<in> set (t_agent_revisions d')
         \<and> (\<exists>b \<in> set (t_agents d'). agent_id b = aid \<and> agent_current_revision b = Suc expected))"
proof (intro conjI allI impI)
  assume "agent_current_revision a \<noteq> expected"
  with assms show "update_agent X c aid expected soul config author d
      = Inl (RevisionConflict expected (agent_current_revision a))"
    by (simp add: update_agent_def transact_command_def decide_update_agent_def Let_def require_def)
next
  fix r d' assume up: "update_agent X c aid expected soul config author d = Inr (r, d')"
  let ?h = "command_request_hash X (RQ_UpdateAgent aid expected soul config author)"
  from up assms(2) obtain b where
    tr: "transact_command X c ''update_agent'' ?h CR_AgentRevision revision_result
      (decide_update_agent X aid expected soul config author) apply_agent_events d = Inr ((r, b), d')"
    by (auto simp: update_agent_def result_simps)
  obtain ss d0 where dec: "decide_update_agent X aid expected soul config author d = Inr ((r, ss), d0)"
    and cm: "committed_by apply_agent_events (concat (map planned ss)) d0 d'"
    by (rule agent_projection.transact_fresh [OF tr assms(1)]) (auto dest: decide_drawn drawn_receipts)
  note di = decide_update_agent_Inr [OF dec]
  from cm obtain je d1 d2 where je: "je_payload je = JE_AgentRevisionCreated r"
    and ap: "apply_agent_event je d1 = Inr d2" and t: "tables_eq d2 d'"
    unfolding di(2) by (auto simp: committed_by_def apply_agent_events_def bindR_eq_Inr
        Cons_eq_map_conv commit_of_def)
  let ?p = "\<lambda>a. agent_id a = aid \<and> agent_current_revision a = expected \<and> \<not> agent_archived a"
  from ap je di(3,4) have one: "count_where ?p (t_agents d1) = Suc 0"
    and d2: "t_agents d2 = update_where ?p (\<lambda>a. a\<lparr>agent_current_revision := Suc expected\<rparr>) (t_agents d1)"
      "t_agent_revisions d2 = t_agent_revisions d1 @ [r]"
    by (auto simp: apply_agent_event_def apply_agent_revision_def insert_agent_revision_def Let_def
        result_simps split: if_splits)
  from count_where_1D [OF one] obtain x where x: "x \<in> set (t_agents d1)" "?p x" by blast
  have "x\<lparr>agent_current_revision := Suc expected\<rparr> \<in> set (t_agents d2)"
    unfolding d2 set_update_where using x by (intro image_eqI [of _ _ x]) simp_all
  with x(2) have "\<exists>b \<in> set (t_agents d2). agent_id b = aid \<and> agent_current_revision b = Suc expected"
    by (intro bexI) simp_all
  with t d2(2) show "r \<in> set (t_agent_revisions d')"
    "\<exists>b \<in> set (t_agents d'). agent_id b = aid \<and> agent_current_revision b = Suc expected"
    by (simp_all add: tables_eq_def catalog_eq_def)
  show "rev_revision r = Suc expected" by (fact di(3))
  from dec show "rev_soul r = soul"
    by (auto simp: decide_update_agent_def draw_defs revision_def result_simps)
qed

definition fence_check :: "db \<Rightarrow> bool" where
  "fence_check d = (select_command_receipt (context_operation_id (demo_context ''c9'') ''update_agent'') d = None
     \<and> (case t_agents d of [a] \<Rightarrow> agent_id a = ''agt_7'' \<and> \<not> agent_archived a \<and> agent_current_revision a = 1
                        | _ \<Rightarrow> False))"

theorem update_agent_fenced_witness:
  "update_agent demo_ext (demo_context ''c9'') ''agt_7'' 5 ''soul two'' [] ''hst_1'' demo2
     = Inl (RevisionConflict 5 1)"
proof -
  have "fence_check demo2" by code_simp
  then obtain a where n: "select_command_receipt (context_operation_id (demo_context ''c9'') ''update_agent'') demo2 = None"
    and a: "t_agents demo2 = [a]" "agent_id a = ''agt_7''" "\<not> agent_archived a" "agent_current_revision a = 1"
    by (auto simp: fence_check_def split: list.splits)
  have "\<not> isl (validate_definition demo_ext ''soul two'' [])" by code_simp
  then obtain cf where v: "validate_definition demo_ext ''soul two'' [] = Inr cf"
    by (cases "validate_definition demo_ext ''soul two'' []") auto
  have f: "find (\<lambda>a. agent_id a = ''agt_7'' \<and> \<not> agent_archived a) (t_agents demo2) = Some a"
    using a by simp
  from update_agent_fenced [OF n v f, of 5 "''hst_1''"] a(4) show ?thesis by simp
qed

end
