(* ===== verification/CatalogProps.thy ===== *)
theory CatalogProps
  imports CommandProps
begin

text \<open>
  The properties of the catalog commands that are fenced or single-use, and of the values the
  store derives: ACP bindings, slugs, digests and stable names.
\<close>

section \<open>Moving the Hub\<close>


definition move_check :: "db \<Rightarrow> bool" where
  "move_check d = (select_command_receipt (context_operation_id (demo_context ''c8'') ''move_hub'') d = None
     \<and> (case t_installation d of None \<Rightarrow> False | Some i \<Rightarrow> ins_hub_host_id i = ''hst_1''))"


section \<open>Invitations\<close>

lemma consumed_is_used:
  assumes "committed_by apply_host_events [(s, JE_HostInvitationConsumed iid h), (s', JE_HostEnrolled h')] d d'"
  shows "\<exists>at. (iid, Some at) \<in> used_invitations d'"
proof -
  from assms obtain e1 e2 d1 d2 d3 where p: "je_payload e1 = JE_HostInvitationConsumed iid h"
    "je_payload e2 = JE_HostEnrolled h'"
    and 1: "apply_host_event e1 d1 = Inr d2" and 2: "apply_host_event e2 d2 = Inr d3"
    and t: "tables_eq d3 d'"
    by (auto simp: committed_by_def commit_of_def apply_host_events_def bindR_eq_Inr Cons_eq_map_conv)
  let ?p = "\<lambda>r. iv_id r = iid \<and> iv_consumed_at r = None" and ?at = "je_recorded_at e1"
  from 1 p(1) have one: "count_where ?p (t_invitations d1) = Suc 0"
    and d2: "t_invitations d2 = update_where ?p (\<lambda>r. r\<lparr>iv_consumed_at := Some ?at\<rparr>) (t_invitations d1)"
    by (auto simp: apply_host_event_def apply_invitation_consumed_def Let_def result_simps)
  from count_where_1D [OF one] obtain x where x: "x \<in> set (t_invitations d1)" "?p x" by blast
  have "x\<lparr>iv_consumed_at := Some ?at\<rparr> \<in> set (t_invitations d2)"
    unfolding d2 set_update_where using x by (intro image_eqI [of _ _ x]) simp_all
  moreover from 2 p(2) t have "t_invitations d' = t_invitations d2"
    by (auto simp: apply_host_event_def insert_host_def Let_def result_simps tables_eq_def catalog_eq_def)
  ultimately have "(iid, Some ?at) \<in> used_invitations d'"
    unfolding used_invitations_def using x(2)
    by (intro image_eqI [of _ _ "x\<lparr>iv_consumed_at := Some ?at\<rparr>"]) simp_all
  then show ?thesis ..
qed

lemma used_invitation_refused:
  assumes "(iid, Some at) \<in> used_invitations d" and "distinct (map iv_id (t_invitations d))"
  shows "isl (decide_consume_invitation X iid secret name pk nk url d)"
proof -
  from assms(1) obtain r where r: "r \<in> set (t_invitations d)" "iv_id r = iid" "iv_consumed_at r = Some at"
    by (auto simp: used_invitations_def)
  have "find (\<lambda>q. iv_id q = iid) (t_invitations d) = Some r"
    using find_distinct_key [OF assms(2) r(1)] r(2) by simp
  with r(3) show ?thesis by (simp add: decide_consume_invitation_def utc_now_def require_def)
qed

lemma consume_commit:
  assumes "consume_invitation X c iid secret name pk nk url d = Inr (h, d')"
    and "select_command_receipt (context_operation_id c ''consume_invitation'') d = None"
  obtains ss d0 where "decide_consume_invitation X iid secret name pk nk url d = Inr ((h, ss), d0)"
    and "committed_by apply_host_events (concat (map planned ss)) d0 d'"
proof -
  from assms(1) obtain b where tr: "transact_command X c ''consume_invitation''
      (command_request_hash X (RQ_ConsumeInvitation iid (secret_hash X secret) name pk nk url))
      CR_Host host_result (decide_consume_invitation X iid secret name pk nk url)
      apply_host_events d = Inr ((h, b), d')"
    by (auto simp: consume_invitation_def result_simps)
  show ?thesis
    by (rule host_projection.transact_fresh [OF tr assms(2)])
      (auto dest: decide_drawn drawn_receipts intro: that)
qed

text \<open>
  C27. An invitation enrolls one Host: once it has been consumed, no command with a new
  identifier ever consumes it again, whatever secret, name or keys it presents.
\<close>

theorem invitation_single_use:
  assumes "reachable X d'" and "consume_invitation X c iid secret name pk nk url d = Inr (h, d')"
    and "select_command_receipt (context_operation_id c ''consume_invitation'') d = None"
    and "op_steps X d' d''"
    and "select_command_receipt (context_operation_id c' ''consume_invitation'') d'' = None"
  shows "isl (consume_invitation X c' iid secret' name' pk' nk' url' d'')"
proof -
  obtain ss d0 where dec: "decide_consume_invitation X iid secret name pk nk url d = Inr ((h, ss), d0)"
    and cm: "committed_by apply_host_events (concat (map planned ss)) d0 d'"
    by (rule consume_commit [OF assms(2,3)])
  from dec have "\<exists>s s'. concat (map planned ss)
      = [(s, JE_HostInvitationConsumed iid (host_id h)), (s', JE_HostEnrolled h)]"
    by (auto simp: decide_consume_invitation_def draw_defs planned_def result_simps)
  then obtain at where "(iid, Some at) \<in> used_invitations d'" using cm consumed_is_used by metis
  then have used: "(iid, Some at) \<in> used_invitations d''"
    using reachable_later(2) [OF assms(1,4)] by (auto simp: store_follows_def catalog_follows_def)
  have dist: "distinct (map iv_id (t_invitations d''))"
    using reachable_ok [of X d''] reachable_later(1) [OF assms(1,4)]
    by (simp add: store_ok_def catalog_ok_def invitations_ok_def)
  show ?thesis
  proof (cases "consume_invitation X c' iid secret' name' pk' nk' url' d''")
    case (Inr p)
    obtain h' d3 where "p = (h', d3)" by fastforce
    with Inr have "consume_invitation X c' iid secret' name' pk' nk' url' d'' = Inr (h', d3)" by simp
    then obtain ss' d4 where
      "decide_consume_invitation X iid secret' name' pk' nk' url' d'' = Inr ((h', ss'), d4)"
      by (rule consume_commit [OF _ assms(5)])
    with used_invitation_refused [OF used dist, of X secret' name' pk' nk' url'] show ?thesis by simp
  qed simp
qed

definition demo_invited :: db where
  "demo_invited = state_of (create_invitation demo_ext (demo_context ''c3'') 90000 demo1)"

text \<open>The identifier and the secret the invitation was given.\<close>

definition demo_consume :: "string \<Rightarrow> db \<Rightarrow> StoreError + Host \<times> db" where
  "demo_consume cid d = consume_invitation demo_ext (demo_context cid) ''inv_8'' ''9'' ''desk'' ''pk2'' ''nk2''
     ''https://relay'' d"

definition demo_enrolled :: db where "demo_enrolled = state_of (demo_consume ''c4'' demo_invited)"

definition invited_check :: "db \<Rightarrow> bool" where
  "invited_check d = (\<not> isl (demo_consume ''c4'' d)
     \<and> select_command_receipt (context_operation_id (demo_context ''c4'') ''consume_invitation'') d = None)"

definition enrolled_check :: "db \<Rightarrow> bool" where
  "enrolled_check d =
     (select_command_receipt (context_operation_id (demo_context ''c5'') ''consume_invitation'') d = None)"

theorem invitation_single_use_witness: "isl (demo_consume ''c5'' demo_enrolled)"
proof -
  have 1: "op_step demo_ext demo1 demo_invited"
    unfolding demo_invited_def by (rule OpCreateInvitation [OF state_of_Inr]) code_simp
  have "invited_check demo_invited" by code_simp
  then have ok: "\<not> isl (demo_consume ''c4'' demo_invited)"
    and n: "select_command_receipt (context_operation_id (demo_context ''c4'') ''consume_invitation'') demo_invited = None"
    by (auto simp: invited_check_def)
  from state_of_Inr [OF ok] have c: "demo_consume ''c4'' demo_invited
      = Inr (fst (projr (demo_consume ''c4'' demo_invited)), demo_enrolled)" by (simp add: demo_enrolled_def)
  have re: "reachable demo_ext demo_enrolled"
    unfolding reachable_def
    by (meson demo_step1 1 OpConsumeInvitation [OF c [unfolded demo_consume_def]]
        rtranclp.rtrancl_into_rtrancl rtranclp.rtrancl_refl)
  have "enrolled_check demo_enrolled" by code_simp
  then have n2: "select_command_receipt (context_operation_id (demo_context ''c5'') ''consume_invitation'') demo_enrolled = None"
    by (simp add: enrolled_check_def)
  from invitation_single_use [OF re c [unfolded demo_consume_def] n rtranclp.rtrancl_refl n2]
  show ?thesis by (simp add: demo_consume_def)
qed

section \<open>ACP bindings\<close>

text \<open>
  An ACP binding never leaves its Host: a decision about a Session that has a binding keeps
  its Session, Host and creation time; a new binding equal in identity is the stored one, a
  replacement records its reason, and without a stored binding only a new one is accepted.
\<close>

theorem acp_binding_keeps_host:
  assumes "decide_acp_binding X sid b d = Inr (r, d')"
  shows "(\<forall>old. select_acp_binding X sid d = Inr (Some old) \<longrightarrow>
       ab_session_id r = ab_session_id old \<and> ab_host_id r = ab_host_id old \<and> bi_host_id b = ab_host_id old
       \<and> ab_created_at r = ab_created_at old
       \<and> (bi_transition b = ABT_New \<longrightarrow> r = old)
       \<and> (\<forall>reason. bi_transition b = ABT_Replace reason \<longrightarrow>
            ab_acp_session_id r = bi_acp_session_id b \<and> ab_last_replacement_reason r = Some reason))
    \<and> (select_acp_binding X sid d = Inr None \<longrightarrow>
       bi_transition b = ABT_New \<and> ab_session_id r = sid \<and> ab_host_id r = bi_host_id b
       \<and> ab_replaced_at r = None)
    \<and> (\<forall>s. bi_transition b \<noteq> ABT_Resume s)"
proof -
  from assms obtain existing where ex: "select_acp_binding X sid d = Inr existing"
    by (auto simp: decide_acp_binding_def result_simps)
  show ?thesis
  proof (cases existing)
    case None
    with assms ex show ?thesis
      by (cases "bi_transition b")
        (auto simp: decide_acp_binding_def bindR_eq_Inr utc_now_def simp del: not_None_eq)
  next
    case (Some old)
    with assms ex show ?thesis
      by (cases "bi_transition b")
        (auto simp: decide_acp_binding_def bindR_eq_Inr utc_now_def split: if_splits simp del: not_None_eq)
  qed
qed

definition demo_binding :: "AcpBindingTransition \<Rightarrow> BindingInput" where
  "demo_binding tr = \<lparr>bi_host_id = ''hst_1'', bi_harness = ''codex'', bi_definition_hash = ''h'',
     bi_acp_session_id = ''acp1'', bi_transition = tr, bi_version = 1, bi_context_text = ''ctx'',
     bi_channel = FirstPrompt, bi_dispatched = False\<rparr>"

theorem acp_binding_keeps_host_witness:
  "\<exists>r d'. decide_acp_binding demo_ext demo_session (demo_binding ABT_New) empty_db = Inr (r, d')
     \<and> ab_host_id r = ''hst_1''"
proof -
  have s: "select_acp_binding demo_ext demo_session empty_db = Inr None"
    by code_simp
  have "\<not> isl (decide_acp_binding demo_ext demo_session (demo_binding ABT_New) empty_db)" by code_simp
  then obtain r d' where r: "decide_acp_binding demo_ext demo_session (demo_binding ABT_New) empty_db = Inr (r, d')"
    by (cases "decide_acp_binding demo_ext demo_session (demo_binding ABT_New) empty_db") auto
  from acp_binding_keeps_host [OF r] s r show ?thesis by (simp add: demo_binding_def)
qed

section \<open>Derived values\<close>

text \<open>
  The slugs the store accepts are exactly the nonempty words of lowercase letters and
  digits joined by single hyphens, of at most 64 bytes.
\<close>

theorem slugs_accepted:
  "validate_slug slug = Inr () \<longleftrightarrow> length slug \<le> 64 \<and>
     (\<exists>words. words \<noteq> [] \<and> slug = join_on (CHR ''-'') words
        \<and> (\<forall>w \<in> set words. w \<noteq> [] \<and> list_all (\<lambda>b. ascii_lower b \<or> ascii_digit b) w))"
  unfolding validate_slug_def require_Inr by (rule slug_ok_iff)

theorem slugs_accepted_witness: "validate_slug ''my-agent'' = Inr ()"
proof -
  have "''my-agent'' = join_on (CHR ''-'') [''my'', ''agent'']" by simp
  moreover have "\<forall>w \<in> set [''my'', ''agent'']. w \<noteq> [] \<and> list_all (\<lambda>b. ascii_lower b \<or> ascii_digit b) w"
    by (simp add: ascii_lower_def)
  ultimately show ?thesis
    unfolding slugs_accepted by (intro conjI exI [of _ "[''my'', ''agent'']"]) simp_all
qed

text \<open>
  The content hash of an Agent revision determines its definition: where the digest has no
  collision on the two inputs, revisions with the same hash have the same soul and the same
  configuration, so the framing of the digest's input is unambiguous.
\<close>

theorem content_hash_determines:
  assumes "rev_content_hash (revision X aid n soul config author at)
      = rev_content_hash (revision X aid' n' soul' config' author' at')"
    and "inj_on (x_sha256 X) {revision_preimage soul config, revision_preimage soul' config'}"
    and "length soul < 2 ^ 64" and "length soul' < 2 ^ 64"
  shows "soul = soul' \<and> config = config'"
proof -
  from assms(1) have "x_sha256 X (revision_preimage soul config) = x_sha256 X (revision_preimage soul' config')"
    unfolding revision_def by (simp only: AgentRevision.simps)
  with assms(2) have "revision_preimage soul config = revision_preimage soul' config'"
    by (rule inj_onD) simp_all
  then show ?thesis using assms(3,4) by (rule revision_preimage_inj)
qed

theorem content_hash_determines_witness:
  "rev_content_hash (revision (demo_ext\<lparr>x_sha256 := (\<lambda>s. s)\<rparr>) ''agt_1'' 1 ''ab'' ''c'' ''hst_1'' 0)
     \<noteq> rev_content_hash (revision (demo_ext\<lparr>x_sha256 := (\<lambda>s. s)\<rparr>) ''agt_1'' 1 ''a'' ''bc'' ''hst_1'' 0)"
  using content_hash_determines [of "demo_ext\<lparr>x_sha256 := (\<lambda>s. s)\<rparr>" "''agt_1''" 1 "''ab''" "''c''" "''hst_1''" 0
      "''agt_1''" 1 "''a''" "''bc''" "''hst_1''" 0]
  by auto

text \<open>
  The stable names of journal events round-trip: parsing the name of a type gives the type
  back, and no other text parses to it.
\<close>

theorem event_names_roundtrip: "event_type_from_str s = Inr t \<longleftrightarrow> s = event_type_as_str t"
  by (rule event_type_name.from_str_Inr)

lemma id_prefixes_differ: "id_prefix k @ u = id_prefix k' @ u' \<Longrightarrow> k = k'"
  by (cases k; cases k') simp_all

text \<open>
  Identifiers are typed by their text: parsing accepts exactly a kind's prefix followed by
  a UUID and returns the text itself, and no text is an identifier of two kinds.
\<close>

theorem ids_typed_by_prefix:
  "(id_from_str uuid_ok k s = Inr t \<longleftrightarrow> t = s \<and> (\<exists>u. s = id_prefix k @ u \<and> uuid_ok u))
   \<and> \<not> (k \<noteq> k' \<and> \<not> isl (id_from_str uuid_ok k s) \<and> \<not> isl (id_from_str uuid_ok k' s))"
  by (auto simp: id_from_str_def strip_prefix_Some dest: id_prefixes_differ split: option.splits if_splits)

end
