(* ===== verification/AgentTypes.thy ===== *)
theory AgentTypes
  imports Domain
begin

text \<open>
  The data of the agent crate, \<open>crates/mews-agent/src\<close>: model requests and streams
  (\<open>model.rs\<close>), tool calls and results, errors (\<open>capabilities.rs\<close>), the events and signals of
  the loop (\<open>types.rs\<close>), the message queue (\<open>queue.rs\<close>) and the tool catalog (\<open>tools.rs\<close>).
  Its \<open>MessageRole\<close> and \<open>MessageContent\<close> have the constructors of the protocol's and are
  represented by them. Rust's \<open>anyhow::Error\<close> is the datatype of the causes the crate tells
  apart, under any number of added contexts.
\<close>

section \<open>Model requests\<close>

record ModelMessage =
  mm_role :: MessageRole
  mm_content :: MessageContent

record ToolDefinition =
  td_name :: string
  td_description :: string
  td_schema :: Value
  td_agent_id :: "AgentId option"

record ToolCatalogSnapshot =
  cs_generation :: nat
  cs_tools :: "ToolDefinition list"

record ResponseContinuation =
  cu_response_id :: string
  cu_provider :: string
  cu_model :: string
  cu_api :: string
  cu_fallback_messages :: "ModelMessage list"

record ModelRequest =
  mr_model :: string
  mr_reasoning :: "ReasoningEffort option"
  mr_system :: string
  mr_messages :: "ModelMessage list"
  mr_tools :: "ToolDefinition list"
  mr_continuation :: "ResponseContinuation option"

datatype ContinuationCapability = CC_None | CC_ResponseId string string

datatype ModelStreamEvent =
  MS_Start
| MS_ResponseMetadata string string string "string option"
| MS_TextDelta string
| MS_Reasoning string "string option"
| MS_ToolCall string string Value "string option"
| MS_ProviderState string string Value
| MS_ResponseCompleted "ModelUsage option" "string option"
| MS_Done

datatype ModelPart =
  MP_Text string
| MP_Reasoning string "string option"
| MP_ToolCall string string Value "string option"
| MP_ProviderState string string Value

record ModelResponse =
  mo_provider :: string
  mo_model :: string
  mo_api :: string
  mo_response_id :: "string option"
  mo_parts :: "ModelPart list"
  mo_usage :: "ModelUsage option"
  mo_stop_reason :: "string option"

text \<open>The stream of a provider that only generates whole responses.\<close>

fun part_event :: "ModelPart \<Rightarrow> ModelStreamEvent" where
  "part_event (MP_Text txt) = MS_TextDelta txt"
| "part_event (MP_Reasoning txt signature) = MS_Reasoning txt signature"
| "part_event (MP_ToolCall i name arguments signature) = MS_ToolCall i name arguments signature"
| "part_event (MP_ProviderState provider model data) = MS_ProviderState provider model data"

definition response_events :: "ModelResponse \<Rightarrow> ModelStreamEvent list" where
  "response_events resp =
     [MS_Start, MS_ResponseMetadata (mo_provider resp) (mo_model resp) (mo_api resp) (mo_response_id resp)]
     @ map part_event (mo_parts resp) @ [MS_ResponseCompleted (mo_usage resp) (mo_stop_reason resp), MS_Done]"

section \<open>Tool calls\<close>

record AgentToolCall =
  call_id :: string
  call_name :: string
  call_arguments :: Value
  call_signature :: "string option"
  call_generation :: nat

record AgentToolResult =
  res_value :: Value
  res_is_error :: bool
  res_uncertain :: bool
  res_terminate :: bool

definition result_success :: "Value \<Rightarrow> AgentToolResult" where
  "result_success v = \<lparr>res_value = v, res_is_error = False, res_uncertain = False, res_terminate = False\<rparr>"

definition result_error :: "string \<Rightarrow> AgentToolResult" where
  "result_error e = \<lparr>res_value = VString e, res_is_error = True, res_uncertain = False, res_terminate = False\<rparr>"

definition result_uncertain :: "string \<Rightarrow> AgentToolResult" where
  "result_uncertain r = \<lparr>res_value = VString r, res_is_error = True, res_uncertain = True, res_terminate = False\<rparr>"

definition uncertain_effect_instruction :: string where
  "uncertain_effect_instruction =
     ''The external effect may have happened, but its outcome could not be observed. Do not retry automatically; ask the user before repeating the operation.''"

text \<open>The objects of \<open>json!\<close> list their keys as written.\<close>

definition tool_result_for_model :: "Value \<Rightarrow> bool \<Rightarrow> bool \<Rightarrow> Value" where
  "tool_result_for_model v is_error uncertain =
     (if uncertain then VObject [(''outcome'', VString ''uncertain''), (''is_error'', VBool is_error),
        (''reason'', v), (''instruction'', VString uncertain_effect_instruction)]
      else if is_error then VObject [(''outcome'', VString ''error''), (''is_error'', VBool True), (''error'', v)]
      else v)"

section \<open>Errors\<close>

datatype ProviderError =
  PE_InvalidRequest string | PE_Authentication string | PE_UnsupportedProvider string
| PE_RateLimited "nat option" | PE_Http string | PE_InvalidResponse string | PE_Cancelled
| PE_CursorRejected string

datatype AgentError =
  AE_TurnCancelled | AE_Provider ProviderError | AE_Uncertain string | AE_Message string
| AE_Context string AgentError

text \<open>\<open>downcast_ref\<close> looks through the contexts.\<close>

fun error_cause :: "AgentError \<Rightarrow> AgentError" where
  "error_cause (AE_Context _ e) = error_cause e"
| "error_cause e = e"

definition is_turn_cancelled :: "AgentError \<Rightarrow> bool" where
  "is_turn_cancelled e = (error_cause e = AE_TurnCancelled \<or> error_cause e = AE_Provider PE_Cancelled)"

definition effect_uncertainty :: "AgentError \<Rightarrow> string option" where
  "effect_uncertainty e = (case error_cause e of AE_Uncertain r \<Rightarrow> Some r | _ \<Rightarrow> None)"

text \<open>\<open>to_string\<close> and the alternate form \<open>{:#}\<close> of an error; \<open>debug\<close> stands for \<open>{:?}\<close> of a string.\<close>

fun provider_error_text :: "(string \<Rightarrow> string) \<Rightarrow> ProviderError \<Rightarrow> string" where
  "provider_error_text debug (PE_InvalidRequest m) = ''invalid model request: '' @ m"
| "provider_error_text debug (PE_Authentication m) = ''provider authentication failed: '' @ m"
| "provider_error_text debug (PE_UnsupportedProvider p) = ''unsupported provider '' @ debug p"
| "provider_error_text debug (PE_RateLimited retry) = ''provider rate limited the request''
     @ (case retry of None \<Rightarrow> [] | Some s \<Rightarrow> ''; retry after '' @ show_nat s @ ''s'')"
| "provider_error_text debug (PE_Http m) = ''provider request failed: '' @ m"
| "provider_error_text debug (PE_InvalidResponse m) = ''invalid provider response: '' @ m"
| "provider_error_text debug PE_Cancelled = ''provider operation was cancelled''"
| "provider_error_text debug (PE_CursorRejected m) =
     ''provider continuation cursor is missing, expired, or incompatible: '' @ m"

fun error_text :: "(string \<Rightarrow> string) \<Rightarrow> AgentError \<Rightarrow> string" where
  "error_text debug AE_TurnCancelled = ''agent Turn cancelled''"
| "error_text debug (AE_Provider e) = provider_error_text debug e"
| "error_text debug (AE_Uncertain r) = ''effect outcome is uncertain: '' @ r"
| "error_text debug (AE_Message m) = m"
| "error_text debug (AE_Context c e) = c"

fun error_chain :: "(string \<Rightarrow> string) \<Rightarrow> AgentError \<Rightarrow> string" where
  "error_chain debug (AE_Context c e) = c @ '': '' @ error_chain debug e"
| "error_chain debug e = error_text debug e"

section \<open>What the loop reports and asks\<close>

datatype AgentEvent =
  AV_AssistantResponse AssistantResponse "AgentToolCall list"
| AV_MessageInjected ModelMessage
| AV_ToolExecutionStarted AgentToolCall
| AV_ToolExecutionCompleted AgentToolCall AgentToolResult
| AV_ToolResultRecorded AgentToolCall AgentToolResult

datatype AgentSignal =
  SG_AssistantStarted | SG_AssistantTextDelta string | SG_ToolProgress string Value

datatype ToolDecision = TD_Allow | TD_Block string
datatype StepDecision = SD_Continue | SD_Stop
datatype ProviderCallOutcome = PO_Succeeded | PO_Failed string | PO_Uncertain string

record NextStepUpdate =
  nu_model :: "string option"
  nu_reasoning :: "ReasoningEffort option option"
  nu_system :: "string option"

record AgentLoopConfig =
  lc_max_steps :: nat
  lc_tool_execution :: ToolExecutionMode

text \<open>The string value of a key: absent is none, another type is an error.\<close>

definition hook_string :: "string \<Rightarrow> (string \<times> Value) list \<Rightarrow> string + string option" where
  "hook_string key kvs =
     (case map_of kvs key of
        None \<Rightarrow> Inr None
      | Some v \<Rightarrow> (case value_as_str v of None \<Rightarrow> Inl (key @ '' must be a string'') | Some s \<Rightarrow> Inr (Some s)))"

fun hook_names :: "AgentToolCall \<Rightarrow> (string \<times> Value) list \<Rightarrow> string list \<Rightarrow> string + ToolDecision option" where
  "hook_names call kvs [] = Inr None"
| "hook_names call kvs (key # keys) =
     bindR (hook_string key kvs) (\<lambda>s.
     if s \<noteq> None \<and> s \<noteq> Some (call_name call)
     then Inr (Some (TD_Block ''before_tool hooks may block a call but may not change its tool name''))
     else hook_names call kvs keys)"

definition before_tool_decision :: "AgentToolCall \<Rightarrow> Value \<Rightarrow> string + ToolDecision" where
  "before_tool_decision call payload =
     (case payload of
        VNull \<Rightarrow> Inr TD_Allow
      | VObject kvs \<Rightarrow>
          bindR (hook_string ''block'' kvs) (\<lambda>block.
          bindR (hook_names call kvs [''name'', ''tool'']) (\<lambda>changed.
          case changed of
            Some d \<Rightarrow> Inr d
          | None \<Rightarrow>
              if map_of kvs ''arguments'' \<noteq> None \<and> map_of kvs ''arguments'' \<noteq> Some (call_arguments call)
              then Inr (TD_Block ''before_tool hooks may block a call but may not change its arguments'')
              else Inr (case block of Some reason \<Rightarrow> TD_Block reason | None \<Rightarrow> TD_Allow)))
      | _ \<Rightarrow> Inl ''hook response must be an object or null'')"

section \<open>The message queue\<close>

record MessageQueue =
  q_steering :: "ModelMessage list"
  q_follow_up :: "ModelMessage list"

definition queue_steer :: "ModelMessage \<Rightarrow> MessageQueue \<Rightarrow> MessageQueue" where
  "queue_steer m q = q\<lparr>q_steering := q_steering q @ [m]\<rparr>"

definition queue_follow_up :: "ModelMessage \<Rightarrow> MessageQueue \<Rightarrow> MessageQueue" where
  "queue_follow_up m q = q\<lparr>q_follow_up := q_follow_up q @ [m]\<rparr>"

definition drain_steering :: "MessageQueue \<Rightarrow> ModelMessage list \<times> MessageQueue" where
  "drain_steering q = (q_steering q, q\<lparr>q_steering := []\<rparr>)"

definition drain_follow_ups :: "MessageQueue \<Rightarrow> ModelMessage list \<times> MessageQueue" where
  "drain_follow_ups q = (q_follow_up q, q\<lparr>q_follow_up := []\<rparr>)"

definition queue_is_empty :: "MessageQueue \<Rightarrow> bool" where
  "queue_is_empty q = (q_steering q = [] \<and> q_follow_up q = [])"

section \<open>The tool catalog\<close>

text \<open>
  What the loop takes from other crates without asking the runtime: sizes of serialized
  values, the JSON schema validators (none for an invalid schema, the text of a violation),
  and \<open>{:?}\<close> of a string.
\<close>

record agent_ext =
  ax_fixed_bytes :: "string \<Rightarrow> ReasoningEffort option \<Rightarrow> string \<Rightarrow> ToolDefinition list \<Rightarrow> nat"
  ax_message_bytes :: "ModelMessage \<Rightarrow> nat"
  ax_schema_error :: "Value \<Rightarrow> string option"
  ax_argument_error :: "Value \<Rightarrow> Value \<Rightarrow> string option"
  ax_debug :: "string \<Rightarrow> string"

definition tool_allowed :: "string \<Rightarrow> string \<Rightarrow> bool" where
  "tool_allowed pattern name =
     (pattern = ''*'' \<or> pattern = name
      \<or> (pattern \<noteq> [] \<and> last pattern = CHR ''*'' \<and> take (length (butlast pattern)) name = butlast pattern))"

record ToolCatalog =
  tcat_generation :: nat
  tcat_definitions :: "ToolDefinition list"
  tcat_validators :: "(string \<times> Value) list"

fun compile_validators ::
    "('z) agent_ext_scheme \<Rightarrow> (string \<times> Value) list \<Rightarrow> ToolDefinition list
      \<Rightarrow> AgentError + (string \<times> Value) list" where
  "compile_validators A vs [] = Inr vs"
| "compile_validators A vs (t # ts) =
     (case ax_schema_error A (td_schema t) of
        Some e \<Rightarrow> Inl (AE_Context (''tool '' @ ax_debug A (td_name t) @ '' has an invalid schema'') (AE_Message e))
      | None \<Rightarrow>
          bindR (require (td_name t \<notin> fst ` set vs)
            (AE_Message (''tool '' @ ax_debug A (td_name t) @ '' appears more than once in the catalog'')))
            (\<lambda>_. compile_validators A (vs @ [(td_name t, td_schema t)]) ts))"

definition catalog_compile :: "('z) agent_ext_scheme \<Rightarrow> ToolCatalogSnapshot \<Rightarrow> AgentError + ToolCatalog" where
  "catalog_compile A snapshot =
     bindR (compile_validators A [] (cs_tools snapshot)) (\<lambda>vs.
     Inr \<lparr>tcat_generation = cs_generation snapshot, tcat_definitions = cs_tools snapshot,
          tcat_validators = vs\<rparr>)"

definition catalog_validate :: "('z) agent_ext_scheme \<Rightarrow> ToolCatalog \<Rightarrow> AgentToolCall \<Rightarrow> AgentError + unit" where
  "catalog_validate A cat call =
     bindR (okOr (AE_Message (''tool '' @ ax_debug A (call_name call) @ '' is unavailable''))
              (map_of (tcat_validators cat) (call_name call))) (\<lambda>schema.
     case ax_argument_error A schema (call_arguments call) of
       None \<Rightarrow> Inr ()
     | Some e \<Rightarrow> Inl (AE_Message (''invalid arguments for tool '' @ ax_debug A (call_name call) @ '': '' @ e)))"

end
