(* ===== verification/AgentBudget.thy ===== *)
theory AgentBudget
  imports AgentTypes
begin

text \<open>
  The context budget, \<open>crates/mews-agent/src/context_budget.rs\<close>: the largest recent suffix of
  the history that begins with a user message and fits the provider's byte limit.
\<close>

section \<open>The code\<close>

definition context_budget_bytes :: "string \<Rightarrow> nat" where
  "context_budget_bytes model =
     (let provider = (if CHR ''/'' \<in> set model then Some (takeWhile (\<lambda>c. c \<noteq> CHR ''/'') model) else None)
      in if provider = Some ''google'' then 2 * 1024 * 1024
         else if provider = Some ''anthropic'' then 640 * 1024
         else if provider = Some ''openai'' \<or> provider = Some ''openai-codex'' then 384 * 1024
         else 256 * 1024)"

text \<open>\<open>usize::MAX\<close> and \<open>usize::saturating_add\<close> of a 64-bit target\<close>

definition usize_max :: nat where
  "usize_max = 2 ^ 64 - 1"

definition saturating_add :: "nat \<Rightarrow> nat \<Rightarrow> nat" where
  "saturating_add a b = min usize_max (a + b)"

fun array_bytes :: "('z) agent_ext_scheme \<Rightarrow> nat \<Rightarrow> ModelMessage list \<Rightarrow> nat" where
  "array_bytes A bytes [] = bytes"
| "array_bytes A bytes (m # ms) =
     array_bytes A (saturating_add (saturating_add bytes (if 2 < bytes then 1 else 0)) (ax_message_bytes A m)) ms"

definition message_array_bytes :: "('z) agent_ext_scheme \<Rightarrow> ModelMessage list \<Rightarrow> nat" where
  "message_array_bytes A ms = array_bytes A 2 ms"

text \<open>
  The loop over the messages from the last to the first: the index of the message that is
  looked at, the bytes of the suffix so far and the start that is retained.
\<close>

fun retained_start ::
    "('z) agent_ext_scheme \<Rightarrow> nat \<Rightarrow> (nat \<times> ModelMessage) list \<Rightarrow> nat \<Rightarrow> nat option \<Rightarrow> nat option" where
  "retained_start A available [] suffix_bytes start = start"
| "retained_start A available ((i, m) # ims) suffix_bytes start =
     (let bytes = saturating_add (if 2 < suffix_bytes then saturating_add suffix_bytes 1 else suffix_bytes)
                    (ax_message_bytes A m)
      in if available < bytes then start
         else retained_start A available ims bytes (if mm_role m = RoleUser then Some i else start))"

definition apply_context_budget :: "('z) agent_ext_scheme \<Rightarrow> ModelRequest \<Rightarrow> AgentError + nat \<times> ModelRequest" where
  "apply_context_budget A r =
     (let limit = context_budget_bytes (mr_model r);
          fixed = ax_fixed_bytes A (mr_model r) (mr_reasoning r) (mr_system r) (mr_tools r)
      in bindR (require (fixed \<le> limit)
           (AE_Message (''fixed model context exceeds the '' @ show_nat limit @ ''-byte input budget''))) (\<lambda>_.
         let available = limit - fixed; msgs = mr_messages r in
         if message_array_bytes A msgs \<le> available then Inr (0, r)
         else case retained_start A available (rev (List.enumerate 0 msgs)) 2 None of
                Some start \<Rightarrow> Inr (start, r\<lparr>mr_messages := drop start msgs\<rparr>)
              | None \<Rightarrow> Inl (AE_Message (''latest model turn exceeds the '' @ show_nat available
                          @ ''-byte history budget''))))"

section \<open>Sizes\<close>

text \<open>The exact size of a JSON array of the messages, without saturation.\<close>

definition exact_bytes :: "('z) agent_ext_scheme \<Rightarrow> ModelMessage list \<Rightarrow> nat" where
  "exact_bytes A ms = 2 + sum_list (map (ax_message_bytes A) ms) + (length ms - 1)"

lemma context_budget_bounds: "context_budget_bytes model < usize_max"
  by (simp add: context_budget_bytes_def usize_max_def Let_def)

lemma saturating_le: "n < usize_max \<Longrightarrow> saturating_add a b \<le> n \<longleftrightarrow> a + b \<le> n"
  by (auto simp: saturating_add_def min_def)

lemma saturating_min: "saturating_add (min usize_max a) b = min usize_max (a + b)"
  by (auto simp: saturating_add_def min_def)

lemma saturating_ge: "a \<le> usize_max \<Longrightarrow> a \<le> saturating_add a b"
  by (simp add: saturating_add_def)

lemma array_bytes_exact:
  assumes "\<And>m. 0 < ax_message_bytes A m"
  shows "2 < bytes \<Longrightarrow> array_bytes A (min usize_max bytes) ms
      = min usize_max (bytes + sum_list (map (ax_message_bytes A) ms) + length ms)"
proof (induction ms arbitrary: bytes)
  case (Cons m ms)
  then have "2 < min usize_max bytes" by (simp add: usize_max_def)
  then have "array_bytes A (min usize_max bytes) (m # ms)
      = array_bytes A (min usize_max (bytes + 1 + ax_message_bytes A m)) ms"
    by (simp add: saturating_min del: One_nat_def)
  also have "\<dots> = min usize_max (bytes + 1 + ax_message_bytes A m
      + sum_list (map (ax_message_bytes A) ms) + length ms)"
    using Cons.prems by (intro Cons.IH) simp
  finally show ?case by (simp add: algebra_simps)
qed simp

lemma message_array_exact:
  assumes "\<And>m. 0 < ax_message_bytes A m"
  shows "message_array_bytes A ms = min usize_max (exact_bytes A ms)"
proof (cases ms)
  case (Cons m ms')
  have "message_array_bytes A ms = array_bytes A (min usize_max (2 + ax_message_bytes A m)) ms'"
    by (simp add: Cons message_array_bytes_def saturating_add_def usize_max_def)
  also have "\<dots> = min usize_max (2 + ax_message_bytes A m
      + sum_list (map (ax_message_bytes A) ms') + length ms')"
    using assms [of m] by (intro array_bytes_exact assms) simp
  finally show ?thesis by (simp add: Cons exact_bytes_def)
qed (simp add: message_array_bytes_def exact_bytes_def usize_max_def)

lemma exact_bytes_Cons:
  "exact_bytes A (m # ms) = exact_bytes A ms + ax_message_bytes A m + (if ms = [] then 0 else 1)"
  by (cases ms) (simp_all add: exact_bytes_def)

lemma exact_bytes_drop: "i \<le> j \<Longrightarrow> exact_bytes A (drop j ms) \<le> exact_bytes A (drop i ms)"
proof (induction ms arbitrary: i j)
  case (Cons m ms)
  show ?case
  proof (cases i)
    case 0
    have "exact_bytes A (drop j (m # ms)) \<le> exact_bytes A (m # ms)"
      using Cons.IH [of 0 "j - 1"] by (cases j) (simp_all add: exact_bytes_Cons)
    with 0 show ?thesis by simp
  next
    case (Suc n)
    with Cons show ?thesis by (cases j) simp_all
  qed
qed simp

section \<open>The retained suffix\<close>

text \<open>
  What the backward loop finds: the first index of a user message from which the suffix fits.
\<close>

definition fits :: "('z) agent_ext_scheme \<Rightarrow> nat \<Rightarrow> ModelMessage list \<Rightarrow> nat \<Rightarrow> bool" where
  "fits A available ms i \<longleftrightarrow> i < length ms \<and> mm_role (ms ! i) = RoleUser
     \<and> exact_bytes A (drop i ms) \<le> available"

lemma retained_start_least:
  assumes "\<And>m. 0 < ax_message_bytes A m" and "available < usize_max" and "k \<le> length ms"
    and "exact_bytes A (drop k ms) \<le> available"
    and "\<forall>i. start = Some i \<longrightarrow> fits A available ms i \<and> k \<le> i"
    and "\<forall>j \<ge> k. fits A available ms j \<longrightarrow> (\<exists>i. start = Some i \<and> i \<le> j)"
    and "retained_start A available (rev (List.enumerate 0 (take k ms))) (exact_bytes A (drop k ms)) start = r"
  shows "(\<forall>i. r = Some i \<longrightarrow> fits A available ms i)
    \<and> (\<forall>j. fits A available ms j \<longrightarrow> (\<exists>i. r = Some i \<and> i \<le> j))"
  using assms(3-)
proof (induction k arbitrary: start)
  case (Suc k)
  let ?m = "ms ! k" and ?b = "exact_bytes A (drop (Suc k) ms)"
  from Suc.prems(1) have k: "k < length ms" and dk: "drop k ms = ?m # drop (Suc k) ms"
    by (simp_all add: Cons_nth_drop_Suc)
  have "take (Suc k) ms = take k ms @ [?m]" using k by (simp add: take_Suc_conv_app_nth)
  then have en: "rev (List.enumerate 0 (take (Suc k) ms)) = (k, ?m) # rev (List.enumerate 0 (take k ms))"
    using k by (simp add: enumerate_append_eq min_def)
  have two: "2 < ?b \<longleftrightarrow> drop (Suc k) ms \<noteq> []"
    using assms(1) by (cases "drop (Suc k) ms") (auto simp: exact_bytes_def intro: trans_less_add1)
  let ?s = "saturating_add (if 2 < ?b then saturating_add ?b 1 else ?b) (ax_message_bytes A ?m)"
  have s: "?s = min usize_max (exact_bytes A (drop k ms))"
    by (auto simp: two dk exact_bytes_Cons saturating_add_def min_def)
  show ?case
  proof (cases "available < ?s")
    case True
    with s have "available < exact_bytes A (drop k ms)" by simp
    then have no: "\<not> fits A available ms j" if "j \<le> k" for j
      using exact_bytes_drop [OF that, of A ms] by (simp add: fits_def)
    from True Suc.prems(5) have "r = start" by (simp add: en)
    with Suc.prems(3,4) no show ?thesis by (metis not_less_eq_eq)
  next
    case False
    with s assms(2) have fit: "exact_bytes A (drop k ms) \<le> available" and s': "?s = exact_bytes A (drop k ms)"
      by (auto simp: min_def split: if_splits)
    let ?st = "if mm_role ?m = RoleUser then Some k else start"
    from False Suc.prems(5) have "retained_start A available (rev (List.enumerate 0 (take k ms)))
        (exact_bytes A (drop k ms)) ?st = r" by (simp add: en s' Let_def)
    moreover have "\<forall>i. ?st = Some i \<longrightarrow> fits A available ms i \<and> k \<le> i"
      using Suc.prems(3) fit k by (auto simp: fits_def)
    moreover have "\<forall>j \<ge> k. fits A available ms j \<longrightarrow> (\<exists>i. ?st = Some i \<and> i \<le> j)"
    proof (intro allI impI)
      fix j assume "k \<le> j" "fits A available ms j"
      then show "\<exists>i. ?st = Some i \<and> i \<le> j"
        using Suc.prems(4) by (cases "j = k") (auto simp: fits_def not_less_eq_eq)
    qed
    ultimately show ?thesis using k fit by (intro Suc.IH) simp_all
  qed
qed auto

lemma retained_start_all:
  assumes "\<And>m. 0 < ax_message_bytes A m" and "available < usize_max"
    and r: "r = retained_start A available (rev (List.enumerate 0 ms)) 2 None"
  shows "(\<forall>i. r = Some i \<longrightarrow> fits A available ms i)
    \<and> (\<forall>j. fits A available ms j \<longrightarrow> (\<exists>i. r = Some i \<and> i \<le> j))"
proof (cases "2 \<le> available")
  case True
  then show ?thesis
    using assms(3) by (intro retained_start_least [OF assms(1,2), where k = "length ms" and start = None])
      (auto simp: exact_bytes_def fits_def)
next
  case False
  have "retained_start A available ims 2 None = None" for ims
    using False by (cases ims) (auto simp: saturating_add_def usize_max_def Let_def)
  moreover have "\<not> fits A available ms j" for j
    using False by (simp add: fits_def exact_bytes_def)
  ultimately show ?thesis by (simp add: r)
qed

end
