(* ===== verification/AgentStream.thy ===== *)
theory AgentStream
  imports AgentBudget
begin

text \<open>
  The outside of the agent loop and the provider stream, from \<open>crates/mews-agent/src/loop.rs\<close>.
  The traits \<open>AgentRuntime\<close> and \<open>Provider\<close>, the cancellation token's other holders and the
  executor are the record \<open>agent_env\<close> of functions over a state \<open>'w\<close> of the outside; every
  call may change that state. A future raced against cancellation is \<open>selected\<close>: either the
  cancellation branch ran or the future's result is there. A stream is the finite list of what
  its polls give. The loop's state keeps, beside the outside, the trace of what it did.
\<close>

section \<open>The outside\<close>

datatype 'a selected = Sel_Cancelled | Sel_Ready 'a

datatype StreamItem = SI_Cancelled | SI_Event "ProviderError + ModelStreamEvent"

record 'w agent_env = agent_ext +
  av_cancelled :: "'w \<Rightarrow> bool"
  av_capability :: "string \<Rightarrow> 'w \<Rightarrow> ContinuationCapability"
  av_stream :: "ModelRequest \<Rightarrow> 'w \<Rightarrow> (ProviderError + StreamItem list) selected \<times> 'w"
  av_tools :: "'w \<Rightarrow> (AgentError + ToolCatalogSnapshot) \<times> 'w"
  av_request :: "ToolDefinition list \<Rightarrow> 'w \<Rightarrow> (AgentError + ModelRequest) \<times> 'w"
  av_execute :: "AgentToolCall \<Rightarrow> 'w \<Rightarrow> (Value list \<times> (AgentError + AgentToolResult) selected) \<times> 'w"
  av_event :: "AgentEvent \<Rightarrow> 'w \<Rightarrow> (AgentError + unit) \<times> 'w"
  av_signal :: "AgentSignal \<Rightarrow> 'w \<Rightarrow> (AgentError + unit) \<times> 'w"
  av_call_started :: "ModelRequest \<Rightarrow> 'w \<Rightarrow> (AgentError + OperationId option) \<times> 'w"
  av_call_finished :: "OperationId \<Rightarrow> ProviderCallOutcome \<Rightarrow> 'w \<Rightarrow> (AgentError + unit) \<times> 'w"
  av_turn_started :: "'w \<Rightarrow> (AgentError + unit) \<times> 'w"
  av_turn_finished :: "'w \<Rightarrow> (AgentError + unit) \<times> 'w"
  av_transform_context :: "ModelRequest \<Rightarrow> 'w \<Rightarrow> (AgentError + ModelRequest) \<times> 'w"
  av_before_model :: "ModelRequest \<Rightarrow> 'w \<Rightarrow> (AgentError + ModelRequest) \<times> 'w"
  av_before_tool :: "AgentToolCall \<Rightarrow> 'w \<Rightarrow> (AgentError + ToolDecision) \<times> 'w"
  av_after_tool :: "AgentToolCall \<Rightarrow> AgentToolResult \<Rightarrow> 'w \<Rightarrow> ((AgentError + unit) \<times> AgentToolResult) \<times> 'w"
  av_steering :: "'w \<Rightarrow> (AgentError + ModelMessage list) \<times> 'w"
  av_follow_ups :: "'w \<Rightarrow> (AgentError + ModelMessage list) \<times> 'w"
  av_prepare_next :: "ModelRequest \<Rightarrow> 'w \<Rightarrow> (AgentError + NextStepUpdate) \<times> 'w"
  av_after_step :: "ModelRequest \<Rightarrow> 'w \<Rightarrow> (AgentError + StepDecision) \<times> 'w"
  av_pick :: "'w \<Rightarrow> nat \<times> 'w" \<comment> \<open>which task the executor polls next\<close>

text \<open>What the loop did to the outside: the calls that returned without an error.\<close>

datatype TraceItem =
  TR_Event AgentEvent
| TR_Signal AgentSignal
| TR_CallStarted ModelRequest "OperationId option"
| TR_Dispatched ModelRequest
| TR_CallFinished OperationId ProviderCallOutcome
| TR_Executed AgentToolCall

record 'w ag =
  ag_world :: 'w
  ag_trace :: "TraceItem list"

type_synonym ('w, 'a) agent = "'w ag \<Rightarrow> (AgentError + 'a) \<times> 'w ag"

section \<open>Sequencing\<close>

named_theorems agent_simps \<open>inversion of the agent's operations\<close>

definition retA :: "'a \<Rightarrow> ('w, 'a) agent" where
  "retA x s = (Inr x, s)"

definition failA :: "AgentError \<Rightarrow> ('w, 'a) agent" where
  "failA e s = (Inl e, s)"

definition bindA :: "('w, 'a) agent \<Rightarrow> ('a \<Rightarrow> ('w, 'b) agent) \<Rightarrow> ('w, 'b) agent" where
  "bindA m f s = (case m s of (Inl e, s') \<Rightarrow> (Inl e, s') | (Inr x, s') \<Rightarrow> f x s')"

definition liftA :: "AgentError + 'a \<Rightarrow> ('w, 'a) agent" where
  "liftA r s = (r, s)"

text \<open>\<open>match m\<close>: the result as a value.\<close>

definition tryA :: "('w, 'a) agent \<Rightarrow> ('w, AgentError + 'a) agent" where
  "tryA m s = (case m s of (r, s') \<Rightarrow> (Inr r, s'))"

text \<open>Reading the outside, and asking it: an answer that is not an error is traced.\<close>

definition readA :: "('w \<Rightarrow> 'a) \<Rightarrow> ('w, 'a) agent" where
  "readA f s = (Inr (f (ag_world s)), s)"

definition askA :: "('w \<Rightarrow> (AgentError + 'a) \<times> 'w) \<Rightarrow> ('a \<Rightarrow> TraceItem list) \<Rightarrow> ('w, 'a) agent" where
  "askA f t s =
     (case f (ag_world s) of
        (Inl e, w) \<Rightarrow> (Inl e, s\<lparr>ag_world := w\<rparr>)
      | (Inr x, w) \<Rightarrow> (Inr x, s\<lparr>ag_world := w, ag_trace := ag_trace s @ t x\<rparr>))"

text \<open>A call that cannot fail.\<close>

definition pollA :: "('w \<Rightarrow> 'a \<times> 'w) \<Rightarrow> TraceItem list \<Rightarrow> ('w, 'a) agent" where
  "pollA f t s = (case f (ag_world s) of
     (x, w) \<Rightarrow> (Inr x, s\<lparr>ag_world := w, ag_trace := ag_trace s @ t\<rparr>))"

fun forA :: "('x \<Rightarrow> 'b \<Rightarrow> ('w, 'b) agent) \<Rightarrow> 'x list \<Rightarrow> 'b \<Rightarrow> ('w, 'b) agent" where
  "forA body [] b = retA b"
| "forA body (x # xs) b = bindA (body x b) (forA body xs)"

lemma bindA_cong [fundef_cong]:
  assumes "m s = m' s'" and "\<And>x t. m' s' = (Inr x, t) \<Longrightarrow> f x t = g x t"
  shows "bindA m f s = bindA m' g s'"
  using assms by (auto simp: bindA_def split: prod.splits sum.splits)

lemma agent_inv [agent_simps]:
  "bindA m f s = (Inr y, s') \<longleftrightarrow> (\<exists>x s1. m s = (Inr x, s1) \<and> f x s1 = (Inr y, s'))"
  "retA a s = (Inr b, s') \<longleftrightarrow> a = b \<and> s = s'"
  "failA e s = (Inr c, s') \<longleftrightarrow> False"
  "liftA r s = (Inr d, s') \<longleftrightarrow> r = Inr d \<and> s = s'"
  "tryA n s = (Inr u, s') \<longleftrightarrow> n s = (u, s')"
  "readA g s = (Inr v, s') \<longleftrightarrow> v = g (ag_world s) \<and> s' = s"
  "pollA h t s = (Inr p, s') \<longleftrightarrow>
     (\<exists>w. h (ag_world s) = (p, w) \<and> s' = s\<lparr>ag_world := w, ag_trace := ag_trace s @ t\<rparr>)"
  "askA q k s = (Inr z, s') \<longleftrightarrow>
     (\<exists>w. q (ag_world s) = (Inr z, w) \<and> s' = s\<lparr>ag_world := w, ag_trace := ag_trace s @ k z\<rparr>)"
  by (auto simp: bindA_def retA_def failA_def liftA_def tryA_def readA_def pollA_def askA_def
      split: prod.splits sum.splits)

definition rt_event :: "('w, 'z) agent_env_scheme \<Rightarrow> AgentEvent \<Rightarrow> ('w, unit) agent" where
  "rt_event env ev = askA (av_event env ev) (\<lambda>_. [TR_Event ev])"

definition rt_signal :: "('w, 'z) agent_env_scheme \<Rightarrow> AgentSignal \<Rightarrow> ('w, unit) agent" where
  "rt_signal env sig = askA (av_signal env sig) (\<lambda>_. [TR_Signal sig])"

section \<open>Provider calls\<close>

definition finish_provider_call ::
    "('w, 'z) agent_env_scheme \<Rightarrow> OperationId option \<Rightarrow> ProviderCallOutcome \<Rightarrow> ('w, unit) agent" where
  "finish_provider_call env operation outcome =
     (case operation of
        None \<Rightarrow> retA ()
      | Some op \<Rightarrow> askA (av_call_finished env op outcome) (\<lambda>_. [TR_CallFinished op outcome]))"

definition provider_error_outcome :: "(string \<Rightarrow> string) \<Rightarrow> ProviderError \<Rightarrow> ProviderCallOutcome" where
  "provider_error_outcome debug e =
     (case e of
        PE_Http _ \<Rightarrow> PO_Uncertain (provider_error_text debug e)
      | PE_InvalidResponse _ \<Rightarrow> PO_Uncertain (provider_error_text debug e)
      | PE_Cancelled \<Rightarrow> PO_Uncertain (provider_error_text debug e)
      | _ \<Rightarrow> PO_Failed (provider_error_text debug e))"

definition full_replay :: "('z) agent_ext_scheme \<Rightarrow> ModelRequest \<Rightarrow> AgentError + ModelRequest" where
  "full_replay A r =
     (let replay = (case mr_continuation r of
            None \<Rightarrow> r
          | Some cursor \<Rightarrow> r\<lparr>mr_continuation := None, mr_messages := cu_fallback_messages cursor\<rparr>)
      in bindR (apply_context_budget A replay) (\<lambda>(_, r'). Inr r'))"

definition start_provider_stream ::
    "('w, 'z) agent_env_scheme \<Rightarrow> ModelRequest \<Rightarrow> ('w, StreamItem list \<times> OperationId option) agent" where
  "start_provider_stream env r =
     bindA (readA (av_cancelled env)) (\<lambda>cancelled.
     if cancelled then failA AE_TurnCancelled
     else
       bindA (askA (av_call_started env r) (\<lambda>op. [TR_CallStarted r op])) (\<lambda>op.
       bindA (pollA (av_stream env r) [TR_Dispatched r]) (\<lambda>sel.
       case sel of
         Sel_Cancelled \<Rightarrow>
           bindA (finish_provider_call env op
                    (PO_Uncertain ''provider call was cancelled after dispatch''))
             (\<lambda>_. failA AE_TurnCancelled)
       | Sel_Ready (Inr items) \<Rightarrow> retA (items, op)
       | Sel_Ready (Inl e) \<Rightarrow>
           bindA (finish_provider_call env op (provider_error_outcome (ax_debug env) e))
             (\<lambda>_. failA (AE_Provider e)))))"

section \<open>The response\<close>

text \<open>The mutable variables of \<open>stream_response\<close>; its cursor flag is an argument of the loop.\<close>

record StreamState =
  ss_operation :: "OperationId option"
  ss_response :: AssistantResponse
  ss_calls :: "AgentToolCall list"
  ss_started :: bool
  ss_observed :: bool
  ss_completed :: bool

definition initial_response :: "ModelRequest \<Rightarrow> AssistantResponse" where
  "initial_response r =
     (let model = mr_model r; split = CHR ''/'' \<in> set model
      in \<lparr>ar_provider = (if split then takeWhile (\<lambda>c. c \<noteq> CHR ''/'') model else ''unknown''),
          ar_model = (if split then tl (dropWhile (\<lambda>c. c \<noteq> CHR ''/'') model) else model),
          ar_api = ''unknown'', ar_response_id = None, ar_blocks = [], ar_usage = None,
          ar_stop_reason = None\<rparr>)"

definition push_block :: "AssistantResponseBlock \<Rightarrow> StreamState \<Rightarrow> StreamState" where
  "push_block b st =
     st\<lparr>ss_response := (ss_response st)\<lparr>ar_blocks := ar_blocks (ss_response st) @ [b]\<rparr>\<rparr>"

text \<open>A text delta extends a text block at the end, or starts one.\<close>

definition push_text :: "string \<Rightarrow> StreamState \<Rightarrow> StreamState" where
  "push_text delta st =
     (let blocks = ar_blocks (ss_response st) in
      if blocks = [] then push_block (AB_Text delta) st
      else case last blocks of
        AB_Text s \<Rightarrow> st\<lparr>ss_response := (ss_response st)\<lparr>ar_blocks := butlast blocks @ [AB_Text (s @ delta)]\<rparr>\<rparr>
      | _ \<Rightarrow> push_block (AB_Text delta) st)"

definition ensure_started :: "('w, 'z) agent_env_scheme \<Rightarrow> StreamState \<Rightarrow> ('w, StreamState) agent" where
  "ensure_started env st =
     (if ss_started st then retA st
      else bindA (rt_signal env SG_AssistantStarted) (\<lambda>_. retA (st\<lparr>ss_started := True\<rparr>)))"

definition premature_end :: "('w, 'z) agent_env_scheme \<Rightarrow> StreamState \<Rightarrow> ('w, 'a) agent" where
  "premature_end env st =
     bindA (finish_provider_call env (ss_operation st)
              (PO_Uncertain ''provider stream ended before response completion''))
       (\<lambda>_. failA (AE_Message ''provider stream ended before response completion''))"

text \<open>One event of the stream; the flag says that the loop ends.\<close>

definition stream_event ::
    "('w, 'z) agent_env_scheme \<Rightarrow> ModelStreamEvent \<Rightarrow> StreamState \<Rightarrow> ('w, StreamState \<times> bool) agent" where
  "stream_event env ev st0 =
     (let st = (case ev of MS_Start \<Rightarrow> st0 | MS_Done \<Rightarrow> st0 | _ \<Rightarrow> st0\<lparr>ss_observed := True\<rparr>) in
      case ev of
        MS_Start \<Rightarrow> bindA (ensure_started env st) (\<lambda>st. retA (st, False))
      | MS_ResponseMetadata provider model api response_id \<Rightarrow>
          retA (st\<lparr>ss_response := (ss_response st)\<lparr>ar_provider := provider, ar_model := model,
                   ar_api := api, ar_response_id := response_id\<rparr>\<rparr>, False)
      | MS_TextDelta delta \<Rightarrow>
          bindA (ensure_started env st) (\<lambda>st.
          bindA (rt_signal env (SG_AssistantTextDelta delta)) (\<lambda>_. retA (push_text delta st, False)))
      | MS_Reasoning txt signature \<Rightarrow> retA (push_block (AB_Reasoning txt signature) st, False)
      | MS_ToolCall i name arguments signature \<Rightarrow>
          bindA (ensure_started env st) (\<lambda>st.
          retA (push_block (AB_ToolCall i name arguments signature)
            (st\<lparr>ss_calls := ss_calls st @ [\<lparr>call_id = i, call_name = name, call_arguments = arguments,
                call_signature = signature, call_generation = 0\<rparr>]\<rparr>), False))
      | MS_ProviderState provider model data \<Rightarrow> retA (push_block (AB_OpaqueState provider model data) st, False)
      | MS_ResponseCompleted usage stop_reason \<Rightarrow>
          retA (st\<lparr>ss_completed := True, ss_response := (ss_response st)\<lparr>ar_usage := usage,
                   ar_stop_reason := stop_reason\<rparr>\<rparr>, False)
      | MS_Done \<Rightarrow> if ss_completed st then retA (st, True) else premature_end env st)"

definition cursor_rejected :: "ProviderError \<Rightarrow> bool" where
  "cursor_rejected e = (case e of PE_CursorRejected _ \<Rightarrow> True | _ \<Rightarrow> False)"

text \<open>
  The loop of \<open>stream_response\<close>. A rejected cursor restarts it on a full replay, once: the
  cursor flag is down from then on.
\<close>

function stream_loop ::
    "('w, 'z) agent_env_scheme \<Rightarrow> ModelRequest \<Rightarrow> bool \<Rightarrow> StreamItem list \<Rightarrow> StreamState
      \<Rightarrow> ('w, StreamState) agent" where
  "stream_loop env r cursor [] st s =
     (if ss_completed st then retA st s else premature_end env st s)"
| "stream_loop env r cursor (SI_Cancelled # items) st s =
     bindA (finish_provider_call env (ss_operation st)
              (PO_Uncertain ''provider call was cancelled after dispatch''))
       (\<lambda>_. failA AE_TurnCancelled) s"
| "stream_loop env r cursor (SI_Event (Inl e) # items) st s =
     bindA (finish_provider_call env (ss_operation st) (provider_error_outcome (ax_debug env) e)) (\<lambda>_.
       if cursor_rejected e \<and> cursor \<and> \<not> ss_observed st
       then bindA (liftA (full_replay env r)) (\<lambda>replay.
            bindA (start_provider_stream env replay) (\<lambda>(items', op).
            stream_loop env r False items' (st\<lparr>ss_operation := op\<rparr>)))
       else failA (AE_Provider e)) s"
| "stream_loop env r cursor (SI_Event (Inr ev) # items) st s =
     bindA (stream_event env ev st) (\<lambda>(st', ended).
       if ended then retA st' else stream_loop env r cursor items st') s"
  by pat_completeness auto
termination
  by (relation "measures [\<lambda>(env, r, cursor, items, st, s). if cursor then 1 else 0,
    \<lambda>(env, r, cursor, items, st, s). length items]") auto

definition rejected_cursor_error :: "AgentError \<Rightarrow> bool" where
  "rejected_cursor_error e = (case error_cause e of AE_Provider p \<Rightarrow> cursor_rejected p | _ \<Rightarrow> False)"

definition stream_response ::
    "('w, 'z) agent_env_scheme \<Rightarrow> ModelRequest \<Rightarrow> ('w, AssistantResponse \<times> AgentToolCall list) agent" where
  "stream_response env r =
     bindA (tryA (start_provider_stream env r)) (\<lambda>initial.
     bindA (case initial of
              Inr (items, op) \<Rightarrow> retA (items, op, mr_continuation r \<noteq> None)
            | Inl e \<Rightarrow>
                if mr_continuation r \<noteq> None \<and> rejected_cursor_error e
                then bindA (liftA (full_replay env r)) (\<lambda>replay.
                     bindA (start_provider_stream env replay) (\<lambda>(items, op). retA (items, op, False)))
                else failA e) (\<lambda>(items, op, cursor).
     bindA (stream_loop env r cursor items
              \<lparr>ss_operation = op, ss_response = initial_response r, ss_calls = [], ss_started = False,
               ss_observed = False, ss_completed = False\<rparr>) (\<lambda>st.
     bindA (finish_provider_call env (ss_operation st) PO_Succeeded) (\<lambda>_.
     retA (ss_response st, ss_calls st)))))"

end
