(* ===== verification/AgentLoop.thy ===== *)
theory AgentLoop
  imports AgentStream
begin

text \<open>
  The agent loop of \<open>crates/mews-agent/src/loop.rs\<close>: preparing and executing a batch of tool
  calls, sequentially or with up to eight at a time, and the steps of a Turn.
\<close>

section \<open>Limits and checks\<close>

definition max_tool_calls_per_step :: nat where
  "max_tool_calls_per_step = 64"

definition max_tool_call_id_bytes :: nat where
  "max_tool_call_id_bytes = 256"

definition max_concurrent_tools :: nat where
  "max_concurrent_tools = 8"

definition default_max_steps :: nat where
  "default_max_steps = 32"

text \<open>The set of identifiers seen so far, as the list of them.\<close>

fun validate_tool_call_ids ::
    "(string \<Rightarrow> string) \<Rightarrow> AgentToolCall list \<Rightarrow> string list \<Rightarrow> string list \<Rightarrow> AgentError + unit" where
  "validate_tool_call_ids debug [] accepted ids = Inr ()"
| "validate_tool_call_ids debug (c # cs) accepted ids =
     bindR (require (call_id c \<noteq> []) (AE_Message ''provider returned a tool call with an empty ID'')) (\<lambda>_.
     bindR (require (length (call_id c) \<le> max_tool_call_id_bytes)
       (AE_Message ''provider returned a tool-call ID longer than 256 bytes'')) (\<lambda>_.
     bindR (require (call_id c \<notin> set accepted \<and> call_id c \<notin> set ids)
       (AE_Message (''provider returned duplicate tool-call ID '' @ debug (call_id c)))) (\<lambda>_.
     validate_tool_call_ids debug cs accepted (call_id c # ids))))"

fun ensure_catalog_tools ::
    "(string \<Rightarrow> string) \<Rightarrow> ToolCatalogSnapshot \<Rightarrow> ToolDefinition list \<Rightarrow> AgentError + unit" where
  "ensure_catalog_tools debug catalog [] = Inr ()"
| "ensure_catalog_tools debug catalog (t # ts) =
     bindR (okOr (AE_Message (''before_model introduced unavailable tool '' @ debug (td_name t)))
              (find (\<lambda>source. td_name source = td_name t) (cs_tools catalog))) (\<lambda>source.
     bindR (require (source = t)
       (AE_Message (''before_model changed the definition of tool '' @ debug (td_name t)))) (\<lambda>_.
     ensure_catalog_tools debug catalog ts))"

section \<open>Preparing a batch\<close>

datatype Prepared = PR_Immediate AgentToolCall AgentToolResult | PR_Execute AgentToolCall

record PrepareState =
  ps_prepared :: "Prepared list"
  ps_terminal_error :: "AgentError option"
  ps_cancelled :: bool

definition cancelled_call :: AgentToolResult where
  "cancelled_call = result_error ''tool call did not start because the Turn was cancelled''"

definition stopped_call :: AgentToolResult where
  "stopped_call = result_error ''tool call did not start because preparation stopped''"

text \<open>The result a failing \<open>before_tool\<close> hook gives its call, and what it does to the batch.\<close>

definition before_tool_failed ::
    "(string \<Rightarrow> string) \<Rightarrow> AgentError \<Rightarrow> PrepareState \<Rightarrow> AgentToolResult \<times> PrepareState" where
  "before_tool_failed debug e ps =
     (case effect_uncertainty e of
        Some reason \<Rightarrow>
          (result_uncertain (''before_tool outcome is uncertain: '' @ reason), ps\<lparr>ps_terminal_error := Some e\<rparr>)
      | None \<Rightarrow>
          if is_turn_cancelled e
          then (result_error ''before_tool was cancelled'', ps\<lparr>ps_terminal_error := Some e, ps_cancelled := True\<rparr>)
          else (result_error (''before_tool failed: '' @ error_chain debug e), ps))"

definition push_prepared :: "Prepared \<Rightarrow> PrepareState \<Rightarrow> PrepareState" where
  "push_prepared p ps = ps\<lparr>ps_prepared := ps_prepared ps @ [p]\<rparr>"

definition prepare_call ::
    "('w, 'z) agent_env_scheme \<Rightarrow> ToolCatalog \<Rightarrow> AgentToolCall \<Rightarrow> PrepareState \<Rightarrow> ('w, PrepareState) agent" where
  "prepare_call env tools call ps =
     bindA (readA (av_cancelled env)) (\<lambda>cancelled.
     if ps_cancelled ps \<or> cancelled
     then retA (push_prepared (PR_Immediate call cancelled_call)
            (ps\<lparr>ps_terminal_error := (case ps_terminal_error ps of None \<Rightarrow> Some AE_TurnCancelled | Some e \<Rightarrow> Some e),
                ps_cancelled := True\<rparr>))
     else if ps_terminal_error ps \<noteq> None
     then retA (push_prepared (PR_Immediate call stopped_call) ps)
     else case catalog_validate env tools call of
       Inl e \<Rightarrow> retA (push_prepared (PR_Immediate call (result_error (error_text (ax_debug env) e))) ps)
     | Inr _ \<Rightarrow>
         bindA (tryA (askA (av_before_tool env call) (\<lambda>_. []))) (\<lambda>decision.
         retA (case decision of
           Inr (TD_Block reason) \<Rightarrow> push_prepared (PR_Immediate call (result_error reason)) ps
         | Inr TD_Allow \<Rightarrow> push_prepared (PR_Execute call) ps
         | Inl e \<Rightarrow> (case before_tool_failed (ax_debug env) e ps of
               (result, ps') \<Rightarrow> push_prepared (PR_Immediate call result) ps'))))"

text \<open>A terminal error of the preparation stops the calls that were let through before it.\<close>

definition stop_prepared :: "PrepareState \<Rightarrow> Prepared list" where
  "stop_prepared ps =
     (if ps_terminal_error ps = None then ps_prepared ps
      else map (\<lambda>p. case p of
          PR_Immediate call result \<Rightarrow> PR_Immediate call result
        | PR_Execute call \<Rightarrow> PR_Immediate call (if ps_cancelled ps then cancelled_call else stopped_call))
        (ps_prepared ps))"

section \<open>Executing a call\<close>

text \<open>
  \<open>execute_prepared\<close> is an asynchronous function: it runs from one await to the next, and what
  it awaits next is its state. A task is done with the value the function returns.
\<close>

datatype Task =
  TK_Ready Prepared
| TK_Executing AgentToolCall
| TK_Executed AgentToolCall AgentToolResult
| TK_Done "AgentError + AgentToolCall \<times> AgentToolResult"

definition report_progress :: "('w, 'z) agent_env_scheme \<Rightarrow> string \<Rightarrow> Value \<Rightarrow> unit \<Rightarrow> ('w, unit) agent" where
  "report_progress env i v _ = bindA (tryA (rt_signal env (SG_ToolProgress i v))) (\<lambda>_. retA ())"

definition execution_result :: "(string \<Rightarrow> string) \<Rightarrow> AgentError + AgentToolResult \<Rightarrow> AgentToolResult" where
  "execution_result debug r =
     (case r of
        Inr result \<Rightarrow> result
      | Inl e \<Rightarrow> (case effect_uncertainty e of
            Some reason \<Rightarrow> result_uncertain reason
          | None \<Rightarrow> result_error (error_text debug e)))"

definition after_event :: "AgentError + unit \<Rightarrow> Task \<Rightarrow> Task" where
  "after_event r t = (case r of Inl e \<Rightarrow> TK_Done (Inl e) | Inr _ \<Rightarrow> t)"

fun task_step :: "('w, 'z) agent_env_scheme \<Rightarrow> Task \<Rightarrow> ('w, Task) agent" where
  "task_step env (TK_Ready (PR_Immediate call result)) = retA (TK_Done (Inr (call, result)))"
| "task_step env (TK_Ready (PR_Execute call)) =
     bindA (tryA (rt_event env (AV_ToolExecutionStarted call))) (\<lambda>r. retA (after_event r (TK_Executing call)))"
| "task_step env (TK_Executing call) =
     bindA (pollA (av_execute env call) [TR_Executed call]) (\<lambda>(progress, sel).
     bindA (forA (report_progress env (call_id call)) progress ()) (\<lambda>_.
     retA (case sel of
       Sel_Cancelled \<Rightarrow> TK_Done (Inl AE_TurnCancelled)
     | Sel_Ready r \<Rightarrow> TK_Executed call (execution_result (ax_debug env) r))))"
| "task_step env (TK_Executed call result) =
     bindA (tryA (rt_event env (AV_ToolExecutionCompleted call result)))
       (\<lambda>r. retA (after_event r (TK_Done (Inr (call, result)))))"
| "task_step env (TK_Done r) = retA (TK_Done r)"

fun task_rank :: "Task \<Rightarrow> nat" where
  "task_rank (TK_Ready _) = 3"
| "task_rank (TK_Executing _) = 2"
| "task_rank (TK_Executed _ _) = 1"
| "task_rank (TK_Done _) = 0"

fun task_done :: "Task \<Rightarrow> bool" where
  "task_done (TK_Done _) = True"
| "task_done _ = False"

lemma task_done_rank: "task_done t \<longleftrightarrow> task_rank t = 0"
  by (cases t) simp_all

lemma task_step_decreases:
  assumes "task_step env t s = (Inr t', s')" and "\<not> task_done t"
  shows "task_rank t' < task_rank t"
proof (cases t)
  case (TK_Ready p)
  then show ?thesis using assms
    by (cases p) (auto simp: agent_simps after_event_def split: sum.split)
qed (use assms in \<open>auto simp: agent_simps after_event_def split: sum.split selected.split\<close>)

section \<open>The two ways to run a batch\<close>

text \<open>One task polled to its end: \<open>execute_prepared(..).await\<close>.\<close>

function run_task :: "('w, 'z) agent_env_scheme \<Rightarrow> Task \<Rightarrow> ('w, AgentError + AgentToolCall \<times> AgentToolResult) agent" where
  "run_task env t s =
     (case t of
        TK_Done r \<Rightarrow> retA r s
      | _ \<Rightarrow> bindA (task_step env t) (run_task env) s)"
  by pat_completeness auto
termination
  by (relation "measure (\<lambda>(env, t, s). task_rank t)") (auto simp del: task_step.simps dest: task_step_decreases)

declare run_task.simps [simp del]

definition execute_prepared ::
    "('w, 'z) agent_env_scheme \<Rightarrow> Prepared \<Rightarrow> ('w, AgentError + AgentToolCall \<times> AgentToolResult) agent" where
  "execute_prepared env p = run_task env (TK_Ready p)"

record BatchOutcome =
  bo_completed :: "(AgentToolCall \<times> AgentToolResult) list"
  bo_terminal_error :: "AgentError option"

fun run_sequential ::
    "('w, 'z) agent_env_scheme \<Rightarrow> Prepared list \<Rightarrow> BatchOutcome \<Rightarrow> ('w, BatchOutcome) agent" where
  "run_sequential env [] b = retA b"
| "run_sequential env (p # ps) b =
     bindA (execute_prepared env p) (\<lambda>r.
     case r of
       Inl e \<Rightarrow> retA (b\<lparr>bo_terminal_error := Some e\<rparr>)
     | Inr cr \<Rightarrow> run_sequential env ps (b\<lparr>bo_completed := bo_completed b @ [cr]\<rparr>))"

text \<open>
  \<open>buffered(8)\<close>: the finished tasks at the front are handed over, and of the eight after them
  the executor polls one that is not finished.
\<close>

definition runnable :: "Task list \<Rightarrow> nat list" where
  "runnable ts =
     (let front = length (takeWhile task_done ts)
      in filter (\<lambda>i. \<not> task_done (ts ! i)) [front..<min (length ts) (front + max_concurrent_tools)])"

definition chosen :: "Task list \<Rightarrow> nat \<Rightarrow> nat" where
  "chosen ts k = runnable ts ! (k mod length (runnable ts))"

function run_buffered :: "('w, 'z) agent_env_scheme \<Rightarrow> Task list \<Rightarrow> ('w, Task list) agent" where
  "run_buffered env ts s =
     (if runnable ts = [] then retA ts s
      else bindA (pollA (av_pick env) []) (\<lambda>k.
        bindA (task_step env (ts ! chosen ts k)) (\<lambda>t. run_buffered env (ts[chosen ts k := t]))) s)"
  by pat_completeness auto

lemma chosen_runnable:
  assumes "runnable ts \<noteq> []"
  shows "chosen ts k < length ts" and "\<not> task_done (ts ! chosen ts k)"
proof -
  have "chosen ts k \<in> set (runnable ts)" using assms by (simp add: chosen_def)
  then show "chosen ts k < length ts" "\<not> task_done (ts ! chosen ts k)"
    by (auto simp: runnable_def Let_def)
qed

lemma sum_list_update_less:
  fixes xs :: "nat list"
  assumes "i < length xs" and "x < xs ! i"
  shows "sum_list (xs[i := x]) < sum_list xs"
  using assms
proof (induction xs arbitrary: i)
  case (Cons a xs)
  then show ?case by (cases i) simp_all
qed simp

termination run_buffered
proof (relation "measure (\<lambda>(env, ts, s). sum_list (map task_rank ts))", goal_cases)
  case (2 env ts s k s1 t s2)
  then show ?case
    using task_step_decreases [OF 2(3) chosen_runnable(2) [OF 2(1)]] chosen_runnable(1) [OF 2(1)]
    by (simp add: map_update sum_list_update_less)
qed simp

declare run_buffered.simps [simp del]

text \<open>\<open>collect\<close>, then the outcomes in call order: the first error is kept.\<close>

fun gather :: "Task list \<Rightarrow> BatchOutcome \<Rightarrow> BatchOutcome" where
  "gather [] b = b"
| "gather (TK_Done (Inr cr) # ts) b = gather ts (b\<lparr>bo_completed := bo_completed b @ [cr]\<rparr>)"
| "gather (TK_Done (Inl e) # ts) b =
     gather ts (if bo_terminal_error b = None then b\<lparr>bo_terminal_error := Some e\<rparr> else b)"
| "gather (t # ts) b = gather ts b"

definition run_batch ::
    "('w, 'z) agent_env_scheme \<Rightarrow> AgentLoopConfig \<Rightarrow> Prepared list \<Rightarrow> AgentError option \<Rightarrow> ('w, BatchOutcome) agent" where
  "run_batch env cfg prepared terminal_error =
     (let b = \<lparr>bo_completed = [], bo_terminal_error = terminal_error\<rparr> in
      case lc_tool_execution cfg of
        Sequential \<Rightarrow> run_sequential env prepared b
      | Parallel \<Rightarrow> bindA (run_buffered env (map TK_Ready prepared)) (\<lambda>ts. retA (gather ts b)))"

definition prepare_and_execute ::
    "('w, 'z) agent_env_scheme \<Rightarrow> AgentLoopConfig \<Rightarrow> ToolCatalog \<Rightarrow> AgentToolCall list \<Rightarrow> ('w, BatchOutcome) agent" where
  "prepare_and_execute env cfg tools calls =
     bindA (forA (prepare_call env tools) calls
              \<lparr>ps_prepared = [], ps_terminal_error = None, ps_cancelled = False\<rparr>) (\<lambda>ps.
     run_batch env cfg (stop_prepared ps) (ps_terminal_error ps))"

end
