(* ===== verification/AgentSteps.thy ===== *)
theory AgentSteps
  imports AgentLoop
begin

text \<open>
  The steps of a Turn, \<open>execute_turn_inner\<close> of \<open>crates/mews-agent/src/loop.rs\<close>: one model
  response and its batch of tools per step, and the ways a Turn ends.
\<close>

section \<open>The request\<close>

definition inject ::
    "('w, 'z) agent_env_scheme \<Rightarrow> ModelRequest \<Rightarrow> ModelMessage list \<Rightarrow> ('w, ModelRequest) agent" where
  "inject env r msgs =
     forA (\<lambda>m r. bindA (rt_event env (AV_MessageInjected m))
                  (\<lambda>_. retA (r\<lparr>mr_messages := mr_messages r @ [m]\<rparr>))) msgs r"

definition apply_update :: "ModelRequest \<Rightarrow> NextStepUpdate \<Rightarrow> ModelRequest" where
  "apply_update r u =
     (let r = (case nu_model u of Some m \<Rightarrow> r\<lparr>mr_model := m\<rparr> | None \<Rightarrow> r);
          r = (case nu_reasoning u of Some e \<Rightarrow> r\<lparr>mr_reasoning := e\<rparr> | None \<Rightarrow> r)
      in (case nu_system u of Some s \<Rightarrow> r\<lparr>mr_system := s\<rparr> | None \<Rightarrow> r))"

record LoopState =
  lp_catalog :: ToolCatalogSnapshot
  lp_request :: ModelRequest
  lp_accepted :: "string list"

definition start_request :: "('w, 'z) agent_env_scheme \<Rightarrow> ('w, LoopState) agent" where
  "start_request env =
     bindA (askA (av_tools env) (\<lambda>_. [])) (\<lambda>catalog.
     bindA (askA (av_request env (cs_tools catalog)) (\<lambda>_. [])) (\<lambda>r.
     bindA (case mr_continuation r of
              None \<Rightarrow> retA r
            | Some cursor \<Rightarrow>
                bindA (readA (av_capability env (mr_model r))) (\<lambda>capability.
                retA (if capability = CC_ResponseId (cu_provider cursor) (cu_api cursor) then r
                      else r\<lparr>mr_continuation := None, mr_messages := cu_fallback_messages cursor\<rparr>)))
       (\<lambda>r. retA \<lparr>lp_catalog = catalog, lp_request = r, lp_accepted = []\<rparr>)))"

definition refresh_tools :: "('w, 'z) agent_env_scheme \<Rightarrow> nat \<Rightarrow> LoopState \<Rightarrow> ('w, LoopState) agent" where
  "refresh_tools env step st =
     (if 0 < step
      then bindA (askA (av_tools env) (\<lambda>_. [])) (\<lambda>catalog.
           retA (st\<lparr>lp_catalog := catalog, lp_request := (lp_request st)\<lparr>mr_tools := cs_tools catalog\<rparr>\<rparr>))
      else retA st)"

definition prepare_request ::
    "('w, 'z) agent_env_scheme \<Rightarrow> nat \<Rightarrow> LoopState \<Rightarrow> ('w, LoopState \<times> ToolCatalog) agent" where
  "prepare_request env step st =
     bindA (readA (av_cancelled env)) (\<lambda>cancelled.
     if cancelled then failA AE_TurnCancelled
     else
       bindA (refresh_tools env step st) (\<lambda>st.
       bindA (askA (av_steering env) (\<lambda>_. [])) (\<lambda>msgs.
       bindA (inject env (lp_request st) msgs) (\<lambda>r.
       bindA (askA (av_transform_context env r) (\<lambda>_. [])) (\<lambda>r.
       bindA (askA (av_before_model env r) (\<lambda>_. [])) (\<lambda>r.
       bindA (liftA (apply_context_budget env r)) (\<lambda>(_, r).
       bindA (liftA (ensure_catalog_tools (ax_debug env) (lp_catalog st) (mr_tools r))) (\<lambda>_.
       bindA (liftA (catalog_compile env
                \<lparr>cs_generation = cs_generation (lp_catalog st), cs_tools = mr_tools r\<rparr>)) (\<lambda>tools.
       retA (st\<lparr>lp_request := r\<rparr>, tools))))))))))"

section \<open>The response\<close>

definition block_message :: "AssistantResponseBlock \<Rightarrow> ModelMessage option" where
  "block_message b =
     (case b of
        AB_Text txt \<Rightarrow> Some \<lparr>mm_role = RoleAssistant, mm_content = MC_Text txt\<rparr>
      | AB_ToolCall i tool arguments signature \<Rightarrow>
          Some \<lparr>mm_role = RoleAssistant, mm_content = MC_ToolCall i tool arguments signature\<rparr>
      | AB_OpaqueState provider model data \<Rightarrow>
          Some \<lparr>mm_role = RoleAssistant, mm_content = MC_ProviderState provider model data\<rparr>
      | AB_Reasoning _ _ \<Rightarrow> None)"

fun text_of_block :: "AssistantResponseBlock \<Rightarrow> string" where
  "text_of_block (AB_Text txt) = txt"
| "text_of_block _ = []"

definition agent_response_text :: "AssistantResponse \<Rightarrow> string" where
  "agent_response_text resp = concat (map text_of_block (ar_blocks resp))"

definition check_calls :: "(string \<Rightarrow> string) \<Rightarrow> AgentToolCall list \<Rightarrow> string list \<Rightarrow> AgentError + unit" where
  "check_calls debug calls accepted =
     bindR (require (length calls \<le> max_tool_calls_per_step)
       (AE_Message (''provider returned '' @ show_nat (length calls)
          @ '' tool calls; the per-step limit is '' @ show_nat max_tool_calls_per_step))) (\<lambda>_.
     validate_tool_call_ids debug calls accepted [])"

definition accept_response ::
    "('w, 'z) agent_env_scheme \<Rightarrow> ToolCatalog \<Rightarrow> AssistantResponse \<Rightarrow> AgentToolCall list \<Rightarrow> LoopState
      \<Rightarrow> ('w, LoopState \<times> AgentToolCall list) agent" where
  "accept_response env tools resp calls0 st =
     bindA (liftA (check_calls (ax_debug env) calls0 (lp_accepted st))) (\<lambda>_.
     let calls = map (\<lambda>c. c\<lparr>call_generation := tcat_generation tools\<rparr>) calls0;
         r = lp_request st;
         r' = r\<lparr>mr_continuation := None,
                mr_messages := mr_messages r @ List.map_filter block_message (ar_blocks resp)\<rparr>
     in if agent_response_text resp = [] \<and> calls = []
        then failA (AE_Message ''provider returned an empty assistant response'')
        else bindA (rt_event env (AV_AssistantResponse resp calls)) (\<lambda>_.
             retA (st\<lparr>lp_request := r', lp_accepted := lp_accepted st @ map call_id calls\<rparr>, calls)))"

section \<open>The results\<close>

record RecordState =
  rs_request :: ModelRequest
  rs_completed :: "(AgentToolCall \<times> AgentToolResult) list"
  rs_terminal_error :: "AgentError option"

definition result_message :: "AgentToolCall \<Rightarrow> AgentToolResult \<Rightarrow> ModelMessage" where
  "result_message call result =
     \<lparr>mm_role = RoleTool,
      mm_content = MC_ToolResult (call_id call) (call_name call) (res_value result) (res_is_error result)
        (res_uncertain result)\<rparr>"

definition after_tool_failed :: "(string \<Rightarrow> string) \<Rightarrow> AgentError \<Rightarrow> AgentToolResult" where
  "after_tool_failed debug e =
     (case effect_uncertainty e of
        Some reason \<Rightarrow> result_uncertain (''after_tool outcome is uncertain: '' @ reason)
      | None \<Rightarrow> result_error (''after_tool failed: '' @ error_chain debug e))"

definition record_result ::
    "('w, 'z) agent_env_scheme \<Rightarrow> AgentToolCall \<times> AgentToolResult \<Rightarrow> RecordState \<Rightarrow> ('w, RecordState) agent" where
  "record_result env = (\<lambda>(call, result0) rs.
     bindA (pollA (av_after_tool env call result0) []) (\<lambda>(outcome, result).
     let rs = rs\<lparr>rs_completed := rs_completed rs @ [(call, result)]\<rparr> in
     case outcome of
       Inl e \<Rightarrow>
         bindA (rt_event env (AV_ToolResultRecorded call (after_tool_failed (ax_debug env) e))) (\<lambda>_.
         retA (rs\<lparr>rs_terminal_error :=
                 (case rs_terminal_error rs of None \<Rightarrow> Some e | Some e' \<Rightarrow> Some e')\<rparr>))
     | Inr _ \<Rightarrow>
         bindA (rt_event env (AV_ToolResultRecorded call result)) (\<lambda>_.
         retA (rs\<lparr>rs_request := (rs_request rs)\<lparr>mr_messages :=
                 mr_messages (rs_request rs) @ [result_message call result]\<rparr>\<rparr>))))"

section \<open>A step\<close>

datatype StepResult = SR_Finished string | SR_Next LoopState

definition uncertain_reason :: "(AgentToolCall \<times> AgentToolResult) list \<Rightarrow> string option" where
  "uncertain_reason completed =
     map_option (\<lambda>(_, result). case value_as_str (res_value result) of
          Some s \<Rightarrow> s | None \<Rightarrow> ''tool outcome is uncertain'')
       (find (\<lambda>(_, result). res_uncertain result) completed)"

definition after_step ::
    "('w, 'z) agent_env_scheme \<Rightarrow> ModelRequest \<Rightarrow> (AgentToolCall \<times> AgentToolResult) list
      \<Rightarrow> ('w, StepDecision) agent" where
  "after_step env r completed =
     bindA (tryA (askA (av_after_step env r) (\<lambda>_. []))) (\<lambda>decision.
     case uncertain_reason completed of
       Some reason \<Rightarrow> failA (case decision of
           Inr _ \<Rightarrow> AE_Uncertain reason
         | Inl e \<Rightarrow> AE_Context (''after_step also failed after the uncertain effect: ''
                     @ error_chain (ax_debug env) e) (AE_Uncertain reason))
     | None \<Rightarrow> liftA decision)"

definition next_step ::
    "('w, 'z) agent_env_scheme \<Rightarrow> string \<Rightarrow> (AgentToolCall \<times> AgentToolResult) list \<Rightarrow> LoopState
      \<Rightarrow> ('w, StepResult) agent" where
  "next_step env final completed st =
     bindA (askA (av_prepare_next env (lp_request st)) (\<lambda>_. [])) (\<lambda>update.
     let r = apply_update (lp_request st) update in
     if completed = []
     then bindA (askA (av_follow_ups env) (\<lambda>_. [])) (\<lambda>msgs.
          if msgs = [] then retA (SR_Finished final)
          else bindA (inject env r msgs) (\<lambda>r. retA (SR_Next (st\<lparr>lp_request := r\<rparr>))))
     else retA (SR_Next (st\<lparr>lp_request := r\<rparr>)))"

definition run_tools ::
    "('w, 'z) agent_env_scheme \<Rightarrow> AgentLoopConfig \<Rightarrow> ToolCatalog \<Rightarrow> AgentToolCall list \<Rightarrow> LoopState
      \<Rightarrow> ('w, RecordState) agent" where
  "run_tools env cfg tools calls st =
     bindA (prepare_and_execute env cfg tools calls) (\<lambda>batch.
     bindA (forA (record_result env) (bo_completed batch)
              \<lparr>rs_request = lp_request st, rs_completed = [],
               rs_terminal_error = bo_terminal_error batch\<rparr>) (\<lambda>rs.
     case rs_terminal_error rs of Some e \<Rightarrow> failA e | None \<Rightarrow> retA rs))"

text \<open>The end of a step, and what follows a response.\<close>

definition conclude ::
    "('w, 'z) agent_env_scheme \<Rightarrow> string \<Rightarrow> LoopState \<Rightarrow> RecordState \<Rightarrow> ('w, StepResult) agent" where
  "conclude env final st rs =
     bindA (after_step env (rs_request rs) (rs_completed rs)) (\<lambda>decision.
     if (\<exists>(call, result) \<in> set (rs_completed rs). res_terminate result) \<or> decision = SD_Stop
     then retA (SR_Finished final)
     else next_step env final (rs_completed rs) (st\<lparr>lp_request := rs_request rs\<rparr>))"

definition handle_response ::
    "('w, 'z) agent_env_scheme \<Rightarrow> AgentLoopConfig \<Rightarrow> ToolCatalog \<Rightarrow> LoopState
      \<Rightarrow> AssistantResponse \<times> AgentToolCall list \<Rightarrow> ('w, StepResult) agent" where
  "handle_response env cfg tools st0 = (\<lambda>(resp, calls0).
     bindA (accept_response env tools resp calls0 st0) (\<lambda>(st, calls).
     bindA (run_tools env cfg tools calls st) (conclude env (agent_response_text resp) st)))"

definition agent_step ::
    "('w, 'z) agent_env_scheme \<Rightarrow> AgentLoopConfig \<Rightarrow> nat \<Rightarrow> LoopState \<Rightarrow> ('w, StepResult) agent" where
  "agent_step env cfg step st0 =
     bindA (prepare_request env step st0) (\<lambda>(st, tools).
     bindA (stream_response env (lp_request st)) (handle_response env cfg tools st))"

section \<open>A Turn\<close>

text \<open>The steps that are left of \<open>max_steps\<close>.\<close>

fun agent_steps ::
    "('w, 'z) agent_env_scheme \<Rightarrow> AgentLoopConfig \<Rightarrow> nat \<Rightarrow> LoopState \<Rightarrow> ('w, string) agent" where
  "agent_steps env cfg 0 st =
     failA (AE_Context ''model/tool loop did not finish''
       (AE_Message (''agent exceeded '' @ show_nat (lc_max_steps cfg) @ '' model steps'')))"
| "agent_steps env cfg (Suc n) st =
     bindA (agent_step env cfg (lc_max_steps cfg - Suc n) st) (\<lambda>result.
     case result of SR_Finished answer \<Rightarrow> retA answer | SR_Next st' \<Rightarrow> agent_steps env cfg n st')"

definition execute_turn_inner :: "('w, 'z) agent_env_scheme \<Rightarrow> AgentLoopConfig \<Rightarrow> ('w, string) agent" where
  "execute_turn_inner env cfg =
     bindA (start_request env) (\<lambda>st. agent_steps env cfg (lc_max_steps cfg) st)"

definition execute_turn_with_config :: "('w, 'z) agent_env_scheme \<Rightarrow> AgentLoopConfig \<Rightarrow> ('w, string) agent" where
  "execute_turn_with_config env cfg =
     bindA (tryA (bindA (askA (av_turn_started env) (\<lambda>_. [])) (\<lambda>_. execute_turn_inner env cfg))) (\<lambda>outcome.
     bindA (tryA (askA (av_turn_finished env) (\<lambda>_. []))) (\<lambda>ended.
     liftA (case (outcome, ended) of
        (Inl e, _) \<Rightarrow> Inl e
      | (Inr _, Inl e) \<Rightarrow> Inl e
      | (Inr answer, Inr _) \<Rightarrow> Inr answer)))"

definition execute_turn :: "('w, 'z) agent_env_scheme \<Rightarrow> nat \<Rightarrow> ('w, string) agent" where
  "execute_turn env max_steps =
     execute_turn_with_config env \<lparr>lc_max_steps = max_steps, lc_tool_execution = Parallel\<rparr>"

end
