(* ===== verification/AgentTrace.thy ===== *)
theory AgentTrace
  imports AgentSteps
begin

text \<open>
  A logic for the trace of the agent's operations: \<open>emits m Q\<close> says that from every state,
  whatever the outside answers, the trace grows by items that satisfy \<open>Q\<close> together with the
  result, an error or a value. One rule per way of sequencing operations, in the form of a
  weakest precondition. Then the items of the trace that the properties speak of.
\<close>

section \<open>The logic\<close>

definition emits :: "('w, 'a) agent \<Rightarrow> (AgentError + 'a \<Rightarrow> TraceItem list \<Rightarrow> bool) \<Rightarrow> bool" where
  "emits m Q \<longleftrightarrow> (\<forall>s. \<exists>n. ag_trace (snd (m s)) = ag_trace s @ n \<and> Q (fst (m s)) n)"

named_theorems emits_intros \<open>rules for \<open>emits\<close>\<close>

lemma emits_mono:
  assumes "emits m P" and "\<And>r n. P r n \<Longrightarrow> Q r n"
  shows "emits m Q"
  using assms unfolding emits_def by meson

lemma emits_apply:
  assumes "emits m Q" and "m s = (r, s')"
  obtains n where "ag_trace s' = ag_trace s @ n" and "Q r n"
  using assms unfolding emits_def by (metis fst_conv snd_conv)

lemma emits_retA [emits_intros]: "Q (Inr x) [] \<Longrightarrow> emits (retA x) Q"
  by (simp add: emits_def retA_def)

lemma emits_failA [emits_intros]: "Q (Inl e) [] \<Longrightarrow> emits (failA e) Q"
  by (simp add: emits_def failA_def)

lemma emits_liftA [emits_intros]: "Q r [] \<Longrightarrow> emits (liftA r) Q"
  by (simp add: emits_def liftA_def)

lemma emits_readA [emits_intros]: "(\<And>x. Q (Inr x) []) \<Longrightarrow> emits (readA f) Q"
  by (simp add: emits_def readA_def)

lemma emits_pollA [emits_intros]: "(\<And>x. Q (Inr x) t) \<Longrightarrow> emits (pollA f t) Q"
  by (simp add: emits_def pollA_def split: prod.split)

lemma emits_askA [emits_intros]:
  assumes "\<And>e. Q (Inl e) []" and "\<And>x. Q (Inr x) (k x)"
  shows "emits (askA f k) Q"
  using assms by (simp add: emits_def askA_def split: prod.split sum.split)

lemma emits_tryA [emits_intros]: "emits m (\<lambda>r. Q (Inr r)) \<Longrightarrow> emits (tryA m) Q"
  by (auto simp: emits_def tryA_def split: prod.split) (metis fst_conv snd_conv)

lemma emits_bindA:
  assumes m: "emits m (\<lambda>r n. case r of Inl e \<Rightarrow> Q (Inl e) n
    | Inr x \<Rightarrow> emits (f x) (\<lambda>r' n'. Q r' (n @ n')))"
  shows "emits (bindA m f) Q"
  unfolding emits_def
proof
  fix s
  obtain r s1 where ms: "m s = (r, s1)" by fastforce
  with m obtain n where n: "ag_trace s1 = ag_trace s @ n"
    and Q: "case r of Inl e \<Rightarrow> Q (Inl e) n | Inr x \<Rightarrow> emits (f x) (\<lambda>r' n'. Q r' (n @ n'))"
    by (rule emits_apply)
  show "\<exists>n. ag_trace (snd (bindA m f s)) = ag_trace s @ n \<and> Q (fst (bindA m f s)) n"
  proof (cases r)
    case (Inr x)
    obtain r2 s2 where fs: "f x s1 = (r2, s2)" by fastforce
    from Q Inr have "emits (f x) (\<lambda>r' n'. Q r' (n @ n'))" by simp
    then obtain n' where "ag_trace s2 = ag_trace s1 @ n'" and "Q r2 (n @ n')"
      using fs by (rule emits_apply)
    then show ?thesis using ms fs n Inr by (simp add: bindA_def)
  qed (use ms n Q in \<open>simp add: bindA_def\<close>)
qed

text \<open>The usual case: a specification of the first operation is at hand.\<close>

lemma emits_bind:
  assumes "emits m P" and "\<And>e n. P (Inl e) n \<Longrightarrow> Q (Inl e) n"
    and "\<And>x n. P (Inr x) n \<Longrightarrow> emits (f x) (\<lambda>r' n'. Q r' (n @ n'))"
  shows "emits (bindA m f) Q"
  by (rule emits_bindA, rule emits_mono [OF assms(1)]) (auto split: sum.split intro: assms(2,3))

text \<open>What every value satisfies may be added to a specification.\<close>

lemma emits_value:
  assumes "emits m Q" and "\<And>s x s'. m s = (Inr x, s') \<Longrightarrow> R x"
  shows "emits m (\<lambda>r n. Q r n \<and> (\<forall>x. r = Inr x \<longrightarrow> R x))"
  using assms unfolding emits_def by (metis prod.collapse)

lemma emits_forA:
  assumes step: "\<And>x ys b n. J (x # ys) b n \<Longrightarrow>
      emits (body x b) (\<lambda>r n'. case r of Inl e \<Rightarrow> Q (Inl e) (n @ n') | Inr b' \<Rightarrow> J ys b' (n @ n'))"
    and stop: "\<And>b n. J [] b n \<Longrightarrow> Q (Inr b) n"
    and start: "J xs b []"
  shows "emits (forA body xs b) Q"
proof -
  have "emits (forA body xs b) (\<lambda>r n'. Q r (n @ n'))" if "J xs b n" for n
    using that
  proof (induction xs arbitrary: b n)
    case Nil
    then show ?case by (simp add: emits_retA stop)
  next
    case (Cons x xs)
    show ?case
      unfolding forA.simps
      by (rule emits_bind [OF step [OF Cons.prems]]) (auto dest!: Cons.IH)
  qed
  from this [OF start] show ?thesis by simp
qed

section \<open>Items of one kind\<close>

definition only :: "(TraceItem \<Rightarrow> bool) \<Rightarrow> ('w, 'a) agent \<Rightarrow> bool" where
  "only A m \<longleftrightarrow> emits m (\<lambda>_ n. list_all A n)"

named_theorems only_intros \<open>rules for \<open>only\<close>\<close>

lemma only_basic [only_intros]:
  "only A (retA x)" "only A (failA e)" "only A (liftA r)" "only A (readA g)"
  "list_all A t \<Longrightarrow> only A (pollA h t)"
  "(\<And>x. list_all A (k x)) \<Longrightarrow> only A (askA q k)"
  by (auto simp: only_def intro!: emits_intros)

lemma only_tryA [only_intros]: "only A m \<Longrightarrow> only A (tryA m)"
  unfolding only_def by (rule emits_tryA)

lemma only_bindA [only_intros]:
  assumes "only A m" and "\<And>x. only A (f x)"
  shows "only A (bindA m f)"
  unfolding only_def
  by (rule emits_bind [OF assms(1) [unfolded only_def]])
    (auto intro: emits_mono [OF assms(2) [unfolded only_def]])

lemma only_forA [only_intros]:
  assumes "\<And>x b. only A (body x b)"
  shows "only A (forA body xs b)"
  by (induction xs arbitrary: b) (auto intro: only_intros assms)

lemma only_mono: "only A m \<Longrightarrow> (\<And>t. A t \<Longrightarrow> B t) \<Longrightarrow> only B m"
  unfolding only_def by (erule emits_mono) (simp add: list_all_iff)

lemma only_emits:
  assumes "only A m" and "\<And>r n. list_all A n \<Longrightarrow> Q r n"
  shows "emits m Q"
  using assms emits_mono unfolding only_def by metis

section \<open>What the properties read off a trace\<close>

text \<open>The responses and the results, as a reader of the Turn's record sees them.\<close>

datatype LogItem = LG_Response "AgentToolCall list" | LG_Result AgentToolCall

fun log_item :: "TraceItem \<Rightarrow> LogItem list" where
  "log_item (TR_Event (AV_AssistantResponse _ calls)) = [LG_Response calls]"
| "log_item (TR_Event (AV_ToolResultRecorded call _)) = [LG_Result call]"
| "log_item _ = []"

definition conversation :: "TraceItem list \<Rightarrow> LogItem list" where
  "conversation tr = concat (map log_item tr)"

text \<open>The calls whose tools ran.\<close>

fun executed_item :: "TraceItem \<Rightarrow> AgentToolCall list" where
  "executed_item (TR_Executed call) = [call]"
| "executed_item _ = []"

definition executed :: "TraceItem list \<Rightarrow> AgentToolCall list" where
  "executed tr = concat (map executed_item tr)"

text \<open>
  The provider calls: the operation that is open after the trace, none when an operation is
  started while another is open, or finished that is not open.
\<close>

fun open_call :: "OperationId option \<Rightarrow> TraceItem list \<Rightarrow> OperationId option option" where
  "open_call p [] = Some p"
| "open_call p (TR_CallStarted _ op # tr) = (if p = None then open_call op tr else None)"
| "open_call p (TR_CallFinished op _ # tr) = (if p = Some op then open_call None tr else None)"
| "open_call p (_ # tr) = open_call p tr"

fun is_dispatch :: "TraceItem \<Rightarrow> bool" where
  "is_dispatch (TR_Dispatched _) = True"
| "is_dispatch _ = False"

definition dispatches :: "TraceItem list \<Rightarrow> nat" where
  "dispatches tr = length (filter is_dispatch tr)"

lemma trace_append [simp]:
  "conversation (a @ b) = conversation a @ conversation b"
  "executed (c @ d) = executed c @ executed d"
  "dispatches (e @ f) = dispatches e + dispatches f"
  "conversation [] = []" "executed [] = []" "dispatches [] = 0"
  by (simp_all add: conversation_def executed_def dispatches_def)

lemma trace_Cons [simp]:
  "conversation (t # a) = log_item t @ conversation a"
  "executed (u # b) = executed_item u @ executed b"
  "dispatches (v # c) = (if is_dispatch v then 1 else 0) + dispatches c"
  by (simp_all add: conversation_def executed_def dispatches_def)

lemma open_call_append: "open_call p (a @ b) = Option.bind (open_call p a) (\<lambda>q. open_call q b)"
  by (induction p a rule: open_call.induct) auto

text \<open>The items that belong to a model's response.\<close>

fun provider_item :: "TraceItem \<Rightarrow> bool" where
  "provider_item (TR_Signal _) = True"
| "provider_item (TR_CallStarted _ _) = True"
| "provider_item (TR_Dispatched _) = True"
| "provider_item (TR_CallFinished _ _) = True"
| "provider_item _ = False"

text \<open>The items that are neither a response, a result, a tool's run nor a provider call.\<close>

fun neutral_item :: "TraceItem \<Rightarrow> bool" where
  "neutral_item (TR_Event (AV_AssistantResponse _ _)) = False"
| "neutral_item (TR_Event (AV_ToolResultRecorded _ _)) = False"
| "neutral_item (TR_Event _) = True"
| "neutral_item (TR_Signal _) = True"
| "neutral_item _ = False"

text \<open>The items that are no provider call.\<close>

fun local_item :: "TraceItem \<Rightarrow> bool" where
  "local_item (TR_CallStarted _ _) = False"
| "local_item (TR_Dispatched _) = False"
| "local_item (TR_CallFinished _ _) = False"
| "local_item _ = True"

lemma provider_items:
  assumes "list_all provider_item n"
  shows "conversation n = []" and "executed n = []"
  using assms by (induction n) (auto elim: provider_item.elims)

lemma neutral_items:
  assumes "list_all neutral_item n"
  shows "conversation n = []" and "executed n = []"
  using assms by (induction n) (auto elim: neutral_item.elims)

lemma neutral_local: "neutral_item t \<Longrightarrow> local_item t"
  by (induction t rule: neutral_item.induct) auto

lemma local_items:
  assumes "list_all local_item n"
  shows "open_call p n = Some p"
  using assms by (induction p n rule: open_call.induct) auto

end
