(* ===== verification/AgentInv.thy ===== *)
theory AgentInv
  imports AgentTrace
begin

text \<open>
  What one step of a Turn and a whole Turn leave in the trace: the results that answer a
  response, the tools that run for it and the provider calls, on every path, errors included.
\<close>

section \<open>The steps that leave nothing of note\<close>

lemma rt_event_only [only_intros]: "A (TR_Event ev) \<Longrightarrow> only A (rt_event env ev)"
  by (auto simp: rt_event_def intro!: only_intros)

lemma rt_signal_only [only_intros]: "A (TR_Signal sig) \<Longrightarrow> only A (rt_signal env sig)"
  by (auto simp: rt_signal_def intro!: only_intros)

lemma inject_neutral: "only neutral_item (inject env r msgs)"
  by (auto simp: inject_def intro!: only_intros)

lemma prepare_request_neutral: "only neutral_item (prepare_request env step st)"
  by (auto simp: prepare_request_def refresh_tools_def intro!: only_intros inject_neutral split: prod.split)

lemma start_request_neutral: "only neutral_item (start_request env)"
  by (auto simp: start_request_def intro!: only_intros split: option.split)

lemma next_step_neutral: "only neutral_item (next_step env final completed st)"
  by (auto simp: next_step_def Let_def intro!: only_intros inject_neutral)

lemma after_step_neutral: "only neutral_item (after_step env r completed)"
  by (auto simp: after_step_def intro!: only_intros split: option.split)

lemma prepare_call_neutral: "only neutral_item (prepare_call env tools call ps)"
  by (auto simp: prepare_call_def intro!: only_intros split: sum.split)

section \<open>Provider calls\<close>

lemma finish_only: "only provider_item (finish_provider_call env op outcome)"
  by (auto simp: finish_provider_call_def intro!: only_intros split: option.split)

lemma start_stream_only: "only provider_item (start_provider_stream env r)"
  by (auto simp: start_provider_stream_def intro!: only_intros finish_only split: selected.split sum.split)

lemma ensure_started_only: "only provider_item (ensure_started env st)"
  by (auto simp: ensure_started_def intro!: only_intros)

lemma premature_end_only: "only provider_item (premature_end env st)"
  by (auto simp: premature_end_def intro!: only_intros finish_only)

lemma stream_event_only: "only provider_item (stream_event env ev st)"
  by (cases ev) (auto simp: stream_event_def Let_def
      intro!: only_intros ensure_started_only premature_end_only)

lemma stream_item_cases:
  obtains "item = SI_Cancelled" | e where "item = SI_Event (Inl e)" | ev where "item = SI_Event (Inr ev)"
proof (cases item)
  case (SI_Event x)
  then show ?thesis using that(2,3) by (cases x) auto
qed (use that(1) in simp)

text \<open>The equations of the stream's loop without the state.\<close>

lemma stream_loop_eqs:
  "stream_loop env r cursor [] st = (if ss_completed st then retA st else premature_end env st)"
  "stream_loop env r cursor (SI_Cancelled # items) st =
     bindA (finish_provider_call env (ss_operation st)
              (PO_Uncertain ''provider call was cancelled after dispatch''))
       (\<lambda>_. failA AE_TurnCancelled)"
  "stream_loop env r cursor (SI_Event (Inl e) # items) st =
     bindA (finish_provider_call env (ss_operation st) (provider_error_outcome (ax_debug env) e)) (\<lambda>_.
       if cursor_rejected e \<and> cursor \<and> \<not> ss_observed st
       then bindA (liftA (full_replay env r)) (\<lambda>replay.
            bindA (start_provider_stream env replay) (\<lambda>(items', op).
            stream_loop env r False items' (st\<lparr>ss_operation := op\<rparr>)))
       else failA (AE_Provider e))"
  "stream_loop env r cursor (SI_Event (Inr ev) # items) st =
     bindA (stream_event env ev st) (\<lambda>(st', ended).
       if ended then retA st' else stream_loop env r cursor items st')"
  by (rule ext, simp)+

text \<open>
  Induction over the loop: over the items, first with the cursor down, then with the cursor up.
\<close>

lemma stream_loop_cases:
  assumes step: "\<And>cursor items st.
      (\<And>st'. P cursor items st') \<Longrightarrow> (\<And>items' st'. cursor \<Longrightarrow> P False items' st') \<Longrightarrow>
      (\<And>item. P cursor (item # items) st)"
    and stop: "\<And>cursor st. P cursor [] st"
  shows "P cursor items st"
proof -
  have down: "P False items' st'" for items' st'
    by (induction items' arbitrary: st') (blast intro: step stop)+
  show ?thesis
    by (induction items arbitrary: st) (blast intro: step stop down)+
qed

lemma stream_loop_only: "only provider_item (stream_loop env r cursor items st)"
proof (induction cursor items st rule: stream_loop_cases)
  case (1 cursor items st item)
  show ?case
    by (cases item rule: stream_item_cases)
      (auto simp: stream_loop_eqs intro!: only_intros finish_only start_stream_only stream_event_only 1
        split: prod.split)
qed (auto simp: stream_loop_eqs intro!: only_intros premature_end_only)

lemma stream_response_only: "only provider_item (stream_response env r)"
  by (auto simp: stream_response_def
      intro!: only_intros start_stream_only stream_loop_only finish_only split: sum.split prod.split)

section \<open>Every started call is finished\<close>

text \<open>The runtime takes every report: no signal and no end of a provider call is refused.\<close>

definition takes_reports :: "('w, 'z) agent_env_scheme \<Rightarrow> bool" where
  "takes_reports env \<longleftrightarrow>
     (\<forall>sig w. \<not> isl (fst (av_signal env sig w))) \<and> (\<forall>op outcome w. \<not> isl (fst (av_call_finished env op outcome w)))"

text \<open>
  An operation that finds the provider call \<open>p\<close> open dispatches at most \<open>k\<close> requests and leaves
  the call \<open>f x\<close> open with a value \<open>x\<close>, and none open with an error.
\<close>

definition closes ::
    "('w, 'z) agent_env_scheme \<Rightarrow> OperationId option \<Rightarrow> nat \<Rightarrow> ('a \<Rightarrow> OperationId option) \<Rightarrow> ('w, 'a) agent \<Rightarrow> bool"
  where "closes env p k f m \<longleftrightarrow> emits m (\<lambda>r n. dispatches n \<le> k
     \<and> (takes_reports env \<longrightarrow> open_call p n = Some (case r of Inl _ \<Rightarrow> None | Inr x \<Rightarrow> f x)))"

lemma closes_bind:
  assumes "closes env p k f m" and "\<And>x. closes env (f x) k' h (g x)" and "k + k' \<le> l"
  shows "closes env p l h (bindA m g)"
  unfolding closes_def
  by (rule emits_bind [OF assms(1) [unfolded closes_def]],
      use assms(3) in simp, rule emits_mono [OF assms(2) [unfolded closes_def]])
    (use assms(3) in \<open>auto simp: open_call_append\<close>)

lemma closes_basic:
  "f x = p \<Longrightarrow> closes env p k f (retA x)"
  "closes env None k h (failA e)"
  "closes env q 1 (\<lambda>_. q) (pollA g [TR_Dispatched r])"
  "closes env None 0 (\<lambda>op. op) (askA (av_call_started env r) (\<lambda>op. [TR_CallStarted r op]))"
  by (auto simp: closes_def intro!: emits_intros)

lemma closes_local:
  assumes "only local_item m"
  shows "closes env None 0 (\<lambda>_. None) m"
proof -
  have "dispatches n = 0" if "list_all local_item n" for n
    using that by (induction n) (auto elim!: is_dispatch.elims)
  then show ?thesis
    unfolding closes_def by (intro only_emits [OF assms]) (simp add: local_items split: sum.split)
qed

lemma lift_then:
  assumes "\<And>x. closes env None k h (g x)"
  shows "closes env None k h (bindA (liftA r) g)"
  by (rule closes_bind [OF closes_local assms]) (simp_all add: only_basic)

lemma closes_weaken: "closes env p k f m \<Longrightarrow> k \<le> l \<Longrightarrow> closes env p l f m"
  unfolding closes_def by (erule emits_mono) auto

lemma closes_mono:
  assumes "closes env p k f m" and "\<And>x. f x = h x"
  shows "closes env p k h m"
proof -
  have "f = h" using assms(2) by (rule ext)
  with assms(1) show ?thesis by simp
qed

lemma closes_try:
  "closes env p k f m \<Longrightarrow> closes env p k (\<lambda>r. case r of Inl _ \<Rightarrow> None | Inr x \<Rightarrow> f x) (tryA m)"
  unfolding closes_def by (rule emits_tryA, erule emits_mono) auto

lemma closes_signal: "closes env p 0 (\<lambda>_. p) (rt_signal env sig)"
  by (auto simp: closes_def emits_def rt_signal_def askA_def takes_reports_def isl_def
      split: prod.split sum.split) (metis fst_conv)+

lemma closes_finish: "closes env op 0 (\<lambda>_. None) (finish_provider_call env op outcome)"
  by (auto simp: closes_def emits_def finish_provider_call_def retA_def askA_def takes_reports_def isl_def
      split: prod.split sum.split option.split) (metis fst_conv)+

lemma closes_end: "closes env op k h (bindA (finish_provider_call env op outcome) (\<lambda>_. failA e))"
  by (rule closes_bind [OF closes_finish, where k' = 0]) (simp_all add: closes_basic)

lemma start_stream_closes: "closes env None 1 snd (start_provider_stream env r)"
proof -
  have dispatched: "closes env op 1 snd (bindA (pollA (av_stream env r) [TR_Dispatched r]) (\<lambda>sel.
       case sel of
         Sel_Cancelled \<Rightarrow>
           bindA (finish_provider_call env op
                    (PO_Uncertain ''provider call was cancelled after dispatch''))
             (\<lambda>_. failA AE_TurnCancelled)
       | Sel_Ready (Inr items) \<Rightarrow> retA (items, op)
       | Sel_Ready (Inl e) \<Rightarrow>
           bindA (finish_provider_call env op (provider_error_outcome (ax_debug env) e))
             (\<lambda>_. failA (AE_Provider e))))" for op
    by (rule closes_bind [OF closes_basic(3), where k' = 0])
      (auto intro: closes_end closes_basic(1) split: selected.split sum.split)
  show ?thesis
    unfolding start_provider_stream_def
    by (rule closes_bind [OF closes_local, where k' = 1], rule only_basic)
      (auto intro: closes_basic(2) closes_bind [OF closes_basic(4) dispatched])
qed

lemma signal_then:
  assumes "closes env p 0 h m"
  shows "closes env p 0 h (bindA (rt_signal env sig) (\<lambda>_. m))"
  by (rule closes_bind [OF closes_signal assms]) simp

lemma ensure_started_closes: "closes env (ss_operation st) 0 ss_operation (ensure_started env st)"
  unfolding ensure_started_def by (auto intro!: closes_basic(1) signal_then)

lemma premature_end_closes: "p = ss_operation st \<Longrightarrow> closes env p k f (premature_end env st)"
  unfolding premature_end_def by (simp add: closes_end)

lemma push_operation [simp]:
  "ss_operation (push_block b st) = ss_operation st"
  "ss_operation (push_text delta st') = ss_operation st'"
  by (auto simp: push_block_def push_text_def Let_def split: AssistantResponseBlock.split)

lemma ensure_started_then:
  assumes "p = ss_operation st" and "\<And>st'. closes env (ss_operation st') 0 h (g st')"
  shows "closes env p 0 h (bindA (ensure_started env st) g)"
  unfolding assms(1) by (rule closes_bind [OF ensure_started_closes assms(2)]) simp

lemma stream_event_closes:
  "closes env (ss_operation st) 0 (\<lambda>x. ss_operation (fst x)) (stream_event env ev st)"
  by (cases ev) (auto simp: stream_event_def Let_def
      intro!: closes_basic(1) premature_end_closes ensure_started_then signal_then)

lemma stream_loop_closes:
  "closes env (ss_operation st) (if cursor then 1 else 0) ss_operation (stream_loop env r cursor items st)"
proof (induction cursor items st rule: stream_loop_cases)
  case (1 cursor items st item)
  show ?case
  proof (cases item rule: stream_item_cases)
    case (2 e)
    let ?k = "if cursor then 1 else 0"
    have replay: "closes env None ?k ss_operation
       (if cursor_rejected e \<and> cursor \<and> \<not> ss_observed st
        then bindA (liftA (full_replay env r)) (\<lambda>replay.
             bindA (start_provider_stream env replay) (\<lambda>(items', op).
             stream_loop env r False items' (st\<lparr>ss_operation := op\<rparr>)))
        else failA (AE_Provider e))"
    proof (cases "cursor_rejected e \<and> cursor \<and> \<not> ss_observed st")
      case True
      have "closes env op 0 ss_operation (stream_loop env r False items' (st\<lparr>ss_operation := op\<rparr>))" for items' op
        using 1(2) [of "st\<lparr>ss_operation := op\<rparr>" items'] True by simp
      then have "closes env None 1 ss_operation (bindA (start_provider_stream env replay) (\<lambda>(items', op).
             stream_loop env r False items' (st\<lparr>ss_operation := op\<rparr>)))" for replay
        by (intro closes_bind [OF start_stream_closes]) (auto split: prod.split)
      with True show ?thesis
        by (simp add: lift_then del: One_nat_def)
    qed (auto intro: closes_basic)
    show ?thesis
      unfolding 2 stream_loop_eqs by (rule closes_bind [OF closes_finish replay]) simp
  next
    case (3 ev)
    show ?thesis
      unfolding 3 stream_loop_eqs
      by (rule closes_bind [OF stream_event_closes]) (auto split: prod.split intro: closes_basic(1) 1(1))
  qed (simp add: stream_loop_eqs closes_end)
qed (auto simp: stream_loop_eqs intro: closes_basic premature_end_closes)

lemma bindA_assoc: "bindA (bindA m f) g = bindA m (\<lambda>x. bindA (f x) g)"
  by (rule ext) (simp add: bindA_def split: prod.split sum.split)

lemma bindA_retA: "bindA (retA x) f = f x" and bindA_failA: "bindA (failA e) h = failA e"
  by (rule ext, simp add: bindA_def retA_def failA_def)+

definition finish_stream ::
    "('w, 'z) agent_env_scheme \<Rightarrow> ModelRequest \<Rightarrow> StreamItem list \<times> OperationId option \<times> bool
      \<Rightarrow> ('w, AssistantResponse \<times> AgentToolCall list) agent" where
  "finish_stream env r = (\<lambda>(items, op, cursor).
     bindA (stream_loop env r cursor items
              \<lparr>ss_operation = op, ss_response = initial_response r, ss_calls = [], ss_started = False,
               ss_observed = False, ss_completed = False\<rparr>) (\<lambda>st.
     bindA (finish_provider_call env (ss_operation st) PO_Succeeded) (\<lambda>_.
     retA (ss_response st, ss_calls st))))"

lemma finish_stream_closes:
  "closes env op (if cursor then 1 else 0) (\<lambda>_. None) (finish_stream env r (items, op, cursor))"
proof -
  let ?st = "\<lparr>ss_operation = op, ss_response = initial_response r, ss_calls = [], ss_started = False,
             ss_observed = False, ss_completed = False\<rparr>"
  have finish: "closes env (ss_operation st) 0 (\<lambda>_. None)
      (bindA (finish_provider_call env (ss_operation st) PO_Succeeded) (\<lambda>_. retA (ss_response st, ss_calls st)))"
    for st by (rule closes_bind [OF closes_finish, where k' = 0]) (simp_all add: closes_basic)
  have "closes env (ss_operation ?st) (if cursor then 1 else 0) ss_operation (stream_loop env r cursor items ?st)"
    by (rule stream_loop_closes)
  then show ?thesis
    unfolding finish_stream_def prod.case by (intro closes_bind [OF _ finish]) auto
qed

lemma stream_response_closes: "closes env None 2 (\<lambda>_. None) (stream_response env r)"
proof -
  have loop: "closes env op 1 (\<lambda>_. None) (finish_stream env r (items, op, cursor))" for items op cursor
    by (rule closes_weaken [OF finish_stream_closes]) simp
  have again: "closes env None 1 (\<lambda>_. None) (bindA (start_provider_stream env replay)
      (\<lambda>x. finish_stream env r (fst x, snd x, False)))" for replay
    by (rule closes_bind [OF start_stream_closes finish_stream_closes]) simp
  show ?thesis
    unfolding stream_response_def finish_stream_def [symmetric]
    by (rule closes_bind [OF closes_try [OF start_stream_closes], where k' = 1])
      (auto simp: bindA_assoc bindA_retA bindA_failA case_prod_beta loop again closes_basic(2) lift_then
        simp del: One_nat_def not_None_eq split: sum.split)
qed

end
