(* ===== verification/AgentTurn.thy ===== *)
theory AgentTurn
  imports AgentInv "HOL-Library.Multiset" "HOL-Library.Sublist"
begin

text \<open>
  A batch of tool calls, a step and a Turn as seen in the trace: which tools ran, which results
  were recorded and in which order, on every path.
\<close>

lemma subseq_append_same: "subseq ys zs \<Longrightarrow> subseq (xs @ ys) (xs @ zs)"
  by (rule list_emb_append_mono) simp_all

lemma subseq_prefix [simp]: "subseq xs (xs @ ys)"
  using subseq_append_same [of "[]" ys xs] by simp

lemma subset_single: "M \<subseteq># {#c#} \<Longrightarrow> M \<subseteq># add_mset c N"
  using mset_subset_eq_mono_add [of M "{#c#}" "{#}" N] by simp

lemma subset_single_add: "M \<subseteq># {#c#} \<Longrightarrow> M' \<subseteq># N \<Longrightarrow> M + M' \<subseteq># add_mset c N"
  using mset_subset_eq_mono_add [of M "{#c#}" M' N] by simp

section \<open>Tasks\<close>

fun prepared_call :: "Prepared \<Rightarrow> AgentToolCall" where
  "prepared_call (PR_Immediate call _) = call"
| "prepared_call (PR_Execute call) = call"

text \<open>A task that failed no longer knows its call.\<close>

fun task_of :: "AgentToolCall \<Rightarrow> Task \<Rightarrow> bool" where
  "task_of c (TK_Ready p) \<longleftrightarrow> prepared_call p = c"
| "task_of c (TK_Executing call) \<longleftrightarrow> call = c"
| "task_of c (TK_Executed call _) \<longleftrightarrow> call = c"
| "task_of c (TK_Done (Inr cr)) \<longleftrightarrow> fst cr = c"
| "task_of c (TK_Done (Inl _)) \<longleftrightarrow> True"

text \<open>The calls a task may still run.\<close>

fun pending :: "Task \<Rightarrow> AgentToolCall multiset" where
  "pending (TK_Ready (PR_Execute call)) = {#call#}"
| "pending (TK_Executing call) = {#call#}"
| "pending _ = {#}"

lemma pending_ready: "pending (TK_Ready p) \<subseteq># {#prepared_call p#}"
  by (cases p) auto

definition silent :: "TraceItem list \<Rightarrow> bool" where
  "silent n \<longleftrightarrow> conversation n = [] \<and> executed n = []"

lemma silent_append [simp]: "silent [] " "silent a \<Longrightarrow> silent b \<Longrightarrow> silent (a @ b)"
  by (simp_all add: silent_def)

lemma neutral_silent: "list_all neutral_item n \<Longrightarrow> silent n"
  by (simp add: silent_def neutral_items)

lemma provider_silent: "list_all provider_item n \<Longrightarrow> silent n"
  by (simp add: silent_def provider_items)

definition task_spec :: "Task \<Rightarrow> AgentError + Task \<Rightarrow> TraceItem list \<Rightarrow> bool" where
  "task_spec t r n \<longleftrightarrow> (\<exists>t'. r = Inr t' \<and> (\<not> task_done t \<longrightarrow> task_rank t' < task_rank t)
     \<and> (\<forall>c. task_of c t \<longrightarrow> task_of c t') \<and> conversation n = []
     \<and> mset (executed n) + pending t' \<subseteq># pending t)"

lemma progress_silent: "emits (forA (report_progress env i) vs ()) (\<lambda>r n. r = Inr () \<and> silent n)"
proof (rule emits_forA [where J = "\<lambda>_ _ n. silent n"])
  fix x ys n and b :: unit
  assume "silent n"
  then show "emits (report_progress env i x b) (\<lambda>r n'. case r of
      Inl e \<Rightarrow> Inl e = Inr () \<and> silent (n @ n') | Inr b' \<Rightarrow> silent (n @ n'))"
    by (auto simp: report_progress_def rt_signal_def silent_def intro!: emits_intros emits_bindA)
qed simp_all

lemma task_step_emits: "emits (task_step env t) (task_spec t)"
proof (cases t)
  case (TK_Ready p)
  then show ?thesis
    by (cases p) (auto simp: task_spec_def after_event_def rt_event_def split: sum.split
        intro!: emits_intros emits_bindA)
next
  case (TK_Executing call)
  show ?thesis
    unfolding TK_Executing task_step.simps
    by (intro emits_bindA emits_pollA)
      (auto intro!: emits_bind [OF progress_silent] emits_retA simp: task_spec_def silent_def split: selected.split)
qed (auto simp: task_spec_def after_event_def rt_event_def split: sum.split intro!: emits_intros emits_bindA)

section \<open>Running a batch\<close>

lemma run_task_eq:
  "run_task env t = (case t of TK_Done r \<Rightarrow> retA r | _ \<Rightarrow> bindA (task_step env t) (run_task env))"
  by (rule ext) (simp add: run_task.simps split: Task.split)

definition result_of :: "AgentToolCall \<Rightarrow> AgentError + (AgentError + AgentToolCall \<times> AgentToolResult) \<Rightarrow> bool" where
  "result_of c r \<longleftrightarrow> (\<exists>v. r = Inr v \<and> task_of c (TK_Done v))"

lemma run_task_emits:
  assumes "task_of c t"
  shows "emits (run_task env t) (\<lambda>r n. result_of c r \<and> conversation n = [] \<and> mset (executed n) \<subseteq># pending t)"
  using assms
proof (induction "task_rank t" arbitrary: t rule: less_induct)
  case less
  show ?case
  proof (cases "task_done t")
    case True
    then obtain v where "t = TK_Done v" by (cases t) auto
    with less.prems show ?thesis by (auto simp: run_task_eq result_of_def intro: emits_retA)
  next
    case False
    then have eq: "run_task env t = bindA (task_step env t) (run_task env)"
      by (subst run_task_eq) (auto split: Task.split)
    show ?thesis
      unfolding eq
    proof (rule emits_bind [OF task_step_emits], simp add: task_spec_def)
      fix t' n
      assume "task_spec t (Inr t') n"
      with False less.prems have t': "task_rank t' < task_rank t" "task_of c t'" "conversation n = []"
        "mset (executed n) + pending t' \<subseteq># pending t" by (auto simp: task_spec_def)
      show "emits (run_task env t') (\<lambda>r n'. result_of c r \<and> conversation (n @ n') = []
          \<and> mset (executed (n @ n')) \<subseteq># pending t)"
        by (rule emits_mono [OF less.hyps [OF t'(1,2)]])
          (use t' in \<open>auto intro: subset_mset.order_trans subset_mset.add_left_mono\<close>)
    qed
  qed
qed

text \<open>
  What a batch leaves: its results are results of its calls, in their order, all of them unless
  there is an error, and a tool runs at most once for each call.
\<close>

definition batch_spec :: "AgentToolCall list \<Rightarrow> AgentError + BatchOutcome \<Rightarrow> TraceItem list \<Rightarrow> bool" where
  "batch_spec calls r n \<longleftrightarrow> (\<exists>b. r = Inr b \<and> subseq (map fst (bo_completed b)) calls
     \<and> (bo_terminal_error b = None \<longrightarrow> map fst (bo_completed b) = calls))
     \<and> conversation n = [] \<and> mset (executed n) \<subseteq># mset calls"

lemma run_sequential_emits:
  assumes "map fst (bo_completed b) = ds"
  shows "emits (run_sequential env ps b) (\<lambda>r n. \<exists>b'. r = Inr b'
     \<and> subseq (map fst (bo_completed b')) (ds @ map prepared_call ps)
     \<and> (bo_terminal_error b' = None \<longrightarrow> map fst (bo_completed b') = ds @ map prepared_call ps)
     \<and> conversation n = [] \<and> mset (executed n) \<subseteq># mset (map prepared_call ps))"
  using assms
proof (induction ps arbitrary: b ds)
  case Nil
  then show ?case by (simp add: emits_retA)
next
  case (Cons p ps)
  have run: "emits (execute_prepared env p) (\<lambda>r n. result_of (prepared_call p) r \<and> conversation n = []
      \<and> mset (executed n) \<subseteq># {#prepared_call p#})"
    unfolding execute_prepared_def
    by (rule emits_mono [OF run_task_emits]) (auto intro: subset_mset.order_trans [OF _ pending_ready])
  show ?case
    unfolding run_sequential.simps
  proof (rule emits_bind [OF run], simp add: result_of_def)
    fix v n
    assume "result_of (prepared_call p) (Inr v) \<and> conversation n = [] \<and> mset (executed n) \<subseteq># {#prepared_call p#}"
    then have v: "task_of (prepared_call p) (TK_Done v)" and n: "conversation n = []"
        "mset (executed n) \<subseteq># {#prepared_call p#}" by (auto simp: result_of_def)
    show "emits (case v of Inl e \<Rightarrow> retA (b\<lparr>bo_terminal_error := Some e\<rparr>)
        | Inr cr \<Rightarrow> run_sequential env ps (b\<lparr>bo_completed := bo_completed b @ [cr]\<rparr>))
      (\<lambda>r n'. \<exists>b'. r = Inr b' \<and> subseq (map fst (bo_completed b')) (ds @ map prepared_call (p # ps))
        \<and> (bo_terminal_error b' = None \<longrightarrow> map fst (bo_completed b') = ds @ map prepared_call (p # ps))
        \<and> conversation (n @ n') = [] \<and> mset (executed (n @ n')) \<subseteq># mset (map prepared_call (p # ps)))"
    proof (cases v)
      case (Inl e)
      with n Cons.prems show ?thesis
        by (auto intro!: emits_retA subset_single)
    next
      case (Inr cr)
      with v Cons.prems have "map fst (bo_completed (b\<lparr>bo_completed := bo_completed b @ [cr]\<rparr>)) = ds @ [prepared_call p]"
        by simp
      from Cons.IH [OF this] n Inr show ?thesis
        by (auto elim!: emits_mono simp: subset_single_add)
    qed
  qed
qed

section \<open>Eight at a time\<close>

lemma run_buffered_eq:
  "run_buffered env ts = (if runnable ts = [] then retA ts
     else bindA (pollA (av_pick env) []) (\<lambda>k. bindA (task_step env (ts ! chosen ts k))
       (\<lambda>t. run_buffered env (ts[chosen ts k := t]))))"
  by (rule ext) (subst run_buffered.simps, simp)

lemma runnable_none: "runnable ts = [] \<longleftrightarrow> list_all task_done ts"
proof
  assume none: "runnable ts = []"
  let ?f = "length (takeWhile task_done ts)"
  show "list_all task_done ts"
  proof (rule ccontr)
    assume "\<not> list_all task_done ts"
    then have "?f \<noteq> length ts" by (metis takeWhile_eq_all_conv list_all_iff takeWhile_eq_take take_all_iff order_refl)
    then have "?f < length ts" using length_takeWhile_le [of task_done ts] by linarith
    then have "\<not> task_done (ts ! ?f)" and "?f \<in> set [?f..<min (length ts) (?f + max_concurrent_tools)]"
      by (auto simp: nth_length_takeWhile max_concurrent_tools_def)
    with none show False by (auto simp: runnable_def Let_def filter_empty_conv)
  qed
qed (auto simp: runnable_def Let_def filter_empty_conv list_all_length)

definition all_pending :: "Task list \<Rightarrow> AgentToolCall multiset" where
  "all_pending ts = sum_list (map pending ts)"

lemma all_pending_update:
  assumes "i < length ts" and "add + pending t \<subseteq># pending (ts ! i)"
  shows "add + all_pending (ts[i := t]) \<subseteq># all_pending ts"
proof -
  let ?a = "all_pending (take i ts)" and ?b = "all_pending (drop (Suc i) ts)"
  have "all_pending ts = ?a + pending (ts ! i) + ?b"
    using id_take_nth_drop [OF assms(1)] by (metis all_pending_def list.simps(9) map_append sum_list.Cons
        sum_list.append union_assoc)
  moreover have "all_pending (ts[i := t]) = ?a + pending t + ?b"
    by (simp add: upd_conv_take_nth_drop [OF assms(1)] all_pending_def union_assoc)
  moreover have "(add + pending t) + (?a + ?b) \<subseteq># pending (ts ! i) + (?a + ?b)"
    using assms(2) by simp
  ultimately show ?thesis by (simp add: ac_simps)
qed

definition buffered_spec :: "AgentToolCall list \<Rightarrow> Task list \<Rightarrow> AgentError + Task list \<Rightarrow> TraceItem list \<Rightarrow> bool" where
  "buffered_spec cs ts r n \<longleftrightarrow> (\<exists>ts'. r = Inr ts' \<and> list_all2 task_of cs ts' \<and> list_all task_done ts')
     \<and> conversation n = [] \<and> mset (executed n) \<subseteq># all_pending ts"

lemma run_buffered_emits:
  assumes "list_all2 task_of cs ts"
  shows "emits (run_buffered env ts) (buffered_spec cs ts)"
  using assms
proof (induction "sum_list (map task_rank ts)" arbitrary: ts rule: less_induct)
  case less
  show ?case
  proof (cases "runnable ts = []")
    case True
    with less.prems show ?thesis
      by (auto simp: run_buffered_eq runnable_none buffered_spec_def intro: emits_retA)
  next
    case False
    have step: "emits (bindA (task_step env (ts ! chosen ts k)) (\<lambda>t. run_buffered env (ts[chosen ts k := t])))
        (buffered_spec cs ts)" for k
    proof (rule emits_bind [OF task_step_emits], simp add: task_spec_def)
      fix t n
      let ?i = "chosen ts k" and ?ts = "ts[chosen ts k := t]"
      assume "task_spec (ts ! ?i) (Inr t) n"
      with chosen_runnable [OF False, of k] have i: "?i < length ts" and
        t: "task_rank t < task_rank (ts ! ?i)" "task_of (cs ! ?i) (ts ! ?i) \<longrightarrow> task_of (cs ! ?i) t" and
        n: "conversation n = []" "mset (executed n) + pending t \<subseteq># pending (ts ! ?i)"
        by (auto simp: task_spec_def)
      have less': "sum_list (map task_rank ?ts) < sum_list (map task_rank ts)"
        using i t(1) by (simp add: map_update sum_list_update_less)
      have all2: "list_all2 task_of cs ?ts"
        using less.prems i t(2) by (auto simp: list_all2_conv_all_nth nth_list_update)
      have "mset (executed n) + all_pending ?ts \<subseteq># all_pending ts" by (rule all_pending_update [OF i n(2)])
      then show "emits (run_buffered env ?ts) (\<lambda>r n'. buffered_spec cs ts r (n @ n'))"
        by (intro emits_mono [OF less.hyps [OF less' all2]])
          (auto simp: buffered_spec_def n(1) intro: subset_mset.order_trans subset_mset.add_left_mono)
    qed
    show ?thesis
      unfolding run_buffered_eq [of env ts] using False by (auto intro!: emits_bindA emits_pollA step)
  qed
qed

lemma gather_completed:
  assumes "list_all2 task_of cs ts" and "list_all task_done ts" and "gather ts b = b'"
  shows "subseq (map fst (bo_completed b')) (map fst (bo_completed b) @ cs)"
    and "bo_terminal_error b' = None \<Longrightarrow> map fst (bo_completed b') = map fst (bo_completed b) @ cs"
proof -
  have "\<exists>ds. map fst (bo_completed b') = map fst (bo_completed b) @ ds \<and> subseq ds cs
      \<and> (bo_terminal_error b' = None \<longrightarrow> ds = cs \<and> bo_terminal_error b = None)"
    using assms
  proof (induction cs ts arbitrary: b rule: list_all2_induct)
    case (Cons c cs t ts)
    from Cons.prems obtain v where t: "t = TK_Done v" by (cases t) auto
    show ?case
    proof (cases v)
      case (Inl e)
      with Cons.IH [of "if bo_terminal_error b = None then b\<lparr>bo_terminal_error := Some e\<rparr> else b"] Cons.prems t
      show ?thesis by (auto split: if_splits)
    next
      case (Inr cr)
      with Cons.IH [of "b\<lparr>bo_completed := bo_completed b @ [cr]\<rparr>"] Cons.prems Cons.hyps t
      show ?thesis by fastforce
    qed
  qed simp
  then show "subseq (map fst (bo_completed b')) (map fst (bo_completed b) @ cs)"
    and "bo_terminal_error b' = None \<Longrightarrow> map fst (bo_completed b') = map fst (bo_completed b) @ cs"
    by (auto intro: subseq_append_same)
qed

lemma run_batch_emits: "emits (run_batch env cfg ps e) (batch_spec (map prepared_call ps))"
proof (cases "lc_tool_execution cfg")
  case Sequential
  show ?thesis
    unfolding run_batch_def Let_def Sequential ToolExecutionMode.case
    by (rule emits_mono [OF run_sequential_emits [OF refl]]) (auto simp: batch_spec_def)
next
  case Parallel
  have pend: "all_pending (map TK_Ready ps) \<subseteq># mset (map prepared_call ps)"
    using subset_mset.add_mono [OF pending_ready] by (induction ps) (auto simp: all_pending_def)
  have start: "list_all2 task_of (map prepared_call ps) (map TK_Ready ps)"
    by (simp add: list.rel_map list.rel_refl)
  show ?thesis
    unfolding run_batch_def Let_def Parallel ToolExecutionMode.case
  proof (rule emits_bind [OF run_buffered_emits [OF start]], simp add: buffered_spec_def)
    fix ts n
    assume "buffered_spec (map prepared_call ps) (map TK_Ready ps) (Inr ts) n"
    then have ts: "list_all2 task_of (map prepared_call ps) ts" "list_all task_done ts" and
      n: "conversation n = []" "mset (executed n) \<subseteq># all_pending (map TK_Ready ps)"
      by (auto simp: buffered_spec_def)
    show "emits (retA (gather ts \<lparr>bo_completed = [], bo_terminal_error = e\<rparr>))
        (\<lambda>r n'. batch_spec (map prepared_call ps) r (n @ n'))"
      using gather_completed [OF ts refl, of "\<lparr>bo_completed = [], bo_terminal_error = e\<rparr>"] n(1)
        subset_mset.order_trans [OF n(2) pend]
      by (auto simp: batch_spec_def intro!: emits_retA)
  qed
qed

section \<open>Preparing\<close>

lemma prepare_call_emits:
  "emits (prepare_call env tools call ps) (\<lambda>r n. silent n
     \<and> (\<exists>ps'. r = Inr ps' \<and> map prepared_call (ps_prepared ps') = map prepared_call (ps_prepared ps) @ [call]))"
  by (auto simp: prepare_call_def before_tool_failed_def push_prepared_def
      split: sum.split option.split ToolDecision.split intro!: emits_intros emits_bindA)

lemma prepared_stop: "map prepared_call (stop_prepared ps) = map prepared_call (ps_prepared ps)"
  by (auto simp: stop_prepared_def split: Prepared.split)

lemma prepare_and_execute_emits: "emits (prepare_and_execute env cfg tools calls) (batch_spec calls)"
proof -
  have loop: "emits (forA (prepare_call env tools) calls
        \<lparr>ps_prepared = [], ps_terminal_error = None, ps_cancelled = False\<rparr>)
      (\<lambda>r n. silent n \<and> (\<exists>ps. r = Inr ps \<and> map prepared_call (ps_prepared ps) = calls))"
    by (rule emits_forA [where J = "\<lambda>rest ps n. silent n \<and> map prepared_call (ps_prepared ps) @ rest = calls"])
      (auto intro!: emits_mono [OF prepare_call_emits])
  show ?thesis
    unfolding prepare_and_execute_def
  proof (rule emits_bind [OF loop], simp)
    fix ps :: PrepareState and n
    assume "silent n \<and> (\<exists>ps'. Inr ps = Inr ps' \<and> map prepared_call (ps_prepared ps') = calls)"
    then show "emits (run_batch env cfg (stop_prepared ps) (ps_terminal_error ps))
        (\<lambda>r n'. batch_spec calls r (n @ n'))"
      by (intro emits_mono [OF run_batch_emits]) (auto simp: prepared_stop batch_spec_def silent_def)
  qed
qed

section \<open>Recording\<close>

lemma record_result_emits:
  "emits (record_result env (call, result) rs) (\<lambda>r n. executed n = []
     \<and> (case r of Inl _ \<Rightarrow> conversation n = []
        | Inr rs' \<Rightarrow> conversation n = [LG_Result call] \<and> map fst (rs_completed rs') = map fst (rs_completed rs) @ [call]
            \<and> (rs_terminal_error rs' = None \<longrightarrow> rs_terminal_error rs = None)))"
  by (auto simp: record_result_def rt_event_def Let_def split: sum.split option.split
      intro!: emits_intros emits_bindA)

definition tools_spec :: "AgentToolCall list \<Rightarrow> AgentError + RecordState \<Rightarrow> TraceItem list \<Rightarrow> bool" where
  "tools_spec calls r n \<longleftrightarrow> (\<exists>cs. conversation n = map LG_Result cs \<and> subseq cs calls
     \<and> (\<forall>rs. r = Inr rs \<longrightarrow> cs = calls \<and> map fst (rs_completed rs) = calls))
     \<and> mset (executed n) \<subseteq># mset calls"

lemma map_result_eq [simp]: "map LG_Result xs = map LG_Result ys \<longleftrightarrow> xs = ys"
  by (simp add: inj_map_eq_map inj_def)

lemma subseq_take: "subseq (xs @ ys) zs \<Longrightarrow> subseq xs zs"
  by (rule subseq_order.order_trans [OF subseq_prefix])

lemma run_tools_emits: "emits (run_tools env cfg tools calls st) (tools_spec calls)"
  unfolding run_tools_def
proof (rule emits_bind [OF prepare_and_execute_emits], simp add: batch_spec_def)
  fix b n
  assume "batch_spec calls (Inr b) n"
  then have b: "subseq (map fst (bo_completed b)) calls"
      "bo_terminal_error b = None \<Longrightarrow> map fst (bo_completed b) = calls" and
    n: "conversation n = []" "mset (executed n) \<subseteq># mset calls" by (auto simp: batch_spec_def)
  let ?rs = "\<lparr>rs_request = lp_request st, rs_completed = [], rs_terminal_error = bo_terminal_error b\<rparr>"
  let ?cs = "map fst (bo_completed b)"
  define J where "J rest rs n' \<longleftrightarrow> (\<exists>cs. cs @ map fst rest = ?cs \<and> map fst (rs_completed rs) = cs
      \<and> executed n' = [] \<and> conversation n' = map LG_Result cs
      \<and> (rs_terminal_error rs = None \<longrightarrow> bo_terminal_error b = None))"
    for rest :: "(AgentToolCall \<times> AgentToolResult) list" and rs :: RecordState and n'
  have loop: "emits (forA (record_result env) (bo_completed b) ?rs)
      (\<lambda>r n'. executed n' = [] \<and> (case r of
          Inl _ \<Rightarrow> \<exists>cs. conversation n' = map LG_Result cs \<and> subseq cs calls
        | Inr rs \<Rightarrow> J [] rs n'))"
  proof (rule emits_forA [where J = J])
    fix x ys rs n'
    assume "J (x # ys) rs n'"
    then obtain cs where cs: "cs @ fst x # map fst ys = ?cs" "map fst (rs_completed rs) = cs" "executed n' = []"
        "conversation n' = map LG_Result cs" "rs_terminal_error rs = None \<longrightarrow> bo_terminal_error b = None"
      by (auto simp: J_def)
    obtain call result where x: "x = (call, result)" by (cases x)
    have "subseq cs calls" using b(1) subseq_take cs(1) by metis
    then show "emits (record_result env x rs) (\<lambda>r n''. case r of
        Inl e \<Rightarrow> executed (n' @ n'') = [] \<and> (case Inl e of
            Inl _ \<Rightarrow> \<exists>cs. conversation (n' @ n'') = map LG_Result cs \<and> subseq cs calls
          | Inr rs \<Rightarrow> J [] rs (n' @ n''))
      | Inr rs' \<Rightarrow> J ys rs' (n' @ n''))"
      unfolding x by (intro emits_mono [OF record_result_emits]) (use cs x in \<open>auto simp: J_def simp del: map_map split: sum.splits\<close>)
  qed (auto simp: J_def)
  show "emits (bindA (forA (record_result env) (bo_completed b) ?rs)
      (\<lambda>rs. case rs_terminal_error rs of None \<Rightarrow> retA rs | Some e \<Rightarrow> failA e)) (\<lambda>r n'. tools_spec calls r (n @ n'))"
    by (rule emits_bind [OF loop])
      (use b n in \<open>auto simp: tools_spec_def J_def simp del: map_map intro!: emits_intros split: option.split\<close>)
qed

end
