(* ===== verification/AgentDemo.thy ===== *)
theory AgentDemo
  imports AgentSteps
begin

text \<open>
  A concrete outside for the agent loop: a provider that first calls a tool and then answers,
  a runtime that takes every report, and serialized sizes that count the messages. The
  properties of the agent loop are applied to it.
\<close>

definition demo_user :: ModelMessage where
  "demo_user = \<lparr>mm_role = RoleUser, mm_content = MC_Text ''hello''\<rparr>"

definition demo_request :: ModelRequest where
  "demo_request = \<lparr>mr_model = ''openai/gpt'', mr_reasoning = None, mr_system = [], mr_messages = [demo_user],
     mr_tools = [], mr_continuation = None\<rparr>"

definition demo_tool :: ToolDefinition where
  "demo_tool = \<lparr>td_name = ''read'', td_description = [], td_schema = VNull, td_agent_id = None\<rparr>"

definition demo_stream :: "nat \<Rightarrow> StreamItem list" where
  "demo_stream w =
     (if w = 0
      then [SI_Event (Inr MS_Start), SI_Event (Inr (MS_ToolCall ''c1'' ''read'' VNull None)),
            SI_Event (Inr (MS_ResponseCompleted None None)), SI_Event (Inr MS_Done)]
      else [SI_Event (Inr (MS_TextDelta ''do'')), SI_Event (Inr (MS_TextDelta ''ne'')),
            SI_Event (Inr (MS_ResponseCompleted None None)), SI_Event (Inr MS_Done)])"

text \<open>Every message counts 100000 bytes, so that three of them fit the budget of the demo's model.\<close>

definition demo_env :: "nat agent_env" where
  "demo_env = \<lparr>
     ax_fixed_bytes = (\<lambda>_ _ _ _. 60), ax_message_bytes = (\<lambda>_. 100000), ax_schema_error = (\<lambda>_. None),
     ax_argument_error = (\<lambda>_ _. None), ax_debug = (\<lambda>s. s),
     av_cancelled = (\<lambda>_. False), av_capability = (\<lambda>_ _. CC_None),
     av_stream = (\<lambda>_ w. (Sel_Ready (Inr (demo_stream w)), Suc w)),
     av_tools = (\<lambda>w. (Inr \<lparr>cs_generation = 1, cs_tools = [demo_tool]\<rparr>, w)),
     av_request = (\<lambda>tools w. (Inr (demo_request\<lparr>mr_tools := tools\<rparr>), w)),
     av_execute = (\<lambda>_ w. (([VNull], Sel_Ready (Inr (result_success (VString ''text'')))), w)),
     av_event = (\<lambda>_ w. (Inr (), w)), av_signal = (\<lambda>_ w. (Inr (), w)),
     av_call_started = (\<lambda>_ w. (Inr (Some ''op''), w)), av_call_finished = (\<lambda>_ _ w. (Inr (), w)),
     av_turn_started = (\<lambda>w. (Inr (), w)), av_turn_finished = (\<lambda>w. (Inr (), w)),
     av_transform_context = (\<lambda>r w. (Inr r, w)), av_before_model = (\<lambda>r w. (Inr r, w)),
     av_before_tool = (\<lambda>_ w. (Inr TD_Allow, w)), av_after_tool = (\<lambda>_ result w. ((Inr (), result), w)),
     av_steering = (\<lambda>w. (Inr [], w)), av_follow_ups = (\<lambda>w. (Inr [], w)),
     av_prepare_next = (\<lambda>_ w. (Inr \<lparr>nu_model = None, nu_reasoning = None, nu_system = None\<rparr>, w)),
     av_after_step = (\<lambda>_ w. (Inr SD_Continue, w)), av_pick = (\<lambda>w. (0, w))\<rparr>"

lemma bindA_weak: "m = m' \<Longrightarrow> bindA m f = bindA m' f"
  by simp

lemmas demo_run = bindA_def retA_def failA_def liftA_def tryA_def readA_def pollA_def askA_def
  rt_event_def rt_signal_def finish_provider_call_def start_provider_stream_def initial_response_def
  push_block_def push_text_def ensure_started_def stream_event_def stream_response_def
  validate_tool_call_ids.simps prepare_call_def push_prepared_def stop_prepared_def report_progress_def
  execution_result_def after_event_def run_task.simps run_buffered.simps runnable_def chosen_def
  max_tool_calls_per_step_def max_tool_call_id_bytes_def max_concurrent_tools_def
  run_batch_def prepare_and_execute_def inject_def apply_update_def start_request_def refresh_tools_def
  prepare_request_def block_message_def agent_response_text_def check_calls_def accept_response_def
  result_message_def record_result_def uncertain_reason_def after_step_def next_step_def run_tools_def
  conclude_def handle_response_def agent_step_def execute_turn_inner_def execute_turn_with_config_def
  execute_turn_def apply_context_budget_def context_budget_bytes_def message_array_bytes_def
  saturating_add_def usize_max_def catalog_compile_def catalog_validate_def result_success_def Let_def
  demo_env_def demo_stream_def demo_request_def demo_tool_def demo_user_def List.map_filter_def bindR_def okOr_def require_def

lemma demo_answers: "fst (execute_turn demo_env (Suc (Suc 0)) \<lparr>ag_world = 0, ag_trace = []\<rparr>) = Inr ''done''"
  by (simp add: demo_run upt_rec cong: bindA_weak)

text \<open>A history of five messages, of which the last three fit.\<close>

definition demo_long :: ModelRequest where
  "demo_long = demo_request\<lparr>mr_messages := [demo_user, demo_user\<lparr>mm_role := RoleAssistant\<rparr>, demo_user,
     demo_user\<lparr>mm_role := RoleAssistant\<rparr>, demo_user]\<rparr>"

lemma demo_budget: "apply_context_budget demo_env demo_long
    = Inr (2, demo_long\<lparr>mr_messages := drop 2 (mr_messages demo_long)\<rparr>)"
  by (simp add: demo_run demo_long_def)

end
