(* ===== verification/AgentProps.thy ===== *)
theory AgentProps
  imports AgentTurn AgentDemo
begin

text \<open>
  The properties of the agent loop: the context budget, the conversation a Turn records, the
  tools it runs, its provider calls and its limits.
\<close>

section \<open>A step\<close>

definition acceptable :: "string list \<Rightarrow> AgentToolCall list \<Rightarrow> bool" where
  "acceptable accepted calls \<longleftrightarrow> length calls \<le> max_tool_calls_per_step
     \<and> list_all (\<lambda>c. call_id c \<noteq> [] \<and> length (call_id c) \<le> max_tool_call_id_bytes) calls
     \<and> distinct (map call_id calls) \<and> set (map call_id calls) \<inter> set accepted = {}"

lemma validated_call_ids:
  "validate_tool_call_ids debug calls accepted ids = Inr x \<longleftrightarrow>
     list_all (\<lambda>c. call_id c \<noteq> [] \<and> length (call_id c) \<le> max_tool_call_id_bytes) calls
     \<and> distinct (map call_id calls) \<and> set (map call_id calls) \<inter> (set accepted \<union> set ids) = {}"
  by (induction calls arbitrary: ids) (auto simp: bindR_eq_Inr require_Inr)

lemma check_calls_acceptable: "check_calls debug calls accepted = Inr () \<Longrightarrow> acceptable accepted calls"
  by (auto simp: check_calls_def bindR_eq_Inr require_Inr validated_call_ids acceptable_def)

lemma acceptable_generation [simp]:
  "acceptable accepted (map (\<lambda>c. c\<lparr>call_generation := g\<rparr>) calls) = acceptable accepted calls"
  by (simp add: acceptable_def list_all_iff comp_def)

lemma accept_response_emits:
  "emits (accept_response env tools resp calls0 st) (\<lambda>r n. executed n = []
     \<and> (case r of Inl _ \<Rightarrow> conversation n = []
        | Inr (st', calls) \<Rightarrow> conversation n = [LG_Response calls] \<and> acceptable (lp_accepted st) calls
            \<and> lp_accepted st' = lp_accepted st @ map call_id calls))"
  by (auto simp: accept_response_def rt_event_def Let_def split: sum.split
      intro!: emits_intros emits_bindA elim!: check_calls_acceptable)

text \<open>What a step leaves: nothing of note, or a response with results for its calls.\<close>

definition step_spec :: "string list \<Rightarrow> AgentError + StepResult \<Rightarrow> TraceItem list \<Rightarrow> bool" where
  "step_spec accepted r n \<longleftrightarrow> (silent n \<and> isl r)
     \<or> (\<exists>calls cs. conversation n = LG_Response calls # map LG_Result cs \<and> subseq cs calls
         \<and> acceptable accepted calls \<and> mset (executed n) \<subseteq># mset calls
         \<and> (\<forall>x. r = Inr x \<longrightarrow> cs = calls)
         \<and> (\<forall>st. r = Inr (SR_Next st) \<longrightarrow> lp_accepted st = accepted @ map call_id calls))"

lemma step_spec_none: "silent n \<Longrightarrow> step_spec accepted (Inl e) n"
  by (simp add: step_spec_def)

lemma prepare_request_emits:
  "emits (prepare_request env step st)
     (\<lambda>r n. silent n \<and> (\<forall>x. r = Inr x \<longrightarrow> lp_accepted (fst x) = lp_accepted st))"
  by (rule emits_value [OF only_emits [OF prepare_request_neutral neutral_silent]])
    (auto simp: prepare_request_def refresh_tools_def agent_simps split: if_splits prod.splits)

lemma next_step_emits:
  "emits (next_step env final completed st)
     (\<lambda>r n. silent n \<and> (\<forall>x. r = Inr x \<longrightarrow> (\<forall>st'. x = SR_Next st' \<longrightarrow> lp_accepted st' = lp_accepted st)))"
  by (rule emits_value [OF only_emits [OF next_step_neutral neutral_silent]])
    (auto simp: next_step_def Let_def agent_simps split: if_splits)

lemma conclude_emits:
  "emits (conclude env final st rs)
     (\<lambda>r n. silent n \<and> (\<forall>st'. r = Inr (SR_Next st') \<longrightarrow> lp_accepted st' = lp_accepted st))"
  unfolding conclude_def
  by (rule emits_bind [OF only_emits [OF after_step_neutral neutral_silent]])
    (auto intro!: emits_retA emits_mono [OF next_step_emits])

lemma handle_response_emits: "emits (handle_response env cfg tools st x) (step_spec (lp_accepted st))"
proof -
  obtain resp calls0 where x: "x = (resp, calls0)" by (cases x)
  have tools: "emits (bindA (run_tools env cfg tools calls st') (conclude env final st'))
      (\<lambda>r n. step_spec (lp_accepted st) r (n1 @ n))"
    if "acceptable (lp_accepted st) calls" "lp_accepted st' = lp_accepted st @ map call_id calls"
      "conversation n1 = [LG_Response calls]" "executed n1 = []" for calls st' final n1
  proof (rule emits_bind [OF run_tools_emits])
    fix rs n
    assume "tools_spec calls (Inr rs) n"
    then show "emits (conclude env final st' rs) (\<lambda>r n'. step_spec (lp_accepted st) r (n1 @ n @ n'))"
      by (intro emits_mono [OF conclude_emits]) (use that in \<open>auto simp: tools_spec_def step_spec_def silent_def\<close>)
  qed (use that in \<open>auto simp: tools_spec_def step_spec_def silent_def\<close>)
  show ?thesis
    unfolding handle_response_def x prod.case
    by (rule emits_bind [OF accept_response_emits]) (auto intro!: tools simp: step_spec_none silent_def)
qed

lemma agent_step_emits: "emits (agent_step env cfg step st0) (step_spec (lp_accepted st0))"
  unfolding agent_step_def
proof (rule emits_bind [OF prepare_request_emits])
  fix x :: "LoopState \<times> ToolCatalog" and n1
  assume "silent n1 \<and> (\<forall>y. (Inr x :: AgentError + LoopState \<times> ToolCatalog) = Inr y
      \<longrightarrow> lp_accepted (fst y) = lp_accepted st0)"
  then have n1: "silent n1" and st: "lp_accepted (fst x) = lp_accepted st0" by auto
  have "emits (handle_response env cfg (snd x) (fst x) y) (\<lambda>r n. step_spec (lp_accepted st0) r (n1 @ n2 @ n))"
    if "silent n2" for y n2
    by (rule emits_mono [OF handle_response_emits]) (use n1 that in \<open>auto simp: step_spec_def silent_def st\<close>)
  then show "emits (case x of (st, tools) \<Rightarrow> bindA (stream_response env (lp_request st)) (handle_response env cfg tools st))
      (\<lambda>r n. step_spec (lp_accepted st0) r (n1 @ n))"
    unfolding case_prod_beta
    by (intro emits_bind [OF only_emits [OF stream_response_only provider_silent]])
      (use n1 in \<open>auto simp: step_spec_def silent_def\<close>)
qed (auto simp: step_spec_def)

section \<open>A Turn\<close>

text \<open>The exchanges of a Turn: the calls of a response and the results recorded for it.\<close>

type_synonym exchange = "AgentToolCall list \<times> AgentToolCall list"

definition exchange_items :: "exchange \<Rightarrow> LogItem list" where
  "exchange_items x = LG_Response (fst x) # map LG_Result (snd x)"

fun accepted_all :: "string list \<Rightarrow> AgentToolCall list list \<Rightarrow> bool" where
  "accepted_all accepted [] = True"
| "accepted_all accepted (calls # css) = (acceptable accepted calls \<and> accepted_all (accepted @ map call_id calls) css)"

definition turn_spec :: "nat \<Rightarrow> string list \<Rightarrow> AgentError + string \<Rightarrow> TraceItem list \<Rightarrow> bool" where
  "turn_spec k accepted r n \<longleftrightarrow> (\<exists>xs :: exchange list. conversation n = concat (map exchange_items xs)
     \<and> length xs \<le> k \<and> list_all (\<lambda>x. subseq (snd x) (fst x)) xs
     \<and> list_all (\<lambda>x. snd x = fst x) (butlast xs) \<and> (\<not> isl r \<longrightarrow> list_all (\<lambda>x. snd x = fst x) xs)
     \<and> accepted_all accepted (map fst xs) \<and> mset (executed n) \<subseteq># mset (concat (map fst xs)))"

lemma turn_spec_none: "silent n \<Longrightarrow> isl r \<Longrightarrow> turn_spec k accepted r n"
  unfolding turn_spec_def silent_def by (intro exI [of _ "[]"]) simp

lemma turn_spec_silent: "silent n1 \<Longrightarrow> turn_spec k accepted r n \<Longrightarrow> turn_spec k accepted r (n1 @ n)"
  by (simp add: turn_spec_def silent_def)

lemma turn_spec_one:
  assumes "step_spec accepted r0 n" and "\<not> isl r \<Longrightarrow> \<not> isl r0" and "isl r0 \<Longrightarrow> isl r"
  shows "turn_spec (Suc k) accepted r n"
proof (cases "silent n \<and> isl r0")
  case False
  then obtain calls cs where *: "conversation n = LG_Response calls # map LG_Result cs" "subseq cs calls"
      "acceptable accepted calls" "mset (executed n) \<subseteq># mset calls" "\<forall>x. r0 = Inr x \<longrightarrow> cs = calls"
    using assms(1) by (auto simp: step_spec_def)
  then show ?thesis
    unfolding turn_spec_def
    by (intro exI [of _ "[(calls, cs)]"]) (use assms(2) in \<open>cases r0; auto simp: exchange_items_def isl_def\<close>)
qed (use assms in \<open>auto intro: turn_spec_none\<close>)

lemma turn_spec_more:
  assumes "step_spec accepted (Inr (SR_Next st)) n1" and "turn_spec k (lp_accepted st) r n"
  shows "turn_spec (Suc k) accepted r (n1 @ n)"
proof -
  obtain calls where 1: "conversation n1 = LG_Response calls # map LG_Result calls" "acceptable accepted calls"
      "mset (executed n1) \<subseteq># mset calls" "lp_accepted st = accepted @ map call_id calls"
    using assms(1) by (auto simp: step_spec_def)
  obtain xs :: "exchange list" where 2: "conversation n = concat (map exchange_items xs)" "length xs \<le> k"
      "list_all (\<lambda>x. subseq (snd x) (fst x)) xs" "list_all (\<lambda>x. snd x = fst x) (butlast xs)"
      "\<not> isl r \<longrightarrow> list_all (\<lambda>x. snd x = fst x) xs" "accepted_all (lp_accepted st) (map fst xs)"
      "mset (executed n) \<subseteq># mset (concat (map fst xs))"
    using assms(2) unfolding turn_spec_def by blast
  then show ?thesis
    unfolding turn_spec_def
    by (intro exI [of _ "(calls, calls) # xs"])
      (use 1 in \<open>auto simp: exchange_items_def subset_mset.add_mono\<close>)
qed

lemma agent_steps_emits: "emits (agent_steps env cfg k st) (turn_spec k (lp_accepted st))"
proof (induction k arbitrary: st)
  case 0
  show ?case by (simp add: emits_failA turn_spec_none)
next
  case (Suc k)
  show ?case
    unfolding agent_steps.simps
  proof (rule emits_bind [OF agent_step_emits])
    fix result n
    assume step: "step_spec (lp_accepted st) (Inr result) n"
    show "emits (case result of SR_Finished answer \<Rightarrow> retA answer | SR_Next st' \<Rightarrow> agent_steps env cfg k st')
        (\<lambda>r n'. turn_spec (Suc k) (lp_accepted st) r (n @ n'))"
    proof (cases result)
      case (SR_Finished answer)
      with step show ?thesis by (auto intro!: emits_retA turn_spec_one)
    next
      case (SR_Next st')
      with step show ?thesis by (auto intro: emits_mono [OF Suc.IH turn_spec_more])
    qed
  qed (auto intro: turn_spec_one)
qed

lemma start_request_emits:
  "emits (start_request env) (\<lambda>r n. silent n \<and> (\<forall>x. r = Inr x \<longrightarrow> lp_accepted x = []))"
  by (rule emits_value [OF only_emits [OF start_request_neutral neutral_silent]])
    (auto simp: start_request_def agent_simps)

lemma execute_turn_inner_emits: "emits (execute_turn_inner env cfg) (turn_spec (lc_max_steps cfg) [])"
  unfolding execute_turn_inner_def
proof (rule emits_bind [OF start_request_emits])
  fix st :: LoopState and n
  assume "silent n \<and> (\<forall>x. (Inr st :: AgentError + LoopState) = Inr x \<longrightarrow> lp_accepted x = [])"
  then have n: "silent n" and st: "lp_accepted st = []" by auto
  show "emits (agent_steps env cfg (lc_max_steps cfg) st) (\<lambda>r n'. turn_spec (lc_max_steps cfg) [] r (n @ n'))"
    by (rule emits_mono [OF agent_steps_emits]) (simp add: st turn_spec_silent [OF n])
qed (simp add: turn_spec_none)

lemma execute_turn_emits: "emits (execute_turn_with_config env cfg) (turn_spec (lc_max_steps cfg) [])"
proof -
  have inner: "emits (bindA (askA (av_turn_started env) (\<lambda>_. [])) (\<lambda>_. execute_turn_inner env cfg))
      (turn_spec (lc_max_steps cfg) [])"
    by (intro emits_bindA emits_askA) (simp_all add: turn_spec_none execute_turn_inner_emits)
  have tried: "emits (tryA (bindA (askA (av_turn_started env) (\<lambda>_. [])) (\<lambda>_. execute_turn_inner env cfg)))
      (\<lambda>r n. case r of Inl _ \<Rightarrow> False | Inr outcome \<Rightarrow> turn_spec (lc_max_steps cfg) [] outcome n)"
    by (rule emits_tryA) (simp add: inner)
  have weak: "turn_spec k a (Inr x) n \<Longrightarrow> turn_spec k a (Inl e) n" for k a x n e
    unfolding turn_spec_def isl_def by blast
  show ?thesis
    unfolding execute_turn_with_config_def
    by (rule emits_bind [OF tried])
      (auto intro!: emits_bindA emits_tryA emits_askA emits_liftA split: sum.split elim!: weak)
qed

section \<open>Provider calls of a Turn\<close>

text \<open>The items of preparing and executing a batch, and of recording, are no provider calls.\<close>

lemma task_step_local: "only local_item (task_step env t)"
proof -
  have progress: "only local_item (forA (report_progress env i) vs u)" for i vs u
    by (auto simp: report_progress_def intro!: only_intros)
  show ?thesis
    by (cases "(env, t)" rule: task_step.cases)
      (auto intro!: only_intros progress split: prod.split)
qed

lemma task_step_less:
  assumes "\<not> task_done t"
  shows "emits (task_step env t) (\<lambda>r n. list_all local_item n \<and> (\<forall>t'. r = Inr t' \<longrightarrow> task_rank t' < task_rank t))"
  by (rule emits_value [OF task_step_local [unfolded only_def]]) (rule task_step_decreases [OF _ assms])

lemma run_task_local: "only local_item (run_task env t)"
proof (induction "task_rank t" arbitrary: t rule: less_induct)
  case less
  show ?case
  proof (cases "task_done t")
    case True
    then show ?thesis by (cases t) (auto simp: run_task_eq intro: only_intros)
  next
    case False
    then have eq: "run_task env t = bindA (task_step env t) (run_task env)"
      by (subst run_task_eq) (auto split: Task.split)
    show ?thesis
      unfolding eq only_def
      by (rule emits_bind [OF task_step_less [OF False]])
        (auto intro: emits_mono [OF less.hyps [unfolded only_def]])
  qed
qed

lemma run_buffered_local: "only local_item (run_buffered env ts)"
proof (induction "sum_list (map task_rank ts)" arbitrary: ts rule: less_induct)
  case less
  have step: "emits (bindA (task_step env (ts ! chosen ts k)) (\<lambda>t. run_buffered env (ts[chosen ts k := t])))
      (\<lambda>_ n. list_all local_item n)" if "runnable ts \<noteq> []" for k
    using chosen_runnable [OF that, of k]
    by (intro emits_bind [OF task_step_less])
      (auto intro!: emits_mono [OF less.hyps [unfolded only_def]] simp: map_update sum_list_update_less)
  then show ?case
    unfolding only_def
    by (subst run_buffered_eq) (auto intro!: emits_retA emits_bindA emits_pollA)
qed

lemma run_sequential_local: "only local_item (run_sequential env ps b)"
  by (induction ps arbitrary: b)
    (auto intro!: only_intros simp: execute_prepared_def run_task_local split: sum.split)

lemma run_tools_local: "only local_item (run_tools env cfg tools calls st)"
proof -
  have prepare: "only local_item (prepare_call env tools call ps)" for call ps
    by (rule only_mono [OF prepare_call_neutral neutral_local])
  have result: "only local_item (record_result env x rs)" for x rs
    by (auto simp: record_result_def Let_def intro!: only_intros split: prod.split sum.split)
  show ?thesis
    by (auto simp: run_tools_def prepare_and_execute_def run_batch_def Let_def
        intro!: only_intros prepare result run_sequential_local run_buffered_local
        split: ToolExecutionMode.split option.split)
qed

lemma accept_response_local: "only local_item (accept_response env tools resp calls0 st)"
  by (auto simp: accept_response_def Let_def intro!: only_intros)

lemma conclude_local: "only local_item (conclude env final st rs)"
  by (auto simp: conclude_def intro!: only_intros only_mono [OF after_step_neutral neutral_local]
      only_mono [OF next_step_neutral neutral_local])

lemma handle_response_local: "only local_item (handle_response env cfg tools st x)"
  by (auto simp: handle_response_def intro!: only_intros accept_response_local run_tools_local conclude_local
      split: prod.split)

lemma local_then:
  assumes "only local_item m" and "\<And>x. closes env None k (\<lambda>_. None) (g x)"
  shows "closes env None k (\<lambda>_. None) (bindA m g)"
  by (rule closes_bind [OF closes_local [OF assms(1)] assms(2)]) simp

lemma agent_step_closes: "closes env None 2 (\<lambda>_. None) (agent_step env cfg step st)"
proof -
  have stream: "closes env None 2 (\<lambda>_. None) (bindA (stream_response env r) (handle_response env cfg tools st))" for r tools st
    by (rule closes_bind [OF stream_response_closes closes_local [OF handle_response_local]]) simp
  show ?thesis
    unfolding agent_step_def case_prod_beta
    by (rule local_then [OF only_mono [OF prepare_request_neutral neutral_local] stream])
qed

lemma agent_steps_closes: "closes env None (2 * k) (\<lambda>_. None) (agent_steps env cfg k st)"
proof (induction k arbitrary: st)
  case (Suc k)
  have "closes env None (2 * k) (\<lambda>_. None) (case result of SR_Finished answer \<Rightarrow> retA answer
      | SR_Next st' \<Rightarrow> agent_steps env cfg k st')" for result
    using Suc.IH by (auto intro: closes_basic split: StepResult.split)
  then show ?case
    unfolding agent_steps.simps by (rule closes_bind [OF agent_step_closes]) simp
qed (simp add: closes_basic)

lemma execute_turn_closes: "closes env None (2 * lc_max_steps cfg) (\<lambda>_. None) (execute_turn_with_config env cfg)"
proof -
  have inner: "closes env None (2 * lc_max_steps cfg) (\<lambda>_. None) (execute_turn_inner env cfg)"
    unfolding execute_turn_inner_def
    by (intro local_then only_mono [OF start_request_neutral neutral_local])
      (simp_all add: agent_steps_closes)
  have tried: "closes env None (2 * lc_max_steps cfg) (\<lambda>_. None)
      (tryA (bindA (askA (av_turn_started env) (\<lambda>_. [])) (\<lambda>_. execute_turn_inner env cfg)))"
    by (rule closes_mono [OF closes_try [OF local_then [OF only_basic(6) inner]]]) (auto split: sum.split)
  have ended: "closes env None 0 (\<lambda>_. None) (bindA (tryA (askA (av_turn_finished env) (\<lambda>_. []))) (\<lambda>ended. liftA (f ended)))"
    for f :: "AgentError + unit \<Rightarrow> AgentError + string"
    by (rule closes_local) (auto intro!: only_intros)
  show ?thesis
    unfolding execute_turn_with_config_def
    by (rule closes_bind [OF tried ended]) simp
qed

section \<open>Properties\<close>

text \<open>The messages kept may start at the first one, or at a user's, and fit the model's budget.\<close>

definition keepable :: "('z) agent_ext_scheme \<Rightarrow> ModelRequest \<Rightarrow> nat \<Rightarrow> bool" where
  "keepable A r j \<longleftrightarrow> (j = 0 \<or> j < length (mr_messages r) \<and> mm_role (mr_messages r ! j) = RoleUser)
     \<and> ax_fixed_bytes A (mr_model r) (mr_reasoning r) (mr_system r) (mr_tools r)
         + exact_bytes A (drop j (mr_messages r)) \<le> context_budget_bytes (mr_model r)"

text \<open>
  C36. The context budget keeps the longest history it can: the messages of a request that
  passes start at the least position at which they may start and fit the byte budget of the
  model, nothing else of the request changes, and a request is refused only if there is no
  such position. (Every message serializes to at least one byte.)
\<close>

theorem context_budget_keeps_most:
  assumes bytes: "\<And>m. 0 < ax_message_bytes A m"
  shows "case apply_context_budget A r of
      Inl _ \<Rightarrow> \<not> (\<exists>j. keepable A r j)
    | Inr (k, r') \<Rightarrow> keepable A r k \<and> k = (LEAST j. keepable A r j)
        \<and> r' = r\<lparr>mr_messages := drop k (mr_messages r)\<rparr>"
proof -
  let ?b = "context_budget_bytes (mr_model r)" and ?ms = "mr_messages r"
  let ?f = "ax_fixed_bytes A (mr_model r) (mr_reasoning r) (mr_system r) (mr_tools r)"
  let ?s = "retained_start A (?b - ?f) (rev (List.enumerate 0 ?ms)) 2 None"
  have small: "?b - ?f < usize_max" using context_budget_bounds [of "mr_model r"] by linarith
  have keep: "keepable A r j \<longleftrightarrow> ?f \<le> ?b \<and> (j = 0 \<and> exact_bytes A ?ms \<le> ?b - ?f \<or> fits A (?b - ?f) ?ms j)" for j
    by (auto simp: keepable_def fits_def)
  have whole: "message_array_bytes A ?ms \<le> ?b - ?f \<longleftrightarrow> exact_bytes A ?ms \<le> ?b - ?f"
    using small by (auto simp: message_array_exact [OF bytes])
  show ?thesis
  proof (cases "?f \<le> ?b \<and> \<not> exact_bytes A ?ms \<le> ?b - ?f")
    case True
    have least: "(\<forall>i. ?s = Some i \<longrightarrow> fits A (?b - ?f) ?ms i)
        \<and> (\<forall>j. fits A (?b - ?f) ?ms j \<longrightarrow> (\<exists>i. ?s = Some i \<and> i \<le> j))"
      by (rule retained_start_all [OF bytes small refl])
    from True have eq: "apply_context_budget A r = (case ?s of Some start \<Rightarrow> Inr (start, r\<lparr>mr_messages := drop start ?ms\<rparr>)
          | None \<Rightarrow> Inl (AE_Message (''latest model turn exceeds the '' @ show_nat (?b - ?f)
                          @ ''-byte history budget'')))"
      by (simp add: apply_context_budget_def Let_def whole)
    show ?thesis
    proof (cases ?s)
      case None
      with least eq keep True show ?thesis by auto
    next
      case (Some i)
      with least True keep have "keepable A r i" and "\<And>j. keepable A r j \<Longrightarrow> i \<le> j" by auto
      then show ?thesis using eq Some by (simp add: Least_equality)
    qed
  next
    case False
    show ?thesis
    proof (cases "?f \<le> ?b")
      case True
      with False keep have "keepable A r 0" by auto
      moreover from this have "(LEAST j. keepable A r j) = 0" by (simp add: Least_equality)
      ultimately show ?thesis using True False by (simp add: apply_context_budget_def Let_def whole)
    qed (auto simp: apply_context_budget_def Let_def keep)
  qed
qed

theorem context_budget_keeps_most_witness: "(LEAST j. keepable demo_env demo_long j) = 2"
proof -
  have "0 < ax_message_bytes demo_env m" for m by (simp add: demo_env_def)
  from context_budget_keeps_most [of demo_env demo_long, OF this] show ?thesis by (simp add: demo_budget)
qed

text \<open>What the log of a Turn's responses and results holds.\<close>

fun response_calls :: "LogItem \<Rightarrow> AgentToolCall list list" where
  "response_calls (LG_Response calls) = [calls]"
| "response_calls (LG_Result _) = []"

definition responses :: "TraceItem list \<Rightarrow> AgentToolCall list list" where
  "responses tr = concat (map response_calls (conversation tr))"

lemma responses_exchanges:
  assumes "conversation tr = concat (map exchange_items xs)"
  shows "responses tr = map fst xs"
proof -
  have "concat (map response_calls (map LG_Result cs)) = []" for cs by (induction cs) simp_all
  then have "concat (map response_calls (concat (map exchange_items xs))) = map fst xs"
    by (induction xs) (simp_all add: exchange_items_def del: map_map)
  with assms show ?thesis by (simp add: responses_def)
qed

lemma accepted_all_distinct:
  "accepted_all accepted css \<Longrightarrow> distinct (map call_id (concat css))
    \<and> set (map call_id (concat css)) \<inter> set accepted = {}"
proof (induction css arbitrary: accepted)
  case (Cons calls css)
  then have "acceptable accepted calls" and "distinct (map call_id (concat css))
      \<and> set (map call_id (concat css)) \<inter> set (accepted @ map call_id calls) = {}"
    using Cons.IH [of "accepted @ map call_id calls"] by simp_all
  then show ?case unfolding acceptable_def by (simp del: map_concat) blast
qed simp

lemma distinct_submultiset:
  assumes "mset xs \<subseteq># mset ys" and "distinct ys"
  shows "distinct xs"
  unfolding distinct_count_atmost_1
proof
  fix a
  have "count (mset xs) a \<le> count (mset ys) a" using assms(1) by (rule mset_subset_eq_count)
  also have "\<dots> \<le> 1" using assms(2) by (simp add: distinct_count_atmost_1)
  finally have "count (mset xs) a \<le> 1" .
  moreover have "0 < count (mset xs) a \<longleftrightarrow> a \<in> set xs" by simp
  ultimately show "count (mset xs) a = (if a \<in> set xs then 1 else 0)" by (auto simp del: count_greater_zero_iff)
qed

lemma accepted_all_each: "accepted_all accepted css \<Longrightarrow> list_all (\<lambda>calls. \<exists>acc. acceptable acc calls) css"
  by (induction css arbitrary: accepted) auto

lemma execute_turn_trace:
  assumes "execute_turn_with_config env cfg \<lparr>ag_world = w, ag_trace = []\<rparr> = (r, s')"
  shows "turn_spec (lc_max_steps cfg) [] r (ag_trace s')"
    and "dispatches (ag_trace s') \<le> 2 * lc_max_steps cfg"
    and "takes_reports env \<Longrightarrow> open_call None (ag_trace s') = Some None"
proof -
  show "turn_spec (lc_max_steps cfg) [] r (ag_trace s')"
    using emits_apply [OF execute_turn_emits assms] by auto
  obtain n where "ag_trace s' = n" and "dispatches n \<le> 2 * lc_max_steps cfg"
    and "takes_reports env \<longrightarrow> open_call None n = Some (case r of Inl _ \<Rightarrow> None | Inr x \<Rightarrow> None)"
    using emits_apply [OF execute_turn_closes [unfolded closes_def] assms] by auto
  then show "dispatches (ag_trace s') \<le> 2 * lc_max_steps cfg"
    and "takes_reports env \<Longrightarrow> open_call None (ag_trace s') = Some None"
    by (auto split: sum.splits)
qed

lemma turn_spec_executed:
  assumes "turn_spec k [] r tr"
  shows "distinct (map call_id (executed tr)) \<and> set (executed tr) \<subseteq> set (concat (responses tr))"
proof -
  obtain xs :: "exchange list" where xs: "conversation tr = concat (map exchange_items xs)"
      "accepted_all [] (map fst xs)" "mset (executed tr) \<subseteq># mset (concat (map fst xs))"
    using assms unfolding turn_spec_def by blast
  have sub: "mset (map call_id (executed tr)) \<subseteq># mset (map call_id (concat (map fst xs)))"
    using image_mset_subseteq_mono [OF xs(3), of call_id] by simp
  have "distinct (map call_id (executed tr))"
    using accepted_all_distinct [OF xs(2)] by (intro distinct_submultiset [OF sub]) simp
  moreover have "set (executed tr) \<subseteq> set (concat (map fst xs))"
    using mset_subset_eqD [OF xs(3)] by auto
  ultimately show ?thesis by (simp add: responses_exchanges [OF xs(1)])
qed

text \<open>
  C37. Every response is answered: whatever the provider, the tools and the hooks do, the
  record of a Turn is a sequence of responses, each followed by results of its own calls, in
  their order and each once. Every response but the last has the results of all its calls, and
  the last one too when the Turn returns an answer.
\<close>

theorem responses_answered:
  "case execute_turn_with_config env cfg \<lparr>ag_world = w, ag_trace = []\<rparr> of (r, s') \<Rightarrow>
     \<exists>xs :: exchange list. conversation (ag_trace s') = concat (map exchange_items xs)
       \<and> list_all (\<lambda>x. subseq (snd x) (fst x)) xs
       \<and> list_all (\<lambda>x. snd x = fst x) (if isl r then butlast xs else xs)"
proof (cases "execute_turn_with_config env cfg \<lparr>ag_world = w, ag_trace = []\<rparr>")
  case (Pair r s')
  from execute_turn_trace(1) [OF Pair]
  obtain xs :: "exchange list" where "conversation (ag_trace s') = concat (map exchange_items xs)"
      "list_all (\<lambda>x. subseq (snd x) (fst x)) xs" "list_all (\<lambda>x. snd x = fst x) (butlast xs)"
      "\<not> isl r \<longrightarrow> list_all (\<lambda>x. snd x = fst x) xs"
    unfolding turn_spec_def by blast
  then show ?thesis unfolding Pair prod.case by (intro exI [of _ xs]) simp
qed

text \<open>
  C38. A tool runs at most once for each call: over a whole Turn, in either mode of
  execution, whatever the executor picks and on every path, the calls whose tools ran have distinct
  identifiers and were requested by a recorded response.
\<close>

theorem tools_run_once:
  "case execute_turn_with_config env cfg \<lparr>ag_world = w, ag_trace = []\<rparr> of (_, s') \<Rightarrow>
     distinct (map call_id (executed (ag_trace s')))
     \<and> set (executed (ag_trace s')) \<subseteq> set (concat (responses (ag_trace s')))"
proof (cases "execute_turn_with_config env cfg \<lparr>ag_world = w, ag_trace = []\<rparr>")
  case (Pair r s')
  from turn_spec_executed [OF execute_turn_trace(1) [OF Pair]] show ?thesis by (simp add: Pair)
qed

text \<open>
  C39. No provider call is left open: when the runtime takes the reports of the loop, every
  provider call a Turn starts is finished before the next one starts and before the Turn ends,
  with an answer or with an error.
\<close>

theorem provider_calls_closed:
  assumes "takes_reports env"
  shows "open_call None (ag_trace (snd (execute_turn_with_config env cfg \<lparr>ag_world = w, ag_trace = []\<rparr>))) = Some None"
  using execute_turn_trace(3) [of env cfg w _ "snd (execute_turn_with_config env cfg \<lparr>ag_world = w, ag_trace = []\<rparr>)"] assms
  by (metis prod.collapse)

theorem provider_calls_closed_witness:
  "open_call None (ag_trace (snd (execute_turn_with_config demo_env \<lparr>lc_max_steps = 4, lc_tool_execution = Sequential\<rparr>
     \<lparr>ag_world = 0, ag_trace = []\<rparr>))) = Some None"
  by (rule provider_calls_closed) (simp add: takes_reports_def demo_env_def)

text \<open>
  C40. A Turn is bounded: with \<open>k\<close> steps it dispatches at most \<open>2 * k\<close> requests and records at
  most \<open>k\<close> responses, each with at most 64 tool calls; the identifiers of all its calls are
  pairwise distinct, not empty and at most 256 bytes long.
\<close>

theorem turn_within_limits:
  "case execute_turn_with_config env cfg \<lparr>ag_world = w, ag_trace = []\<rparr> of (_, s') \<Rightarrow>
     dispatches (ag_trace s') \<le> 2 * lc_max_steps cfg \<and> length (responses (ag_trace s')) \<le> lc_max_steps cfg
     \<and> list_all (\<lambda>calls. length calls \<le> 64) (responses (ag_trace s'))
     \<and> distinct (map call_id (concat (responses (ag_trace s'))))
     \<and> list_all (\<lambda>c. call_id c \<noteq> [] \<and> length (call_id c) \<le> 256) (concat (responses (ag_trace s')))"
proof (cases "execute_turn_with_config env cfg \<lparr>ag_world = w, ag_trace = []\<rparr>")
  case (Pair r s')
  obtain xs :: "exchange list" where xs: "conversation (ag_trace s') = concat (map exchange_items xs)"
      "accepted_all [] (map fst xs)" "length xs \<le> lc_max_steps cfg"
    using execute_turn_trace(1) [OF Pair] unfolding turn_spec_def by blast
  have each: "list_all (\<lambda>calls. length calls \<le> 64 \<and> list_all (\<lambda>c. call_id c \<noteq> [] \<and> length (call_id c) \<le> 256) calls)
      (map fst xs)"
    using accepted_all_each [OF xs(2)]
    by (auto simp: list_all_iff acceptable_def max_tool_calls_per_step_def max_tool_call_id_bytes_def)
  then show ?thesis
    using execute_turn_trace(2) [OF Pair] accepted_all_distinct [OF xs(2)] xs(3)
    by (auto simp: Pair responses_exchanges [OF xs(1)] list_all_iff)
qed

end
