(* ===== verification/Relay.thy ===== *)
theory Relay
  imports Domain "HOL-Library.Word" "HOL-Library.AList"
begin

text \<open>
  The relay, \<open>crates/mews-relay/src/lib.rs\<close>: admissions signed by an installation's authority,
  frames, and the router that forwards frames between registered connections. Base64, Ed25519
  and the text form of an instant are parameters; a bounded \<open>mpsc\<close> channel is a list of the
  frames in it and whether its receiver lives.
\<close>

section \<open>Signatures\<close>

record relay_ext =
  rx_base64_decode :: "string \<Rightarrow> string option" \<comment> \<open>URL safe, no padding\<close>
  rx_ed25519_verify :: "string \<Rightarrow> string \<Rightarrow> string \<Rightarrow> bool"
  rx_rfc3339 :: "DateTime \<Rightarrow> string"

text \<open>\<open>decode\<close> of \<open>verify_signature\<close>: exactly \<open>n\<close> bytes\<close>

definition decode_bytes :: "('z) relay_ext_scheme \<Rightarrow> nat \<Rightarrow> string \<Rightarrow> string option" where
  "decode_bytes A n s =
     (case rx_base64_decode A s of None \<Rightarrow> None | Some b \<Rightarrow> if length b = n then Some b else None)"

definition verify_signature :: "('z) relay_ext_scheme \<Rightarrow> string \<Rightarrow> string \<Rightarrow> string \<Rightarrow> bool" where
  "verify_signature A public_key message signature =
     (case decode_bytes A 32 public_key of
        None \<Rightarrow> False
      | Some key \<Rightarrow> (case decode_bytes A 64 signature of
          None \<Rightarrow> False
        | Some sig \<Rightarrow> rx_ed25519_verify A key message sig))"

section \<open>Identities and frames\<close>

definition max_ciphertext_bytes :: nat where
  "max_ciphertext_bytes = 64 * 1024"

datatype RelayError =
  RE_Unauthorized | RE_InvalidSignature | RE_InvalidPeerId | RE_InvalidStreamId
| RE_FrameTooLarge nat nat | RE_SourceMismatch | RE_ConnectionReplaced | RE_DestinationOffline
| RE_DestinationBusy

type_synonym RelayPeerId = string

definition peer_id_byte :: "char \<Rightarrow> bool" where
  "peer_id_byte c \<longleftrightarrow> c \<in> set ''abcdefghijklmnopqrstuvwxyzABCDEFGHIJKLMNOPQRSTUVWXYZ0123456789-_.:''"

definition relay_peer_id :: "string \<Rightarrow> RelayError + RelayPeerId" where
  "relay_peer_id s =
     (if s = [] \<or> 128 < length s \<or> \<not> list_all peer_id_byte s then Inl RE_InvalidPeerId else Inr s)"

record RelayAdmission =
  ra_installation_id :: InstallationId
  ra_peer_id :: RelayPeerId
  ra_peer_public_key :: string
  ra_authority_public_key :: string
  ra_expires_at :: DateTime
  ra_signature :: string

record RelayIdentity =
  ri_installation_id :: InstallationId
  ri_peer_id :: RelayPeerId
  ri_public_key :: string
  ri_authority_public_key :: string
  ri_admission :: "RelayAdmission option"

abbreviation nul :: char where "nul \<equiv> CHR 0x00"

definition signing_bytes :: "('z) relay_ext_scheme \<Rightarrow> RelayAdmission \<Rightarrow> string" where
  "signing_bytes A a =
     ''mews-relay-admission-v1'' @ nul # ra_installation_id a @ nul # ra_peer_id a @ nul # ra_peer_public_key a
       @ nul # ra_authority_public_key a @ nul # rx_rfc3339 A (ra_expires_at a)"

text \<open>A \<open>RelaySigner\<close> is its public key and its signing function.\<close>

definition admission_create ::
    "('z) relay_ext_scheme \<Rightarrow> string \<times> (string \<Rightarrow> string) \<Rightarrow> InstallationId \<Rightarrow> RelayPeerId \<Rightarrow> string \<Rightarrow> DateTime
      \<Rightarrow> RelayAdmission" where
  "admission_create A authority installation peer peer_key expires =
     (let a = \<lparr>ra_installation_id = installation, ra_peer_id = peer, ra_peer_public_key = peer_key,
               ra_authority_public_key = fst authority, ra_expires_at = expires, ra_signature = []\<rparr>
      in a\<lparr>ra_signature := snd authority (signing_bytes A a)\<rparr>)"

definition admission_verify :: "('z) relay_ext_scheme \<Rightarrow> DateTime \<Rightarrow> RelayAdmission \<Rightarrow> bool" where
  "admission_verify A now a \<longleftrightarrow> now < ra_expires_at a
     \<and> verify_signature A (ra_authority_public_key a) (signing_bytes A a) (ra_signature a)"

text \<open>\<open>SignedAdmissionAuthenticator::is_enrolled\<close> at an instant\<close>

definition signed_admission :: "('z) relay_ext_scheme \<Rightarrow> DateTime \<Rightarrow> RelayIdentity \<Rightarrow> bool" where
  "signed_admission A now i =
     (case ri_admission i of
        None \<Rightarrow> False
      | Some a \<Rightarrow> admission_verify A now a \<and> ra_installation_id a = ri_installation_id i
          \<and> ra_peer_id a = ri_peer_id i \<and> ra_peer_public_key a = ri_public_key i
          \<and> ra_authority_public_key a = ri_authority_public_key i)"

definition registration_message :: "RelayIdentity \<Rightarrow> string \<Rightarrow> string" where
  "registration_message i challenge =
     ''mews-relay-registration-v1'' @ nul # ri_installation_id i @ nul # ri_peer_id i
       @ nul # ri_authority_public_key i @ nul # challenge"

record RelayFrame =
  rf_installation_id :: InstallationId
  rf_source_id :: RelayPeerId
  rf_destination_id :: RelayPeerId
  rf_subject_id :: string
  rf_sequence :: "64 word"
  rf_ciphertext :: "8 word list"

definition frame_validate :: "RelayFrame \<Rightarrow> RelayError + unit" where
  "frame_validate f =
     bindR (require (rf_subject_id f \<noteq> [] \<and> length (rf_subject_id f) \<le> 128) RE_InvalidStreamId) (\<lambda>_.
     require (length (rf_ciphertext f) \<le> max_ciphertext_bytes)
       (RE_FrameTooLarge (length (rf_ciphertext f)) max_ciphertext_bytes))"

definition frame_new ::
    "InstallationId \<Rightarrow> RelayPeerId \<Rightarrow> RelayPeerId \<Rightarrow> string \<Rightarrow> 64 word \<Rightarrow> 8 word list \<Rightarrow> RelayError + RelayFrame" where
  "frame_new installation source destination subject sequence ciphertext =
     (let f = \<lparr>rf_installation_id = installation, rf_source_id = source, rf_destination_id = destination,
               rf_subject_id = subject, rf_sequence = sequence, rf_ciphertext = ciphertext\<rparr>
      in bindR (require (subject \<noteq> [] \<and> length subject \<le> 128) RE_InvalidStreamId) (\<lambda>_.
         bindR (require (length ciphertext \<le> max_ciphertext_bytes)
           (RE_FrameTooLarge (length ciphertext) max_ciphertext_bytes)) (\<lambda>_. Inr f)))"

section \<open>The router\<close>

record RouteKey =
  rk_installation_id :: InstallationId
  rk_authority_public_key :: string
  rk_peer_id :: RelayPeerId

text \<open>The sender of a route is the number of its channel.\<close>

record Route =
  rt_generation :: "64 word"
  rt_sender :: nat

record Channel =
  ch_queue :: "RelayFrame list"
  ch_open :: bool

record Router =
  rr_queue_capacity :: nat
  rr_next_generation :: "64 word"
  rr_routes :: "(RouteKey \<times> Route) list"
  rr_channels :: "Channel list"

record RelayConnection =
  cx_identity :: RelayIdentity
  cx_key :: RouteKey
  cx_generation :: "64 word"
  cx_receiver :: nat

definition router_new :: "nat \<Rightarrow> string + Router" where
  "router_new capacity =
     (if capacity = 0 then Inl ''relay queue capacity must be greater than zero''
      else Inr \<lparr>rr_queue_capacity = capacity, rr_next_generation = 0, rr_routes = [],
                rr_channels = []\<rparr>)"

record RelayRegistration =
  rg_identity :: RelayIdentity
  rg_challenge :: string

text \<open>\<open>random\<close> is what \<open>OsRng\<close> fills the challenge with.\<close>

definition challenge ::
    "(RelayIdentity \<Rightarrow> bool) \<Rightarrow> string \<Rightarrow> RelayIdentity \<Rightarrow> RelayError + RelayRegistration" where
  "challenge enrolled random i =
     bindR (require (enrolled i) RE_Unauthorized) (\<lambda>_. Inr \<lparr>rg_identity = i, rg_challenge = random\<rparr>)"

definition route_key :: "RelayIdentity \<Rightarrow> RouteKey" where
  "route_key i = \<lparr>rk_installation_id = ri_installation_id i, rk_authority_public_key = ri_authority_public_key i,
     rk_peer_id = ri_peer_id i\<rparr>"

definition register_route ::
    "('z) relay_ext_scheme \<Rightarrow> (RelayIdentity \<Rightarrow> bool) \<Rightarrow> RelayIdentity \<Rightarrow> string \<Rightarrow> string \<Rightarrow> Router
      \<Rightarrow> RelayError + RelayConnection \<times> Router" where
  "register_route A enrolled i nonce signature r =
     bindR (require (enrolled i) RE_Unauthorized) (\<lambda>_.
     bindR (require (verify_signature A (ri_public_key i) (registration_message i nonce) signature)
       RE_InvalidSignature) (\<lambda>_.
     let generation = rr_next_generation r + 1; channel = length (rr_channels r) in
     Inr (\<lparr>cx_identity = i, cx_key = route_key i, cx_generation = generation, cx_receiver = channel\<rparr>,
          r\<lparr>rr_next_generation := generation,
            rr_routes := AList.update (route_key i) \<lparr>rt_generation = generation, rt_sender = channel\<rparr> (rr_routes r),
            rr_channels := rr_channels r @ [\<lparr>ch_queue = [], ch_open = True\<rparr>]\<rparr>)))"

definition registration_complete ::
    "('z) relay_ext_scheme \<Rightarrow> (RelayIdentity \<Rightarrow> bool) \<Rightarrow> RelayRegistration \<Rightarrow> string \<Rightarrow> Router
      \<Rightarrow> RelayError + RelayConnection \<times> Router" where
  "registration_complete A enrolled g signature r =
     register_route A enrolled (rg_identity g) (rg_challenge g) signature r"

section \<open>Connections\<close>

definition is_current :: "RelayConnection \<Rightarrow> Router \<Rightarrow> bool" where
  "is_current c r =
     (case map_of (rr_routes r) (cx_key c) of None \<Rightarrow> False | Some route \<Rightarrow> rt_generation route = cx_generation c)"

text \<open>\<open>try_send\<close> on a bounded channel\<close>

definition try_send :: "nat \<Rightarrow> RelayFrame \<Rightarrow> Router \<Rightarrow> RelayError + Router" where
  "try_send channel f r =
     (let ch = rr_channels r ! channel in
      bindR (require (ch_open ch) RE_DestinationOffline) (\<lambda>_.
      bindR (require (length (ch_queue ch) < rr_queue_capacity r) RE_DestinationBusy) (\<lambda>_.
      Inr (r\<lparr>rr_channels := (rr_channels r)[channel := ch\<lparr>ch_queue := ch_queue ch @ [f]\<rparr>]\<rparr>))))"

definition connection_send :: "RelayConnection \<Rightarrow> RelayFrame \<Rightarrow> Router \<Rightarrow> RelayError + Router" where
  "connection_send c f r =
     bindR (frame_validate f) (\<lambda>_.
     bindR (require (rf_installation_id f = ri_installation_id (cx_identity c)
         \<and> rf_source_id f = ri_peer_id (cx_identity c)) RE_SourceMismatch) (\<lambda>_.
     bindR (require (is_current c r) RE_ConnectionReplaced) (\<lambda>_.
     bindR (okOr RE_DestinationOffline (map_of (rr_routes r)
       \<lparr>rk_installation_id = rf_installation_id f,
        rk_authority_public_key = ri_authority_public_key (cx_identity c),
        rk_peer_id = rf_destination_id f\<rparr>)) (\<lambda>route.
     try_send (rt_sender route) f r))))"

text \<open>
  \<open>receiver.recv().await\<close>: a waiting frame, or none when no route holds the channel's sender
  any more; with neither it waits.
\<close>

datatype received = Rc_Waits | Rc_Closed | Rc_Frame RelayFrame

definition channel_recv :: "nat \<Rightarrow> Router \<Rightarrow> received \<times> Router" where
  "channel_recv channel r =
     (let ch = rr_channels r ! channel in
      case ch_queue ch of
        f # fs \<Rightarrow> (Rc_Frame f, r\<lparr>rr_channels := (rr_channels r)[channel := ch\<lparr>ch_queue := fs\<rparr>]\<rparr>)
      | [] \<Rightarrow> if list_ex (\<lambda>(_, route). rt_sender route = channel) (rr_routes r) then (Rc_Waits, r) else (Rc_Closed, r))"

text \<open>
  \<open>receive\<close> looks whether the route is current before and after the wait; \<open>during\<close> is what
  happens to the router in between. The result is none while it waits.
\<close>

definition connection_receive ::
    "RelayConnection \<Rightarrow> (Router \<Rightarrow> Router) \<Rightarrow> Router \<Rightarrow> RelayFrame option option \<times> Router" where
  "connection_receive c during r =
     (if \<not> is_current c r then (Some None, r)
      else (case channel_recv (cx_receiver c) (during r) of
          (Rc_Waits, r') \<Rightarrow> (None, r')
        | (Rc_Closed, r') \<Rightarrow> (Some None, r')
        | (Rc_Frame f, r') \<Rightarrow> (Some (if is_current c r' then Some f else None), r')))"

text \<open>Dropping a connection removes its route, if that is still its own, and its receiver.\<close>

definition connection_drop :: "RelayConnection \<Rightarrow> Router \<Rightarrow> Router" where
  "connection_drop c r =
     (let r' = (if is_current c r then r\<lparr>rr_routes := AList.delete (cx_key c) (rr_routes r)\<rparr> else r)
      in r'\<lparr>rr_channels := (rr_channels r')[cx_receiver c :=
              \<lparr>ch_queue = [], ch_open = False\<rparr>]\<rparr>)"

end
