(* ===== verification/RelayInv.thy ===== *)
theory RelayInv
  imports Relay
begin

text \<open>
  The relay as a state machine: connections register, send, receive and are dropped in any
  order, and the wait inside a receive lets others act. The state keeps, beside the router, the
  live connections and the identities that have ever registered. The invariants hold as long as
  fewer than \<open>2 ^ 64\<close> connections have registered, when the generations have not wrapped.
\<close>

section \<open>Steps\<close>

record RelayWorld =
  rw_router :: Router
  rw_live :: "RelayConnection list"
  rw_registered :: "RelayIdentity list"

inductive relay_step ::
    "('z) relay_ext_scheme \<Rightarrow> (DateTime \<Rightarrow> RelayIdentity \<Rightarrow> bool) \<Rightarrow> RelayWorld \<Rightarrow> RelayWorld \<Rightarrow> bool"
  for A enrolled where
  registers: "register_route A (enrolled now) i nonce signature (rw_router w) = Inr (c, r) \<Longrightarrow>
    relay_step A enrolled w (w\<lparr>rw_router := r, rw_live := c # rw_live w, rw_registered := i # rw_registered w\<rparr>)"
| sends: "c \<in> set (rw_live w) \<Longrightarrow> connection_send c f (rw_router w) = Inr r \<Longrightarrow>
    relay_step A enrolled w (w\<lparr>rw_router := r\<rparr>)"
| receives: "c \<in> set (rw_live w) \<Longrightarrow> channel_recv (cx_receiver c) (rw_router w) = (got, r) \<Longrightarrow>
    relay_step A enrolled w (w\<lparr>rw_router := r\<rparr>)"
| drops: "c \<in> set (rw_live w) \<Longrightarrow>
    relay_step A enrolled w (w\<lparr>rw_router := connection_drop c (rw_router w),
      rw_live := filter (\<lambda>c'. cx_receiver c' \<noteq> cx_receiver c) (rw_live w)\<rparr>)"

inductive relay_reach ::
    "('z) relay_ext_scheme \<Rightarrow> (DateTime \<Rightarrow> RelayIdentity \<Rightarrow> bool) \<Rightarrow> RelayWorld \<Rightarrow> bool"
  for A enrolled where
  relay_start: "router_new capacity = Inr r \<Longrightarrow>
    relay_reach A enrolled \<lparr>rw_router = r, rw_live = [], rw_registered = []\<rparr>"
| relay_more: "relay_reach A enrolled w \<Longrightarrow> relay_step A enrolled w w' \<Longrightarrow> relay_reach A enrolled w'"

section \<open>Invariants\<close>

abbreviation channel_of :: "RelayWorld \<Rightarrow> nat \<Rightarrow> Channel" where
  "channel_of w i \<equiv> rr_channels (rw_router w) ! i"

definition unwrapped :: "RelayWorld \<Rightarrow> bool" where
  "unwrapped w \<longleftrightarrow> length (rr_channels (rw_router w)) < 2 ^ 64"

text \<open>Connections are numbered by their channels, and the generation is that number plus one.\<close>

definition numbered :: "RelayWorld \<Rightarrow> bool" where
  "numbered w \<longleftrightarrow>
     rr_next_generation (rw_router w) = of_nat (length (rr_channels (rw_router w)))
     \<and> distinct (map cx_receiver (rw_live w))
     \<and> (\<forall>c \<in> set (rw_live w). cx_receiver c < length (rr_channels (rw_router w))
          \<and> cx_generation c = of_nat (Suc (cx_receiver c)) \<and> cx_key c = route_key (cx_identity c)
          \<and> cx_identity c \<in> set (rw_registered w) \<and> ch_open (channel_of w (cx_receiver c)))"

text \<open>Every route is the route of a live connection.\<close>

definition routed :: "RelayWorld \<Rightarrow> bool" where
  "routed w \<longleftrightarrow> distinct (map fst (rr_routes (rw_router w)))
     \<and> (\<forall>k route. map_of (rr_routes (rw_router w)) k = Some route \<longrightarrow>
          rt_generation route = of_nat (Suc (rt_sender route))
          \<and> (\<exists>c \<in> set (rw_live w). cx_key c = k \<and> cx_receiver c = rt_sender route))"

text \<open>
  What waits for a live connection was sent to its peer, within its installation and authority,
  by a registered peer of both, and is no more than the capacity.
\<close>

definition delivered_to :: "RelayIdentity list \<Rightarrow> RouteKey \<Rightarrow> RelayFrame \<Rightarrow> bool" where
  "delivered_to registered k f \<longleftrightarrow> frame_validate f = Inr ()
     \<and> rf_installation_id f = rk_installation_id k \<and> rf_destination_id f = rk_peer_id k
     \<and> (\<exists>i \<in> set registered. ri_installation_id i = rk_installation_id k
          \<and> ri_authority_public_key i = rk_authority_public_key k \<and> ri_peer_id i = rf_source_id f)"

definition isolated :: "RelayWorld \<Rightarrow> bool" where
  "isolated w \<longleftrightarrow> (\<forall>c \<in> set (rw_live w).
     length (ch_queue (channel_of w (cx_receiver c))) \<le> rr_queue_capacity (rw_router w)
     \<and> list_all (delivered_to (rw_registered w) (cx_key c)) (ch_queue (channel_of w (cx_receiver c))))"

definition relay_ok :: "RelayWorld \<Rightarrow> bool" where
  "relay_ok w \<longleftrightarrow> numbered w \<and> routed w \<and> isolated w"

lemma delivered_mono: "delivered_to is k f \<Longrightarrow> delivered_to (i # is) k f"
  by (auto simp: delivered_to_def)

lemma nth_update_if: "xs[i := x] ! j = (if i = j \<and> i < length xs then x else xs ! j)"
  by (cases "i < length xs") (simp_all add: nth_list_update list_update_beyond)

text \<open>Registered channels only grow, so an unwrapped state was reached through unwrapped states.\<close>

lemma register_route_Inr:
  assumes "register_route A enrolled i nonce signature r = Inr (c, r')"
  shows "enrolled i" and "verify_signature A (ri_public_key i) (registration_message i nonce) signature"
    and "c = \<lparr>cx_identity = i, cx_key = route_key i, cx_generation = rr_next_generation r + 1,
              cx_receiver = length (rr_channels r)\<rparr>"
    and "r' = r\<lparr>rr_next_generation := rr_next_generation r + 1,
            rr_routes := AList.update (route_key i)
              \<lparr>rt_generation = rr_next_generation r + 1, rt_sender = length (rr_channels r)\<rparr> (rr_routes r),
            rr_channels := rr_channels r @ [\<lparr>ch_queue = [], ch_open = True\<rparr>]\<rparr>"
  using assms by (auto simp: register_route_def result_simps Let_def)

lemma connection_send_Inr:
  assumes "connection_send c f r = Inr r'"
  obtains route where "frame_validate f = Inr ()" and "is_current c r"
    and "rf_installation_id f = ri_installation_id (cx_identity c)"
    and "rf_source_id f = ri_peer_id (cx_identity c)"
    and "map_of (rr_routes r) \<lparr>rk_installation_id = rf_installation_id f,
        rk_authority_public_key = ri_authority_public_key (cx_identity c),
        rk_peer_id = rf_destination_id f\<rparr> = Some route"
    and "length (ch_queue (rr_channels r ! rt_sender route)) < rr_queue_capacity r"
    and "r' = r\<lparr>rr_channels := (rr_channels r)[rt_sender route :=
           (rr_channels r ! rt_sender route)\<lparr>ch_queue := ch_queue (rr_channels r ! rt_sender route) @ [f]\<rparr>]\<rparr>"
  using assms by (auto simp: connection_send_def try_send_def result_simps Let_def)

lemma channel_recv_cases:
  assumes "channel_recv channel r = (got, r')"
  obtains "r' = r" "ch_queue (rr_channels r ! channel) = []" "got = Rc_Waits \<or> got = Rc_Closed"
  | f fs where "got = Rc_Frame f" "ch_queue (rr_channels r ! channel) = f # fs"
      "r' = r\<lparr>rr_channels := (rr_channels r)[channel := (rr_channels r ! channel)\<lparr>ch_queue := fs\<rparr>]\<rparr>"
  using assms by (auto simp: channel_recv_def Let_def split: list.splits if_splits)

lemma relay_step_channels:
  "relay_step A enrolled w w' \<Longrightarrow> length (rr_channels (rw_router w)) \<le> length (rr_channels (rw_router w'))"
proof (induction rule: relay_step.induct)
  case (registers now i nonce signature w c r)
  then show ?case by (simp add: register_route_Inr(4) [OF registers(1)])
next
  case (sends c w f r)
  then show ?case by (elim connection_send_Inr) simp
next
  case (receives c w got r)
  then show ?case by (elim channel_recv_cases) simp_all
qed (simp add: connection_drop_def Let_def)

section \<open>The current connection\<close>

lemma generation_inj:
  assumes "(of_nat m :: 64 word) = of_nat n" and "m < 2 ^ 64" and "n < 2 ^ 64"
  shows "m = n"
  using assms by (simp add: word_of_nat_eq_iff take_bit_nat_eq_self)

lemma route_of:
  assumes "routed w" and "map_of (rr_routes (rw_router w)) k = Some route"
  obtains c where "c \<in> set (rw_live w)" and "cx_key c = k" and "cx_receiver c = rt_sender route"
    and "rt_generation route = of_nat (Suc (rt_sender route))"
  using assms that unfolding routed_def by metis

lemma current_route:
  assumes "numbered w" and "routed w" and "unwrapped w" and "c \<in> set (rw_live w)"
    and "map_of (rr_routes (rw_router w)) (cx_key c) = Some route" and "rt_generation route = cx_generation c"
  shows "rt_sender route = cx_receiver c"
proof -
  obtain c' where c': "c' \<in> set (rw_live w)" "cx_receiver c' = rt_sender route"
      "rt_generation route = of_nat (Suc (rt_sender route))"
    using route_of [OF assms(2,5)] by metis
  have "rt_sender route < length (rr_channels (rw_router w))" and "cx_receiver c < length (rr_channels (rw_router w))"
    and "cx_generation c = of_nat (Suc (cx_receiver c))"
    using assms(1,4) c' by (auto simp: numbered_def)
  then have "Suc (rt_sender route) = Suc (cx_receiver c)"
    using assms(3,6) c'(3) by (intro generation_inj) (simp_all add: unwrapped_def)
  then show ?thesis by simp
qed

section \<open>Preservation\<close>

lemma live_unique:
  assumes "numbered w" and "c \<in> set (rw_live w)" and "c' \<in> set (rw_live w)" and "cx_receiver c = cx_receiver c'"
  shows "c = c'"
  using assms by (auto simp: numbered_def dest: distinct_map_eqD)

lemma numbered_step:
  assumes "relay_step A enrolled w w'" and "numbered w"
  shows "numbered w'"
  using assms
proof (induction rule: relay_step.induct)
  case (registers now i nonce signature w c r)
  note reg = register_route_Inr [OF registers(1)]
  show ?case
    using registers(2) unfolding numbered_def
    by (auto simp: reg(3,4) nth_append add.commute)
next
  case (sends c w f r)
  then show ?case
    by (elim connection_send_Inr) (auto simp: numbered_def nth_update_if)
next
  case (receives c w got r)
  from receives(2,3) show ?case
    by (elim channel_recv_cases) (auto simp: numbered_def nth_update_if)
next
  case (drops c w)
  then show ?case
    by (auto simp: numbered_def connection_drop_def Let_def nth_list_update intro: distinct_map_filter)
qed

lemma routed_step:
  assumes "relay_step A enrolled w w'" and "numbered w" and "routed w" and "unwrapped w'"
  shows "routed w'"
  using assms
proof (induction rule: relay_step.induct)
  case (registers now i nonce signature w c r)
  note reg = register_route_Inr [OF registers(1)]
  have gen: "rr_next_generation (rw_router w) + 1 = of_nat (Suc (length (rr_channels (rw_router w))))"
    using registers(2) by (simp add: numbered_def add.commute)
  show ?case
    using registers(3) unfolding routed_def
    by (auto simp: reg(3,4) gen distinct_update update_conv' split: if_splits)
next
  case (sends c w f r)
  then show ?case by (elim connection_send_Inr) (auto simp: routed_def)
next
  case (receives c w got r)
  from receives(2,4) show ?case by (elim channel_recv_cases) (auto simp: routed_def)
next
  case (drops c w)
  have un: "unwrapped w" using drops(4) by (simp add: unwrapped_def connection_drop_def Let_def split: if_splits)
  let ?r = "connection_drop c (rw_router w)"
  have routes: "rr_routes ?r = (if is_current c (rw_router w) then AList.delete (cx_key c) (rr_routes (rw_router w))
      else rr_routes (rw_router w))" by (simp add: connection_drop_def Let_def)
  have other: "cx_receiver c' \<noteq> cx_receiver c" if "c' \<in> set (rw_live w)" "cx_receiver c' = rt_sender route"
      "cx_key c' = k" "map_of (rr_routes ?r) k = Some route" for c' k route
  proof
    assume "cx_receiver c' = cx_receiver c"
    then have "c' = c" using live_unique [OF drops(2) that(1) drops(1)] by simp
    then have k: "k = cx_key c" and snd: "rt_sender route = cx_receiver c" using that by auto
    show False
    proof (cases "is_current c (rw_router w)")
      case True
      with that(4) k show False by (simp add: routes delete_conv')
    next
      case False
      with that(4) k have map: "map_of (rr_routes (rw_router w)) (cx_key c) = Some route" by (simp add: routes)
      then have "rt_generation route = of_nat (Suc (rt_sender route))" using drops(3) by (metis route_of)
      then have "rt_generation route = cx_generation c" using drops(1,2) snd by (simp add: numbered_def)
      with map False show False by (simp add: is_current_def)
    qed
  qed
  have sub: "map_of (rr_routes (rw_router w)) k = Some route" if "map_of (rr_routes ?r) k = Some route" for k route
    using that by (auto simp: routes delete_conv' split: if_splits)
  have "distinct (map fst (rr_routes ?r))"
    using drops(3) by (simp add: routes routed_def distinct_delete)
  moreover have "rt_generation route = of_nat (Suc (rt_sender route))
      \<and> (\<exists>c' \<in> set (rw_live w). cx_receiver c' \<noteq> cx_receiver c \<and> cx_key c' = k \<and> cx_receiver c' = rt_sender route)"
    if "map_of (rr_routes ?r) k = Some route" for k route
    using route_of [OF drops(3) sub [OF that]] other that by metis
  ultimately show ?case by (auto simp: routed_def simp del: map_of_eq_Some_iff)
qed

text \<open>Nothing but a send adds to a queue, and a send adds a frame for the connection's own peer.\<close>

lemma isolated_step:
  assumes "relay_step A enrolled w w'" and "numbered w" and "routed w" and "isolated w" and "unwrapped w'"
  shows "isolated w'"
  using assms
proof (induction rule: relay_step.induct)
  case (registers now i nonce signature w c r)
  note reg = register_route_Inr [OF registers(1)]
  have "cx_receiver c' < length (rr_channels (rw_router w))" if "c' \<in> set (rw_live w)" for c'
    using registers(2) that by (simp add: numbered_def)
  then show ?case
    using registers(4) unfolding isolated_def
    by (auto simp: reg(3,4) nth_append list_all_iff intro: delivered_mono)
next
  case (sends c w f r)
  from sends(2) show ?case
  proof (rule connection_send_Inr)
    fix route
    assume f: "frame_validate f = Inr ()" "rf_installation_id f = ri_installation_id (cx_identity c)"
        "rf_source_id f = ri_peer_id (cx_identity c)"
      and route: "map_of (rr_routes (rw_router w)) \<lparr>rk_installation_id = rf_installation_id f,
          rk_authority_public_key = ri_authority_public_key (cx_identity c),
          rk_peer_id = rf_destination_id f\<rparr> = Some route"
      and room: "length (ch_queue (channel_of w (rt_sender route))) < rr_queue_capacity (rw_router w)"
      and r: "r = (rw_router w)\<lparr>rr_channels := (rr_channels (rw_router w))[rt_sender route :=
           (channel_of w (rt_sender route))\<lparr>ch_queue := ch_queue (channel_of w (rt_sender route)) @ [f]\<rparr>]\<rparr>"
    obtain d where d: "d \<in> set (rw_live w)" "cx_receiver d = rt_sender route" "cx_key d = \<lparr>rk_installation_id = rf_installation_id f,
          rk_authority_public_key = ri_authority_public_key (cx_identity c), rk_peer_id = rf_destination_id f\<rparr>"
      using route_of [OF sends(4) route] by metis
    have "delivered_to (rw_registered w) (cx_key d) f"
      using sends(1,3) f d(3) by (auto simp: delivered_to_def numbered_def)
    moreover have "cx_receiver c' = rt_sender route \<Longrightarrow> c' = d" if "c' \<in> set (rw_live w)" for c'
      using live_unique [OF sends(3) that d(1)] d(2) by simp
    ultimately show ?thesis
      using sends(5) room unfolding isolated_def r by (auto simp: nth_update_if)
  qed
next
  case (receives c w got r)
  from receives(2,5) show ?case
    by (elim channel_recv_cases) (auto simp: isolated_def nth_update_if)
next
  case (drops c w)
  then show ?case
    by (auto simp: isolated_def connection_drop_def Let_def nth_update_if)
qed

lemma relay_step_ok:
  assumes "relay_step A enrolled w w'" and "relay_ok w" and "unwrapped w'"
  shows "relay_ok w'"
  using assms numbered_step routed_step isolated_step unfolding relay_ok_def by blast

lemma relay_reach_ok:
  assumes "relay_reach A enrolled w" and "unwrapped w"
  shows "relay_ok w"
  using assms
proof (induction rule: relay_reach.induct)
  case (relay_start capacity r)
  then show ?case
    by (auto simp: router_new_def relay_ok_def numbered_def routed_def isolated_def split: if_splits)
next
  case (relay_more w w')
  then have "unwrapped w" using relay_step_channels [OF relay_more(2)] by (simp add: unwrapped_def)
  with relay_more show ?case by (blast intro: relay_step_ok)
qed

end
