(* ===== verification/RelayProps.thy ===== *)
theory RelayProps
  imports RelayInv
begin

text \<open>
  The properties of the relay: what signatures cover, who can reach whom, that a peer has one
  live route, and that a link between two registered peers is a queue.
\<close>

section \<open>Signed texts\<close>

lemma nul_split:
  assumes "a @ nul # x = b @ nul # y" and "nul \<notin> set a" and "nul \<notin> set b"
  shows "a = b \<and> x = y"
  using assms
proof (induction a arbitrary: b)
  case Nil
  then show ?case by (cases b) auto
next
  case (Cons c a)
  then show ?case by (cases b) auto
qed

text \<open>Text that holds no NUL byte in the fields before the last one.\<close>

definition admission_clean :: "RelayAdmission \<Rightarrow> bool" where
  "admission_clean a \<longleftrightarrow> nul \<notin> set (ra_installation_id a) \<and> nul \<notin> set (ra_peer_id a)
     \<and> nul \<notin> set (ra_peer_public_key a) \<and> nul \<notin> set (ra_authority_public_key a)"

lemma signing_bytes_inj:
  assumes "signing_bytes A a = signing_bytes A b" and "admission_clean a" and "admission_clean b"
  shows "ra_installation_id a = ra_installation_id b \<and> ra_peer_id a = ra_peer_id b
    \<and> ra_peer_public_key a = ra_peer_public_key b \<and> ra_authority_public_key a = ra_authority_public_key b
    \<and> rx_rfc3339 A (ra_expires_at a) = rx_rfc3339 A (ra_expires_at b)"
  using assms unfolding signing_bytes_def admission_clean_def by (auto dest!: nul_split)

lemma registration_message_inj:
  assumes "registration_message i n = registration_message j m"
    and "nul \<notin> set (ri_installation_id i @ ri_peer_id i @ ri_authority_public_key i)"
    and "nul \<notin> set (ri_installation_id j @ ri_peer_id j @ ri_authority_public_key j)"
  shows "route_key i = route_key j \<and> n = m"
  using assms unfolding registration_message_def route_key_def by (auto dest!: nul_split)

text \<open>An accepted peer identifier holds no NUL byte.\<close>

lemma relay_peer_id_clean: "relay_peer_id s = Inr p \<Longrightarrow> nul \<notin> set p \<and> p = s"
  by (auto simp: relay_peer_id_def list_all_iff peer_id_byte_def split: if_splits)

section \<open>Registered identities\<close>

definition proved :: "('z) relay_ext_scheme \<Rightarrow> (DateTime \<Rightarrow> RelayIdentity \<Rightarrow> bool) \<Rightarrow> RelayIdentity \<Rightarrow> bool" where
  "proved A enrolled i \<longleftrightarrow> (\<exists>now nonce signature. enrolled now i
     \<and> verify_signature A (ri_public_key i) (registration_message i nonce) signature)"

lemma registered_proved:
  assumes "relay_reach A enrolled w" and "i \<in> set (rw_registered w)"
  shows "proved A enrolled i"
  using assms
proof (induction rule: relay_reach.induct)
  case (relay_more w w')
  from relay_more.hyps(2) relay_more show ?case
    by (cases rule: relay_step.cases) (auto simp: proved_def dest: register_route_Inr(1,2))
qed simp

section \<open>The link between two peers\<close>

text \<open>
  What the transport relies on: a link takes frames that are meant for its far end and hands
  them over in order.
\<close>

locale relay_link =
  fixes accept :: "RelayFrame \<Rightarrow> 's \<Rightarrow> RelayError + 's"
    and take_frame :: "'s \<Rightarrow> RelayFrame option option \<times> 's"
    and meant :: "RelayFrame \<Rightarrow> bool"
    and waiting :: "'s \<Rightarrow> RelayFrame list"
    and up :: "'s \<Rightarrow> bool"
    and room :: "'s \<Rightarrow> nat"
  assumes accept_appends: "up s \<Longrightarrow> meant f \<Longrightarrow> accept f s = Inr s' \<Longrightarrow>
        waiting s' = waiting s @ [f] \<and> up s' \<and> room s' = room s - 1"
    and accept_room: "up s \<Longrightarrow> meant f \<Longrightarrow> 0 < room s \<Longrightarrow> \<exists>s'. accept f s = Inr s'"
    and take_first: "up s \<Longrightarrow> waiting s = f # fs \<Longrightarrow> \<exists>s'. take_frame s = (Some (Some f), s') \<and> waiting s' = fs \<and> up s' \<and> room s \<le> room s'"
    and take_waits: "up s \<Longrightarrow> waiting s = [] \<Longrightarrow> take_frame s = (None, s)"

text \<open>The link from the connection \<open>c\<close> to the connection \<open>d\<close> while both have their routes.\<close>

definition link_meant :: "RelayConnection \<Rightarrow> RelayConnection \<Rightarrow> RelayFrame \<Rightarrow> bool" where
  "link_meant c d f \<longleftrightarrow> frame_validate f = Inr ()
     \<and> rf_installation_id f = ri_installation_id (cx_identity c) \<and> rf_source_id f = ri_peer_id (cx_identity c)
     \<and> cx_key d = \<lparr>rk_installation_id = rf_installation_id f,
         rk_authority_public_key = ri_authority_public_key (cx_identity c), rk_peer_id = rf_destination_id f\<rparr>"

definition link_waiting :: "RelayConnection \<Rightarrow> Router \<Rightarrow> RelayFrame list" where
  "link_waiting d r = ch_queue (rr_channels r ! cx_receiver d)"

definition holds_route :: "RelayConnection \<Rightarrow> Router \<Rightarrow> bool" where
  "holds_route c r \<longleftrightarrow> cx_receiver c < length (rr_channels r) \<and> ch_open (rr_channels r ! cx_receiver c)
     \<and> map_of (rr_routes r) (cx_key c) = Some \<lparr>rt_generation = cx_generation c, rt_sender = cx_receiver c\<rparr>"

definition link_up :: "RelayConnection \<Rightarrow> RelayConnection \<Rightarrow> Router \<Rightarrow> bool" where
  "link_up c d r \<longleftrightarrow> holds_route c r \<and> holds_route d r \<and> cx_receiver c \<noteq> cx_receiver d"

definition link_room :: "RelayConnection \<Rightarrow> Router \<Rightarrow> nat" where
  "link_room d r = rr_queue_capacity r - length (link_waiting d r)"

lemma holds_route_current [simp]: "holds_route c r \<Longrightarrow> is_current c r"
  by (simp add: holds_route_def is_current_def)

lemma holds_route_sender:
  assumes "holds_route d r"
  shows "list_ex (\<lambda>(_, route). rt_sender route = cx_receiver d) (rr_routes r)"
proof -
  from assms have "map_of (rr_routes r) (cx_key d) = Some \<lparr>rt_generation = cx_generation d, rt_sender = cx_receiver d\<rparr>"
    by (simp add: holds_route_def)
  then have mem: "(cx_key d, \<lparr>rt_generation = cx_generation d, rt_sender = cx_receiver d\<rparr>) \<in> set (rr_routes r)"
    by (rule map_of_SomeD)
  show ?thesis unfolding list_ex_iff by (rule bexI [OF _ mem]) simp
qed

lemma holds_route_queue:
  "holds_route c (r\<lparr>rr_channels := (rr_channels r)[i := (rr_channels r ! i)\<lparr>ch_queue := q\<rparr>]\<rparr>) = holds_route c r"
  by (simp add: holds_route_def nth_update_if)

text \<open>A frame of \<open>c\<close> that is meant for \<open>d\<close> goes to the queue of \<open>d\<close> and nowhere else.\<close>

lemma link_send:
  assumes "link_up c d r" and "link_meant c d f" and "connection_send c f r = Inr r'"
  shows "r' = r\<lparr>rr_channels := (rr_channels r)[cx_receiver d :=
           (rr_channels r ! cx_receiver d)\<lparr>ch_queue := link_waiting d r @ [f]\<rparr>]\<rparr>"
  using assms(3)
  by (rule connection_send_Inr) (use assms(1,2) in \<open>auto simp: link_up_def link_meant_def link_waiting_def holds_route_def\<close>)

interpretation router_link: relay_link "connection_send c" "connection_receive d id" "link_meant c d"
    "link_waiting d" "link_up c d" "link_room d" for c d
proof (unfold_locales, goal_cases)
  case (1 r f r')
  have "cx_receiver d < length (rr_channels r)" using 1(1) by (simp add: link_up_def holds_route_def)
  with link_send [OF 1] 1(1) show ?case
    by (simp add: link_up_def holds_route_queue) (simp add: link_waiting_def link_room_def)
next
  case (2 r f)
  then show ?case
    by (auto simp: connection_send_def try_send_def link_up_def holds_route_def is_current_def link_meant_def
        link_waiting_def link_room_def Let_def)
next
  case (3 r f fs)
  let ?r = "r\<lparr>rr_channels := (rr_channels r)[cx_receiver d := (rr_channels r ! cx_receiver d)\<lparr>ch_queue := fs\<rparr>]\<rparr>"
  have "link_up c d ?r" using 3(1) by (simp add: link_up_def holds_route_queue)
  moreover have "connection_receive d id r = (Some (Some f), ?r)"
    using 3 \<open>link_up c d ?r\<close> by (simp add: connection_receive_def channel_recv_def Let_def link_up_def link_waiting_def)
  moreover have "link_waiting d ?r = fs" "link_room d r \<le> link_room d ?r"
    using 3 by (simp_all add: link_up_def holds_route_def link_waiting_def link_room_def)
  ultimately show ?case by blast
next
  case (4 r)
  then have "holds_route d r" by (simp add: link_up_def)
  with holds_route_sender [OF this] 4(2) show ?case
    by (simp add: connection_receive_def channel_recv_def Let_def link_waiting_def)
qed

text \<open>Two current connections of a reachable router have a link.\<close>

lemma reachable_link:
  assumes "relay_reach A enrolled w" and "unwrapped w" and "{c, d} \<subseteq> set (rw_live w)" and "c \<noteq> d"
    and "is_current c (rw_router w)" and "is_current d (rw_router w)"
  shows "link_up c d (rw_router w)"
proof -
  have ok: "numbered w" "routed w" using relay_reach_ok [OF assms(1,2)] by (simp_all add: relay_ok_def)
  have "holds_route e (rw_router w)" if live: "e \<in> set (rw_live w)" and cur: "is_current e (rw_router w)" for e
  proof -
    obtain route where route: "map_of (rr_routes (rw_router w)) (cx_key e) = Some route"
        "rt_generation route = cx_generation e"
      using cur by (auto simp: is_current_def split: option.splits)
    from current_route [OF ok assms(2) live this] route ok(1) live show ?thesis
      by (auto simp: holds_route_def numbered_def)
  qed
  moreover have "cx_receiver c \<noteq> cx_receiver d" using live_unique [OF ok(1)] assms(3,4) by auto
  ultimately show ?thesis using assms(3,5,6) by (simp add: link_up_def)
qed

section \<open>Who reaches whom\<close>

lemma received_is_first:
  assumes "connection_receive c during r0 = (Some (Some f), r)"
  shows "f \<in> set (ch_queue (rr_channels (during r0) ! cx_receiver c))"
  using assms
  by (auto simp: connection_receive_def split: if_splits prod.splits received.splits elim!: channel_recv_cases)

lemma signed_admission_of:
  assumes "signed_admission A now i"
  obtains a where "ri_admission i = Some a" and "admission_verify A now a"
    and "ra_installation_id a = ri_installation_id i" and "ra_peer_id a = ri_peer_id i"
    and "ra_peer_public_key a = ri_public_key i" and "ra_authority_public_key a = ri_authority_public_key i"
  using assms by (auto simp: signed_admission_def split: option.splits)

text \<open>The live connection whose route a key leads to.\<close>

lemma route_connection:
  assumes "relay_ok w" and "unwrapped w" and "map_of (rr_routes (rw_router w)) k = Some route"
  obtains d where "d \<in> set (rw_live w)" and "cx_key d = k" and "cx_receiver d = rt_sender route"
    and "is_current d (rw_router w)"
proof -
  have ok: "numbered w" "routed w" using assms(1) by (simp_all add: relay_ok_def)
  obtain d where d: "d \<in> set (rw_live w)" "cx_key d = k" "cx_receiver d = rt_sender route"
      "rt_generation route = of_nat (Suc (rt_sender route))"
    using route_of [OF ok(2) assms(3)] by metis
  have "cx_generation d = of_nat (Suc (cx_receiver d))" using ok(1) d(1) by (simp add: numbered_def)
  then have "is_current d (rw_router w)" using assms(3) d by (simp add: is_current_def)
  with d that show thesis by blast
qed

lemma current_sender:
  assumes "relay_ok w" and "unwrapped w" and "d \<in> set (rw_live w)" and "is_current d (rw_router w)"
    and "map_of (rr_routes (rw_router w)) (cx_key d) = Some route"
  shows "rt_sender route = cx_receiver d"
  using assms current_route [of w d route] by (auto simp: is_current_def relay_ok_def)

text \<open>
  C30. Whatever peers do, a frame that a connection receives is within bounds and is addressed to
  its own peer and installation, and comes from a peer that registered under the same
  installation and authority: one that proved its key with a signature over its identity and a
  challenge, and held an unexpired admission for that key, signed by the authority.
\<close>

theorem relay_delivers_authentic:
  assumes "relay_reach A (signed_admission A) w" and "unwrapped w" and "c \<in> set (rw_live w)"
    and "connection_receive c (\<lambda>_. rw_router w) r0 = (Some (Some f), r)"
  shows "frame_validate f = Inr () \<and> rf_installation_id f = ri_installation_id (cx_identity c)
    \<and> rf_destination_id f = ri_peer_id (cx_identity c)
    \<and> (\<exists>i a now nonce signature. i \<in> set (rw_registered w) \<and> ri_admission i = Some a \<and> admission_verify A now a
         \<and> ra_installation_id a = rf_installation_id f \<and> ra_peer_id a = rf_source_id f
         \<and> ra_authority_public_key a = ri_authority_public_key (cx_identity c)
         \<and> verify_signature A (ra_peer_public_key a) (registration_message i nonce) signature)"
proof -
  have ok: "numbered w" "isolated w" using relay_reach_ok [OF assms(1,2)] by (simp_all add: relay_ok_def)
  have "f \<in> set (ch_queue (channel_of w (cx_receiver c)))" using received_is_first [OF assms(4)] by simp
  with ok(2) assms(3) have f: "delivered_to (rw_registered w) (cx_key c) f"
    by (auto simp: isolated_def list_all_iff)
  have key: "cx_key c = route_key (cx_identity c)" using ok(1) assms(3) by (simp add: numbered_def)
  from f key obtain i where i: "i \<in> set (rw_registered w)" "ri_installation_id i = rf_installation_id f"
      "ri_authority_public_key i = ri_authority_public_key (cx_identity c)" "ri_peer_id i = rf_source_id f"
    by (auto simp: delivered_to_def route_key_def)
  from registered_proved [OF assms(1) i(1)] obtain now nonce signature where
    p: "signed_admission A now i" "verify_signature A (ri_public_key i) (registration_message i nonce) signature"
    by (auto simp: proved_def)
  from signed_admission_of [OF p(1)] obtain a where a: "ri_admission i = Some a" "admission_verify A now a"
    "ra_installation_id a = ri_installation_id i" "ra_peer_id a = ri_peer_id i"
    "ra_peer_public_key a = ri_public_key i" "ra_authority_public_key a = ri_authority_public_key i" by metis
  have to: "frame_validate f = Inr ()" "rf_installation_id f = ri_installation_id (cx_identity c)"
    "rf_destination_id f = ri_peer_id (cx_identity c)"
    using f key by (auto simp: delivered_to_def route_key_def)
  show ?thesis
    by (intro conjI to exI [of _ i] exI [of _ a] exI [of _ now] exI [of _ nonce] exI [of _ signature])
      (simp_all add: a i p(2))
qed

text \<open>
  A send on a current connection goes to the one current connection of the destination
  under the sender's own installation and authority: it is offline when there is none, busy when
  that connection's queue is full, and otherwise the frame is put at the end of its queue.
\<close>

theorem send_reaches_current:
  assumes "relay_reach A enrolled w" and "unwrapped w" and "is_current c (rw_router w)" and "frame_validate f = Inr ()"
    and "rf_installation_id f = ri_installation_id (cx_identity c)" and "rf_source_id f = ri_peer_id (cx_identity c)"
  shows "connection_send c f (rw_router w) =
     (case find (\<lambda>d. is_current d (rw_router w) \<and> cx_key d =
          \<lparr>rk_installation_id = ri_installation_id (cx_identity c),
           rk_authority_public_key = ri_authority_public_key (cx_identity c), rk_peer_id = rf_destination_id f\<rparr>) (rw_live w) of
        None \<Rightarrow> Inl RE_DestinationOffline
      | Some d \<Rightarrow> let ch = rr_channels (rw_router w) ! cx_receiver d in
          if length (ch_queue ch) < rr_queue_capacity (rw_router w)
          then Inr ((rw_router w)\<lparr>rr_channels := (rr_channels (rw_router w))[cx_receiver d := ch\<lparr>ch_queue := ch_queue ch @ [f]\<rparr>]\<rparr>)
          else Inl RE_DestinationBusy)"
    (is "_ = (case find ?P _ of None \<Rightarrow> _ | Some d \<Rightarrow> ?send d)")
proof -
  let ?k = "\<lparr>rk_installation_id = ri_installation_id (cx_identity c),
     rk_authority_public_key = ri_authority_public_key (cx_identity c), rk_peer_id = rf_destination_id f\<rparr>"
  note ok = relay_reach_ok [OF assms(1,2)]
  show ?thesis
  proof (cases "map_of (rr_routes (rw_router w)) ?k")
    case None
    then have "find ?P (rw_live w) = None" by (auto simp: find_None_iff is_current_def)
    with None assms(3-) show ?thesis by (simp add: connection_send_def)
  next
    case (Some route)
    obtain d where "d \<in> set (rw_live w)" "?P d" using route_connection [OF ok assms(2) Some] by blast
    then obtain d' where d': "find ?P (rw_live w) = Some d'" by (cases "find ?P (rw_live w)") (auto simp: find_None_iff)
    then have live: "d' \<in> set (rw_live w)" "?P d'" by (auto simp: find_Some_iff)
    then have "rt_sender route = cx_receiver d'" using current_sender [OF ok assms(2)] Some by simp
    moreover have "ch_open (channel_of w (cx_receiver d'))" using ok live(1) by (auto simp: relay_ok_def numbered_def)
    ultimately show ?thesis
      using Some assms(3-) by (simp add: d' connection_send_def try_send_def Let_def)
  qed
qed

text \<open>
  C32. The newest registration of a peer wins: it is current, every other live connection stays
  current exactly if it was and has another key, and a connection that is no longer current can
  neither send nor receive, and dropping it leaves the routes alone.
\<close>

theorem newest_registration_wins:
  assumes "relay_reach A enrolled w" and "Suc (length (rr_channels (rw_router w))) < 2 ^ 64"
    and "register_route A (enrolled now) i nonce signature (rw_router w) = Inr (c, r)"
  shows "is_current c r
    \<and> (\<forall>d \<in> set (rw_live w). is_current d r \<longleftrightarrow> is_current d (rw_router w) \<and> cx_key d \<noteq> route_key i)
    \<and> (\<forall>d. \<not> is_current d r \<longrightarrow> (\<forall>f. isl (connection_send d f r)) \<and> (\<forall>during. connection_receive d during r = (Some None, r))
         \<and> rr_routes (connection_drop d r) = rr_routes r)"
proof -
  note reg = register_route_Inr(3,4) [OF assms(3)]
  have "unwrapped w" using assms(2) by (simp add: unwrapped_def)
  then have ok: "numbered w" using relay_reach_ok [OF assms(1)] by (simp add: relay_ok_def)
  have other: "cx_generation d \<noteq> rr_next_generation (rw_router w) + 1" if "d \<in> set (rw_live w)" for d
  proof
    assume "cx_generation d = rr_next_generation (rw_router w) + 1"
    then have "(of_nat (Suc (cx_receiver d)) :: 64 word) = of_nat (Suc (length (rr_channels (rw_router w))))"
      using ok that by (simp add: numbered_def add.commute)
    then have "Suc (cx_receiver d) = Suc (length (rr_channels (rw_router w)))"
      by (rule generation_inj) (use ok that assms(2) in \<open>auto simp: numbered_def\<close>)
    with ok that show False by (auto simp: numbered_def)
  qed
  have "is_current d r \<longleftrightarrow> is_current d (rw_router w) \<and> cx_key d \<noteq> route_key i" if "d \<in> set (rw_live w)" for d
    using other [OF that] by (auto simp: is_current_def reg(2) update_conv' split: option.splits)
  moreover have "is_current c r" by (simp add: is_current_def reg update_conv')
  moreover have "isl (connection_send d f r)" if "\<not> is_current d r" for d f
    using that by (cases "connection_send d f r") (auto elim!: connection_send_Inr)
  ultimately show ?thesis
    by (simp add: connection_receive_def connection_drop_def Let_def)
qed

end
