(* ===== verification/Transport.thy ===== *)
theory Transport
  imports RelayProps
begin

text \<open>
  The encrypted transport, \<open>crates/mews-transport/src/lib.rs\<close> and \<open>crypto.rs\<close>: messages of up to
  256 KiB cut into chunks of one Noise record each, and the identity binding that authenticates
  a finished handshake. The Noise implementation (\<open>snow\<close>), Base64, Ed25519 and JSON are
  parameters; bytes are \<open>8 word\<close>, sequence numbers \<open>64 word\<close> and chunk numbers \<open>16 word\<close>.
\<close>

unbundle bit_operations_syntax

section \<open>Records\<close>

definition max_encrypted_record_plaintext :: nat where
  "max_encrypted_record_plaintext = 48 * 1024"

definition chunk_header :: nat where
  "chunk_header = 20"

definition max_message_bytes :: nat where
  "max_message_bytes = 256 * 1024"

datatype TransportError = TE_Message string | TE_Relay RelayError | TE_Noise

text \<open>\<open>write_message\<close> and \<open>read_message\<close> of snow's transport state; none is an error.\<close>

record 'n noise_ext =
  nx_write :: "'n \<Rightarrow> 8 word list \<Rightarrow> (8 word list \<times> 'n) option"
  nx_read :: "'n \<Rightarrow> 8 word list \<Rightarrow> (8 word list \<times> 'n) option"

definition noise_encrypt ::
    "('n, 'z) noise_ext_scheme \<Rightarrow> 'n \<Rightarrow> 8 word list \<Rightarrow> TransportError + 8 word list \<times> 'n" where
  "noise_encrypt N t plaintext =
     bindR (require (length plaintext \<le> max_encrypted_record_plaintext)
       (TE_Message ''encrypted record is too large'')) (\<lambda>_.
     okOr TE_Noise (nx_write N t plaintext))"

definition noise_decrypt ::
    "('n, 'z) noise_ext_scheme \<Rightarrow> 'n \<Rightarrow> 8 word list \<Rightarrow> TransportError + 8 word list \<times> 'n" where
  "noise_decrypt N t ciphertext =
     bindR (require (16 \<le> length ciphertext \<and> length ciphertext \<le> max_encrypted_record_plaintext + 16)
       (TE_Message ''encrypted record has invalid size'')) (\<lambda>_.
     okOr TE_Noise (nx_read N t ciphertext))"

text \<open>\<open>u16::to_be_bytes\<close> and \<open>from_be_bytes\<close>\<close>

definition u16_to_be :: "16 word \<Rightarrow> 8 word list" where
  "u16_to_be w = [ucast (drop_bit 8 w), ucast w]"

definition u16_from_be :: "8 word \<Rightarrow> 8 word \<Rightarrow> 16 word" where
  "u16_from_be hi lo = (push_bit 8 (ucast hi) OR ucast lo)"

section \<open>Sending\<close>

record 'n EncryptedRelayPeer =
  ep_transport :: 'n
  ep_installation_id :: InstallationId
  ep_local_peer :: RelayPeerId
  ep_remote_peer :: RelayPeerId
  ep_subject_id :: string
  ep_send_sequence :: "64 word"
  ep_receive_sequence :: "64 word"

definition div_ceil :: "nat \<Rightarrow> nat \<Rightarrow> nat" where
  "div_ceil a b = a div b + (if a mod b = 0 then 0 else 1)"

definition chunk_size :: nat where
  "chunk_size = max_encrypted_record_plaintext - chunk_header"

definition chunk_total :: "8 word list \<Rightarrow> nat" where
  "chunk_total message = max (div_ceil (length message) chunk_size) 1"

definition chunk_data :: "8 word list \<Rightarrow> nat \<Rightarrow> 8 word list" where
  "chunk_data message index =
     (let start = index * chunk_size; stop = min (start + chunk_size) (length message)
      in take (stop - start) (drop start message))"

definition chunk_plaintext :: "8 word list \<Rightarrow> 8 word list \<Rightarrow> nat \<Rightarrow> 8 word list" where
  "chunk_plaintext message_id message index =
     message_id @ u16_to_be (of_nat index) @ u16_to_be (of_nat (chunk_total message)) @ chunk_data message index"

text \<open>One turn of the loop up to the send: the frame, and the transport after it.\<close>

definition seal_chunk ::
    "('n, 'z) noise_ext_scheme \<Rightarrow> 8 word list \<Rightarrow> 8 word list \<Rightarrow> nat \<Rightarrow> 'n EncryptedRelayPeer
      \<Rightarrow> (TransportError + RelayFrame) \<times> 'n EncryptedRelayPeer" where
  "seal_chunk N message_id message index p =
     (case noise_encrypt N (ep_transport p) (chunk_plaintext message_id message index) of
        Inl e \<Rightarrow> (Inl e, p)
      | Inr (ciphertext, t) \<Rightarrow>
          (mapErr TE_Relay (frame_new (ep_installation_id p) (ep_local_peer p) (ep_remote_peer p)
             (ep_subject_id p) (ep_send_sequence p) ciphertext), p\<lparr>ep_transport := t\<rparr>))"

fun send_chunks ::
    "('n, 'z) noise_ext_scheme \<Rightarrow> (RelayFrame \<Rightarrow> 's \<Rightarrow> RelayError + 's) \<Rightarrow> 8 word list \<Rightarrow> 8 word list
      \<Rightarrow> nat list \<Rightarrow> 'n EncryptedRelayPeer \<Rightarrow> 's \<Rightarrow> (TransportError + unit) \<times> 'n EncryptedRelayPeer \<times> 's" where
  "send_chunks N send_frame message_id message [] p s = (Inr (), p, s)"
| "send_chunks N send_frame message_id message (index # indices) p s =
     (case seal_chunk N message_id message index p of
        (Inl e, p') \<Rightarrow> (Inl e, p', s)
      | (Inr f, p') \<Rightarrow> (case send_frame f s of
            Inl e \<Rightarrow> (Inl (TE_Relay e), p', s)
          | Inr s' \<Rightarrow> send_chunks N send_frame message_id message indices
              (p'\<lparr>ep_send_sequence := ep_send_sequence p' + 1\<rparr>) s'))"

text \<open>\<open>message_id\<close> is the UUID drawn for the message.\<close>

definition send_bytes ::
    "('n, 'z) noise_ext_scheme \<Rightarrow> (RelayFrame \<Rightarrow> 's \<Rightarrow> RelayError + 's) \<Rightarrow> 8 word list \<Rightarrow> 8 word list
      \<Rightarrow> 'n EncryptedRelayPeer \<Rightarrow> 's \<Rightarrow> (TransportError + unit) \<times> 'n EncryptedRelayPeer \<times> 's" where
  "send_bytes N send_frame message_id message p s =
     (if max_message_bytes < length message then (Inl (TE_Message ''encrypted message exceeds 256 KiB''), p, s)
      else send_chunks N send_frame message_id message [0..<chunk_total message] p s)"

section \<open>Receiving\<close>

record Assembly =
  as_bytes :: "8 word list"
  as_id :: "8 word list option"
  as_total :: "16 word option"

definition empty_assembly :: Assembly where
  "empty_assembly = \<lparr>as_bytes = [], as_id = None, as_total = None\<rparr>"

definition frame_expected :: "('n, 'y) EncryptedRelayPeer_scheme \<Rightarrow> RelayFrame \<Rightarrow> bool" where
  "frame_expected p f \<longleftrightarrow> rf_installation_id f = ep_installation_id p \<and> rf_source_id f = ep_remote_peer p
     \<and> rf_destination_id f = ep_local_peer p \<and> rf_subject_id f = ep_subject_id p
     \<and> rf_sequence f = ep_receive_sequence p"

text \<open>A decrypted chunk: the assembly with it, and whether it was the last one.\<close>

definition assemble :: "8 word list \<Rightarrow> Assembly \<Rightarrow> TransportError + Assembly \<times> bool" where
  "assemble plaintext a =
     bindR (require (chunk_header \<le> length plaintext) (TE_Message ''encrypted chunk is truncated'')) (\<lambda>_.
     let i = take 16 plaintext;
         index = u16_from_be (plaintext ! 16) (plaintext ! 17);
         total = u16_from_be (plaintext ! 18) (plaintext ! 19);
         known_id = (case as_id a of None \<Rightarrow> i | Some j \<Rightarrow> j);
         known_total = (case as_total a of None \<Rightarrow> total | Some t \<Rightarrow> t)
     in bindR (require (\<not> (total = 0 \<or> total \<le> index \<or> 5 < unat index))
          (TE_Message ''invalid encrypted chunk sequence'')) (\<lambda>_.
        bindR (require (known_id = i \<and> known_total = total
            \<and> unat index = div_ceil (length (as_bytes a)) chunk_size)
          (TE_Message ''interleaved or out-of-order encrypted chunks'')) (\<lambda>_.
        let bytes = as_bytes a @ drop chunk_header plaintext in
        bindR (require (length bytes \<le> max_message_bytes) (TE_Message ''reassembled message is too large'')) (\<lambda>_.
        Inr (\<lparr>as_bytes = bytes, as_id = Some known_id, as_total = Some known_total\<rparr>, index + 1 = total)))))"

text \<open>
  \<open>receive_bytes\<close>, polled until it has a result or waits for a frame. Its local variables are
  the assembly, with which it goes on after a wait; what it has consumed stays consumed when it
  is dropped while it waits.
\<close>

datatype Received = RV_Message "8 word list" | RV_Error TransportError | RV_Waiting Assembly

partial_function (option) receive_loop ::
    "('n, 'z) noise_ext_scheme \<Rightarrow> ('s \<Rightarrow> RelayFrame option option \<times> 's) \<Rightarrow> Assembly
      \<Rightarrow> 'n EncryptedRelayPeer \<Rightarrow> 's \<Rightarrow> (Received \<times> 'n EncryptedRelayPeer \<times> 's) option" where
  "receive_loop N receive_frame a p s =
     (case receive_frame s of
        (None, s') \<Rightarrow> Some (RV_Waiting a, p, s')
      | (Some None, s') \<Rightarrow> Some (RV_Error (TE_Message ''relay connection closed''), p, s')
      | (Some (Some f), s') \<Rightarrow>
          if \<not> frame_expected p f
          then Some (RV_Error (TE_Message ''relay frame violates authenticated stream ordering''), p, s')
          else let p1 = p\<lparr>ep_receive_sequence := ep_receive_sequence p + 1\<rparr> in
            (case noise_decrypt N (ep_transport p1) (rf_ciphertext f) of
               Inl e \<Rightarrow> Some (RV_Error e, p1, s')
             | Inr (plaintext, t) \<Rightarrow> let p2 = p1\<lparr>ep_transport := t\<rparr> in
                 (case assemble plaintext a of
                    Inl e \<Rightarrow> Some (RV_Error e, p2, s')
                  | Inr (a', ended) \<Rightarrow> if ended then Some (RV_Message (as_bytes a'), p2, s')
                      else receive_loop N receive_frame a' p2 s')))"

definition receive_bytes ::
    "('n, 'z) noise_ext_scheme \<Rightarrow> ('s \<Rightarrow> RelayFrame option option \<times> 's) \<Rightarrow> 'n EncryptedRelayPeer \<Rightarrow> 's
      \<Rightarrow> (Received \<times> 'n EncryptedRelayPeer \<times> 's) option" where
  "receive_bytes N receive_frame p s = receive_loop N receive_frame empty_assembly p s"

section \<open>Host frames\<close>

text \<open>
  \<open>encode\<close> and \<open>decode\<close> of \<open>crates/mews-protocol/src/host.rs\<close>; the JSON of a frame is a pair of
  functions.
\<close>

definition host_protocol_version :: "32 word" where
  "host_protocol_version = 4"

definition max_host_frame_bytes :: nat where
  "max_host_frame_bytes = 256 * 1024"

record 'm HostFrame =
  hf_version :: "32 word"
  hf_body :: 'm

record 'm json_ext =
  jx_to_vec :: "'m HostFrame \<Rightarrow> 8 word list option"
  jx_from_slice :: "8 word list \<Rightarrow> 'm HostFrame option"

datatype FrameError = FE_Json | FE_TooLarge | FE_Version "32 word"

definition HostFrame_new :: "'m \<Rightarrow> 'm HostFrame" where
  "HostFrame_new body = \<lparr>hf_version = host_protocol_version, hf_body = body\<rparr>"

definition host_encode :: "('m, 'z) json_ext_scheme \<Rightarrow> 'm \<Rightarrow> FrameError + 8 word list" where
  "host_encode J body =
     bindR (okOr FE_Json (jx_to_vec J (HostFrame_new body))) (\<lambda>encoded.
     bindR (require (length encoded \<le> max_host_frame_bytes) FE_TooLarge) (\<lambda>_. Inr encoded))"

definition host_decode :: "('m, 'z) json_ext_scheme \<Rightarrow> 8 word list \<Rightarrow> FrameError + 'm" where
  "host_decode J encoded =
     bindR (require (length encoded \<le> max_host_frame_bytes) FE_TooLarge) (\<lambda>_.
     bindR (okOr FE_Json (jx_from_slice J encoded)) (\<lambda>frame.
     bindR (require (hf_version frame = host_protocol_version) (FE_Version (hf_version frame))) (\<lambda>_.
     Inr (hf_body frame))))"

section \<open>The loop of a Host link\<close>

text \<open>
  \<open>run_hub_host_link\<close>: \<open>select!\<close> polls both branches, and the branch that is ready first runs.
  While neither is, the receive keeps its assembly; when the other branch runs, the future of
  the receive is dropped and the next turn of the loop starts a new one.
\<close>

datatype LinkEnd = LE_Outbound_Closed | LE_Transport TransportError | LE_Frame FrameError

record ('n, 's, 'i) HostLink =
  hl_peer :: "'n EncryptedRelayPeer"
  hl_link :: 's
  hl_parked :: Assembly
  hl_inbound :: "'i list"

definition link_poll ::
    "('n, 'z) noise_ext_scheme \<Rightarrow> ('i, 'y) json_ext_scheme \<Rightarrow> ('s \<Rightarrow> RelayFrame option option \<times> 's)
      \<Rightarrow> ('n, 's, 'i) HostLink \<Rightarrow> (LinkEnd option \<times> ('n, 's, 'i) HostLink) option" where
  "link_poll N J receive_frame h =
     map_option (\<lambda>(got, p, s). let h' = h\<lparr>hl_peer := p, hl_link := s\<rparr> in
        case got of
          RV_Waiting a \<Rightarrow> (None, h'\<lparr>hl_parked := a\<rparr>)
        | RV_Error e \<Rightarrow> (Some (LE_Transport e), h'\<lparr>hl_parked := empty_assembly\<rparr>)
        | RV_Message m \<Rightarrow> (case host_decode J m of
              Inl e \<Rightarrow> (Some (LE_Frame e), h'\<lparr>hl_parked := empty_assembly\<rparr>)
            | Inr response \<Rightarrow> (None, h'\<lparr>hl_parked := empty_assembly, hl_inbound := hl_inbound h @ [response]\<rparr>)))
       (receive_loop N receive_frame (hl_parked h) (hl_peer h) (hl_link h))"

definition link_request ::
    "('n, 'z) noise_ext_scheme \<Rightarrow> ('o, 'y) json_ext_scheme \<Rightarrow> (RelayFrame \<Rightarrow> 's \<Rightarrow> RelayError + 's) \<Rightarrow> 8 word list
      \<Rightarrow> 'o option \<Rightarrow> ('n, 's, 'i) HostLink \<Rightarrow> LinkEnd option \<times> ('n, 's, 'i) HostLink" where
  "link_request N J send_frame message_id request h =
     (let h' = h\<lparr>hl_parked := empty_assembly\<rparr> in
      case request of
        None \<Rightarrow> (Some LE_Outbound_Closed, h')
      | Some r \<Rightarrow> (case host_encode J r of
            Inl e \<Rightarrow> (Some (LE_Frame e), h')
          | Inr message \<Rightarrow> (case send_bytes N send_frame message_id message (hl_peer h) (hl_link h) of
                (Inl e, p, s) \<Rightarrow> (Some (LE_Transport e), h'\<lparr>hl_peer := p, hl_link := s\<rparr>)
              | (Inr _, p, s) \<Rightarrow> (None, h'\<lparr>hl_peer := p, hl_link := s\<rparr>))))"

section \<open>The identity binding\<close>

record transport_ext = relay_ext +
  tx_base64_encode :: "8 word list \<Rightarrow> string"

record IdentityBinding =
  ib_installation_id :: InstallationId
  ib_peer_id :: string
  ib_sender_noise_key :: string
  ib_receiver_noise_key :: string
  ib_handshake_hash :: string
  ib_signature :: string

definition binding_signing_bytes :: "IdentityBinding \<Rightarrow> string" where
  "binding_signing_bytes b =
     ''mews-noise-binding-v1'' @ nul # ib_installation_id b @ nul # ib_peer_id b @ nul # ib_sender_noise_key b
       @ nul # ib_receiver_noise_key b @ nul # ib_handshake_hash b"

definition binding_create ::
    "('z) transport_ext_scheme \<Rightarrow> (string \<Rightarrow> string) \<Rightarrow> InstallationId \<Rightarrow> string \<Rightarrow> 8 word list \<Rightarrow> 8 word list
      \<Rightarrow> 8 word list \<Rightarrow> IdentityBinding" where
  "binding_create A sign installation peer sender receiver hash =
     (let b = \<lparr>ib_installation_id = installation, ib_peer_id = peer, ib_sender_noise_key = tx_base64_encode A sender,
               ib_receiver_noise_key = tx_base64_encode A receiver, ib_handshake_hash = tx_base64_encode A hash,
               ib_signature = []\<rparr>
      in b\<lparr>ib_signature := sign (binding_signing_bytes b)\<rparr>)"

text \<open>A signature that does not decode or verify is one error here.\<close>

datatype BindingError = BE_Mismatch | BE_Signature

definition binding_verify ::
    "('z) transport_ext_scheme \<Rightarrow> IdentityBinding \<Rightarrow> string \<Rightarrow> InstallationId \<Rightarrow> string \<Rightarrow> 8 word list \<Rightarrow> 8 word list
      \<Rightarrow> 8 word list \<Rightarrow> BindingError + unit" where
  "binding_verify A b trusted installation peer sender receiver hash =
     bindR (require (ib_installation_id b = installation \<and> ib_peer_id b = peer
         \<and> ib_sender_noise_key b = tx_base64_encode A sender \<and> ib_receiver_noise_key b = tx_base64_encode A receiver
         \<and> ib_handshake_hash b = tx_base64_encode A hash)
       BE_Mismatch) (\<lambda>_.
     require (verify_signature A trusted (binding_signing_bytes b) (ib_signature b))
       BE_Signature)"

definition channel_prologue :: "InstallationId \<Rightarrow> RelayPeerId \<Rightarrow> RelayPeerId \<Rightarrow> string \<Rightarrow> string" where
  "channel_prologue installation initiator responder subject =
     ''mews-host-rpc-v1'' @ nul # installation @ nul # initiator @ nul # responder @ nul # subject"

end
