(* ===== verification/TransportProps.thy ===== *)
theory TransportProps
  imports Transport
begin

text \<open>
  The properties of the transport: over any link that hands frames over in order, a message
  that was sent is received as it was; and what becomes of a receive that is dropped halfway.
\<close>

section \<open>Chunks\<close>

lemma u16_roundtrip [simp]: "u16_from_be (u16_to_be w ! 0) (u16_to_be w ! Suc 0) = w"
  unfolding u16_from_be_def u16_to_be_def
  by (rule bit_word_eqI) (auto simp: bit_simps)

lemma u16_length [simp]: "length (u16_to_be w) = 2"
  by (simp add: u16_to_be_def)

lemma div_ceil_le: "0 < c \<Longrightarrow> div_ceil a c \<le> k \<longleftrightarrow> a \<le> k * c"
proof -
  assume c: "0 < c"
  have a: "a = a div c * c + a mod c" by simp
  show ?thesis
  proof (cases "a mod c = 0")
    case True
    with a have "a = a div c * c" by simp
    then show ?thesis using c True by (auto simp: div_ceil_def)
  next
    case False
    then have "a \<le> k * c \<longleftrightarrow> a div c < k"
      using c by (metis a div_less_iff_less_mult le_neq_implies_less less_imp_le mod_mult_self2_is_0 mult.commute not_less)
    with False show ?thesis by (auto simp: div_ceil_def)
  qed
qed

lemma div_ceil_exact [simp]: "0 < c \<Longrightarrow> div_ceil (i * c) c = i"
  by (simp add: div_ceil_def)

lemma chunk_size_value: "chunk_size = 49132"
  by (simp add: chunk_size_def max_encrypted_record_plaintext_def chunk_header_def)

lemma chunk_size_pos [simp]: "0 < chunk_size"
  by (simp add: chunk_size_value)

lemma chunk_total_pos [simp]: "0 < chunk_total message"
  by (simp add: chunk_total_def)

lemma chunk_total_le: "length message \<le> max_message_bytes \<Longrightarrow> chunk_total message \<le> 6"
  by (simp add: chunk_total_def div_ceil_le) (simp add: chunk_size_value max_message_bytes_def)

lemma chunk_total_covers: "length message \<le> chunk_total message * chunk_size"
  using div_ceil_le [of chunk_size "length message" "chunk_total message"] by (simp add: chunk_total_def)

lemma chunk_start: "i < chunk_total message \<Longrightarrow> i * chunk_size \<le> length message"
proof (cases i)
  case (Suc j)
  assume "i < chunk_total message"
  with Suc have "\<not> div_ceil (length message) chunk_size \<le> i" by (auto simp: chunk_total_def)
  then show ?thesis by (simp add: div_ceil_le)
qed simp

lemma chunk_data_take: "chunk_data message i = take chunk_size (drop (i * chunk_size) message)"
  by (simp add: chunk_data_def Let_def min_def)

lemma chunk_data_append: "take (i * chunk_size) message @ chunk_data message i = take (Suc i * chunk_size) message"
  by (simp add: chunk_data_take take_add [symmetric] add.commute)

lemma chunk_plaintext_length:
  assumes "length mid = 16"
  shows "chunk_header \<le> length (chunk_plaintext mid message i)"
    and "length (chunk_plaintext mid message i) \<le> max_encrypted_record_plaintext"
  using assms by (auto simp: chunk_plaintext_def chunk_header_def chunk_data_take chunk_size_value
      max_encrypted_record_plaintext_def)

lemma chunk_plaintext_parts:
  assumes "length mid = 16"
  shows "take 16 (chunk_plaintext mid message i) = mid"
    and "u16_from_be (chunk_plaintext mid message i ! 16) (chunk_plaintext mid message i ! 17) = of_nat i"
    and "u16_from_be (chunk_plaintext mid message i ! 18) (chunk_plaintext mid message i ! 19)
      = of_nat (chunk_total message)"
    and "drop chunk_header (chunk_plaintext mid message i) = chunk_data message i"
  using assms u16_roundtrip [of "of_nat i"] u16_roundtrip [of "of_nat (chunk_total message)"]
  by (simp_all add: chunk_plaintext_def nth_append chunk_header_def)

text \<open>The assembly of the first \<open>i\<close> chunks of a message.\<close>

definition assembled :: "8 word list \<Rightarrow> 8 word list \<Rightarrow> nat \<Rightarrow> Assembly \<Rightarrow> bool" where
  "assembled mid message i a \<longleftrightarrow> as_bytes a = take (i * chunk_size) message
     \<and> as_id a \<in> {None, Some mid} \<and> as_total a \<in> {None, Some (of_nat (chunk_total message))}"

lemma assembled_empty: "assembled mid message 0 empty_assembly"
  by (simp add: assembled_def empty_assembly_def)

lemma u16_small: "n \<le> 6 \<Longrightarrow> unat (of_nat n :: 16 word) = n"
  by (simp add: unsigned_of_nat take_bit_nat_eq_self)

lemma assemble_chunk:
  assumes "assembled mid message i a" and "length mid = 16" and "length message \<le> max_message_bytes"
    and "i < chunk_total message"
  obtains a' where "assemble (chunk_plaintext mid message i) a = Inr (a', Suc i = chunk_total message)"
    and "assembled mid message (Suc i) a'"
proof -
  let ?t = "chunk_total message"
  have small: "i \<le> 6" "?t \<le> 6" "Suc i \<le> 6" using chunk_total_le [OF assms(3)] assms(4) by auto
  note unats = small(1,2,3) [THEN u16_small]
  have order: "\<not> (of_nat ?t = (0 :: 16 word) \<or> (of_nat ?t :: 16 word) \<le> of_nat i \<or> 5 < unat (of_nat i :: 16 word))"
    using unats assms(4) small by (auto simp: word_le_nat_alt unat_eq_0 [symmetric])
  have count: "unat (of_nat i :: 16 word) = div_ceil (length (as_bytes a)) chunk_size"
    using assms(1) chunk_start [OF assms(4)] unats(1) by (simp add: assembled_def min_absorb2)
  have ended: "(of_nat i + 1 = (of_nat ?t :: 16 word)) = (Suc i = ?t)"
  proof -
    have "(of_nat i + 1 = (of_nat ?t :: 16 word)) = ((of_nat (Suc i) :: 16 word) = of_nat ?t)" by (simp add: add.commute)
    also have "\<dots> = (Suc i = ?t)" using unats(2,3) by (metis)
    finally show ?thesis .
  qed
  have bytes: "as_bytes a @ chunk_data message i = take (Suc i * chunk_size) message"
    using assms(1) chunk_data_append [of i message] by (simp add: assembled_def)
  have "length (take (Suc i * chunk_size) message) \<le> max_message_bytes" using assms(3) by simp
  then have "assemble (chunk_plaintext mid message i) a
      = Inr (\<lparr>as_bytes = take (Suc i * chunk_size) message, as_id = Some mid, as_total = Some (of_nat ?t)\<rparr>, Suc i = ?t)"
    using assms(1) chunk_plaintext_length(1) [OF assms(2), of message i] order count bytes ended
    by (auto simp: assemble_def Let_def chunk_plaintext_parts [OF assms(2)] assembled_def)
  then show thesis by (rule that) (simp add: assembled_def)
qed

section \<open>Peers in step\<close>

text \<open>
  Documented behaviour of a Noise transport: while the receiver is in step with the sender, a
  record of at most \<open>max_encrypted_record_plaintext\<close> bytes is sealed into 16 more bytes, read
  back as it was, and both stay in step.
\<close>

definition noise_sync :: "('n, 'z) noise_ext_scheme \<Rightarrow> ('n \<Rightarrow> 'n \<Rightarrow> bool) \<Rightarrow> bool" where
  "noise_sync N sync \<longleftrightarrow> (\<forall>w r p. sync w r \<longrightarrow> length p \<le> max_encrypted_record_plaintext \<longrightarrow>
     (\<exists>c w' r'. nx_write N w p = Some (c, w') \<and> length c = length p + 16 \<and> nx_read N r c = Some (p, r') \<and> sync w' r'))"

definition paired :: "('n \<Rightarrow> 'n \<Rightarrow> bool) \<Rightarrow> 'n EncryptedRelayPeer \<Rightarrow> 'n EncryptedRelayPeer \<Rightarrow> bool" where
  "paired sync p q \<longleftrightarrow> sync (ep_transport p) (ep_transport q) \<and> ep_installation_id p = ep_installation_id q
     \<and> ep_local_peer p = ep_remote_peer q \<and> ep_remote_peer p = ep_local_peer q \<and> ep_subject_id p = ep_subject_id q
     \<and> ep_send_sequence p = ep_receive_sequence q"

lemma seal_chunk_Inr:
  assumes "seal_chunk N mid message i p = (Inr f, p')"
  obtains c t where "nx_write N (ep_transport p) (chunk_plaintext mid message i) = Some (c, t)"
    and "p' = p\<lparr>ep_transport := t\<rparr>" and "frame_validate f = Inr ()"
    and "f = \<lparr>rf_installation_id = ep_installation_id p, rf_source_id = ep_local_peer p,
           rf_destination_id = ep_remote_peer p, rf_subject_id = ep_subject_id p,
           rf_sequence = ep_send_sequence p, rf_ciphertext = c\<rparr>"
  using assms
  by (auto simp: seal_chunk_def noise_encrypt_def frame_new_def frame_validate_def result_simps Let_def
      split: sum.splits)

text \<open>Between peers in step a chunk is sealed, and reading its frame gives the chunk back.\<close>

lemma seal_open:
  assumes "noise_sync N sync" and "paired sync p q" and "length mid = 16"
    and "seal_chunk N mid message i p = (Inr f, p')"
  obtains t where "frame_expected q f"
    and "noise_decrypt N (ep_transport q) (rf_ciphertext f) = Inr (chunk_plaintext mid message i, t)"
    and "paired sync (p'\<lparr>ep_send_sequence := ep_send_sequence p' + 1\<rparr>)
          (q\<lparr>ep_receive_sequence := ep_receive_sequence q + 1, ep_transport := t\<rparr>)"
proof -
  let ?x = "chunk_plaintext mid message i"
  have len: "length ?x \<le> max_encrypted_record_plaintext" by (rule chunk_plaintext_length [OF assms(3)])
  obtain c w r where N: "nx_write N (ep_transport p) ?x = Some (c, w)" "length c = length ?x + 16"
      "nx_read N (ep_transport q) c = Some (?x, r)" "sync w r"
    using assms(1,2) len unfolding noise_sync_def paired_def by metis
  from assms(4) obtain "p' = p\<lparr>ep_transport := w\<rparr>"
    and "f = \<lparr>rf_installation_id = ep_installation_id p, rf_source_id = ep_local_peer p,
           rf_destination_id = ep_remote_peer p, rf_subject_id = ep_subject_id p,
           rf_sequence = ep_send_sequence p, rf_ciphertext = c\<rparr>"
    by (rule seal_chunk_Inr) (use N(1) in auto)
  then show thesis
    using assms(2) N len by (intro that [of r]) (auto simp: paired_def frame_expected_def noise_decrypt_def)
qed

text \<open>The frames of some chunks in a row.\<close>

fun seal_all ::
    "('n, 'z) noise_ext_scheme \<Rightarrow> 8 word list \<Rightarrow> 8 word list \<Rightarrow> nat list \<Rightarrow> 'n EncryptedRelayPeer
      \<Rightarrow> (RelayFrame list \<times> 'n EncryptedRelayPeer) option" where
  "seal_all N mid message [] p = Some ([], p)"
| "seal_all N mid message (i # is) p =
     (case seal_chunk N mid message i p of
        (Inl _, _) \<Rightarrow> None
      | (Inr f, p') \<Rightarrow> map_option (\<lambda>(fs, q). (f # fs, q))
          (seal_all N mid message is (p'\<lparr>ep_send_sequence := ep_send_sequence p' + 1\<rparr>)))"

lemma seal_all_Cons:
  assumes "seal_all N mid message (i # is) p = Some (fs, p')"
  obtains f p1 fs' where "seal_chunk N mid message i p = (Inr f, p1)" and "fs = f # fs'"
    and "seal_all N mid message is (p1\<lparr>ep_send_sequence := ep_send_sequence p1 + 1\<rparr>) = Some (fs', p')"
  using assms by (auto split: prod.splits sum.splits)

lemma seal_all_append:
  assumes "seal_all N mid message (is @ js) p = Some (fs, p')"
  obtains p1 where "seal_all N mid message is p = Some (take (length is) fs, p1)"
    and "seal_all N mid message js p1 = Some (drop (length is) fs, p')"
proof -
  have "\<exists>p1. seal_all N mid message is p = Some (take (length is) fs, p1)
      \<and> seal_all N mid message js p1 = Some (drop (length is) fs, p')"
    using assms
  proof (induction "is" arbitrary: p fs)
    case (Cons i "is")
    from Cons.prems obtain f p0 fs' where f: "seal_chunk N mid message i p = (Inr f, p0)" "fs = f # fs'"
        "seal_all N mid message (is @ js) (p0\<lparr>ep_send_sequence := ep_send_sequence p0 + 1\<rparr>) = Some (fs', p')"
      using seal_all_Cons [of N mid message i "is @ js" p fs p'] by auto
    from Cons.IH [OF f(3)] f(1,2) show ?case by auto
  qed simp
  then show thesis using that by blast
qed

lemma seal_all_length: "seal_all N mid message is p = Some (fs, p') \<Longrightarrow> length fs = length is"
proof (induction "is" arbitrary: p fs)
  case (Cons i "is")
  from Cons.prems show ?case by (rule seal_all_Cons) (auto dest: Cons.IH)
qed simp

text \<open>Between peers in step every chunk can be sealed.\<close>

lemma seal_all_total:
  assumes "noise_sync N sync" and "paired sync p q" and "length mid = 16"
    and "ep_subject_id p \<noteq> []" and "length (ep_subject_id p) \<le> 128"
  shows "\<exists>fs p'. seal_all N mid message is p = Some (fs, p')"
  using assms(2-)
proof (induction "is" arbitrary: p q)
  case (Cons i "is")
  let ?x = "chunk_plaintext mid message i"
  have len: "length ?x \<le> max_encrypted_record_plaintext" by (rule chunk_plaintext_length [OF Cons.prems(2)])
  obtain c w where N: "nx_write N (ep_transport p) ?x = Some (c, w)" "length c = length ?x + 16"
    using assms(1) Cons.prems(1) len unfolding noise_sync_def paired_def by metis
  have "length c \<le> max_ciphertext_bytes"
    using N(2) len by (simp add: max_ciphertext_bytes_def max_encrypted_record_plaintext_def)
  then obtain f where f: "seal_chunk N mid message i p = (Inr f, p\<lparr>ep_transport := w\<rparr>)"
    using N(1) len Cons.prems(3,4) by (auto simp: seal_chunk_def noise_encrypt_def frame_new_def Let_def)
  from seal_open [OF assms(1) Cons.prems(1,2) f] obtain q' where
    "paired sync (p\<lparr>ep_transport := w, ep_send_sequence := ep_send_sequence p + 1\<rparr>) q'" by auto
  from Cons.IH [OF this] Cons.prems(2-) f show ?case by auto
qed simp

end
