(* ===== verification/TransportLink.thy ===== *)
theory TransportLink
  imports TransportProps
begin

text \<open>
  Messages over a link that hands frames over in order (\<open>relay_link\<close>): sending puts the sealed
  chunks into the link, and receiving them gives the message, unless a receive that has taken
  some of them is dropped.
\<close>

section \<open>Sending and receiving over a link\<close>

definition frame_of :: "'n EncryptedRelayPeer \<Rightarrow> RelayFrame \<Rightarrow> bool" where
  "frame_of p f \<longleftrightarrow> frame_validate f = Inr () \<and> rf_installation_id f = ep_installation_id p
     \<and> rf_source_id f = ep_local_peer p \<and> rf_destination_id f = ep_remote_peer p \<and> rf_subject_id f = ep_subject_id p"

lemma seal_chunk_frame:
  "seal_chunk N mid message i p = (Inr f, p') \<Longrightarrow> frame_of p f \<and> frame_of p' = frame_of p"
  by (erule seal_chunk_Inr) (auto simp: frame_of_def fun_eq_iff)

lemma assemble_out_of_order:
  assumes "chunk_header \<le> length x" and "u16_from_be (x ! 16) (x ! 17) = i" and "u16_from_be (x ! 18) (x ! 19) = n"
    and "\<not> (n = 0 \<or> n \<le> i \<or> 5 < unat i)"
    and "unat i \<noteq> div_ceil (length (as_bytes a)) chunk_size"
  shows "assemble x a = Inl (TE_Message ''interleaved or out-of-order encrypted chunks'')"
  using assms by (simp add: assemble_def Let_def)

lemma frame_of_sequence [simp]: "frame_of (p\<lparr>ep_send_sequence := n\<rparr>) = frame_of p"
  by (simp add: frame_of_def fun_eq_iff)

context relay_link begin

lemma send_chunks_seal:
  assumes "seal_all N mid message is p = Some (fs, p')" and "up s" and "\<And>f. frame_of p f \<Longrightarrow> meant f"
    and "length fs \<le> room s"
  obtains s' where "send_chunks N accept mid message is p s = (Inr (), p', s')"
    and "waiting s' = waiting s @ fs" and "up s'" and "room s' = room s - length fs"
proof -
  have "\<exists>s'. send_chunks N accept mid message is p s = (Inr (), p', s') \<and> waiting s' = waiting s @ fs
      \<and> up s' \<and> room s' = room s - length fs"
    using assms
  proof (induction "is" arbitrary: p fs s)
    case (Cons i "is")
    from Cons.prems(1) obtain f p1 fs' where seal: "seal_chunk N mid message i p = (Inr f, p1)" and fs: "fs = f # fs'"
      and all: "seal_all N mid message is (p1\<lparr>ep_send_sequence := ep_send_sequence p1 + 1\<rparr>) = Some (fs', p')"
      by (rule seal_all_Cons)
    have f: "meant f" using Cons.prems(3) seal_chunk_frame [OF seal] by simp
    obtain s1 where acc: "accept f s = Inr s1" using accept_room [OF Cons.prems(2) f] Cons.prems(4) fs by auto
    note s1 = accept_appends [OF Cons.prems(2) f acc]
    have "frame_of (p1\<lparr>ep_send_sequence := ep_send_sequence p1 + 1\<rparr>) g \<Longrightarrow> meant g" for g
      using Cons.prems(3) seal_chunk_frame [OF seal] by simp
    with Cons.IH [OF all] s1 Cons.prems(4) fs obtain s' where
      "send_chunks N accept mid message is (p1\<lparr>ep_send_sequence := ep_send_sequence p1 + 1\<rparr>) s1 = (Inr (), p', s')"
      "waiting s' = waiting s1 @ fs'" "up s'" "room s' = room s1 - length fs'" by fastforce
    with seal acc s1 fs show ?case by auto
  qed auto
  then show thesis using that by blast
qed

text \<open>One chunk: the receive returns the message with the last one, and goes on otherwise.\<close>

lemma receive_chunk:
  assumes sync: "noise_sync N sync" and "paired sync p q" and mid: "length mid = 16"
    and "seal_chunk N mid message i p = (Inr f, p')"
    and "up s" and "waiting s = f # fs"
  obtains q' s' where "waiting s' = fs" and "up s'" and "room s \<le> room s'"
    and "paired sync (p'\<lparr>ep_send_sequence := ep_send_sequence p' + 1\<rparr>) q'"
    and "\<And>a. receive_loop N take_frame a q s =
          (case assemble (chunk_plaintext mid message i) a of
             Inl e \<Rightarrow> Some (RV_Error e, q', s')
           | Inr (a', ended) \<Rightarrow> if ended then Some (RV_Message (as_bytes a'), q', s')
               else receive_loop N take_frame a' q' s')"
proof -
  from seal_open [OF assms(1-4)] obtain t where t: "frame_expected q f"
      "noise_decrypt N (ep_transport q) (rf_ciphertext f) = Inr (chunk_plaintext mid message i, t)"
      "paired sync (p'\<lparr>ep_send_sequence := ep_send_sequence p' + 1\<rparr>)
          (q\<lparr>ep_receive_sequence := ep_receive_sequence q + 1, ep_transport := t\<rparr>)" by blast
  from take_first [OF assms(5,6)] obtain s' where s': "take_frame s = (Some (Some f), s')" "waiting s' = fs" "up s'"
      "room s \<le> room s'" by blast
  show thesis
    by (rule that [OF s'(2,3,4) t(3)], subst receive_loop.simps) (simp add: s'(1) t(1,2) Let_def)
qed

lemma receive_chunks:
  assumes "noise_sync N sync" and "paired sync p q" and "length mid = 16" and "length message \<le> max_message_bytes"
    and "seal_all N mid message [i..<n] p = Some (fs, p')" and "i \<le> n" and "n < chunk_total message"
    and "assembled mid message i a" and "up s" and "waiting s = fs @ rest"
  obtains a' q' s' where "receive_loop N take_frame a q s = receive_loop N take_frame a' q' s'"
    and "assembled mid message n a'" and "paired sync p' q'" and "up s'" and "waiting s' = rest" and "room s \<le> room s'"
proof -
  have "\<exists>a' q' s'. receive_loop N take_frame a q s = receive_loop N take_frame a' q' s'
      \<and> assembled mid message n a' \<and> paired sync p' q' \<and> up s' \<and> waiting s' = rest \<and> room s \<le> room s'"
    using assms(2,5-)
  proof (induction "n - i" arbitrary: i p q a s fs)
    case 0
    then show ?case by auto
  next
    case (Suc m)
    then have i: "i < n" "[i..<n] = i # [Suc i..<n]" by (auto simp: upt_conv_Cons)
    with Suc.prems(2) obtain f p1 fs' where seal: "seal_chunk N mid message i p = (Inr f, p1)" "fs = f # fs'"
        "seal_all N mid message [Suc i..<n] (p1\<lparr>ep_send_sequence := ep_send_sequence p1 + 1\<rparr>) = Some (fs', p')"
      by (metis seal_all_Cons)
    have more: "i < chunk_total message" "Suc i \<noteq> chunk_total message" using i Suc.prems(4) by auto
    have "waiting s = f # (fs' @ rest)" using Suc.prems(7) seal(2) by simp
    from receive_chunk [OF assms(1) Suc.prems(1) assms(3) seal(1) Suc.prems(6) this] obtain q1 s1 where 1:
        "waiting s1 = fs' @ rest" "up s1" "room s \<le> room s1" "paired sync (p1\<lparr>ep_send_sequence := ep_send_sequence p1 + 1\<rparr>) q1"
        "\<And>a. receive_loop N take_frame a q s =
          (case assemble (chunk_plaintext mid message i) a of
             Inl e \<Rightarrow> Some (RV_Error e, q1, s1)
           | Inr (a', ended) \<Rightarrow> if ended then Some (RV_Message (as_bytes a'), q1, s1)
               else receive_loop N take_frame a' q1 s1)" by blast
    from assemble_chunk [OF Suc.prems(5) assms(3,4) more(1)] more(2) obtain a1 where a1:
      "assemble (chunk_plaintext mid message i) a = Inr (a1, False)" "assembled mid message (Suc i) a1" by auto
    have "m = n - Suc i" "Suc i \<le> n" using Suc.hyps(2) i(1) by auto
    from Suc.hyps(1) [OF this(1) 1(4) seal(3) this(2) Suc.prems(4) a1(2) 1(2,1)]
    show ?case using 1(3) by (auto simp: 1(5) a1(1) intro: le_trans)
  qed
  then show thesis using that by blast
qed

text \<open>The chunks that are left complete a message that has been received up to them.\<close>

lemma receive_rest:
  assumes "noise_sync N sync" and "paired sync p q" and "length mid = 16" and "length message \<le> max_message_bytes"
    and "seal_all N mid message [i..<chunk_total message] p = Some (fs, p')" and "i < chunk_total message"
    and "assembled mid message i a" and "up s" and "waiting s = fs @ rest"
  obtains q' s' where "receive_loop N take_frame a q s = Some (RV_Message message, q', s')"
    and "paired sync p' q'" and "up s'" and "waiting s' = rest"
proof -
  let ?n = "chunk_total message - 1"
  have n: "Suc ?n = chunk_total message" using chunk_total_pos [of message] by linarith
  have le: "i \<le> ?n" "?n < chunk_total message" using n assms(6) by linarith+
  have "[i..<chunk_total message] = [i..<?n] @ [?n]" using n le(1) by (metis upt_Suc)
  with assms(5) obtain p1 where s1: "seal_all N mid message [i..<?n] p = Some (take (length [i..<?n]) fs, p1)"
    and s2: "seal_all N mid message [?n] p1 = Some (drop (length [i..<?n]) fs, p')"
    by (metis seal_all_append)
  from s2 obtain f p2 where f: "seal_chunk N mid message ?n p1 = (Inr f, p2)" "drop (length [i..<?n]) fs = [f]"
      "p' = p2\<lparr>ep_send_sequence := ep_send_sequence p2 + 1\<rparr>"
    by (rule seal_all_Cons) auto
  have w: "waiting s = take (length [i..<?n]) fs @ (f # rest)"
    using assms(9) f(2) by (metis append.assoc append_Cons append_Nil append_take_drop_id)
  from receive_chunks [OF assms(1-4) s1 le assms(7,8) w] obtain a1 q1 s1 where 1:
      "receive_loop N take_frame a q s = receive_loop N take_frame a1 q1 s1"
      "assembled mid message ?n a1" "paired sync p1 q1" "up s1" "waiting s1 = f # rest" by blast
  from receive_chunk [OF assms(1) 1(3) assms(3) f(1) 1(4,5)] obtain q2 s2 where 2:
        "waiting s2 = rest" "up s2" "room s1 \<le> room s2" "paired sync p' q2"
        "\<And>a. receive_loop N take_frame a q1 s1 =
          (case assemble (chunk_plaintext mid message ?n) a of
             Inl e \<Rightarrow> Some (RV_Error e, q2, s2)
           | Inr (a', ended) \<Rightarrow> if ended then Some (RV_Message (as_bytes a'), q2, s2)
               else receive_loop N take_frame a' q2 s2)" using f(3) by blast
  from assemble_chunk [OF 1(2) assms(3,4)] n obtain a2 where a2:
      "assemble (chunk_plaintext mid message ?n) a1 = Inr (a2, True)" "assembled mid message (chunk_total message) a2"
    by (metis lessI)
  have "as_bytes a2 = message" using a2(2) chunk_total_covers [of message] by (simp add: assembled_def)
  then show thesis using that 1(1) 2 a2(1) by simp
qed

text \<open>All chunks of a message are received as the message.\<close>

lemmas receive_message = receive_rest [of N sync p q mid message 0 for N sync p q mid message,
    OF _ _ _ _ _ chunk_total_pos assembled_empty, folded receive_bytes_def]

text \<open>When only some chunks have come, the receive waits with what it has taken.\<close>

lemma receive_waits:
  assumes "noise_sync N sync" and "paired sync p q" and "length mid = 16" and "length message \<le> max_message_bytes"
    and "seal_all N mid message [0..<n] p = Some (fs, p')" and "n < chunk_total message" and "up s" and "waiting s = fs"
  obtains a q' s' where "receive_bytes N take_frame q s = Some (RV_Waiting a, q', s')"
    and "assembled mid message n a" and "paired sync p' q'" and "up s'" and "waiting s' = []" and "room s \<le> room s'"
proof -
  from receive_chunks [OF assms(1-5) _ assms(6) assembled_empty assms(7), of "[]"] assms(8) obtain a q' s' where 1:
      "receive_loop N take_frame empty_assembly q s = receive_loop N take_frame a q' s'"
      "assembled mid message n a" "paired sync p' q'" "up s'" "waiting s' = []"
      "room s \<le> room s'" by auto
  have "receive_loop N take_frame a q' s' = Some (RV_Waiting a, q', s')"
    by (subst receive_loop.simps) (simp add: take_waits [OF 1(4,5)])
  then show thesis using that 1 by (simp add: receive_bytes_def)
qed

text \<open>A chunk in the middle of a message is an error for a new receive.\<close>

lemma receive_middle:
  assumes "noise_sync N sync" and "paired sync p q" and "length mid = 16" and "length message \<le> max_message_bytes"
    and "seal_chunk N mid message i p = (Inr f, p')" and "0 < i" and "i < chunk_total message"
    and "up s" and "waiting s = f # fs"
  obtains q' s' where "receive_bytes N take_frame q s =
      Some (RV_Error (TE_Message ''interleaved or out-of-order encrypted chunks''), q', s')"
proof -
  have small: "i \<le> 6" "chunk_total message \<le> 6" using chunk_total_le [OF assms(4)] assms(7) by auto
  note unats = small [THEN u16_small]
  have order: "\<not> (of_nat (chunk_total message) = (0 :: 16 word)
      \<or> (of_nat (chunk_total message) :: 16 word) \<le> of_nat i \<or> 5 < unat (of_nat i :: 16 word))"
    using unats small assms(7) by (auto simp: word_le_nat_alt unat_eq_0 [symmetric])
  have count: "unat (of_nat i :: 16 word) \<noteq> div_ceil (length (as_bytes empty_assembly)) chunk_size"
    using unats(1) assms(6) by (simp add: empty_assembly_def div_ceil_def)
  have "assemble (chunk_plaintext mid message i) empty_assembly
      = Inl (TE_Message ''interleaved or out-of-order encrypted chunks'')"
    by (rule assemble_out_of_order [OF chunk_plaintext_length(1) [OF assms(3)]
          chunk_plaintext_parts(2,3) [OF assms(3)] order count])
  note err = this
  from receive_chunk [OF assms(1,2,3,5,8,9)] obtain q' s' where
    "\<And>a. receive_loop N take_frame a q s =
          (case assemble (chunk_plaintext mid message i) a of
             Inl e \<Rightarrow> Some (RV_Error e, q', s')
           | Inr (a', ended) \<Rightarrow> if ended then Some (RV_Message (as_bytes a'), q', s')
               else receive_loop N take_frame a' q' s')" by blast
  from this [of empty_assembly] show thesis
    by (intro that [of q' s']) (simp only: receive_bytes_def err sum.case)
qed

end

end
