(* ===== verification/LinkProps.thy ===== *)
theory LinkProps
  imports TransportLink
begin

text \<open>
  The transport on the relay: a Host frame sent over an encrypted peer is delivered, a receive
  that the loop of the Hub drops is not made up for, and what an identity binding fixes.
\<close>

section \<open>Peers of two connections\<close>

definition peers_of :: "RelayConnection \<Rightarrow> RelayConnection \<Rightarrow> 'n EncryptedRelayPeer \<Rightarrow> bool" where
  "peers_of c d p \<longleftrightarrow> ep_subject_id p \<noteq> [] \<and> length (ep_subject_id p) \<le> 128
     \<and> ep_installation_id p = ri_installation_id (cx_identity c) \<and> ep_local_peer p = ri_peer_id (cx_identity c)
     \<and> cx_key d = \<lparr>rk_installation_id = ep_installation_id p,
         rk_authority_public_key = ri_authority_public_key (cx_identity c), rk_peer_id = ep_remote_peer p\<rparr>"

lemma peers_meant: "peers_of c d p \<Longrightarrow> frame_of p f \<Longrightarrow> link_meant c d f"
  by (simp add: peers_of_def frame_of_def link_meant_def)

lemma peers_of_simps [simp]:
  "peers_of c d (p\<lparr>ep_transport := t\<rparr>) = peers_of c d p"
  "peers_of c d (p\<lparr>ep_send_sequence := n\<rparr>) = peers_of c d p"
  by (simp_all add: peers_of_def)

lemma seal_all_peers:
  assumes "seal_all N mid message is p = Some (fs, p')"
  shows "peers_of c d p' = peers_of c d p"
  using assms
proof (induction "is" arbitrary: p fs)
  case (Cons i "is")
  from Cons.prems obtain f p1 fs' where seal: "seal_chunk N mid message i p = (Inr f, p1)"
    and all: "seal_all N mid message is (p1\<lparr>ep_send_sequence := ep_send_sequence p1 + 1\<rparr>) = Some (fs', p')"
    by (rule seal_all_Cons)
  have "peers_of c d p1 = peers_of c d p" using seal by (rule seal_chunk_Inr) simp
  with Cons.IH [OF all] show ?case by simp
qed simp

text \<open>Keys of live connections are those of their identities, so the peers are each other's.\<close>

lemma peers_of_sym:
  assumes "relay_reach A enrolled w" and "unwrapped w" and "{c, d} \<subseteq> set (rw_live w)"
    and "peers_of c d p" and "paired sync p q"
  shows "peers_of d c q"
proof -
  have "numbered w" using relay_reach_ok [OF assms(1,2)] by (simp add: relay_ok_def)
  then have "cx_key c = route_key (cx_identity c)" "cx_key d = route_key (cx_identity d)"
    using assms(3) by (auto simp: numbered_def)
  with assms(4,5) show ?thesis by (auto simp: peers_of_def paired_def route_key_def)
qed

lemma chunks_sent:
  assumes "noise_sync N sync" and "paired sync p q" and "peers_of c d p" and "link_up c d r"
    and "length is \<le> link_room d r" and "length mid = 16"
  obtains fs p' r' where "seal_all N mid message is p = Some (fs, p')"
    and "send_chunks N (connection_send c) mid message is p r = (Inr (), p', r')"
    and "link_waiting d r' = link_waiting d r @ fs" and "link_up c d r'" and "peers_of c d p'"
    and "link_room d r' = link_room d r - length is"
proof -
  from assms(3) have subject: "ep_subject_id p \<noteq> []" "length (ep_subject_id p) \<le> 128" by (simp_all add: peers_of_def)
  from seal_all_total [OF assms(1,2,6) subject] obtain fs p' where
    seal: "seal_all N mid message is p = Some (fs, p')" by blast
  have room: "length fs \<le> link_room d r" using seal_all_length [OF seal] assms(5) by simp
  from router_link.send_chunks_seal [OF seal assms(4) peers_meant [OF assms(3)] room] obtain r' where
    "send_chunks N (connection_send c) mid message is p r = (Inr (), p', r')"
    "link_waiting d r' = link_waiting d r @ fs" "link_up c d r'" "link_room d r' = link_room d r - length fs" by blast
  with seal seal_all_length [OF seal] seal_all_peers [OF seal] assms(3) that show thesis by simp
qed

lemma host_frame_size: "host_encode J m = Inr bytes \<Longrightarrow> length bytes \<le> max_message_bytes"
  by (auto simp: host_encode_def result_simps max_host_frame_bytes_def max_message_bytes_def)

lemma host_decode_encode:
  assumes "host_encode J m = Inr bytes" and "\<And>f b. jx_to_vec J f = Some b \<Longrightarrow> jx_from_slice J b = Some f"
  shows "host_decode J bytes = Inr m"
  using assms by (auto simp: host_encode_def host_decode_def HostFrame_new_def result_simps)

section \<open>Delivery\<close>

text \<open>
  C33. Between two current connections of a reachable router whose queue is empty, a Host frame
  that encodes is sent without error, whatever number of chunks it takes, and the loop at the
  other end receives exactly what was sent; then the peers are in step for the next frame.
\<close>

theorem frame_delivered:
  assumes "relay_reach A enrolled w" and "unwrapped w" and "{c, d} \<subseteq> set (rw_live w)" and "c \<noteq> d"
    and "is_current c (rw_router w)" and "is_current d (rw_router w)"
    and "link_waiting d (rw_router w) = []" and "6 \<le> rr_queue_capacity (rw_router w)"
    and "noise_sync N sync" and "paired sync p (hl_peer h)" and "peers_of c d p" and "length mid = 16"
    and "\<And>f b. jx_to_vec J f = Some b \<Longrightarrow> jx_from_slice J b = Some f"
    and "host_encode J m = Inr bytes" and "hl_parked h = empty_assembly"
  shows "\<exists>p' r h'. send_bytes N (connection_send c) mid bytes p (rw_router w) = (Inr (), p', r)
    \<and> link_poll N J (connection_receive d id) (h\<lparr>hl_link := r\<rparr>) = Some (None, h')
    \<and> hl_inbound h' = hl_inbound h @ [m] \<and> hl_parked h' = empty_assembly
    \<and> paired sync p' (hl_peer h') \<and> peers_of c d p' \<and> link_waiting d (hl_link h') = []"
proof -
  note up = reachable_link [OF assms(1-6)]
  note size = host_frame_size [OF assms(14)]
  have "length [0..<chunk_total bytes] \<le> link_room d (rw_router w)"
    using chunk_total_le [OF size] assms(7,8) by (simp add: link_room_def)
  from chunks_sent [OF assms(9-11) up this assms(12)] obtain fs p' r where
    seal: "seal_all N mid bytes [0..<chunk_total bytes] p = Some (fs, p')"
    and sent: "send_chunks N (connection_send c) mid bytes [0..<chunk_total bytes] p (rw_router w) = (Inr (), p', r)"
    and r: "link_waiting d r = fs @ []" "link_up c d r" "peers_of c d p'"
    using assms(7) by (metis append_Nil append_Nil2)
  from router_link.receive_message [OF assms(9,10,12) size seal r(2,1)] obtain q' r' where
    "receive_bytes N (connection_receive d id) (hl_peer h) r = Some (RV_Message bytes, q', r')"
    "paired sync p' q'" "link_waiting d r' = []" by blast
  then show ?thesis
    using sent size assms(15) host_decode_encode [OF assms(14,13)] r(3)
    by (simp add: send_bytes_def link_poll_def receive_bytes_def Let_def)
qed

section \<open>A dropped receive\<close>

text \<open>Documented behaviour of a Noise transport: the two directions are independent.\<close>

definition noise_duplex :: "('n, 'z) noise_ext_scheme \<Rightarrow> ('n \<Rightarrow> 'n \<Rightarrow> bool) \<Rightarrow> bool" where
  "noise_duplex N sync \<longleftrightarrow> noise_sync N sync
     \<and> (\<forall>w r x y r'. sync w r \<longrightarrow> nx_write N r x = Some (y, r') \<longrightarrow> sync w r')"

lemma seal_chunk_writer:
  assumes "noise_duplex N sync" and "paired sync p q" and "seal_chunk N mid message i q = (res, q')"
  shows "paired sync p q' \<and> (\<forall>f. frame_of q' f = frame_of q f)"
  using assms
  by (auto simp: seal_chunk_def noise_encrypt_def result_simps noise_duplex_def paired_def frame_of_def require_def
      okOr_def bindR_def split: sum.splits option.splits if_splits)

lemma send_chunks_keeps:
  assumes "send_chunks N accept mid message is q s = (res, q', s')" and "noise_duplex N sync" and "paired sync p q"
    and "I s" and "\<And>f s s'. frame_of q f \<Longrightarrow> I s \<Longrightarrow> accept f s = Inr s' \<Longrightarrow> I s'"
  shows "paired sync p q' \<and> I s'"
  using assms(1,3-)
proof (induction "is" arbitrary: q s)
  case (Cons i "is")
  obtain res1 q1 where seal: "seal_chunk N mid message i q = (res1, q1)" by fastforce
  note w = seal_chunk_writer [OF assms(2) Cons.prems(2) seal]
  show ?case
  proof (cases res1)
    case (Inl e)
    with Cons.prems(1,3) seal w show ?thesis by auto
  next
    case (Inr f)
    show ?thesis
    proof (cases "accept f s")
      case (Inl e)
      with Cons.prems(1,3) seal w Inr show ?thesis by auto
    next
      case acc: (Inr s1)
      have f: "frame_of q f" using seal_chunk_frame seal Inr by blast
      have "paired sync p (q1\<lparr>ep_send_sequence := ep_send_sequence q1 + 1\<rparr>)" using w by (simp add: paired_def)
      from Cons.IH [OF _ this Cons.prems(4) [OF f Cons.prems(3) acc]] Cons.prems(1,4) seal w Inr acc
      show ?thesis by auto
    qed
  qed
qed auto

lemma link_poll_waits:
  "receive_loop N receive_frame (hl_parked h) (hl_peer h) (hl_link h) = Some (RV_Waiting a, q, s)
    \<Longrightarrow> link_poll N J receive_frame h = Some (None, h\<lparr>hl_peer := q, hl_link := s, hl_parked := a\<rparr>)"
  by (simp add: link_poll_def Let_def)

text \<open>A request that the loop sends while it waits leaves the queue of its own connection alone.\<close>

lemma link_request_keeps:
  assumes "link_request N J (connection_send d) rid request h = (None, h')"
    and "noise_duplex N sync" and "paired sync p (hl_peer h)" and "peers_of d c (hl_peer h)"
    and "link_up c d (hl_link h)"
  shows "paired sync p (hl_peer h') \<and> link_up c d (hl_link h') \<and> hl_parked h' = empty_assembly
    \<and> link_waiting d (hl_link h') = link_waiting d (hl_link h) \<and> link_room d (hl_link h') = link_room d (hl_link h)"
proof -
  let ?I = "\<lambda>r. link_up c d r \<and> link_waiting d r = link_waiting d (hl_link h) \<and> link_room d r = link_room d (hl_link h)"
  have keep: "?I r'" if f: "frame_of (hl_peer h) f" and I: "?I r" and send: "connection_send d f r = Inr r'" for f r r'
  proof -
    have up: "link_up d c r" using I by (auto simp: link_up_def)
    from link_send [OF up peers_meant [OF assms(4) f] send] I show ?thesis
      by (auto simp: link_up_def holds_route_queue) (auto simp: link_waiting_def link_room_def nth_update_if)
  qed
  from assms(1) obtain r bytes q s where
    sent: "send_bytes N (connection_send d) rid bytes (hl_peer h) (hl_link h) = (Inr (), q, s)"
    and h': "h' = h\<lparr>hl_parked := empty_assembly, hl_peer := q, hl_link := s\<rparr>"
    by (auto simp: link_request_def Let_def split: option.splits sum.splits prod.splits)
  then have "send_chunks N (connection_send d) rid bytes [0..<chunk_total bytes] (hl_peer h) (hl_link h) = (Inr (), q, s)"
    by (simp add: send_bytes_def split: if_splits)
  from send_chunks_keeps [OF this assms(2,3), of ?I, OF _ keep] assms(5) h' show ?thesis by simp
qed

text \<open>Chunks \<open>k\<close> and on are due: nothing waits, and the router has room for them.\<close>

definition chunks_due :: "('n \<Rightarrow> 'n \<Rightarrow> bool) \<Rightarrow> RelayConnection \<Rightarrow> RelayConnection \<Rightarrow> 8 word list \<Rightarrow> nat
    \<Rightarrow> 'n EncryptedRelayPeer \<Rightarrow> 'n EncryptedRelayPeer \<Rightarrow> Router \<Rightarrow> bool" where
  "chunks_due sync c d message k p q r \<longleftrightarrow> paired sync p q \<and> peers_of c d p \<and> link_up c d r \<and> link_waiting d r = []
     \<and> chunk_total message - k \<le> link_room d r"

lemma due_sent:
  assumes "chunks_due sync c d message k p q r" and "noise_sync N sync" and "length mid = 16" and "k \<le> n" and "n \<le> chunk_total message"
  obtains fs p' r' where "seal_all N mid message [k..<n] p = Some (fs, p')"
    and "send_chunks N (connection_send c) mid message [k..<n] p r = (Inr (), p', r')"
    and "link_waiting d r' = fs" and "link_up c d r'" and "peers_of c d p'" and "chunk_total message - n \<le> link_room d r'"
proof -
  have up: "paired sync p q" "peers_of c d p" "link_up c d r" and room: "length [k..<n] \<le> link_room d r"
    using assms(1,5) by (auto simp: chunks_due_def)
  from chunks_sent [OF assms(2) up room assms(3)] obtain fs p' r' where
    1: "seal_all N mid message [k..<n] p = Some (fs, p')"
    "send_chunks N (connection_send c) mid message [k..<n] p r = (Inr (), p', r')"
    "link_waiting d r' = link_waiting d r @ fs" "link_up c d r'" "peers_of c d p'"
    "link_room d r' = link_room d r - length [k..<n]" by blast
  then show thesis using assms(1,4,5) by (intro that [OF 1(1,2)]) (auto simp: chunks_due_def)
qed

lemma due_delivered:
  assumes "chunks_due sync c d bytes k p (hl_peer h) (hl_link h)" and "noise_sync N sync" and "length mid = 16"
    and "host_encode J m = Inr bytes" and "k < chunk_total bytes" and "assembled mid bytes k (hl_parked h)"
    and "host_decode J bytes = Inr m"
  shows "\<exists>p' r h'. send_chunks N (connection_send c) mid bytes [k..<chunk_total bytes] p (hl_link h) = (Inr (), p', r)
    \<and> link_poll N J (connection_receive d id) (h\<lparr>hl_link := r\<rparr>) = Some (None, h') \<and> hl_inbound h' = hl_inbound h @ [m]"
proof -
  from due_sent [OF assms(1-3) less_imp_le [OF assms(5)] order_refl] obtain fs p' r where 1:
    "seal_all N mid bytes [k..<chunk_total bytes] p = Some (fs, p')"
    "send_chunks N (connection_send c) mid bytes [k..<chunk_total bytes] p (hl_link h) = (Inr (), p', r)"
    "link_waiting d r = fs @ []" "link_up c d r" by (metis append_Nil2)
  have pq: "paired sync p (hl_peer h)" using assms(1) by (simp add: chunks_due_def)
  from router_link.receive_rest [OF assms(2) pq assms(3) host_frame_size [OF assms(4)] 1(1) assms(5,6) 1(4,3)] obtain q' s' where
    "receive_loop N (connection_receive d id) (hl_parked h) (hl_peer h) r = Some (RV_Message bytes, q', s')" by blast
  with 1(2) assms(7) show ?thesis by (simp add: link_poll_def Let_def)
qed

lemma due_refused:
  assumes "chunks_due sync c d message k p (hl_peer h) (hl_link h)" and "noise_sync N sync" and "length mid = 16"
    and "length message \<le> max_message_bytes" and "0 < k" and "k < chunk_total message" and "hl_parked h = empty_assembly"
  shows "\<exists>p' r h'. send_chunks N (connection_send c) mid message [k..<chunk_total message] p (hl_link h) = (Inr (), p', r)
    \<and> link_poll N J (connection_receive d id) (h\<lparr>hl_link := r\<rparr>) = Some (Some (LE_Transport
         (TE_Message ''interleaved or out-of-order encrypted chunks'')), h')"
proof -
  from due_sent [OF assms(1-3) less_imp_le [OF assms(6)] order_refl] obtain fs p' r where 1:
    "seal_all N mid message [k..<chunk_total message] p = Some (fs, p')"
    "send_chunks N (connection_send c) mid message [k..<chunk_total message] p (hl_link h) = (Inr (), p', r)"
    "link_waiting d r = fs" "link_up c d r" by metis
  have pq: "paired sync p (hl_peer h)" using assms(1) by (simp add: chunks_due_def)
  have "[k..<chunk_total message] = k # [Suc k..<chunk_total message]" using assms(6) by (simp add: upt_conv_Cons)
  with 1(1) obtain f p1 fs1 where f: "seal_chunk N mid message k p = (Inr f, p1)" "fs = f # fs1"
    by (metis seal_all_Cons)
  have "link_waiting d r = f # fs1" using 1(3) f(2) by simp
  from router_link.receive_middle [OF assms(2) pq assms(3,4) f(1) assms(5,6) 1(4) this] obtain q' s' where
    "receive_bytes N (connection_receive d id) (hl_peer h) r =
      Some (RV_Error (TE_Message ''interleaved or out-of-order encrypted chunks''), q', s')" by blast
  with 1(2) assms(7) show ?thesis by (simp add: link_poll_def receive_bytes_def Let_def)
qed

text \<open>
  C34. The loop of the Hub loses a message when it sends a request while the message is half
  received. After the first \<open>k\<close> of several chunks the loop waits; left alone, it delivers the
  message when the rest arrives. But once it has sent any request, the receive is dropped with
  the chunks it has taken, and the rest of the message ends the link with an error.
\<close>

theorem dropped_receive_ends_link:
  assumes "relay_reach A enrolled w" and "unwrapped w" and "{c, d} \<subseteq> set (rw_live w)" and "c \<noteq> d"
    and "is_current c (rw_router w)" and "is_current d (rw_router w)"
    and "link_waiting d (rw_router w) = []" and "6 \<le> rr_queue_capacity (rw_router w)"
    and "noise_duplex N sync" and "paired sync p (hl_peer h)" and "peers_of c d p" and "length mid = 16"
    and "\<And>f b. jx_to_vec J f = Some b \<Longrightarrow> jx_from_slice J b = Some f"
    and "host_encode J m = Inr bytes" and "hl_parked h = empty_assembly" and "0 < k" and "k < chunk_total bytes"
  shows "\<exists>p1 r1 h1. send_chunks N (connection_send c) mid bytes [0..<k] p (rw_router w) = (Inr (), p1, r1)
    \<and> link_poll N J (connection_receive d id) (h\<lparr>hl_link := r1\<rparr>) = Some (None, h1) \<and> hl_inbound h1 = hl_inbound h
    \<and> (\<exists>p2 r2 h2. send_chunks N (connection_send c) mid bytes [k..<chunk_total bytes] p1 (hl_link h1) = (Inr (), p2, r2)
         \<and> link_poll N J (connection_receive d id) (h1\<lparr>hl_link := r2\<rparr>) = Some (None, h2)
         \<and> hl_inbound h2 = hl_inbound h @ [m])
    \<and> (\<forall>request rid h2. link_request N J' (connection_send d) rid request h1 = (None, h2) \<longrightarrow>
         (\<exists>p2 r2 h3. send_chunks N (connection_send c) mid bytes [k..<chunk_total bytes] p1 (hl_link h2) = (Inr (), p2, r2)
            \<and> link_poll N J (connection_receive d id) (h2\<lparr>hl_link := r2\<rparr>) = Some (Some (LE_Transport
                 (TE_Message ''interleaved or out-of-order encrypted chunks'')), h3)))"
proof -
  note size = host_frame_size [OF assms(14)]
  have sync: "noise_sync N sync" using assms(9) by (simp add: noise_duplex_def)
  have "chunks_due sync c d bytes 0 p (hl_peer h) (rw_router w)"
    using assms(7,8,10,11) chunk_total_le [OF size] reachable_link [OF assms(1-6)]
    by (simp add: chunks_due_def link_room_def)
  from due_sent [OF this sync assms(12), of k] assms(17) obtain fs p1 r1 where
    seal: "seal_all N mid bytes [0..<k] p = Some (fs, p1)"
    and sent: "send_chunks N (connection_send c) mid bytes [0..<k] p (rw_router w) = (Inr (), p1, r1)"
    and r1: "link_waiting d r1 = fs" "link_up c d r1" "peers_of c d p1" "chunk_total bytes - k \<le> link_room d r1" by auto
  from router_link.receive_waits [OF sync assms(10,12) size seal assms(17) r1(2,1)] obtain a q1 s1 where
    wait: "receive_bytes N (connection_receive d id) (hl_peer h) r1 = Some (RV_Waiting a, q1, s1)"
    and s1: "assembled mid bytes k a" "paired sync p1 q1" "link_up c d s1" "link_waiting d s1 = []"
      "link_room d r1 \<le> link_room d s1" by blast
  let ?h1 = "h\<lparr>hl_link := s1, hl_peer := q1, hl_parked := a\<rparr>"
  have poll: "link_poll N J (connection_receive d id) (h\<lparr>hl_link := r1\<rparr>) = Some (None, ?h1)"
    using wait assms(15) by (simp add: link_poll_def receive_bytes_def Let_def)
  have due: "chunks_due sync c d bytes k p1 (hl_peer ?h1) (hl_link ?h1)"
    using s1 r1(3,4) by (simp add: chunks_due_def)
  have peers: "peers_of d c (hl_peer ?h1)" using peers_of_sym [OF assms(1-3) r1(3) s1(2)] by simp
  have refused: "\<exists>p2 r2 h3. send_chunks N (connection_send c) mid bytes [k..<chunk_total bytes] p1 (hl_link h2) = (Inr (), p2, r2)
      \<and> link_poll N J (connection_receive d id) (h2\<lparr>hl_link := r2\<rparr>) = Some (Some (LE_Transport
           (TE_Message ''interleaved or out-of-order encrypted chunks'')), h3)"
    if "link_request N J' (connection_send d) rid request ?h1 = (None, h2)" for request rid h2
  proof -
    have pq: "paired sync p1 (hl_peer ?h1)" and up: "link_up c d (hl_link ?h1)" using due by (simp_all add: chunks_due_def)
    from link_request_keeps [OF that assms(9) pq peers up] due
    have due2: "chunks_due sync c d bytes k p1 (hl_peer h2) (hl_link h2)" and none: "hl_parked h2 = empty_assembly"
      by (simp_all add: chunks_due_def)
    show ?thesis by (rule due_refused [OF due2 sync assms(12) size assms(16,17) none])
  qed
  have delivered: "\<exists>p2 r2 h2. send_chunks N (connection_send c) mid bytes [k..<chunk_total bytes] p1 (hl_link ?h1) = (Inr (), p2, r2)
      \<and> link_poll N J (connection_receive d id) (?h1\<lparr>hl_link := r2\<rparr>) = Some (None, h2)
      \<and> hl_inbound h2 = hl_inbound ?h1 @ [m]"
    by (rule due_delivered [OF due sync assms(12,14,17) _ host_decode_encode [OF assms(14,13)]]) (simp add: s1(1))
  show ?thesis
    by (rule exI [of _ p1], rule exI [of _ r1], rule exI [of _ ?h1])
      (use sent poll delivered refused in auto)
qed

section \<open>Identity bindings\<close>

text \<open>Text without a NUL byte in all the fields of a binding but the last.\<close>

definition binding_clean :: "IdentityBinding \<Rightarrow> bool" where
  "binding_clean b \<longleftrightarrow> nul \<notin> set (ib_installation_id b) \<and> nul \<notin> set (ib_peer_id b)
     \<and> nul \<notin> set (ib_sender_noise_key b) \<and> nul \<notin> set (ib_receiver_noise_key b)"

lemma binding_signing_inj:
  assumes "binding_signing_bytes b = binding_signing_bytes b'" and "binding_clean b" and "binding_clean b'"
  shows "ib_installation_id b = ib_installation_id b' \<and> ib_peer_id b = ib_peer_id b'
    \<and> ib_sender_noise_key b = ib_sender_noise_key b' \<and> ib_receiver_noise_key b = ib_receiver_noise_key b'
    \<and> ib_handshake_hash b = ib_handshake_hash b'"
  using assms unfolding binding_signing_bytes_def binding_clean_def by (auto dest!: nul_split)

text \<open>
  A signature binds an identity to one channel: when the same signed text is accepted for
  two handshakes, they have the same installation, peer, Noise keys in the same directions and
  handshake hash. A binding made by the trusted signer for a channel is accepted there.
\<close>

theorem binding_fixes_channel:
  assumes "inj (tx_base64_encode A)" and "\<And>x. nul \<notin> set (tx_base64_encode A x)"
    and "nul \<notin> set (i @ i' @ peer @ peer')"
    and "binding_verify A b trusted i peer sender receiver hash = Inr ()"
    and "binding_verify A b' trusted i' peer' sender' receiver' hash' = Inr ()"
    and "binding_signing_bytes b = binding_signing_bytes b'"
    and "\<And>text. verify_signature A trusted text (sign text)"
  shows "(i, peer, sender, receiver, hash) = (i', peer', sender', receiver', hash')
    \<and> binding_verify A (binding_create A sign i peer sender receiver hash) trusted i peer sender receiver hash = Inr ()"
proof -
  note v = assms(4,5) [unfolded binding_verify_def result_simps]
  have "binding_clean b" "binding_clean b'" using v assms(2,3) by (auto simp: binding_clean_def)
  from binding_signing_inj [OF assms(6) this] v assms(1) have "(i, peer, sender, receiver, hash) = (i', peer', sender', receiver', hash')"
    by (auto dest: injD)
  moreover have "binding_verify A (binding_create A sign i peer sender receiver hash) trusted i peer sender receiver hash = Inr ()"
    using assms(7) by (simp add: binding_verify_def binding_create_def Let_def binding_signing_bytes_def)
  ultimately show ?thesis by blast
qed

end
