(* ===== verification/RelayDemo.thy ===== *)
theory RelayDemo
  imports LinkProps
begin

text \<open>
  A router with two registered peers, and encrypted peers on their connections over a transport
  that appends 16 zero bytes. The properties of the relay and the transport are applied to it.
\<close>

section \<open>The outside\<close>

definition bits_of :: "8 word list \<Rightarrow> string" where
  "bits_of xs = concat (map (\<lambda>x. map (\<lambda>i. if bit x i then CHR ''1'' else CHR ''0'') [0..<8]) xs)"

lemma bits_of_inj: "inj bits_of"
proof -
  have eq: "x = y" if "map (\<lambda>i. if bit x i then CHR ''1'' else CHR ''0'') [0..<8]
      = map (\<lambda>i. if bit y i then CHR ''1'' else CHR ''0'') [0..<8]" for x y :: "8 word"
  proof (rule bit_word_eqI)
    fix i assume "i < LENGTH(8)"
    with that show "bit x i \<longleftrightarrow> bit y i" by (auto split: if_splits simp: numeral_eq_Suc less_Suc_eq)
  qed
  have "bits_of xs = bits_of ys \<Longrightarrow> xs = ys" for xs ys
  proof (induction xs arbitrary: ys)
    case Nil
    then show ?case by (cases ys) (simp_all add: bits_of_def upt_rec)
  next
    case (Cons x xs)
    then obtain y ys' where ys: "ys = y # ys'" by (cases ys) (simp_all add: bits_of_def upt_rec)
    from Cons.prems have "map (\<lambda>i. if bit x i then CHR ''1'' else CHR ''0'') [0..<8] @ bits_of xs
        = map (\<lambda>i. if bit y i then CHR ''1'' else CHR ''0'') [0..<8] @ bits_of ys'"
      by (simp add: bits_of_def ys del: upt_Suc)
    then have "x = y" "bits_of xs = bits_of ys'" by (auto dest: eq simp del: map_eq_conv upt_Suc)
    with Cons.IH ys show ?case by simp
  qed
  then show ?thesis by (rule injI)
qed

definition demo_relay :: transport_ext where
  "demo_relay = \<lparr>rx_base64_decode = (\<lambda>s. Some (if s = ''sig'' then replicate 64 (CHR ''x'') else replicate 32 (CHR ''k''))),
     rx_ed25519_verify = (\<lambda>_ _ _. True), rx_rfc3339 = (\<lambda>_. ''t''), tx_base64_encode = bits_of\<rparr>"

lemma demo_signature: "verify_signature demo_relay ''key'' text ''sig''"
  by (simp add: verify_signature_def decode_bytes_def demo_relay_def)

definition demo_noise :: "unit noise_ext" where
  "demo_noise = \<lparr>nx_write = (\<lambda>_ x. Some (x @ replicate 16 0, ())), nx_read = (\<lambda>_ c. Some (take (length c - 16) c, ()))\<rparr>"

lemma demo_duplex: "noise_duplex demo_noise (\<lambda>_ _. True)"
  by (simp add: noise_duplex_def noise_sync_def demo_noise_def)

definition demo_json :: "8 word list json_ext" where
  "demo_json = \<lparr>jx_to_vec = (\<lambda>f. if hf_version f = 4 then Some (hf_body f) else None),
     jx_from_slice = (\<lambda>b. Some \<lparr>hf_version = 4, hf_body = b\<rparr>)\<rparr>"

lemma demo_json_inverse: "jx_to_vec demo_json f = Some b \<Longrightarrow> jx_from_slice demo_json b = Some f"
  by (auto simp: demo_json_def split: if_splits)

section \<open>The router\<close>

definition demo_identity :: "RelayPeerId \<Rightarrow> RelayIdentity" where
  "demo_identity peer = \<lparr>ri_installation_id = ''ins_1'', ri_peer_id = peer, ri_public_key = ''key'',
     ri_authority_public_key = ''key'',
     ri_admission = Some (admission_create demo_relay (''key'', \<lambda>_. ''sig'') ''ins_1'' peer ''key'' 10)\<rparr>"

definition demo_connection :: "RelayPeerId \<Rightarrow> nat \<Rightarrow> RelayConnection" where
  "demo_connection peer n = \<lparr>cx_identity = demo_identity peer, cx_key = route_key (demo_identity peer),
     cx_generation = of_nat (Suc n), cx_receiver = n\<rparr>"

abbreviation demo_host :: RelayConnection where "demo_host \<equiv> demo_connection ''host'' 0"
abbreviation demo_hub :: RelayConnection where "demo_hub \<equiv> demo_connection ''hub'' 1"

definition demo_routes :: "(RouteKey \<times> Route) list" where
  "demo_routes = [(route_key (demo_identity ''host''), \<lparr>rt_generation = 1, rt_sender = 0\<rparr>),
     (route_key (demo_identity ''hub''), \<lparr>rt_generation = 2, rt_sender = 1\<rparr>)]"

definition demo_world :: "RelayFrame list \<Rightarrow> RelayWorld" where
  "demo_world fs = \<lparr>rw_router = \<lparr>rr_queue_capacity = 8, rr_next_generation = 2, rr_routes = demo_routes,
       rr_channels = [\<lparr>ch_queue = [], ch_open = True\<rparr>, \<lparr>ch_queue = fs, ch_open = True\<rparr>]\<rparr>,
     rw_live = [demo_hub, demo_host], rw_registered = [demo_identity ''hub'', demo_identity ''host'']\<rparr>"

definition demo_frame :: RelayFrame where
  "demo_frame = \<lparr>rf_installation_id = ''ins_1'', rf_source_id = ''host'', rf_destination_id = ''hub'',
     rf_subject_id = ''rpc'', rf_sequence = 0, rf_ciphertext = [1, 2]\<rparr>"

lemma demo_keys [simp]: "route_key (demo_identity p) = route_key (demo_identity q) \<longleftrightarrow> p = q"
  by (simp add: route_key_def demo_identity_def)

lemma demo_connection_simps [simp]:
  "cx_identity (demo_connection p n) = demo_identity p" "cx_key (demo_connection p n) = route_key (demo_identity p)"
  "cx_generation (demo_connection p n) = of_nat (Suc n)" "cx_receiver (demo_connection p n) = n"
  "demo_connection p n = demo_connection q m \<longleftrightarrow> p = q \<and> n = m"
  "ri_installation_id (demo_identity p) = ''ins_1''" "ri_peer_id (demo_identity p) = p"
  "ri_authority_public_key (demo_identity p) = ''key''"
  by (auto simp: demo_connection_def demo_identity_def)

lemma demo_enrolled: "signed_admission demo_relay 5 (demo_identity peer)"
  using demo_signature by (simp add: signed_admission_def demo_identity_def admission_verify_def admission_create_def Let_def)

lemma demo_registers:
  "register_route demo_relay (signed_admission demo_relay 5) (demo_identity peer) [] ''sig'' r =
     Inr (\<lparr>cx_identity = demo_identity peer, cx_key = route_key (demo_identity peer),
           cx_generation = rr_next_generation r + 1, cx_receiver = length (rr_channels r)\<rparr>,
          r\<lparr>rr_next_generation := rr_next_generation r + 1,
            rr_routes := AList.update (route_key (demo_identity peer))
              \<lparr>rt_generation = rr_next_generation r + 1, rt_sender = length (rr_channels r)\<rparr> (rr_routes r),
            rr_channels := rr_channels r @ [\<lparr>ch_queue = [], ch_open = True\<rparr>]\<rparr>)"
  using demo_enrolled demo_signature by (simp add: register_route_def demo_identity_def [THEN arg_cong [of _ _ ri_public_key]] Let_def)

lemma demo_reach: "relay_reach demo_relay (signed_admission demo_relay) (demo_world [])"
proof -
  let ?r0 = "\<lparr>rr_queue_capacity = 8, rr_next_generation = 0, rr_routes = [], rr_channels = []\<rparr>"
  have 0: "relay_reach demo_relay (signed_admission demo_relay) \<lparr>rw_router = ?r0, rw_live = [], rw_registered = []\<rparr>"
    by (rule relay_start [of 8]) (simp add: router_new_def)
  have 1: "relay_reach demo_relay (signed_admission demo_relay) \<lparr>rw_router = ?r0\<lparr>rr_next_generation := 1,
        rr_routes := [(route_key (demo_identity ''host''), \<lparr>rt_generation = 1, rt_sender = 0\<rparr>)],
        rr_channels := [\<lparr>ch_queue = [], ch_open = True\<rparr>]\<rparr>,
      rw_live = [demo_host], rw_registered = [demo_identity ''host'']\<rparr>"
    using relay_more [OF 0 registers [of demo_relay "signed_admission demo_relay" 5 "demo_identity ''host''" "[]" "''sig''"]]
    by (simp add: demo_registers demo_connection_def)
  show ?thesis
    using relay_more [OF 1 registers [of demo_relay "signed_admission demo_relay" 5 "demo_identity ''hub''" "[]" "''sig''"]]
    by (simp add: demo_registers demo_connection_def demo_world_def demo_routes_def)
qed

lemma demo_unwrapped: "unwrapped (demo_world fs)"
  by (simp add: unwrapped_def demo_world_def)

lemma demo_current: "is_current demo_host (rw_router (demo_world fs))" "is_current demo_hub (rw_router (demo_world fs))"
  by (simp_all add: is_current_def demo_world_def demo_routes_def)

lemma demo_sends: "connection_send demo_host demo_frame (rw_router (demo_world [])) = Inr (rw_router (demo_world [demo_frame]))"
  by (simp add: connection_send_def demo_frame_def frame_validate_def max_ciphertext_bytes_def is_current_def try_send_def
      demo_world_def demo_routes_def route_key_def demo_identity_def Let_def demo_connection_def)

lemma demo_reach_frame: "relay_reach demo_relay (signed_admission demo_relay) (demo_world [demo_frame])"
  using relay_more [OF demo_reach sends [of demo_host "demo_world []" demo_frame, OF _ demo_sends]]
  by (simp add: demo_world_def)

section \<open>The relay's properties on it\<close>

lemma relay_delivers_authentic_witness:
  "\<exists>i a now nonce signature. i \<in> set (rw_registered (demo_world [demo_frame])) \<and> ri_admission i = Some a
    \<and> admission_verify demo_relay now a \<and> ra_peer_id a = ''host''
    \<and> verify_signature demo_relay (ra_peer_public_key a) (registration_message i nonce) signature"
proof -
  have "connection_receive demo_hub (\<lambda>_. rw_router (demo_world [demo_frame])) (rw_router (demo_world []))
      = (Some (Some demo_frame), rw_router (demo_world []))"
    using demo_current(2) [of "[]"] by (simp add: connection_receive_def channel_recv_def demo_world_def Let_def)
  from relay_delivers_authentic [OF demo_reach_frame demo_unwrapped _ this] show ?thesis
    by (auto simp: demo_world_def demo_frame_def)
qed

lemma send_reaches_current_witness:
  "connection_send demo_host demo_frame (rw_router (demo_world [])) = Inr (rw_router (demo_world [demo_frame]))"
  using send_reaches_current [OF demo_reach demo_unwrapped demo_current(1), of demo_frame] demo_sends
  by (simp add: demo_frame_def frame_validate_def max_ciphertext_bytes_def)

lemma newest_registration_wins_witness:
  "\<exists>c r. register_route demo_relay (signed_admission demo_relay 5) (demo_identity ''host'') [] ''sig'' (rw_router (demo_world [])) = Inr (c, r)
    \<and> is_current c r \<and> \<not> is_current demo_host r \<and> is_current demo_hub r"
  using newest_registration_wins [OF demo_reach _ demo_registers] demo_current
  by (simp add: demo_world_def demo_registers)

section \<open>The transport's properties on it\<close>

definition demo_peer :: "RelayPeerId \<Rightarrow> RelayPeerId \<Rightarrow> unit EncryptedRelayPeer" where
  "demo_peer here there = \<lparr>ep_transport = (), ep_installation_id = ''ins_1'', ep_local_peer = here, ep_remote_peer = there,
     ep_subject_id = ''rpc'', ep_send_sequence = 0, ep_receive_sequence = 0\<rparr>"

definition demo_hub_link :: "(unit, Router, 8 word list) HostLink" where
  "demo_hub_link = \<lparr>hl_peer = demo_peer ''hub'' ''host'', hl_link = rw_router (demo_world []), hl_parked = empty_assembly, hl_inbound = []\<rparr>"

lemma demo_peers: "paired (\<lambda>_ _. True) (demo_peer ''host'' ''hub'') (hl_peer demo_hub_link)"
    "peers_of demo_host demo_hub (demo_peer ''host'' ''hub'')"
  by (simp_all add: paired_def peers_of_def demo_peer_def demo_hub_link_def route_key_def)

lemma demo_link: "link_waiting demo_hub (rw_router (demo_world [])) = []" "6 \<le> rr_queue_capacity (rw_router (demo_world []))"
    "{demo_host, demo_hub} \<subseteq> set (rw_live (demo_world []))" "demo_host \<noteq> demo_hub"
  by (simp_all add: link_waiting_def demo_world_def)

text \<open>A message of 50000 bytes takes two chunks.\<close>

definition demo_message :: "8 word list" where
  "demo_message = replicate 50000 7"

lemma demo_encodes: "host_encode demo_json demo_message = Inr demo_message"
  by (simp add: host_encode_def demo_json_def HostFrame_new_def host_protocol_version_def max_host_frame_bytes_def
      demo_message_def)

lemma demo_total: "chunk_total demo_message = 2"
  by (simp add: chunk_total_def div_ceil_def chunk_size_value demo_message_def)

lemma frame_delivered_witness:
  "\<exists>p' r h'. send_bytes demo_noise (connection_send demo_host) (replicate 16 0) demo_message (demo_peer ''host'' ''hub'')
      (rw_router (demo_world [])) = (Inr (), p', r)
    \<and> link_poll demo_noise demo_json (connection_receive demo_hub id) (demo_hub_link\<lparr>hl_link := r\<rparr>) = Some (None, h')
    \<and> hl_inbound h' = [demo_message]"
  using frame_delivered [OF demo_reach demo_unwrapped demo_link(3,4) demo_current demo_link(1,2)
      conjunct1 [OF demo_duplex [unfolded noise_duplex_def]] demo_peers, of "replicate 16 0" demo_json demo_message demo_message]
    demo_json_inverse demo_encodes
  by (fastforce simp: demo_hub_link_def)

lemma dropped_receive_ends_link_witness:
  "\<exists>p1 r1 h1. send_chunks demo_noise (connection_send demo_host) (replicate 16 0) demo_message [0..<1]
      (demo_peer ''host'' ''hub'') (rw_router (demo_world [])) = (Inr (), p1, r1)
    \<and> link_poll demo_noise demo_json (connection_receive demo_hub id) (demo_hub_link\<lparr>hl_link := r1\<rparr>) = Some (None, h1)"
  using dropped_receive_ends_link [OF demo_reach demo_unwrapped demo_link(3,4) demo_current demo_link(1,2)
      demo_duplex demo_peers, of "replicate 16 0" demo_json demo_message demo_message 1]
    demo_json_inverse demo_encodes demo_total
  by (fastforce simp: demo_hub_link_def)

lemma binding_fixes_channel_witness:
  "binding_verify demo_relay (binding_create demo_relay (\<lambda>_. ''sig'') ''ins_1'' ''hub'' [1] [2] [3]) ''key'' ''ins_1'' ''hub'' [1] [2] [3]
    = Inr ()"
proof -
  let ?b = "binding_create demo_relay (\<lambda>_. ''sig'') ''ins_1'' ''hub'' [1] [2] [3]"
  have enc: "inj (tx_base64_encode demo_relay)" "\<And>x. nul \<notin> set (tx_base64_encode demo_relay x)"
    by (simp_all add: demo_relay_def bits_of_inj) (auto simp: bits_of_def)
  have ok: "binding_verify demo_relay ?b ''key'' ''ins_1'' ''hub'' [1] [2] [3] = Inr ()"
    using demo_signature by (simp add: binding_verify_def binding_create_def Let_def)
  from binding_fixes_channel [OF enc _ ok ok refl, of "\<lambda>_. ''sig''"] demo_signature show ?thesis by simp
qed

end
