(* ===== verification/ChannelStore.thy ===== *)
theory ChannelStore
  imports Events
begin

text \<open>
  The state a Channel keeps, \<open>MappingStore\<close> of \<open>crates/mews-channel/src/mapping.rs\<close>: which Session a
  conversation has, the messages that wait, and the Turn each Session runs. Tables are lists of
  rows in rowid order, Session and consumer identifiers are stored as typed values, and JSON
  metadata as its value. A statement that breaks a constraint leaves the tables as they were.
\<close>

record PendingRow =
  pe_id :: nat
  pe_external_id :: string
  pe_conversation :: string
  pe_text :: string
  pe_metadata :: Value

record MappingStore =
  mp_consumer :: "ConsumerId option"
  mp_mappings :: "(string \<times> SessionId) list"
  mp_pending :: "PendingRow list"
  mp_last_id :: nat \<comment> \<open>of \<open>AUTOINCREMENT\<close>\<close>
  mp_active :: "(SessionId \<times> string) list"

definition mapping_store_new :: MappingStore where
  "mapping_store_new = \<lparr>mp_consumer = None, mp_mappings = [], mp_pending = [], mp_last_id = 0, mp_active = []\<rparr>"

text \<open>\<open>fresh\<close> is the identifier drawn when there is none yet.\<close>

definition store_consumer_id :: "ConsumerId \<Rightarrow> MappingStore \<Rightarrow> ConsumerId \<times> MappingStore" where
  "store_consumer_id fresh m =
     (case mp_consumer m of Some c \<Rightarrow> (c, m) | None \<Rightarrow> (fresh, m\<lparr>mp_consumer := Some fresh\<rparr>))"

definition mapped_session :: "string \<Rightarrow> MappingStore \<Rightarrow> SessionId option" where
  "mapped_session conversation m = map_of (mp_mappings m) conversation"

definition mapped_conversation :: "SessionId \<Rightarrow> MappingStore \<Rightarrow> string option" where
  "mapped_conversation sid m = map_option fst (find (\<lambda>(_, s). s = sid) (mp_mappings m))"

definition insert_mapping :: "string \<Rightarrow> SessionId \<Rightarrow> MappingStore \<Rightarrow> string + MappingStore" where
  "insert_mapping conversation sid m =
     bindR (require (conversation \<notin> fst ` set (mp_mappings m)) ''UNIQUE constraint failed: mappings.conversation'') (\<lambda>_.
     bindR (require (sid \<notin> snd ` set (mp_mappings m)) ''UNIQUE constraint failed: mappings.session_id'') (\<lambda>_.
     Inr (m\<lparr>mp_mappings := mp_mappings m @ [(conversation, sid)]\<rparr>)))"

text \<open>\<open>INSERT OR IGNORE\<close> of a pending message\<close>

definition enqueue :: "string \<Rightarrow> string \<Rightarrow> string \<Rightarrow> Value \<Rightarrow> MappingStore \<Rightarrow> MappingStore" where
  "enqueue external_id conversation txt metadata m =
     (if list_ex (\<lambda>p. pe_conversation p = conversation \<and> pe_external_id p = external_id) (mp_pending m) then m
      else m\<lparr>mp_pending := mp_pending m @ [\<lparr>pe_id = Suc (mp_last_id m), pe_external_id = external_id,
               pe_conversation = conversation, pe_text = txt, pe_metadata = metadata\<rparr>],
             mp_last_id := Suc (mp_last_id m)\<rparr>)"

definition session_active :: "SessionId \<Rightarrow> MappingStore \<Rightarrow> bool" where
  "session_active sid m \<longleftrightarrow> sid \<in> fst ` set (mp_active m)"

text \<open>\<open>ORDER BY id LIMIT 1\<close>: the rows are in the order of their ids.\<close>

definition next_pending :: "SessionId \<Rightarrow> MappingStore \<Rightarrow> PendingRow option" where
  "next_pending sid m =
     (case mapped_conversation sid m of
        None \<Rightarrow> None
      | Some conversation \<Rightarrow> find (\<lambda>p. pe_conversation p = conversation) (mp_pending m))"

definition discard_pending :: "nat \<Rightarrow> MappingStore \<Rightarrow> MappingStore" where
  "discard_pending pending_id m = m\<lparr>mp_pending := filter (\<lambda>p. pe_id p \<noteq> pending_id) (mp_pending m)\<rparr>"

definition mark_started :: "nat \<Rightarrow> SessionId \<Rightarrow> string \<Rightarrow> MappingStore \<Rightarrow> string + MappingStore" where
  "mark_started pending_id sid turn m =
     bindR (require (sid \<notin> fst ` set (mp_active m)) ''UNIQUE constraint failed: active_turns.session_id'') (\<lambda>_.
     bindR (require (turn \<notin> snd ` set (mp_active m)) ''UNIQUE constraint failed: active_turns.turn_id'') (\<lambda>_.
     Inr (discard_pending pending_id (m\<lparr>mp_active := mp_active m @ [(sid, turn)]\<rparr>))))"

definition store_finish_turn :: "string \<Rightarrow> MappingStore \<Rightarrow> SessionId option \<times> MappingStore" where
  "store_finish_turn turn m =
     (map_option fst (find (\<lambda>(_, t). t = turn) (mp_active m)),
      m\<lparr>mp_active := filter (\<lambda>(_, t). t \<noteq> turn) (mp_active m)\<rparr>)"

definition store_active_turns :: "MappingStore \<Rightarrow> (SessionId \<times> string) list" where
  "store_active_turns m = mp_active m"

section \<open>The invariant of the tables\<close>

definition pending_for :: "string \<Rightarrow> MappingStore \<Rightarrow> PendingRow list" where
  "pending_for conversation m = filter (\<lambda>p. pe_conversation p = conversation) (mp_pending m)"

definition mapping_ok :: "MappingStore \<Rightarrow> bool" where
  "mapping_ok m \<longleftrightarrow> distinct (map fst (mp_mappings m)) \<and> distinct (map snd (mp_mappings m))
     \<and> sorted_wrt (<) (map pe_id (mp_pending m)) \<and> (\<forall>p \<in> set (mp_pending m). pe_id p \<le> mp_last_id m)
     \<and> distinct (map (\<lambda>p. (pe_conversation p, pe_external_id p)) (mp_pending m))
     \<and> (\<forall>p \<in> set (mp_pending m). pe_conversation p \<in> fst ` set (mp_mappings m))
     \<and> distinct (map fst (mp_active m)) \<and> distinct (map snd (mp_active m))"

lemma mapping_ok_new: "mapping_ok mapping_store_new"
  by (simp add: mapping_ok_def mapping_store_new_def)

lemma mapping_ok_consumer: "mapping_ok m \<Longrightarrow> mapping_ok (snd (store_consumer_id fresh m))"
  by (auto simp: mapping_ok_def store_consumer_id_def split: option.splits)

lemma mapping_ok_insert: "mapping_ok m \<Longrightarrow> insert_mapping c sid m = Inr m' \<Longrightarrow> mapping_ok m'"
  by (auto simp: mapping_ok_def insert_mapping_def result_simps)

lemma mapping_ok_enqueue:
  "mapping_ok m \<Longrightarrow> c \<in> fst ` set (mp_mappings m) \<Longrightarrow> mapping_ok (enqueue e c t v m)"
proof -
  assume ok: "mapping_ok m" and c: "c \<in> fst ` set (mp_mappings m)"
  show "mapping_ok (enqueue e c t v m)"
  proof (cases "list_ex (\<lambda>p. pe_conversation p = c \<and> pe_external_id p = e) (mp_pending m)")
    case False
    then have new: "(c, e) \<notin> (\<lambda>p. (pe_conversation p, pe_external_id p)) ` set (mp_pending m)"
      by (auto simp: list_ex_iff)
    have ids: "\<forall>p \<in> set (mp_pending m). pe_id p < Suc (mp_last_id m)" using ok by (auto simp: mapping_ok_def less_Suc_eq_le)
    from ok c new ids False show ?thesis by (auto simp: mapping_ok_def enqueue_def sorted_wrt_append less_Suc_eq_le)
  qed (simp add: enqueue_def ok)
qed

lemma mapping_ok_discard: "mapping_ok m \<Longrightarrow> mapping_ok (discard_pending i m)"
  by (auto simp: mapping_ok_def discard_pending_def sorted_wrt_map intro: sorted_wrt_filter distinct_map_filter)

lemma mapping_ok_started: "mapping_ok m \<Longrightarrow> mark_started i sid t m = Inr m' \<Longrightarrow> mapping_ok m'"
proof -
  assume ok: "mapping_ok m" and started: "mark_started i sid t m = Inr m'"
  from started have "m' = discard_pending i (m\<lparr>mp_active := mp_active m @ [(sid, t)]\<rparr>)"
    and "sid \<notin> fst ` set (mp_active m)" and "t \<notin> snd ` set (mp_active m)"
    by (auto simp: mark_started_def result_simps)
  moreover from this ok have "mapping_ok (m\<lparr>mp_active := mp_active m @ [(sid, t)]\<rparr>)" by (simp add: mapping_ok_def)
  ultimately show "mapping_ok m'" using mapping_ok_discard by simp
qed

lemma mapping_ok_finish: "mapping_ok m \<Longrightarrow> mapping_ok (snd (store_finish_turn t m))"
  by (auto simp: mapping_ok_def store_finish_turn_def intro: distinct_map_filter)

text \<open>The rows of a conversation are a queue: a new message goes to the end, the next one is first.\<close>

lemma find_by_snd:
  "distinct (map snd xs) \<Longrightarrow> map_option fst (find (\<lambda>(_, s). s = y) xs) = Some x \<longleftrightarrow> (x, y) \<in> set xs"
  by (induction xs) (auto simp: image_iff)

lemma mapped_both:
  assumes "mapping_ok m"
  shows "mapped_session c m = Some sid \<longleftrightarrow> (c, sid) \<in> set (mp_mappings m)"
    and "mapped_conversation sid m = Some c \<longleftrightarrow> (c, sid) \<in> set (mp_mappings m)"
proof -
  have d: "distinct (map fst (mp_mappings m))" "distinct (map snd (mp_mappings m))" using assms by (auto simp: mapping_ok_def)
  show "mapped_session c m = Some sid \<longleftrightarrow> (c, sid) \<in> set (mp_mappings m)"
    using d(1) by (simp add: mapped_session_def)
  show "mapped_conversation sid m = Some c \<longleftrightarrow> (c, sid) \<in> set (mp_mappings m)"
    unfolding mapped_conversation_def using d(2) by (rule find_by_snd)
qed

lemma find_filter_hd: "find P xs = (case filter P xs of [] \<Rightarrow> None | y # ys \<Rightarrow> Some y)"
  by (induction xs) auto

lemma next_pending_first:
  assumes "mapped_conversation sid m = Some c"
  shows "next_pending sid m = (case pending_for c m of [] \<Rightarrow> None | p # ps \<Rightarrow> Some p)"
  using assms by (simp add: next_pending_def pending_for_def find_filter_hd)

lemma discard_first:
  assumes "mapping_ok m" and "pending_for c m = p # ps"
  shows "pending_for c (discard_pending (pe_id p) m) = ps"
    and "c' \<noteq> c \<Longrightarrow> pending_for c' (discard_pending (pe_id p) m) = pending_for c' m"
proof -
  have p: "p \<in> set (mp_pending m)" "pe_conversation p = c"
    using assms(2) by (auto simp: pending_for_def filter_eq_Cons_iff)
  have id: "distinct (map pe_id (mp_pending m))"
    using assms(1) by (auto simp: mapping_ok_def strict_sorted_iff)
  then have only: "q = p" if "q \<in> set (mp_pending m)" "pe_id q = pe_id p" for q
    using p that by (metis distinct_map inj_on_eq_iff)
  have eq: "pending_for c' (discard_pending (pe_id p) m) = filter (\<lambda>q. pe_id q \<noteq> pe_id p) (pending_for c' m)" for c'
    by (simp add: pending_for_def discard_pending_def conj_commute)
  have "distinct (map pe_id (pending_for c m))" using id by (simp add: pending_for_def distinct_map_filter)
  with assms(2) have "pe_id p \<notin> pe_id ` set ps" by simp
  then have "\<forall>q \<in> set ps. pe_id q \<noteq> pe_id p" by (metis image_eqI)
  with assms(2) eq show "pending_for c (discard_pending (pe_id p) m) = ps" by (simp add: filter_True)
  show "pending_for c' (discard_pending (pe_id p) m) = pending_for c' m" if "c' \<noteq> c"
  proof -
    have "\<forall>q \<in> set (pending_for c' m). pe_id q \<noteq> pe_id p" using only p(2) that by (auto simp: pending_for_def)
    then show ?thesis by (simp add: eq filter_True)
  qed
qed

end
