(* ===== verification/ChannelDispatch.thy ===== *)
theory ChannelDispatch
  imports Prelude "HOL-Library.Word" "HOL-Library.AList"
begin

text \<open>
  The delivery dispatcher of a Channel, \<open>delivery_dispatcher\<close> of
  \<open>crates/mews-channel/src/runtime.rs\<close>: deliveries are sent by a bounded number of workers, one
  at a time for each destination, and retried when the platform asks for it. Instants and
  durations are natural numbers; a send in flight is its delivery.
\<close>

section \<open>Deliveries\<close>

datatype OutboundEvent = OE_CompletedMessage string | OE_StreamingUpdate string | OE_Lifecycle string

type_synonym DestinationKey = string

record Delivery =
  dl_event_id :: string
  dl_destination :: DestinationKey
  dl_event :: OutboundEvent
  dl_attempt :: "32 word"

record DeliveryReceipt =
  dr_external_id :: "string option"

datatype TerminalDeliveryOutcome = TO_Delivered DeliveryReceipt | TO_Dropped string

datatype DeliveryOutcome = DO_Delivered DeliveryReceipt | DO_RetryAfter nat | DO_Dropped string

record DeliveryDiagnostic =
  dd_idempotency_key :: string
  dd_conversation :: string
  dd_outcome :: TerminalDeliveryOutcome

definition u32_saturating_succ :: "32 word \<Rightarrow> 32 word" where
  "u32_saturating_succ n = (if n = - 1 then n else n + 1)"

section \<open>The dispatcher\<close>

text \<open>The lanes are a hash map: a destination may have an empty lane or none.\<close>

record Dispatcher =
  dp_lanes :: "(DestinationKey \<times> Delivery list) list"
  dp_ready :: "DestinationKey list"
  dp_active :: "DestinationKey set"
  dp_delayed :: "(nat \<times> Delivery) list"
  dp_sends :: "Delivery list"
  dp_incoming_open :: bool
  dp_outcomes :: "DeliveryDiagnostic list"

definition dispatcher_new :: Dispatcher where
  "dispatcher_new = \<lparr>dp_lanes = [], dp_ready = [], dp_active = {}, dp_delayed = [], dp_sends = [],
     dp_incoming_open = True, dp_outcomes = []\<rparr>"

definition lane :: "DestinationKey \<Rightarrow> Dispatcher \<Rightarrow> Delivery list" where
  "lane k d = (case map_of (dp_lanes d) k of None \<Rightarrow> [] | Some ds \<Rightarrow> ds)"

definition set_lane :: "DestinationKey \<Rightarrow> Delivery list \<Rightarrow> Dispatcher \<Rightarrow> Dispatcher" where
  "set_lane k ds d = d\<lparr>dp_lanes := AList.update k ds (dp_lanes d)\<rparr>"

text \<open>\<open>Vec::swap_remove\<close> at an index in range\<close>

definition swap_remove :: "nat \<Rightarrow> 'a list \<Rightarrow> 'a list" where
  "swap_remove i xs = butlast (xs[i := last xs])"

lemma length_swap_remove [simp]: "length (swap_remove i xs) = length xs - 1"
  by (simp add: swap_remove_def)

text \<open>Retries whose time has come go back to the head of their lanes.\<close>

definition requeue :: "nat \<Rightarrow> Dispatcher \<Rightarrow> Dispatcher" where
  "requeue index d =
     (let delivery = snd (dp_delayed d ! index); k = dl_destination delivery in
      set_lane k (delivery # lane k d)
        (d\<lparr>dp_delayed := swap_remove index (dp_delayed d), dp_active := dp_active d - {k},
           dp_ready := dp_ready d @ [k]\<rparr>))"

lemma length_requeue_delayed [simp]: "length (dp_delayed (requeue i d)) = length (dp_delayed d) - 1"
  by (simp add: requeue_def set_lane_def Let_def)

function release_delayed :: "nat \<Rightarrow> nat \<Rightarrow> Dispatcher \<Rightarrow> Dispatcher" where
  "release_delayed now index d =
     (if index < length (dp_delayed d)
      then if fst (dp_delayed d ! index) \<le> now then release_delayed now index (requeue index d)
           else release_delayed now (Suc index) d
      else d)"
  by auto
termination
  by (relation "measure (\<lambda>(_, index, d). length (dp_delayed d) - index)") auto

declare release_delayed.simps [simp del]

text \<open>Workers that are free take the deliveries at the heads of the ready lanes.\<close>

function start_sends :: "nat \<Rightarrow> Dispatcher \<Rightarrow> Dispatcher" where
  "start_sends worker_limit d =
     (if length (dp_sends d) < worker_limit
      then case dp_ready d of
          [] \<Rightarrow> d
        | k # ready \<Rightarrow> let d1 = d\<lparr>dp_ready := ready\<rparr> in
            if k \<in> dp_active d1 then start_sends worker_limit d1
            else (case lane k d1 of
                [] \<Rightarrow> start_sends worker_limit d1
              | delivery # rest \<Rightarrow> start_sends worker_limit (set_lane k rest
                  (d1\<lparr>dp_active := insert k (dp_active d1), dp_sends := dp_sends d1 @ [delivery]\<rparr>)))
      else d)"
  by pat_completeness auto
termination
  by (relation "measure (\<lambda>(_, d). length (dp_ready d))") (auto simp: set_lane_def)

declare start_sends.simps [simp del]

text \<open>A send has ended: it is retried later, or its destination is free for the next one.\<close>

definition finish_delivery :: "Delivery \<Rightarrow> TerminalDeliveryOutcome \<Rightarrow> Dispatcher \<Rightarrow> Dispatcher" where
  "finish_delivery delivery outcome d =
     (let k = dl_destination delivery;
          d1 = d\<lparr>dp_outcomes := dp_outcomes d @ [\<lparr>dd_idempotency_key = dl_event_id delivery, dd_conversation = k,
                  dd_outcome = outcome\<rparr>], dp_active := dp_active d - {k}\<rparr>
      in if lane k d1 \<noteq> [] then d1\<lparr>dp_ready := dp_ready d1 @ [k]\<rparr>
         else d1\<lparr>dp_lanes := AList.delete k (dp_lanes d1)\<rparr>)"

definition send_completed :: "nat \<Rightarrow> nat \<Rightarrow> DeliveryOutcome \<Rightarrow> Dispatcher \<Rightarrow> Dispatcher" where
  "send_completed i now outcome d =
     (let delivery = dp_sends d ! i; d1 = d\<lparr>dp_sends := take i (dp_sends d) @ drop (Suc i) (dp_sends d)\<rparr> in
      case outcome of
        DO_RetryAfter delay \<Rightarrow> d1\<lparr>dp_delayed := dp_delayed d1 @
            [(now + delay, delivery\<lparr>dl_attempt := u32_saturating_succ (dl_attempt delivery)\<rparr>)]\<rparr>
      | DO_Delivered receipt \<Rightarrow> finish_delivery delivery (TO_Delivered receipt) d1
      | DO_Dropped reason \<Rightarrow> finish_delivery delivery (TO_Dropped reason) d1)"

definition accept_delivery :: "Delivery \<Rightarrow> Dispatcher \<Rightarrow> Dispatcher" where
  "accept_delivery delivery d =
     (let k = dl_destination delivery; ds = lane k d @ [delivery]; d1 = set_lane k ds d in
      if k \<notin> dp_active d1 \<and> length ds = 1 then d1\<lparr>dp_ready := dp_ready d1 @ [k]\<rparr> else d1)"

section \<open>A turn of the loop\<close>

text \<open>
  What \<open>select!\<close> takes: a change of the shutdown flag (whether it says to stop), the end of the
  send at an index, what the incoming queue gives, or the next retry's time.
\<close>

datatype DispatchEvent = DE_Shutdown bool | DE_Completed nat nat DeliveryOutcome | DE_Incoming "Delivery option" | DE_Timer

definition dispatch_prepare :: "nat \<Rightarrow> nat \<Rightarrow> Dispatcher \<Rightarrow> Dispatcher" where
  "dispatch_prepare worker_limit now d = start_sends worker_limit (release_delayed now 0 d)"

fun dispatch_enabled :: "DispatchEvent \<Rightarrow> Dispatcher \<Rightarrow> bool" where
  "dispatch_enabled (DE_Shutdown stop) d \<longleftrightarrow> True"
| "dispatch_enabled (DE_Completed i now outcome) d \<longleftrightarrow> i < length (dp_sends d)"
| "dispatch_enabled (DE_Incoming delivery) d \<longleftrightarrow> dp_incoming_open d"
| "dispatch_enabled DE_Timer d \<longleftrightarrow> dp_delayed d \<noteq> []"

definition drained :: "Dispatcher \<Rightarrow> bool" where
  "drained d \<longleftrightarrow> \<not> dp_incoming_open d \<and> dp_sends d = [] \<and> dp_delayed d = [] \<and> dp_lanes d = []"

text \<open>What the branch does; the flag says that the dispatcher returns.\<close>

fun dispatch_event :: "DispatchEvent \<Rightarrow> Dispatcher \<Rightarrow> bool \<times> Dispatcher" where
  "dispatch_event (DE_Shutdown stop) d = (stop \<or> drained d, d)"
| "dispatch_event (DE_Completed i now outcome) d = (let d' = send_completed i now outcome d in (drained d', d'))"
| "dispatch_event (DE_Incoming (Some delivery)) d = (let d' = accept_delivery delivery d in (drained d', d'))"
| "dispatch_event (DE_Incoming None) d = (False, d\<lparr>dp_incoming_open := False\<rparr>)"
| "dispatch_event DE_Timer d = (drained d, d)"

text \<open>
  The dispatcher running: what has come in is kept beside the state. It waits in a prepared
  state, and an event that is enabled there happens.
\<close>

inductive dispatch_run :: "nat \<Rightarrow> Delivery list \<Rightarrow> Dispatcher \<Rightarrow> bool" for worker_limit where
  dispatch_start: "dispatch_run worker_limit [] (dispatch_prepare worker_limit now dispatcher_new)"
| dispatch_more: "dispatch_run worker_limit arrived d \<Longrightarrow> dispatch_enabled ev d \<Longrightarrow> dispatch_event ev d = (False, d') \<Longrightarrow>
    dispatch_run worker_limit (arrived @ (case ev of DE_Incoming (Some delivery) \<Rightarrow> [delivery] | _ \<Rightarrow> []))
      (dispatch_prepare worker_limit now d')"

end
