(* ===== verification/ChannelRuntime.thy ===== *)
theory ChannelRuntime
  imports ChannelStore ChannelDispatch SessionOps Values
begin

text \<open>
  The runtime of a Channel, \<open>ChannelRuntime\<close> of \<open>crates/mews-channel/src/runtime.rs\<close>: messages of
  an external platform become Turns of the conversation's Session, one at a time, and the Hub's
  events become deliveries. The Hub and the platform adapter are the record \<open>channel_env\<close> of
  functions over a state of the outside; the requests made to them are kept in a log.
\<close>

section \<open>Data\<close>

datatype ChannelCapability = Cap_Streaming | Cap_MessageEdits | Cap_Attachments | Cap_Typing

datatype ChannelSubscription = Sub_CompletedMessages | Sub_StreamingUpdates | Sub_LifecycleEvents

definition max_external_id_bytes :: nat where
  "max_external_id_bytes = 256"

record ChannelConfig =
  cc_agent :: string
  cc_host :: "HostId option"
  cc_working_directory :: "string option"
  cc_delivery_workers :: nat
  cc_pending_deliveries :: nat

definition channel_config_new :: "string \<Rightarrow> ChannelConfig" where
  "channel_config_new agent = \<lparr>cc_agent = agent, cc_host = None, cc_working_directory = None,
     cc_delivery_workers = 4, cc_pending_deliveries = 256\<rparr>"

definition channel_config_validate :: "ChannelConfig \<Rightarrow> string + unit" where
  "channel_config_validate c =
     bindR (require (cc_delivery_workers c \<noteq> 0) ''Channel delivery_workers must be greater than zero'') (\<lambda>_.
     require (cc_delivery_workers c \<le> cc_pending_deliveries c)
       ''Channel pending_deliveries must be at least delivery_workers'')"

definition validate_negotiation :: "ChannelSubscription list \<Rightarrow> ChannelCapability list \<Rightarrow> string + unit" where
  "validate_negotiation subscriptions capabilities =
     require (\<not> (Sub_StreamingUpdates \<in> set subscriptions \<and> Cap_Streaming \<notin> set capabilities))
       ''a Channel subscribing to streaming updates must advertise streaming capability''"

record InboundMessage =
  im_external_id :: string
  im_conversation :: string
  im_text :: string
  im_metadata :: Value

record ChannelRuntime =
  cr_channel_name :: string
  cr_origin_consumer :: ConsumerId
  cr_subscriptions :: "ChannelSubscription list"
  cr_config :: ChannelConfig

definition validate_external_id :: "string \<Rightarrow> string + unit" where
  "validate_external_id external_id =
     bindR (require (external_id \<noteq> []) ''external message ID cannot be empty'') (\<lambda>_.
     require (length external_id \<le> max_external_id_bytes) ''external message ID exceeds 256 bytes'')"

text \<open>The hashed text: each value after its length, eight bytes with the most significant first.\<close>

definition sized_value :: "string \<Rightarrow> string" where
  "sized_value v = be_bytes 8 (length v) @ v"

definition channel_key_text :: "ConsumerId \<Rightarrow> string \<Rightarrow> string \<Rightarrow> string" where
  "channel_key_text consumer conversation external_id =
     concat (map sized_value [consumer, conversation, external_id])"

definition channel_turn_key :: "ext \<Rightarrow> ConsumerId \<Rightarrow> string \<Rightarrow> string \<Rightarrow> string" where
  "channel_turn_key X consumer conversation external_id =
     ''channel:'' @ x_sha256 X (channel_key_text consumer conversation external_id)"

definition channel_source :: "string \<Rightarrow> ConsumerId \<Rightarrow> string \<Rightarrow> MessageSource" where
  "channel_source channel_name consumer conversation =
     \<lparr>ms_kind = SK_Channel, ms_id = channel_name,
      ms_channel_origin = Some \<lparr>co_consumer_id = consumer, co_conversation = conversation\<rparr>\<rparr>"

section \<open>The outside\<close>

record 'w channel_env =
  ce_ext :: ext
  ce_start_session :: "string \<Rightarrow> string option \<Rightarrow> 'w \<Rightarrow> (string + SessionId) \<times> 'w"
  ce_start_session_on :: "string \<Rightarrow> HostId \<Rightarrow> string \<Rightarrow> 'w \<Rightarrow> (string + SessionId) \<times> 'w"
  ce_subscribe :: "ConsumerId \<Rightarrow> SessionId \<Rightarrow> 'w \<Rightarrow> (string + unit) \<times> 'w"
  ce_start_turn :: "string \<Rightarrow> SessionId \<Rightarrow> string \<Rightarrow> Value \<Rightarrow> MessageSource \<Rightarrow> 'w \<Rightarrow> (string + Turn) \<times> 'w"
  ce_get_turn :: "string \<Rightarrow> 'w \<Rightarrow> (string + Turn) \<times> 'w"
  ce_acknowledge_events :: "ConsumerId \<Rightarrow> nat \<Rightarrow> 'w \<Rightarrow> (string + unit) \<times> 'w"
  ce_acknowledge_inbound :: "string \<Rightarrow> 'w \<Rightarrow> (string + unit) \<times> 'w"
  ce_reject_inbound :: "string \<Rightarrow> string \<Rightarrow> 'w \<Rightarrow> (string + unit) \<times> 'w"
  ce_dispatcher_up :: "'w \<Rightarrow> bool"

datatype ChannelCall =
  CC_StartSession "SessionId option" | CC_Subscribe ConsumerId SessionId
| CC_StartTurn PendingRow SessionId string "Turn option"
| CC_GetTurn string | CC_AcknowledgeEvents nat | CC_AcknowledgeInbound string bool | CC_RejectInbound string string

record 'w ChannelState =
  ch_store :: MappingStore
  ch_world :: 'w
  ch_sent :: "Delivery list" \<comment> \<open>given to the dispatcher\<close>
  ch_log :: "ChannelCall list"

type_synonym ('w, 'a) channel = "'w ChannelState \<Rightarrow> (string + 'a) \<times> 'w ChannelState"

definition retC :: "'a \<Rightarrow> ('w, 'a) channel" where
  "retC x s = (Inr x, s)"

definition failC :: "string \<Rightarrow> ('w, 'a) channel" where
  "failC e s = (Inl e, s)"

definition bindC :: "('w, 'a) channel \<Rightarrow> ('a \<Rightarrow> ('w, 'b) channel) \<Rightarrow> ('w, 'b) channel" where
  "bindC m f s = (case m s of (Inl e, s') \<Rightarrow> (Inl e, s') | (Inr x, s') \<Rightarrow> f x s')"

definition readC :: "('w ChannelState \<Rightarrow> 'a) \<Rightarrow> ('w, 'a) channel" where
  "readC f s = (Inr (f s), s)"

definition storeC :: "(MappingStore \<Rightarrow> string + MappingStore) \<Rightarrow> ('w, unit) channel" where
  "storeC f s = (case f (ch_store s) of Inl e \<Rightarrow> (Inl e, s) | Inr m \<Rightarrow> (Inr (), s\<lparr>ch_store := m\<rparr>))"

text \<open>A request to the outside and its entry in the log.\<close>

definition callC :: "('w \<Rightarrow> (string + 'a) \<times> 'w) \<Rightarrow> ((string + 'a) \<Rightarrow> ChannelCall) \<Rightarrow> ('w, 'a) channel" where
  "callC f item s = (let (r, w) = f (ch_world s) in (r, s\<lparr>ch_world := w, ch_log := ch_log s @ [item r]\<rparr>))"

fun forC :: "'b list \<Rightarrow> ('b \<Rightarrow> ('w, unit) channel) \<Rightarrow> ('w, unit) channel" where
  "forC [] f = retC ()"
| "forC (x # xs) f = bindC (f x) (\<lambda>_. forC xs f)"

definition right :: "'e + 'a \<Rightarrow> 'a option" where
  "right r = (case r of Inl _ \<Rightarrow> None | Inr x \<Rightarrow> Some x)"

section \<open>Launching\<close>

text \<open>The next message of a conversation becomes a Turn; those that cannot are discarded.\<close>

definition start_pending ::
    "'w channel_env \<Rightarrow> ChannelRuntime \<Rightarrow> SessionId \<Rightarrow> string \<Rightarrow> PendingRow \<Rightarrow> ('w, Turn) channel" where
  "start_pending env rt sid conversation p =
     (let key = channel_turn_key (ce_ext env) (cr_origin_consumer rt) conversation (pe_external_id p);
          source = channel_source (cr_channel_name rt) (cr_origin_consumer rt) conversation
      in callC (ce_start_turn env key sid (pe_text p) (pe_metadata p) source) (\<lambda>r. CC_StartTurn p sid key (right r)))"

definition pending_valid :: "'w channel_env \<Rightarrow> ChannelRuntime \<Rightarrow> string \<Rightarrow> PendingRow \<Rightarrow> bool" where
  "pending_valid env rt conversation p \<longleftrightarrow>
     validate_external_id (pe_external_id p) = Inr ()
     \<and> protocol_validate_turn_input (ce_ext env)
         (channel_turn_key (ce_ext env) (cr_origin_consumer rt) conversation (pe_external_id p))
         (MC_Text (pe_text p)) (pe_metadata p)
         (channel_source (cr_channel_name rt) (cr_origin_consumer rt) conversation) = Inr ()"

lemma next_pending_in: "next_pending sid m = Some p \<Longrightarrow> p \<in> set (mp_pending m)"
  by (auto simp: next_pending_def find_Some_iff split: option.splits)

lemma discard_less: "next_pending sid m = Some p \<Longrightarrow> length (mp_pending (discard_pending (pe_id p) m)) < length (mp_pending m)"
  using next_pending_in [of sid m p] by (simp add: discard_pending_def length_filter_less)

lemma start_pending_store: "start_pending env rt sid c p s = (r, s') \<Longrightarrow> ch_store s' = ch_store s"
  by (auto simp: start_pending_def callC_def Let_def split: prod.splits)

function launch_loop ::
    "'w channel_env \<Rightarrow> ChannelRuntime \<Rightarrow> SessionId \<Rightarrow> string \<Rightarrow> ('w, unit) channel" where
  "launch_loop env rt sid conversation s =
     (case next_pending sid (ch_store s) of
        None \<Rightarrow> (Inr (), s)
      | Some p \<Rightarrow>
          if \<not> pending_valid env rt conversation p
          then launch_loop env rt sid conversation (s\<lparr>ch_store := discard_pending (pe_id p) (ch_store s)\<rparr>)
          else (case start_pending env rt sid conversation p s of
              (Inl e, s1) \<Rightarrow> (Inl e, s1)
            | (Inr tu, s1) \<Rightarrow>
                if turn_status tu \<noteq> Running
                then launch_loop env rt sid conversation (s1\<lparr>ch_store := discard_pending (pe_id p) (ch_store s1)\<rparr>)
                else storeC (mark_started (pe_id p) sid (turn_id_of tu)) s1))"
  by pat_completeness auto
termination
proof (relation "measure (\<lambda>(env, rt, sid, c, s). length (mp_pending (ch_store s)))", goal_cases)
  case (2 env rt sid conversation s p)
  then show ?case using discard_less by simp
next
  case (3 env rt sid conversation s p r s1 tu)
  then show ?case using discard_less start_pending_store [of env rt sid conversation p s "Inr tu" s1] by simp
qed auto

declare launch_loop.simps [simp del]

definition launch_next :: "'w channel_env \<Rightarrow> ChannelRuntime \<Rightarrow> SessionId \<Rightarrow> ('w, unit) channel" where
  "launch_next env rt sid s =
     (if session_active sid (ch_store s) then (Inr (), s)
      else case mapped_conversation sid (ch_store s) of
          None \<Rightarrow> (Inl ''Channel Session has no conversation mapping'', s)
        | Some conversation \<Rightarrow> launch_loop env rt sid conversation s)"

section \<open>Messages from the platform\<close>

definition reject :: "'w channel_env \<Rightarrow> string \<Rightarrow> string \<Rightarrow> ('w, unit) channel" where
  "reject env external_id reason = callC (ce_reject_inbound env external_id reason) (\<lambda>_. CC_RejectInbound external_id reason)"

definition new_session :: "'w channel_env \<Rightarrow> ChannelRuntime \<Rightarrow> string \<Rightarrow> ('w, SessionId) channel" where
  "new_session env rt conversation =
     bindC (case cc_host (cr_config rt) of
         Some host \<Rightarrow> (case cc_working_directory (cr_config rt) of
             None \<Rightarrow> failC ''a Channel targeting a specific Host requires a working directory''
           | Some directory \<Rightarrow> callC (ce_start_session_on env (cc_agent (cr_config rt)) host directory) (\<lambda>r. CC_StartSession (right r)))
       | None \<Rightarrow> callC (ce_start_session env (cc_agent (cr_config rt)) (cc_working_directory (cr_config rt)))
           (\<lambda>r. CC_StartSession (right r))) (\<lambda>sid.
     bindC (storeC (insert_mapping conversation sid)) (\<lambda>_.
     bindC (callC (ce_subscribe env (cr_origin_consumer rt) sid) (\<lambda>_. CC_Subscribe (cr_origin_consumer rt) sid)) (\<lambda>_.
     retC sid)))"

definition handle_inbound :: "'w channel_env \<Rightarrow> ChannelRuntime \<Rightarrow> InboundMessage \<Rightarrow> ('w, unit) channel" where
  "handle_inbound env rt inbound =
     (case validate_external_id (im_external_id inbound) of
        Inl reason \<Rightarrow> reject env (im_external_id inbound) reason
      | Inr _ \<Rightarrow>
          (let key = channel_turn_key (ce_ext env) (cr_origin_consumer rt) (im_conversation inbound) (im_external_id inbound);
               source = channel_source (cr_channel_name rt) (cr_origin_consumer rt) (im_conversation inbound)
           in case protocol_validate_turn_input (ce_ext env) key (MC_Text (im_text inbound)) (im_metadata inbound) source of
                Inl reason \<Rightarrow> reject env (im_external_id inbound) reason
              | Inr _ \<Rightarrow>
                  bindC (readC (\<lambda>s. mapped_session (im_conversation inbound) (ch_store s))) (\<lambda>mapped.
                  bindC (case mapped of Some sid \<Rightarrow> retC sid | None \<Rightarrow> new_session env rt (im_conversation inbound)) (\<lambda>sid.
                  bindC (storeC (\<lambda>m. Inr (enqueue (im_external_id inbound) (im_conversation inbound) (im_text inbound)
                    (im_metadata inbound) m))) (\<lambda>_.
                  bindC (callC (ce_acknowledge_inbound env (im_external_id inbound))
                    (\<lambda>r. CC_AcknowledgeInbound (im_external_id inbound) (\<not> isl r))) (\<lambda>_.
                  launch_next env rt sid))))))"

section \<open>Events of the Hub\<close>

definition ended_turn :: "ClientEventKind \<Rightarrow> TurnId option" where
  "ended_turn kind =
     (case kind of CE_TurnCompleted t \<Rightarrow> Some t | CE_TurnCancelled t \<Rightarrow> Some t | CE_TurnFailed t _ \<Rightarrow> Some t | _ \<Rightarrow> None)"

definition handle_turn_state :: "'w channel_env \<Rightarrow> ChannelRuntime \<Rightarrow> ClientEvent \<Rightarrow> ('w, unit) channel" where
  "handle_turn_state env rt event s =
     (case ended_turn (ce_kind event) of
        None \<Rightarrow> (Inr (), s)
      | Some t \<Rightarrow>
          let (finished, m) = store_finish_turn t (ch_store s); s1 = s\<lparr>ch_store := m\<rparr> in
          (case finished of None \<Rightarrow> (Inr (), s1) | Some sid \<Rightarrow> launch_next env rt sid s1))"

text \<open>What a conversation is told of an event of its own Turn.\<close>

definition outbound_event :: "ChannelRuntime \<Rightarrow> ClientEventKind \<Rightarrow> OutboundEvent option" where
  "outbound_event rt kind =
     (case kind of
        CE_AssistantMessage _ message \<Rightarrow>
          if Sub_CompletedMessages \<in> set (cr_subscriptions rt)
          then (case msg_content message of MC_Text txt \<Rightarrow> Some (OE_CompletedMessage txt) | _ \<Rightarrow> None) else None
      | CE_AssistantDelta _ delta _ \<Rightarrow>
          if Sub_StreamingUpdates \<in> set (cr_subscriptions rt) then Some (OE_StreamingUpdate delta) else None
      | CE_TurnFailed _ error \<Rightarrow>
          if Sub_LifecycleEvents \<in> set (cr_subscriptions rt) then Some (OE_Lifecycle (''MEWS Turn failed: '' @ error)) else None
      | _ \<Rightarrow> None)"

definition enqueue_delivery :: "'w channel_env \<Rightarrow> Delivery \<Rightarrow> ('w, unit) channel" where
  "enqueue_delivery env delivery s =
     (if ce_dispatcher_up env (ch_world s) then (Inr (), s\<lparr>ch_sent := ch_sent s @ [delivery]\<rparr>)
      else (Inl ''Channel delivery dispatcher stopped'', s))"

definition handle_event :: "'w channel_env \<Rightarrow> ChannelRuntime \<Rightarrow> ClientEvent \<Rightarrow> ('w, unit) channel" where
  "handle_event env rt event =
     (case ce_channel_origin event of
        None \<Rightarrow> handle_turn_state env rt event
      | Some origin \<Rightarrow>
          if co_consumer_id origin \<noteq> cr_origin_consumer rt then handle_turn_state env rt event
          else bindC (case outbound_event rt (ce_kind event) of
              None \<Rightarrow> retC ()
            | Some outbound \<Rightarrow> enqueue_delivery env \<lparr>dl_event_id = ce_id event, dl_destination = co_conversation origin,
                dl_event = outbound, dl_attempt = 1\<rparr>) (\<lambda>_. handle_turn_state env rt event))"

definition handle_batch :: "'w channel_env \<Rightarrow> ChannelRuntime \<Rightarrow> EventBatch \<Rightarrow> ('w, unit) channel" where
  "handle_batch env rt batch =
     bindC (if eb_advanced batch
            then callC (ce_acknowledge_events env (cr_origin_consumer rt) (eb_checkpoint batch))
              (\<lambda>_. CC_AcknowledgeEvents (eb_checkpoint batch))
            else retC ()) (\<lambda>_.
     forC (eb_events batch) (handle_event env rt))"

definition broadcast :: "'w channel_env \<Rightarrow> string list \<Rightarrow> string \<Rightarrow> OutboundEvent \<Rightarrow> ('w, unit) channel" where
  "broadcast env conversations idempotency_key event =
     forC conversations (\<lambda>conversation. enqueue_delivery env \<lparr>dl_event_id = idempotency_key @ '':'' @ conversation,
       dl_destination = conversation, dl_event = event, dl_attempt = 1\<rparr>)"

section \<open>Opening\<close>

definition attach :: "'w channel_env \<Rightarrow> ChannelRuntime \<Rightarrow> string \<Rightarrow> SessionId \<Rightarrow> ('w, unit) channel" where
  "attach env rt conversation sid =
     bindC (storeC (insert_mapping conversation sid)) (\<lambda>_.
     callC (ce_subscribe env (cr_origin_consumer rt) sid) (\<lambda>_. CC_Subscribe (cr_origin_consumer rt) sid))"

text \<open>What \<open>open\<close> does once the Channel is validated and connected: it subscribes to the mapped
  Sessions, settles the Turns that ended while it was away, and launches what waits.\<close>

definition settle_turn :: "'w channel_env \<Rightarrow> ChannelRuntime \<Rightarrow> SessionId \<times> string \<Rightarrow> ('w, unit) channel" where
  "settle_turn env rt entry =
     bindC (callC (ce_get_turn env (snd entry)) (\<lambda>_. CC_GetTurn (snd entry))) (\<lambda>tu.
     if turn_completed_at tu \<noteq> None
     then bindC (storeC (\<lambda>m. Inr (snd (store_finish_turn (turn_id_of tu) m)))) (\<lambda>_. launch_next env rt (fst entry))
     else retC ())"

definition channel_recover :: "'w channel_env \<Rightarrow> ChannelRuntime \<Rightarrow> ('w, unit) channel" where
  "channel_recover env rt =
     bindC (readC (\<lambda>s. mp_mappings (ch_store s))) (\<lambda>mapped.
     bindC (forC mapped (\<lambda>(_, sid). callC (ce_subscribe env (cr_origin_consumer rt) sid)
       (\<lambda>_. CC_Subscribe (cr_origin_consumer rt) sid))) (\<lambda>_.
     bindC (readC (\<lambda>s. store_active_turns (ch_store s))) (\<lambda>active.
     bindC (forC active (settle_turn env rt)) (\<lambda>_.
     forC mapped (\<lambda>(_, sid). launch_next env rt sid)))))"

definition channel_open ::
    "'w channel_env \<Rightarrow> string \<Rightarrow> ChannelSubscription list \<Rightarrow> ChannelCapability list \<Rightarrow> ChannelConfig \<Rightarrow> ConsumerId
      \<Rightarrow> ('w, ChannelRuntime) channel" where
  "channel_open env name subscriptions capabilities config fresh s =
     (case bindR (channel_config_validate config) (\<lambda>_.
           bindR (require (name \<noteq> [] \<and> length name \<le> 256) ''Channel name must contain 1 to 256 bytes'') (\<lambda>_.
           validate_negotiation subscriptions capabilities)) of
        Inl e \<Rightarrow> (Inl e, s)
      | Inr _ \<Rightarrow>
          let (consumer, m) = store_consumer_id fresh (ch_store s);
              rt = \<lparr>cr_channel_name = name, cr_origin_consumer = consumer, cr_subscriptions = subscriptions,
                    cr_config = config\<rparr>
          in bindC (channel_recover env rt) (\<lambda>_. retC rt) (s\<lparr>ch_store := m\<rparr>))"

end
