(* ===== verification/ChannelInv.thy ===== *)
theory ChannelInv
  imports ChannelRuntime
begin

text \<open>
  The invariants of a running Channel: its tables, the order in which the messages of a
  conversation are started, and that a message waits only behind an active Turn. An operation
  that fails leaves its effects in the store, so the first two hold whatever fails; the Channel
  then stops and can be opened again.
\<close>

section \<open>A logic for operations\<close>

definition keeps :: "('w ChannelState \<Rightarrow> bool) \<Rightarrow> ('w, 'a) channel \<Rightarrow> bool" where
  "keeps I m \<longleftrightarrow> (\<forall>s. I s \<longrightarrow> I (snd (m s)))"

lemma keepsD: "keeps I m \<Longrightarrow> m s = (r, s') \<Longrightarrow> I s \<Longrightarrow> I s'"
  unfolding keeps_def by (metis snd_conv)

lemma keepsI: "(\<And>s r s'. I s \<Longrightarrow> m s = (r, s') \<Longrightarrow> I s') \<Longrightarrow> keeps I m"
  by (simp add: keeps_def) (metis prod.collapse)

lemma keeps_basic: "keeps I (retC x)" "keeps I (failC e)" "keeps I (readC f)"
  by (simp_all add: keeps_def retC_def failC_def readC_def)

lemma keeps_bind: "keeps I m \<Longrightarrow> (\<And>x. keeps I (f x)) \<Longrightarrow> keeps I (bindC m f)"
  unfolding keeps_def bindC_def by (simp split: prod.splits sum.splits) (metis snd_conv)

lemma keeps_for: "(\<And>x. keeps I (f x)) \<Longrightarrow> keeps I (forC xs f)"
  by (induction xs) (auto intro: keeps_basic keeps_bind)

text \<open>What a successful operation achieves.\<close>

definition gives :: "('w ChannelState \<Rightarrow> bool) \<Rightarrow> ('w, 'a) channel \<Rightarrow> ('a \<Rightarrow> 'w ChannelState \<Rightarrow> bool) \<Rightarrow> bool" where
  "gives P m Q \<longleftrightarrow> (\<forall>s x s'. P s \<longrightarrow> m s = (Inr x, s') \<longrightarrow> Q x s')"

lemma givesD: "gives P m Q \<Longrightarrow> P s \<Longrightarrow> m s = (Inr x, s') \<Longrightarrow> Q x s'"
  by (simp add: gives_def)

lemma gives_bind: "gives P m R \<Longrightarrow> (\<And>x. gives (R x) (f x) Q) \<Longrightarrow> gives P (bindC m f) Q"
  unfolding gives_def bindC_def by (fastforce split: prod.splits sum.splits)

lemma gives_for:
  assumes "\<And>x xs. gives (P (x # xs)) (f x) (\<lambda>_. P xs)"
  shows "gives (P xs) (forC xs f) (\<lambda>_. P [])"
proof (induction xs)
  case (Cons x xs)
  show ?case unfolding forC.simps by (rule gives_bind [OF assms Cons.IH])
qed (simp add: gives_def retC_def)

section \<open>Order\<close>

definition started_ids :: "string \<Rightarrow> ChannelCall list \<Rightarrow> nat list" where
  "started_ids c log = concat (map (\<lambda>item. case item of
     CC_StartTurn p sid key (Some tu) \<Rightarrow> if pe_conversation p = c then [pe_id p] else [] | _ \<Rightarrow> []) log)"

definition waiting_ids :: "string \<Rightarrow> MappingStore \<Rightarrow> nat list" where
  "waiting_ids c m = map pe_id (pending_for c m)"

definition in_order :: "nat list \<Rightarrow> nat list \<Rightarrow> nat \<Rightarrow> bool" where
  "in_order started waits last_id \<longleftrightarrow> sorted (started @ waits) \<and> (\<forall>i \<in> set started. i \<le> last_id)"

lemma in_order_suffix: "in_order xs (zs @ ys) n \<Longrightarrow> n \<le> m \<Longrightarrow> in_order xs ys m"
  by (auto simp: in_order_def sorted_append intro: le_trans)

lemma in_order_start: "in_order xs (i # ys) n \<Longrightarrow> i \<le> n \<Longrightarrow> in_order (xs @ [i]) (i # ys) n"
  by (auto simp: in_order_def sorted_append)

lemma in_order_more: "in_order xs ys n \<Longrightarrow> \<forall>i \<in> set ys. i \<le> n \<Longrightarrow> in_order xs (ys @ [Suc n]) (Suc n)"
  by (auto simp: in_order_def sorted_append le_SucI)

definition channel_inv :: "'w ChannelState \<Rightarrow> bool" where
  "channel_inv s \<longleftrightarrow> mapping_ok (ch_store s)
     \<and> (\<forall>c. in_order (started_ids c (ch_log s)) (waiting_ids c (ch_store s)) (mp_last_id (ch_store s)))"

lemma started_ids_append: "started_ids c (log @ log') = started_ids c log @ started_ids c log'"
  by (simp add: started_ids_def)

lemma channel_inv_call:
  assumes "\<And>r c. started_ids c [item r] = []"
  shows "keeps channel_inv (callC f item)"
  using assms by (auto intro!: keepsI simp: callC_def channel_inv_def started_ids_append split: prod.splits)

lemma channel_inv_store:
  assumes "channel_inv s" and "mapping_ok m" and "\<And>c. \<exists>zs. waiting_ids c (ch_store s) = zs @ waiting_ids c m"
    and "mp_last_id (ch_store s) \<le> mp_last_id m"
  shows "channel_inv (s\<lparr>ch_store := m\<rparr>)"
  using assms unfolding channel_inv_def by simp (metis in_order_suffix)

section \<open>The operations on the store\<close>

lemma waiting_same: "mp_pending m' = mp_pending m \<Longrightarrow> waiting_ids c m' = waiting_ids c m"
  by (simp add: waiting_ids_def pending_for_def)

lemma channel_inv_same:
  assumes "channel_inv s" and "mapping_ok m" and "mp_pending m = mp_pending (ch_store s)"
    and "mp_last_id m = mp_last_id (ch_store s)"
  shows "channel_inv (s\<lparr>ch_store := m\<rparr>)"
  using assms by (simp add: channel_inv_def waiting_same [OF assms(3)])

lemma inv_ok: "channel_inv s \<Longrightarrow> mapping_ok (ch_store s)"
  by (simp add: channel_inv_def)

lemma inv_consumer:
  assumes "channel_inv s"
  shows "channel_inv (s\<lparr>ch_store := snd (store_consumer_id fresh (ch_store s))\<rparr>)"
  by (rule channel_inv_same [OF assms mapping_ok_consumer [OF inv_ok [OF assms]]])
    (simp_all add: store_consumer_id_def split: option.splits)

lemma inv_insert: "keeps channel_inv (storeC (insert_mapping c sid))"
proof (rule keepsI)
  fix s :: "'w ChannelState" and r s'
  assume inv: "channel_inv s" and run: "storeC (insert_mapping c sid) s = (r, s')"
  show "channel_inv s'"
  proof (cases "insert_mapping c sid (ch_store s)")
    case (Inr m)
    then have m: "mp_pending m = mp_pending (ch_store s)" "mp_last_id m = mp_last_id (ch_store s)"
      by (auto simp: insert_mapping_def result_simps)
    from channel_inv_same [OF inv mapping_ok_insert [OF inv_ok [OF inv] Inr] m] Inr run show ?thesis
      by (auto simp: storeC_def)
  qed (use inv run in \<open>auto simp: storeC_def\<close>)
qed

lemma inv_discard:
  assumes "channel_inv s" and "pending_for c (ch_store s) = p # ps"
  shows "channel_inv (s\<lparr>ch_store := discard_pending (pe_id p) (ch_store s)\<rparr>)"
proof (rule channel_inv_store [OF assms(1)])
  have ok: "mapping_ok (ch_store s)" using assms(1) by (simp add: channel_inv_def)
  then show "mapping_ok (discard_pending (pe_id p) (ch_store s))" by (rule mapping_ok_discard)
  show "\<exists>zs. waiting_ids c' (ch_store s) = zs @ waiting_ids c' (discard_pending (pe_id p) (ch_store s))" for c'
    using discard_first [OF ok assms(2)] assms(2) by (cases "c' = c") (auto simp: waiting_ids_def)
qed (simp add: discard_pending_def)

lemma inv_finish:
  assumes "channel_inv s"
  shows "channel_inv (s\<lparr>ch_store := snd (store_finish_turn t (ch_store s))\<rparr>)"
  by (rule channel_inv_same [OF assms mapping_ok_finish [OF inv_ok [OF assms]]]) (simp_all add: store_finish_turn_def)

lemma inv_enqueue:
  assumes "channel_inv s" and "c \<in> fst ` set (mp_mappings (ch_store s))"
  shows "channel_inv (s\<lparr>ch_store := enqueue e c t v (ch_store s)\<rparr>)"
proof (cases "list_ex (\<lambda>p. pe_conversation p = c \<and> pe_external_id p = e) (mp_pending (ch_store s))")
  case False
  let ?m = "ch_store s" and ?m' = "enqueue e c t v (ch_store s)"
  have ok: "mapping_ok ?m" "mapping_ok ?m'" using assms mapping_ok_enqueue by (auto simp: channel_inv_def)
  have small: "\<forall>i \<in> set (waiting_ids c' ?m). i \<le> mp_last_id ?m" for c'
    using ok(1) by (auto simp: waiting_ids_def pending_for_def mapping_ok_def)
  have waits: "waiting_ids c' ?m' = (if c' = c then waiting_ids c ?m @ [Suc (mp_last_id ?m)] else waiting_ids c' ?m)" for c'
    using False by (simp add: enqueue_def waiting_ids_def pending_for_def)
  have last: "mp_last_id ?m' = Suc (mp_last_id ?m)" using False by (simp add: enqueue_def)
  have "in_order (started_ids c' (ch_log s)) (waiting_ids c' ?m') (mp_last_id ?m')" for c'
  proof -
    have "in_order (started_ids c' (ch_log s)) (waiting_ids c' ?m) (mp_last_id ?m)" using assms(1) by (simp add: channel_inv_def)
    from in_order_more [OF this small] in_order_suffix [of _ "[]", OF _ le_SucI [OF order_refl]] this show ?thesis
      by (auto simp: waits last)
  qed
  with ok(2) show ?thesis by (simp add: channel_inv_def)
qed (use assms(1) in \<open>simp add: enqueue_def\<close>)

lemma inv_started:
  assumes "channel_inv s" and "pending_for c (ch_store s) = p # ps" and "mark_started (pe_id p) sid t (ch_store s) = Inr m"
  shows "channel_inv (s\<lparr>ch_store := m\<rparr>)"
proof (rule channel_inv_store [OF assms(1)])
  have ok: "mapping_ok (ch_store s)" using assms(1) by (simp add: channel_inv_def)
  then show "mapping_ok m" using assms(3) by (rule mapping_ok_started)
  have m: "mp_pending m = mp_pending (discard_pending (pe_id p) (ch_store s))" "mp_last_id m = mp_last_id (ch_store s)"
    using assms(3) by (auto simp: mark_started_def result_simps discard_pending_def)
  show "\<exists>zs. waiting_ids c' (ch_store s) = zs @ waiting_ids c' m" for c'
    unfolding waiting_same [OF m(1)]
    using discard_first [OF ok assms(2)] assms(2) by (cases "c' = c") (auto simp: waiting_ids_def)
  show "mp_last_id (ch_store s) \<le> mp_last_id m" by (simp add: m(2))
qed

lemma inv_start_pending:
  assumes "channel_inv s" and "pending_for c (ch_store s) = p # ps" and "start_pending env rt sid c' p s = (r, s')"
  shows "channel_inv s'" and "ch_store s' = ch_store s"
proof -
  show same: "ch_store s' = ch_store s" by (rule start_pending_store [OF assms(3)])
  have p: "p \<in> set (mp_pending (ch_store s))" "pe_conversation p = c"
    using assms(2) by (auto simp: pending_for_def filter_eq_Cons_iff)
  have le: "pe_id p \<le> mp_last_id (ch_store s)" using assms(1) p by (simp add: channel_inv_def mapping_ok_def)
  from assms(3) obtain key where log: "ch_log s' = ch_log s @ [CC_StartTurn p sid key (right r)]"
    by (auto simp: start_pending_def callC_def Let_def split: prod.splits)
  have "started_ids c'' (ch_log s') = started_ids c'' (ch_log s) @ (if c'' = c \<and> right r \<noteq> None then [pe_id p] else [])" for c''
    using p(2) by (auto simp: log started_ids_append started_ids_def split: option.splits)
  note log_ids = this
  have "in_order (started_ids c'' (ch_log s')) (waiting_ids c'' (ch_store s)) (mp_last_id (ch_store s))" for c''
  proof -
    have ord: "in_order (started_ids c'' (ch_log s)) (waiting_ids c'' (ch_store s)) (mp_last_id (ch_store s))"
      using assms(1) by (simp add: channel_inv_def)
    show ?thesis
    proof (cases "c'' = c \<and> right r \<noteq> None")
      case True
      then have "waiting_ids c'' (ch_store s) = pe_id p # map pe_id ps" using assms(2) by (simp add: waiting_ids_def)
      with in_order_start [of _ "pe_id p", OF _ le] ord True show ?thesis by (simp add: log_ids)
    next
      case False
      then have "started_ids c'' (ch_log s') = started_ids c'' (ch_log s)" using log_ids by auto
      with ord show ?thesis by simp
    qed
  qed
  then show "channel_inv s'" using inv_ok [OF assms(1)] by (simp add: channel_inv_def same)
qed

text \<open>The loop, by the fate of the first message that waits.\<close>

lemma launch_loop_induct [consumes 2, case_names empty invalid failed ended started]:
  assumes "launch_loop env rt sid c s = (r, s')" and "mapped_conversation sid (ch_store s) = Some c"
    and empty: "\<And>s. pending_for c (ch_store s) = [] \<Longrightarrow> P s (Inr ()) s"
    and invalid: "\<And>s p ps r s'. pending_for c (ch_store s) = p # ps \<Longrightarrow>
        P (s\<lparr>ch_store := discard_pending (pe_id p) (ch_store s)\<rparr>) r s' \<Longrightarrow> P s r s'"
    and failed: "\<And>s p ps e s1. pending_for c (ch_store s) = p # ps \<Longrightarrow> start_pending env rt sid c p s = (Inl e, s1) \<Longrightarrow> P s (Inl e) s1"
    and ended: "\<And>s p ps tu s1 r s'. pending_for c (ch_store s) = p # ps \<Longrightarrow> start_pending env rt sid c p s = (Inr tu, s1) \<Longrightarrow>
        P (s1\<lparr>ch_store := discard_pending (pe_id p) (ch_store s1)\<rparr>) r s' \<Longrightarrow> P s r s'"
    and started: "\<And>s p ps tu s1 r s'. pending_for c (ch_store s) = p # ps \<Longrightarrow> start_pending env rt sid c p s = (Inr tu, s1) \<Longrightarrow>
        storeC (mark_started (pe_id p) sid (turn_id_of tu)) s1 = (r, s') \<Longrightarrow> P s r s'"
  shows "P s r s'"
  using assms(1,2)
proof (induction "length (mp_pending (ch_store s))" arbitrary: s rule: less_induct)
  case less
  note loop = launch_loop.simps [of env rt sid c s]
  show ?case
  proof (cases "pending_for c (ch_store s)")
    case Nil
    with less.prems empty [OF Nil] show ?thesis by (auto simp: loop next_pending_first)
  next
    case (Cons p ps)
    then have first: "next_pending sid (ch_store s) = Some p" using less.prems(2) by (simp add: ChannelStore.next_pending_first)
    note fewer = discard_less [OF first]
    have same: "mapped_conversation sid (discard_pending (pe_id p) (ch_store s)) = Some c"
      using less.prems(2) by (simp add: discard_pending_def mapped_conversation_def)
    obtain r1 s1 where start: "start_pending env rt sid c p s = (r1, s1)" by fastforce
    have keep: "ch_store s1 = ch_store s" by (rule start_pending_store [OF start])
    show ?thesis
    proof (cases "pending_valid env rt c p")
      case False
      with less.prems first same have "P (s\<lparr>ch_store := discard_pending (pe_id p) (ch_store s)\<rparr>) r s'"
          by (intro less.hyps) (simp_all add: loop fewer)
      with Cons show ?thesis by (rule invalid)
    next
      case valid: True
      show ?thesis
      proof (cases r1)
        case (Inl e)
        with less.prems first valid start failed [OF Cons] show ?thesis by (auto simp: loop)
      next
        case (Inr tu)
        note begun = start [unfolded Inr]
        show ?thesis
        proof (cases "turn_status tu = Running")
          case True
          with less.prems first valid begun have "storeC (mark_started (pe_id p) sid (turn_id_of tu)) s1 = (r, s')"
            by (simp add: loop)
          with Cons begun show ?thesis by (rule started)
        next
          case False
          with less.prems first valid begun same keep have "P (s1\<lparr>ch_store := discard_pending (pe_id p) (ch_store s1)\<rparr>) r s'"
            by (intro less.hyps) (simp_all add: loop fewer)
          with Cons begun show ?thesis by (rule ended)
        qed
      qed
    qed
  qed
qed

lemma inv_launch_loop:
  assumes "launch_loop env rt sid c s = (r, s')" and "mapped_conversation sid (ch_store s) = Some c" and "channel_inv s"
  shows "channel_inv s'"
  using assms
proof (induction rule: launch_loop_induct)
  case (invalid s p ps r s')
  then show ?case using inv_discard by blast
next
  case (failed s p ps e s1)
  then show ?case using inv_start_pending by blast
next
  case (ended s p ps tu s1 r s')
  then show ?case using inv_start_pending inv_discard by metis
next
  case (started s p ps tu s1 r s')
  note inv1 = inv_start_pending [OF started(4,1,2)]
  have "pending_for c (ch_store s1) = p # ps" using started(1) inv1(2) by simp
  from inv_started [OF inv1(1) this] started(3) inv1(1) show ?case by (auto simp: storeC_def split: sum.splits)
qed

section \<open>The handlers\<close>

lemma call_items [simp]:
  "started_ids c [CC_StartSession x] = []" "started_ids c [CC_Subscribe k sid] = []" "started_ids c [CC_GetTurn t] = []"
  "started_ids c [CC_AcknowledgeEvents n] = []" "started_ids c [CC_AcknowledgeInbound e b] = []"
  "started_ids c [CC_RejectInbound e r] = []"
  by (simp_all add: started_ids_def)

lemma inv_launch: "keeps channel_inv (launch_next env rt sid)"
  by (rule keepsI) (auto simp: launch_next_def split: if_splits option.splits dest: inv_launch_loop)

lemma inv_turn_state:
  fixes env :: "'w channel_env"
  shows "keeps channel_inv (handle_turn_state env rt event)"
proof (rule keepsI)
  fix s :: "'w ChannelState" and r s'
  assume inv: "channel_inv s" and run: "handle_turn_state env rt event s = (r, s')"
  show "channel_inv s'"
  proof (cases "ended_turn (ce_kind event)")
    case (Some t)
    obtain finished m where fin: "store_finish_turn t (ch_store s) = (finished, m)" by fastforce
    have inv1: "channel_inv (s\<lparr>ch_store := m\<rparr>)" using inv_finish [OF inv, of t] fin by simp
    show ?thesis
    proof (cases finished)
      case (Some sid)
      with run \<open>ended_turn _ = _\<close> fin have "launch_next env rt sid (s\<lparr>ch_store := m\<rparr>) = (r, s')"
        by (simp add: handle_turn_state_def)
      from keepsD [OF inv_launch this inv1] show ?thesis .
    qed (use run Some fin inv1 in \<open>auto simp: handle_turn_state_def\<close>)
  qed (use run inv in \<open>auto simp: handle_turn_state_def\<close>)
qed

lemma inv_delivery: "keeps channel_inv (enqueue_delivery env delivery)"
  by (auto intro!: keepsI simp: enqueue_delivery_def channel_inv_def split: if_splits)

lemma inv_event: "keeps channel_inv (handle_event env rt event)"
  unfolding handle_event_def
  by (auto intro!: inv_turn_state keeps_bind keeps_basic inv_delivery split: option.splits)

lemma inv_batch: "keeps channel_inv (handle_batch env rt batch)"
  unfolding handle_batch_def by (auto intro!: keeps_bind keeps_basic channel_inv_call keeps_for inv_event)

lemma inv_attach: "keeps channel_inv (attach env rt c sid)"
  unfolding attach_def by (intro keeps_bind inv_insert channel_inv_call) simp

lemma inv_settle: "keeps channel_inv (settle_turn env rt entry)"
proof -
  have "keeps channel_inv (storeC (\<lambda>m. Inr (snd (store_finish_turn t m))))" for t
    by (rule keepsI) (auto simp: storeC_def inv_finish)
  then show ?thesis unfolding settle_turn_def
    by (auto intro!: keeps_bind keeps_basic channel_inv_call inv_launch)
qed

lemma inv_recover: "keeps channel_inv (channel_recover env rt)"
  unfolding channel_recover_def
  by (auto intro!: keeps_bind keeps_basic channel_inv_call keeps_for inv_settle inv_launch split: prod.splits)

lemma inv_open:
  fixes env :: "'w channel_env"
  shows "keeps channel_inv (channel_open env name subs caps config fresh)"
proof (rule keepsI)
  fix s :: "'w ChannelState" and r s'
  assume inv: "channel_inv s" and run: "channel_open env name subs caps config fresh s = (r, s')"
  obtain consumer m where m: "store_consumer_id fresh (ch_store s) = (consumer, m)" by fastforce
  have "channel_inv (s\<lparr>ch_store := m\<rparr>)" using inv_consumer [OF inv, of fresh] m by simp
  with run m inv keepsD [OF keeps_bind [OF inv_recover keeps_basic(1)]] show "channel_inv s'"
    by (auto simp: channel_open_def Let_def split: sum.splits)
qed

text \<open>A message is put in the queue of a conversation that has a Session.\<close>

lemma new_session_mapped:
  "new_session env rt c s = (Inr sid, s') \<Longrightarrow> (c, sid) \<in> set (mp_mappings (ch_store s'))"
  by (auto simp: new_session_def bindC_def storeC_def callC_def failC_def retC_def insert_mapping_def result_simps
      split: sum.splits prod.splits option.splits)

lemma inv_new_session: "keeps channel_inv (new_session env rt c)"
  unfolding new_session_def
  by (intro keeps_bind inv_insert keeps_basic channel_inv_call)
    (auto intro!: keeps_basic channel_inv_call split: option.splits)

lemma inv_inbound:
  fixes env :: "'w channel_env"
  shows "keeps channel_inv (handle_inbound env rt inbound)"
proof (rule keepsI)
  fix s :: "'w ChannelState" and r s'
  assume inv: "channel_inv s" and run: "handle_inbound env rt inbound s = (r, s')"
  have rejects: "keeps channel_inv (reject env e reason)" for e reason
    unfolding reject_def by (rule channel_inv_call) simp
  let ?c = "im_conversation inbound"
  let ?rest = "\<lambda>sid. bindC (storeC (\<lambda>m. Inr (enqueue (im_external_id inbound) ?c (im_text inbound) (im_metadata inbound) m))) (\<lambda>_.
      bindC (callC (ce_acknowledge_inbound env (im_external_id inbound))
        (\<lambda>r. CC_AcknowledgeInbound (im_external_id inbound) (\<not> isl r))) (\<lambda>_. launch_next env rt sid))"
  have rest: "channel_inv s2" if "channel_inv s1" "(?c, sid) \<in> set (mp_mappings (ch_store s1))" "?rest sid s1 = (r, s2)" for sid s1 s2
  proof -
    have "?c \<in> fst ` set (mp_mappings (ch_store s1))" using that(2) by force
    note queued = inv_enqueue [OF that(1) this]
    from that(3) have "bindC (callC (ce_acknowledge_inbound env (im_external_id inbound))
        (\<lambda>r. CC_AcknowledgeInbound (im_external_id inbound) (\<not> isl r))) (\<lambda>_. launch_next env rt sid)
        (s1\<lparr>ch_store := enqueue (im_external_id inbound) ?c (im_text inbound) (im_metadata inbound) (ch_store s1)\<rparr>) = (r, s2)"
      by (simp add: bindC_def [of "storeC _"] storeC_def)
    from keepsD [OF keeps_bind [OF channel_inv_call inv_launch] this queued] show ?thesis by simp
  qed
  show "channel_inv s'"
  proof (cases "validate_external_id (im_external_id inbound) = Inr () \<and> protocol_validate_turn_input (ce_ext env)
      (channel_turn_key (ce_ext env) (cr_origin_consumer rt) ?c (im_external_id inbound)) (MC_Text (im_text inbound))
      (im_metadata inbound) (channel_source (cr_channel_name rt) (cr_origin_consumer rt) ?c) = Inr ()")
    case False
    then obtain reason where "reject env (im_external_id inbound) reason s = (r, s')"
      using run by (auto simp: handle_inbound_def Let_def split: sum.splits)
    from keepsD [OF rejects this inv] show ?thesis .
  next
    case True
    show ?thesis
    proof (cases "mapped_session ?c (ch_store s)")
      case (Some sid)
      with True run have "?rest sid s = (r, s')"
        by (simp add: handle_inbound_def Let_def bindC_def [of "readC _"] bindC_def [of "retC _"] readC_def retC_def)
      from rest [OF inv _ this] Some show ?thesis using inv_ok [OF inv] mapped_both(1) by metis
    next
      case None
      obtain r1 s1 where new: "new_session env rt ?c s = (r1, s1)" by fastforce
      note inv1 = keepsD [OF inv_new_session new inv]
      show ?thesis
      proof (cases r1)
        case (Inl e)
        with True run None new inv1 show ?thesis
          by (simp add: handle_inbound_def Let_def bindC_def [of "readC _"] bindC_def [of "new_session _ _ _"] readC_def)
      next
        case (Inr sid)
        with True run None new have "?rest sid s1 = (r, s')"
          by (simp add: handle_inbound_def Let_def bindC_def [of "readC _"] bindC_def [of "new_session _ _ _"] readC_def)
        from rest [OF inv1 _ this] new_session_mapped new Inr show ?thesis by blast
      qed
    qed
  qed
qed

section \<open>Messages wait behind an active Turn\<close>

definition settled :: "(string \<times> SessionId) list \<Rightarrow> 'w ChannelState \<Rightarrow> bool" where
  "settled unsettled s \<longleftrightarrow> channel_inv s \<and> (\<forall>(c, sid) \<in> set (mp_mappings (ch_store s)) - set unsettled.
     pending_for c (ch_store s) = [] \<or> session_active sid (ch_store s))"

lemma settled_inv: "settled unsettled s \<Longrightarrow> channel_inv s"
  by (simp add: settled_def)

lemma settledD:
  "settled u s \<Longrightarrow> (c, sid) \<in> set (mp_mappings (ch_store s)) \<Longrightarrow> (c, sid) \<notin> set u
    \<Longrightarrow> pending_for c (ch_store s) = [] \<or> session_active sid (ch_store s)"
  by (auto simp: settled_def)

lemma settledI:
  "channel_inv s \<Longrightarrow> (\<And>c sid. (c, sid) \<in> set (mp_mappings (ch_store s)) \<Longrightarrow> (c, sid) \<notin> set u
    \<Longrightarrow> pending_for c (ch_store s) = [] \<or> session_active sid (ch_store s)) \<Longrightarrow> settled u s"
  by (auto simp: settled_def)

text \<open>Launching for one conversation leaves the others alone and settles its own.\<close>

definition launched :: "string \<Rightarrow> SessionId \<Rightarrow> MappingStore \<Rightarrow> MappingStore \<Rightarrow> bool" where
  "launched c sid m m' \<longleftrightarrow> mp_mappings m' = mp_mappings m \<and> (\<forall>c'. c' \<noteq> c \<longrightarrow> pending_for c' m' = pending_for c' m)
     \<and> set (mp_active m) \<subseteq> set (mp_active m')"

lemma launched_discard:
  assumes "mapping_ok m" and "pending_for c m = p # ps" and "launched c sid (discard_pending (pe_id p) m) m'"
  shows "launched c sid m m'"
proof -
  have "mp_mappings (discard_pending (pe_id p) m) = mp_mappings m" "mp_active (discard_pending (pe_id p) m) = mp_active m"
    by (simp_all add: discard_pending_def)
  with assms(3) discard_first(2) [OF assms(1,2)] show ?thesis by (simp add: launched_def)
qed

lemma launch_loop_settles:
  assumes "launch_loop env rt sid c s = (r, s')" and "mapped_conversation sid (ch_store s) = Some c" and "channel_inv s"
  shows "launched c sid (ch_store s) (ch_store s')
    \<and> (\<not> isl r \<longrightarrow> pending_for c (ch_store s') = [] \<or> session_active sid (ch_store s'))"
  using assms
proof (induction rule: launch_loop_induct)
  case (empty s)
  then show ?case by (simp add: launched_def)
next
  case (invalid s p ps r s')
  have "channel_inv (s\<lparr>ch_store := discard_pending (pe_id p) (ch_store s)\<rparr>)"
    using inv_discard [OF invalid(3,1)] .
  with invalid(2) launched_discard [OF inv_ok [OF invalid(3)] invalid(1)] show ?case by simp
next
  case (failed s p ps e s1)
  then show ?case by (simp add: launched_def start_pending_store)
next
  case (ended s p ps tu s1 r s')
  note inv1 = inv_start_pending [OF ended(4,1,2)]
  have first: "pending_for c (ch_store s1) = p # ps" using ended(1) inv1(2) by simp
  from ended(3) [OF inv_discard [OF inv1(1) first]] launched_discard [OF inv_ok [OF ended(4)] ended(1)] inv1(2)
  show ?case by simp
next
  case (started s p ps tu s1 r s')
  note inv1 = inv_start_pending [OF started(4,1,2)]
  show ?case
  proof (cases "mark_started (pe_id p) sid (turn_id_of tu) (ch_store s1)")
    case (Inl e)
    with started(3) inv1(2) show ?thesis by (auto simp: storeC_def launched_def)
  next
    case (Inr m)
    with started(3) have s': "ch_store s' = m" by (auto simp: storeC_def)
    from Inr inv1(2) have m: "m = discard_pending (pe_id p) ((ch_store s)\<lparr>mp_active := mp_active (ch_store s) @ [(sid, turn_id_of tu)]\<rparr>)"
      by (auto simp: mark_started_def result_simps)
    have "pending_for c' m = pending_for c' (ch_store s)" if "c' \<noteq> c" for c'
      using discard_first(2) [OF inv_ok [OF started(4)] started(1) that]
      by (simp add: m discard_pending_def pending_for_def)
    moreover have "session_active sid m" by (simp add: m session_active_def discard_pending_def)
    ultimately show ?thesis by (auto simp: s' launched_def m discard_pending_def)
  qed
qed

lemma settled_launch: "gives (settled ((c, sid) # rest)) (launch_next env rt sid) (\<lambda>_. settled rest)"
  unfolding gives_def
proof (intro allI impI)
  fix s x s'
  assume pre: "settled ((c, sid) # rest) s" and run: "launch_next env rt sid s = (Inr x, s')"
  have inv: "channel_inv s" "channel_inv s'" using pre keepsD [OF inv_launch run] by (auto simp: settled_def)
  note ok = inv_ok [OF inv(1)]
  show "settled rest s'"
  proof (cases "session_active sid (ch_store s)")
    case True
    with run have "s' = s" by (simp add: launch_next_def)
    moreover have "c' = c" if "(c', sid) \<in> set (mp_mappings (ch_store s))" "(c, sid) \<in> set (mp_mappings (ch_store s))" for c'
      using that mapped_both(2) [OF ok] by (metis option.inject)
    ultimately show ?thesis using pre True unfolding settled_def by auto
  next
    case False
    with run obtain c1 where c1: "mapped_conversation sid (ch_store s) = Some c1" and loop: "launch_loop env rt sid c1 s = (Inr x, s')"
      by (auto simp: launch_next_def split: option.splits)
    from launch_loop_settles [OF loop c1 inv(1)] have l: "launched c1 sid (ch_store s) (ch_store s')"
      and own: "pending_for c1 (ch_store s') = [] \<or> session_active sid (ch_store s')" by auto
    have "pending_for c' (ch_store s') = [] \<or> session_active sid' (ch_store s')"
      if "(c', sid') \<in> set (mp_mappings (ch_store s'))" "(c', sid') \<notin> set rest" for c' sid'
    proof (cases "sid' = sid")
      case True
      with that l have "c' = c1" using mapped_both(2) [OF ok] c1 by (simp add: launched_def) (metis option.inject)
      with own True show ?thesis by simp
    next
      case False
      have in_s: "(c', sid') \<in> set (mp_mappings (ch_store s))" using that(1) l by (simp add: launched_def)
      have "c' \<noteq> c1" using False c1 in_s mapped_both [OF ok] by (metis option.inject)
      then have same: "pending_for c' (ch_store s') = pending_for c' (ch_store s)" using l by (simp add: launched_def)
      have "pending_for c' (ch_store s) = [] \<or> session_active sid' (ch_store s)"
        using pre that(2) in_s False by (auto simp: settled_def)
      moreover have "session_active sid' (ch_store s) \<Longrightarrow> session_active sid' (ch_store s')"
        using l by (auto simp: launched_def session_active_def)
      ultimately show ?thesis using same by auto
    qed
    with inv(2) show ?thesis by (auto simp: settled_def)
  qed
qed

lemma gives_weaken: "gives P m Q \<Longrightarrow> (\<And>s. P' s \<Longrightarrow> P s) \<Longrightarrow> gives P' m Q"
  unfolding gives_def by blast

lemma gives_ret: "(\<And>s. P s \<Longrightarrow> Q x s) \<Longrightarrow> gives P (retC x) Q"
  by (simp add: gives_def retC_def)

lemma gives_store: "(\<And>s m. P s \<Longrightarrow> f (ch_store s) = Inr m \<Longrightarrow> Q () (s\<lparr>ch_store := m\<rparr>)) \<Longrightarrow> gives P (storeC f) Q"
  by (auto simp: gives_def storeC_def split: sum.splits)

lemma settled_call:
  assumes "\<And>r c. started_ids c [item r] = []"
  shows "gives (settled u) (callC f item) (\<lambda>_. settled u)"
  using channel_inv_call [of item f, OF assms]
  by (auto simp: gives_def settled_def callC_def keeps_def split: prod.splits)

lemma settled_delivery: "gives (settled u) (enqueue_delivery env delivery) (\<lambda>_. settled u)"
  by (auto simp: gives_def settled_def enqueue_delivery_def channel_inv_def)

lemma settled_finish:
  assumes "settled u s" and "store_finish_turn t (ch_store s) = (finished, m)"
  shows "case finished of None \<Rightarrow> settled u (s\<lparr>ch_store := m\<rparr>) | Some sid \<Rightarrow> \<exists>c. settled ((c, sid) # u) (s\<lparr>ch_store := m\<rparr>)"
proof -
  have inv: "channel_inv s" "channel_inv (s\<lparr>ch_store := m\<rparr>)"
    using assms(1) inv_finish [of s t] assms(2) by (auto simp: settled_def)
  note ok = inv_ok [OF inv(1)]
  have m: "m = (ch_store s)\<lparr>mp_active := filter (\<lambda>(_, t'). t' \<noteq> t) (mp_active (ch_store s))\<rparr>"
    and fin: "finished = map_option fst (find (\<lambda>(_, t'). t' = t) (mp_active (ch_store s)))"
    using assms(2) by (auto simp: store_finish_turn_def)
  have still: "session_active sid' m" if "session_active sid' (ch_store s)" "finished \<noteq> Some sid'" for sid'
  proof -
    from that(1) obtain t' where t': "(sid', t') \<in> set (mp_active (ch_store s))" by (auto simp: session_active_def)
    have "t' \<noteq> t"
    proof
      assume "t' = t"
      with t' ok have "finished = Some sid'" unfolding fin by (intro find_by_snd [THEN iffD2]) (auto simp: mapping_ok_def)
      with that(2) show False by simp
    qed
    with t' show ?thesis by (force simp: m session_active_def)
  qed
  have pend: "pending_for c m = pending_for c (ch_store s)" "mp_mappings m = mp_mappings (ch_store s)" for c
    by (simp_all add: m pending_for_def)
  show ?thesis
  proof (cases finished)
    case None
    have "settled u (s\<lparr>ch_store := m\<rparr>)"
      using settledD [OF assms(1)] still None pend by (intro settledI inv(2)) auto
    with None show ?thesis by simp
  next
    case (Some sid)
    define c where "c = (case mapped_conversation sid (ch_store s) of Some c \<Rightarrow> c | None \<Rightarrow> [])"
    have "settled ((c, sid) # u) (s\<lparr>ch_store := m\<rparr>)"
      unfolding settled_def
    proof (intro conjI inv(2) ballI, clarify)
      fix c' sid'
      assume in_m: "(c', sid') \<in> set (mp_mappings (ch_store (s\<lparr>ch_store := m\<rparr>)))" and out: "(c', sid') \<notin> set ((c, sid) # u)"
        and busy: "\<not> session_active sid' (ch_store (s\<lparr>ch_store := m\<rparr>))"
      have "sid' \<noteq> sid"
      proof
        assume "sid' = sid"
        with in_m pend have "mapped_conversation sid (ch_store s) = Some c'" using mapped_both(2) [OF ok] by simp
        with out \<open>sid' = sid\<close> show False by (simp add: c_def)
      qed
      moreover have "pending_for c' (ch_store s) = [] \<or> session_active sid' (ch_store s)"
        using assms(1) in_m out pend by (auto simp: settled_def)
      ultimately show "pending_for c' (ch_store (s\<lparr>ch_store := m\<rparr>)) = []"
        using still busy Some pend by auto
    qed
    with Some show ?thesis by auto
  qed
qed

lemma settled_turn_state: "gives (settled u) (handle_turn_state env rt event) (\<lambda>_. settled u)"
  unfolding gives_def
proof (intro allI impI)
  fix s x s'
  assume pre: "settled u s" and run: "handle_turn_state env rt event s = (Inr x, s')"
  show "settled u s'"
  proof (cases "ended_turn (ce_kind event)")
    case (Some t)
    obtain finished m where fin: "store_finish_turn t (ch_store s) = (finished, m)" by fastforce
    note after = settled_finish [OF pre fin]
    show ?thesis
    proof (cases finished)
      case None
      with run Some fin after show ?thesis by (auto simp: handle_turn_state_def)
    next
      case (Some sid)
      with run \<open>ended_turn _ = _\<close> fin have launch: "launch_next env rt sid (s\<lparr>ch_store := m\<rparr>) = (Inr x, s')"
        by (simp add: handle_turn_state_def)
      from after Some obtain c where "settled ((c, sid) # u) (s\<lparr>ch_store := m\<rparr>)" by auto
      from givesD [OF settled_launch this launch] show ?thesis .
    qed
  qed (use run pre in \<open>auto simp: handle_turn_state_def\<close>)
qed

lemma settled_event: "gives (settled u) (handle_event env rt event) (\<lambda>_. settled u)"
  unfolding handle_event_def
  by (auto intro!: gives_bind [OF _ settled_turn_state] settled_turn_state settled_delivery gives_ret split: option.splits)

lemma settled_batch: "gives (settled u) (handle_batch env rt batch) (\<lambda>_. settled u)"
  unfolding handle_batch_def
  by (rule gives_bind [where R = "\<lambda>_. settled u"])
    (auto intro!: settled_call gives_ret gives_for [where P = "\<lambda>_. settled u"] settled_event)

lemma settled_insert: "gives (settled u) (storeC (insert_mapping c sid)) (\<lambda>_. settled u)"
proof (rule gives_store)
  fix s m
  assume pre: "settled u s" and ins: "insert_mapping c sid (ch_store s) = Inr m"
  have "channel_inv (s\<lparr>ch_store := m\<rparr>)"
    using keepsD [OF inv_insert [of c sid], of s "Inr ()"] settled_inv [OF pre] ins by (simp add: storeC_def)
  moreover from ins have m: "m = (ch_store s)\<lparr>mp_mappings := mp_mappings (ch_store s) @ [(c, sid)]\<rparr>"
    and new: "c \<notin> fst ` set (mp_mappings (ch_store s))" by (auto simp: insert_mapping_def result_simps)
  moreover have "pending_for c (ch_store s) = []"
    using new inv_ok [OF settled_inv [OF pre]] by (auto simp: pending_for_def mapping_ok_def filter_empty_conv)
  ultimately show "settled u (s\<lparr>ch_store := m\<rparr>)"
    using pre by (auto simp: settled_def pending_for_def session_active_def)
qed

lemma settled_attach: "gives (settled u) (attach env rt c sid) (\<lambda>_. settled u)"
  unfolding attach_def by (rule gives_bind [OF settled_insert]) (simp add: settled_call)

text \<open>Also an attach that fails keeps the others settled; the caller may go on.\<close>

lemma attach_keeps_settled: "keeps (settled u) (attach env rt c sid)"
proof (rule keepsI)
  fix s r s'
  assume pre: "settled u s" and run: "attach env rt c sid s = (r, s')"
  show "settled u s'"
  proof (cases r)
    case (Inr x)
    from givesD [OF settled_attach pre run [unfolded Inr]] show ?thesis .
  next
    case (Inl e)
    show ?thesis
    proof (cases "insert_mapping c sid (ch_store s)")
      case (Inl e')
      with run pre show ?thesis by (auto simp: attach_def bindC_def storeC_def)
    next
      case (Inr m)
      then have "storeC (insert_mapping c sid) s = (Inr (), s\<lparr>ch_store := m\<rparr>)" by (simp add: storeC_def)
      from givesD [OF settled_insert pre this] have mid: "settled u (s\<lparr>ch_store := m\<rparr>)" .
      have "channel_inv s'" using keepsD [OF inv_attach run settled_inv [OF pre]] .
      moreover from run Inr have "ch_store s' = m"
        by (auto simp: attach_def bindC_def storeC_def callC_def split: prod.splits sum.splits)
      ultimately show ?thesis using settledD [OF mid] by (intro settledI) auto
    qed
  qed
qed

section \<open>Opening and messages settle every conversation\<close>

definition mapped_as :: "(string \<times> SessionId) list \<Rightarrow> 'w ChannelState \<Rightarrow> bool" where
  "mapped_as ms s \<longleftrightarrow> channel_inv s \<and> mp_mappings (ch_store s) = ms"

lemma mapped_call:
  assumes "\<And>r c. started_ids c [item r] = []"
  shows "gives (mapped_as ms) (callC f item) (\<lambda>_. mapped_as ms)"
  using channel_inv_call [of item f, OF assms]
  by (auto simp: gives_def mapped_as_def callC_def keeps_def split: prod.splits)

lemma mapped_launch: "gives (mapped_as ms) (launch_next env rt sid) (\<lambda>_. mapped_as ms)"
  unfolding gives_def
proof (intro allI impI)
  fix s x s'
  assume pre: "mapped_as ms s" and run: "launch_next env rt sid s = (Inr x, s')"
  have inv: "channel_inv s" "channel_inv s'" using pre keepsD [OF inv_launch run] by (auto simp: mapped_as_def)
  have "mp_mappings (ch_store s') = mp_mappings (ch_store s)"
  proof (cases "session_active sid (ch_store s)")
    case False
    with run obtain c1 where "mapped_conversation sid (ch_store s) = Some c1" "launch_loop env rt sid c1 s = (Inr x, s')"
      by (auto simp: launch_next_def split: option.splits)
    with launch_loop_settles inv(1) show ?thesis unfolding launched_def by blast
  qed (use run in \<open>auto simp: launch_next_def\<close>)
  with pre inv(2) show "mapped_as ms s'" by (simp add: mapped_as_def)
qed

lemma mapped_settle: "gives (mapped_as ms) (settle_turn env rt entry) (\<lambda>_. mapped_as ms)"
proof -
  have "gives (mapped_as ms) (storeC (\<lambda>m. Inr (snd (store_finish_turn t m)))) (\<lambda>_. mapped_as ms)" for t
    by (rule gives_store) (auto simp: mapped_as_def inv_finish, simp add: store_finish_turn_def)
  then show ?thesis unfolding settle_turn_def
    by (intro gives_bind [OF mapped_call]) (auto intro!: gives_bind [OF _ mapped_launch] gives_ret)
qed

lemma settled_recover: "gives channel_inv (channel_recover env rt) (\<lambda>_. settled [])"
  unfolding channel_recover_def
proof (rule gives_bind [where R = mapped_as], goal_cases)
  case 1
  show ?case by (simp add: gives_def readC_def mapped_as_def)
next
  case (2 ms)
  have last: "gives (mapped_as ms) (forC ms (\<lambda>(_, sid). launch_next env rt sid)) (\<lambda>_. settled [])"
    by (rule gives_weaken [where P = "settled ms"], rule gives_for [where P = settled])
      (auto simp: settled_launch mapped_as_def settled_def)
  have subscribes: "gives (mapped_as ms) (forC ms (\<lambda>(_, sid). callC (ce_subscribe env (cr_origin_consumer rt) sid)
       (\<lambda>_. CC_Subscribe (cr_origin_consumer rt) sid))) (\<lambda>_. mapped_as ms)"
    by (rule gives_for [where P = "\<lambda>_. mapped_as ms"]) (auto intro!: mapped_call split: prod.splits)
  have reads: "gives (mapped_as ms) (readC f) (\<lambda>_. mapped_as ms)" for f :: "'a ChannelState \<Rightarrow> (SessionId \<times> string) list"
    by (simp add: gives_def readC_def)
  have settles: "gives (mapped_as ms) (forC active (settle_turn env rt)) (\<lambda>_. mapped_as ms)" for active
    by (rule gives_for [where P = "\<lambda>_. mapped_as ms"]) (rule mapped_settle)
  show ?case by (intro gives_bind [OF subscribes] gives_bind [OF reads] gives_bind [OF settles] last)
qed

lemma settled_open: "gives channel_inv (channel_open env name subs caps config fresh) (\<lambda>_. settled [])"
  unfolding gives_def
proof (intro allI impI)
  fix s x s'
  assume inv: "channel_inv s" and run: "channel_open env name subs caps config fresh s = (Inr x, s')"
  obtain consumer m where m: "store_consumer_id fresh (ch_store s) = (consumer, m)" by fastforce
  have inv1: "channel_inv (s\<lparr>ch_store := m\<rparr>)" using inv_consumer [OF inv, of fresh] m by simp
  from run m obtain rt where "bindC (channel_recover env rt) (\<lambda>_. retC rt) (s\<lparr>ch_store := m\<rparr>) = (Inr x, s')"
    by (auto simp: channel_open_def Let_def split: sum.splits)
  from givesD [OF gives_bind [OF settled_recover gives_ret] inv1 this] show "settled [] s'" .
qed

lemma settled_new_session:
  "gives (settled u) (new_session env rt c) (\<lambda>sid s. settled u s \<and> (c, sid) \<in> set (mp_mappings (ch_store s)))"
proof -
  have "gives (settled u) (new_session env rt c) (\<lambda>_. settled u)"
    unfolding new_session_def
    by (rule gives_bind [where R = "\<lambda>_. settled u"])
      (auto intro!: gives_bind [OF settled_insert] gives_bind [OF settled_call] settled_call gives_ret
        simp: gives_def [of _ "failC _"] failC_def split: option.splits)
  then show ?thesis using new_session_mapped unfolding gives_def by blast
qed

lemma settled_enqueue:
  "gives (\<lambda>s. settled u s \<and> (c, sid) \<in> set (mp_mappings (ch_store s))) (storeC (\<lambda>m. Inr (enqueue e c t v m)))
    (\<lambda>_. settled ((c, sid) # u))"
proof (rule gives_store)
  fix s m
  assume pre: "settled u s \<and> (c, sid) \<in> set (mp_mappings (ch_store s))" and m: "Inr (enqueue e c t v (ch_store s)) = Inr m"
  then have inv: "channel_inv (s\<lparr>ch_store := m\<rparr>)" using inv_enqueue [of s c e t v] settled_inv by force
  have eq: "mp_mappings m = mp_mappings (ch_store s)" "mp_active m = mp_active (ch_store s)"
    "c' \<noteq> c \<Longrightarrow> pending_for c' m = pending_for c' (ch_store s)" for c'
    using m by (auto simp: enqueue_def pending_for_def)
  show "settled ((c, sid) # u) (s\<lparr>ch_store := m\<rparr>)"
  proof (rule settledI [OF inv])
    fix c' sid' assume "(c', sid') \<in> set (mp_mappings (ch_store (s\<lparr>ch_store := m\<rparr>)))"
    then have in_m: "(c', sid') \<in> set (mp_mappings m)" by simp
    assume out: "(c', sid') \<notin> set ((c, sid) # u)"
    have "c' \<noteq> c"
    proof
      assume "c' = c"
      with in_m pre eq(1) have "mapped_session c (ch_store s) = Some sid'" "mapped_session c (ch_store s) = Some sid"
        using mapped_both(1) [OF inv_ok] settled_inv by (metis, metis)
      with out \<open>c' = c\<close> show False by simp
    qed
    with settledD [of u s c' sid'] pre in_m out eq
    show "pending_for c' (ch_store (s\<lparr>ch_store := m\<rparr>)) = [] \<or> session_active sid' (ch_store (s\<lparr>ch_store := m\<rparr>))"
      by (auto simp: session_active_def)
  qed
qed

lemma settled_inbound: "gives (settled []) (handle_inbound env rt inbound) (\<lambda>_. settled [])"
proof -
  let ?c = "im_conversation inbound"
  have rejects: "gives (settled []) (reject env e reason) (\<lambda>_. settled [])" for e reason
    unfolding reject_def by (rule settled_call) simp
  have known: "gives (\<lambda>s. settled [] s \<and> mapped_session ?c (ch_store s) = mapped)
      (case mapped of Some sid \<Rightarrow> retC sid | None \<Rightarrow> new_session env rt ?c)
      (\<lambda>sid s. settled [] s \<and> (?c, sid) \<in> set (mp_mappings (ch_store s)))" for mapped
    using mapped_both(1) [OF inv_ok [OF settled_inv]]
    by (cases mapped) (auto intro!: gives_ret intro: gives_weaken [OF settled_new_session])
  have reads: "gives (settled []) (readC (\<lambda>s. mapped_session ?c (ch_store s)))
      (\<lambda>mapped s. settled [] s \<and> mapped_session ?c (ch_store s) = mapped)"
    by (simp add: gives_def readC_def)
  have accepts: "gives (settled [])
      (bindC (readC (\<lambda>s. mapped_session ?c (ch_store s))) (\<lambda>mapped.
       bindC (case mapped of Some sid \<Rightarrow> retC sid | None \<Rightarrow> new_session env rt ?c) (\<lambda>sid.
       bindC (storeC (\<lambda>m. Inr (enqueue (im_external_id inbound) ?c (im_text inbound) (im_metadata inbound) m))) (\<lambda>_.
       bindC (callC (ce_acknowledge_inbound env (im_external_id inbound))
         (\<lambda>r. CC_AcknowledgeInbound (im_external_id inbound) (\<not> isl r))) (\<lambda>_.
       launch_next env rt sid))))) (\<lambda>_. settled [])"
    by (intro gives_bind [OF reads] gives_bind [OF known] gives_bind [OF settled_enqueue] gives_bind [OF settled_call]
        settled_launch) simp
  show ?thesis
    unfolding handle_inbound_def Let_def by (auto intro!: rejects accepts split: sum.splits)
qed

section \<open>Runs of a Channel\<close>

text \<open>
  A Channel process opens, handles messages and batches of events, and stops at any failure or
  at any time; the outside changes in between. What remains of a stopped process is its store.
\<close>

inductive channel_reach ::
    "'w channel_env \<Rightarrow> ('w \<Rightarrow> 'w \<Rightarrow> bool) \<Rightarrow> 'w \<Rightarrow> ChannelRuntime option \<Rightarrow> 'w ChannelState \<Rightarrow> bool"
  for env later w0 where
  channel_start: "channel_reach env later w0 None \<lparr>ch_store = mapping_store_new, ch_world = w0, ch_sent = [], ch_log = []\<rparr>"
| channel_opens: "channel_reach env later w0 None s \<Longrightarrow> channel_open env name subs caps config fresh s = (r, s') \<Longrightarrow>
    channel_reach env later w0 (right r) s'"
| channel_message: "channel_reach env later w0 (Some rt) s \<Longrightarrow> handle_inbound env rt inbound s = (r, s') \<Longrightarrow>
    channel_reach env later w0 (map_option (\<lambda>_. rt) (right r)) s'"
| channel_events: "channel_reach env later w0 (Some rt) s \<Longrightarrow> handle_batch env rt batch s = (r, s') \<Longrightarrow>
    channel_reach env later w0 (map_option (\<lambda>_. rt) (right r)) s'"
| channel_attaches: "channel_reach env later w0 (Some rt) s \<Longrightarrow> attach env rt c sid s = (r, s') \<Longrightarrow>
    channel_reach env later w0 (Some rt) s'"
| channel_outside: "channel_reach env later w0 ro s \<Longrightarrow> later (ch_world s) w \<Longrightarrow> channel_reach env later w0 ro (s\<lparr>ch_world := w\<rparr>)"
| channel_stops: "channel_reach env later w0 ro s \<Longrightarrow> channel_reach env later w0 None s"

lemma right_Some: "right r = Some x \<longleftrightarrow> r = Inr x"
  by (cases r) (simp_all add: right_def)

lemma channel_reach_inv: "channel_reach env later w0 ro s \<Longrightarrow> channel_inv s \<and> (ro \<noteq> None \<longrightarrow> settled [] s)"
proof (induction rule: channel_reach.induct)
  case channel_start
  then show ?case by (simp add: channel_inv_def mapping_ok_new in_order_def started_ids_def waiting_ids_def pending_for_def mapping_store_new_def
      mapping_ok_new [unfolded mapping_store_new_def])
next
  case (channel_opens s name subs caps config fresh r s')
  then show ?case using keepsD [OF inv_open] givesD [OF settled_open] by (auto simp: right_Some)
next
  case (channel_message rt s inbound r s')
  then show ?case using keepsD [OF inv_inbound] givesD [OF settled_inbound] by (auto simp: right_Some)
next
  case (channel_events rt s batch r s')
  then show ?case using keepsD [OF inv_batch] givesD [OF settled_batch] by (auto simp: right_Some)
next
  case (channel_attaches rt s c sid r s')
  then show ?case using keepsD [OF inv_attach] keepsD [OF attach_keeps_settled] by auto
next
  case (channel_outside ro s w)
  then show ?case by (auto simp: channel_inv_def settled_def)
qed simp

end
