(* ===== verification/DispatchInv.thy ===== *)
theory DispatchInv
  imports ChannelDispatch "HOL-Library.Multiset"
begin

text \<open>
  The invariant of the dispatcher. For each destination it refines a queue: what has ended, the
  one delivery being served, and the lane are together what has arrived, in order.
\<close>

section \<open>Views\<close>

definition working :: "Dispatcher \<Rightarrow> Delivery list" where
  "working d = dp_sends d @ map snd (dp_delayed d)"

definition serving :: "DestinationKey \<Rightarrow> Dispatcher \<Rightarrow> Delivery list" where
  "serving k d = filter (\<lambda>x. dl_destination x = k) (working d)"

definition ended :: "DestinationKey \<Rightarrow> Dispatcher \<Rightarrow> string list" where
  "ended k d = map dd_idempotency_key (filter (\<lambda>x. dd_conversation x = k) (dp_outcomes d))"

definition queued :: "DestinationKey \<Rightarrow> Dispatcher \<Rightarrow> string list" where
  "queued k d = map dl_event_id (serving k d @ lane k d)"

definition arrived_for :: "DestinationKey \<Rightarrow> Delivery list \<Rightarrow> string list" where
  "arrived_for k arrived = map dl_event_id (filter (\<lambda>x. dl_destination x = k) arrived)"

definition lanes_ok :: "nat \<Rightarrow> Dispatcher \<Rightarrow> bool" where
  "lanes_ok worker_limit d \<longleftrightarrow> distinct (map fst (dp_lanes d)) \<and> length (dp_sends d) \<le> worker_limit
     \<and> (\<forall>k. length (serving k d) \<le> 1) \<and> (\<forall>k. serving k d = [] \<longleftrightarrow> k \<notin> dp_active d)
     \<and> distinct (dp_ready d) \<and> (\<forall>k. k \<in> set (dp_ready d) \<longleftrightarrow> lane k d \<noteq> [] \<and> k \<notin> dp_active d)
     \<and> (\<forall>k \<in> fst ` set (dp_lanes d). lane k d \<noteq> [] \<or> k \<in> dp_active d)
     \<and> (\<forall>k. \<forall>x \<in> set (lane k d). dl_destination x = k)"

definition dispatch_ok :: "nat \<Rightarrow> Delivery list \<Rightarrow> Dispatcher \<Rightarrow> bool" where
  "dispatch_ok worker_limit arrived d \<longleftrightarrow> lanes_ok worker_limit d \<and> (\<forall>k. arrived_for k arrived = ended k d @ queued k d)"

lemma lane_set_lane [simp]: "lane j (set_lane k ds d) = (if j = k then ds else lane j d)"
  by (simp add: lane_def set_lane_def update_conv')

lemma set_lane_fields [simp]:
  "dp_ready (set_lane k ds d) = dp_ready d" "dp_active (set_lane k ds d) = dp_active d"
  "dp_delayed (set_lane k ds d) = dp_delayed d" "dp_sends (set_lane k ds d) = dp_sends d"
  "dp_incoming_open (set_lane k ds d) = dp_incoming_open d" "dp_outcomes (set_lane k ds d) = dp_outcomes d"
  "distinct (map fst (dp_lanes (set_lane k ds d))) = distinct (map fst (dp_lanes d))"
  "fst ` set (dp_lanes (set_lane k ds d)) = insert k (fst ` set (dp_lanes d))"
  "working (set_lane k ds d) = working d" "serving j (set_lane k ds d) = serving j d" "ended j (set_lane k ds d) = ended j d"
  by (auto simp: set_lane_def update_keys dom_update working_def serving_def ended_def)

section \<open>One delivery more or less at work\<close>

lemma mset_swap_remove:
  assumes "i < length xs"
  shows "mset xs = add_mset (xs ! i) (mset (swap_remove i xs))"
proof -
  let ?ys = "xs[i := last xs]"
  have ne: "xs \<noteq> []" using assms by auto
  then have last: "last ?ys = last xs" by (simp add: last_list_update)
  have "?ys = butlast ?ys @ [last xs]" using ne last by (metis append_butlast_last_id list_update_nonempty)
  then have "mset ?ys = add_mset (last xs) (mset (swap_remove i xs))"
    unfolding swap_remove_def by (metis add_mset_add_single mset_append mset.simps)
  moreover have "mset ?ys = add_mset (last xs) (mset xs - {#xs ! i#})" using assms by (rule mset_update)
  ultimately have "mset (swap_remove i xs) = mset xs - {#xs ! i#}" by simp
  with assms show ?thesis by (simp add: nth_mem_mset)
qed

lemma mset_serving: "mset (serving k d) = {#x \<in># mset (working d). dl_destination x = k#}"
  by (simp add: serving_def)

lemma single_perm: "mset xs = mset ys \<Longrightarrow> length xs \<le> 1 \<Longrightarrow> xs = ys"
  by (cases xs) (auto simp: mset_single_iff)

lemma serving_split:
  assumes "mset (working d) = add_mset x (mset (working d'))" and "\<And>k. length (serving k d) \<le> 1"
  shows "serving (dl_destination x) d = [x]" and "serving (dl_destination x) d' = []"
    and "j \<noteq> dl_destination x \<Longrightarrow> serving j d' = serving j d"
proof -
  have eq: "mset (serving j d) = (if j = dl_destination x then {#x#} else {#}) + mset (serving j d')" for j
    by (simp add: mset_serving assms(1))
  have "size (mset (serving (dl_destination x) d)) \<le> 1" using assms(2) by simp
  then show none: "serving (dl_destination x) d' = []" by (simp add: eq)
  show "serving (dl_destination x) d = [x]" using eq [of "dl_destination x"] none by (simp add: mset_single_iff)
  show "serving j d' = serving j d" if "j \<noteq> dl_destination x"
    using eq [of j] that assms(2) single_perm by fastforce
qed

lemma serving_join:
  assumes "mset (working d') = add_mset x (mset (working d))" and "serving (dl_destination x) d = []"
    and "\<And>k. length (serving k d) \<le> 1"
  shows "serving (dl_destination x) d' = [x]" and "j \<noteq> dl_destination x \<Longrightarrow> serving j d' = serving j d"
proof -
  have "length (serving k d') \<le> 1" for k
  proof -
    have "size (mset (serving k d')) = (if k = dl_destination x then 1 else 0) + size (mset (serving k d))"
      by (simp add: mset_serving assms(1))
    then show ?thesis using assms(2) assms(3) [of k] by (auto split: if_splits)
  qed
  from serving_split [OF assms(1) this] show "serving (dl_destination x) d' = [x]"
    and "j \<noteq> dl_destination x \<Longrightarrow> serving j d' = serving j d" by auto
qed

lemma lanes_ok_single: "lanes_ok worker_limit d \<Longrightarrow> length (serving k d) \<le> 1"
  by (simp add: lanes_ok_def)

lemma lanes_ok_idle: "lanes_ok worker_limit d \<Longrightarrow> serving k d = [] \<longleftrightarrow> k \<notin> dp_active d"
  by (simp add: lanes_ok_def)

section \<open>The steps\<close>

lemma requeue_ok:
  assumes "lanes_ok worker_limit d" and "i < length (dp_delayed d)"
  shows "lanes_ok worker_limit (requeue i d)" and "queued k (requeue i d) = queued k d" and "ended k (requeue i d) = ended k d"
proof -
  let ?x = "snd (dp_delayed d ! i)" and ?k = "dl_destination (snd (dp_delayed d ! i))"
  have "mset (map snd (dp_delayed d)) = add_mset ?x (mset (map snd (swap_remove i (dp_delayed d))))"
    using arg_cong [OF mset_swap_remove [OF assms(2)], of "image_mset snd"] by simp
  then have work: "mset (working d) = add_mset ?x (mset (working (requeue i d)))"
    by (simp add: working_def requeue_def Let_def)
  note serve = serving_split [OF work lanes_ok_single [OF assms(1)]]
  have active: "?k \<in> dp_active d" using serve(1) lanes_ok_idle [OF assms(1), of ?k] by auto
  have lane: "lane j (requeue i d) = (if j = ?k then ?x # lane ?k d else lane j d)" for j
    by (simp add: requeue_def Let_def) (simp add: lane_def)
  have fields: "dp_active (requeue i d) = dp_active d - {?k}" "dp_ready (requeue i d) = dp_ready d @ [?k]"
    "dp_sends (requeue i d) = dp_sends d" "fst ` set (dp_lanes (requeue i d)) = insert ?k (fst ` set (dp_lanes d))"
    "distinct (map fst (dp_lanes (requeue i d))) = distinct (map fst (dp_lanes d))"
    by (simp_all add: requeue_def Let_def)
  have serving: "serving j (requeue i d) = (if j = ?k then [] else serving j d)" for j using serve by simp
  show "lanes_ok worker_limit (requeue i d)"
    using assms(1) active unfolding lanes_ok_def by (auto simp: fields lane serving)
  show "queued k (requeue i d) = queued k d" using serve(1) by (simp add: queued_def lane serving)
  show "ended k (requeue i d) = ended k d" by (simp add: ended_def requeue_def Let_def)
qed

lemma release_delayed_ok:
  assumes "lanes_ok worker_limit d"
  shows "lanes_ok worker_limit (release_delayed now i d) \<and> queued k (release_delayed now i d) = queued k d
    \<and> ended k (release_delayed now i d) = ended k d"
  using assms
proof (induction now i d rule: release_delayed.induct)
  case (1 now i d)
  then show ?case
    by (subst (1 2 3) release_delayed.simps) (simp add: requeue_ok)
qed

lemma take_delivery_ok:
  assumes "lanes_ok worker_limit d" and "length (dp_sends d) < worker_limit" and "dp_ready d = k # ready"
    and "lane k d = x # rest" and "k \<notin> dp_active d"
    and "d' = set_lane k rest (d\<lparr>dp_ready := ready, dp_active := insert k (dp_active d), dp_sends := dp_sends d @ [x]\<rparr>)"
  shows "lanes_ok worker_limit d'" and "queued j d' = queued j d" and "ended j d' = ended j d"
proof -
  have x: "dl_destination x = k" using assms(1,4) by (auto simp: lanes_ok_def)
  have work: "mset (working d') = add_mset x (mset (working d))" by (simp add: assms(6) working_def)
  have idle: "serving (dl_destination x) d = []" using assms(1,5) x by (simp add: lanes_ok_def)
  note serve = serving_join [OF work idle lanes_ok_single [OF assms(1)], unfolded x]
  have lane: "lane j d' = (if j = k then rest else lane j d)" for j by (simp add: assms(6)) (simp add: lane_def)
  have fields: "dp_active d' = insert k (dp_active d)" "dp_ready d' = ready"
    "dp_sends d' = dp_sends d @ [x]" "fst ` set (dp_lanes d') = insert k (fst ` set (dp_lanes d))"
    "distinct (map fst (dp_lanes d')) = distinct (map fst (dp_lanes d))"
    by (simp_all add: assms(6))
  have serving: "serving j d' = (if j = k then [x] else serving j d)" for j using serve by simp
  have ready: "distinct ready" "k \<notin> set ready" "\<And>j. j \<in> set ready \<or> j = k \<longleftrightarrow> lane j d \<noteq> [] \<and> j \<notin> dp_active d"
    using assms(1,3) unfolding lanes_ok_def by auto
  show "lanes_ok worker_limit d'"
    using assms(1,2,4) ready unfolding lanes_ok_def by (auto simp: fields lane serving)
  show "queued j d' = queued j d" using assms(4) idle x by (simp add: queued_def lane serving)
  show "ended j d' = ended j d" by (simp add: ended_def assms(6))
qed

text \<open>In a state that satisfies the invariant the two checks of the loop never skip a lane.\<close>

lemma start_sends_eqs:
  assumes "lanes_ok worker_limit d"
  shows "start_sends worker_limit d =
    (if length (dp_sends d) < worker_limit \<and> dp_ready d \<noteq> []
     then start_sends worker_limit (set_lane (hd (dp_ready d)) (tl (lane (hd (dp_ready d)) d))
       (d\<lparr>dp_ready := tl (dp_ready d), dp_active := insert (hd (dp_ready d)) (dp_active d),
          dp_sends := dp_sends d @ [hd (lane (hd (dp_ready d)) d)]\<rparr>))
     else d)"
proof (cases "dp_ready d")
  case (Cons k ready)
  with assms have "k \<notin> dp_active d" "lane k d \<noteq> []" unfolding lanes_ok_def by auto
  moreover have "lane k (d\<lparr>dp_ready := ready\<rparr>) = lane k d" by (simp add: lane_def)
  ultimately show ?thesis by (subst start_sends.simps) (auto simp: Cons neq_Nil_conv)
qed (subst start_sends.simps, simp)

lemma start_sends_ok:
  assumes "lanes_ok worker_limit d"
  shows "lanes_ok worker_limit (start_sends worker_limit d) \<and> queued j (start_sends worker_limit d) = queued j d
    \<and> ended j (start_sends worker_limit d) = ended j d
    \<and> (length (dp_sends (start_sends worker_limit d)) = worker_limit \<or> dp_ready (start_sends worker_limit d) = [])"
  using assms
proof (induction "length (dp_ready d)" arbitrary: d)
  case 0
  then show ?case by (simp add: start_sends_eqs)
next
  case (Suc n)
  then obtain k ready where ready: "dp_ready d = k # ready" by (cases "dp_ready d") auto
  with Suc.prems obtain x rest where lane: "lane k d = x # rest" and idle: "k \<notin> dp_active d"
    unfolding lanes_ok_def by (metis list.set_intros(1) neq_Nil_conv)
  show ?case
  proof (cases "length (dp_sends d) < worker_limit")
    case True
    let ?d = "set_lane k rest (d\<lparr>dp_ready := ready, dp_active := insert k (dp_active d), dp_sends := dp_sends d @ [x]\<rparr>)"
    note step = take_delivery_ok [OF Suc.prems True ready lane idle refl]
    have "start_sends worker_limit d = start_sends worker_limit ?d"
      using start_sends_eqs [OF Suc.prems] True ready lane by simp
    with Suc.hyps(1) [of ?d] Suc.hyps(2) ready step show ?thesis by simp
  next
    case False
    moreover have "length (dp_sends d) \<le> worker_limit" using Suc.prems by (simp add: lanes_ok_def)
    ultimately show ?thesis using start_sends_eqs [OF Suc.prems] Suc.prems by simp
  qed
qed

lemma remove_send:
  assumes "lanes_ok worker_limit d" and "i < length (dp_sends d)"
    and "x = dp_sends d ! i" and "d1 = d\<lparr>dp_sends := take i (dp_sends d) @ drop (Suc i) (dp_sends d)\<rparr>"
  shows "mset (working d) = add_mset x (mset (working d1))" and "length (dp_sends d1) \<le> worker_limit"
    and "dl_destination x \<in> dp_active d"
proof -
  have "mset (dp_sends d) = add_mset x (mset (take i (dp_sends d) @ drop (Suc i) (dp_sends d)))"
    using arg_cong [OF id_take_nth_drop [OF assms(2)], of mset] by (simp add: assms(3))
  then show work: "mset (working d) = add_mset x (mset (working d1))" by (simp add: working_def assms(4))
  show "length (dp_sends d1) \<le> worker_limit" using assms(1,2) by (auto simp: lanes_ok_def assms(4))
  show "dl_destination x \<in> dp_active d"
    using serving_split(1) [OF work lanes_ok_single [OF assms(1)]] lanes_ok_idle [OF assms(1), of "dl_destination x"]
    by auto
qed

lemma delete_dom: "fst ` set (AList.delete k al) = fst ` set al - {k}"
  by (metis delete_keys list.set_map set_removeAll)

lemma finish_delivery_ok:
  assumes "lanes_ok worker_limit d" and "i < length (dp_sends d)"
    and "x = dp_sends d ! i" and "d1 = d\<lparr>dp_sends := take i (dp_sends d) @ drop (Suc i) (dp_sends d)\<rparr>"
  shows "lanes_ok worker_limit (finish_delivery x outcome d1)"
    and "ended k (finish_delivery x outcome d1) @ queued k (finish_delivery x outcome d1) = ended k d @ queued k d"
proof -
  let ?k = "dl_destination x" and ?d = "finish_delivery x outcome d1"
  note rem = remove_send [OF assms]
  note serve = serving_split [OF rem(1) lanes_ok_single [OF assms(1)]]
  have lanes: "dp_lanes d1 = dp_lanes d" "\<And>j. lane j d1 = lane j d" "dp_active d1 = dp_active d" "dp_ready d1 = dp_ready d"
      "dp_outcomes d1 = dp_outcomes d"
    by (simp_all add: assms(4) lane_def)
  have eq: "?d = (let d2 = d1\<lparr>dp_outcomes := dp_outcomes d @ [\<lparr>dd_idempotency_key = dl_event_id x, dd_conversation = ?k,
                  dd_outcome = outcome\<rparr>], dp_active := dp_active d - {?k}\<rparr>
      in if lane ?k d \<noteq> [] then d2\<lparr>dp_ready := dp_ready d @ [?k]\<rparr> else d2\<lparr>dp_lanes := AList.delete ?k (dp_lanes d)\<rparr>)"
    by (simp add: finish_delivery_def Let_def lanes) (simp add: lane_def lanes)
  have lane: "lane j ?d = lane j d" for j
    by (auto simp: eq Let_def lane_def lanes delete_conv')
  have fields: "dp_active ?d = dp_active d - {?k}" "dp_ready ?d = (if lane ?k d \<noteq> [] then dp_ready d @ [?k] else dp_ready d)"
    "dp_sends ?d = dp_sends d1"
    "fst ` set (dp_lanes ?d) = (if lane ?k d \<noteq> [] then fst ` set (dp_lanes d) else fst ` set (dp_lanes d) - {?k})"
    "distinct (map fst (dp_lanes d)) \<Longrightarrow> distinct (map fst (dp_lanes ?d))"
    "dp_outcomes ?d = dp_outcomes d @ [\<lparr>dd_idempotency_key = dl_event_id x, dd_conversation = ?k, dd_outcome = outcome\<rparr>]"
    "working ?d = working d1"
    by (simp_all add: eq Let_def lanes working_def delete_keys distinct_removeAll delete_dom)
  have serving: "serving j ?d = (if j = ?k then [] else serving j d)" for j
    using serve by (auto simp: serving_def fields)
  show "lanes_ok worker_limit ?d"
    using assms(1) rem(2,3) unfolding lanes_ok_def by (auto simp: fields lane serving)
  show "ended k ?d @ queued k ?d = ended k d @ queued k d"
    using serve(1) by (simp add: queued_def ended_def lane serving fields)
qed

lemma retry_ok:
  assumes "lanes_ok worker_limit d" and "i < length (dp_sends d)"
    and "x = dp_sends d ! i" and "d1 = d\<lparr>dp_sends := take i (dp_sends d) @ drop (Suc i) (dp_sends d)\<rparr>"
    and "d2 = d1\<lparr>dp_delayed := dp_delayed d1 @ [(at, x\<lparr>dl_attempt := n\<rparr>)]\<rparr>"
  shows "lanes_ok worker_limit d2" and "ended k d2 @ queued k d2 = ended k d @ queued k d"
proof -
  let ?k = "dl_destination x"
  note rem = remove_send [OF assms(1-4)]
  note serve = serving_split [OF rem(1) lanes_ok_single [OF assms(1)]]
  have le: "length (serving j d1) \<le> 1" for j
    using serve(2) serve(3) [of j] lanes_ok_single [OF assms(1), of j] by (cases "j = ?k") auto
  have "mset (working d2) = add_mset (x\<lparr>dl_attempt := n\<rparr>) (mset (working d1))" by (simp add: working_def assms(5))
  note join = serving_join [OF this _ le, simplified, OF serve(2)]
  have serving: "serving j d2 = (if j = ?k then [x\<lparr>dl_attempt := n\<rparr>] else serving j d)" for j
    using join serve(3) by simp
  have same: "dp_lanes d2 = dp_lanes d" "\<And>j. lane j d2 = lane j d" "dp_active d2 = dp_active d" "dp_ready d2 = dp_ready d"
      "dp_outcomes d2 = dp_outcomes d" "dp_sends d2 = dp_sends d1"
    by (simp_all add: assms(4,5) lane_def)
  show "lanes_ok worker_limit d2"
    using assms(1) rem(2,3) unfolding lanes_ok_def by (auto simp: same serving)
  show "ended k d2 @ queued k d2 = ended k d @ queued k d"
    using serve(1) by (simp add: queued_def ended_def same serving)
qed

lemma send_completed_ok:
  assumes "lanes_ok worker_limit d" and "i < length (dp_sends d)"
  shows "lanes_ok worker_limit (send_completed i now outcome d)
    \<and> ended k (send_completed i now outcome d) @ queued k (send_completed i now outcome d) = ended k d @ queued k d"
  using finish_delivery_ok [OF assms refl refl] retry_ok [OF assms refl refl refl]
  by (auto simp: send_completed_def Let_def split: DeliveryOutcome.splits)

lemma accept_delivery_ok:
  assumes "lanes_ok worker_limit d"
  shows "lanes_ok worker_limit (accept_delivery x d)" and "ended k (accept_delivery x d) = ended k d"
    and "queued k (accept_delivery x d) = queued k d @ arrived_for k [x]"
proof -
  let ?k = "dl_destination x" and ?d = "accept_delivery x d"
  have lane: "lane j ?d = (if j = ?k then lane ?k d @ [x] else lane j d)" for j
    by (auto simp: accept_delivery_def Let_def lane_def set_lane_def update_conv')
  have fields: "dp_active ?d = dp_active d" "dp_sends ?d = dp_sends d" "dp_outcomes ?d = dp_outcomes d"
    "dp_ready ?d = (if ?k \<notin> dp_active d \<and> lane ?k d = [] then dp_ready d @ [?k] else dp_ready d)"
    "fst ` set (dp_lanes ?d) = insert ?k (fst ` set (dp_lanes d))"
    "distinct (map fst (dp_lanes ?d)) = distinct (map fst (dp_lanes d))" "working ?d = working d"
    by (simp_all add: accept_delivery_def Let_def working_def)
  have serving: "serving j ?d = serving j d" for j by (simp add: serving_def fields)
  show "lanes_ok worker_limit ?d"
    using assms unfolding lanes_ok_def by (auto simp: fields lane serving)
  show "ended k ?d = ended k d" by (simp add: ended_def fields)
  show "queued k ?d = queued k d @ arrived_for k [x]" by (simp add: queued_def lane serving arrived_for_def)
qed

section \<open>The run\<close>

lemma dispatch_prepare_ok:
  assumes "dispatch_ok worker_limit arrived d"
  shows "dispatch_ok worker_limit arrived (dispatch_prepare worker_limit now d)"
    and "length (dp_sends (dispatch_prepare worker_limit now d)) = worker_limit \<or> dp_ready (dispatch_prepare worker_limit now d) = []"
proof -
  have ok: "lanes_ok worker_limit d" using assms by (simp add: dispatch_ok_def)
  note 1 = release_delayed_ok [OF ok, of now 0]
  note 2 = start_sends_ok [OF conjunct1 [OF 1]]
  show "dispatch_ok worker_limit arrived (dispatch_prepare worker_limit now d)"
    using assms 1 2 by (simp add: dispatch_ok_def dispatch_prepare_def)
  show "length (dp_sends (dispatch_prepare worker_limit now d)) = worker_limit \<or> dp_ready (dispatch_prepare worker_limit now d) = []"
    using 2 by (simp add: dispatch_prepare_def)
qed

definition arrivals :: "DispatchEvent \<Rightarrow> Delivery list" where
  "arrivals ev = (case ev of DE_Incoming (Some delivery) \<Rightarrow> [delivery] | _ \<Rightarrow> [])"

lemma arrived_for_append: "arrived_for k (xs @ ys) = arrived_for k xs @ arrived_for k ys"
  by (simp add: arrived_for_def)

lemma closed_lanes_ok: "lanes_ok worker_limit (d\<lparr>dp_incoming_open := b\<rparr>) = lanes_ok worker_limit d"
    "ended k (d\<lparr>dp_incoming_open := b\<rparr>) = ended k d" "queued k (d\<lparr>dp_incoming_open := b\<rparr>) = queued k d"
  by (simp_all add: lanes_ok_def ended_def queued_def serving_def working_def lane_def)

lemma dispatch_event_ok:
  assumes "dispatch_ok worker_limit arrived d" and "dispatch_enabled ev d" and "dispatch_event ev d = (stop, d')"
  shows "dispatch_ok worker_limit (arrived @ arrivals ev) d'"
proof -
  have ok: "lanes_ok worker_limit d" and eq: "\<And>k. arrived_for k arrived = ended k d @ queued k d"
    using assms(1) by (simp_all add: dispatch_ok_def)
  show ?thesis
  proof (cases ev)
    case (DE_Completed i now outcome)
    with assms(2,3) eq send_completed_ok [OF ok, of i now outcome] show ?thesis
      by (auto simp: dispatch_ok_def arrivals_def Let_def)
  next
    case (DE_Incoming delivery)
    with assms(3) eq ok accept_delivery_ok [OF ok] show ?thesis
      by (cases delivery) (auto simp: dispatch_ok_def arrivals_def Let_def arrived_for_append closed_lanes_ok)
  qed (use assms(1,3) in \<open>auto simp: arrivals_def\<close>)
qed

lemma dispatcher_new_ok: "dispatch_ok worker_limit [] dispatcher_new"
  by (simp add: dispatch_ok_def lanes_ok_def dispatcher_new_def lane_def serving_def working_def ended_def queued_def arrived_for_def)

lemma dispatch_run_ok:
  assumes "dispatch_run worker_limit arrived d"
  shows "dispatch_ok worker_limit arrived d \<and> (length (dp_sends d) = worker_limit \<or> dp_ready d = [])"
  using assms
proof (induction rule: dispatch_run.induct)
  case (dispatch_start now)
  then show ?case using dispatch_prepare_ok [OF dispatcher_new_ok] by blast
next
  case (dispatch_more arrived d ev d' now)
  then have "dispatch_ok worker_limit (arrived @ arrivals ev) d'" using dispatch_event_ok by blast
  then show ?case unfolding arrivals_def using dispatch_prepare_ok by blast
qed

end
