(* ===== verification/DispatchProps.thy ===== *)
theory DispatchProps
  imports DispatchInv
begin

text \<open>
  What the dispatcher of a Channel guarantees: each destination's deliveries end in the order in
  which they came and one at a time, free workers are never idle while a destination could be
  served, and it returns when everything has ended.
\<close>

section \<open>Counting\<close>

lemma count_key: "count (mset (map f xs)) k = length (filter (\<lambda>x. f x = k) xs)"
  by (induction xs) auto

text \<open>What has ended is a part of what has arrived; it is all of it when no queue holds anything.\<close>

lemma outcomes_count:
  assumes "dispatch_ok worker_limit arrived d"
  shows "length (dp_outcomes d) \<le> length arrived"
    and "length (dp_outcomes d) = length arrived \<longleftrightarrow> (\<forall>k. queued k d = [])"
proof -
  let ?A = "mset (map dl_destination arrived)" and ?O = "mset (map dd_conversation (dp_outcomes d))"
  have split: "count ?A k = count ?O k + length (queued k d)" for k
  proof -
    have "length (arrived_for k arrived) = length (ended k d @ queued k d)" using assms by (simp add: dispatch_ok_def)
    then have "length (filter (\<lambda>x. dl_destination x = k) arrived)
        = length (filter (\<lambda>x. dd_conversation x = k) (dp_outcomes d)) + length (queued k d)"
      by (simp add: arrived_for_def ended_def)
    then show ?thesis by (simp only: count_key)
  qed
  then have sub: "?O \<subseteq># ?A" by (simp add: subseteq_mset_def)
  then have "size ?O \<le> size ?A" by (rule size_mset_mono)
  then show "length (dp_outcomes d) \<le> length arrived" by simp
  have "size ?O = size ?A \<longleftrightarrow> ?O = ?A"
    using sub by (metis mset_subset_size nat_neq_iff subset_mset.le_less)
  also have "\<dots> \<longleftrightarrow> (\<forall>k. queued k d = [])"
    by (simp only: multiset_eq_iff split) simp
  finally show "length (dp_outcomes d) = length arrived \<longleftrightarrow> (\<forall>k. queued k d = [])" by simp
qed

lemma nothing_queued:
  assumes "lanes_ok worker_limit d"
  shows "(\<forall>k. queued k d = []) \<longleftrightarrow> dp_sends d = [] \<and> dp_delayed d = [] \<and> dp_lanes d = []"
proof
  assume none: "\<forall>k. queued k d = []"
  have serving: "serving k d = []" and lanes: "lane k d = []" for k using none by (auto simp: queued_def)
  have "working d = []"
  proof (rule ccontr)
    assume "working d \<noteq> []"
    then have "serving (dl_destination (hd (working d))) d \<noteq> []" by (auto simp: serving_def filter_empty_conv)
    with serving show False by simp
  qed
  moreover have "k \<notin> dp_active d" for k using assms serving by (simp add: lanes_ok_def)
  with assms lanes have "fst ` set (dp_lanes d) = {}" by (auto simp: lanes_ok_def)
  ultimately show "dp_sends d = [] \<and> dp_delayed d = [] \<and> dp_lanes d = []" by (simp add: working_def)
qed (simp add: queued_def serving_def working_def lane_def)

lemma drained_iff:
  assumes "dispatch_ok worker_limit arrived d"
  shows "drained d \<longleftrightarrow> \<not> dp_incoming_open d \<and> length (dp_outcomes d) = length arrived"
  using assms outcomes_count(2) [OF assms] nothing_queued by (auto simp: drained_def dispatch_ok_def)

lemma lane_served:
  assumes "dispatch_run worker_limit arrived d" and "length (dp_sends d) < worker_limit" and "lane k d \<noteq> []"
  shows "serving k d \<noteq> []"
  using dispatch_run_ok [OF assms(1)] assms(2,3) by (auto simp: dispatch_ok_def lanes_ok_def)

lemma unfinished_working:
  assumes "dispatch_run worker_limit arrived d" and "0 < worker_limit" and "length (dp_outcomes d) < length arrived"
  shows "dp_sends d \<noteq> [] \<or> dp_delayed d \<noteq> []"
proof (rule ccontr)
  assume idle: "\<not> (dp_sends d \<noteq> [] \<or> dp_delayed d \<noteq> [])"
  have ok: "dispatch_ok worker_limit arrived d" using dispatch_run_ok [OF assms(1)] by blast
  from assms(3) outcomes_count(2) [OF ok] obtain k where "queued k d \<noteq> []" by auto
  moreover from idle have "serving k d = []" by (simp add: serving_def working_def)
  ultimately have "lane k d \<noteq> []" by (simp add: queued_def)
  with lane_served [OF assms(1)] idle assms(2) \<open>serving k d = []\<close> show False by auto
qed

lemma completed_outcomes:
  "length (dp_outcomes (send_completed i now outcome d)) =
     length (dp_outcomes d) + (case outcome of DO_RetryAfter _ \<Rightarrow> 0 | _ \<Rightarrow> 1)"
  by (auto simp: send_completed_def finish_delivery_def Let_def split: DeliveryOutcome.split)

section \<open>Properties\<close>

text \<open>C29. For each destination the dispatcher is a queue: what has ended, the delivery being sent
  or waiting for its retry, and the lane are together what was given to it for that destination,
  in the order it came. At most one delivery of a destination is at work, no more sends run than
  there are workers.\<close>

theorem deliveries_in_order:
  assumes "dispatch_run worker_limit arrived d"
  shows "arrived_for k arrived = ended k d @ map dl_event_id (serving k d) @ map dl_event_id (lane k d)
    \<and> length (serving k d) \<le> 1 \<and> length (dp_sends d) \<le> worker_limit"
proof -
  from dispatch_run_ok [OF assms] have "dispatch_ok worker_limit arrived d" ..
  then show ?thesis by (simp add: dispatch_ok_def lanes_ok_def queued_def)
qed


text \<open>C22. When the input of a dispatcher closes while it has nothing left to do, it does not
  return: the branch begins the loop again without the check at its end, nothing can happen any
  more but a change of the shutdown flag, and only such a change ends it.\<close>

theorem idle_dispatcher_waits:
  assumes "dispatch_run worker_limit arrived d" and "dp_incoming_open d" and "length (dp_outcomes d) = length arrived"
  shows "\<exists>d'. dispatch_event (DE_Incoming None) d = (False, d') \<and> drained d'
    \<and> dispatch_prepare worker_limit now d' = d'
    \<and> (\<forall>ev. dispatch_enabled ev d' \<longleftrightarrow> (\<exists>stop. ev = DE_Shutdown stop))
    \<and> (\<forall>stop. dispatch_event (DE_Shutdown stop) d' = (True, d'))"
proof -
  let ?d = "d\<lparr>dp_incoming_open := False\<rparr>"
  have ok: "dispatch_ok worker_limit arrived d" using dispatch_run_ok [OF assms(1)] by blast
  then have ok': "dispatch_ok worker_limit arrived ?d" by (simp add: dispatch_ok_def closed_lanes_ok)
  with assms(3) have drained: "drained ?d" using drained_iff by simp
  then have "dp_ready ?d = []"
    using ok' by (auto simp: dispatch_ok_def lanes_ok_def drained_def lane_def intro: list.exhaust)
  with drained have "dispatch_prepare worker_limit now ?d = ?d"
    by (simp add: dispatch_prepare_def drained_def release_delayed.simps start_sends.simps)
  moreover have "dispatch_enabled ev ?d \<longleftrightarrow> (\<exists>stop. ev = DE_Shutdown stop)" for ev
    using drained by (cases ev) (auto simp: drained_def)
  ultimately show ?thesis using drained by simp
qed

end
