(* ===== verification/ChannelProps.thy ===== *)
theory ChannelProps
  imports ChannelInv DispatchProps Demo
begin

text \<open>
  What a Channel guarantees to its conversations, and a concrete run: a platform whose two
  messages of one conversation come in before the first Turn has ended.
\<close>

section \<open>Messages\<close>

text \<open>C23. While a Channel runs, the messages of a conversation are served in the order in which
  they came, whatever failed before: those that were started and then those that wait are in the
  order of their rows; and a message waits only behind an active Turn of the Session that its
  conversation, and no other, is mapped to.\<close>

theorem messages_served_in_order:
  assumes "channel_reach env later w0 (Some rt) s"
  shows "sorted (started_ids c (ch_log s) @ map pe_id (pending_for c (ch_store s)))
    \<and> (\<forall>p \<in> set (mp_pending (ch_store s)). \<exists>sid. mapped_session (pe_conversation p) (ch_store s) = Some sid
         \<and> session_active sid (ch_store s) \<and> mapped_conversation sid (ch_store s) = Some (pe_conversation p))"
proof -
  from channel_reach_inv [OF assms] have inv: "channel_inv s" and settled: "settled [] s" by auto
  note ok = inv_ok [OF inv]
  have "in_order (started_ids c (ch_log s)) (waiting_ids c (ch_store s)) (mp_last_id (ch_store s))"
    using inv by (simp add: channel_inv_def)
  then have "sorted (started_ids c (ch_log s) @ map pe_id (pending_for c (ch_store s)))"
    by (simp add: in_order_def waiting_ids_def)
  moreover have "\<exists>sid. mapped_session (pe_conversation p) (ch_store s) = Some sid
      \<and> session_active sid (ch_store s) \<and> mapped_conversation sid (ch_store s) = Some (pe_conversation p)"
    if p: "p \<in> set (mp_pending (ch_store s))" for p
  proof -
    from p ok obtain sid where m: "(pe_conversation p, sid) \<in> set (mp_mappings (ch_store s))"
      by (auto simp: mapping_ok_def)
    moreover have "pending_for (pe_conversation p) (ch_store s) \<noteq> []" using p by (auto simp: pending_for_def filter_empty_conv)
    ultimately have "session_active sid (ch_store s)" using settledD [OF settled m] by simp
    with m mapped_both [OF ok] show ?thesis by blast
  qed
  ultimately show ?thesis by blast
qed

section \<open>A concrete run\<close>

definition demo_channel_turn :: "nat \<Rightarrow> Turn" where
  "demo_channel_turn n = \<lparr>turn_id_of = show_nat n, turn_session_id = ''s1'', turn_agent_revision = 1, turn_harness = None,
     turn_harness_definition_hash = None, turn_harness_version = None, turn_status = Running, turn_error = None,
     turn_created_at = 0, turn_completed_at = None\<rparr>"

definition demo_channel_env :: "nat channel_env" where
  "demo_channel_env = \<lparr>ce_ext = demo_ext, ce_start_session = (\<lambda>agent dir n. (Inr ''s1'', n)),
     ce_start_session_on = (\<lambda>agent host dir n. (Inr ''s1'', n)), ce_subscribe = (\<lambda>c sid n. (Inr (), n)),
     ce_start_turn = (\<lambda>key sid txt md src n. (Inr (demo_channel_turn n), Suc n)),
     ce_get_turn = (\<lambda>t n. (Inr (demo_channel_turn n), n)), ce_acknowledge_events = (\<lambda>c n' n. (Inr (), n)),
     ce_acknowledge_inbound = (\<lambda>e n. (Inr (), n)), ce_reject_inbound = (\<lambda>e r n. (Inr (), n)), ce_dispatcher_up = (\<lambda>n. True)\<rparr>"

definition demo_inbound :: "string \<Rightarrow> InboundMessage" where
  "demo_inbound e = \<lparr>im_external_id = e, im_conversation = ''c'', im_text = ''hi'', im_metadata = VNull\<rparr>"

definition demo_channel0 :: "nat ChannelState" where
  "demo_channel0 = \<lparr>ch_store = mapping_store_new, ch_world = 0, ch_sent = [], ch_log = []\<rparr>"

definition demo_open :: "(string + ChannelRuntime) \<times> nat ChannelState" where
  "demo_open = channel_open demo_channel_env ''irc'' [Sub_CompletedMessages] [] (channel_config_new ''coder'') ''me'' demo_channel0"

definition demo_runtime :: ChannelRuntime where
  "demo_runtime = projr (fst demo_open)"

definition demo_channel2 :: "nat ChannelState" where
  "demo_channel2 = snd (bindC (handle_inbound demo_channel_env demo_runtime (demo_inbound ''e1''))
     (\<lambda>_. handle_inbound demo_channel_env demo_runtime (demo_inbound ''e2'')) (snd demo_open))"

lemma demo_open_runs: "right (fst demo_open) = Some demo_runtime"
proof -
  have "\<not> isl (fst demo_open)" by code_simp
  then show ?thesis by (cases "fst demo_open") (simp_all add: demo_runtime_def right_def)
qed

lemma demo_channel_reach: "channel_reach demo_channel_env (=) 0 (Some demo_runtime) demo_channel2"
proof -
  let ?s1 = "snd (handle_inbound demo_channel_env demo_runtime (demo_inbound ''e1'') (snd demo_open))"
  have ok: "right (fst (handle_inbound demo_channel_env demo_runtime (demo_inbound ''e1'') (snd demo_open))) = Some ()"
    "right (fst (handle_inbound demo_channel_env demo_runtime (demo_inbound ''e2'') ?s1)) = Some ()" by code_simp+
  have s2: "demo_channel2 = snd (handle_inbound demo_channel_env demo_runtime (demo_inbound ''e2'') ?s1)"
    using ok(1) by (auto simp: demo_channel2_def bindC_def right_Some split: prod.splits)
  have "channel_reach demo_channel_env (=) 0 None demo_channel0" unfolding demo_channel0_def by (rule channel_start)
  from channel_opens [OF this, of "''irc''" "[Sub_CompletedMessages]" "[]" "channel_config_new ''coder''" "''me''"]
  have r0: "channel_reach demo_channel_env (=) 0 (Some demo_runtime) (snd demo_open)"
    using demo_open_runs by (simp add: demo_open_def [symmetric] prod_eq_iff)
  from channel_message [OF r0, of "demo_inbound ''e1''"] ok(1)
  have r1: "channel_reach demo_channel_env (=) 0 (Some demo_runtime) ?s1" by (simp add: prod_eq_iff)
  from channel_message [OF r1, of "demo_inbound ''e2''"] ok(2) s2 show ?thesis by (simp add: prod_eq_iff)
qed

theorem messages_served_in_order_witness:
  "map pe_external_id (mp_pending (ch_store demo_channel2)) = [''e2''] \<and> started_ids ''c'' (ch_log demo_channel2) = [1]
   \<and> session_active ''s1'' (ch_store demo_channel2)
   \<and> sorted (started_ids ''c'' (ch_log demo_channel2) @ map pe_id (pending_for ''c'' (ch_store demo_channel2)))"
proof -
  have run: "map pe_external_id (mp_pending (ch_store demo_channel2)) = [''e2'']"
    "map pe_conversation (mp_pending (ch_store demo_channel2)) = [''c'']"
    "started_ids ''c'' (ch_log demo_channel2) = [1]" "map_option id (mapped_session ''c'' (ch_store demo_channel2)) = Some ''s1''"
    by code_simp+
  from messages_served_in_order [OF demo_channel_reach, of "''c''"] run show ?thesis by auto
qed

section \<open>A run of the dispatcher\<close>

definition demo_delivery :: "string \<Rightarrow> string \<Rightarrow> Delivery" where
  "demo_delivery e k = \<lparr>dl_event_id = e, dl_destination = k, dl_event = OE_CompletedMessage ''hi'', dl_attempt = 1\<rparr>"

text \<open>One worker, three deliveries for two destinations; the first is to be retried, the other
  destination is served meanwhile.\<close>

definition demo_dispatch_events :: "DispatchEvent list" where
  "demo_dispatch_events = [DE_Incoming (Some (demo_delivery ''a1'' ''a'')), DE_Incoming (Some (demo_delivery ''a2'' ''a'')),
     DE_Incoming (Some (demo_delivery ''b1'' ''b'')), DE_Completed 0 5 (DO_RetryAfter 10)]"

fun demo_dispatch :: "DispatchEvent list \<Rightarrow> Delivery list \<Rightarrow> Dispatcher \<Rightarrow> (Delivery list \<times> Dispatcher) option" where
  "demo_dispatch [] arrived d = Some (arrived, d)"
| "demo_dispatch (ev # evs) arrived d =
     (if dispatch_enabled ev d \<and> \<not> fst (dispatch_event ev d)
      then demo_dispatch evs (arrived @ arrivals ev) (dispatch_prepare 1 6 (snd (dispatch_event ev d))) else None)"

lemma demo_dispatch_run:
  "demo_dispatch evs arrived d = Some (arrived', d') \<Longrightarrow> dispatch_run 1 arrived d \<Longrightarrow> dispatch_run 1 arrived' d'"
proof (induction evs arbitrary: arrived d)
  case (Cons ev evs)
  then have step: "dispatch_enabled ev d" "dispatch_event ev d = (False, snd (dispatch_event ev d))"
    and more: "demo_dispatch evs (arrived @ arrivals ev) (dispatch_prepare 1 6 (snd (dispatch_event ev d))) = Some (arrived', d')"
    by (auto simp: prod_eq_iff split: if_splits)
  from dispatch_more [OF Cons.prems(2) step, of 6] Cons.IH [OF more] show ?case by (simp add: arrivals_def)
qed simp

definition demo_dispatched :: "Delivery list \<times> Dispatcher" where
  "demo_dispatched = the (demo_dispatch demo_dispatch_events [] (dispatch_prepare 1 0 dispatcher_new))"

lemma demo_dispatched_run: "dispatch_run 1 (fst demo_dispatched) (snd demo_dispatched)"
proof -
  have "demo_dispatch demo_dispatch_events [] (dispatch_prepare 1 0 dispatcher_new) \<noteq> None" by code_simp
  then have "demo_dispatch demo_dispatch_events [] (dispatch_prepare 1 0 dispatcher_new)
      = Some (fst demo_dispatched, snd demo_dispatched)" by (auto simp: demo_dispatched_def)
  from demo_dispatch_run [OF this dispatch_start] show ?thesis .
qed

theorem deliveries_in_order_witness:
  "arrived_for ''a'' (fst demo_dispatched) = [''a1'', ''a2''] \<and> map dl_event_id (serving ''a'' (snd demo_dispatched)) = [''a1'']
   \<and> ended ''a'' (snd demo_dispatched) @ map dl_event_id (serving ''a'' (snd demo_dispatched))
       @ map dl_event_id (lane ''a'' (snd demo_dispatched)) = [''a1'', ''a2'']"
proof -
  have run: "arrived_for ''a'' (fst demo_dispatched) = [''a1'', ''a2'']"
    "map dl_event_id (serving ''a'' (snd demo_dispatched)) = [''a1'']" by code_simp+
  from deliveries_in_order [OF demo_dispatched_run, of "''a''"] run show ?thesis by simp
qed


theorem idle_dispatcher_waits_witness:
  "\<exists>d'. dispatch_event (DE_Incoming None) (dispatch_prepare 1 0 dispatcher_new) = (False, d') \<and> drained d'
    \<and> (\<forall>ev. dispatch_enabled ev d' \<longleftrightarrow> (\<exists>stop. ev = DE_Shutdown stop))"
proof -
  have "dp_incoming_open (dispatch_prepare 1 0 dispatcher_new)" "dp_outcomes (dispatch_prepare 1 0 dispatcher_new) = []" by code_simp+
  with idle_dispatcher_waits [OF dispatch_start, of 1 0 0] show ?thesis by auto
qed

end
