(* ===== verification/AgentFiles.thy ===== *)
theory AgentFiles
  imports Agents "HOL-Library.AList"
begin

text \<open>
  The directory \<open>agents\<close> of a Host, as \<open>crates/mews/src/app/agents.rs\<close> and
  \<open>crates/mews-host/src/lifecycle.rs\<close> use it: one directory for each Agent, with files and
  local resource directories. Every access to the file system is one tick, and a tick may
  fail. A name is a path component, as \<open>validate_slug\<close> ensures for slugs.
\<close>

section \<open>Text\<close>

text \<open>\<open>str::trim_end\<close> and \<open>str::trim_start\<close>, on the bytes\<close>

fun trim_end :: "string \<Rightarrow> string" where
  "trim_end [] = []"
| "trim_end (c # cs) = (if is_blank (c # cs) then [] else c # trim_end cs)"

function trim_start :: "string \<Rightarrow> string" where
  "trim_start s =
     (case strip_ws (map of_char s) of
        None \<Rightarrow> s
      | Some bs \<Rightarrow> trim_start (drop (length s - length bs) s))"
  by pat_completeness auto
termination
proof (relation "measure length", goal_cases)
  case (2 s bs)
  then have "length bs < length s" using strip_ws_shorter by fastforce
  then show ?case by simp
qed simp

declare trim_start.simps [simp del]

definition digit :: "char \<Rightarrow> nat option" where
  "digit c = (let n = of_char c in if 48 \<le> n \<and> n \<le> (57 :: nat) then Some (n - 48) else None)"

fun parse_digits :: "nat \<Rightarrow> string \<Rightarrow> nat option" where
  "parse_digits n [] = Some n"
| "parse_digits n (c # cs) =
     (case digit c of
        None \<Rightarrow> None
      | Some k \<Rightarrow> if 10 * n + k < 2 ^ 64 then parse_digits (10 * n + k) cs else None)"

text \<open>\<open>s.trim().parse::<u64>()\<close>: digits, perhaps after a plus sign\<close>

definition parse_u64 :: "string \<Rightarrow> nat option" where
  "parse_u64 s =
     (let t = trim_end (trim_start s);
          ds = (if t \<noteq> [] \<and> hd t = CHR ''+'' then tl t else t)
      in if ds = [] then None else parse_digits 0 ds)"

section \<open>Directories\<close>

record AgentDir =
  ad_files :: "(string \<times> string) list"
  ad_resources :: "(string \<times> string) list" \<comment> \<open>directories that only the Host has, by name\<close>

definition empty_dir :: AgentDir where
  "empty_dir = \<lparr>ad_files = [], ad_resources = []\<rparr>"

definition write_file :: "string \<Rightarrow> string \<Rightarrow> AgentDir \<Rightarrow> AgentDir" where
  "write_file name content dir = dir\<lparr>ad_files := AList.update name content (ad_files dir)\<rparr>"

definition file_of :: "string \<Rightarrow> AgentDir \<Rightarrow> string option" where
  "file_of name dir = map_of (ad_files dir) name"

record FileTree =
  ft_dirs :: "(string \<times> AgentDir) list"
  ft_ticks :: nat

definition dir_of :: "string \<Rightarrow> 'z FileTree_scheme \<Rightarrow> AgentDir option" where
  "dir_of name s = map_of (ft_dirs s) name"

section \<open>Operations that may fail\<close>

text \<open>
  What is outside the repository: at which ticks the operating system fails - with nothing done,
  or for a write with this text left in the file - the identifiers drawn, and the TOML printer.
\<close>

record io_ext =
  io_fault :: "nat \<Rightarrow> string option option"
  io_uuid :: "nat \<Rightarrow> string"
  io_toml :: "AgentConfig \<Rightarrow> string + string"

datatype HubError = HE_Store StoreError | HE_Text string | HE_Io

type_synonym ('s, 'a) files = "'s \<Rightarrow> (HubError + 'a) \<times> 's"

definition retF :: "'a \<Rightarrow> ('s, 'a) files" where
  "retF x s = (Inr x, s)"

definition failF :: "HubError \<Rightarrow> ('s, 'a) files" where
  "failF e s = (Inl e, s)"

definition bindF :: "('s, 'a) files \<Rightarrow> ('a \<Rightarrow> ('s, 'b) files) \<Rightarrow> ('s, 'b) files" where
  "bindF m f s = (case m s of (Inl e, s') \<Rightarrow> (Inl e, s') | (Inr x, s') \<Rightarrow> f x s')"

definition requireF :: "bool \<Rightarrow> string \<Rightarrow> ('s, unit) files" where
  "requireF b e = (if b then retF () else failF (HE_Text e))"

text \<open>\<open>let _ = m;\<close> and \<open>if let Err(error) = m { h }\<close>\<close>

definition ignoreF :: "('s, unit) files \<Rightarrow> ('s, unit) files" where
  "ignoreF m s = (Inr (), snd (m s))"

definition catchF :: "('s, 'a) files \<Rightarrow> (HubError \<Rightarrow> ('s, 'a) files) \<Rightarrow> ('s, 'a) files" where
  "catchF m h s = (case m s of (Inl e, s') \<Rightarrow> h e s' | (Inr x, s') \<Rightarrow> (Inr x, s'))"

fun forF :: "'b list \<Rightarrow> ('b \<Rightarrow> ('s, unit) files) \<Rightarrow> ('s, unit) files" where
  "forF [] f = retF ()"
| "forF (x # xs) f = bindF (f x) (\<lambda>_. forF xs f)"

definition bump :: "'z FileTree_scheme \<Rightarrow> 'z FileTree_scheme" where
  "bump s = s\<lparr>ft_ticks := Suc (ft_ticks s)\<rparr>"

text \<open>An effect on the directories, and what a failure of the system leaves.\<close>

definition fs_act ::
    "io_ext \<Rightarrow> ((string \<times> AgentDir) list \<Rightarrow> (string \<times> AgentDir) list option)
      \<Rightarrow> (string \<Rightarrow> (string \<times> AgentDir) list \<Rightarrow> (string \<times> AgentDir) list) \<Rightarrow> ('z FileTree_scheme, unit) files" where
  "fs_act io act torn s =
     (case io_fault io (ft_ticks s) of
        None \<Rightarrow> (case act (ft_dirs s) of
            None \<Rightarrow> (Inl HE_Io, bump s) | Some ds \<Rightarrow> (Inr (), bump (s\<lparr>ft_dirs := ds\<rparr>)))
      | Some None \<Rightarrow> (Inl HE_Io, bump s)
      | Some (Some left) \<Rightarrow> (Inl HE_Io, bump (s\<lparr>ft_dirs := torn left (ft_dirs s)\<rparr>)))"

text \<open>\<open>Path::exists\<close> says no when the system fails.\<close>

definition fs_ask :: "io_ext \<Rightarrow> ('z FileTree_scheme \<Rightarrow> bool) \<Rightarrow> ('z FileTree_scheme, bool) files" where
  "fs_ask io p s = (Inr (io_fault io (ft_ticks s) = None \<and> p s), bump s)"

definition fs_exists :: "io_ext \<Rightarrow> string \<Rightarrow> ('z FileTree_scheme, bool) files" where
  "fs_exists io name = fs_ask io (\<lambda>s. dir_of name s \<noteq> None)"

definition fs_file_exists :: "io_ext \<Rightarrow> string \<Rightarrow> string \<Rightarrow> ('z FileTree_scheme, bool) files" where
  "fs_file_exists io name file = fs_ask io (\<lambda>s. case dir_of name s of None \<Rightarrow> False | Some dir \<Rightarrow> file_of file dir \<noteq> None)"

definition fs_resource_exists :: "io_ext \<Rightarrow> string \<Rightarrow> string \<Rightarrow> ('z FileTree_scheme, bool) files" where
  "fs_resource_exists io name res =
     fs_ask io (\<lambda>s. case dir_of name s of None \<Rightarrow> False | Some dir \<Rightarrow> res \<in> fst ` set (ad_resources dir))"

definition fs_read :: "io_ext \<Rightarrow> string \<Rightarrow> string \<Rightarrow> ('z FileTree_scheme, string) files" where
  "fs_read io name file s =
     (case io_fault io (ft_ticks s) of
        None \<Rightarrow> (case dir_of name s of
            None \<Rightarrow> (Inl HE_Io, bump s)
          | Some dir \<Rightarrow> (case file_of file dir of None \<Rightarrow> (Inl HE_Io, bump s) | Some content \<Rightarrow> (Inr content, bump s)))
      | Some _ \<Rightarrow> (Inl HE_Io, bump s))"

definition put_file :: "string \<Rightarrow> string \<Rightarrow> string \<Rightarrow> (string \<times> AgentDir) list \<Rightarrow> (string \<times> AgentDir) list option" where
  "put_file name file content ds =
     (case map_of ds name of None \<Rightarrow> None | Some dir \<Rightarrow> Some (AList.update name (write_file file content dir) ds))"

definition fs_write :: "io_ext \<Rightarrow> string \<Rightarrow> string \<Rightarrow> string \<Rightarrow> ('z FileTree_scheme, unit) files" where
  "fs_write io name file content =
     fs_act io (put_file name file content)
       (\<lambda>left ds. case put_file name file left ds of None \<Rightarrow> ds | Some ds' \<Rightarrow> ds')"

definition fs_create_dir_all :: "io_ext \<Rightarrow> string \<Rightarrow> ('z FileTree_scheme, unit) files" where
  "fs_create_dir_all io name =
     fs_act io (\<lambda>ds. Some (if map_of ds name = None then ds @ [(name, empty_dir)] else ds)) (\<lambda>_ ds. ds)"

definition fs_create_dir :: "io_ext \<Rightarrow> string \<Rightarrow> ('z FileTree_scheme, unit) files" where
  "fs_create_dir io name =
     fs_act io (\<lambda>ds. if map_of ds name = None then Some (ds @ [(name, empty_dir)]) else None) (\<lambda>_ ds. ds)"

text \<open>A directory is renamed to a name that is free or an empty directory's.\<close>

definition rename_dir :: "string \<Rightarrow> string \<Rightarrow> (string \<times> AgentDir) list \<Rightarrow> (string \<times> AgentDir) list option" where
  "rename_dir from to ds =
     (case map_of ds from of
        None \<Rightarrow> None
      | Some dir \<Rightarrow>
          if from = to then Some ds
          else if map_of ds to = None \<or> map_of ds to = Some empty_dir
          then Some (AList.delete from (AList.update to dir ds)) else None)"

definition fs_rename :: "io_ext \<Rightarrow> string \<Rightarrow> string \<Rightarrow> ('z FileTree_scheme, unit) files" where
  "fs_rename io from to = fs_act io (rename_dir from to) (\<lambda>_ ds. ds)"

definition move_resource ::
    "string \<Rightarrow> string \<Rightarrow> string \<Rightarrow> (string \<times> AgentDir) list \<Rightarrow> (string \<times> AgentDir) list option" where
  "move_resource name from to ds =
     (case (map_of ds from, map_of ds to) of
        (Some a, Some b) \<Rightarrow>
          (case map_of (ad_resources a) name of
             None \<Rightarrow> None
           | Some content \<Rightarrow>
               if name \<in> fst ` set (ad_resources b) then None
               else Some (AList.update to (b\<lparr>ad_resources := ad_resources b @ [(name, content)]\<rparr>)
                      (AList.update from (a\<lparr>ad_resources := AList.delete name (ad_resources a)\<rparr>) ds)))
      | _ \<Rightarrow> None)"

definition fs_move_resource :: "io_ext \<Rightarrow> string \<Rightarrow> string \<Rightarrow> string \<Rightarrow> ('z FileTree_scheme, unit) files" where
  "fs_move_resource io name from to = fs_act io (move_resource name from to) (\<lambda>_ ds. ds)"

definition fs_open :: "io_ext \<Rightarrow> string \<Rightarrow> string \<Rightarrow> ('z FileTree_scheme, unit) files" where
  "fs_open io name file =
     fs_act io (\<lambda>ds. case map_of ds name of
         None \<Rightarrow> None | Some dir \<Rightarrow> if file_of file dir = None then None else Some ds) (\<lambda>_ ds. ds)"

text \<open>\<open>sync_all\<close>, and the rest of what only fails\<close>

definition fs_sync :: "io_ext \<Rightarrow> ('z FileTree_scheme, unit) files" where
  "fs_sync io = fs_act io Some (\<lambda>_ ds. ds)"

text \<open>A removal that fails may have removed the files already.\<close>

definition fs_remove_dir_all :: "io_ext \<Rightarrow> string \<Rightarrow> ('z FileTree_scheme, unit) files" where
  "fs_remove_dir_all io name =
     fs_act io (\<lambda>ds. if map_of ds name = None then None else Some (AList.delete name ds))
       (\<lambda>_ ds. if map_of ds name = None then ds else AList.update name empty_dir ds)"

definition fs_names :: "io_ext \<Rightarrow> ('z FileTree_scheme, string list) files" where
  "fs_names io s = (if io_fault io (ft_ticks s) = None then (Inr (map fst (ft_dirs s)), bump s) else (Inl HE_Io, bump s))"

definition fs_uuid :: "io_ext \<Rightarrow> ('z FileTree_scheme, string) files" where
  "fs_uuid io s = (Inr (io_uuid io (ft_ticks s)), bump s)"

end
