(* ===== verification/Replicas.thy ===== *)
theory Replicas
  imports AgentFiles Installations
begin

text \<open>
  The Agents of the Hub and their replicas in its file tree:
  \<open>crates/mews/src/app/agents.rs\<close>. A replica is a directory with the soul, the configuration, the
  number of the revision it was made from and the Agent's identifier. It may be edited;
  synchronizing it turns an edit of the current revision into the next revision and refuses an
  edit of an older one.
\<close>

section \<open>The state of the Hub's application\<close>

record 'h HubApp = FileTree +
  ha_db :: db
  ha_host :: 'h \<comment> \<open>the Hosts it talks to\<close>

definition storeF :: "(db \<Rightarrow> StoreError + 'a \<times> db) \<Rightarrow> ('h HubApp, 'a) files" where
  "storeF f s = (case f (ha_db s) of Inl e \<Rightarrow> (Inl (HE_Store e), s) | Inr (x, d) \<Rightarrow> (Inr x, s\<lparr>ha_db := d\<rparr>))"

definition lookF :: "(db \<Rightarrow> StoreError + 'a) \<Rightarrow> ('h HubApp, 'a) files" where
  "lookF f s = (case f (ha_db s) of Inl e \<Rightarrow> (Inl (HE_Store e), s) | Inr x \<Rightarrow> (Inr x, s))"

definition hub_installation :: "ext \<Rightarrow> ('h HubApp, Installation) files" where
  "hub_installation X =
     bindF (lookF (installation X)) (\<lambda>i.
     case i of None \<Rightarrow> failF (HE_Text ''MEWS is not set up; run `mews setup`'') | Some i \<Rightarrow> retF i)"

definition hub_agent_revision :: "ext \<Rightarrow> Agent \<Rightarrow> ('h HubApp, AgentRevision) files" where
  "hub_agent_revision X a = lookF (agent_revision X (agent_id a) (agent_current_revision a))"

definition default_soul :: string where
  "default_soul = ''You are a capable, practical agent. Be concise and use tools when they help.''"

definition revision_file :: string where
  "revision_file = ''.revision''"

definition agent_id_file :: string where
  "agent_id_file = ''.agent-id''"

section \<open>Replacing a replica\<close>

text \<open>Skills and extensions stay with the Host: they are carried over, all or none.\<close>

fun move_resources :: "io_ext \<Rightarrow> string \<Rightarrow> string \<Rightarrow> string list \<Rightarrow> string list \<Rightarrow> ('z FileTree_scheme, unit) files" where
  "move_resources io from to moved [] = retF ()"
| "move_resources io from to moved (name # names) =
     bindF (fs_resource_exists io from name) (\<lambda>present.
     if \<not> present then move_resources io from to moved names
     else bindF (catchF (fs_move_resource io name from to) (\<lambda>e.
            bindF (forF (rev moved) (\<lambda>m. ignoreF (fs_move_resource io m to from))) (\<lambda>_. failF e))) (\<lambda>_.
          move_resources io from to (moved @ [name]) names))"

definition move_local_resources :: "io_ext \<Rightarrow> string \<Rightarrow> string \<Rightarrow> ('z FileTree_scheme, unit) files" where
  "move_local_resources io from to = move_resources io from to [] [''skills'', ''extensions'']"

text \<open>Of the directories that were replaced only the one with the greatest name stays.\<close>

definition starts_with :: "string \<Rightarrow> string \<Rightarrow> bool" where
  "starts_with p s \<longleftrightarrow> take (length p) s = p"

definition previous_prefix :: "string \<Rightarrow> string" where
  "previous_prefix slug = ''.'' @ slug @ ''.previous-''"

definition retain_previous_directories :: "io_ext \<Rightarrow> string \<Rightarrow> ('z FileTree_scheme, unit) files" where
  "retain_previous_directories io slug =
     bindF (fs_names io) (\<lambda>names.
     forF (drop 1 (rev (sort (filter (starts_with (previous_prefix slug)) names)))) (fs_remove_dir_all io))"

definition definition_files :: "string list" where
  "definition_files = [''SOUL.md'', ''agent.toml'', revision_file, agent_id_file]"

text \<open>The files of the revision are gathered beside the replica, which is then set aside.\<close>

definition stage_revision :: "io_ext \<Rightarrow> string \<Rightarrow> AgentRevision \<Rightarrow> ('z FileTree_scheme, unit) files" where
  "stage_revision io staged r =
     bindF (fs_create_dir io staged) (\<lambda>_.
     bindF (fs_write io staged ''SOUL.md'' (rev_soul r)) (\<lambda>_.
     bindF (fs_write io staged ''agent.toml'' (rev_config_toml r)) (\<lambda>_.
     bindF (fs_write io staged revision_file (show_nat (rev_revision r))) (\<lambda>_.
     fs_write io staged agent_id_file (rev_agent_id r)))))"

definition set_replica_aside :: "io_ext \<Rightarrow> string \<Rightarrow> string \<Rightarrow> string \<Rightarrow> ('z FileTree_scheme, unit) files" where
  "set_replica_aside io slug staged previous =
     bindF (fs_rename io slug previous) (\<lambda>_.
     catchF (move_local_resources io previous staged) (\<lambda>e.
       bindF (ignoreF (fs_rename io previous slug)) (\<lambda>_. failF e)))"

definition materialize :: "io_ext \<Rightarrow> string \<Rightarrow> AgentRevision \<Rightarrow> ('z FileTree_scheme, unit) files" where
  "materialize io slug r =
     bindF (fs_uuid io) (\<lambda>u1. bindF (fs_uuid io) (\<lambda>u2.
     let staged = ''.'' @ slug @ ''.staged-'' @ u1; previous = previous_prefix slug @ u2 in
     bindF (stage_revision io staged r) (\<lambda>_.
     bindF (forF definition_files (\<lambda>file. bindF (fs_open io staged file) (\<lambda>_. fs_sync io))) (\<lambda>_.
     bindF (fs_sync io) (\<lambda>_.
     bindF (fs_exists io slug) (\<lambda>present.
     bindF (if present then set_replica_aside io slug staged previous else retF ()) (\<lambda>_.
     bindF (catchF (fs_rename io staged slug) (\<lambda>e.
              bindF (fs_exists io previous) (\<lambda>saved.
              bindF (if saved
                     then bindF (ignoreF (move_local_resources io staged previous)) (\<lambda>_.
                          ignoreF (fs_rename io previous slug))
                     else retF ()) (\<lambda>_.
              failF e)))) (\<lambda>_.
     bindF (fs_sync io) (\<lambda>_.
     retain_previous_directories io slug)))))))))"

section \<open>Synchronizing\<close>

definition okF :: "('s, 'a) files \<Rightarrow> ('s, 'a option) files" where
  "okF m s = (case m s of (Inl e, s') \<Rightarrow> (Inr None, s') | (Inr x, s') \<Rightarrow> (Inr (Some x), s'))"

text \<open>A replica of which a file is missing is restored when what is left was not edited.\<close>

definition restore_replica :: "io_ext \<Rightarrow> string \<Rightarrow> Agent \<Rightarrow> AgentRevision \<Rightarrow> ('z FileTree_scheme, Agent) files" where
  "restore_replica io slug a current =
     bindF (fs_file_exists io slug ''SOUL.md'') (\<lambda>has_soul.
     bindF (if has_soul
            then bindF (fs_read io slug ''SOUL.md'') (\<lambda>soul. retF (trim_end soul \<noteq> trim_end (rev_soul current)))
            else bindF (fs_file_exists io slug ''agent.toml'') (\<lambda>has_config.
                 if has_config
                 then bindF (fs_read io slug ''agent.toml'') (\<lambda>config. retF (config \<noteq> rev_config_toml current))
                 else retF False)) (\<lambda>surviving_edit.
     bindF (requireF (\<not> surviving_edit)
       ''agent definition is incomplete and contains local edits; restore the missing file before synchronizing'') (\<lambda>_.
     bindF (materialize io slug current) (\<lambda>_. retF a))))"

definition conflict_files :: "io_ext \<Rightarrow> string \<Rightarrow> string \<Rightarrow> string \<Rightarrow> string \<Rightarrow> ('z FileTree_scheme, unit) files" where
  "conflict_files io slug tag soul config =
     bindF (fs_write io slug (''SOUL.conflict-'' @ tag @ ''.md'') soul) (\<lambda>_.
     fs_write io slug (''agent.conflict-'' @ tag @ ''.toml'') config)"

text \<open>Whether a replica's text differs from a revision\<close>

definition edited :: "string \<Rightarrow> string \<Rightarrow> AgentRevision \<Rightarrow> bool" where
  "edited soul config r \<longleftrightarrow> trim_end soul \<noteq> trim_end (rev_soul r) \<or> config \<noteq> rev_config_toml r"

text \<open>The replica names the revision that it was made from.\<close>

definition reconcile ::
    "ext \<Rightarrow> io_ext \<Rightarrow> CommandContext \<Rightarrow> string \<Rightarrow> Agent \<Rightarrow> AgentRevision \<Rightarrow> string \<Rightarrow> string \<Rightarrow> nat
      \<Rightarrow> ('h HubApp, Agent) files" where
  "reconcile X io ctx slug a current soul config replica_revision =
     (if replica_revision < rev_revision current
      then bindF (lookF (agent_revision X (agent_id a) replica_revision)) (\<lambda>base.
           if edited soul config base
           then bindF (conflict_files io slug (''r'' @ show_nat replica_revision) soul config) (\<lambda>_.
                bindF (materialize io slug current) (\<lambda>_.
                failF (HE_Text (''agent definition conflicts with Hub revision '' @ show_nat (rev_revision current)
                  @ ''; local edits were preserved as conflict files''))))
           else bindF (materialize io slug current) (\<lambda>_. retF a))
      else if rev_revision current < replica_revision
      then failF (HE_Text (''local agent revision '' @ show_nat replica_revision @ '' is newer than Hub revision ''
             @ show_nat (rev_revision current)))
      else if edited soul config current
      then bindF (hub_installation X) (\<lambda>i.
           bindF (storeF (update_agent X ctx (agent_id a) (rev_revision current) (trim_end soul) config (ins_hub_host_id i))) (\<lambda>r.
           bindF (fs_write io slug revision_file (show_nat (rev_revision r))) (\<lambda>_.
           lookF (agent_by_slug X slug))))
      else retF a)"

definition synchronize_agent :: "ext \<Rightarrow> io_ext \<Rightarrow> CommandContext \<Rightarrow> string \<Rightarrow> ('h HubApp, Agent) files" where
  "synchronize_agent X io ctx slug =
     bindF (lookF (agent_by_slug X slug)) (\<lambda>a.
     bindF (hub_agent_revision X a) (\<lambda>current.
     bindF (fs_create_dir_all io slug) (\<lambda>_.
     bindF (fs_write io slug agent_id_file (agent_id a)) (\<lambda>_.
     bindF (fs_file_exists io slug ''SOUL.md'') (\<lambda>has_soul.
     bindF (if has_soul then fs_file_exists io slug ''agent.toml'' else retF False) (\<lambda>complete.
     if \<not> complete then restore_replica io slug a current
     else bindF (fs_read io slug ''SOUL.md'') (\<lambda>soul.
          bindF (fs_read io slug ''agent.toml'') (\<lambda>config.
          bindF (okF (fs_read io slug revision_file)) (\<lambda>stored.
          case Option.bind stored parse_u64 of
            Some replica_revision \<Rightarrow> reconcile X io ctx slug a current soul config replica_revision
          | None \<Rightarrow>
              if \<not> edited soul config current
              then bindF (fs_write io slug revision_file (show_nat (rev_revision current))) (\<lambda>_. retF a)
              else bindF (conflict_files io slug ''unknown'' soul config) (\<lambda>_.
                   failF (HE_Text ''agent replica revision is missing or invalid; local edits were preserved as conflict files'')))))))))))"

section \<open>Renaming and creating\<close>

definition andF :: "('s, bool) files \<Rightarrow> ('s, bool) files \<Rightarrow> ('s, bool) files" where
  "andF m m' = bindF m (\<lambda>b. if b then m' else retF False)"

definition notF :: "('s, bool) files \<Rightarrow> ('s, bool) files" where
  "notF m = bindF m (\<lambda>b. retF (\<not> b))"

definition replay_agent_rename ::
    "ext \<Rightarrow> io_ext \<Rightarrow> CommandContext \<Rightarrow> string \<Rightarrow> string \<Rightarrow> ('h HubApp, Agent option) files" where
  "replay_agent_rename X io ctx slug new_slug =
     bindF (andF (notF (fs_exists io slug)) (fs_exists io new_slug)) (\<lambda>moved.
     if moved then bindF (storeF (rename_agent X ctx slug new_slug)) (\<lambda>a. retF (Some a))
     else bindF (andF (fs_exists io slug) (andF (notF (fs_exists io new_slug))
            (\<lambda>s. (Inr (isl (agent_by_slug X slug (ha_db s))), s)))) (\<lambda>pending.
          if pending
          then bindF (storeF (rename_agent X ctx slug new_slug)) (\<lambda>a.
               bindF (fs_rename io slug new_slug) (\<lambda>_.
               bindF (fs_sync io) (\<lambda>_. retF (Some a))))
          else retF None))"

definition hub_rename_agent ::
    "ext \<Rightarrow> io_ext \<Rightarrow> CommandContext \<Rightarrow> string \<Rightarrow> string \<Rightarrow> ('h HubApp, Agent) files" where
  "hub_rename_agent X io ctx slug new_slug =
     bindF (replay_agent_rename X io ctx slug new_slug) (\<lambda>replayed.
     case replayed of
       Some a \<Rightarrow> retF a
     | None \<Rightarrow>
         bindF (synchronize_agent X io ctx slug) (\<lambda>_.
         bindF (fs_exists io new_slug) (\<lambda>taken.
         bindF (requireF (\<not> taken) (''agent directory already exists: '' @ new_slug)) (\<lambda>_.
         bindF (storeF (rename_agent X ctx slug new_slug)) (\<lambda>a.
         bindF (catchF (fs_rename io slug new_slug) (\<lambda>e.
           bindF (storeF (rollback_agent_rename X ctx new_slug slug)) (\<lambda>_. failF e))) (\<lambda>_.
         bindF (fs_sync io) (\<lambda>_. retF a)))))))"

fun reasoning_name :: "ReasoningEffort \<Rightarrow> string" where
  "reasoning_name RE_None = ''none''"
| "reasoning_name RE_Auto = ''auto''"
| "reasoning_name RE_Minimal = ''minimal''"
| "reasoning_name RE_Low = ''low''"
| "reasoning_name RE_Medium = ''medium''"
| "reasoning_name RE_High = ''high''"
| "reasoning_name RE_XHigh = ''xhigh''"
| "reasoning_name RE_Max = ''max''"

text \<open>\<open>entry(k).or_insert(v)\<close> of a \<open>BTreeMap\<close>, kept sorted\<close>

definition or_insert :: "string \<Rightarrow> string \<Rightarrow> (string \<times> string) list \<Rightarrow> (string \<times> string) list" where
  "or_insert k v opts = (if k \<in> fst ` set opts then opts else insort_key fst (k, v) opts)"

definition mews_harness :: string where
  "mews_harness = ''mews''"

definition default_options ::
    "ProviderDefaults \<Rightarrow> (string \<times> string) list \<Rightarrow> ('s, (string \<times> string) list) files" where
  "default_options defaults opts =
     (let opts1 = (case pd_model defaults of None \<Rightarrow> opts | Some model \<Rightarrow> or_insert ''model'' model opts) in
      case pd_reasoning defaults of
        None \<Rightarrow> retF opts1
      | Some reasoning \<Rightarrow>
          bindF (requireF (reasoning \<noteq> RE_Auto)
            ''reasoning auto is not supported by the native mews Harness; use Provider default instead'') (\<lambda>_.
          retF (or_insert ''reasoning'' (reasoning_name reasoning) opts1)))"

definition create_agent_with_harness ::
    "ext \<Rightarrow> io_ext \<Rightarrow> CommandContext \<Rightarrow> string \<Rightarrow> string \<Rightarrow> (string \<times> string) list \<Rightarrow> ('h HubApp, Agent) files" where
  "create_agent_with_harness X io ctx slug harness opts =
     bindF (hub_installation X) (\<lambda>i.
     bindF (if harness = mews_harness
            then bindF (lookF (provider_defaults X)) (\<lambda>defaults. default_options defaults opts) else retF opts) (\<lambda>opts1.
     bindF (case io_toml io \<lparr>cfg_harness = harness, cfg_harness_options = opts1, cfg_tools = [''*''],
              cfg_tool_execution = Parallel\<rparr> of Inl e \<Rightarrow> failF (HE_Text e) | Inr config \<Rightarrow> retF config) (\<lambda>config.
     bindF (fs_exists io slug) (\<lambda>present.
     if present
     then (\<lambda>s. (case agent_by_slug X slug (ha_db s) of
         Inl _ \<Rightarrow> failF (HE_Text (''agent directory already exists: '' @ slug))
       | Inr a \<Rightarrow>
           bindF (hub_agent_revision X a) (\<lambda>r.
           if rev_soul r = default_soul \<and> rev_config_toml r = config
           then bindF (fs_write io slug revision_file (show_nat (rev_revision r))) (\<lambda>_.
                bindF (fs_write io slug agent_id_file (agent_id a)) (\<lambda>_. retF a))
           else failF (HE_Text (''agent directory already exists: '' @ slug)))) s)
     else
       bindF (fs_create_dir_all io slug) (\<lambda>_.
       bindF (fs_write io slug ''SOUL.md'' (default_soul @ [CHR 0x0A])) (\<lambda>_.
       bindF (fs_write io slug ''agent.toml'' config) (\<lambda>_.
       bindF (catchF (storeF (create_agent X ctx slug default_soul config (ins_hub_host_id i))) (\<lambda>e.
         bindF (ignoreF (fs_remove_dir_all io slug)) (\<lambda>_. failF e))) (\<lambda>(a, r).
       bindF (fs_write io slug revision_file (show_nat (rev_revision r))) (\<lambda>_.
       bindF (fs_write io slug agent_id_file (agent_id a)) (\<lambda>_. retF a)))))))))) "

definition hub_create_agent :: "ext \<Rightarrow> io_ext \<Rightarrow> CommandContext \<Rightarrow> string \<Rightarrow> ('h HubApp, Agent) files" where
  "hub_create_agent X io ctx slug = create_agent_with_harness X io ctx slug mews_harness []"

end
