(* ===== verification/ReplicaInv.thy ===== *)
theory ReplicaInv
  imports Replicas
begin

text \<open>
  A logic for operations on the file tree that covers every failure of the system, what each
  access does to the files of a directory, and what replacing a replica keeps.
\<close>

section \<open>The logic\<close>

definition hoare :: "('s \<Rightarrow> bool) \<Rightarrow> ('s, 'a) files \<Rightarrow> ('a \<Rightarrow> 's \<Rightarrow> bool) \<Rightarrow> ('s \<Rightarrow> bool) \<Rightarrow> bool" where
  "hoare P m Q R \<longleftrightarrow> (\<forall>s. P s \<longrightarrow> (case m s of (Inl e, s') \<Rightarrow> R s' | (Inr x, s') \<Rightarrow> Q x s'))"

lemma hoareD:
  "hoare P m Q R \<Longrightarrow> P s \<Longrightarrow> m s = (Inr x, s') \<Longrightarrow> Q x s'"
  "hoare P m Q R \<Longrightarrow> P s \<Longrightarrow> m s = (Inl e, s') \<Longrightarrow> R s'"
  by (auto simp: hoare_def)

lemma hoareI:
  "(\<And>s x s'. P s \<Longrightarrow> m s = (Inr x, s') \<Longrightarrow> Q x s') \<Longrightarrow> (\<And>s e s'. P s \<Longrightarrow> m s = (Inl e, s') \<Longrightarrow> R s')
    \<Longrightarrow> hoare P m Q R"
  by (auto simp: hoare_def split: prod.splits sum.splits)

lemma hoare_weaken:
  "hoare P m Q R \<Longrightarrow> (\<And>s. P' s \<Longrightarrow> P s) \<Longrightarrow> (\<And>x s. Q x s \<Longrightarrow> Q' x s) \<Longrightarrow> (\<And>s. R s \<Longrightarrow> R' s) \<Longrightarrow> hoare P' m Q' R'"
  by (fastforce simp: hoare_def split: prod.splits sum.splits)

lemma hoare_pre: "hoare P m Q R \<Longrightarrow> (\<And>s. P' s \<Longrightarrow> P s) \<Longrightarrow> hoare P' m Q R"
  by (rule hoare_weaken)

lemma hoare_ret: "(\<And>s. P s \<Longrightarrow> Q x s) \<Longrightarrow> hoare P (retF x) Q R"
  by (simp add: hoare_def retF_def)

lemma hoare_fail: "(\<And>s. P s \<Longrightarrow> R s) \<Longrightarrow> hoare P (failF e) Q R"
  by (simp add: hoare_def failF_def)

lemma hoare_bind: "hoare P m Q' R \<Longrightarrow> (\<And>x. hoare (Q' x) (f x) Q R) \<Longrightarrow> hoare P (bindF m f) Q R"
  by (fastforce simp: hoare_def bindF_def split: prod.splits sum.splits)

lemma hoare_catch: "hoare P m Q R' \<Longrightarrow> (\<And>e. hoare R' (h e) Q R) \<Longrightarrow> hoare P (catchF m h) Q R"
  by (fastforce simp: hoare_def catchF_def split: prod.splits sum.splits)

lemma hoare_ignore: "hoare P m (\<lambda>_. Q) Q \<Longrightarrow> hoare P (ignoreF m) (\<lambda>_. Q) R"
  unfolding hoare_def ignoreF_def by (auto split: prod.splits sum.splits) (metis prod.collapse sum.exhaust)

lemma hoare_require: "(\<And>s. P s \<Longrightarrow> b \<Longrightarrow> Q () s) \<Longrightarrow> (\<And>s. P s \<Longrightarrow> R s) \<Longrightarrow> hoare P (requireF b e) Q R"
  by (auto simp: requireF_def intro: hoare_ret hoare_fail)

lemma hoare_if: "(b \<Longrightarrow> hoare P m Q R) \<Longrightarrow> (\<not> b \<Longrightarrow> hoare P m' Q R) \<Longrightarrow> hoare P (if b then m else m') Q R"
  by simp

lemma hoare_for:
  assumes "\<And>x. x \<in> set xs \<Longrightarrow> hoare P (f x) (\<lambda>_. P) P"
  shows "hoare P (forF xs f) (\<lambda>_. P) P"
  using assms
proof (induction xs)
  case (Cons x xs)
  then show ?case unfolding forF.simps by (intro hoare_bind [OF Cons.prems Cons.IH]) auto
qed (simp add: hoare_ret)

section \<open>What the accesses keep\<close>

text \<open>Some of the files of a directory\<close>

definition has_files :: "string \<Rightarrow> (string \<times> string) list \<Rightarrow> 'z FileTree_scheme \<Rightarrow> bool" where
  "has_files name fs s \<longleftrightarrow> (\<exists>dir. dir_of name s = Some dir \<and> (\<forall>(f, c) \<in> set fs. file_of f dir = Some c))"

lemma ft_bump [simp]: "ft_dirs (bump s) = ft_dirs s" "ft_ticks (bump s) = Suc (ft_ticks s)" "dir_of name (bump s) = dir_of name s"
  by (simp_all add: bump_def dir_of_def)

lemma hoare_act:
  assumes "\<And>s ds. P s \<Longrightarrow> act (ft_dirs s) = Some ds \<Longrightarrow> Q (bump (s\<lparr>ft_dirs := ds\<rparr>))"
    and "\<And>s. P s \<Longrightarrow> R (bump s)" and "\<And>s left. P s \<Longrightarrow> R (bump (s\<lparr>ft_dirs := torn left (ft_dirs s)\<rparr>))"
  shows "hoare P (fs_act io act torn) (\<lambda>_. Q) R"
  using assms by (auto simp: hoare_def fs_act_def split: option.splits)

lemma hoare_ask:
  "(\<And>s b. P s \<Longrightarrow> Q b (bump s)) \<Longrightarrow> hoare P (fs_ask io p) Q R"
  by (auto simp: hoare_def fs_ask_def)


text \<open>The directories as a map, and a step of the clock that changes it\<close>

definition distinct_names :: "'z FileTree_scheme \<Rightarrow> bool" where
  "distinct_names s \<longleftrightarrow> distinct (map fst (ft_dirs s))"

definition after :: "('z FileTree_scheme) \<Rightarrow> 'z FileTree_scheme
      \<Rightarrow> ((string \<Rightarrow> AgentDir option) \<Rightarrow> string \<Rightarrow> AgentDir option) \<Rightarrow> bool" where
  "after s s' F \<longleftrightarrow> distinct_names s' \<and> ft_ticks s' = Suc (ft_ticks s) \<and> (\<forall>n. dir_of n s' = F (\<lambda>m. dir_of m s) n)"

lemma after_bump: "distinct_names s \<Longrightarrow> after s (bump s) (\<lambda>d. d)"
  by (simp add: after_def distinct_names_def)

lemma after_dirs:
  "distinct (map fst ds) \<Longrightarrow> (\<And>n. map_of ds n = F (map_of (ft_dirs s)) n) \<Longrightarrow> after s (bump (s\<lparr>ft_dirs := ds\<rparr>)) F"
  by (simp add: after_def distinct_names_def) (simp add: dir_of_def bump_def)

lemma hoare_read: 
  assumes "\<And>s dir c. P s \<Longrightarrow> dir_of name s = Some dir \<Longrightarrow> file_of file dir = Some c \<Longrightarrow> Q c (bump s)"
    and "\<And>s. P s \<Longrightarrow> R (bump s)"
  shows "hoare P (fs_read io name file) Q R"
  using assms by (auto simp: hoare_def fs_read_def split: option.splits)

lemma hoare_uuid: "(\<And>s. P s \<Longrightarrow> Q (io_uuid io (ft_ticks s)) (bump s)) \<Longrightarrow> hoare P (fs_uuid io) Q R"
  by (simp add: hoare_def fs_uuid_def)

lemma hoare_names:
  "(\<And>s. P s \<Longrightarrow> Q (map fst (ft_dirs s)) (bump s)) \<Longrightarrow> (\<And>s. P s \<Longrightarrow> R (bump s)) \<Longrightarrow> hoare P (fs_names io) Q R"
  by (simp add: hoare_def fs_names_def)

lemma put_file_Some:
  "put_file name file c ds = Some ds' \<longleftrightarrow> (\<exists>dir. map_of ds name = Some dir \<and> ds' = AList.update name (write_file file c dir) ds)"
  by (auto simp: put_file_def split: option.splits)

lemma hoare_write:
  assumes ok: "\<And>s s' dir. P s \<Longrightarrow> dir_of name s = Some dir \<Longrightarrow>
        after s s' (\<lambda>d. d(name \<mapsto> write_file file content dir)) \<Longrightarrow> Q s'"
    and torn: "\<And>s s' dir c. P s \<Longrightarrow> dir_of name s = Some dir \<Longrightarrow> after s s' (\<lambda>d. d(name \<mapsto> write_file file c dir)) \<Longrightarrow> R s'"
    and none: "\<And>s s'. P s \<Longrightarrow> after s s' (\<lambda>d. d) \<Longrightarrow> R s'"
    and names: "\<And>s. P s \<Longrightarrow> distinct_names s"
  shows "hoare P (fs_write io name file content) (\<lambda>_. Q) R"
proof -
  have wrote: "dir_of name s = Some dir \<and> after s (bump (s\<lparr>ft_dirs := ds\<rparr>)) (\<lambda>d. d(name \<mapsto> write_file file c dir))"
    if "P s" "map_of (ft_dirs s) name = Some dir" "ds = AList.update name (write_file file c dir) (ft_dirs s)" for s dir c ds
    using that names [OF that(1)] by (auto intro!: after_dirs distinct_update simp: update_conv' dir_of_def distinct_names_def)
  show ?thesis unfolding fs_write_def
  proof (rule hoare_act)
    show "P s \<Longrightarrow> put_file name file content (ft_dirs s) = Some ds \<Longrightarrow> Q (bump (s\<lparr>ft_dirs := ds\<rparr>))" for s ds
      using wrote [of s _ ds content] ok [of s] by (auto simp: put_file_Some)
    show "P s \<Longrightarrow> R (bump s)" for s using none [of s] after_bump names by blast
    fix s left assume P: "P s"
    show "R (bump (s\<lparr>ft_dirs := (case put_file name file left (ft_dirs s) of None \<Rightarrow> ft_dirs s | Some ds' \<Rightarrow> ds')\<rparr>))"
    proof (cases "put_file name file left (ft_dirs s)")
      case None
      have "s\<lparr>ft_dirs := ft_dirs s\<rparr> = s" by simp
      with None none [OF P after_bump [OF names [OF P]]] show ?thesis by simp
    next
      case (Some ds)
      then obtain dir where "map_of (ft_dirs s) name = Some dir" and "ds = AList.update name (write_file file left dir) (ft_dirs s)"
        by (auto simp: put_file_Some)
      from wrote [OF P this] torn [OF P] Some show ?thesis by (simp only: option.case) blast
    qed
  qed
qed

text \<open>The accesses that fail without an effect\<close>

lemma hoare_quiet:
  assumes "\<And>s ds. P s \<Longrightarrow> act (ft_dirs s) = Some ds \<Longrightarrow> Q (bump (s\<lparr>ft_dirs := ds\<rparr>))" and "\<And>s. P s \<Longrightarrow> R (bump s)"
  shows "hoare P (fs_act io act (\<lambda>_ ds. ds)) (\<lambda>_. Q) R"
  using assms by (intro hoare_act) auto

lemma hoare_sync: "(\<And>s. P s \<Longrightarrow> Q (bump s) \<and> R (bump s)) \<Longrightarrow> hoare P (fs_sync io) (\<lambda>_. Q) R"
  unfolding fs_sync_def by (rule hoare_quiet) auto

lemma hoare_open: "(\<And>s. P s \<Longrightarrow> Q (bump s) \<and> R (bump s)) \<Longrightarrow> hoare P (fs_open io name file) (\<lambda>_. Q) R"
  unfolding fs_open_def by (rule hoare_quiet) (auto split: option.splits if_splits)

lemma map_of_snoc: "map_of ds name = None \<Longrightarrow> map_of (ds @ [(name, dir)]) = (map_of ds)(name \<mapsto> dir)"
  by (rule ext) (auto simp: map_add_def split: option.splits)

lemma after_snoc:
  assumes "distinct_names s" and "map_of (ft_dirs s) name = None"
  shows "after s (bump (s\<lparr>ft_dirs := ft_dirs s @ [(name, dir)]\<rparr>)) (\<lambda>d. d(name \<mapsto> dir))"
proof (rule after_dirs)
  have "name \<notin> fst ` set (ft_dirs s)" using assms(2) by (simp add: map_of_eq_None_iff)
  with assms(1) show "distinct (map fst (ft_dirs s @ [(name, dir)]))" by (simp add: distinct_names_def)
qed (simp only: map_of_snoc [OF assms(2)])

lemma hoare_create_dir:
  assumes "\<And>s s'. P s \<Longrightarrow> dir_of name s = None \<Longrightarrow> after s s' (\<lambda>d. d(name \<mapsto> empty_dir)) \<Longrightarrow> Q s'"
    and "\<And>s s'. P s \<Longrightarrow> after s s' (\<lambda>d. d) \<Longrightarrow> R s'" and names: "\<And>s. P s \<Longrightarrow> distinct_names s"
  shows "hoare P (fs_create_dir io name) (\<lambda>_. Q) R"
  unfolding fs_create_dir_def
proof (rule hoare_quiet)
  fix s ds
  assume P: "P s" and ds: "(if map_of (ft_dirs s) name = None then Some (ft_dirs s @ [(name, empty_dir)]) else None) = Some ds"
  then have "dir_of name s = None" "after s (bump (s\<lparr>ft_dirs := ds\<rparr>)) (\<lambda>d. d(name \<mapsto> empty_dir))"
    using after_snoc [OF names [OF P]] by (auto simp: dir_of_def split: if_splits)
  with assms(1) P show "Q (bump (s\<lparr>ft_dirs := ds\<rparr>))" by blast
qed (use assms(2) after_bump names in blast)

lemma hoare_create_dir_all:
  assumes "\<And>s s'. P s \<Longrightarrow> dir_of name s = None \<Longrightarrow> after s s' (\<lambda>d. d(name \<mapsto> empty_dir)) \<Longrightarrow> Q s'"
    and "\<And>s s'. P s \<Longrightarrow> after s s' (\<lambda>d. d) \<Longrightarrow> (dir_of name s \<noteq> None \<longrightarrow> Q s') \<and> R s'" and names: "\<And>s. P s \<Longrightarrow> distinct_names s"
  shows "hoare P (fs_create_dir_all io name) (\<lambda>_. Q) R"
  unfolding fs_create_dir_all_def
proof (rule hoare_quiet)
  fix s ds
  assume P: "P s" and ds: "Some (if map_of (ft_dirs s) name = None then ft_dirs s @ [(name, empty_dir)] else ft_dirs s) = Some ds"
  show "Q (bump (s\<lparr>ft_dirs := ds\<rparr>))"
  proof (cases "dir_of name s")
    case None
    then have "after s (bump (s\<lparr>ft_dirs := ds\<rparr>)) (\<lambda>d. d(name \<mapsto> empty_dir))"
      using ds after_snoc [OF names [OF P]] by (auto simp: dir_of_def split: if_splits)
    with assms(1) [OF P None] show ?thesis .
  next
    case (Some dir)
    then have "ds = ft_dirs s" using ds by (simp add: dir_of_def split: if_splits)
    with assms(2) [OF P after_bump [OF names [OF P]]] Some show ?thesis by simp
  qed
qed (use assms(2) after_bump names in blast)

lemma hoare_rename:
  assumes "\<And>s s' dir. P s \<Longrightarrow> dir_of from s = Some dir \<Longrightarrow> dir_of to s = None \<or> dir_of to s = Some empty_dir \<Longrightarrow>
        after s s' (\<lambda>d. d(from := None, to := Some dir)) \<Longrightarrow> Q s'"
    and "\<And>s s'. P s \<Longrightarrow> after s s' (\<lambda>d. d) \<Longrightarrow> R s'" and names: "\<And>s. P s \<Longrightarrow> distinct_names s" and "from \<noteq> to"
  shows "hoare P (fs_rename io from to) (\<lambda>_. Q) R"
  unfolding fs_rename_def
proof (rule hoare_quiet)
  fix s ds
  assume P: "P s" and ds: "rename_dir from to (ft_dirs s) = Some ds"
  then obtain dir where dir: "dir_of from s = Some dir" and to: "dir_of to s = None \<or> dir_of to s = Some empty_dir"
    and eq: "ds = AList.delete from (AList.update to dir (ft_dirs s))"
    using assms(4) by (auto simp: rename_dir_def dir_of_def split: option.splits if_splits)
  have "after s (bump (s\<lparr>ft_dirs := ds\<rparr>)) (\<lambda>d. d(from := None, to := Some dir))"
    using names [OF P] assms(4)
    by (auto intro!: after_dirs distinct_delete distinct_update simp: eq distinct_names_def delete_conv' update_conv')
  with assms(1) [OF P dir to] show "Q (bump (s\<lparr>ft_dirs := ds\<rparr>))" by blast
qed (use assms(2) after_bump names in blast)


text \<open>Moving resources leaves the files alone.\<close>

definition same_files :: "'z FileTree_scheme \<Rightarrow> 'z FileTree_scheme \<Rightarrow> bool" where
  "same_files s s' \<longleftrightarrow> distinct_names s' \<and> ft_ticks s \<le> ft_ticks s'
     \<and> (\<forall>n. map_option ad_files (dir_of n s') = map_option ad_files (dir_of n s))"

lemma same_files_trans: "same_files s s' \<Longrightarrow> same_files s' s'' \<Longrightarrow> same_files s s''"
  by (simp add: same_files_def)

lemma same_files_bump: "distinct_names s \<Longrightarrow> same_files s (bump s)"
  by (simp add: same_files_def distinct_names_def)

lemma has_files_same: "same_files s s' \<Longrightarrow> has_files name fs s' = has_files name fs s"
proof -
  assume same: "same_files s s'"
  have "map_option ad_files (dir_of name s') = map_option ad_files (dir_of name s)" using same by (simp add: same_files_def)
  then show ?thesis by (cases "dir_of name s"; cases "dir_of name s'") (auto simp: has_files_def file_of_def)
qed

lemma move_same: "hoare (same_files s0) (fs_move_resource io name from to) (\<lambda>_. same_files s0) (same_files s0)"
  unfolding fs_move_resource_def
proof (rule hoare_quiet)
  fix s ds
  assume P: "same_files s0 s" and ds: "move_resource name from to (ft_dirs s) = Some ds"
  then obtain a b content where a: "map_of (ft_dirs s) from = Some a" and b: "map_of (ft_dirs s) to = Some b"
    and eq: "ds = AList.update to (b\<lparr>ad_resources := ad_resources b @ [(name, content)]\<rparr>)
      (AList.update from (a\<lparr>ad_resources := AList.delete name (ad_resources a)\<rparr>) (ft_dirs s))"
    by (auto simp: move_resource_def split: option.splits if_splits)
  have "distinct (map fst ds)" using P by (simp add: eq same_files_def distinct_names_def distinct_update)
  moreover have "map_option ad_files (map_of ds n) = map_option ad_files (map_of (ft_dirs s) n)" for n
    using a b by (simp add: eq update_conv')
  ultimately show "same_files s0 (bump (s\<lparr>ft_dirs := ds\<rparr>))"
    using P by (simp add: same_files_def distinct_names_def) (simp add: dir_of_def bump_def)
qed (blast intro: same_files_trans same_files_bump same_files_def [THEN iffD1, THEN conjunct1])

lemma resource_exists_same: "hoare (same_files s0) (fs_resource_exists io name res) (\<lambda>_. same_files s0) R"
  unfolding fs_resource_exists_def
  by (rule hoare_ask) (blast intro: same_files_trans same_files_bump same_files_def [THEN iffD1, THEN conjunct1])

lemma move_resources_same:
  "hoare (same_files s0) (move_resources io from to moved names) (\<lambda>_. same_files s0) (same_files s0)"
proof (induction names arbitrary: moved)
  case (Cons name names)
  have undone: "hoare (same_files s0) (bindF (forF (rev moved) (\<lambda>m. ignoreF (fs_move_resource io m to from))) (\<lambda>_. failF e))
      Q (same_files s0)" for e and Q :: "unit \<Rightarrow> _"
    by (intro hoare_bind [OF hoare_for] hoare_ignore move_same hoare_fail)
  show ?case unfolding move_resources.simps
    by (intro hoare_bind [OF resource_exists_same] hoare_if Cons.IH hoare_bind [OF hoare_catch [OF move_same undone]])
qed (simp add: hoare_ret)

lemma hoare_move_local:
  assumes "\<And>s s'. P s \<Longrightarrow> same_files s s' \<Longrightarrow> Q s' \<and> R s'" and "\<And>s. P s \<Longrightarrow> distinct_names s"
  shows "hoare P (move_local_resources io from to) (\<lambda>_. Q) R"
proof (rule hoareI)
  have start: "same_files s s" if "P s" for s using assms(2) [OF that] by (simp add: same_files_def)
  show "Q s'" if "P s" and "move_local_resources io from to s = (Inr x, s')" for s x s'
    using hoareD(1) [OF move_resources_same start [OF that(1)] that(2) [unfolded move_local_resources_def]] assms(1) that(1)
    by blast
  show "R s'" if "P s" and "move_local_resources io from to s = (Inl e, s')" for s e s'
    using hoareD(2) [OF move_resources_same start [OF that(1)] that(2) [unfolded move_local_resources_def]] assms(1) that(1)
    by blast
qed

lemma hoare_remove:
  assumes "\<And>s s' F. P s \<Longrightarrow> after s s' F \<Longrightarrow> (\<And>d n. n \<noteq> name \<Longrightarrow> F d n = d n) \<Longrightarrow> (\<And>d. d name = None \<Longrightarrow> F d name = None) \<Longrightarrow> Q s' \<and> R s'"
    and names: "\<And>s. P s \<Longrightarrow> distinct_names s"
  shows "hoare P (fs_remove_dir_all io name) (\<lambda>_. Q) R"
  unfolding fs_remove_dir_all_def
proof (rule hoare_act)
  fix s ds assume P: "P s" and ds: "(if map_of (ft_dirs s) name = None then None else Some (AList.delete name (ft_dirs s))) = Some ds"
  then have "after s (bump (s\<lparr>ft_dirs := ds\<rparr>)) (\<lambda>d. d(name := None))"
    using names [OF P] by (intro after_dirs) (auto simp: delete_conv' distinct_delete distinct_names_def split: if_splits)
  from assms(1) [OF P this] show "Q (bump (s\<lparr>ft_dirs := ds\<rparr>))" by simp
next
  fix s :: "'a FileTree_scheme" and left :: string assume P: "P s"
  have "after s (bump (s\<lparr>ft_dirs := (if map_of (ft_dirs s) name = None then ft_dirs s
      else AList.update name empty_dir (ft_dirs s))\<rparr>)) (\<lambda>d. if d name = None then d else d(name \<mapsto> empty_dir))"
  proof (rule after_dirs)
    show "distinct (map fst (if map_of (ft_dirs s) name = None then ft_dirs s else AList.update name empty_dir (ft_dirs s)))"
      using names [OF P] by (simp add: distinct_update distinct_names_def)
    show "map_of (if map_of (ft_dirs s) name = None then ft_dirs s else AList.update name empty_dir (ft_dirs s)) n
        = (if map_of (ft_dirs s) name = None then map_of (ft_dirs s) else (map_of (ft_dirs s))(name \<mapsto> empty_dir)) n" for n
      by (simp only: update_conv' split: if_split) simp
  qed
  from assms(1) [OF P this]
  show "R (bump (s\<lparr>ft_dirs := (if map_of (ft_dirs s) name = None then ft_dirs s else AList.update name empty_dir (ft_dirs s))\<rparr>))"
    by simp
next
  fix s assume P: "P s"
  from assms(1) [OF P after_bump [OF names [OF P]]] show "R (bump s)" by simp
qed

section \<open>Replacing a replica\<close>

text \<open>Identifiers are ordered by the time they were drawn at; the directories that were replaced
  are named by those drawn so far.\<close>

definition uuid_ordered :: "io_ext \<Rightarrow> bool" where
  "uuid_ordered io \<longleftrightarrow> (\<forall>m n. m < n \<longrightarrow> io_uuid io m < io_uuid io n)"

definition tree_ok :: "io_ext \<Rightarrow> string \<Rightarrow> 'z FileTree_scheme \<Rightarrow> bool" where
  "tree_ok io slug s \<longleftrightarrow> distinct_names s \<and> (\<forall>name. dir_of name s \<noteq> None \<longrightarrow> starts_with (previous_prefix slug) name \<longrightarrow>
     (\<exists>n < ft_ticks s. name = previous_prefix slug @ io_uuid io n))"

lemma tree_ok_names: "tree_ok io slug s \<Longrightarrow> distinct_names s"
  by (simp add: tree_ok_def)

lemma tree_ok_after:
  assumes "tree_ok io slug s" and "after s s' F"
    and "\<And>d n. starts_with (previous_prefix slug) n \<Longrightarrow> d n = None \<Longrightarrow> F d n = None"
  shows "tree_ok io slug s'"
  using assms unfolding tree_ok_def after_def by (metis less_SucI)

lemma tree_ok_bump: "tree_ok io slug s \<Longrightarrow> tree_ok io slug (bump s)"
  by (rule tree_ok_after [OF _ after_bump [OF tree_ok_names]])

lemma tree_ok_same: "tree_ok io slug s \<Longrightarrow> same_files s s' \<Longrightarrow> tree_ok io slug s'"
  unfolding tree_ok_def same_files_def by (metis less_le_trans map_option_is_None)

lemma has_files_bump [simp]: "has_files name fs (bump s) = has_files name fs s"
  by (simp add: has_files_def)

lemma has_files_after: "after s s' F \<Longrightarrow> F (\<lambda>m. dir_of m s) name = dir_of name s \<Longrightarrow> has_files name fs s' = has_files name fs s"
  by (simp add: after_def has_files_def)

lemma file_of_write [simp]: "file_of f (write_file g c dir) = (if f = g then Some c else file_of f dir)"
  by (simp add: file_of_def write_file_def update_conv')

lemma has_files_written:
  assumes "has_files name fs s" and "after s s' (\<lambda>d. d(name \<mapsto> write_file file c dir))" and "dir_of name s = Some dir"
    and "file \<notin> fst ` set fs"
  shows "has_files name ((file, c) # fs) s'" and "has_files name fs s'"
  using assms by (auto simp: has_files_def after_def image_iff split_beta)

lemma has_files_nonempty: "has_files name fs s \<Longrightarrow> fs \<noteq> [] \<Longrightarrow> dir_of name s \<noteq> None \<and> dir_of name s \<noteq> Some empty_dir"
  by (cases fs) (auto simp: has_files_def empty_dir_def file_of_def)

end
