(* ===== verification/ReplicaSwap.thy ===== *)
theory ReplicaSwap
  imports ReplicaInv "HOL-Library.List_Lexorder" "HOL-Library.Char_ord"
begin

text \<open>
  Replacing a replica by a revision: whatever fails on the way, the files that were there are in
  the replica's directory or in the one that was set aside last; when nothing fails that matters,
  the replica has the files of the revision.
\<close>

definition revision_files :: "AgentRevision \<Rightarrow> (string \<times> string) list" where
  "revision_files r = [(agent_id_file, rev_agent_id r), (revision_file, show_nat (rev_revision r)),
     (''agent.toml'', rev_config_toml r), (''SOUL.md'', rev_soul r)]"

definition kept :: "string \<Rightarrow> (string \<times> string) list \<Rightarrow> 'z FileTree_scheme \<Rightarrow> bool" where
  "kept slug fs s \<longleftrightarrow> (\<exists>name. (name = slug \<or> starts_with (previous_prefix slug) name) \<and> has_files name fs s)"

section \<open>Names\<close>

lemma starts_with_append [simp]: "starts_with p (p @ s)"
  by (simp add: starts_with_def)

lemma starts_with_iff: "starts_with p s \<longleftrightarrow> (\<exists>t. s = p @ t)"
  unfolding starts_with_def by (metis append_eq_conv_conj append_take_drop_id)

lemma slug_no_previous: "\<not> starts_with (previous_prefix slug) slug"
  by (auto simp: starts_with_iff previous_prefix_def dest: arg_cong [where f = length])

lemma staged_names:
  "\<not> starts_with (previous_prefix slug) (''.'' @ slug @ ''.staged-'' @ u)" "''.'' @ slug @ ''.staged-'' @ u \<noteq> slug"
  by (auto simp: starts_with_iff previous_prefix_def dest: arg_cong [where f = length])

lemma previous_slug: "previous_prefix slug @ u \<noteq> slug"
  using slug_no_previous starts_with_append by metis

lemma append_less_iff: "(xs :: string) @ ys < xs @ zs \<longleftrightarrow> ys < zs"
  by (induction xs) (auto simp: list_less_def)

section \<open>The directory set aside\<close>

definition set_aside :: "io_ext \<Rightarrow> string \<Rightarrow> string \<Rightarrow> 'z FileTree_scheme \<Rightarrow> bool" where
  "set_aside io slug v s \<longleftrightarrow> (\<exists>n < ft_ticks s. v = previous_prefix slug @ io_uuid io n)
     \<and> (\<forall>name. dir_of name s \<noteq> None \<longrightarrow> starts_with (previous_prefix slug) name \<longrightarrow> name \<le> v)"

lemma set_aside_starts: "set_aside io slug v s \<Longrightarrow> starts_with (previous_prefix slug) v"
  by (auto simp: set_aside_def)

lemma set_aside_after:
  assumes "set_aside io slug v s" and "after s s' F"
    and "\<And>d n. starts_with (previous_prefix slug) n \<Longrightarrow> n \<noteq> v \<Longrightarrow> d n = None \<Longrightarrow> F d n = None"
  shows "set_aside io slug v s'"
  using assms unfolding set_aside_def after_def by (metis less_SucI order_refl)

lemma set_aside_same: "set_aside io slug v s \<Longrightarrow> same_files s s' \<Longrightarrow> set_aside io slug v s'"
  unfolding set_aside_def same_files_def by (metis less_le_trans map_option_is_None)

lemma drawn_aside:
  assumes "uuid_ordered io" and "tree_ok io slug s"
  shows "set_aside io slug (previous_prefix slug @ io_uuid io (ft_ticks s)) (bump s)"
    and "dir_of (previous_prefix slug @ io_uuid io (ft_ticks s)) (bump s) = None"
proof -
  let ?v = "previous_prefix slug @ io_uuid io (ft_ticks s)"
  have less: "name < ?v" if "dir_of name s \<noteq> None" "starts_with (previous_prefix slug) name" for name
  proof -
    from assms(2) that obtain n where "n < ft_ticks s" "name = previous_prefix slug @ io_uuid io n" by (auto simp: tree_ok_def)
    with assms(1) show ?thesis by (simp add: append_less_iff uuid_ordered_def)
  qed
  then show "set_aside io slug ?v (bump s)" by (auto simp: set_aside_def intro: less_imp_le)
  from less [of ?v] show "dir_of ?v (bump s) = None" by (cases "dir_of ?v s") auto
qed

section \<open>The phases\<close>

text \<open>The new files are gathered beside the replica; then the replica is set aside.\<close>

definition gathered ::
    "io_ext \<Rightarrow> string \<Rightarrow> (string \<times> string) list \<Rightarrow> string \<Rightarrow> string \<Rightarrow> (string \<times> string) list \<Rightarrow> 'z FileTree_scheme \<Rightarrow> bool" where
  "gathered io slug fs staged v new s \<longleftrightarrow> tree_ok io slug s \<and> set_aside io slug v s \<and> has_files staged new s
     \<and> has_files slug fs s \<and> dir_of v s = None"

definition vacated ::
    "io_ext \<Rightarrow> string \<Rightarrow> (string \<times> string) list \<Rightarrow> string \<Rightarrow> string \<Rightarrow> (string \<times> string) list \<Rightarrow> 'z FileTree_scheme \<Rightarrow> bool" where
  "vacated io slug fs staged v new s \<longleftrightarrow> tree_ok io slug s \<and> set_aside io slug v s \<and> has_files staged new s
     \<and> has_files v fs s"

definition saved :: "io_ext \<Rightarrow> string \<Rightarrow> (string \<times> string) list \<Rightarrow> string \<Rightarrow> 'z FileTree_scheme \<Rightarrow> bool" where
  "saved io slug fs v s \<longleftrightarrow> tree_ok io slug s \<and> set_aside io slug v s \<and> (has_files slug fs s \<or> has_files v fs s)"

definition swapped ::
    "io_ext \<Rightarrow> string \<Rightarrow> (string \<times> string) list \<Rightarrow> string \<Rightarrow> (string \<times> string) list \<Rightarrow> 'z FileTree_scheme \<Rightarrow> bool" where
  "swapped io slug fs v new s \<longleftrightarrow> tree_ok io slug s \<and> set_aside io slug v s \<and> has_files v fs s \<and> has_files slug new s"

lemma saved_kept: "saved io slug fs v s \<Longrightarrow> tree_ok io slug s \<and> kept slug fs s"
  using set_aside_starts by (fastforce simp: saved_def kept_def)

lemma phases_saved:
  "gathered io slug fs staged v new s \<Longrightarrow> saved io slug fs v s"
  "vacated io slug fs staged v new s \<Longrightarrow> saved io slug fs v s"
  "swapped io slug fs v new s \<Longrightarrow> saved io slug fs v s"
  by (simp_all add: gathered_def vacated_def saved_def swapped_def)

lemma tick_same:
  "tree_ok io slug s \<Longrightarrow> after s s' (\<lambda>d. d) \<Longrightarrow> same_files s s'" "tree_ok io slug s \<Longrightarrow> same_files s (bump s)"
  using same_files_bump [OF tree_ok_names] by (simp_all add: after_def same_files_def)

lemma same_none: "same_files s s' \<Longrightarrow> dir_of n s' = None \<longleftrightarrow> dir_of n s = None"
  unfolding same_files_def by (metis map_option_is_None)

lemma gathered_same: "gathered io slug fs staged v new s \<Longrightarrow> same_files s s' \<Longrightarrow> gathered io slug fs staged v new s'"
  using tree_ok_same set_aside_same by (auto simp: gathered_def has_files_same same_none)

lemma vacated_same: "vacated io slug fs staged v new s \<Longrightarrow> same_files s s' \<Longrightarrow> vacated io slug fs staged v new s'"
  using tree_ok_same set_aside_same by (auto simp: vacated_def has_files_same)

lemma saved_same: "saved io slug fs v s \<Longrightarrow> same_files s s' \<Longrightarrow> saved io slug fs v s'"
  using tree_ok_same set_aside_same by (auto simp: saved_def has_files_same)

lemma swapped_same: "swapped io slug fs v new s \<Longrightarrow> same_files s s' \<Longrightarrow> swapped io slug fs v new s'"
  using tree_ok_same set_aside_same by (auto simp: swapped_def has_files_same)

lemma phase_ok:
  "gathered io slug fs staged v new s \<Longrightarrow> tree_ok io slug s" "vacated io slug fs staged v new s \<Longrightarrow> tree_ok io slug s"
  "saved io slug fs v s \<Longrightarrow> tree_ok io slug s" "swapped io slug fs v new s \<Longrightarrow> tree_ok io slug s"
  by (simp_all add: gathered_def vacated_def saved_def swapped_def)


lemma phase_tick:
  "gathered io slug fs staged v new s \<Longrightarrow> after s s' (\<lambda>d. d) \<Longrightarrow> gathered io slug fs staged v new s'"
  "vacated io slug fs staged v new s \<Longrightarrow> after s s' (\<lambda>d. d) \<Longrightarrow> vacated io slug fs staged v new s'"
  "saved io slug fs v s \<Longrightarrow> after s s' (\<lambda>d. d) \<Longrightarrow> saved io slug fs v s'"
proof -
  show "gathered io slug fs staged v new s \<Longrightarrow> after s s' (\<lambda>d. d) \<Longrightarrow> gathered io slug fs staged v new s'"
    by (rule gathered_same [OF _ tick_same(1) [OF phase_ok(1)]])
  show "vacated io slug fs staged v new s \<Longrightarrow> after s s' (\<lambda>d. d) \<Longrightarrow> vacated io slug fs staged v new s'"
    by (rule vacated_same [OF _ tick_same(1) [OF phase_ok(2)]])
  show "saved io slug fs v s \<Longrightarrow> after s s' (\<lambda>d. d) \<Longrightarrow> saved io slug fs v s'"
    by (rule saved_same [OF _ tick_same(1) [OF phase_ok(3)]])
qed

section \<open>Removing what was set aside before\<close>

text \<open>The directory that was set aside last has the greatest name.\<close>

lemma stale_names:
  assumes "tree_ok io slug s" and "set_aside io slug v s" and "dir_of v s \<noteq> None"
  shows "x \<in> set (drop 1 (rev (sort (filter (starts_with (previous_prefix slug)) (map fst (ft_dirs s))))))
    \<Longrightarrow> starts_with (previous_prefix slug) x \<and> x \<noteq> v"
proof -
  let ?names = "filter (starts_with (previous_prefix slug)) (map fst (ft_dirs s))"
  assume x: "x \<in> set (drop 1 (rev (sort ?names)))"
  have "distinct ?names" using assms(1) by (simp add: tree_ok_def distinct_names_def)
  then have "distinct (rev (sort ?names))" by simp
  moreover obtain y ys where eq: "rev (sort ?names) = y # ys" using x by (cases "rev (sort ?names)") auto
  ultimately have y: "y \<notin> set ys" and xs: "x \<in> set ys" using x by auto
  have "set ?names = set (y # ys)" using eq by (metis set_rev set_sort)
  then have names: "z \<in> set (y # ys) \<longleftrightarrow> starts_with (previous_prefix slug) z \<and> dir_of z s \<noteq> None" for z
    by (auto simp: dir_of_def map_of_eq_None_iff)
  then have v: "v \<in> set (y # ys)" using assms(2,3) set_aside_starts by blast
  have "sorted (rev (y # ys))" using eq by (metis rev_rev_ident sorted_sort)
  then have "\<forall>z \<in> set ys. z \<le> y" by (simp add: sorted_append)
  moreover have "y \<le> v" using names [of y] assms(2) by (simp add: set_aside_def)
  ultimately have "v = y" using v by (auto intro: order_antisym)
  with y xs names [of x] show "starts_with (previous_prefix slug) x \<and> x \<noteq> v" by auto
qed

lemma remove_stale:
  assumes "starts_with (previous_prefix slug) x" and "x \<noteq> v"
  shows "hoare (swapped io slug fs v new) (fs_remove_dir_all io x) (\<lambda>_. swapped io slug fs v new) (swapped io slug fs v new)"
proof (rule hoare_remove)
  fix s s' F
  assume P: "swapped io slug fs v new s" and a: "after s s' F" and other: "\<And>d n. n \<noteq> x \<Longrightarrow> F d n = d n"
    and gone: "\<And>d. d x = None \<Longrightarrow> F d x = None"
  have none: "d n = None \<Longrightarrow> F d n = None" for d n using other gone by (cases "n = x") auto
  have "x \<noteq> slug" using assms(1) slug_no_previous by auto
  then have "tree_ok io slug s'" "set_aside io slug v s'" "has_files v fs s'" "has_files slug new s'"
    using P tree_ok_after [OF _ a none] set_aside_after [OF _ a none] has_files_after [OF a] other assms(2)
    by (auto simp: swapped_def)
  then show "swapped io slug fs v new s' \<and> swapped io slug fs v new s'" by (simp add: swapped_def)
qed (blast intro: phase_ok(4) tree_ok_names)

lemma retain_keeps:
  "hoare (swapped io slug fs v new) (retain_previous_directories io slug) (\<lambda>_. swapped io slug fs v new) (swapped io slug fs v new)"
  unfolding retain_previous_directories_def
proof (rule hoare_bind)
  let ?stale = "\<lambda>names. drop 1 (rev (sort (filter (starts_with (previous_prefix slug)) names)))"
  show "hoare (swapped io slug fs v new) (fs_names io)
      (\<lambda>names s. swapped io slug fs v new s \<and> (\<forall>x \<in> set (?stale names). starts_with (previous_prefix slug) x \<and> x \<noteq> v))
      (swapped io slug fs v new)"
  proof (rule hoare_names)
    fix s assume P: "swapped io slug fs v new s"
    then have b: "swapped io slug fs v new (bump s)" using swapped_same tick_same(2) phase_ok(4) by blast
    from P have ok: "tree_ok io slug s" and aside: "set_aside io slug v s" and "dir_of v s \<noteq> None"
      by (auto simp: swapped_def has_files_def)
    with stale_names have stale: "\<forall>x \<in> set (?stale (map fst (ft_dirs s))). starts_with (previous_prefix slug) x \<and> x \<noteq> v" by blast
    show "swapped io slug fs v new (bump s) \<and> (\<forall>x \<in> set (?stale (map fst (ft_dirs s))). starts_with (previous_prefix slug) x \<and> x \<noteq> v)"
      by (rule conjI [OF b stale])
    show "swapped io slug fs v new (bump s)" by (rule b)
  qed
  fix names
  show "hoare (\<lambda>s. swapped io slug fs v new s \<and> (\<forall>x \<in> set (?stale names). starts_with (previous_prefix slug) x \<and> x \<noteq> v))
      (forF (?stale names) (fs_remove_dir_all io)) (\<lambda>_. swapped io slug fs v new) (swapped io slug fs v new)"
  proof (cases "\<forall>x \<in> set (?stale names). starts_with (previous_prefix slug) x \<and> x \<noteq> v")
    case True
    have "hoare (swapped io slug fs v new) (forF (?stale names) (fs_remove_dir_all io))
        (\<lambda>_. swapped io slug fs v new) (swapped io slug fs v new)"
      by (rule hoare_for, rule remove_stale) (use True in blast)+
    then show ?thesis by (rule hoare_pre) (elim conjE)
  next
    case False
    then have "\<not> (swapped io slug fs v new s \<and> (\<forall>x \<in> set (?stale names). starts_with (previous_prefix slug) x \<and> x \<noteq> v))" for s
      by blast
    then show ?thesis unfolding hoare_def by blast
  qed
qed


section \<open>The swap\<close>

lemma aside_after:
  assumes "tree_ok io slug s" and "set_aside io slug v s" and a: "after s s' F"
    and new: "\<And>d n. starts_with (previous_prefix slug) n \<Longrightarrow> n \<noteq> v \<Longrightarrow> d n = None \<Longrightarrow> F d n = None"
  shows "tree_ok io slug s'" and "set_aside io slug v s'"
proof -
  obtain k where k: "k < ft_ticks s" "v = previous_prefix slug @ io_uuid io k" using assms(2) by (auto simp: set_aside_def)
  have "\<exists>n < ft_ticks s'. name = previous_prefix slug @ io_uuid io n"
    if "dir_of name s' \<noteq> None" "starts_with (previous_prefix slug) name" for name
  proof (cases "name = v")
    case True
    with k a show ?thesis by (auto simp: after_def less_Suc_eq)
  next
    case False
    from that(1) a have "F (\<lambda>m. dir_of m s) name \<noteq> None" by (simp add: after_def)
    with new [OF that(2) False, of "\<lambda>m. dir_of m s"] have "dir_of name s \<noteq> None" by blast
    with assms(1) that(2) a show ?thesis by (auto simp: tree_ok_def after_def less_Suc_eq)
  qed
  with a show "tree_ok io slug s'" by (simp add: tree_ok_def after_def)
  show "set_aside io slug v s'" by (rule set_aside_after [OF assms(2) a new])
qed

text \<open>Fresh names: \<open>staged\<close> is not the replica's, and \<open>v\<close> is that of a directory set aside.\<close>

definition swap_names :: "string \<Rightarrow> string \<Rightarrow> string \<Rightarrow> bool" where
  "swap_names slug staged v \<longleftrightarrow> staged \<noteq> slug \<and> \<not> starts_with (previous_prefix slug) staged
     \<and> starts_with (previous_prefix slug) v \<and> v \<noteq> slug \<and> v \<noteq> staged"

lemma swap_names_drawn: "swap_names slug (''.'' @ slug @ ''.staged-'' @ u) (previous_prefix slug @ u')"
  using staged_names [of slug u] previous_slug [of slug u'] starts_with_append [of "previous_prefix slug" u']
  unfolding swap_names_def by metis

lemma write_gathered:
  assumes "swap_names slug staged v" and "file \<notin> fst ` set new"
  shows "hoare (gathered io slug fs staged v new) (fs_write io staged file content)
    (\<lambda>_. gathered io slug fs staged v ((file, content) # new)) (saved io slug fs v)"
proof (rule hoare_write)
  note n = assms(1) [unfolded swap_names_def]
  have keep: "tree_ok io slug s' \<and> set_aside io slug v s' \<and> has_files slug fs s' \<and> dir_of v s' = None"
    if "gathered io slug fs staged v new s" "after s s' (\<lambda>d. d(staged \<mapsto> x))" for s s' x
  proof -
    from that(1) have g: "tree_ok io slug s" "set_aside io slug v s" "has_files slug fs s" "dir_of v s = None"
      by (simp_all add: gathered_def)
    have new: "(d(staged \<mapsto> x)) m = None" if "starts_with (previous_prefix slug) m" "d m = None" for d m using that n by auto
    have "tree_ok io slug s'" "set_aside io slug v s'" using aside_after [OF g(1,2) that(2)] new by blast+
    moreover have "has_files slug fs s'" using g(3) n has_files_after [OF that(2), of slug] by auto
    moreover have "dir_of v s' = None" using g(4) n that(2) by (simp add: after_def)
    ultimately show ?thesis by blast
  qed
  show "gathered io slug fs staged v new s \<Longrightarrow> dir_of staged s = Some dir \<Longrightarrow>
      after s s' (\<lambda>d. d(staged \<mapsto> write_file file content dir)) \<Longrightarrow>
      gathered io slug fs staged v ((file, content) # new) s'" for s s' dir
    using keep [of s s'] has_files_written(1) [OF _ _ _ assms(2), of staged s s' content dir] unfolding gathered_def by blast
  show "gathered io slug fs staged v new s \<Longrightarrow> dir_of staged s = Some dir \<Longrightarrow>
      after s s' (\<lambda>d. d(staged \<mapsto> write_file file c dir)) \<Longrightarrow> saved io slug fs v s'" for s s' dir c
    using keep [of s s'] by (simp add: saved_def)
  show "gathered io slug fs staged v new s \<Longrightarrow> after s s' (\<lambda>d. d) \<Longrightarrow> saved io slug fs v s'" for s s'
    by (rule phases_saved(1) [OF phase_tick(1)])
qed (blast intro: phase_ok(1) tree_ok_names)

text \<open>Setting the replica aside, and moving it back\<close>

lemma rename_aside:
  assumes "swap_names slug staged v"
  shows "hoare (gathered io slug fs staged v new) (fs_rename io slug v) (\<lambda>_. vacated io slug fs staged v new) (saved io slug fs v)"
proof (rule hoare_rename)
  note n = assms [unfolded swap_names_def]
  show "vacated io slug fs staged v new s'"
    if g: "gathered io slug fs staged v new s" and dir: "dir_of slug s = Some dir" and a: "after s s' (\<lambda>d. d(slug := None, v := Some dir))"
    for s s' dir
  proof -
    from g have p: "tree_ok io slug s" "set_aside io slug v s" "has_files staged new s" by (simp_all add: gathered_def)
    have new: "(d(slug := None, v := Some dir)) m = None" if "m \<noteq> v" "d m = None" for d m using that by auto
    have "tree_ok io slug s'" "set_aside io slug v s'" using aside_after [OF p(1,2) a] new by blast+
    moreover have "has_files v fs s'" using g dir a by (auto simp: gathered_def has_files_def after_def)
    moreover have "has_files staged new s'" using p(3) n has_files_after [OF a, of staged] by auto
    ultimately show ?thesis by (simp add: vacated_def)
  qed
  show "gathered io slug fs staged v new s \<Longrightarrow> after s s' (\<lambda>d. d) \<Longrightarrow> saved io slug fs v s'" for s s'
    by (rule phases_saved(1) [OF phase_tick(1)])
qed (use assms in \<open>auto simp: swap_names_def intro: phase_ok(1) tree_ok_names\<close>)

lemma rename_back:
  assumes "fs \<noteq> []" and "v \<noteq> slug" and "starts_with (previous_prefix slug) v"
  shows "hoare (saved io slug fs v) (fs_rename io v slug) (\<lambda>_. saved io slug fs v) (saved io slug fs v)"
proof (rule hoare_rename)
  show "saved io slug fs v s'"
    if g: "saved io slug fs v s" and dir: "dir_of v s = Some dir" and free: "dir_of slug s = None \<or> dir_of slug s = Some empty_dir"
      and a: "after s s' (\<lambda>d. d(v := None, slug := Some dir))" for s s' dir
  proof -
    have "\<not> has_files slug fs s" using has_files_nonempty [of slug fs s] assms(1) free by auto
    then have "has_files v fs s" using g by (simp add: saved_def)
    then have "has_files slug fs s'" using dir a by (auto simp: has_files_def after_def)
    moreover have new: "(d(v := None, slug := Some dir)) m = None" if "starts_with (previous_prefix slug) m" "d m = None" for d m
      using that slug_no_previous by auto
    have "tree_ok io slug s'" "set_aside io slug v s'" using g aside_after [OF _ _ a] new unfolding saved_def by blast+
    ultimately show ?thesis by (simp add: saved_def)
  qed
  show "saved io slug fs v s \<Longrightarrow> after s s' (\<lambda>d. d) \<Longrightarrow> saved io slug fs v s'" for s s'
    by (rule phase_tick(3))
qed (use assms in \<open>auto intro: phase_ok(3) tree_ok_names\<close>)

text \<open>The replica's directory may also be there still, when the system said that it is not.\<close>

lemma rename_in:
  assumes "swap_names slug staged v" and "fs \<noteq> []"
  shows "hoare (\<lambda>s. gathered io slug fs staged v new s \<or> vacated io slug fs staged v new s) (fs_rename io staged slug)
    (\<lambda>_. swapped io slug fs v new) (saved io slug fs v)"
proof (rule hoare_rename)
  note n = assms(1) [unfolded swap_names_def]
  show "swapped io slug fs v new s'"
    if g: "gathered io slug fs staged v new s \<or> vacated io slug fs staged v new s" and dir: "dir_of staged s = Some dir"
      and free: "dir_of slug s = None \<or> dir_of slug s = Some empty_dir"
      and a: "after s s' (\<lambda>d. d(staged := None, slug := Some dir))" for s s' dir
  proof -
    have "\<not> has_files slug fs s" using has_files_nonempty [of slug fs s] assms(2) free by auto
    with g have vac: "vacated io slug fs staged v new s" by (auto simp: gathered_def)
    then have "has_files slug new s'" using dir a by (auto simp: has_files_def after_def vacated_def)
    moreover have new: "(d(staged := None, slug := Some dir)) m = None" if "starts_with (previous_prefix slug) m" "d m = None" for d m
      using that slug_no_previous by auto
    have "tree_ok io slug s'" "set_aside io slug v s'" using vac aside_after [OF _ _ a] new unfolding vacated_def by blast+
    moreover have "has_files v fs s'" using vac n has_files_after [OF a, of v] by (auto simp: vacated_def)
    ultimately show ?thesis by (simp add: swapped_def)
  qed
  show "saved io slug fs v s'" if "gathered io slug fs staged v new s \<or> vacated io slug fs staged v new s" "after s s' (\<lambda>d. d)" for s s'
    using that(1) phases_saved(1) [OF phase_tick(1) [OF _ that(2)]] phases_saved(2) [OF phase_tick(2) [OF _ that(2)]] by blast
qed (use assms in \<open>auto simp: swap_names_def intro: phase_ok(1,2) tree_ok_names\<close>)


lemma gather_files:
  assumes "swap_names slug staged v"
  shows "hoare (\<lambda>s. tree_ok io slug s \<and> set_aside io slug v s \<and> has_files slug fs s \<and> dir_of v s = None)
    (stage_revision io staged r) (\<lambda>_. gathered io slug fs staged v (revision_files r)) (saved io slug fs v)"
  unfolding stage_revision_def revision_files_def
proof (rule hoare_bind)
  let ?P = "\<lambda>s. tree_ok io slug s \<and> set_aside io slug v s \<and> has_files slug fs s \<and> dir_of v s = None"
  note n = assms [unfolded swap_names_def]
  show "hoare ?P (fs_create_dir io staged) (\<lambda>_. gathered io slug fs staged v []) (saved io slug fs v)"
  proof (rule hoare_create_dir)
    show "gathered io slug fs staged v [] s'" if P: "?P s" and a: "after s s' (\<lambda>d. d(staged \<mapsto> empty_dir))" for s s'
    proof -
      have new: "(d(staged \<mapsto> empty_dir)) m = None" if "starts_with (previous_prefix slug) m" "d m = None" for d m
        using that n by auto
      have "tree_ok io slug s'" "set_aside io slug v s'" using P aside_after [OF _ _ a] new by blast+
      moreover have "has_files slug fs s'" using P n has_files_after [OF a, of slug] by auto
      ultimately show ?thesis using P n a by (auto simp: gathered_def has_files_def after_def)
    qed
    show "saved io slug fs v s'" if P: "?P s" and a: "after s s' (\<lambda>d. d)" for s s'
      by (rule phase_tick(3) [OF _ a]) (use P in \<open>simp add: saved_def\<close>)
  qed (blast intro: tree_ok_names)
  show "hoare (gathered io slug fs staged v [])
     (bindF (fs_write io staged ''SOUL.md'' (rev_soul r)) (\<lambda>_.
      bindF (fs_write io staged ''agent.toml'' (rev_config_toml r)) (\<lambda>_.
      bindF (fs_write io staged revision_file (show_nat (rev_revision r))) (\<lambda>_.
      fs_write io staged agent_id_file (rev_agent_id r)))))
     (\<lambda>_. gathered io slug fs staged v [(agent_id_file, rev_agent_id r), (revision_file, show_nat (rev_revision r)),
       (''agent.toml'', rev_config_toml r), (''SOUL.md'', rev_soul r)]) (saved io slug fs v)"
    by (intro hoare_bind [OF write_gathered [OF assms]] write_gathered [OF assms])
      (simp_all add: revision_file_def agent_id_file_def)
qed

lemma phase_bump:
  "gathered io slug fs staged v new s \<Longrightarrow> gathered io slug fs staged v new (bump s)"
  "vacated io slug fs staged v new s \<Longrightarrow> vacated io slug fs staged v new (bump s)"
  "saved io slug fs v s \<Longrightarrow> saved io slug fs v (bump s)"
  "swapped io slug fs v new s \<Longrightarrow> swapped io slug fs v new (bump s)"
proof -
  show "gathered io slug fs staged v new s \<Longrightarrow> gathered io slug fs staged v new (bump s)"
    by (rule gathered_same [OF _ tick_same(2) [OF phase_ok(1)]])
  show "vacated io slug fs staged v new s \<Longrightarrow> vacated io slug fs staged v new (bump s)"
    by (rule vacated_same [OF _ tick_same(2) [OF phase_ok(2)]])
  show "saved io slug fs v s \<Longrightarrow> saved io slug fs v (bump s)"
    by (rule saved_same [OF _ tick_same(2) [OF phase_ok(3)]])
  show "swapped io slug fs v new s \<Longrightarrow> swapped io slug fs v new (bump s)"
    by (rule swapped_same [OF _ tick_same(2) [OF phase_ok(4)]])
qed

lemma set_aside_spec:
  assumes "swap_names slug staged v" and "fs \<noteq> []"
  shows "hoare (gathered io slug fs staged v new) (set_replica_aside io slug staged v)
    (\<lambda>_. vacated io slug fs staged v new) (saved io slug fs v)"
  unfolding set_replica_aside_def
proof (rule hoare_bind [OF rename_aside [OF assms(1)] hoare_catch])
  show "hoare (vacated io slug fs staged v new) (move_local_resources io v staged) (\<lambda>_. vacated io slug fs staged v new) (saved io slug fs v)"
  proof (rule hoare_move_local)
    show "vacated io slug fs staged v new s' \<and> saved io slug fs v s'"
      if "vacated io slug fs staged v new s" "same_files s s'" for s s'
      using vacated_same [OF that] phases_saved(2) by blast
  qed (blast intro: phase_ok(2) tree_ok_names)
  fix e
  show "hoare (saved io slug fs v) (bindF (ignoreF (fs_rename io v slug)) (\<lambda>_. failF e)) (\<lambda>_. vacated io slug fs staged v new) (saved io slug fs v)"
    by (rule hoare_bind [OF hoare_ignore [OF rename_back] hoare_fail])
      (use assms in \<open>auto simp: swap_names_def\<close>)
qed

lemma move_in_spec:
  assumes "swap_names slug staged v" and "fs \<noteq> []"
  shows "hoare (\<lambda>s. gathered io slug fs staged v new s \<or> vacated io slug fs staged v new s)
    (catchF (fs_rename io staged slug) (\<lambda>e.
       bindF (fs_exists io v) (\<lambda>saved.
       bindF (if saved then bindF (ignoreF (move_local_resources io staged v)) (\<lambda>_. ignoreF (fs_rename io v slug)) else retF ())
       (\<lambda>_. failF e))))
    (\<lambda>_. swapped io slug fs v new) (saved io slug fs v)"
proof (rule hoare_catch [OF rename_in [OF assms]])
  fix e
  note n = assms(1) [unfolded swap_names_def]
  have asks: "hoare (saved io slug fs v) (fs_exists io v) (\<lambda>_. saved io slug fs v) (saved io slug fs v)"
    unfolding fs_exists_def by (rule hoare_ask) (rule phase_bump(3))
  have moves: "hoare (saved io slug fs v) (move_local_resources io staged v) (\<lambda>_. saved io slug fs v) (saved io slug fs v)"
    by (rule hoare_move_local) (blast intro: saved_same phase_ok(3) tree_ok_names)+
  have returns: "hoare (saved io slug fs v) (fs_rename io v slug) (\<lambda>_. saved io slug fs v) (saved io slug fs v)"
    using n assms(2) by (intro rename_back) auto
  have undoes: "hoare (saved io slug fs v)
      (if b then bindF (ignoreF (move_local_resources io staged v)) (\<lambda>_. ignoreF (fs_rename io v slug)) else retF ())
      (\<lambda>_. saved io slug fs v) (saved io slug fs v)" for b
    by (intro hoare_if hoare_bind [OF hoare_ignore [OF moves]] hoare_ignore [OF returns] hoare_ret)
  show "hoare (saved io slug fs v) (bindF (fs_exists io v) (\<lambda>saved.
       bindF (if saved then bindF (ignoreF (move_local_resources io staged v)) (\<lambda>_. ignoreF (fs_rename io v slug)) else retF ())
       (\<lambda>_. failF e))) (\<lambda>_. swapped io slug fs v new) (saved io slug fs v)"
    by (intro hoare_bind [OF asks] hoare_bind [OF undoes] hoare_fail)
qed

text \<open>The files that were there are kept, and success means that the revision is in place.\<close>

lemma materialize_spec:
  assumes "uuid_ordered io" and "fs \<noteq> []"
  shows "hoare (\<lambda>s. tree_ok io slug s \<and> has_files slug fs s) (materialize io slug r)
    (\<lambda>_ s. tree_ok io slug s \<and> kept slug fs s \<and> has_files slug (revision_files r) s)
    (\<lambda>s. tree_ok io slug s \<and> kept slug fs s)"
proof -
  let ?P = "\<lambda>s. tree_ok io slug s \<and> has_files slug fs s"
  let ?R = "\<lambda>s. tree_ok io slug s \<and> kept slug fs s"
  let ?Q = "\<lambda>s. tree_ok io slug s \<and> kept slug fs s \<and> has_files slug (revision_files r) s"
  have rest: "hoare (\<lambda>s. tree_ok io slug s \<and> set_aside io slug v s \<and> has_files slug fs s \<and> dir_of v s = None)
      (bindF (stage_revision io staged r) (\<lambda>_.
       bindF (forF definition_files (\<lambda>file. bindF (fs_open io staged file) (\<lambda>_. fs_sync io))) (\<lambda>_.
       bindF (fs_sync io) (\<lambda>_.
       bindF (fs_exists io slug) (\<lambda>present.
       bindF (if present then set_replica_aside io slug staged v else retF ()) (\<lambda>_.
       bindF (catchF (fs_rename io staged slug) (\<lambda>e.
              bindF (fs_exists io v) (\<lambda>saved.
              bindF (if saved then bindF (ignoreF (move_local_resources io staged v)) (\<lambda>_. ignoreF (fs_rename io v slug)) else retF ())
              (\<lambda>_. failF e)))) (\<lambda>_.
       bindF (fs_sync io) (\<lambda>_.
       retain_previous_directories io slug)))))))) (\<lambda>_. ?Q) ?R"
    if n: "swap_names slug staged v" for staged v
  proof -
    let ?g = "gathered io slug fs staged v (revision_files r)" and ?v = "vacated io slug fs staged v (revision_files r)"
    have sync: "hoare ?g (fs_sync io) (\<lambda>_. ?g) (saved io slug fs v)"
      by (rule hoare_sync) (blast intro: phase_bump(1) phases_saved(1))
    have open_sync: "hoare ?g (bindF (fs_open io staged x) (\<lambda>_. fs_sync io)) (\<lambda>_. ?g) ?g" for x
      by (rule hoare_bind [where Q' = "\<lambda>_. ?g", OF hoare_open hoare_sync]) (blast intro: phase_bump(1))+
    have opens: "hoare ?g (forF definition_files (\<lambda>file. bindF (fs_open io staged file) (\<lambda>_. fs_sync io))) (\<lambda>_. ?g) (saved io slug fs v)"
      by (rule hoare_weaken [OF hoare_for [OF open_sync]]) (blast intro: phases_saved(1))+
    have asks: "hoare ?g (fs_exists io slug) (\<lambda>_. ?g) (saved io slug fs v)"
      unfolding fs_exists_def by (rule hoare_ask) (rule phase_bump(1))
    have asides: "hoare ?g (if present then set_replica_aside io slug staged v else retF ()) (\<lambda>_ s. ?g s \<or> ?v s) (saved io slug fs v)" for present
      by (rule hoare_if) (blast intro: hoare_weaken [OF set_aside_spec [OF n assms(2)]] hoare_ret)+
    have last: "hoare (swapped io slug fs v (revision_files r)) (bindF (fs_sync io) (\<lambda>_. retain_previous_directories io slug))
        (\<lambda>_. swapped io slug fs v (revision_files r)) (saved io slug fs v)"
    proof (rule hoare_bind)
      let ?s = "swapped io slug fs v (revision_files r)"
      show "hoare ?s (fs_sync io) (\<lambda>_. ?s) (saved io slug fs v)"
        by (rule hoare_sync) (blast intro: phase_bump(4) phases_saved(3))
      show "hoare ?s (retain_previous_directories io slug) (\<lambda>_. ?s) (saved io slug fs v)"
        by (rule hoare_weaken [OF retain_keeps]) (blast intro: phases_saved(3))+
    qed
    show ?thesis
    proof (rule hoare_weaken [where P = "\<lambda>s. tree_ok io slug s \<and> set_aside io slug v s \<and> has_files slug fs s \<and> dir_of v s = None"])
      show "swapped io slug fs v (revision_files r) s \<Longrightarrow> ?Q s" for s
        using saved_kept [OF phases_saved(3)] by (simp add: swapped_def) blast
      show "saved io slug fs v s \<Longrightarrow> ?R s" for s by (rule saved_kept)
    qed (intro hoare_bind [OF gather_files [OF n]] hoare_bind [OF opens] hoare_bind [OF sync] hoare_bind [OF asks]
        hoare_bind [OF asides] hoare_bind [OF move_in_spec [OF n assms(2)]] last, assumption)
  qed
  have start: "hoare ?P (fs_uuid io) (\<lambda>_. ?P) ?R"
    by (rule hoare_uuid) (simp add: tree_ok_bump)
  have draw: "hoare ?P (fs_uuid io) (\<lambda>u s. tree_ok io slug s \<and> set_aside io slug (previous_prefix slug @ u) s
      \<and> has_files slug fs s \<and> dir_of (previous_prefix slug @ u) s = None) ?R"
    using drawn_aside [OF assms(1)] by (intro hoare_uuid) (auto simp: tree_ok_bump)
  show ?thesis unfolding materialize_def Let_def
    by (intro hoare_bind [OF start] hoare_bind [OF draw] rest swap_names_drawn)
qed

end
