(* ===== verification/ReplicaSync.thy ===== *)
theory ReplicaSync
  imports ReplicaSwap CommandProps
begin

text \<open>
  Synchronizing a replica: no failure loses its text, and a synchronization that returns leaves
  the replica equal to the current revision of the Agent in the store.
\<close>

section \<open>What the operations on the store and on one replica do\<close>

lemma db_fields [simp]:
  "ft_dirs (s\<lparr>ha_db := d\<rparr>) = ft_dirs s" "ft_ticks (s\<lparr>ha_db := d\<rparr>) = ft_ticks s" "ha_db (bump s) = ha_db s"
  "dir_of name (s\<lparr>ha_db := d\<rparr>) = dir_of name s" "has_files name fs (s\<lparr>ha_db := d\<rparr>) = has_files name fs s"
  "tree_ok io slug (s\<lparr>ha_db := d\<rparr>) = tree_ok io slug s" "kept slug fs (s\<lparr>ha_db := d\<rparr>) = kept slug fs s"
  by (simp_all add: bump_def dir_of_def has_files_def tree_ok_def distinct_names_def kept_def)

lemma hoare_look: "(\<And>s x. P s \<Longrightarrow> f (ha_db s) = Inr x \<Longrightarrow> Q x s) \<Longrightarrow> (\<And>s. P s \<Longrightarrow> R s) \<Longrightarrow> hoare P (lookF f) Q R"
  by (auto simp: hoare_def lookF_def split: sum.splits)

lemma hoare_store:
  "(\<And>s x d. P s \<Longrightarrow> f (ha_db s) = Inr (x, d) \<Longrightarrow> Q x (s\<lparr>ha_db := d\<rparr>)) \<Longrightarrow> (\<And>s. P s \<Longrightarrow> R s) \<Longrightarrow> hoare P (storeF f) Q R"
  by (auto simp: hoare_def storeF_def split: sum.splits)

lemma hoare_ok: "hoare P m (\<lambda>x. Q (Some x)) (Q None) \<Longrightarrow> hoare P (okF m) Q R"
  by (fastforce simp: hoare_def okF_def split: prod.splits sum.splits)

lemma hoare_case_option:
  "(x = None \<Longrightarrow> hoare P m Q R) \<Longrightarrow> (\<And>y. x = Some y \<Longrightarrow> hoare P (f y) Q R) \<Longrightarrow>
    hoare P (case x of None \<Rightarrow> m | Some y \<Rightarrow> f y) Q R"
  by (cases x) auto

lemma has_files_Cons:
  "has_files name ((f, c) # fs) s \<longleftrightarrow> has_files name fs s \<and> (\<exists>dir. dir_of name s = Some dir \<and> file_of f dir = Some c)"
  by (auto simp: has_files_def)

text \<open>A replica with some known files, and the database\<close>

definition replica :: "io_ext \<Rightarrow> string \<Rightarrow> (string \<times> string) list \<Rightarrow> (db \<Rightarrow> bool) \<Rightarrow> 'h HubApp \<Rightarrow> bool" where
  "replica io slug fs D s \<longleftrightarrow> tree_ok io slug s \<and> has_files slug fs s \<and> D (ha_db s)"

lemma replica_same: "replica io slug fs D s \<Longrightarrow> same_files s s' \<Longrightarrow> ha_db s' = ha_db s \<Longrightarrow> replica io slug fs D s'"
  using tree_ok_same by (auto simp: replica_def has_files_same)

lemma replica_bump: "replica io slug fs D s \<Longrightarrow> replica io slug fs D (bump s)"
  by (simp add: replica_def tree_ok_bump)


section \<open>The file tree alone\<close>

text \<open>Operations on the file tree leave the database alone.\<close>

definition files_only :: "('h HubApp, 'a) files \<Rightarrow> bool" where
  "files_only m \<longleftrightarrow> (\<forall>s. ha_db (snd (m s)) = ha_db s)"

lemma files_only_basic [intro!, simp]:
  "files_only (retF x)" "files_only (failF e)" "files_only (requireF b t)" "files_only (lookF f)"
  by (auto simp: files_only_def retF_def failF_def requireF_def lookF_def split: sum.splits)

lemma files_only_bind [intro!]: "files_only m \<Longrightarrow> (\<And>x. files_only (f x)) \<Longrightarrow> files_only (bindF m f)"
  unfolding files_only_def bindF_def by (auto split: prod.splits sum.splits) (metis snd_conv)+

lemma files_only_catch [intro!]: "files_only m \<Longrightarrow> (\<And>e. files_only (h e)) \<Longrightarrow> files_only (catchF m h)"
  unfolding files_only_def catchF_def by (auto split: prod.splits sum.splits) (metis snd_conv)+

lemma files_only_ignore [intro!]: "files_only m \<Longrightarrow> files_only (ignoreF m)"
  by (simp add: files_only_def ignoreF_def)

lemma files_only_ok [intro!]: "files_only m \<Longrightarrow> files_only (okF m)"
  unfolding files_only_def okF_def by (auto split: prod.splits sum.splits) (metis snd_conv)+

lemma files_only_if [intro!]: "files_only m \<Longrightarrow> files_only m' \<Longrightarrow> files_only (if b then m else m')"
  by simp

lemma files_only_for [intro!]: "(\<And>x. files_only (f x)) \<Longrightarrow> files_only (forF xs f)"
  by (induction xs) auto

lemma files_only_act: "files_only (fs_act io act torn)"
  by (auto simp: files_only_def fs_act_def bump_def split: option.splits)

lemma files_only_fs [intro!, simp]:
  "files_only (fs_write io name f c)" "files_only (fs_create_dir_all io name)" "files_only (fs_create_dir io name)"
  "files_only (fs_rename io a b)" "files_only (fs_move_resource io r a b)" "files_only (fs_open io name f)"
  "files_only (fs_sync io)" "files_only (fs_remove_dir_all io name)"
  by (simp_all add: fs_write_def fs_create_dir_all_def fs_create_dir_def fs_rename_def fs_move_resource_def fs_open_def
      fs_sync_def fs_remove_dir_all_def files_only_act)

lemma files_only_asks [intro!, simp]:
  "files_only (fs_exists io name)" "files_only (fs_file_exists io name f)" "files_only (fs_resource_exists io name r)"
  "files_only (fs_read io name f)" "files_only (fs_names io)" "files_only (fs_uuid io)"
  by (auto simp: files_only_def fs_exists_def fs_file_exists_def fs_resource_exists_def fs_ask_def fs_read_def fs_names_def
      fs_uuid_def bump_def split: option.splits)

lemma files_only_move: "files_only (move_resources io from to moved names)"
  by (induction names arbitrary: moved) auto

lemma files_only_materialize: "files_only (materialize io slug r)"
  by (auto simp: materialize_def stage_revision_def set_replica_aside_def retain_previous_directories_def
      move_local_resources_def Let_def intro!: files_only_move)

lemma hoare_files_only:
  assumes "hoare P m Q R" and "files_only m"
  shows "hoare (\<lambda>s. P s \<and> D (ha_db s)) m (\<lambda>x s. Q x s \<and> D (ha_db s)) (\<lambda>s. R s \<and> D (ha_db s))"
  using assms unfolding hoare_def files_only_def
  by (auto split: prod.splits sum.splits) (metis snd_conv)+

section \<open>The steps of a synchronization\<close>

lemma replica_materialize:
  assumes "uuid_ordered io" and "fs \<noteq> []"
  shows "hoare (replica io slug fs D) (materialize io slug r)
    (\<lambda>_ s. replica io slug (revision_files r) D s \<and> kept slug fs s) (\<lambda>s. tree_ok io slug s \<and> kept slug fs s)"
  by (rule hoare_weaken [OF hoare_files_only [OF materialize_spec [OF assms] files_only_materialize, of slug D]])
    (auto simp: replica_def)

lemma replica_kept: "replica io slug fs D s \<Longrightarrow> tree_ok io slug s \<and> kept slug fs s"
  by (auto simp: replica_def kept_def)

lemma replica_fewer: "replica io slug (x # fs) D s \<Longrightarrow> replica io slug fs D s"
  by (cases x) (simp add: replica_def has_files_Cons)

lemma replica_ask:
  "hoare (replica io slug fs D) (fs_file_exists io' name f) (\<lambda>_. replica io slug fs D) R"
  unfolding fs_file_exists_def by (rule hoare_ask) (rule replica_bump)

lemma replica_read:
  assumes "\<And>s. replica io slug fs D s \<Longrightarrow> R s"
  shows "hoare (replica io slug fs D) (fs_read io' slug f) (\<lambda>c. replica io slug ((f, c) # fs) D) R"
proof (rule hoare_read)
  show "replica io slug ((f, c) # fs) D (bump s)"
    if "replica io slug fs D s" "dir_of slug s = Some dir" "file_of f dir = Some c" for s dir c
    using replica_bump [OF that(1)] that(2,3) by (simp add: replica_def has_files_Cons)
qed (blast intro: assms replica_bump)

lemma tree_write:
  assumes "f \<notin> fst ` set fs"
  shows "hoare (\<lambda>s. tree_ok io slug s \<and> has_files slug fs s) (fs_write io' slug f c)
    (\<lambda>_ s. tree_ok io slug s \<and> has_files slug ((f, c) # fs) s) (\<lambda>s. tree_ok io slug s \<and> has_files slug fs s)"
proof -
  have new: "(d(slug \<mapsto> x)) m = None" if "starts_with (previous_prefix slug) m" "d m = None" for d m and x :: AgentDir
    using that slug_no_previous by auto
  have wrote: "tree_ok io slug s' \<and> has_files slug ((f, c') # fs) s' \<and> has_files slug fs s'"
    if "tree_ok io slug s \<and> has_files slug fs s" "dir_of slug s = Some dir" "after s s' (\<lambda>d. d(slug \<mapsto> write_file f c' dir))"
    for s s' :: "'a FileTree_scheme" and dir c'
    using tree_ok_after [OF conjunct1 [OF that(1)] that(3) new] has_files_written [OF conjunct2 [OF that(1)] that(3,2) assms]
    by blast
  show ?thesis
  proof (rule hoare_write)
    show "tree_ok io slug s' \<and> has_files slug fs s'"
      if "tree_ok io slug s \<and> has_files slug fs s" "after s s' (\<lambda>d. d)" for s s' :: "'a FileTree_scheme"
      using tree_ok_after [OF conjunct1 [OF that(1)] that(2)] has_files_after [OF that(2), of slug fs] that(1) by blast
  qed (use wrote in \<open>blast intro: tree_ok_names\<close>)+
qed

lemma replica_write:
  assumes "f \<notin> fst ` set fs" and "\<And>s. replica io slug fs D s \<Longrightarrow> R s"
  shows "hoare (replica io slug fs D) (fs_write io' slug f c) (\<lambda>_. replica io slug ((f, c) # fs) D) R"
  by (rule hoare_weaken [OF hoare_files_only [OF tree_write [OF assms(1), of io slug io' c] files_only_fs(1), of D]])
    (auto simp: replica_def intro: assms(2))


section \<open>Nothing is lost\<close>

definition definition_texts :: "string \<Rightarrow> string \<Rightarrow> (string \<times> string) list" where
  "definition_texts soul config = [(''SOUL.md'', soul), (''agent.toml'', config)]"

definition texts_kept :: "io_ext \<Rightarrow> string \<Rightarrow> string \<Rightarrow> string \<Rightarrow> 'z FileTree_scheme \<Rightarrow> bool" where
  "texts_kept io slug soul config s \<longleftrightarrow> tree_ok io slug s \<and> kept slug (definition_texts soul config) s"

abbreviation texts_there :: "io_ext \<Rightarrow> string \<Rightarrow> string \<Rightarrow> string \<Rightarrow> 'h HubApp \<Rightarrow> bool" where
  "texts_there io slug soul config \<equiv> replica io slug (definition_texts soul config) (\<lambda>_. True)"

lemma there_kept: "texts_there io slug soul config s \<Longrightarrow> texts_kept io slug soul config s"
  by (simp add: texts_kept_def replica_kept)

lemma definition_nonempty: "definition_texts soul config \<noteq> []"
  by (simp add: definition_texts_def)

lemma other_files:
  "f \<noteq> ''SOUL.md'' \<Longrightarrow> f \<noteq> ''agent.toml'' \<Longrightarrow> f \<notin> fst ` set (definition_texts soul config)"
  by (simp add: definition_texts_def)

lemma there_rules:
  fixes io slug soul config
  defines "W \<equiv> texts_there io slug soul config" and "R \<equiv> texts_kept io slug soul config"
  shows "hoare W (lookF f) (\<lambda>_. W) R" and "hoare W (retF x) (\<lambda>_. R) R" and "hoare W (failF e) Q R"
    and "hoare W (requireF b t) (\<lambda>_. W) R"
    and "hoare W (fs_file_exists io' name file_name) (\<lambda>_. W) R" and "hoare W (fs_read io' slug file_name) (\<lambda>_. W) R"
    and "hoare W (storeF g) (\<lambda>_. W) R"
    and "f1 \<noteq> ''SOUL.md'' \<Longrightarrow> f1 \<noteq> ''agent.toml'' \<Longrightarrow> hoare W (fs_write io' slug f1 c) (\<lambda>_. W) R"
    and "uuid_ordered io \<Longrightarrow> hoare W (materialize io slug r) (\<lambda>_. R) R"
proof -
  have kept: "W s \<Longrightarrow> R s" for s unfolding W_def R_def by (rule there_kept)
  show "hoare W (lookF f) (\<lambda>_. W) R" by (rule hoare_look) (simp_all add: kept)
  show "hoare W (retF x) (\<lambda>_. R) R" by (rule hoare_ret) (rule kept)
  show "hoare W (failF e) Q R" by (rule hoare_fail) (rule kept)
  show "hoare W (requireF b t) (\<lambda>_. W) R" by (rule hoare_require) (simp_all add: kept)
  show "hoare W (fs_file_exists io' name file_name) (\<lambda>_. W) R" unfolding W_def by (rule replica_ask)
  show "hoare W (fs_read io' slug file_name) (\<lambda>_. W) R" unfolding W_def
    by (rule hoare_weaken [OF replica_read [where R = R]]) (auto intro: kept [unfolded W_def] replica_fewer)
  show "hoare W (storeF g) (\<lambda>_. W) R" by (rule hoare_store) (simp_all add: kept, simp add: W_def replica_def)
  show "hoare W (fs_write io' slug f1 c) (\<lambda>_. W) R" if "f1 \<noteq> ''SOUL.md''" "f1 \<noteq> ''agent.toml''" unfolding W_def
    by (rule hoare_weaken [OF replica_write [where R = R, OF other_files [OF that]]]) (auto intro: kept [unfolded W_def] replica_fewer)
  show "hoare W (materialize io slug r) (\<lambda>_. R) R" if "uuid_ordered io" unfolding W_def R_def
    by (rule hoare_weaken [OF replica_materialize [OF that definition_nonempty]]) (auto simp: texts_kept_def replica_def)
qed

lemma kept_rules:
  "hoare (texts_kept io slug soul config) (retF x) (\<lambda>_. texts_kept io slug soul config) (texts_kept io slug soul config)"
  "hoare (texts_kept io slug soul config) (failF e) Q (texts_kept io slug soul config)"
  by (simp_all add: hoare_ret hoare_fail)

lemma restore_keeps:
  assumes "uuid_ordered io"
  shows "hoare (texts_there io slug soul config) (restore_replica io slug a current)
    (\<lambda>_. texts_kept io slug soul config) (texts_kept io slug soul config)"
proof -
  let ?W = "texts_there io slug soul config" and ?R = "texts_kept io slug soul config"
  have ret: "hoare ?W (retF x) (\<lambda>_. ?W) ?R" for x :: bool by (rule hoare_ret)
  have edit: "hoare ?W (if b then bindF (fs_read io slug ''SOUL.md'') (\<lambda>soul. retF (trim_end soul \<noteq> trim_end (rev_soul current)))
      else bindF (fs_file_exists io slug ''agent.toml'') (\<lambda>has_config. if has_config
        then bindF (fs_read io slug ''agent.toml'') (\<lambda>config. retF (config \<noteq> rev_config_toml current)) else retF False))
      (\<lambda>_. ?W) ?R" for b
    by (intro hoare_if hoare_bind [OF there_rules(5)] hoare_bind [OF there_rules(6)] ret)
  show ?thesis unfolding restore_replica_def
    by (intro hoare_bind [OF there_rules(5)] hoare_bind [OF edit] hoare_bind [OF there_rules(4)]
        hoare_bind [OF there_rules(9) [OF assms]] kept_rules)
qed

lemma conflict_names:
  "''SOUL.conflict-'' @ t @ ''.md'' \<noteq> ''SOUL.md''" "''SOUL.conflict-'' @ t @ ''.md'' \<noteq> ''agent.toml''"
  "''agent.conflict-'' @ t @ ''.toml'' \<noteq> ''SOUL.md''" "''agent.conflict-'' @ t @ ''.toml'' \<noteq> ''agent.toml''"
  "revision_file \<noteq> ''SOUL.md''" "revision_file \<noteq> ''agent.toml''" "agent_id_file \<noteq> ''SOUL.md''" "agent_id_file \<noteq> ''agent.toml''"
  by (simp_all add: revision_file_def agent_id_file_def)

lemma conflict_keeps:
  "hoare (texts_there io slug soul config) (conflict_files io slug t sl cf) (\<lambda>_. texts_there io slug soul config) (texts_kept io slug soul config)"
  unfolding conflict_files_def
  by (intro hoare_bind [OF there_rules(8)] there_rules(8)) (simp_all add: conflict_names)

lemma reconcile_keeps:
  assumes "uuid_ordered io"
  shows "hoare (texts_there io slug soul config) (reconcile X io ctx slug a current sl cf n)
    (\<lambda>_. texts_kept io slug soul config) (texts_kept io slug soul config)"
proof -
  let ?W = "texts_there io slug soul config" and ?R = "texts_kept io slug soul config"
  have ends: "hoare ?W m (\<lambda>_. ?W) ?R \<Longrightarrow> hoare ?W m (\<lambda>_. ?R) ?R" for m :: "('h HubApp, Agent) files"
    by (erule hoare_weaken) (auto intro: there_kept)
  have inst: "hoare ?W (hub_installation X) (\<lambda>_. ?W) ?R"
    unfolding hub_installation_def
    by (intro hoare_bind [OF there_rules(1)] hoare_case_option there_rules(3) hoare_ret)
  show ?thesis unfolding reconcile_def
    by (intro hoare_if hoare_bind [OF there_rules(1)] hoare_bind [OF conflict_keeps] hoare_bind [OF there_rules(9) [OF assms]]
        kept_rules there_rules(2,3) hoare_bind [OF inst] hoare_bind [OF there_rules(7)] hoare_bind [OF there_rules(8)]
        ends [OF there_rules(1)] conflict_names)
qed

lemma synchronize_keeps:
  assumes "uuid_ordered io"
  shows "hoare (texts_there io slug soul config) (synchronize_agent X io ctx slug)
    (\<lambda>_. texts_kept io slug soul config) (texts_kept io slug soul config)"
proof -
  let ?W = "texts_there io slug soul config" and ?R = "texts_kept io slug soul config"
  have create: "hoare ?W (fs_create_dir_all io slug) (\<lambda>_. ?W) ?R"
  proof -
    have "hoare (\<lambda>s. tree_ok io slug s \<and> has_files slug (definition_texts soul config) s) (fs_create_dir_all io slug)
        (\<lambda>_ s. tree_ok io slug s \<and> has_files slug (definition_texts soul config) s)
        (\<lambda>s. tree_ok io slug s \<and> has_files slug (definition_texts soul config) s)" (is "hoare ?P _ _ _")
    proof (rule hoare_create_dir_all)
      show "?P s \<Longrightarrow> dir_of slug s = None \<Longrightarrow> ?P s'"  for s s' by (simp add: has_files_def)
      show "(dir_of slug s \<noteq> None \<longrightarrow> ?P s') \<and> ?P s'" if "?P s" "after s s' (\<lambda>d. d)"  for s s'
        using tree_ok_after [OF conjunct1 [OF that(1)] that(2)] has_files_after [OF that(2), of slug] that(1) by blast
    qed (blast intro: tree_ok_names)
    then show ?thesis by (rule hoare_weaken) (auto simp: replica_def texts_kept_def kept_def)
  qed
  have complete: "hoare ?W (if b then fs_file_exists io slug ''agent.toml'' else retF False) (\<lambda>_. ?W) ?R" for b
    by (intro hoare_if there_rules(5) hoare_ret)
  have stored: "hoare ?W (okF (fs_read io slug revision_file)) (\<lambda>_. ?W) ?R"
    by (rule hoare_ok, rule hoare_weaken [OF replica_read [where R = ?W]]) (auto intro: replica_fewer)
  show ?thesis unfolding synchronize_agent_def hub_agent_revision_def
    by (intro hoare_bind [OF there_rules(1)] hoare_bind [OF create] hoare_bind [OF there_rules(8)] hoare_bind [OF there_rules(5)]
        hoare_bind [OF complete] hoare_if restore_keeps [OF assms] hoare_bind [OF there_rules(6)] hoare_bind [OF stored]
        hoare_case_option reconcile_keeps [OF assms] hoare_bind [OF conflict_keeps] there_rules(2,3) conflict_names)
qed


section \<open>A revision that is installed\<close>

lemma update_agent_installs:
  assumes "select_command_receipt (context_operation_id c ''update_agent'') d = None" and "agents_ok d"
    and "update_agent X c aid expected soul config author d = Inr (r, d')"
  obtains a where "a \<in> set (t_agents d)" and "agent_id a = aid"
    and "a\<lparr>agent_current_revision := Suc expected\<rparr> \<in> set (t_agents d')" and "r \<in> set (t_agent_revisions d')"
    and "rev_agent_id r = aid" and "rev_revision r = Suc expected" and "rev_soul r = soul" and "rev_config_toml r = config"
proof -
  let ?h = "command_request_hash X (RQ_UpdateAgent aid expected soul config author)"
  from assms(3) obtain b where
    tr: "transact_command X c ''update_agent'' ?h CR_AgentRevision revision_result
      (decide_update_agent X aid expected soul config author) apply_agent_events d = Inr ((r, b), d')"
    by (auto simp: update_agent_def result_simps)
  obtain ss d0 where dec: "decide_update_agent X aid expected soul config author d = Inr ((r, ss), d0)"
    and cm: "committed_by apply_agent_events (concat (map planned ss)) d0 d'"
    by (rule agent_projection.transact_fresh [OF tr assms(1)]) (auto dest: decide_drawn drawn_receipts)
  note di = decide_update_agent_Inr [OF dec]
  from cm obtain je d1 d2 where je: "je_payload je = JE_AgentRevisionCreated r" and t0: "tables_eq d0 d1"
    and ap: "apply_agent_event je d1 = Inr d2" and t: "tables_eq d2 d'"
    unfolding di(2) by (auto simp: committed_by_def apply_agent_events_def bindR_eq_Inr
        Cons_eq_map_conv commit_of_def)
  let ?p = "\<lambda>a. agent_id a = aid \<and> agent_current_revision a = expected \<and> \<not> agent_archived a"
  from ap je di(3,4)
  have d2: "t_agents d2 = update_where ?p (\<lambda>a. a\<lparr>agent_current_revision := Suc expected\<rparr>) (t_agents d1)"
      "t_agent_revisions d2 = t_agent_revisions d1 @ [r]"
    by (auto simp: apply_agent_event_def apply_agent_revision_def insert_agent_revision_def Let_def
        result_simps split: if_splits)
  from di(5) obtain a where a: "a \<in> set (t_agents d)" "?p a" by blast
  have "t_agents d1 = t_agents d" using tables_eq_trans [OF di(1) t0] by (simp add: tables_eq_def catalog_eq_def)
  with a have "a\<lparr>agent_current_revision := Suc expected\<rparr> \<in> set (t_agents d2)"
    unfolding d2 set_update_where by (intro image_eqI [of _ _ a]) simp_all
  moreover have "rev_soul r = soul" "rev_config_toml r = config"
    using dec by (auto simp: decide_update_agent_def draw_defs revision_def result_simps)
  ultimately show thesis
    using that [of a] a di(3,4) d2(2) t by (simp add: tables_eq_def catalog_eq_def)
qed

lemma agent_revision_Inr:
  "agent_revision X aid n d = Inr r \<Longrightarrow> r \<in> set (t_agent_revisions d) \<and> rev_agent_id r = aid \<and> rev_revision r = n"
  by (auto simp: agent_revision_def result_simps dest!: find_SomeD)

lemma agent_by_slug_Inr: "agent_by_slug X slug d = Inr a \<Longrightarrow> a \<in> set (t_agents d) \<and> agent_slug a = slug"
  by (auto simp: agent_by_slug_def select_agent_by_slug_def agent_from_row_def result_simps dest!: find_SomeD)

section \<open>Agreement\<close>

text \<open>The replica has the text of the Agent's current revision and names it.\<close>

definition replica_agrees :: "string \<Rightarrow> Agent \<Rightarrow> 'h HubApp \<Rightarrow> bool" where
  "replica_agrees slug a s \<longleftrightarrow> a \<in> set (t_agents (ha_db s)) \<and> agent_slug a = slug
     \<and> (\<exists>r \<in> set (t_agent_revisions (ha_db s)). rev_agent_id r = agent_id a \<and> rev_revision r = agent_current_revision a
        \<and> (\<exists>soul config t. has_files slug [(''SOUL.md'', soul), (''agent.toml'', config), (revision_file, t),
                (agent_id_file, agent_id a)] s
             \<and> \<not> edited soul config r \<and> (t = show_nat (rev_revision r) \<or> parse_u64 t = Some (rev_revision r))))"

lemma has_files_set: "set fs \<subseteq> set fs' \<Longrightarrow> has_files name fs' s \<Longrightarrow> has_files name fs s"
  by (fastforce simp: has_files_def)

lemma agreesI:
  assumes "replica io slug fs D s" and "\<And>d. D d \<Longrightarrow> a \<in> set (t_agents d) \<and> agent_slug a = slug \<and> r \<in> set (t_agent_revisions d)"
    and "rev_agent_id r = agent_id a" and "rev_revision r = agent_current_revision a"
    and "{(''SOUL.md'', soul), (''agent.toml'', config), (revision_file, t), (agent_id_file, agent_id a)} \<subseteq> set fs"
    and "\<not> edited soul config r" and "t = show_nat (rev_revision r) \<or> parse_u64 t = Some (rev_revision r)"
  shows "replica_agrees slug a s"
proof -
  have "has_files slug [(''SOUL.md'', soul), (''agent.toml'', config), (revision_file, t), (agent_id_file, agent_id a)] s"
    by (rule has_files_set [of _ fs]) (use assms(1,5) in \<open>simp_all add: replica_def\<close>)
  with assms show ?thesis unfolding replica_agrees_def replica_def by blast
qed

end
