(* ===== verification/ReplicaAgree.thy ===== *)
theory ReplicaAgree
  imports ReplicaSync
begin

text \<open>
  A synchronization that returns leaves the replica and the store in agreement.
\<close>

section \<open>Text\<close>

lemma strip_ws_append: "strip_ws bs = Some cs \<Longrightarrow> strip_ws (bs @ ds) = Some (cs @ ds)"
  by (cases bs) (auto split: if_splits list.splits)

lemma blank_bytes_append: "blank_bytes bs \<Longrightarrow> blank_bytes cs \<Longrightarrow> blank_bytes (bs @ cs)"
proof (induction "length bs" arbitrary: bs rule: less_induct)
  case less
  show ?case
  proof (cases "bs = []")
    case False
    with less.prems(1) obtain ds where ds: "strip_ws bs = Some ds" "blank_bytes ds"
      by (subst (asm) blank_bytes.simps) (auto split: option.splits)
    from less.hyps [OF strip_ws_shorter [OF ds(1)] ds(2) less.prems(2)] strip_ws_append [OF ds(1)] show ?thesis
      by (subst blank_bytes.simps) simp
  qed (use less.prems in simp)
qed

lemma trim_end_append: "\<exists>w. s = trim_end s @ w \<and> is_blank w"
proof (induction s)
  case (Cons c cs)
  then show ?case by (cases "is_blank (c # cs)") auto
qed simp

lemma trim_end_idem [simp]: "trim_end (trim_end s) = trim_end s"
proof (induction s)
  case (Cons c cs)
  show ?case
  proof (cases "is_blank (c # cs)")
    case False
    have "\<not> is_blank (c # trim_end cs)"
    proof
      assume blank: "is_blank (c # trim_end cs)"
      obtain w where "cs = trim_end cs @ w" "is_blank w" using trim_end_append by blast
      with blank blank_bytes_append have "is_blank ((c # trim_end cs) @ w)" unfolding is_blank_def map_append by blast
      with \<open>cs = _\<close> False show False by simp
    qed
    with False Cons.IH show ?thesis by simp
  qed simp
qed simp

section \<open>Agreement\<close>

definition current_of :: "string \<Rightarrow> Agent \<Rightarrow> AgentRevision \<Rightarrow> db \<Rightarrow> bool" where
  "current_of slug a r d \<longleftrightarrow> a \<in> set (t_agents d) \<and> agent_slug a = slug \<and> r \<in> set (t_agent_revisions d)
     \<and> rev_agent_id r = agent_id a \<and> rev_revision r = agent_current_revision a"

lemma replaced_agrees:
  assumes "uuid_ordered io" and "fs \<noteq> []" and "current_of slug a r d"
  shows "hoare (replica io slug fs (\<lambda>d'. d' = d) :: 'h HubApp \<Rightarrow> bool) (bindF (materialize io slug r) (\<lambda>_. retF a)) (replica_agrees slug) (\<lambda>_. True)"
proof (rule hoare_bind)
  show "hoare (replica io slug fs (\<lambda>d'. d' = d) :: 'h HubApp \<Rightarrow> bool) (materialize io slug r) (\<lambda>_. replica io slug (revision_files r) (\<lambda>d'. d' = d)) (\<lambda>_. True)"
    by (rule hoare_weaken [OF replica_materialize [OF assms(1,2)]]) auto
  show "hoare (replica io slug (revision_files r) (\<lambda>d'. d' = d) :: 'h HubApp \<Rightarrow> bool) (retF a) (replica_agrees slug) (\<lambda>_. True)"
  proof (rule hoare_ret)
    fix s :: "'h HubApp"
    assume "replica io slug (revision_files r) (\<lambda>d'. d' = d) s"
    then show "replica_agrees slug a s"
      by (rule agreesI [where r = r and soul = "rev_soul r" and config = "rev_config_toml r" and t = "show_nat (rev_revision r)"])
        (use assms(3) in \<open>auto simp: current_of_def revision_files_def edited_def\<close>)
  qed
qed

lemma any_post: "hoare P m (\<lambda>_ _. True) (\<lambda>_. True)"
  by (auto simp: hoare_def split: prod.splits sum.splits)

lemma never_returns: "hoare P (failF e) Q (\<lambda>_. True)"
  by (rule hoare_fail) simp

lemma restored_agrees:
  assumes "uuid_ordered io" and "fs \<noteq> []" and "current_of slug a r d"
  shows "hoare (replica io slug fs (\<lambda>d'. d' = d)) (restore_replica io slug a r) (replica_agrees slug) (\<lambda>_. True)"
proof -
  let ?P = "replica io slug fs (\<lambda>d'. d' = d)"
  have read: "hoare ?P (fs_read io slug f) (\<lambda>_. ?P) (\<lambda>_. True)" for f
    by (rule hoare_weaken [OF replica_read [where R = "\<lambda>_. True"]]) (auto intro: replica_fewer)
  have ret: "hoare ?P (retF x) (\<lambda>_. ?P) (\<lambda>_. True)" for x :: bool by (rule hoare_ret)
  have edit: "hoare ?P (if b then bindF (fs_read io slug ''SOUL.md'') (\<lambda>soul. retF (trim_end soul \<noteq> trim_end (rev_soul r)))
      else bindF (fs_file_exists io slug ''agent.toml'') (\<lambda>has_config. if has_config
        then bindF (fs_read io slug ''agent.toml'') (\<lambda>config. retF (config \<noteq> rev_config_toml r)) else retF False))
      (\<lambda>_. ?P) (\<lambda>_. True)" for b
    by (intro hoare_if hoare_bind [OF replica_ask] hoare_bind [OF read] ret)
  have req: "hoare ?P (requireF b t) (\<lambda>_. ?P) (\<lambda>_. True)" for b t by (rule hoare_require) auto
  show ?thesis unfolding restore_replica_def
    by (intro hoare_bind [OF replica_ask] hoare_bind [OF edit] hoare_bind [OF req] replaced_agrees [OF assms])
qed

text \<open>A replica of which all files were read\<close>

definition read_files :: "Agent \<Rightarrow> string \<Rightarrow> string \<Rightarrow> (string \<times> string) list" where
  "read_files a soul config = [(''agent.toml'', config), (''SOUL.md'', soul), (agent_id_file, agent_id a)]"

lemma updated_agrees:
  assumes "reachable X d" and "select_command_receipt (context_operation_id ctx ''update_agent'') d = None"
    and "current_of slug a current d"
    and up: "update_agent X ctx (agent_id a) (rev_revision current) (trim_end soul) config h d = Inr (r, d')"
    and a': "agent_by_slug X slug d' = Inr a'"
    and s: "replica io slug ((revision_file, show_nat (rev_revision r)) # read_files a soul config) (\<lambda>d1. d1 = d') s"
  shows "replica_agrees slug a' s"
proof -
  have ok: "agents_ok d" using reachable_ok [OF assms(1)] by (simp add: store_ok_def catalog_ok_def)
  have "reachable X d'" using reachable_later(1) [OF assms(1)] OpUpdateAgent [OF up] by blast
  then have ok': "agents_ok d'" using reachable_ok by (auto simp: store_ok_def catalog_ok_def)
  obtain a0 where a0: "a0 \<in> set (t_agents d)" "agent_id a0 = agent_id a"
    and new: "a0\<lparr>agent_current_revision := Suc (rev_revision current)\<rparr> \<in> set (t_agents d')" and r: "r \<in> set (t_agent_revisions d')"
    "rev_agent_id r = agent_id a" "rev_revision r = Suc (rev_revision current)" "rev_soul r = trim_end soul" "rev_config_toml r = config"
    by (rule update_agent_installs [OF assms(2) ok up])
  have "a0 = a" using agents_ok_unique [OF ok a0(1)] assms(3) a0(2) by (auto simp: current_of_def)
  note slug = agent_by_slug_Inr [OF a']
  have "a' = a\<lparr>agent_current_revision := Suc (rev_revision current)\<rparr>"
    using distinct_map_eqD [of agent_slug "t_agents d'"] ok' slug new \<open>a0 = a\<close> assms(3)
    by (simp add: agents_ok_def current_of_def)
  with r slug show ?thesis
    by (intro agreesI [OF s, where r = r and soul = soul and config = config and t = "show_nat (rev_revision r)"])
      (auto simp: edited_def read_files_def)
qed

lemma replica_D: "replica io slug fs D s \<Longrightarrow> D (ha_db s)"
  by (simp add: replica_def)

lemma replica_only: "replica io slug fs D s \<Longrightarrow> replica io slug fs (\<lambda>d. d = ha_db s) s"
  by (simp add: replica_def)

lemma reconcile_agrees:
  fixes X io ctx slug a current soul config n d t
  defines "P \<equiv> replica io slug ((revision_file, t) # read_files a soul config) (\<lambda>d'. d' = d) :: 'h HubApp \<Rightarrow> bool"
  assumes "uuid_ordered io" and "reachable X d" and "select_command_receipt (context_operation_id ctx ''update_agent'') d = None"
    and "current_of slug a current d" and t: "parse_u64 t = Some n"
  shows "hoare P (reconcile X io ctx slug a current soul config n) (replica_agrees slug) (\<lambda>_. True)"
proof -
  let ?fs = "read_files a soul config"
  let ?up = "update_agent X ctx (agent_id a) (rev_revision current) (trim_end soul) config"
  have look: "hoare P (lookF f) (\<lambda>_. P) (\<lambda>_. True)" for f :: "db \<Rightarrow> StoreError + AgentRevision" by (rule hoare_look) auto
  have replaced: "hoare P (bindF (materialize io slug current) (\<lambda>_. retF a)) (replica_agrees slug) (\<lambda>_. True)"
    unfolding P_def by (rule replaced_agrees [OF assms(2) _ assms(5)]) simp
  have failed: "hoare P (bindF m (\<lambda>_. bindF m' (\<lambda>_. failF e))) (replica_agrees slug) (\<lambda>_. True)"
    for m m' :: "('h HubApp, unit) files" and e
    by (intro hoare_bind [OF any_post] never_returns)
  have inst: "hoare P (hub_installation X) (\<lambda>_. P) (\<lambda>_. True)"
    unfolding hub_installation_def by (intro hoare_bind [OF hoare_look] hoare_case_option never_returns hoare_ret) auto
  have store: "hoare P (storeF (?up h)) (\<lambda>r. replica io slug ?fs (\<lambda>d1. ?up h d = Inr (r, d1))) (\<lambda>_. True)" for h
    unfolding P_def by (rule hoare_store) (auto simp: replica_def has_files_Cons)
  have wrote: "hoare (replica io slug ?fs (\<lambda>d1. ?up h d = Inr (r, d1))) (fs_write io slug revision_file (show_nat (rev_revision r)))
      (\<lambda>_. replica io slug ((revision_file, show_nat (rev_revision r)) # ?fs) (\<lambda>d1. ?up h d = Inr (r, d1))) (\<lambda>_. True)" for h r
    by (rule replica_write) (simp_all add: read_files_def revision_file_def agent_id_file_def)
  have final: "hoare (replica io slug ((revision_file, show_nat (rev_revision r)) # ?fs) (\<lambda>d1. ?up h d = Inr (r, d1)) :: 'h HubApp \<Rightarrow> bool)
      (lookF (agent_by_slug X slug)) (replica_agrees slug) (\<lambda>_. True)" for h r
  proof (rule hoare_look)
    fix s :: "'h HubApp" and a'
    assume s: "replica io slug ((revision_file, show_nat (rev_revision r)) # ?fs) (\<lambda>d1. ?up h d = Inr (r, d1)) s"
      and a': "agent_by_slug X slug (ha_db s) = Inr a'"
    show "replica_agrees slug a' s"
      by (rule updated_agrees [OF assms(3-5) replica_D [OF s] a' replica_only [OF s]])
  qed simp
  have same: "hoare P (retF a) (replica_agrees slug) (\<lambda>_. True)" if "\<not> edited soul config current" "n = rev_revision current"
  proof (rule hoare_ret)
    fix s :: "'h HubApp"
    assume "P s"
    then show "replica_agrees slug a s" unfolding P_def
      by (rule agreesI [where r = current and soul = soul and config = config and t = t])
        (use assms(5) t that in \<open>auto simp: current_of_def read_files_def\<close>)
  qed
  have older: "hoare P (bindF (lookF f) (\<lambda>base. if edited soul config base
      then bindF (conflict_files io slug tag soul config) (\<lambda>_. bindF (materialize io slug current) (\<lambda>_. failF e))
      else bindF (materialize io slug current) (\<lambda>_. retF a))) (replica_agrees slug) (\<lambda>_. True)"
    for f :: "db \<Rightarrow> StoreError + AgentRevision" and tag e
    by (rule hoare_bind [OF look], rule hoare_if, rule failed, rule replaced)
  have edit: "hoare P (bindF (hub_installation X) (\<lambda>i. bindF (storeF (?up (ins_hub_host_id i))) (\<lambda>r.
      bindF (fs_write io slug revision_file (show_nat (rev_revision r))) (\<lambda>_. lookF (agent_by_slug X slug)))))
      (replica_agrees slug) (\<lambda>_. True)"
    by (rule hoare_bind [OF inst], rule hoare_bind [OF store], rule hoare_bind [OF wrote], rule final)
  show ?thesis unfolding reconcile_def
    by (rule hoare_if, rule older, rule hoare_if, rule never_returns, rule hoare_if, rule edit, rule same) simp_all
qed

lemma hoare_pure: "(\<phi> \<Longrightarrow> hoare P m Q R) \<Longrightarrow> hoare (\<lambda>s. P s \<and> \<phi>) m Q R"
  by (auto simp: hoare_def)

lemma replica_created:
  "hoare (\<lambda>s. tree_ok io slug s \<and> ha_db s = d) (fs_create_dir_all io' slug) (\<lambda>_. replica io slug [] (\<lambda>d'. d' = d)) (\<lambda>_. True)"
proof -
  have new: "tree_ok io slug s' \<and> has_files slug [] s'"
    if "tree_ok io slug s" "dir_of slug s = None" "after s s' (\<lambda>d. d(slug \<mapsto> empty_dir))" for s s' :: "'b FileTree_scheme"
  proof
    have none: "(d(slug \<mapsto> empty_dir)) m = None" if "starts_with (previous_prefix slug) m" "d m = None" for d m
      using that slug_no_previous by auto
    show "tree_ok io slug s'" by (rule tree_ok_after [OF that(1,3) none])
  qed (use that(3) in \<open>simp add: after_def has_files_def\<close>)
  have old: "(dir_of slug s \<noteq> None \<longrightarrow> tree_ok io slug s' \<and> has_files slug [] s') \<and> True"
    if "tree_ok io slug s" "after s s' (\<lambda>d. d)" for s s' :: "'b FileTree_scheme"
    using tree_ok_after [OF that] has_files_after [OF that(2), of slug "[]"] by (auto simp: has_files_def)
  have "hoare (tree_ok io slug) (fs_create_dir_all io' slug) (\<lambda>_ s. tree_ok io slug s \<and> has_files slug [] s)
      (\<lambda>_. True)"
    by (rule hoare_create_dir_all) (use new old in \<open>blast intro: tree_ok_names\<close>)+
  from hoare_files_only [OF this files_only_fs(2), of "\<lambda>d'. d' = d"] show ?thesis
    by (rule hoare_weaken) (auto simp: replica_def)
qed

lemma complete_agrees:
  fixes X io ctx slug a current soul config d stored
  defines "P \<equiv> \<lambda>fs. replica io slug (fs @ read_files a soul config) (\<lambda>d'. d' = d) :: 'h HubApp \<Rightarrow> bool"
  assumes "uuid_ordered io" and "reachable X d" and "select_command_receipt (context_operation_id ctx ''update_agent'') d = None"
    and "current_of slug a current d"
  shows "hoare (P (case stored of None \<Rightarrow> [] | Some c \<Rightarrow> [(revision_file, c)]))
    (case Option.bind stored parse_u64 of
            Some replica_revision \<Rightarrow> reconcile X io ctx slug a current soul config replica_revision
          | None \<Rightarrow>
              if \<not> edited soul config current
              then bindF (fs_write io slug revision_file (show_nat (rev_revision current))) (\<lambda>_. retF a)
              else bindF (conflict_files io slug ''unknown'' soul config) (\<lambda>_. failF e))
    (replica_agrees slug) (\<lambda>_. True)"
proof (rule hoare_case_option)
  fix n
  assume "Option.bind stored parse_u64 = Some n"
  then obtain t where "stored = Some t" "parse_u64 t = Some n" by (auto simp: bind_eq_Some_conv)
  then show "hoare (P (case stored of None \<Rightarrow> [] | Some c \<Rightarrow> [(revision_file, c)])) (reconcile X io ctx slug a current soul config n)
      (replica_agrees slug) (\<lambda>_. True)"
    using reconcile_agrees [OF assms(2-5)] by (simp add: P_def)
next
  let ?t = "show_nat (rev_revision current)"
  have fewer: "P (case stored of None \<Rightarrow> [] | Some c \<Rightarrow> [(revision_file, c)]) s \<Longrightarrow> P [] s" for s
    by (cases stored) (auto simp: P_def intro: replica_fewer)
  have wrote: "hoare (P []) (fs_write io slug revision_file ?t) (\<lambda>_. P [(revision_file, ?t)]) (\<lambda>_. True)"
    unfolding P_def append_Nil append_Cons
    by (rule replica_write) (simp_all add: read_files_def revision_file_def agent_id_file_def)
  have same: "hoare (P [(revision_file, ?t)]) (retF a) (replica_agrees slug) (\<lambda>_. True)" if "\<not> edited soul config current"
  proof (rule hoare_ret)
    fix s :: "'h HubApp"
    assume "P [(revision_file, ?t)] s"
    then show "replica_agrees slug a s" unfolding P_def
      by (rule agreesI [where r = current and soul = soul and config = config and t = ?t])
        (use assms(5) that in \<open>auto simp: current_of_def read_files_def\<close>)
  qed
  show "hoare (P (case stored of None \<Rightarrow> [] | Some c \<Rightarrow> [(revision_file, c)]))
      (if \<not> edited soul config current then bindF (fs_write io slug revision_file ?t) (\<lambda>_. retF a)
       else bindF (conflict_files io slug ''unknown'' soul config) (\<lambda>_. failF e)) (replica_agrees slug) (\<lambda>_. True)"
    by (rule hoare_if, rule hoare_pre [OF hoare_bind [OF wrote same] fewer], assumption+,
        rule hoare_bind [OF any_post never_returns])
qed

lemma synchronize_agrees:
  fixes X io ctx slug d
  assumes "uuid_ordered io" and "reachable X d" and "select_command_receipt (context_operation_id ctx ''update_agent'') d = None"
  shows "hoare (\<lambda>s. tree_ok io slug s \<and> ha_db s = d) (synchronize_agent X io ctx slug :: ('h HubApp, Agent) files)
    (replica_agrees slug) (\<lambda>_. True)"
proof -
  let ?D = "\<lambda>d'. d' = d"
  let ?P = "\<lambda>s :: 'h HubApp. tree_ok io slug s \<and> ha_db s = d"
  have look: "hoare ?P (lookF f) (\<lambda>x s. ?P s \<and> f d = Inr x) (\<lambda>_. True)" for f :: "db \<Rightarrow> StoreError + 'z"
    by (rule hoare_look) auto
  have ident: "hoare (replica io slug [] ?D) (fs_write io slug agent_id_file t) (\<lambda>_. replica io slug [(agent_id_file, t)] ?D) (\<lambda>_. True)" for t
    by (rule replica_write) simp_all
  have complete: "hoare (replica io slug fs ?D) (if b then fs_file_exists io slug f else retF False)
      (\<lambda>_. replica io slug fs ?D) (\<lambda>_. True)" for b f fs
    by (rule hoare_if, rule replica_ask, rule hoare_ret)
  have read: "hoare (replica io slug fs ?D) (fs_read io slug f) (\<lambda>c. replica io slug ((f, c) # fs) ?D) (\<lambda>_. True)" for f fs
    by (rule replica_read) simp
  have stored: "hoare (replica io slug (read_files a soul config) ?D) (okF (fs_read io slug revision_file))
      (\<lambda>st. replica io slug ((case st of None \<Rightarrow> [] | Some c \<Rightarrow> [(revision_file, c)]) @ read_files a soul config) ?D) (\<lambda>_. True)"
    for a soul config
    by (rule hoare_ok, rule hoare_weaken [OF replica_read]) auto
  have rest: "hoare ?P (bindF (fs_create_dir_all io slug) (\<lambda>_. bindF (fs_write io slug agent_id_file (agent_id a)) (\<lambda>_.
      bindF (fs_file_exists io slug ''SOUL.md'') (\<lambda>has_soul.
      bindF (if has_soul then fs_file_exists io slug ''agent.toml'' else retF False) (\<lambda>complete.
      if \<not> complete then restore_replica io slug a current
      else bindF (fs_read io slug ''SOUL.md'') (\<lambda>soul. bindF (fs_read io slug ''agent.toml'') (\<lambda>config.
          bindF (okF (fs_read io slug revision_file)) (\<lambda>stored.
          case Option.bind stored parse_u64 of
            Some replica_revision \<Rightarrow> reconcile X io ctx slug a current soul config replica_revision
          | None \<Rightarrow>
              if \<not> edited soul config current
              then bindF (fs_write io slug revision_file (show_nat (rev_revision current))) (\<lambda>_. retF a)
              else bindF (conflict_files io slug ''unknown'' soul config) (\<lambda>_. failF e)))))))))
      (replica_agrees slug) (\<lambda>_. True)" if cur: "current_of slug a current d" for a current e
    by (rule hoare_bind [OF replica_created], rule hoare_bind [OF ident], rule hoare_bind [OF replica_ask],
        rule hoare_bind [OF complete], rule hoare_if, rule restored_agrees [OF assms(1) _ cur], simp,
        rule hoare_bind [OF read], rule hoare_bind [OF read], fold read_files_def, rule hoare_bind [OF stored],
        rule complete_agrees [OF assms cur])
  show ?thesis unfolding synchronize_agent_def hub_agent_revision_def
  proof (rule hoare_bind [OF look], rule hoare_pure, rule hoare_bind [OF look], rule hoare_pure, goal_cases)
    case (1 a current)
    then have "current_of slug a current d" using agent_by_slug_Inr agent_revision_Inr by (fastforce simp: current_of_def)
    then show ?case by (rule rest)
  qed
qed

end
