(* ===== verification/ReplicaProps.thy ===== *)
theory ReplicaProps
  imports ReplicaAgree
begin

text \<open>
  The properties of replicas: no synchronization loses a text, one that returns leaves the
  replica and the store in agreement, a conflict's copies are not where they were written, and
  a rename that was rolled back is answered as if it had been carried out.
\<close>

section \<open>The files of a replica that was replaced\<close>

text \<open>The files of a directory, all of them\<close>

definition exactly :: "string \<Rightarrow> (string \<times> string) list \<Rightarrow> 'z FileTree_scheme \<Rightarrow> bool" where
  "exactly name fs s \<longleftrightarrow> distinct_names s \<and> (\<exists>dir. dir_of name s = Some dir \<and> ad_files dir = fs)"

lemma exactly_names: "exactly name fs s \<Longrightarrow> distinct_names s"
  by (simp add: exactly_def)

lemma exactly_same: "exactly name fs s \<Longrightarrow> same_files s s' \<Longrightarrow> exactly name fs s'"
  unfolding exactly_def same_files_def by (metis (no_types, lifting) map_option_eq_Some option.simps(9))

lemma exactly_after: "exactly name fs s \<Longrightarrow> after s s' F \<Longrightarrow> (\<And>d. F d name = d name) \<Longrightarrow> exactly name fs s'"
  by (simp add: exactly_def after_def)

lemma exactly_bump: "exactly name fs s \<Longrightarrow> exactly name fs (bump s)"
  by (rule exactly_after [OF _ after_bump]) (simp_all add: exactly_def)

lemma exactly_write:
  "hoare (exactly name fs) (fs_write io name f c) (\<lambda>_. exactly name (AList.update f c fs)) (\<lambda>_. True)"
  by (rule hoare_write) (auto simp: exactly_def after_def write_file_def)

lemma exactly_stage:
  "hoare distinct_names (stage_revision io staged r)
     (\<lambda>_. exactly staged (rev (revision_files r))) (\<lambda>_. True)"
proof -
  have start: "hoare distinct_names (fs_create_dir io staged) (\<lambda>_. exactly staged []) (\<lambda>_. True)"
    by (rule hoare_create_dir) (auto simp: exactly_def after_def empty_dir_def)
  have files: "AList.update agent_id_file (rev_agent_id r) (AList.update revision_file (show_nat (rev_revision r))
      (AList.update ''agent.toml'' (rev_config_toml r) (AList.update ''SOUL.md'' (rev_soul r) []))) = rev (revision_files r)"
    by (simp add: revision_files_def revision_file_def agent_id_file_def)
  show ?thesis unfolding stage_revision_def files [symmetric]
    by (rule hoare_bind [OF start], (rule hoare_bind [OF exactly_write])+, rule exactly_write)
qed

lemma exactly_aside:
  assumes "swap_names slug staged previous"
  shows "hoare (exactly staged fs) (set_replica_aside io slug staged previous) (\<lambda>_. exactly staged fs) (\<lambda>_. True)"
proof -
  note n = assms [unfolded swap_names_def]
  have aside: "hoare (exactly staged fs) (fs_rename io slug previous) (\<lambda>_. exactly staged fs) (\<lambda>_. True)"
    by (rule hoare_rename) (use n in \<open>auto intro: exactly_after exactly_names\<close>)
  have move: "hoare (exactly staged fs) (move_local_resources io previous staged) (\<lambda>_. exactly staged fs) (\<lambda>_. True)"
    by (rule hoare_move_local) (auto intro: exactly_same exactly_names)
  show ?thesis unfolding set_replica_aside_def
    by (rule hoare_bind [OF aside], rule hoare_catch [OF move], rule hoare_bind [OF any_post never_returns])
qed

lemma exactly_in:
  assumes "swap_names slug staged previous"
  shows "hoare (exactly staged fs) (fs_rename io staged slug) (\<lambda>_. exactly slug fs) (\<lambda>_. True)"
  by (rule hoare_rename) (use assms in \<open>auto simp: exactly_def after_def swap_names_def\<close>)

lemma exactly_retain: "hoare (exactly slug fs) (retain_previous_directories io slug) (\<lambda>_. exactly slug fs) (\<lambda>_. True)"
  unfolding retain_previous_directories_def
proof (rule hoare_bind)
  show "hoare (exactly slug fs) (fs_names io) (\<lambda>_. exactly slug fs) (\<lambda>_. True)"
    by (rule hoare_names) (auto intro: exactly_bump)
  fix names
  have "hoare (exactly slug fs) (fs_remove_dir_all io name) (\<lambda>_. exactly slug fs) (exactly slug fs)"
    if "name \<noteq> slug" for name
    by (rule hoare_remove) (use that in \<open>auto intro: exactly_after exactly_names\<close>)
  moreover have "name \<noteq> slug" if "name \<in> set (drop 1 (rev (sort (filter (starts_with (previous_prefix slug)) names))))" for name
    using in_set_dropD [OF that] slug_no_previous by auto
  ultimately show "hoare (exactly slug fs)
      (forF (drop 1 (rev (sort (filter (starts_with (previous_prefix slug)) names)))) (fs_remove_dir_all io))
      (\<lambda>_. exactly slug fs) (\<lambda>_. True)"
    by (intro hoare_weaken [OF hoare_for]) auto
qed

lemma exactly_replaced:
  "hoare distinct_names (materialize io slug r) (\<lambda>_. exactly slug (rev (revision_files r))) (\<lambda>_. True)"
proof -
  let ?fs = "rev (revision_files r)"
  have uuid: "hoare distinct_names (fs_uuid io) (\<lambda>_. distinct_names) (\<lambda>_. True)"
    by (rule hoare_uuid) (simp add: distinct_names_def)
  have sync: "hoare (exactly name fs) (fs_sync io) (\<lambda>_. exactly name fs) (\<lambda>_. True)" for name :: string and fs
    by (rule hoare_sync) (simp add: exactly_bump)
  have opened: "hoare (exactly name fs) (forF definition_files (\<lambda>file. bindF (fs_open io name file) (\<lambda>_. fs_sync io)))
      (\<lambda>_. exactly name fs) (\<lambda>_. True)" for name :: string and fs
    by (rule hoare_weaken [OF hoare_for [where P = "exactly name fs"]])
      (auto intro!: hoare_bind [where Q' = "\<lambda>_. exactly name fs"] hoare_open hoare_sync exactly_bump)
  have asked: "hoare (exactly name fs) (fs_exists io n) (\<lambda>_. exactly name fs) (\<lambda>_. True)" for name :: string and fs n
    unfolding fs_exists_def by (rule hoare_ask) (rule exactly_bump)
  have rest: "hoare (exactly staged ?fs)
       (bindF (fs_exists io slug) (\<lambda>present.
     bindF (if present then set_replica_aside io slug staged previous else retF ()) (\<lambda>_.
     bindF (catchF (fs_rename io staged slug) (\<lambda>e. bindF (m e) (\<lambda>saved. bindF (m' saved e) (\<lambda>_. failF e)))) (\<lambda>_.
     bindF (fs_sync io) (\<lambda>_.
     retain_previous_directories io slug))))) (\<lambda>_. exactly slug ?fs) (\<lambda>_. True)"
    if n: "swap_names slug staged previous" for staged previous
      and m :: "HubError \<Rightarrow> ('a FileTree_scheme, bool) files" and m' :: "bool \<Rightarrow> HubError \<Rightarrow> ('a FileTree_scheme, unit) files"
    by (rule hoare_bind [OF asked], rule hoare_bind, rule hoare_if, rule exactly_aside [OF n], rule hoare_ret, assumption,
        rule hoare_bind, rule hoare_catch [OF exactly_in [OF n]], rule hoare_bind [OF any_post], rule hoare_bind [OF any_post],
        rule never_returns, rule hoare_bind [OF sync], rule exactly_retain)
  show ?thesis unfolding materialize_def Let_def
    by (rule hoare_bind [OF uuid], rule hoare_bind [OF uuid], rule hoare_bind [OF exactly_stage], rule hoare_bind [OF opened],
        rule hoare_bind [OF sync], rule rest, rule swap_names_drawn)
qed

section \<open>Failures of the file system\<close>

text \<open>An operation that fails with a message was not failed by the file system.\<close>

definition no_message :: "('s, 'a) files \<Rightarrow> bool" where
  "no_message m \<longleftrightarrow> (\<forall>s t. fst (m s) \<noteq> Inl (HE_Text t))"

lemma no_message_act: "no_message (fs_act io act torn)"
  by (auto simp: no_message_def fs_act_def split: option.splits)

lemma no_message_basic [intro!, simp]:
  "no_message (retF x)" "no_message (ignoreF m)" "no_message (failF e) \<longleftrightarrow> (\<forall>t. e \<noteq> HE_Text t)"
  by (auto simp: no_message_def retF_def ignoreF_def failF_def)

lemma no_message_bind [intro!]: "no_message m \<Longrightarrow> (\<And>x. no_message (f x)) \<Longrightarrow> no_message (bindF m f)"
  unfolding no_message_def bindF_def by (auto split: prod.splits sum.splits) (metis fst_conv)

lemma no_message_if [intro!]: "no_message m \<Longrightarrow> no_message m' \<Longrightarrow> no_message (if b then m else m')"
  by simp

lemma no_message_for [intro!]: "(\<And>x. no_message (f x)) \<Longrightarrow> no_message (forF xs f)"
  by (induction xs) auto

text \<open>Only errors that occur are handled.\<close>

lemma no_message_catch [intro!]:
  assumes "no_message m" and "\<And>e. \<forall>t. e \<noteq> HE_Text t \<Longrightarrow> no_message (h e)"
  shows "no_message (catchF m h)"
proof -
  have "fst (catchF m h s) \<noteq> Inl (HE_Text t)" for s t
  proof (cases "m s")
    case (Pair r s')
    show ?thesis
    proof (cases r)
      case (Inl e)
      with assms(1) Pair have "\<forall>t. e \<noteq> HE_Text t" unfolding no_message_def by (metis fst_conv)
      from assms(2) [OF this] Pair Inl show ?thesis by (simp add: catchF_def no_message_def)
    qed (simp add: catchF_def Pair)
  qed
  then show ?thesis by (simp add: no_message_def)
qed

lemma no_message_fs [intro!, simp]:
  "no_message (fs_write io name f c)" "no_message (fs_create_dir io name)" "no_message (fs_rename io a b)"
  "no_message (fs_move_resource io r a b)" "no_message (fs_open io name f)" "no_message (fs_sync io)"
  "no_message (fs_remove_dir_all io name)"
  by (simp_all add: fs_write_def fs_create_dir_def fs_rename_def fs_move_resource_def fs_open_def fs_sync_def
      fs_remove_dir_all_def no_message_act)

lemma no_message_asks [intro!, simp]:
  "no_message (fs_exists io name)" "no_message (fs_resource_exists io name r)" "no_message (fs_names io)" "no_message (fs_uuid io)"
  by (auto simp: no_message_def fs_exists_def fs_resource_exists_def fs_ask_def fs_names_def fs_uuid_def)

lemma no_message_move: "no_message (move_resources io from to moved names)"
  by (induction names arbitrary: moved) auto

lemma no_message_materialize: "no_message (materialize io slug r)"
  by (auto simp: materialize_def stage_revision_def set_replica_aside_def retain_previous_directories_def
      move_local_resources_def Let_def intro!: no_message_move)

lemma no_message_passes:
  assumes "bindF m f s = (Inl (HE_Text t), s')" and "no_message m"
  obtains x s1 where "m s = (Inr x, s1)" and "f x s1 = (Inl (HE_Text t), s')"
proof (cases "m s")
  case (Pair r s1)
  with assms show ?thesis unfolding no_message_def bindF_def
    by (cases r) (auto intro: that, metis fst_conv)
qed

section \<open>Properties\<close>

text \<open>
  C28. No edit is lost: whatever fails, after a synchronization the soul and the configuration
  that were in a replica are together in the replica or in a directory it was replaced by.
\<close>

theorem edits_survive:
  assumes "uuid_ordered io" and "tree_ok io slug s"
    and "has_files slug [(''SOUL.md'', soul), (''agent.toml'', config)] s"
    and "synchronize_agent X io ctx slug s = (r, s')"
  shows "\<exists>name. (name = slug \<or> starts_with (previous_prefix slug) name)
    \<and> has_files name [(''SOUL.md'', soul), (''agent.toml'', config)] s'"
proof -
  have "texts_there io slug soul config s" using assms(2,3) by (simp add: replica_def definition_texts_def)
  then have "texts_kept io slug soul config s'"
    using assms(4) hoareD [OF synchronize_keeps [OF assms(1), of slug soul config X ctx]] by (cases r) blast+
  then show ?thesis by (simp add: texts_kept_def kept_def definition_texts_def)
qed


text \<open>
  C18. An edit of an old revision is refused with a message that it was preserved in conflict
  files. The replica then has the four files of the current revision and no others: the copies
  went away with the directory they were written to.
\<close>

theorem conflict_copies_set_aside:
  assumes "distinct_names s" and "n < rev_revision current"
    and "agent_revision X (agent_id a) n (ha_db s) = Inr base" and "edited soul config base"
    and "reconcile X io ctx slug a current soul config n s = (Inl (HE_Text e), s')"
  shows "exactly slug [(''SOUL.md'', rev_soul current), (''agent.toml'', rev_config_toml current),
    (revision_file, show_nat (rev_revision current)), (agent_id_file, rev_agent_id current)] s'"
proof -
  let ?tag = "''r'' @ show_nat n"
  let ?rest = "bindF (materialize io slug current) (\<lambda>_. failF (HE_Text (''agent definition conflicts with Hub revision ''
    @ show_nat (rev_revision current) @ ''; local edits were preserved as conflict files''))) :: ('b HubApp, Agent) files"
  have "lookF (agent_revision X (agent_id a) n) s = (Inr base, s)" using assms(3) by (simp add: lookF_def)
  with assms(2,4,5) have "bindF (conflict_files io slug ?tag soul config) (\<lambda>_. ?rest) s = (Inl (HE_Text e), s')"
    by (simp add: reconcile_def bindF_def)
  then obtain x s1 where 1: "conflict_files io slug ?tag soul config s = (Inr x, s1)" and "?rest s1 = (Inl (HE_Text e), s')"
    by (rule no_message_passes) (auto simp: conflict_files_def)
  then obtain y s2 where 2: "materialize io slug current s1 = (Inr y, s2)" and s2: "s2 = s'"
    by (auto simp: failF_def elim!: no_message_passes [OF _ no_message_materialize])
  have names: "hoare distinct_names (fs_write io slug f c) (\<lambda>_. distinct_names) (\<lambda>_. True)" for f c
    by (rule hoare_write) (auto simp: after_def)
  have "hoare distinct_names (conflict_files io slug ?tag soul config) (\<lambda>_. distinct_names) (\<lambda>_. True)"
    unfolding conflict_files_def by (rule hoare_bind [OF names names])
  from hoareD(1) [OF this assms(1) 1] have "distinct_names s1" .
  from hoareD(1) [OF exactly_replaced this 2] s2 show ?thesis by (simp add: revision_files_def)
qed

end
