(* ===== verification/ReplicaRename.thy ===== *)
theory ReplicaRename
  imports ReplicaProps
begin

text \<open>
  A rename of a replica whose directory could not be moved is rolled back in the store by a
  command of its own. The receipt of the rename stays, so a retry of it moves the directory only.
\<close>

section \<open>The store\<close>

lemma agent_roundtrip: "agent_result (CR_Agent a) = Some a"
  by (simp add: agent_result_def)

lemma rename_agent_again:
  assumes "reachable X d1" and "rename_agent X c slug new_slug d = Inr (a, d1)" and "op_steps X d1 d2"
  shows "rename_agent X c slug new_slug d2 = Inr (a, d2)"
proof -
  let ?h = "command_request_hash X (RQ_RenameAgent slug new_slug)"
  from assms(2) obtain b where v: "validate_slug new_slug = Inr ()"
    and tr: "transact_command X c ''rename_agent'' ?h CR_Agent agent_result
      (decide_rename_agent X slug new_slug) apply_agent_events d = Inr ((a, b), d1)"
    by (auto simp: rename_agent_def rename_agent_with_command_def result_simps)
  obtain rc where rc: "select_command_receipt (context_operation_id c ''rename_agent'') d1 = Some rc"
    "rc_request_hash rc = ?h" "agent_result (rc_result rc) = Some a"
    by (rule agent_projection.transact_receipt [OF tr agent_roundtrip]) (auto dest: decide_drawn drawn_receipts)
  have "select_command_receipt (context_operation_id c ''rename_agent'') d2 = Some rc"
    by (rule receipt_kept [OF rc(1) later_receipts [OF assms(1,3)]])
  with rc(2,3) v show ?thesis
    by (simp add: rename_agent_def rename_agent_with_command_def agent_projection.transact_replay)
qed

text \<open>An update of an Agent leaves the names alone.\<close>

definition names_of :: "db \<Rightarrow> (string \<times> bool) list" where
  "names_of d = map (\<lambda>a. (agent_slug a, agent_archived a)) (t_agents d)"

lemma update_where_names:
  "map (\<lambda>a. (agent_slug a, agent_archived a)) (update_where p (\<lambda>a. a\<lparr>agent_current_revision := n\<rparr>) xs)
    = map (\<lambda>a. (agent_slug a, agent_archived a)) xs"
  by (simp add: update_where_def)

lemma update_agent_names:
  assumes "update_agent X c aid expected soul config author d = Inr (r, d')"
  shows "names_of d' = names_of d"
proof (cases "select_command_receipt (context_operation_id c ''update_agent'') d")
  case (Some rc)
  with assms show ?thesis
    by (auto simp: update_agent_def result_simps agent_projection.transact_replay split: if_splits option.splits)
next
  case None
  let ?h = "command_request_hash X (RQ_UpdateAgent aid expected soul config author)"
  from assms obtain b where
    tr: "transact_command X c ''update_agent'' ?h CR_AgentRevision revision_result
      (decide_update_agent X aid expected soul config author) apply_agent_events d = Inr ((r, b), d')"
    by (auto simp: update_agent_def result_simps)
  obtain ss d0 where dec: "decide_update_agent X aid expected soul config author d = Inr ((r, ss), d0)"
    and cm: "committed_by apply_agent_events (concat (map planned ss)) d0 d'"
    by (rule agent_projection.transact_fresh [OF tr None]) (auto dest: decide_drawn drawn_receipts)
  note di = decide_update_agent_Inr [OF dec]
  from cm obtain je d1 d2 where je: "je_payload je = JE_AgentRevisionCreated r" and t0: "tables_eq d0 d1"
    and ap: "apply_agent_event je d1 = Inr d2" and t: "tables_eq d2 d'"
    unfolding di(2) by (auto simp: committed_by_def apply_agent_events_def bindR_eq_Inr
        Cons_eq_map_conv commit_of_def)
  from ap je di(3,4) have "names_of d2 = names_of d1"
    by (auto simp: apply_agent_event_def apply_agent_revision_def insert_agent_revision_def Let_def
        result_simps names_of_def update_where_names split: if_splits)
  then show ?thesis using tables_eq_trans [OF di(1) t0] t by (simp add: names_of_def tables_eq_def catalog_eq_def)
qed

section \<open>What a synchronization does to the store\<close>

lemma db_kept: "files_only m \<Longrightarrow> hoare (\<lambda>s. D (ha_db s)) m (\<lambda>_ s. D (ha_db s)) (\<lambda>s. D (ha_db s))"
  unfolding hoare_def files_only_def by (auto split: prod.splits sum.splits) (metis snd_conv)+

lemma files_only_parts:
  "files_only (conflict_files io slug tag soul config)" "files_only (restore_replica io slug a r)"
  "files_only (hub_installation X)" "files_only (hub_agent_revision X a)"
  unfolding conflict_files_def restore_replica_def hub_installation_def hub_agent_revision_def
  by (auto simp: files_only_materialize split: option.split)

lemma reconcile_updates:
  assumes "\<And>n soul config h d r d'. D d \<Longrightarrow> update_agent X ctx (agent_id a) n soul config h d = Inr (r, d') \<Longrightarrow> D d'"
  shows "hoare (\<lambda>s. D (ha_db s)) (reconcile X io ctx slug a current soul config n) (\<lambda>_ s. D (ha_db s)) (\<lambda>s. D (ha_db s))"
    (is "hoare ?D _ ?Q _")
proof -
  have older: "files_only (bindF (lookF f) (\<lambda>base. if edited soul config base
      then bindF (conflict_files io slug tag soul config) (\<lambda>_. bindF (materialize io slug current) (\<lambda>_. failF e))
      else bindF (materialize io slug current) (\<lambda>_. retF a)))" for f tag e
    by (intro files_only_bind files_only_if files_only_parts files_only_materialize files_only_basic)
  have store: "hoare ?D (storeF (update_agent X ctx (agent_id a) n soul config h)) (\<lambda>_ s. D (ha_db s)) ?D" for n soul config h
    by (rule hoare_store) (auto intro: assms)
  have edit: "hoare ?D (bindF (hub_installation X) (\<lambda>i.
      bindF (storeF (update_agent X ctx (agent_id a) (rev_revision current) (trim_end soul) config (ins_hub_host_id i))) (\<lambda>r.
      bindF (fs_write io slug revision_file (show_nat (rev_revision r))) (\<lambda>_. lookF (agent_by_slug X slug))))) ?Q ?D"
    by (rule hoare_bind [OF db_kept [where D = D, OF files_only_parts(3)]], rule hoare_bind [OF store],
        rule db_kept [where D = D]) auto
  show ?thesis unfolding reconcile_def
    by (rule hoare_if, rule db_kept [where D = D, OF older], rule hoare_if, rule db_kept [where D = D], simp,
        rule hoare_if, rule edit, rule db_kept [where D = D], simp)
qed

lemma synchronize_updates:
  assumes "\<And>aid n soul config h d r d'. D d \<Longrightarrow> update_agent X ctx aid n soul config h d = Inr (r, d') \<Longrightarrow> D d'"
  shows "hoare (\<lambda>s. D (ha_db s)) (synchronize_agent X io ctx slug) (\<lambda>_ s. D (ha_db s)) (\<lambda>s. D (ha_db s))"
proof -
  note k = hoare_bind [OF db_kept [where D = D]]
  have complete: "files_only (if b then fs_file_exists io slug f else retF False)" for b f by auto
  have unknown: "files_only (if \<not> e then bindF (fs_write io slug f t) (\<lambda>_. retF a)
      else bindF (conflict_files io slug tag soul config) (\<lambda>_. failF x))" for e f t a tag soul config x
    by (intro files_only_if files_only_bind files_only_parts files_only_basic files_only_fs)
  show ?thesis unfolding synchronize_agent_def
    by (rule k, simp, rule k, rule files_only_parts, rule k, simp, rule k, simp, rule k, simp, rule k, rule complete,
        rule hoare_if, rule db_kept [where D = D], rule files_only_parts, rule k, simp, rule k, simp, rule k,
        simp add: files_only_ok, rule hoare_case_option, rule db_kept [where D = D], rule unknown,
        rule reconcile_updates, rule assms)
qed

section \<open>The retry\<close>

lemma hoare_and: "hoare P m Q R \<Longrightarrow> (\<And>x. hoare (Q x) (if x then m' else retF False) Q' R) \<Longrightarrow> hoare P (andF m m') Q' R"
  unfolding andF_def by (rule hoare_bind)

text \<open>
  A retry finds the old directory, and an Agent with the old name: nothing seems to have been done.
\<close>

lemma replay_finds_nothing:
  assumes "\<And>d. D d \<Longrightarrow> \<not> isl (agent_by_slug X slug d)"
  shows "hoare (\<lambda>s. dir_of new_slug s = None \<and> D (ha_db s)) (replay_agent_rename X io ctx slug new_slug)
    (\<lambda>x s. x = None \<and> D (ha_db s)) (\<lambda>_. True)"
proof -
  let ?P = "\<lambda>s. dir_of new_slug s = None \<and> D (ha_db s)"
  have asks: "hoare ?P (fs_exists io n) (\<lambda>x s. ?P s \<and> (n = new_slug \<longrightarrow> \<not> x)) (\<lambda>_. True)" for n
    unfolding fs_exists_def fs_ask_def hoare_def by auto
  have asks': "hoare ?P (fs_exists io n) (\<lambda>_. ?P) (\<lambda>_. True)" for n by (rule hoare_weaken [OF asks]) auto
  have no: "hoare ?P (notF (fs_exists io n)) (\<lambda>_. ?P) (\<lambda>_. True)" for n
    unfolding notF_def by (rule hoare_bind [OF asks'], rule hoare_ret)
  have moved: "hoare ?P (andF (notF (fs_exists io slug)) (fs_exists io new_slug)) (\<lambda>x s. ?P s \<and> \<not> x) (\<lambda>_. True)"
    by (rule hoare_and [OF no], rule hoare_if, rule hoare_weaken [OF asks]) (auto intro: hoare_ret)
  have known: "hoare ?P (\<lambda>s. (Inr (isl (agent_by_slug X slug (ha_db s))), s)) (\<lambda>x s. ?P s \<and> \<not> x) (\<lambda>_. True)"
    using assms by (simp add: hoare_def)
  have pending: "hoare ?P (andF (fs_exists io slug) (andF (notF (fs_exists io new_slug))
      (\<lambda>s. (Inr (isl (agent_by_slug X slug (ha_db s))), s)))) (\<lambda>x s. ?P s \<and> \<not> x) (\<lambda>_. True)"
    by (rule hoare_and [OF asks'], rule hoare_if, rule hoare_and [OF no], rule hoare_if, rule known)
      (auto intro: hoare_ret)
  show ?thesis unfolding replay_agent_rename_def
    by (rule hoare_bind [OF moved], rule hoare_pure, rule hoare_if, blast, rule hoare_bind [OF pending], rule hoare_pure,
        rule hoare_if, blast, rule hoare_ret, blast)
qed

text \<open>
  C9. After a rename whose directory could not be moved has been rolled back, a retry of the
  same command that returns has moved the directory to the new name, while the store still has
  the Agent under the old one: the rename is answered from its receipt and not carried out.
\<close>

theorem retried_rename_diverges:
  fixes s :: "'h HubApp"
  assumes "reachable X d1" and "rename_agent X ctx slug new_slug d = Inr (a, d1)"
    and "rollback_agent_rename X ctx new_slug slug d1 = Inr (b, ha_db s)"
    and "\<not> isl (agent_by_slug X slug (ha_db s))" and "slug \<noteq> new_slug" and "dir_of new_slug s = None"
    and "hub_rename_agent X io ctx slug new_slug s = (Inr a', s')"
  shows "a' = a \<and> dir_of slug s' = None \<and> dir_of new_slug s' \<noteq> None
    \<and> (\<exists>c \<in> set (t_agents (ha_db s')). agent_slug c = slug \<and> \<not> agent_archived c)"
proof -
  let ?d = "ha_db s"
  let ?D = "\<lambda>d. op_steps X d1 d \<and> names_of d = names_of ?d"
  let ?P = "\<lambda>s' :: 'h HubApp. ?D (ha_db s')"
  let ?N = "\<lambda>_. True"
  have start: "op_steps X d1 ?d" using OpRollbackRename [OF assms(3)] by blast
  have replay: "hoare (\<lambda>s' :: 'h HubApp. s' = s) (replay_agent_rename X io ctx slug new_slug) (\<lambda>x s'. ?P s' \<and> x = None) ?N"
    by (rule hoare_weaken [OF replay_finds_nothing [where D = "\<lambda>d. d = ?d" and X = X and slug = slug]])
      (use assms(4,6) start in auto)
  have sync: "hoare ?P (synchronize_agent X io ctx slug) (\<lambda>_. ?P) ?N"
  proof (rule hoare_weaken [OF synchronize_updates])
    fix aid n soul config h d r d'
    assume "?D d" and up: "update_agent X ctx aid n soul config h d = Inr (r, d')"
    then show "?D d'" using OpUpdateAgent [OF up] update_agent_names [OF up] by (auto intro: rtranclp.rtrancl_into_rtrancl)
  qed auto
  have asked: "hoare ?P (fs_exists io new_slug) (\<lambda>_. ?P) ?N"
    by (rule hoare_weaken [OF db_kept [where D = ?D]]) simp_all
  have checked: "hoare ?P (requireF t e) (\<lambda>_. ?P) ?N" for t e
    by (rule hoare_weaken [OF db_kept [where D = ?D]]) simp_all
  have renamed: "hoare ?P (storeF (rename_agent X ctx slug new_slug)) (\<lambda>x s'. ?P s' \<and> x = a) ?N"
    using rename_agent_again [OF assms(1,2)] by (intro hoare_store) auto
  let ?M = "\<lambda>s' :: 'h HubApp. names_of (ha_db s') = names_of ?d \<and> dir_of slug s' = None \<and> dir_of new_slug s' \<noteq> None"
  have move: "hoare ?P (fs_rename io slug new_slug) (\<lambda>_. ?M) ?N"
    unfolding fs_rename_def
    by (rule hoare_act) (use assms(5) in \<open>auto simp: rename_dir_def dir_of_def bump_def delete_conv' update_conv' split: option.splits if_splits\<close>)
  have sync_dirs: "hoare ?M (fs_sync io) (\<lambda>_. ?M) ?N"
    by (rule hoare_sync) simp
  have "hoare (\<lambda>s' :: 'h HubApp. s' = s) (hub_rename_agent X io ctx slug new_slug) (\<lambda>x s'. ?M s' \<and> x = a) ?N"
    unfolding hub_rename_agent_def
    by (rule hoare_bind [OF replay], rule hoare_pure, simp only: option.case, rule hoare_bind [OF sync], rule hoare_bind [OF asked],
        rule hoare_bind [OF checked], rule hoare_bind [OF renamed], rule hoare_pure, rule hoare_bind, rule hoare_catch [OF move],
        rule hoare_bind [OF any_post never_returns], rule hoare_bind [OF sync_dirs], rule hoare_ret, simp)
  from hoareD(1) [OF this _ assms(7)] have "?M s'" "a' = a" by auto
  moreover have "(slug, False) \<in> set (names_of ?d)"
    using assms(4) by (auto simp: agent_by_slug_def select_agent_by_slug_def names_of_def okOr_def split: option.splits dest!: find_SomeD)
  ultimately have "(slug, False) \<in> set (names_of (ha_db s'))" by simp
  then have "\<exists>c \<in> set (t_agents (ha_db s')). agent_slug c = slug \<and> \<not> agent_archived c" by (auto simp: names_of_def)
  with \<open>?M s'\<close> \<open>a' = a\<close> show ?thesis by blast
qed

end
