(* ===== verification/ReplicaDemo.thy ===== *)
theory ReplicaDemo
  imports ReplicaRename
begin

text \<open>
  Runs of synchronizations and renames on a file tree with one replica: the theorems on replicas
  are applied to them.
\<close>

definition demo_io :: "nat option \<Rightarrow> io_ext" where
  "demo_io fault = \<lparr>io_fault = (\<lambda>n. if fault = Some n then Some None else None),
     io_uuid = (\<lambda>n. replicate n (CHR ''a'')), io_toml = (\<lambda>_. Inr [])\<rparr>"

definition demo_hub :: "db \<Rightarrow> string \<Rightarrow> string \<Rightarrow> unit HubApp" where
  "demo_hub d soul num = \<lparr>ft_dirs = [(''coder'', \<lparr>ad_files = [(''SOUL.md'', soul), (''agent.toml'', []),
       (''.revision'', num), (''.agent-id'', ''agt_7'')], ad_resources = [(''skills'', ''s'')]\<rparr>)],
     ft_ticks = 0, ha_db = d, ha_host = ()\<rparr>"

lemma demo_io_ordered: "uuid_ordered (demo_io fault)"
proof -
  have "replicate m (CHR ''a'') < replicate n (CHR ''a'')" if "m < n" for m n
  proof -
    have "replicate n (CHR ''a'') = replicate m (CHR ''a'') @ replicate (n - m) (CHR ''a'')"
      using that by (simp add: replicate_add [symmetric])
    moreover have "replicate m (CHR ''a'') @ [] < replicate m (CHR ''a'') @ replicate (n - m) (CHR ''a'')"
      unfolding append_less_iff using that by (cases "n - m") (simp_all add: list_less_def)
    ultimately show ?thesis by simp
  qed
  then show ?thesis by (simp add: uuid_ordered_def demo_io_def)
qed

lemma demo_hub_ok:
  "tree_ok (demo_io fault) ''coder'' (demo_hub d soul num)" "distinct_names (demo_hub d soul num)"
  "has_files ''coder'' [(''SOUL.md'', soul), (''agent.toml'', [])] (demo_hub d soul num)"
  "dir_of ''builder'' (demo_hub d soul num) = None" "ha_db (demo_hub d soul num) = d"
  by (auto simp: tree_ok_def distinct_names_def has_files_def dir_of_def file_of_def demo_hub_def
      starts_with_def previous_prefix_def split: if_splits)

definition demo_sync :: "unit HubApp \<Rightarrow> (HubError + Agent) \<times> unit HubApp" where
  "demo_sync s = synchronize_agent demo_ext (demo_io None) (demo_context ''c21'') ''coder'' s"

text \<open>The directories that have a file with a text\<close>

definition dirs_with :: "string \<Rightarrow> unit HubApp \<Rightarrow> string list" where
  "dirs_with text s = map fst (filter (\<lambda>(_, dir). text \<in> snd ` set (ad_files dir)) (ft_dirs s))"

lemma demo2_reachable: "reachable demo_ext demo2"
  unfolding reachable_def by (meson demo_step1 demo_step2 rtranclp.rtrancl_into_rtrancl rtranclp.rtrancl_refl)

lemma demo_no_receipt: "select_command_receipt (context_operation_id (demo_context ''c21'') ''update_agent'') demo2 = None"
  by code_simp

theorem edits_survive_witness:
  "\<exists>name. (name = ''coder'' \<or> starts_with (previous_prefix ''coder'') name)
    \<and> has_files name [(''SOUL.md'', ''mine''), (''agent.toml'', [])] (snd (demo_sync (demo_hub demo_updated ''mine'' ''1'')))"
  unfolding demo_sync_def by (rule edits_survive [OF demo_io_ordered demo_hub_ok(1,3) surjective_pairing])

lemma demo_synced: "\<not> isl (fst (demo_sync (demo_hub demo2 ''mine'' ''1'')))"
  by code_simp


text \<open>The conflict: the edited text was of revision 1, and revision 2 is the current one.\<close>

definition conflict_check :: "(HubError + Agent) \<times> unit HubApp \<Rightarrow> bool" where
  "conflict_check r = (case r of
     (Inl (HE_Text t), s) \<Rightarrow> starts_with ''agent definition conflicts'' t
       \<and> list_all (starts_with ''.coder.previous-'') (map fst (butlast (ft_dirs s)))
   | _ \<Rightarrow> False)"

lemma demo_conflict: "conflict_check (demo_sync (demo_hub demo_updated ''mine'' ''1''))"
  by code_simp

text \<open>After the next revision no directory has the text that was edited.\<close>

definition demo_later :: "unit HubApp \<Rightarrow> unit HubApp" where
  "demo_later s = s\<lparr>ha_db := state_of (update_agent demo_ext (demo_context ''c10'') ''agt_7'' 2 ''soul three'' [] ''hst_1'' (ha_db s))\<rparr>"

definition demo_conflicted :: "unit HubApp" where
  "demo_conflicted = snd (demo_sync (demo_hub demo_updated ''mine'' ''1''))"

lemma demo_conflict_lost:
  "dirs_with ''mine'' demo_conflicted = [''.coder.previous-'' @ replicate 10 (CHR ''a'')]"
  "dirs_with ''mine'' (snd (demo_sync (demo_later demo_conflicted))) = []"
  by code_simp+

definition demo_agent :: Agent where "demo_agent = hd (t_agents demo_updated)"
definition demo_base :: AgentRevision where "demo_base = hd (t_agent_revisions demo_updated)"
definition demo_current :: AgentRevision where "demo_current = last (t_agent_revisions demo_updated)"

definition demo_reconcile :: "(HubError + Agent) \<times> unit HubApp" where
  "demo_reconcile = reconcile demo_ext (demo_io None) (demo_context ''c21'') ''coder'' demo_agent demo_current ''mine'' [] 1
     (demo_hub demo_updated ''mine'' ''1'')"

lemma demo_revisions:
  "agent_revision demo_ext (agent_id demo_agent) 1 demo_updated = Inr demo_base" "1 < rev_revision demo_current"
  "edited ''mine'' [] demo_base" "conflict_check demo_reconcile"
  by code_simp+

theorem conflict_copies_set_aside_witness:
  "exactly ''coder'' [(''SOUL.md'', rev_soul demo_current), (''agent.toml'', rev_config_toml demo_current),
     (revision_file, show_nat (rev_revision demo_current)), (agent_id_file, rev_agent_id demo_current)] (snd demo_reconcile)"
proof -
  obtain t s where r: "demo_reconcile = (Inl (HE_Text t), s)" 
    using demo_revisions(4) by (auto simp: conflict_check_def split: prod.splits sum.splits HubError.splits)
  have "agent_revision demo_ext (agent_id demo_agent) 1 (ha_db (demo_hub demo_updated ''mine'' ''1'')) = Inr demo_base"
    using demo_revisions(1) by (simp add: demo_hub_ok)
  from conflict_copies_set_aside [OF demo_hub_ok(2) demo_revisions(2) this demo_revisions(3) r [unfolded demo_reconcile_def]]
  show ?thesis unfolding r snd_conv .
qed

text \<open>A rename whose directory cannot be moved, and its retry\<close>

definition demo_rename :: "nat option \<Rightarrow> unit HubApp \<Rightarrow> (HubError + Agent) \<times> unit HubApp" where
  "demo_rename fault s = hub_rename_agent demo_ext (demo_io fault) (demo_context ''c22'') ''coder'' ''builder'' s"

definition demo_renamed :: db where
  "demo_renamed = state_of (rename_agent demo_ext (demo_context ''c22'') ''coder'' ''builder'' demo2)"

definition demo_rolled_back :: db where
  "demo_rolled_back = state_of (rollback_agent_rename demo_ext (demo_context ''c22'') ''builder'' ''coder'' demo_renamed)"

lemma demo_rename_steps:
  "\<not> isl (rename_agent demo_ext (demo_context ''c22'') ''coder'' ''builder'' demo2)"
  "\<not> isl (rollback_agent_rename demo_ext (demo_context ''c22'') ''builder'' ''coder'' demo_renamed)"
  "\<not> isl (agent_by_slug demo_ext ''coder'' demo_rolled_back)"
  by code_simp+

text \<open>The system fails at the twelfth access, the move of the directory.\<close>

definition demo_failed :: "unit HubApp" where
  "demo_failed = snd (demo_rename (Some 11) (demo_hub demo2 ''soul'' ''1''))"

lemma demo_rename_fails:
  "isl (fst (demo_rename (Some 11) (demo_hub demo2 ''soul'' ''1'')))" "ha_db demo_failed = demo_rolled_back"
  "dir_of ''builder'' demo_failed = None" "\<not> isl (fst (demo_rename None demo_failed))"
  by code_simp+

theorem retried_rename_diverges_witness:
  "dir_of ''coder'' (snd (demo_rename None demo_failed)) = None \<and> dir_of ''builder'' (snd (demo_rename None demo_failed)) \<noteq> None
    \<and> (\<exists>c \<in> set (t_agents (ha_db (snd (demo_rename None demo_failed)))). agent_slug c = ''coder'' \<and> \<not> agent_archived c)"
proof -
  note renamed = state_of_Inr [OF demo_rename_steps(1), folded demo_renamed_def]
  note rolled = state_of_Inr [OF demo_rename_steps(2), folded demo_rolled_back_def, folded demo_rename_fails(2)]
  have retried: "demo_rename None demo_failed = (Inr (projr (fst (demo_rename None demo_failed))), snd (demo_rename None demo_failed))"
    using demo_rename_fails(4) by (metis prod.collapse sum.collapse(2))
  have "op_steps demo_ext demo2 demo_renamed" using OpRenameAgent [OF renamed] by blast
  from retried_rename_diverges [OF reachable_later(1) [OF demo2_reachable this] renamed rolled _ _ demo_rename_fails(3)
      retried [unfolded demo_rename_def]] demo_rename_steps(3) demo_rename_fails(2)
  show ?thesis unfolding demo_rename_def by simp
qed

end
