(* ===== verification/NativeSession.thy ===== *)
theory NativeSession
  imports AgentSteps Installations SessionAppend Turns
begin

text \<open>
  The conversation of the native Harness, \<open>SessionStore\<close> of \<open>crates/mews/src/app/native.rs\<close>:
  what the agent loop reads and records of a Session, as operations of the store. While the
  Turn waits for the outside, other users of the store do what they like with it
  (\<open>no_others\<close>).
\<close>

section \<open>State and outside\<close>

record 'w native =
  nt_db :: db
  nt_finished :: bool
  nt_out :: 'w

text \<open>What serde, base64 and the formatting of foreign types give.\<close>

record native_ext =
  nx_request_value :: "ModelRequest \<Rightarrow> Value" \<comment> \<open>\<open>serde_json::to_value\<close>\<close>
  nx_value_request :: "Value \<Rightarrow> string + ModelRequest" \<comment> \<open>\<open>serde_json::from_value\<close>\<close>
  nx_request_json :: "ModelRequest \<Rightarrow> string" \<comment> \<open>\<open>serde_json::to_vec\<close>\<close>
  nx_call_value :: "AgentToolCall \<Rightarrow> Value"
  nx_json :: "Value \<Rightarrow> string" \<comment> \<open>\<open>serde_json::to_string\<close>\<close>
  nx_base64 :: "string \<Rightarrow> string"
  nx_uuid :: "nat \<Rightarrow> string" \<comment> \<open>drawn outside of a transaction, at a tick of the database\<close>
  nx_now :: DateTime
  nx_debug :: "string \<Rightarrow> string" \<comment> \<open>\<open>{:?}\<close> of a string or path\<close>
  nx_debug_leaf :: "MessageId option \<Rightarrow> string"
  nx_database_text :: "DbError \<Rightarrow> string" \<comment> \<open>the text of an error of SQLite\<close>

fun store_error_text :: "native_ext \<Rightarrow> StoreError \<Rightarrow> string" where
  "store_error_text N (Database e) = ''database error: '' @ nx_database_text N e"
| "store_error_text N (InvalidData m) = ''invalid stored data: '' @ m"
| "store_error_text N (NotFound kind i) = kind @ '' not found: '' @ i"
| "store_error_text N (DuplicateAgent slug) = ''agent slug already exists: '' @ slug"
| "store_error_text N (RevisionConflict expected current) =
     ''agent revision conflict: expected '' @ show_nat expected @ '', current '' @ show_nat current"
| "store_error_text N (CommandConflict c) = ''command '' @ c @ '' was already used with a different request''"
| "store_error_text N (ActiveTurnConflict s t) = ''session '' @ s @ '' already has active Turn '' @ t"
| "store_error_text N (LeafConflict expected current) =
     ''session leaf conflict: expected '' @ nx_debug_leaf N expected @ '', current '' @ nx_debug_leaf N current"
| "store_error_text N (InvalidAgent m) = ''invalid agent definition: '' @ m"

type_synonym ('w, 'a) natively = "'w native \<Rightarrow> (AgentError + 'a) \<times> 'w native"

definition bindN :: "('w, 'a) natively \<Rightarrow> ('a \<Rightarrow> ('w, 'b) natively) \<Rightarrow> ('w, 'b) natively" where
  "bindN m f s = (case m s of (Inl e, s') \<Rightarrow> (Inl e, s') | (Inr x, s') \<Rightarrow> f x s')"

definition retN :: "'a \<Rightarrow> ('w, 'a) natively" where
  "retN x s = (Inr x, s)"

definition failN :: "AgentError \<Rightarrow> ('w, 'a) natively" where
  "failN e s = (Inl e, s)"

definition liftN :: "AgentError + 'a \<Rightarrow> ('w, 'a) natively" where
  "liftN r s = (r, s)"

text \<open>A read of the store, and a transaction.\<close>

definition readN :: "native_ext \<Rightarrow> (db \<Rightarrow> StoreError + 'a) \<Rightarrow> ('w, 'a) natively" where
  "readN N f s = (mapErr (\<lambda>e. AE_Message (store_error_text N e)) (f (nt_db s)), s)"

definition writeN :: "native_ext \<Rightarrow> (db \<Rightarrow> StoreError + db) \<Rightarrow> ('w, unit) natively" where
  "writeN N f s =
     (case f (nt_db s) of
        Inl e \<Rightarrow> (Inl (AE_Message (store_error_text N e)), s)
      | Inr d \<Rightarrow> (Inr (), s\<lparr>nt_db := d\<rparr>))"

definition returningN :: "native_ext \<Rightarrow> (db \<Rightarrow> StoreError + 'a \<times> db) \<Rightarrow> ('w, 'a) natively" where
  "returningN N f s =
     (case f (nt_db s) of
        Inl e \<Rightarrow> (Inl (AE_Message (store_error_text N e)), s)
      | Inr (x, d) \<Rightarrow> (Inr x, s\<lparr>nt_db := d\<rparr>))"

section \<open>The Turn\<close>

text \<open>A Harness as its Host publishes it: the parts of the descriptor that a Turn uses.\<close>

datatype HarnessReadiness = HR_NotApplicable | HR_Ready | HR_Missing | HR_Required | HR_Stale | HR_Failed

record HarnessAvailability =
  ha_runtime :: HarnessReadiness
  ha_adapter :: HarnessReadiness
  ha_authentication :: HarnessReadiness
  ha_catalog :: HarnessReadiness
  ha_detail :: "string option"

definition harness_ready :: "HarnessAvailability \<Rightarrow> bool" where
  "harness_ready a = list_all (\<lambda>state. state = HR_Ready \<or> state = HR_NotApplicable)
     [ha_runtime a, ha_adapter a, ha_authentication a, ha_catalog a]"

record HarnessDescriptor =
  hd_name :: string
  hd_definition_hash :: string
  hd_executable_version :: "string option"
  hd_availability :: HarnessAvailability
  hd_supports_continuation :: bool

record SessionStore =
  so_session :: Session
  so_turn :: TurnId
  so_harness :: HarnessDescriptor

datatype TurnTermination = TM_Completed | TM_Cancelled | TM_Failed string

datatype EffectTermination = ET_Succeeded "Value option" | ET_Failed string | ET_Uncertain string

definition so_begin_turn :: "ext \<Rightarrow> native_ext \<Rightarrow> SessionStore \<Rightarrow> ('w, unit) natively" where
  "so_begin_turn X N c =
     writeN N (record_turn_harness X (so_turn c) (hd_name (so_harness c)) (hd_definition_hash (so_harness c))
       (hd_executable_version (so_harness c)))"

definition so_finish_turn :: "ext \<Rightarrow> native_ext \<Rightarrow> SessionStore \<Rightarrow> TurnTermination \<Rightarrow> ('w, unit) natively" where
  "so_finish_turn X N c termination =
     bindN (writeN N (case termination of
         TM_Completed \<Rightarrow> finish_turn X (so_turn c) Completed None
       | TM_Cancelled \<Rightarrow> finish_turn X (so_turn c) Cancelled None
       | TM_Failed e \<Rightarrow> finish_turn X (so_turn c) Failed (Some e))) (\<lambda>_ s.
     (Inr (), s\<lparr>nt_finished := True\<rparr>))"

text \<open>\<open>Drop\<close>: a Turn that was not finished is cancelled; an error is ignored.\<close>

definition so_drop :: "ext \<Rightarrow> SessionStore \<Rightarrow> 'w native \<Rightarrow> 'w native" where
  "so_drop X c s =
     (if nt_finished s then s
      else case finish_turn X (so_turn c) Cancelled (Some ''Turn task was cancelled before completion'') (nt_db s) of
        Inl _ \<Rightarrow> s | Inr d \<Rightarrow> s\<lparr>nt_db := d\<rparr>)"

section \<open>The history\<close>

text \<open>\<open>split_once('/')\<close>\<close>

definition split_slash :: "string \<Rightarrow> (string \<times> string) option" where
  "split_slash s =
     (if CHR ''/'' \<in> set s
      then Some (takeWhile (\<lambda>c. c \<noteq> CHR ''/'') s, tl (dropWhile (\<lambda>c. c \<noteq> CHR ''/'') s)) else None)"

definition is_compaction :: "SessionEntry \<Rightarrow> bool" where
  "is_compaction e = (case se_payload e of SP_ContextCompaction _ _ _ \<Rightarrow> True | _ \<Rightarrow> False)"

text \<open>The identifier of a response that the provider keeps.\<close>

definition response_cursor :: "string \<Rightarrow> string \<Rightarrow> SessionEntry \<Rightarrow> string option" where
  "response_cursor provider model e =
     (case se_payload e of
        SP_AssistantResponse _ r \<Rightarrow>
          if ar_provider r = provider \<and> ar_model r = model \<and> ar_api r = ''responses'' then ar_response_id r else None
      | _ \<Rightarrow> None)"

definition after_compaction :: "SessionEntry list \<Rightarrow> (nat \<times> SessionEntry) list" where
  "after_compaction es = takeWhile (\<lambda>(_, e). \<not> is_compaction e) (rev (enumerate 0 es))"

definition continuation_anchor :: "SessionEntry list \<Rightarrow> string \<Rightarrow> nat option" where
  "continuation_anchor es model =
     (case split_slash model of
        None \<Rightarrow> None
      | Some (provider, provider_model) \<Rightarrow>
          if provider \<noteq> ''openai'' then None
          else map_option fst (find (\<lambda>(_, e). response_cursor provider provider_model e \<noteq> None) (after_compaction es)))"

fun number_items :: "native_ext \<Rightarrow> SessionId \<Rightarrow> nat \<Rightarrow> PortableHistoryItem list \<Rightarrow> Message list" where
  "number_items N sid i [] = []"
| "number_items N sid i (item # items) =
     \<lparr>msg_id = nx_uuid N i, msg_session_id = sid, msg_sequence = Suc i, msg_role = phi_role item,
      msg_content = phi_content item, msg_metadata = VNull,
      msg_source = \<lparr>ms_kind = SK_Client, ms_id = ''cli'', ms_channel_origin = None\<rparr>, msg_created_at = nx_now N\<rparr>
     # number_items N sid (Suc i) items"

definition projected_messages :: "native_ext \<Rightarrow> SessionEntry list \<Rightarrow> Message list" where
  "projected_messages N es =
     number_items N (case es of [] \<Rightarrow> [] | e # _ \<Rightarrow> se_session_id e) 0 (portable_history es)"

fun debug_source :: "SourceKind \<Rightarrow> string" where
  "debug_source SK_Client = ''Client''"
| "debug_source SK_Channel = ''Channel''"
| "debug_source SK_Harness = ''Harness''"
| "debug_source SK_Host = ''Host''"

text \<open>A message that did not come from the local client is marked with where it came from.\<close>

definition model_message :: "native_ext \<Rightarrow> Message \<Rightarrow> Message" where
  "model_message N m =
     (case (msg_role m, msg_content m) of
        (RoleUser, MC_Text txt) \<Rightarrow>
          if msg_metadata m = VNull \<and> ms_kind (msg_source m) = SK_Client \<and> ms_id (msg_source m) = ''cli'' then m
          else m\<lparr>msg_content := MC_Text (''[Untrusted message context: source='' @ debug_source (ms_kind (msg_source m))
                 @ ''/'' @ ms_id (msg_source m) @ '', metadata='' @ nx_json N (msg_metadata m) @ '']''
                 @ [CHR 0x0A] @ txt)\<rparr>
      | _ \<Rightarrow> m)"

definition model_messages :: "native_ext \<Rightarrow> Message list \<Rightarrow> Message list" where
  "model_messages N ms = map (model_message N) ms"

definition provider_messages :: "Message list \<Rightarrow> ModelMessage list" where
  "provider_messages ms = map (\<lambda>m. \<lparr>mm_role = msg_role m, mm_content = msg_content m\<rparr>) ms"

text \<open>What a response gives a provider: its own state and signatures only to the model they are of.\<close>

definition replay_block :: "AssistantResponse \<Rightarrow> string \<Rightarrow> string \<Rightarrow> AssistantResponseBlock \<Rightarrow> MessageContent option" where
  "replay_block r provider model b =
     (let own = (ar_provider r = provider \<and> ar_model r = model) in
      case b of
        AB_Text txt \<Rightarrow> Some (MC_Text txt)
      | AB_ToolCall i tool arguments signature \<Rightarrow> Some (MC_ToolCall i tool arguments (if own then signature else None))
      | AB_OpaqueState p m data \<Rightarrow> if p = provider \<and> m = model then Some (MC_ProviderState p m data) else None
      | AB_Reasoning txt signature \<Rightarrow>
          let sign = (case signature of None \<Rightarrow> VNull | Some s \<Rightarrow> VString s) in
          if \<not> own then None
          else if provider = ''anthropic'' then Some (MC_ProviderState provider model
            (VObject [(''type'', VString ''thinking''), (''thinking'', VString txt), (''signature'', sign)]))
          else if provider = ''google'' then Some (MC_ProviderState provider model
            (VObject [(''thought'', VBool True), (''text'', VString txt), (''thoughtSignature'', sign)]))
          else None)"

definition replay_entry :: "string \<Rightarrow> string \<Rightarrow> SessionEntry \<Rightarrow> ModelMessage list" where
  "replay_entry provider model e =
     (case se_payload e of
        SP_UserMessage content _ _ \<Rightarrow> [\<lparr>mm_role = RoleUser, mm_content = content\<rparr>]
      | SP_AssistantResponse _ r \<Rightarrow>
          map (\<lambda>c. \<lparr>mm_role = RoleAssistant, mm_content = c\<rparr>) (List.map_filter (replay_block r provider model) (ar_blocks r))
      | SP_ToolResult _ r \<Rightarrow>
          [\<lparr>mm_role = RoleTool, mm_content = MC_ToolResult (tr_call_id r) (tr_tool r) (tr_result r) (tr_is_error r)
              (tr_uncertain r)\<rparr>]
      | SP_ContextCompaction summary _ _ \<Rightarrow>
          [\<lparr>mm_role = RoleUser, mm_content = MC_Text (''[Earlier context summary]'' @ [CHR 0x0A] @ summary)\<rparr>]
      | _ \<Rightarrow> [])"

definition native_replay :: "SessionEntry list \<Rightarrow> string \<Rightarrow> ModelMessage list" where
  "native_replay es target =
     (let (provider, model) = (case split_slash target of None \<Rightarrow> ([], target) | Some pm \<Rightarrow> pm)
      in concat (map (replay_entry provider model) es))"

text \<open>Reading the branch ends in every reachable state; the store has no other answer than these.\<close>

definition read_entries :: "ext \<Rightarrow> native_ext \<Rightarrow> SessionStore \<Rightarrow> ('w, SessionEntry list) natively" where
  "read_entries X N c =
     readN N (\<lambda>d. case active_entries X (ses_id (so_session c)) d of
         None \<Rightarrow> Inl (InvalidData ''the branch does not end'') | Some r \<Rightarrow> r)"

definition so_history :: "ext \<Rightarrow> native_ext \<Rightarrow> SessionStore \<Rightarrow> string \<Rightarrow> ('w, ModelMessage list) natively" where
  "so_history X N c model =
     bindN (read_entries X N c) (\<lambda>es.
     retN (case continuation_anchor es model of
         Some i \<Rightarrow> provider_messages (model_messages N (projected_messages N (drop (Suc i) es)))
       | None \<Rightarrow> native_replay es model))"

definition so_continuation :: "ext \<Rightarrow> native_ext \<Rightarrow> SessionStore \<Rightarrow> string \<Rightarrow> ('w, ResponseContinuation option) natively" where
  "so_continuation X N c model =
     (case split_slash model of
        None \<Rightarrow> retN None
      | Some (provider, provider_model) \<Rightarrow>
          if provider \<noteq> ''openai'' then retN None
          else bindN (read_entries X N c) (\<lambda>es.
            retN (Option.bind (find (\<lambda>(_, e). response_cursor provider provider_model e \<noteq> None) (after_compaction es))
              (\<lambda>(_, e). map_option (\<lambda>i. \<lparr>cu_response_id = i, cu_provider = provider, cu_model = provider_model,
                   cu_api = ''responses'', cu_fallback_messages = native_replay es model\<rparr>)
                (response_cursor provider provider_model e)))))"

section \<open>The request\<close>

definition prepared_request_chunk_bytes :: nat where
  "prepared_request_chunk_bytes = 384 * 1024"

function chunks_of :: "nat \<Rightarrow> string \<Rightarrow> string list" where
  "chunks_of n bs = (if n = 0 \<or> bs = [] then [] else take n bs # chunks_of n (drop n bs))"
  by pat_completeness auto
termination by (relation "measure (\<lambda>(n, bs). length bs)") auto

declare chunks_of.simps [simp del]

fun chunk_observations :: "native_ext \<Rightarrow> string \<Rightarrow> nat \<Rightarrow> string list \<Rightarrow> HarnessObservationInput list" where
  "chunk_observations N rid i [] = []"
| "chunk_observations N rid i (chunk # chunks) =
     \<lparr>ho_harness_session_id = None, ho_kind = ''model_request_prepared_chunk'',
      ho_data = VObject [(''request_id'', VString rid), (''index'', VNumber (show_nat i)), (''data'', VString (nx_base64 N chunk))],
      ho_idempotency_key = Some (''model_request_prepared:'' @ rid @ '':'' @ show_nat i)\<rparr>
     # chunk_observations N rid (Suc i) chunks"

definition prepared_request_observations ::
    "ext \<Rightarrow> native_ext \<Rightarrow> TurnId \<Rightarrow> string \<Rightarrow> ModelRequest \<Rightarrow> HarnessObservationInput list" where
  "prepared_request_observations X N t rid r =
     (let data = nx_request_value N r; key = Some (''model_request_prepared:'' @ rid) in
      if x_item_bytes X (SP_HarnessObservation t None ''model_request_prepared'' data) \<le> max_session_item_bytes
      then [\<lparr>ho_harness_session_id = None, ho_kind = ''model_request_prepared'', ho_data = data, ho_idempotency_key = key\<rparr>]
      else
        (let encoded = nx_request_json N r; chunks = chunks_of prepared_request_chunk_bytes encoded in
         \<lparr>ho_harness_session_id = None, ho_kind = ''model_request_prepared'',
          ho_data = VObject [(''format'', VString ''chunked_json_v1''), (''request_id'', VString rid),
            (''sha256'', VString (x_sha256 X encoded)), (''bytes'', VNumber (show_nat (length encoded))),
            (''chunks'', VNumber (show_nat (length chunks))), (''model'', VString (mr_model r))],
          ho_idempotency_key = key\<rparr>
         # chunk_observations N rid 0 chunks))"

definition so_model_request_prepared :: "ext \<Rightarrow> native_ext \<Rightarrow> SessionStore \<Rightarrow> ModelRequest \<Rightarrow> ('w, unit) natively" where
  "so_model_request_prepared X N c r = (\<lambda>s.
     writeN N (append_harness_observations X (ses_id (so_session c)) (so_turn c)
       (prepared_request_observations X N (so_turn c) (''op_'' @ nx_uuid N (ticks (nt_db s))) r)) s)"

section \<open>Records\<close>

definition native_call :: "AgentToolCall \<Rightarrow> ToolCall" where
  "native_call call = \<lparr>tc_call_id = call_id call, tc_tool = call_name call, tc_arguments = call_arguments call,
     tc_thought_signature = call_signature call\<rparr>"

definition native_result :: "AgentToolCall \<Rightarrow> AgentToolResult \<Rightarrow> ToolResult" where
  "native_result call r = \<lparr>tr_call_id = call_id call, tr_tool = call_name call, tr_result = res_value r,
     tr_is_error = res_is_error r, tr_uncertain = res_uncertain r\<rparr>"

definition discard :: "('w, 'a) natively \<Rightarrow> ('w, unit) natively" where
  "discard m = bindN m (\<lambda>_. retN ())"

definition so_append_response_with_tool_calls ::
    "ext \<Rightarrow> native_ext \<Rightarrow> SessionStore \<Rightarrow> AssistantResponse \<Rightarrow> AgentToolCall list \<Rightarrow> ('w, unit) natively" where
  "so_append_response_with_tool_calls X N c resp calls =
     discard (returningN N (append_assistant_response_with_tool_calls X (ses_id (so_session c)) (so_turn c) resp
       (map native_call calls)))"

definition so_tool_execution_started :: "ext \<Rightarrow> native_ext \<Rightarrow> SessionStore \<Rightarrow> AgentToolCall \<Rightarrow> ('w, unit) natively" where
  "so_tool_execution_started X N c call =
     discard (returningN N (start_tool_effect X (ses_id (so_session c)) (so_turn c) (native_call call)))"

definition so_tool_execution_completed ::
    "ext \<Rightarrow> native_ext \<Rightarrow> SessionStore \<Rightarrow> AgentToolCall \<Rightarrow> AgentToolResult \<Rightarrow> ('w, unit) natively" where
  "so_tool_execution_completed X N c call r =
     writeN N (complete_tool_execution X (ses_id (so_session c)) (so_turn c) (native_result call r))"

definition so_tool_result_recorded ::
    "ext \<Rightarrow> native_ext \<Rightarrow> SessionStore \<Rightarrow> AgentToolCall \<Rightarrow> AgentToolResult \<Rightarrow> ('w, unit) natively" where
  "so_tool_result_recorded X N c call r =
     discard (returningN N (append_tool_result X (ses_id (so_session c)) (so_turn c) (native_result call r)))"

definition injected_response :: "string \<Rightarrow> AssistantResponse" where
  "injected_response txt = \<lparr>ar_provider = ''mews'', ar_model = ''injected'', ar_api = ''runtime'', ar_response_id = None,
     ar_blocks = [AB_Text txt], ar_usage = None, ar_stop_reason = None\<rparr>"

definition so_append :: "ext \<Rightarrow> native_ext \<Rightarrow> SessionStore \<Rightarrow> ModelMessage \<Rightarrow> ('w, unit) natively" where
  "so_append X N c m =
     (let sid = ses_id (so_session c); t = so_turn c;
          source = (if mm_role m = RoleTool
            then \<lparr>ms_kind = SK_Host, ms_id = ses_host_id (so_session c), ms_channel_origin = None\<rparr>
            else \<lparr>ms_kind = SK_Harness, ms_id = ''default'', ms_channel_origin = None\<rparr>)
      in case (mm_role m, mm_content m) of
        (RoleUser, content) \<Rightarrow> discard (returningN N (append_message X sid RoleUser content VNull source))
      | (RoleTool, MC_ToolResult i tool v is_error uncertain) \<Rightarrow>
          discard (returningN N (append_tool_result X sid t \<lparr>tr_call_id = i, tr_tool = tool, tr_result = v,
            tr_is_error = is_error, tr_uncertain = uncertain\<rparr>))
      | (RoleAssistant, MC_ToolCall i tool arguments _) \<Rightarrow>
          discard (returningN N (append_tool_requested X sid t \<lparr>tc_call_id = i, tc_tool = tool, tc_arguments = arguments,
            tc_thought_signature = None\<rparr>))
      | (_, MC_ProviderState provider model data) \<Rightarrow>
          writeN N (append_harness_observation X sid t \<lparr>ho_harness_session_id = None, ho_kind = ''provider_state'',
            ho_data = VObject [(''provider'', VString provider), (''model'', VString model), (''data'', data)],
            ho_idempotency_key = None\<rparr>)
      | (RoleAssistant, MC_Text txt) \<Rightarrow>
          discard (returningN N (append_assistant_response X sid t (injected_response txt)))
      | _ \<Rightarrow> failN (AE_Message ''unsupported normalized runtime message''))"

definition so_signal :: "ext \<Rightarrow> native_ext \<Rightarrow> SessionStore \<Rightarrow> AgentSignal \<Rightarrow> ('w, unit) natively" where
  "so_signal X N c sig =
     (let emit = (\<lambda>payload. writeN N (emit_runtime_signal X (ses_id (so_session c)) (so_turn c) payload)) in
      case sig of
        SG_AssistantStarted \<Rightarrow> retN ()
      | SG_AssistantTextDelta delta \<Rightarrow> emit (RS_AssistantDelta delta None)
      | SG_ToolProgress i v \<Rightarrow> emit (RS_ToolActivity \<lparr>ta_call_id = i, ta_title = ''Tool progress'',
          ta_kind = Some ''progress'', ta_status = Some ''in_progress'', ta_input = v\<rparr>))"

definition so_start_effect :: "ext \<Rightarrow> native_ext \<Rightarrow> SessionStore \<Rightarrow> EffectRequest \<Rightarrow> ('w, OperationId) natively" where
  "so_start_effect X N c effect = returningN N (start_effect X (ses_id (so_session c)) (so_turn c) effect)"

definition so_finish_effect ::
    "ext \<Rightarrow> native_ext \<Rightarrow> SessionStore \<Rightarrow> OperationId \<Rightarrow> EffectTermination \<Rightarrow> ('w, unit) natively" where
  "so_finish_effect X N c op outcome =
     writeN N (finish_effect X (ses_id (so_session c)) (so_turn c) op (case outcome of
         ET_Succeeded v \<Rightarrow> EO_Succeeded v | ET_Failed e \<Rightarrow> EO_Failed e | ET_Uncertain r \<Rightarrow> EO_Uncertain r))"

end
