(* ===== verification/AgentWorld.thy ===== *)
theory AgentWorld
  imports AgentTurn
begin

text \<open>
  Invariants of the outside of the agent loop together with the trace: what every answer of the
  outside sustains, a whole Turn sustains.
\<close>

section \<open>Answers\<close>

definition safe_answer ::
    "('w \<Rightarrow> TraceItem list \<Rightarrow> bool) \<Rightarrow> ('w \<Rightarrow> (AgentError + 'a) \<times> 'w) \<Rightarrow> ('a \<Rightarrow> TraceItem list) \<Rightarrow> bool" where
  "safe_answer I f k \<longleftrightarrow> (\<forall>w t. I w t \<longrightarrow>
     (case f w of (Inl e, w') \<Rightarrow> I w' t | (Inr x, w') \<Rightarrow> I w' (t @ k x)))"

definition safe_poll :: "('w \<Rightarrow> TraceItem list \<Rightarrow> bool) \<Rightarrow> ('w \<Rightarrow> 'a \<times> 'w) \<Rightarrow> TraceItem list \<Rightarrow> bool" where
  "safe_poll I f n \<longleftrightarrow> (\<forall>w t. I w t \<longrightarrow> I (snd (f w)) (t @ n))"

definition sustains :: "('w \<Rightarrow> TraceItem list \<Rightarrow> bool) \<Rightarrow> ('w, 'a) agent \<Rightarrow> bool" where
  "sustains I m \<longleftrightarrow> (\<forall>s. I (ag_world s) (ag_trace s) \<longrightarrow> I (ag_world (snd (m s))) (ag_trace (snd (m s))))"

named_theorems sustains_intros \<open>rules for \<open>sustains\<close>\<close>

lemma sustains_basic [sustains_intros]:
  "sustains I (retA x)" "sustains I (failA e)" "sustains I (liftA r)" "sustains I (readA g)"
  by (simp_all add: sustains_def retA_def failA_def liftA_def readA_def)

lemma sustains_askA: "safe_answer I f k \<Longrightarrow> sustains I (askA f k)"
  by (fastforce simp: safe_answer_def sustains_def askA_def split: prod.splits sum.splits)

lemma sustains_pollA: "safe_poll I f n \<Longrightarrow> sustains I (pollA f n)"
  by (fastforce simp: safe_poll_def sustains_def pollA_def split: prod.splits)

lemma sustains_bindA [sustains_intros]: "sustains I m \<Longrightarrow> (\<And>x. sustains I (f x)) \<Longrightarrow> sustains I (bindA m f)"
  by (fastforce simp: sustains_def bindA_def split: prod.splits sum.splits)

lemma sustains_bind_value:
  "sustains I m \<Longrightarrow> (\<And>s x s'. m s = (Inr x, s') \<Longrightarrow> sustains I (f x)) \<Longrightarrow> sustains I (bindA m f)"
  by (fastforce simp: sustains_def bindA_def split: prod.splits sum.splits)

lemma sustains_tryA [sustains_intros]: "sustains I m \<Longrightarrow> sustains I (tryA m)"
  by (fastforce simp: sustains_def tryA_def split: prod.splits)

lemma sustains_forA [sustains_intros]: "(\<And>x b. sustains I (body x b)) \<Longrightarrow> sustains I (forA body xs b)"
  by (induction xs arbitrary: b) (auto intro: sustains_intros)

lemma sustains_cases [sustains_intros]:
  "sustains I m \<Longrightarrow> sustains I m' \<Longrightarrow> sustains I (if b then m else m')"
  "sustains I m \<Longrightarrow> (\<And>x. sustains I (f x)) \<Longrightarrow> sustains I (case ox of None \<Rightarrow> m | Some x \<Rightarrow> f x)"
  "(\<And>x. sustains I (g x)) \<Longrightarrow> (\<And>y. sustains I (h y)) \<Longrightarrow> sustains I (case r of Inl x \<Rightarrow> g x | Inr y \<Rightarrow> h y)"
  "(\<And>x y. sustains I (p x y)) \<Longrightarrow> sustains I (case xy of (x, y) \<Rightarrow> p x y)"
  by (simp_all split: option.split sum.split prod.split)

text \<open>An operation that behaves like another in every state\<close>

lemma sustains_eq: "(\<And>s. m s = m' s) \<Longrightarrow> sustains I m' \<Longrightarrow> sustains I m"
  by (simp add: sustains_def)

section \<open>The loop\<close>

locale world_invariant =
  fixes env :: "('w, 'z) agent_env_scheme" and I :: "'w \<Rightarrow> TraceItem list \<Rightarrow> bool"
  assumes stream: "safe_poll I (av_stream env r) [TR_Dispatched r]"
    and tools: "safe_answer I (av_tools env) (\<lambda>_. [])"
    and request: "safe_answer I (av_request env ts) (\<lambda>_. [])"
    and execute: "safe_poll I (av_execute env call) [TR_Executed call]"
    and event: "safe_answer I (av_event env ev) (\<lambda>_. [TR_Event ev])"
    and signal: "safe_answer I (av_signal env sig) (\<lambda>_. [TR_Signal sig])"
    and call_started: "safe_answer I (av_call_started env r) (\<lambda>op. [TR_CallStarted r op])"
    and call_finished: "safe_answer I (av_call_finished env op outcome) (\<lambda>_. [TR_CallFinished op outcome])"
    and turn_started: "safe_answer I (av_turn_started env) (\<lambda>_. [])"
    and turn_finished: "safe_answer I (av_turn_finished env) (\<lambda>_. [])"
    and transform_context: "safe_answer I (av_transform_context env r) (\<lambda>_. [])"
    and before_model: "safe_answer I (av_before_model env r) (\<lambda>_. [])"
    and before_tool: "safe_answer I (av_before_tool env call) (\<lambda>_. [])"
    and after_tool: "safe_poll I (av_after_tool env call result) []"
    and steering: "safe_answer I (av_steering env) (\<lambda>_. [])"
    and follow_ups: "safe_answer I (av_follow_ups env) (\<lambda>_. [])"
    and prepare_next: "safe_answer I (av_prepare_next env r) (\<lambda>_. [])"
    and after_step: "safe_answer I (av_after_step env r) (\<lambda>_. [])"
    and pick: "safe_poll I (av_pick env) []"
begin

lemmas asked = sustains_askA [OF tools] sustains_askA [OF request] sustains_askA [OF event] sustains_askA [OF signal]
  sustains_askA [OF call_started] sustains_askA [OF call_finished] sustains_askA [OF turn_started]
  sustains_askA [OF turn_finished] sustains_askA [OF transform_context] sustains_askA [OF before_model]
  sustains_askA [OF before_tool] sustains_askA [OF steering] sustains_askA [OF follow_ups]
  sustains_askA [OF prepare_next] sustains_askA [OF after_step]

lemmas polls = sustains_pollA [OF stream] sustains_pollA [OF execute] sustains_pollA [OF after_tool] sustains_pollA [OF pick]

lemma reports: "sustains I (rt_event env ev)" "sustains I (rt_signal env sig)"
  by (simp_all add: rt_event_def rt_signal_def asked)

lemma sustains_finish: "sustains I (finish_provider_call env op outcome)"
  unfolding finish_provider_call_def by (intro sustains_intros asked)

lemma sustains_start: "sustains I (start_provider_stream env r)"
  unfolding start_provider_stream_def
  by (auto split: selected.split sum.split intro!: sustains_intros asked polls sustains_finish)

lemma sustains_stream_event: "sustains I (stream_event env ev st)"
  unfolding stream_event_def ensure_started_def premature_end_def Let_def
  by (cases ev) (auto intro!: sustains_intros reports sustains_finish)

lemma sustains_premature: "sustains I (premature_end env st)"
  unfolding premature_end_def by (intro sustains_intros sustains_finish)

lemma sustains_stream_loop: "sustains I (stream_loop env r cursor items st)"
proof (induction cursor items st rule: stream_loop_cases)
  case (1 cursor items st item)
  show ?case
    by (cases item rule: stream_item_cases)
      (auto simp: stream_loop_eqs intro!: sustains_intros sustains_finish sustains_start sustains_stream_event 1)
qed (auto simp: stream_loop_eqs intro!: sustains_intros sustains_premature)

lemma sustains_stream_response: "sustains I (stream_response env r)"
  unfolding stream_response_def by (auto intro!: sustains_intros sustains_start sustains_stream_loop sustains_finish)

lemma sustains_task_step: "sustains I (task_step env t)"
  by (cases "(env, t)" rule: task_step.cases)
    (auto simp: report_progress_def split_beta intro!: sustains_intros reports polls)

lemma sustains_run_task: "sustains I (run_task env t)"
proof (induction "task_rank t" arbitrary: t rule: less_induct)
  case less
  show ?case
  proof (cases "task_done t")
    case True
    then show ?thesis by (cases t) (simp_all add: run_task_eq sustains_basic)
  next
    case False
    then have "run_task env t = bindA (task_step env t) (run_task env)" by (subst run_task_eq) (cases t, simp_all)
    then show ?thesis using less False
      by (auto intro!: sustains_bind_value [OF sustains_task_step] dest: task_step_decreases)
  qed
qed

lemma sustains_sequential: "sustains I (run_sequential env ps b)"
  by (induction ps arbitrary: b) (auto simp: execute_prepared_def intro!: sustains_intros sustains_run_task)

lemma sustains_buffered: "sustains I (run_buffered env ts)"
proof (induction "sum_list (map task_rank ts)" arbitrary: ts rule: less_induct)
  case less
  show ?case
  proof (cases "runnable ts = []")
    case True
    then show ?thesis by (subst run_buffered_eq) (simp add: sustains_basic)
  next
    case False
    have "sustains I (bindA (task_step env (ts ! chosen ts k)) (\<lambda>t. run_buffered env (ts[chosen ts k := t])))" for k
    proof (rule sustains_bind_value [OF sustains_task_step])
      fix s t s'
      assume "task_step env (ts ! chosen ts k) s = (Inr t, s')"
      with chosen_runnable [OF False, of k] have "sum_list (map task_rank (ts[chosen ts k := t])) < sum_list (map task_rank ts)"
        by (simp add: map_update sum_list_update_less task_step_decreases)
      then show "sustains I (run_buffered env (ts[chosen ts k := t]))" by (rule less)
    qed
    then have "sustains I (bindA (pollA (av_pick env) [])
        (\<lambda>k. bindA (task_step env (ts ! chosen ts k)) (\<lambda>t. run_buffered env (ts[chosen ts k := t]))))"
      by (rule sustains_bindA [OF polls(4)])
    with False show ?thesis by (subst run_buffered_eq) simp
  qed
qed

lemma sustains_batch: "sustains I (run_batch env cfg prepared e)"
  unfolding run_batch_def Let_def
  by (cases "lc_tool_execution cfg") (auto intro!: sustains_intros sustains_sequential sustains_buffered)

lemma sustains_prepare_call: "sustains I (prepare_call env ts call ps)"
  unfolding prepare_call_def by (intro sustains_intros asked)

lemma sustains_record: "sustains I (record_result env cr rs)"
  unfolding record_result_def Let_def by (auto simp: split_beta intro!: sustains_intros polls reports split: sum.split)

lemma sustains_run_tools: "sustains I (run_tools env cfg ts calls st)"
  unfolding run_tools_def prepare_and_execute_def
  by (intro sustains_intros sustains_prepare_call sustains_batch sustains_record)

lemma sustains_inject: "sustains I (inject env r ms)"
  unfolding inject_def by (intro sustains_intros reports)

lemma sustains_prepare: "sustains I (prepare_request env step st)"
  unfolding prepare_request_def refresh_tools_def by (intro sustains_intros asked sustains_inject)

lemma sustains_start_request: "sustains I (start_request env)"
  unfolding start_request_def by (intro sustains_intros asked)

lemma sustains_accept: "sustains I (accept_response env ts resp calls st)"
  unfolding accept_response_def Let_def by (intro sustains_intros reports)

lemma sustains_after_step: "sustains I (after_step env r completed)"
  unfolding after_step_def by (intro sustains_intros asked)

lemma sustains_conclude: "sustains I (conclude env final st rs)"
  unfolding conclude_def next_step_def Let_def by (intro sustains_intros asked sustains_after_step sustains_inject)

lemma sustains_step: "sustains I (agent_step env cfg step st)"
  unfolding agent_step_def handle_response_def
  by (intro sustains_intros sustains_prepare sustains_stream_response sustains_accept sustains_run_tools sustains_conclude)

lemma sustains_steps: "sustains I (agent_steps env cfg n st)"
  by (induction n arbitrary: st) (auto intro!: sustains_intros sustains_step split: StepResult.split)

lemma sustains_turn: "sustains I (execute_turn_with_config env cfg)"
  unfolding execute_turn_with_config_def execute_turn_inner_def
  by (intro sustains_intros asked sustains_start_request sustains_steps)

theorem turn_keeps:
  assumes "I (ag_world s) (ag_trace s)" and "execute_turn_with_config env cfg s = (r, s')"
  shows "I (ag_world s') (ag_trace s')"
  using sustains_turn [of cfg] assms by (fastforce simp: sustains_def)

end

end
