(* ===== verification/NativeRuntime.thy ===== *)
theory NativeRuntime
  imports NativeSession AgentWorld
begin

text \<open>
  The native Harness: \<open>crates/mews-runtime/src/lib.rs\<close>, which runs the agent loop on the
  conversation of a Session, and \<open>turn_started\<close> of \<open>crates/mews/src/app/native.rs\<close>. The runtime
  of the loop is a record of functions built from the store and the outside.
\<close>

section \<open>The outside\<close>

record ContextDocument =
  cd_path :: string
  cd_content :: string

record ResourceDescriptor =
  rd_name :: string
  rd_description :: string
  rd_path :: string

record ContextSnapshot =
  sn_documents :: "ContextDocument list"
  sn_skills :: "ResourceDescriptor list"

datatype LifecycleHook = LH_TurnStart | LH_BeforeModel | LH_BeforeTool | LH_AfterTool | LH_AfterStep | LH_TurnEnd

text \<open>
  The provider, the environment of the Agent and the token. A hook is given the token of the
  Turn or one that is never cancelled. \<open>no_others\<close> is what other users of the store do while an
  answer is awaited.
\<close>

record 'w native_out =
  no_cancelled :: "'w \<Rightarrow> bool"
  no_capability :: "string \<Rightarrow> 'w \<Rightarrow> ContinuationCapability"
  no_stream :: "ModelRequest \<Rightarrow> 'w \<Rightarrow> (ProviderError + StreamItem list) selected \<times> 'w"
  no_context :: "string \<Rightarrow> string \<Rightarrow> 'w \<Rightarrow> (AgentError + ContextSnapshot) \<times> 'w"
  no_tools :: "'w \<Rightarrow> ToolCatalogSnapshot \<times> 'w"
  no_execute :: "AgentId \<Rightarrow> AgentToolCall \<Rightarrow> string \<Rightarrow> 'w \<Rightarrow> (Value list \<times> (AgentError + AgentToolResult) selected) \<times> 'w"
  no_hook :: "AgentId \<Rightarrow> LifecycleHook \<Rightarrow> Value \<Rightarrow> string \<Rightarrow> bool \<Rightarrow> nat option \<Rightarrow> 'w \<Rightarrow> (AgentError + Value) \<times> 'w"
  no_pick :: "'w \<Rightarrow> nat \<times> 'w"
  no_others :: "'w \<Rightarrow> db \<Rightarrow> db"

definition outN :: "'w native_out \<Rightarrow> ('w \<Rightarrow> 'a \<times> 'w) \<Rightarrow> 'w native \<Rightarrow> 'a \<times> 'w native" where
  "outN E f s = (case f (nt_out s) of (x, w) \<Rightarrow> (x, s\<lparr>nt_out := w, nt_db := no_others E w (nt_db s)\<rparr>))"

section \<open>The configuration\<close>

record RuntimeConfig =
  rg_agent_id :: AgentId
  rg_agent_slug :: string
  rg_model :: string
  rg_reasoning :: "ReasoningEffort option"
  rg_allowed_tools :: "string list"
  rg_tool_execution :: ToolExecutionMode
  rg_cwd :: string
  rg_soul :: string

record MewsHarnessOptions =
  mh_model :: "string option"
  mh_reasoning :: "ReasoningEffort option"

definition native_harness :: string where
  "native_harness = ''mews''"

definition harness_reasoning :: "native_ext \<Rightarrow> string \<Rightarrow> AgentError + ReasoningEffort" where
  "harness_reasoning N v =
     (if v = ''none'' then Inr RE_None else if v = ''minimal'' then Inr RE_Minimal else if v = ''low'' then Inr RE_Low
      else if v = ''medium'' then Inr RE_Medium else if v = ''high'' then Inr RE_High
      else if v = ''xhigh'' then Inr RE_XHigh else if v = ''max'' then Inr RE_Max
      else Inl (AE_Message (''invalid mews Harness reasoning option '' @ nx_debug N v)))"

text \<open>The options that are left when the two that are known have been removed\<close>

definition options_from_agent :: "native_ext \<Rightarrow> AgentConfig \<Rightarrow> AgentError + MewsHarnessOptions" where
  "options_from_agent N agent =
     bindR (require (cfg_harness agent = native_harness)
       (AE_Message (''MewsHarness cannot run logical Harness '' @ nx_debug N (cfg_harness agent)))) (\<lambda>_.
     let opts = cfg_harness_options agent in
     bindR (case map_of opts ''reasoning'' of None \<Rightarrow> Inr None | Some v \<Rightarrow> bindR (harness_reasoning N v) (\<lambda>r. Inr (Some r)))
       (\<lambda>reasoning.
     case filter (\<lambda>(name, _). name \<noteq> ''model'' \<and> name \<noteq> ''reasoning'') opts of
       (name, _) # _ \<Rightarrow> Inl (AE_Message (''mews Harness does not support option '' @ nx_debug N name))
     | [] \<Rightarrow> Inr \<lparr>mh_model = map_of opts ''model'', mh_reasoning = reasoning\<rparr>))"

section \<open>Hooks\<close>

fun lifecycle_hook_name :: "LifecycleHook \<Rightarrow> string" where
  "lifecycle_hook_name LH_TurnStart = ''turn_start''"
| "lifecycle_hook_name LH_BeforeModel = ''before_model''"
| "lifecycle_hook_name LH_BeforeTool = ''before_tool''"
| "lifecycle_hook_name LH_AfterTool = ''after_tool''"
| "lifecycle_hook_name LH_AfterStep = ''after_step''"
| "lifecycle_hook_name LH_TurnEnd = ''turn_end''"

definition hook_termination :: "native_ext \<Rightarrow> AgentError + Value \<Rightarrow> EffectTermination" where
  "hook_termination N outcome =
     (case outcome of
        Inr v \<Rightarrow> ET_Succeeded (Some v)
      | Inl e \<Rightarrow> if effect_uncertainty e \<noteq> None \<or> is_turn_cancelled e
          then ET_Uncertain (error_text (nx_debug N) e) else ET_Failed (error_text (nx_debug N) e))"

text \<open>The first error of an outcome and of recording it\<close>

definition and_persisted :: "AgentError + 'a \<Rightarrow> AgentError + unit \<Rightarrow> AgentError + 'a" where
  "and_persisted outcome persisted =
     (case outcome of Inl e \<Rightarrow> Inl e | Inr v \<Rightarrow> (case persisted of Inl e \<Rightarrow> Inl e | Inr _ \<Rightarrow> Inr v))"

definition execute_hook ::
    "ext \<Rightarrow> native_ext \<Rightarrow> 'w native_out \<Rightarrow> SessionStore \<Rightarrow> RuntimeConfig \<Rightarrow> LifecycleHook \<Rightarrow> Value \<Rightarrow> bool
      \<Rightarrow> nat option \<Rightarrow> ('w, Value) natively" where
  "execute_hook X N E c g hook payload with_token generation =
     bindN (so_start_effect X N c (ER_LifecycleHook (lifecycle_hook_name hook))) (\<lambda>op s.
       let (outcome, s1) = outN E (no_hook E (rg_agent_id g) hook payload (rg_cwd g) with_token generation) s;
           (persisted, s2) = so_finish_effect X N c op (hook_termination N outcome) s1
       in (and_persisted outcome persisted, s2))"

section \<open>The request\<close>

definition nl2 :: string where
  "nl2 = [CHR 0x0A, CHR 0x0A]"

definition system_instructions :: string where
  "system_instructions = ''You are an AI agent operating inside MEWS. Follow the agent soul and applicable project instructions. Use available tools when helpful and continue until the user''
     @ [CHR 0x27] @ ''s request is resolved.''"

definition project_document :: "native_ext \<Rightarrow> ContextDocument \<Rightarrow> string" where
  "project_document N d =
     nl2 @ ''<project_instruction path='' @ nx_debug N (cd_path d) @ ''>'' @ [CHR 0x0A] @ cd_content d @ [CHR 0x0A]
     @ ''</project_instruction>''"

definition skill_line :: "native_ext \<Rightarrow> ResourceDescriptor \<Rightarrow> string" where
  "skill_line N r =
     ''<skill name='' @ nx_debug N (rd_name r) @ '' description='' @ nx_debug N (rd_description r)
     @ '' path='' @ nx_debug N (rd_path r) @ '' />'' @ [CHR 0x0A]"

definition system_text :: "native_ext \<Rightarrow> RuntimeConfig \<Rightarrow> ContextSnapshot \<Rightarrow> string" where
  "system_text N g ctx =
     system_instructions @ nl2 @ ''<soul>'' @ [CHR 0x0A] @ rg_soul g @ [CHR 0x0A] @ ''</soul>''
     @ concat (map (project_document N) (sn_documents ctx))
     @ (if sn_skills ctx = [] then []
        else nl2 @ ''<available_skills>'' @ [CHR 0x0A] @ ''Read the matching SKILL.md before using a skill.'' @ [CHR 0x0A]
          @ concat (map (skill_line N) (sn_skills ctx)) @ ''</available_skills>'')
     @ nl2 @ ''<runtime_context>'' @ [CHR 0x0A] @ ''Current working directory: '' @ nx_debug N (rg_cwd g) @ [CHR 0x0A]
     @ ''</runtime_context>''"

definition runtime_request ::
    "ext \<Rightarrow> native_ext \<Rightarrow> SessionStore \<Rightarrow> RuntimeConfig \<Rightarrow> ContextSnapshot \<Rightarrow> ToolDefinition list \<Rightarrow> ('w, ModelRequest) natively" where
  "runtime_request X N c g ctx ts =
     bindN (so_history X N c (rg_model g)) (\<lambda>messages.
     bindN (so_continuation X N c (rg_model g)) (\<lambda>continuation.
     retN \<lparr>mr_model = rg_model g, mr_reasoning = rg_reasoning g, mr_system = system_text N g ctx, mr_messages = messages,
           mr_tools = ts, mr_continuation = continuation\<rparr>))"

text \<open>The tools of this Agent that its definition admits\<close>

definition runtime_tools :: "RuntimeConfig \<Rightarrow> ToolCatalogSnapshot \<Rightarrow> ToolCatalogSnapshot" where
  "runtime_tools g snapshot =
     snapshot\<lparr>cs_tools := map (\<lambda>t. t\<lparr>td_agent_id := None\<rparr>)
       (filter (\<lambda>t. (td_agent_id t = None \<or> td_agent_id t = Some (rg_agent_id g))
                   \<and> list_ex (\<lambda>pattern. tool_allowed pattern (td_name t)) (rg_allowed_tools g)) (cs_tools snapshot))\<rparr>"

section \<open>Events and provider calls\<close>

definition runtime_event :: "ext \<Rightarrow> native_ext \<Rightarrow> SessionStore \<Rightarrow> AgentEvent \<Rightarrow> ('w, unit) natively" where
  "runtime_event X N c ev =
     (case ev of
        AV_AssistantResponse resp calls \<Rightarrow> so_append_response_with_tool_calls X N c resp calls
      | AV_ToolExecutionStarted call \<Rightarrow> so_tool_execution_started X N c call
      | AV_ToolExecutionCompleted call result \<Rightarrow> so_tool_execution_completed X N c call result
      | AV_ToolResultRecorded call result \<Rightarrow> so_tool_result_recorded X N c call result
      | AV_MessageInjected m \<Rightarrow> so_append X N c m)"

definition runtime_call_started :: "ext \<Rightarrow> native_ext \<Rightarrow> SessionStore \<Rightarrow> ModelRequest \<Rightarrow> ('w, OperationId option) natively" where
  "runtime_call_started X N c r =
     bindN (so_model_request_prepared X N c r) (\<lambda>_.
     let (provider, model) = (case split_slash (mr_model r) of None \<Rightarrow> (''unknown'', mr_model r) | Some pm \<Rightarrow> pm) in
     bindN (so_start_effect X N c (ER_ProviderCall provider model)) (\<lambda>op. retN (Some op)))"

definition runtime_call_finished ::
    "ext \<Rightarrow> native_ext \<Rightarrow> SessionStore \<Rightarrow> OperationId \<Rightarrow> ProviderCallOutcome \<Rightarrow> ('w, unit) natively" where
  "runtime_call_finished X N c op outcome =
     so_finish_effect X N c op (case outcome of
         PO_Succeeded \<Rightarrow> ET_Succeeded None | PO_Failed e \<Rightarrow> ET_Failed e | PO_Uncertain r \<Rightarrow> ET_Uncertain r)"

definition runtime_before_model ::
    "ext \<Rightarrow> native_ext \<Rightarrow> 'w native_out \<Rightarrow> SessionStore \<Rightarrow> RuntimeConfig \<Rightarrow> ModelRequest \<Rightarrow> ('w, ModelRequest) natively" where
  "runtime_before_model X N E c g r =
     bindN (execute_hook X N E c g LH_BeforeModel (nx_request_value N r) True None) (\<lambda>payload.
     if payload = VNull then retN r else liftN (mapErr AE_Message (nx_value_request N payload)))"

definition runtime_before_tool ::
    "ext \<Rightarrow> native_ext \<Rightarrow> 'w native_out \<Rightarrow> SessionStore \<Rightarrow> RuntimeConfig \<Rightarrow> AgentToolCall \<Rightarrow> ('w, ToolDecision) natively" where
  "runtime_before_tool X N E c g call =
     bindN (execute_hook X N E c g LH_BeforeTool (nx_call_value N call) True (Some (call_generation call))) (\<lambda>payload.
     liftN (mapErr AE_Message (before_tool_decision call payload)))"

definition value_as_bool :: "Value \<Rightarrow> bool option" where
  "value_as_bool v = (case v of VBool b \<Rightarrow> Some b | _ \<Rightarrow> None)"

definition amend_result :: "Value \<Rightarrow> AgentToolResult \<Rightarrow> AgentToolResult" where
  "amend_result payload result =
     (let r1 = (case value_get ''result'' payload of None \<Rightarrow> result | Some v \<Rightarrow> result\<lparr>res_value := v\<rparr>);
          r2 = (case Option.bind (value_get ''is_error'' payload) value_as_bool of None \<Rightarrow> r1 | Some b \<Rightarrow> r1\<lparr>res_is_error := b\<rparr>)
      in (case Option.bind (value_get ''terminate'' payload) value_as_bool of None \<Rightarrow> r2 | Some b \<Rightarrow> r2\<lparr>res_terminate := b\<rparr>))"

definition runtime_after_tool ::
    "ext \<Rightarrow> native_ext \<Rightarrow> 'w native_out \<Rightarrow> SessionStore \<Rightarrow> RuntimeConfig \<Rightarrow> AgentToolCall \<Rightarrow> AgentToolResult
      \<Rightarrow> 'w native \<Rightarrow> ((AgentError + unit) \<times> AgentToolResult) \<times> 'w native" where
  "runtime_after_tool X N E c g call result s =
     (case execute_hook X N E c g LH_AfterTool
         (VObject [(''call'', nx_call_value N call), (''result'', res_value result), (''is_error'', VBool (res_is_error result)),
            (''terminate'', VBool (res_terminate result))]) True (Some (call_generation call)) s of
        (Inl e, s') \<Rightarrow> ((Inl e, result), s')
      | (Inr payload, s') \<Rightarrow> ((Inr (), amend_result payload result), s'))"

definition hook_only :: "('w, Value) natively \<Rightarrow> ('w, unit) natively" where
  "hook_only m = bindN m (\<lambda>_. retN ())"

definition mews_runtime ::
    "ext \<Rightarrow> native_ext \<Rightarrow> agent_ext \<Rightarrow> 'w native_out \<Rightarrow> SessionStore \<Rightarrow> RuntimeConfig \<Rightarrow> ContextSnapshot \<Rightarrow> 'w native agent_env" where
  "mews_runtime X N A E c g ctx =
     \<lparr>ax_fixed_bytes = ax_fixed_bytes A, ax_message_bytes = ax_message_bytes A, ax_schema_error = ax_schema_error A,
      ax_argument_error = ax_argument_error A, ax_debug = ax_debug A,
      av_cancelled = (\<lambda>s. no_cancelled E (nt_out s)),
      av_capability = (\<lambda>model s. no_capability E model (nt_out s)),
      av_stream = (\<lambda>r. outN E (no_stream E r)),
      av_tools = (\<lambda>s. case outN E (no_tools E) s of (snapshot, s') \<Rightarrow> (Inr (runtime_tools g snapshot), s')),
      av_request = runtime_request X N c g ctx,
      av_execute = (\<lambda>call. outN E (no_execute E (rg_agent_id g) call (rg_cwd g))),
      av_event = runtime_event X N c,
      av_signal = so_signal X N c,
      av_call_started = runtime_call_started X N c,
      av_call_finished = runtime_call_finished X N c,
      av_turn_started = hook_only (execute_hook X N E c g LH_TurnStart (VObject []) True None),
      av_turn_finished = hook_only (execute_hook X N E c g LH_TurnEnd (VObject []) False None),
      av_transform_context = retN,
      av_before_model = runtime_before_model X N E c g,
      av_before_tool = runtime_before_tool X N E c g,
      av_after_tool = runtime_after_tool X N E c g,
      av_steering = retN [],
      av_follow_ups = retN [],
      av_prepare_next = (\<lambda>_. retN \<lparr>nu_model = None, nu_reasoning = None, nu_system = None\<rparr>),
      av_after_step = (\<lambda>_. bindN (execute_hook X N E c g LH_AfterStep (VObject []) True None) (\<lambda>_. retN SD_Continue)),
      av_pick = outN E (no_pick E)\<rparr>"

section \<open>A Turn\<close>

text \<open>The loop, with the trace of what it did\<close>

definition mews_loop ::
    "ext \<Rightarrow> native_ext \<Rightarrow> agent_ext \<Rightarrow> 'w native_out \<Rightarrow> SessionStore \<Rightarrow> RuntimeConfig \<Rightarrow> 'w native
      \<Rightarrow> (AgentError + string) \<times> TraceItem list \<times> 'w native" where
  "mews_loop X N A E c g s =
     (case outN E (no_context E (rg_agent_slug g) (rg_cwd g)) s of
        (Inl e, s1) \<Rightarrow> (Inl e, [], s1)
      | (Inr ctx, s1) \<Rightarrow>
          (case execute_turn_with_config (mews_runtime X N A E c g ctx)
               \<lparr>lc_max_steps = default_max_steps, lc_tool_execution = rg_tool_execution g\<rparr>
               \<lparr>ag_world = s1, ag_trace = []\<rparr> of
             (r, s2) \<Rightarrow> (r, ag_trace s2, ag_world s2)))"

definition turn_termination :: "native_ext \<Rightarrow> AgentError + string \<Rightarrow> TurnTermination" where
  "turn_termination N outcome =
     (case outcome of
        Inr _ \<Rightarrow> TM_Completed
      | Inl e \<Rightarrow> if is_turn_cancelled e then TM_Cancelled else TM_Failed (error_text (nx_debug N) e))"

definition execute_mews_turn ::
    "ext \<Rightarrow> native_ext \<Rightarrow> agent_ext \<Rightarrow> 'w native_out \<Rightarrow> SessionStore \<Rightarrow> RuntimeConfig \<Rightarrow> ('w, string) natively" where
  "execute_mews_turn X N A E c g =
     bindN (so_begin_turn X N c) (\<lambda>_ s.
       let (outcome, trace, s1) = mews_loop X N A E c g s;
           (persisted, s2) = so_finish_turn X N c (turn_termination N outcome) s1
       in (and_persisted outcome persisted, s2))"

definition no_model_message :: string where
  "no_model_message = ''No model is configured for this Agent. Configure one with `mews providers login` or `mews providers set-key <provider>`, then select it with `mews providers models`.''"

definition first_some :: "'a option \<Rightarrow> 'a option \<Rightarrow> 'a option" where
  "first_some a b = (case a of None \<Rightarrow> b | Some _ \<Rightarrow> a)"

definition harness_execute_turn ::
    "ext \<Rightarrow> native_ext \<Rightarrow> agent_ext \<Rightarrow> 'w native_out \<Rightarrow> SessionStore \<Rightarrow> AgentConfig \<Rightarrow> ProviderDefaults \<Rightarrow> string \<Rightarrow> string
      \<Rightarrow> ('w, string) natively" where
  "harness_execute_turn X N A E c agent defaults slug soul =
     bindN (liftN (options_from_agent N agent)) (\<lambda>options.
     let override = ses_model_override (so_session c) in
     bindN (liftN (okOr (AE_Message no_model_message)
       (first_some override (first_some (mh_model options) (pd_model defaults))))) (\<lambda>model.
     execute_mews_turn X N A E c
       \<lparr>rg_agent_id = ses_agent_id (so_session c), rg_agent_slug = slug, rg_model = model,
        rg_reasoning = first_some (mh_reasoning options)
          (if override = None \<and> mh_model options = None then pd_reasoning defaults else None),
        rg_allowed_tools = cfg_tools agent, rg_tool_execution = cfg_tool_execution agent,
        rg_cwd = ses_working_directory (so_session c), rg_soul = soul\<rparr>))"

text \<open>From \<open>native.rs\<close>: the conversation is dropped when the Turn's task ends.\<close>

definition native_turn_started ::
    "ext \<Rightarrow> native_ext \<Rightarrow> agent_ext \<Rightarrow> 'w native_out \<Rightarrow> SessionStore \<Rightarrow> AgentRevision \<Rightarrow> ('w, string) natively" where
  "native_turn_started X N A E c r =
     bindN (readN N (agents X)) (\<lambda>all.
     bindN (liftN (okOr (AE_Message ''Session Agent no longer exists'')
       (find (\<lambda>a. agent_id a = ses_agent_id (so_session c)) all))) (\<lambda>a.
     bindN (liftN (mapErr AE_Message (x_parse_config X (rev_config_toml r)))) (\<lambda>config.
     bindN (readN N (provider_defaults X)) (\<lambda>defaults s.
       let (result, s1) = (if cfg_harness config \<noteq> native_harness
             then (Inl (AE_Message (''native runtime cannot execute Harness '' @ cfg_harness config)), s\<lparr>nt_finished := False\<rparr>)
             else harness_execute_turn X N A E c config defaults (agent_slug a) (rev_soul r) (s\<lparr>nt_finished := False\<rparr>))
       in (result, so_drop X c s1)))))"

end
