(* ===== verification/NativeInv.thy ===== *)
theory NativeInv
  imports NativeRuntime TurnEnd "HOL-Library.Sublist"
begin

text \<open>
  What the native Harness does to the store: every change is a run of public store operations,
  and the responses and tool results in the trace of the loop stand in the transcript of the
  Session in their order.
\<close>

section \<open>The transcript after an append\<close>

definition payloads_of :: "SessionId \<Rightarrow> db \<Rightarrow> SessionEntryPayload list" where
  "payloads_of sid d = map (\<lambda>r. se_payload (er_entry r)) (entry_rows sid d)"

lemma payloads_core: "core_eq d d' \<Longrightarrow> payloads_of sid d' = payloads_of sid d"
  by (simp add: payloads_of_def entry_rows_def core_eq_def)

lemma append_session_entry_payloads:
  assumes "append_session_entry X je m p k c d = Inr (e, d')" and "journal_session_id X je = Inr sid"
  shows "payloads_of sid d' = payloads_of sid d @ [p]"
proof -
  let ?r = "\<lparr>er_entry = e, er_kind = k, er_contextual = c,
             er_observation_key = (if is_observation p then je_correlation_id je else None)\<rparr>"
  from assms obtain d1 where i: "insert_session_entry ?r d = Inr d1" and p: "se_payload e = p" "se_session_id e = sid"
    and d': "d' = (if c then set_leaf sid (Some m) d1 else d1)"
    by (auto simp: append_session_entry_def Let_def result_simps)
  have "t_entries d' = t_entries d @ [?r]"
    using insert_session_entry_Inr(1) [OF i] d' by (simp add: set_leaf_def)
  with p show ?thesis by (simp add: payloads_of_def entry_rows_def)
qed

lemma entry_then_quiet:
  assumes "append_session_entry X je m p k c d = Inr (e, d1)" and "journal_session_id X je = Inr sid" and "core_eq d1 d'"
  shows "payloads_of sid d' = payloads_of sid d @ [p]"
  using append_session_entry_payloads [OF assms(1,2)] payloads_core [OF assms(3)] by simp

text \<open>What an event adds to the transcript.\<close>

fun recorded_payload :: "JournalEvent \<Rightarrow> SessionEntryPayload option" where
  "recorded_payload (JE_AssistantResponseRecorded t m response) = Some (SP_AssistantResponse t response)"
| "recorded_payload (JE_ToolCallRequested t m call) = Some (SP_ToolStarted t call)"
| "recorded_payload (JE_ToolResultRecorded t m result) = Some (SP_ToolResult t result)"
| "recorded_payload _ = None"

lemma commit_event_payloads:
  assumes "commit_event X sid actor ev d = Inr d'" and "recorded_payload ev = Some p"
  shows "payloads_of sid d' = payloads_of sid d @ [p]"
proof -
  from assms(1) obtain je d1 where c: "core_eq d d1" and j: "je_payload je = ev"
    and s: "journal_session_id X je = Inr sid" and a: "apply_session_journal_entry X je d1 = Inr d'"
    by (rule commit_event_parts)
  have "payloads_of sid d' = payloads_of sid d1 @ [p]"
    using a s j assms(2) by (cases ev)
      (auto simp: apply_session_journal_entry_def apply_assistant_response_def apply_tool_call_requested_def
        apply_tool_result_recorded_def Let_def bindR_eq_Inr split: if_splits prod.splits
        dest!: append_durable_core dest: entry_then_quiet [OF _ s] append_session_entry_payloads [OF _ s])
  with payloads_core [OF c, of sid] show ?thesis by simp
qed

lemma append_tool_calls_payloads:
  "foldR (append_tool_call X sid t actor) calls d = Inr d' \<Longrightarrow>
   payloads_of sid d' = payloads_of sid d @ map (SP_ToolStarted t) calls"
proof (induction calls arbitrary: d)
  case (Cons call calls)
  then obtain d1 where a: "append_tool_call X sid t actor call d = Inr d1"
    and r: "foldR (append_tool_call X sid t actor) calls d1 = Inr d'" by (auto simp: bindR_eq_Inr)
  obtain m d2 where n: "new_id X MessageIdK d = (m, d2)" by fastforce
  from a n have "commit_event X sid actor (JE_ToolCallRequested t m call) d2 = Inr d1"
    by (simp add: append_tool_call_def)
  from commit_event_payloads [OF this] payloads_core [OF new_id_core [OF n]]
  have "payloads_of sid d1 = payloads_of sid d @ [SP_ToolStarted t call]" by simp
  with Cons.IH [OF r] show ?case by simp
qed simp

lemma append_response_payloads:
  assumes "append_assistant_response_with_tool_calls X sid t response calls d = Inr (e, d')"
  shows "payloads_of sid d' = payloads_of sid d @ SP_AssistantResponse t response # map (SP_ToolStarted t) calls"
proof -
  obtain m d1 where n: "new_id X MessageIdK d = (m, d1)" by fastforce
  from assms n obtain actor d2 d3 where
    c: "commit_event X sid actor (JE_AssistantResponseRecorded t m response) d1 = Inr d2"
    and f: "foldR (append_tool_call X sid t actor) calls d2 = Inr d3" and d': "d' = prune_client_events X d3"
    by (auto simp: append_assistant_response_with_tool_calls_def bindR_eq_Inr)
  from commit_event_payloads [OF c] append_tool_calls_payloads [OF f] payloads_core [OF new_id_core [OF n], of sid]
    payloads_core [OF prune_core, of sid X d3]
  show ?thesis by (simp add: d')
qed

lemma append_tool_result_payloads:
  assumes "append_tool_result X sid t result d = Inr (e, d')"
  shows "payloads_of sid d' = payloads_of sid d @ [SP_ToolResult t result]"
proof -
  obtain m d1 where n: "new_id X MessageIdK d = (m, d1)" by fastforce
  from assms n obtain actor where "commit_event X sid actor (JE_ToolResultRecorded t m result) d1 = Inr d'"
    by (auto simp: append_tool_result_def bindR_eq_Inr)
  from commit_event_payloads [OF this] payloads_core [OF new_id_core [OF n], of sid] show ?thesis by simp
qed

section \<open>The invariant of a Turn\<close>

definition recorded_item :: "TurnId \<Rightarrow> TraceItem \<Rightarrow> SessionEntryPayload list" where
  "recorded_item t x =
     (case x of
        TR_Event (AV_AssistantResponse resp calls) \<Rightarrow>
          SP_AssistantResponse t resp # map (\<lambda>call. SP_ToolStarted t (native_call call)) calls
      | TR_Event (AV_ToolResultRecorded call r) \<Rightarrow> [SP_ToolResult t (native_result call r)]
      | _ \<Rightarrow> [])"

definition recorded_of :: "TurnId \<Rightarrow> TraceItem list \<Rightarrow> SessionEntryPayload list" where
  "recorded_of t xs = concat (map (recorded_item t) xs)"

lemma recorded_append: "recorded_of t (xs @ ys) = recorded_of t xs @ recorded_of t ys"
  by (simp add: recorded_of_def)

definition others_ok :: "ext \<Rightarrow> 'w native_out \<Rightarrow> bool" where
  "others_ok X E \<longleftrightarrow> (\<forall>w d. op_steps X d (no_others E w d))"

text \<open>
  Since the state \<open>s0\<close>: runs of the store only, the Turn was not finished, and what the trace
  says was recorded was added to the transcript.
\<close>

definition native_ok ::
    "ext \<Rightarrow> 'w native_out \<Rightarrow> SessionStore \<Rightarrow> 'w native \<Rightarrow> 'w native \<Rightarrow> TraceItem list \<Rightarrow> bool" where
  "native_ok X E c s0 s xs \<longleftrightarrow> nt_finished s = nt_finished s0
     \<and> (reachable X (nt_db s0) \<and> others_ok X E \<longrightarrow> op_steps X (nt_db s0) (nt_db s)
         \<and> (\<exists>new. payloads_of (ses_id (so_session c)) (nt_db s) = payloads_of (ses_id (so_session c)) (nt_db s0) @ new
             \<and> subseq (recorded_of (so_turn c) xs) new))"

lemma native_ok_refl: "native_ok X E c s s []"
  by (simp add: native_ok_def recorded_of_def)

lemma payloads_later:
  assumes "reachable X d" and "op_steps X d d'"
  obtains new where "payloads_of sid d' = payloads_of sid d @ new"
proof -
  from reachable_later(2) [OF assms] obtain new where "t_entries d' = t_entries d @ new"
    by (auto simp: store_follows_def extends_transcript_def)
  then show ?thesis by (intro that) (simp add: payloads_of_def entry_rows_def)
qed

lemma native_ok_later:
  assumes "native_ok X E c s0 s xs" and "nt_finished s' = nt_finished s"
    and "others_ok X E \<Longrightarrow> op_steps X (nt_db s) (nt_db s')" and "recorded_of (so_turn c) ys = []"
  shows "native_ok X E c s0 s' (xs @ ys)"
proof -
  let ?sid = "ses_id (so_session c)"
  have "op_steps X (nt_db s0) (nt_db s') \<and> (\<exists>new. payloads_of ?sid (nt_db s') = payloads_of ?sid (nt_db s0) @ new
      \<and> subseq (recorded_of (so_turn c) xs) new)" if r: "reachable X (nt_db s0)" "others_ok X E"
  proof -
    from assms(1) r obtain new where 1: "op_steps X (nt_db s0) (nt_db s)"
      and p: "payloads_of ?sid (nt_db s) = payloads_of ?sid (nt_db s0) @ new" "subseq (recorded_of (so_turn c) xs) new"
      by (auto simp: native_ok_def)
    note 2 = assms(3) [OF r(2)]
    obtain more where "payloads_of ?sid (nt_db s') = payloads_of ?sid (nt_db s) @ more"
      using payloads_later [OF reachable_later(1) [OF r(1) 1] 2] by blast
    with p have "payloads_of ?sid (nt_db s') = payloads_of ?sid (nt_db s0) @ new @ more"
      "subseq (recorded_of (so_turn c) xs) (new @ more)" by (auto intro: list_emb_append2)
    with rtranclp_trans [OF 1 2] show ?thesis by blast
  qed
  with assms(1,2,4) show ?thesis by (simp add: native_ok_def recorded_append)
qed

lemma native_ok_recorded:
  assumes "native_ok X E c s0 s xs" and "nt_finished s' = nt_finished s" and "op_steps X (nt_db s) (nt_db s')"
    and "payloads_of (ses_id (so_session c)) (nt_db s') = payloads_of (ses_id (so_session c)) (nt_db s) @ recorded_of (so_turn c) ys"
  shows "native_ok X E c s0 s' (xs @ ys)"
proof -
  have "op_steps X d (nt_db s')" if "op_steps X d (nt_db s)" for d using that assms(3) by (rule rtranclp_trans)
  moreover have "subseq (a @ recorded_of (so_turn c) ys) (new @ recorded_of (so_turn c) ys)" if "subseq a new" for a new
    using that by simp
  ultimately show ?thesis using assms(1,2,4) by (auto simp: native_ok_def recorded_append)
qed

section \<open>Operations\<close>

lemma safe_answer_snd:
  assumes "safe_answer I m (\<lambda>_. [])" and "I s xs"
  shows "I (snd (m s)) xs"
proof -
  from assms have "case m s of (Inl e, w') \<Rightarrow> I w' xs | (Inr x, w') \<Rightarrow> I w' (xs @ [])"
    by (simp add: safe_answer_def)
  then show ?thesis by (simp split: prod.splits sum.splits)
qed

lemma safe_bindN:
  assumes "safe_answer I m (\<lambda>_. [])" and "\<And>x. safe_answer I (f x) k"
  shows "safe_answer I (bindN m f) k"
  unfolding safe_answer_def
proof (intro allI impI)
  fix s xs
  assume i: "I s xs"
  obtain r s' where m: "m s = (r, s')" by fastforce
  from safe_answer_snd [OF assms(1) i] m have "I s' xs" by simp
  with assms(2) m show "case bindN m f s of (Inl e, w') \<Rightarrow> I w' xs | (Inr x, w') \<Rightarrow> I w' (xs @ k x)"
    by (cases r) (simp_all add: bindN_def safe_answer_def)
qed

lemma safe_basic:
  "safe_answer I (retN x) (\<lambda>_. [])" "safe_answer I (failN e) k" "safe_answer I (liftN r) (\<lambda>_. [])" "safe_answer I (readN N g) (\<lambda>_. [])"
  by (auto simp: safe_answer_def retN_def failN_def liftN_def readN_def split: sum.split)

lemma safe_discard: "safe_answer I m (\<lambda>_. []) \<Longrightarrow> safe_answer I (discard m) (\<lambda>_. [])"
  unfolding discard_def by (intro safe_bindN safe_basic)

lemma native_ok_items:
  "native_ok X E c s0 s xs \<Longrightarrow> recorded_of (so_turn c) ys = [] \<Longrightarrow> native_ok X E c s0 s (xs @ ys)"
  by (simp add: native_ok_def recorded_append)

text \<open>An answer that records nothing may be traced with any items that claim no record.\<close>

lemma safe_quiet:
  assumes "safe_answer (native_ok X E c s0) m (\<lambda>_. [])" and "\<And>x. recorded_of (so_turn c) (k x) = []"
  shows "safe_answer (native_ok X E c s0) m k"
  using assms native_ok_items
  by (fastforce simp: safe_answer_def split: prod.splits sum.splits)

lemma safe_writeN:
  assumes "\<And>d d'. f d = Inr d' \<Longrightarrow> op_steps X d d'"
  shows "safe_answer (native_ok X E c s0) (writeN N f) (\<lambda>_. [])"
proof -
  have "native_ok X E c s0 (s\<lparr>nt_db := d\<rparr>) xs" if "native_ok X E c s0 s xs" and "f (nt_db s) = Inr d" for s xs d
    using native_ok_later [OF that(1), of "s\<lparr>nt_db := d\<rparr>" "[]"] assms [OF that(2)] by (simp add: recorded_of_def)
  then show ?thesis by (auto simp: safe_answer_def writeN_def split: sum.split)
qed

lemma safe_returningN:
  assumes "\<And>d x d'. f d = Inr (x, d') \<Longrightarrow> op_steps X d d'"
  shows "safe_answer (native_ok X E c s0) (returningN N f) (\<lambda>_. [])"
proof -
  have "native_ok X E c s0 (s\<lparr>nt_db := d\<rparr>) xs" if "native_ok X E c s0 s xs" and "f (nt_db s) = Inr (x, d)" for s xs d x
    using native_ok_later [OF that(1), of "s\<lparr>nt_db := d\<rparr>" "[]"] assms [OF that(2)] by (simp add: recorded_of_def)
  then show ?thesis by (auto simp: safe_answer_def returningN_def split: sum.split)
qed

lemma safe_recorded:
  assumes "\<And>d x d'. f d = Inr (x, d') \<Longrightarrow> op_steps X d d'
      \<and> payloads_of (ses_id (so_session c)) d' = payloads_of (ses_id (so_session c)) d @ recorded_of (so_turn c) ys"
  shows "safe_answer (native_ok X E c s0) (discard (returningN N f)) (\<lambda>_. ys)"
proof -
  have "native_ok X E c s0 (s\<lparr>nt_db := d\<rparr>) (xs @ ys)" if "native_ok X E c s0 s xs" and "f (nt_db s) = Inr (x, d)" for s xs d x
    using native_ok_recorded [OF that(1), of "s\<lparr>nt_db := d\<rparr>" ys] assms [OF that(2)] by simp
  then show ?thesis
    by (auto simp: safe_answer_def discard_def bindN_def retN_def returningN_def split: sum.split prod.split)
qed

lemma safe_outN: "recorded_of (so_turn c) ys = [] \<Longrightarrow> safe_poll (native_ok X E c s0) (outN E f) ys"
  by (auto simp: safe_poll_def outN_def others_ok_def split: prod.split intro!: native_ok_later)

lemma outN_value: "native_ok X E c s0 s xs \<Longrightarrow> outN E f s = (v, s') \<Longrightarrow> native_ok X E c s0 s' xs"
  using safe_outN [of c "[]" X E s0 f] by (fastforce simp: safe_poll_def recorded_of_def)

section \<open>The conversation\<close>

text \<open>The operations of the store that are used, as steps.\<close>

lemmas store_steps = OpAssistantResponse OpToolResult OpCompleteTool OpToolRequested OpObservations OpStartEffect
  OpFinishEffect OpMessage OpHarness

lemma effect_answers:
  "safe_answer (native_ok X E c s0) (so_start_effect X N c effect) (\<lambda>_. [])"
  "safe_answer (native_ok X E c s0) (so_finish_effect X N c op outcome) (\<lambda>_. [])"
  unfolding so_start_effect_def so_finish_effect_def
  by (rule safe_returningN, blast intro: store_steps) (rule safe_writeN, blast intro: store_steps)

lemma hook_answers: "safe_answer (native_ok X E c s0) (execute_hook X N E c g hook payload tok generation) (\<lambda>_. [])"
proof -
  have "native_ok X E c s0 (snd (so_finish_effect X N c op (hook_termination N v) (snd (outN E f s)))) xs"
    if "native_ok X E c s0 s xs" for s xs op f and v :: "AgentError + Value"
  proof -
    from that safe_outN [of c "[]" X E s0 f] have "native_ok X E c s0 (snd (outN E f s)) xs"
      by (auto simp: safe_poll_def recorded_of_def)
    then show ?thesis by (rule safe_answer_snd [OF effect_answers(2)])
  qed
  then show ?thesis
    unfolding execute_hook_def
    by (intro safe_bindN effect_answers)
      (auto simp: safe_answer_def split_beta Let_def split: sum.split prod.split)
qed

lemma after_tool_state:
  "snd (runtime_after_tool X N E c g call result s) = snd (execute_hook X N E c g LH_AfterTool
     (VObject [(''call'', nx_call_value N call), (''result'', res_value result), (''is_error'', VBool (res_is_error result)),
        (''terminate'', VBool (res_terminate result))]) True (Some (call_generation call)) s)"
  by (simp add: runtime_after_tool_def split: prod.split sum.split)

lemma history_answers:
  "safe_answer I (so_history X N c model) (\<lambda>_. [])" "safe_answer I (so_continuation X N c model) (\<lambda>_. [])"
  unfolding so_history_def so_continuation_def read_entries_def
  by (auto intro!: safe_bindN safe_basic split: option.split)

lemma prepared_answers: "safe_answer (native_ok X E c s0) (so_model_request_prepared X N c r) (\<lambda>_. [])"
proof -
  have "safe_answer (native_ok X E c s0) (writeN N (append_harness_observations X sid t obs)) (\<lambda>_. [])" for sid t obs
    by (rule safe_writeN) (blast intro: store_steps)
  then show ?thesis by (simp add: so_model_request_prepared_def safe_answer_def)
qed

lemma append_answers: "safe_answer (native_ok X E c s0) (so_append X N c m) (\<lambda>_. [])"
  unfolding so_append_def Let_def append_harness_observation_def append_assistant_response_def
  by (auto split: MessageRole.split MessageContent.split intro!: safe_basic safe_discard safe_returningN safe_writeN
      intro: store_steps)

lemma signal_answers: "safe_answer (native_ok X E c s0) (so_signal X N c sig) (\<lambda>_. [])"
  unfolding so_signal_def Let_def emit_runtime_signal_def
  by (auto split: AgentSignal.split intro!: safe_basic safe_writeN intro: OpSignal)

lemma event_answers: "safe_answer (native_ok X E c s0) (runtime_event X N c ev) (\<lambda>_. [TR_Event ev])"
proof (cases ev)
  case (AV_AssistantResponse resp calls)
  then show ?thesis
    unfolding runtime_event_def so_append_response_with_tool_calls_def
    by (auto intro!: safe_recorded intro: OpAssistantResponse
        simp: recorded_of_def recorded_item_def append_response_payloads)
next
  case (AV_ToolResultRecorded call r)
  then show ?thesis
    unfolding runtime_event_def so_tool_result_recorded_def
    by (auto intro!: safe_recorded intro: OpToolResult
        simp: recorded_of_def recorded_item_def append_tool_result_payloads)
next
  case (AV_ToolExecutionStarted call)
  then show ?thesis
    unfolding runtime_event_def so_tool_execution_started_def start_tool_effect_def
    by (auto intro!: safe_quiet safe_discard safe_returningN intro: store_steps
        simp: recorded_of_def recorded_item_def)
next
  case (AV_ToolExecutionCompleted call r)
  then show ?thesis
    unfolding runtime_event_def so_tool_execution_completed_def
    by (auto intro!: safe_quiet safe_writeN intro: store_steps simp: recorded_of_def recorded_item_def)
next
  case (AV_MessageInjected m)
  then show ?thesis
    unfolding runtime_event_def
    by (auto intro!: safe_quiet append_answers simp: recorded_of_def recorded_item_def)
qed

section \<open>The loop\<close>

interpretation native: world_invariant "mews_runtime X N A E c g ctx" "native_ok X E c s0" for X N A E c g ctx s0
proof unfold_locales
  let ?env = "mews_runtime X N A E c g ctx" and ?I = "native_ok X E c s0"
  have out: "safe_poll ?I (outN E f) []" "safe_poll ?I (outN E f) [TR_Dispatched r]"
    "safe_poll ?I (outN E f) [TR_Executed call]" for f :: "'a \<Rightarrow> 'b \<times> 'a" and r call
    by (simp_all add: safe_outN recorded_of_def recorded_item_def)
  show "safe_poll ?I (av_stream ?env r) [TR_Dispatched r]" for r
    by (simp add: mews_runtime_def safe_outN recorded_of_def recorded_item_def)
  show "safe_answer ?I (av_tools ?env) (\<lambda>_. [])"
    by (auto simp: mews_runtime_def safe_answer_def split: prod.split intro: outN_value)
  show "safe_answer ?I (av_request ?env ts) (\<lambda>_. [])" for ts
    unfolding mews_runtime_def by (simp add: runtime_request_def safe_bindN safe_basic history_answers)
  show "safe_poll ?I (av_execute ?env call) [TR_Executed call]" for call
    by (simp add: mews_runtime_def safe_outN recorded_of_def recorded_item_def)
  show "safe_answer ?I (av_event ?env ev) (\<lambda>_. [TR_Event ev])" for ev
    by (simp add: mews_runtime_def event_answers)
  show "safe_answer ?I (av_signal ?env sig) (\<lambda>_. [TR_Signal sig])" for sig
    by (simp add: mews_runtime_def safe_quiet signal_answers recorded_of_def recorded_item_def)
  show "safe_answer ?I (av_call_started ?env r) (\<lambda>op. [TR_CallStarted r op])" for r
    by (rule safe_quiet) (auto simp: mews_runtime_def runtime_call_started_def recorded_of_def recorded_item_def Let_def
        intro!: safe_bindN safe_basic prepared_answers effect_answers split: option.split prod.split)
  show "safe_answer ?I (av_call_finished ?env op outcome) (\<lambda>_. [TR_CallFinished op outcome])" for op outcome
    by (rule safe_quiet) (simp_all add: mews_runtime_def runtime_call_finished_def effect_answers recorded_of_def recorded_item_def)
  show "safe_answer ?I (av_turn_started ?env) (\<lambda>_. [])" "safe_answer ?I (av_turn_finished ?env) (\<lambda>_. [])"
    by (simp_all add: mews_runtime_def hook_only_def safe_bindN safe_basic hook_answers)
  show "safe_answer ?I (av_transform_context ?env r) (\<lambda>_. [])" for r by (simp add: mews_runtime_def safe_basic)
  show "safe_answer ?I (av_before_model ?env r) (\<lambda>_. [])" for r
    by (simp add: mews_runtime_def runtime_before_model_def safe_bindN safe_basic hook_answers)
  show "safe_answer ?I (av_before_tool ?env call) (\<lambda>_. [])" for call
    by (simp add: mews_runtime_def runtime_before_tool_def safe_bindN safe_basic hook_answers)
  show "safe_poll ?I (av_after_tool ?env call result) []" for call result
    by (simp add: mews_runtime_def safe_poll_def after_tool_state safe_answer_snd [OF hook_answers])
  show "safe_answer ?I (av_steering ?env) (\<lambda>_. [])" "safe_answer ?I (av_follow_ups ?env) (\<lambda>_. [])"
    by (simp_all add: mews_runtime_def safe_basic)
  show "safe_answer ?I (av_prepare_next ?env r) (\<lambda>_. [])" for r by (simp add: mews_runtime_def safe_basic)
  show "safe_answer ?I (av_after_step ?env r) (\<lambda>_. [])" for r
    by (simp add: mews_runtime_def safe_bindN safe_basic hook_answers)
  show "safe_poll ?I (av_pick ?env) []" by (simp add: mews_runtime_def safe_outN recorded_of_def)
qed

lemma mews_loop_ok:
  assumes "mews_loop X N A E c g s = (r, xs, s')"
  shows "native_ok X E c s s' xs"
proof -
  obtain v s1 where ctx: "outN E (no_context E (rg_agent_slug g) (rg_cwd g)) s = (v, s1)" by fastforce
  with native_ok_refl have 1: "native_ok X E c s s1 []" by (rule outN_value)
  show ?thesis
  proof (cases v)
    case (Inl e)
    with assms ctx 1 show ?thesis by (simp add: mews_loop_def)
  next
    case (Inr snapshot)
    with assms ctx have "execute_turn_with_config (mews_runtime X N A E c g snapshot)
        \<lparr>lc_max_steps = default_max_steps, lc_tool_execution = rg_tool_execution g\<rparr>
        \<lparr>ag_world = s1, ag_trace = []\<rparr> = (r, \<lparr>ag_world = s', ag_trace = xs\<rparr>)"
      by (auto simp: mews_loop_def split: prod.splits)
    from native.turn_keeps [OF _ this, of s] 1 show ?thesis by simp
  qed
qed

end
