(* ===== verification/NativeSend.thy ===== *)
theory NativeSend
  imports NativeRuntime
begin

text \<open>
  The owner of a Turn in the Hub: \<open>execute_send\<close> of \<open>crates/mews/src/app/turns.rs\<close>, which admits
  a message, checks that the Session's Harness can run, runs it and sees to it that the Turn
  ends. The two branches that prompt an external ACP Harness are an argument.
\<close>

section \<open>The model of a Session\<close>

record SessionModelConfig =
  smc_harness :: string
  smc_model :: "string option"
  smc_reasoning :: "ReasoningEffort option"

definition external_reasoning :: "string \<Rightarrow> ReasoningEffort option" where
  "external_reasoning v =
     (if v = ''none'' then Some RE_None else if v = ''auto'' then Some RE_Auto
      else if v = ''minimal'' then Some RE_Minimal else if v = ''low'' then Some RE_Low
      else if v = ''medium'' then Some RE_Medium else if v = ''high'' then Some RE_High
      else if v = ''xhigh'' then Some RE_XHigh else if v = ''max'' then Some RE_Max else None)"

definition session_model_config_for_revision ::
    "ext \<Rightarrow> native_ext \<Rightarrow> Session \<Rightarrow> AgentRevision \<Rightarrow> ('w, SessionModelConfig) natively" where
  "session_model_config_for_revision X N sn r =
     bindN (liftN (mapErr AE_Message (x_parse_config X (rev_config_toml r)))) (\<lambda>config.
     let opts = cfg_harness_options config in
     if cfg_harness config \<noteq> native_harness
     then retN \<lparr>smc_harness = cfg_harness config, smc_model = map_of opts ''model'',
       smc_reasoning = Option.bind (first_some (map_of opts ''reasoning'') (map_of opts ''reasoning_effort'')) external_reasoning\<rparr>
     else bindN (liftN (options_from_agent N config)) (\<lambda>options.
       bindN (readN N (provider_defaults X)) (\<lambda>defaults.
       retN \<lparr>smc_harness = cfg_harness config,
         smc_model = first_some (ses_model_override sn) (first_some (mh_model options) (pd_model defaults)),
         smc_reasoning = first_some (mh_reasoning options) (if mh_model options = None then pd_reasoning defaults else None)\<rparr>)))"

definition session_agent :: "ext \<Rightarrow> native_ext \<Rightarrow> Session \<Rightarrow> ('w, Agent) natively" where
  "session_agent X N sn =
     bindN (readN N (agents X)) (\<lambda>all.
     liftN (okOr (AE_Message ''Session Agent no longer exists'') (find (\<lambda>a. agent_id a = ses_agent_id sn) all)))"

definition session_model_config :: "ext \<Rightarrow> native_ext \<Rightarrow> Session \<Rightarrow> ('w, SessionModelConfig) natively" where
  "session_model_config X N sn =
     bindN (session_agent X N sn) (\<lambda>a.
     bindN (readN N (agent_revision X (ses_agent_id sn) (agent_current_revision a)))
       (session_model_config_for_revision X N sn))"

section \<open>Admission\<close>

record SendRequest =
  sr_session :: Session
  sr_prompt :: string
  sr_metadata :: Value
  sr_source :: MessageSource
  sr_turn :: "TurnId option"

text \<open>What the Host of the environment says of itself and its Harnesses.\<close>

record send_host =
  sd_host_id :: HostId
  sd_remote :: bool
  sd_descriptor :: "string \<Rightarrow> HarnessDescriptor option"
  sd_launch :: "string \<Rightarrow> AgentError + unit" \<comment> \<open>the launch description of an ACP Harness of the local Host\<close>

definition check_send :: "ext \<Rightarrow> native_ext \<Rightarrow> send_host \<Rightarrow> SendRequest \<Rightarrow> ('w, unit) natively" where
  "check_send X N hs req =
     bindN (liftN (require (ses_host_id (sr_session req) = sd_host_id hs)
       (AE_Message ''session belongs to a different Host''))) (\<lambda>_.
     bindN (liftN (require (ms_id (sr_source req) \<noteq> [] \<and> length (ms_id (sr_source req)) \<le> 256)
       (AE_Message ''message source ID must contain 1 to 256 bytes''))) (\<lambda>_.
     bindN (liftN (require (ms_kind (sr_source req) = SK_Client \<or> ms_kind (sr_source req) = SK_Channel)
       (AE_Message ''user messages may only be attributed to a client or channel''))) (\<lambda>_.
     if sr_turn req \<noteq> None then retN ()
     else bindN (session_model_config X N (sr_session req)) (\<lambda>model.
       liftN (require (\<not> (smc_harness model = native_harness \<and> smc_model model = None)) (AE_Message no_model_message))))))"

definition accept_send :: "ext \<Rightarrow> native_ext \<Rightarrow> SendRequest \<Rightarrow> ('w, TurnId) natively" where
  "accept_send X N req s =
     (case sr_turn req of
        Some t \<Rightarrow> (Inr t, s)
      | None \<Rightarrow>
          (case accept_turn_idempotent X (ses_id (sr_session req)) (''direct:req_'' @ nx_uuid N (ticks (nt_db s)))
              (MC_Text (sr_prompt req)) (MC_Text (sr_prompt req)) (sr_metadata req) (sr_source req) (nt_db s) of
            (Inl e, d) \<Rightarrow> (Inl (AE_Message (store_error_text N e)), s\<lparr>nt_db := d\<rparr>)
          | (Inr (tu, _, _), d) \<Rightarrow> (Inr (turn_id_of tu), s\<lparr>nt_db := d\<rparr>)))"

section \<open>The Turn\<close>

text \<open>A Turn is finished; an error of the store is ignored.\<close>

definition finish_quietly :: "ext \<Rightarrow> TurnId \<Rightarrow> TurnStatus \<Rightarrow> string option \<Rightarrow> db \<Rightarrow> db" where
  "finish_quietly X t status err d = (case finish_turn X t status err d of Inl _ \<Rightarrow> d | Inr d' \<Rightarrow> d')"

text \<open>\<open>TurnTerminalGuard\<close>: dropped when \<open>execute_send\<close> returns.\<close>

definition guard_message :: string where
  "guard_message = ''Turn execution stopped before producing a terminal outcome''"

definition drop_guard :: "ext \<Rightarrow> 'w native_out \<Rightarrow> TurnId \<Rightarrow> 'w native \<Rightarrow> 'w native" where
  "drop_guard X E t s =
     (case turn X t (nt_db s) of
        Inl _ \<Rightarrow> s
      | Inr tu \<Rightarrow>
          if turn_completed_at tu \<noteq> None then s
          else s\<lparr>nt_db := (if no_cancelled E (nt_out s) then finish_quietly X t Cancelled None (nt_db s)
                 else finish_quietly X t Failed (Some guard_message) (nt_db s))\<rparr>)"

definition prepare_turn ::
    "ext \<Rightarrow> native_ext \<Rightarrow> send_host \<Rightarrow> Session \<Rightarrow> TurnId \<Rightarrow> ('w, AgentRevision \<times> AgentConfig \<times> HarnessDescriptor) natively" where
  "prepare_turn X N hs sn t =
     bindN (readN N (turn X t)) (\<lambda>tu.
     bindN (liftN (require (turn_session_id tu = ses_id sn) (AE_Message ''Turn belongs to a different Session''))) (\<lambda>_.
     bindN (readN N (agent_revision X (ses_agent_id sn) (turn_agent_revision tu))) (\<lambda>r.
     bindN (liftN (mapErr AE_Message (x_parse_config X (rev_config_toml r)))) (\<lambda>config.
     let name = cfg_harness config in
     bindN (if name = native_harness
       then bindN (session_model_config_for_revision X N sn r) (\<lambda>model.
         liftN (require (smc_model model \<noteq> None) (AE_Message no_model_message)))
       else retN ()) (\<lambda>_.
     bindN (liftN (okOr (AE_Message (''Harness '' @ nx_debug N name
         @ (if sd_remote hs then '' is not published by this bound Host'' else '' is not published by this Host'')))
       (sd_descriptor hs name))) (\<lambda>h.
     bindN (liftN (require (harness_ready (hd_availability h))
       (AE_Message (''Harness '' @ nx_debug N name @ '' is not ready on this bound Host: ''
         @ (case ha_detail (hd_availability h) of None \<Rightarrow> ''setup or refresh is required'' | Some m \<Rightarrow> m))))) (\<lambda>_.
     bindN (liftN (require (name = native_harness \<or> hd_supports_continuation h)
       (AE_Message (''Harness '' @ nx_debug N name @ '' cannot provide the persistent ACP Session required by MEWS'')))) (\<lambda>_.
     bindN (if name = native_harness \<or> sd_remote hs then retN () else liftN (sd_launch hs name)) (\<lambda>_.
     bindN (session_agent X N sn) (\<lambda>_.
     retN (r, config, h)))))))))))"

text \<open>The Harness runs; when it returns an error the Turn is finished with it.\<close>

type_synonym 'w acp_branch = "SessionStore \<Rightarrow> AgentRevision \<Rightarrow> AgentConfig \<Rightarrow> ('w, string) natively"

definition run_harness ::
    "ext \<Rightarrow> native_ext \<Rightarrow> agent_ext \<Rightarrow> 'w native_out \<Rightarrow> 'w acp_branch \<Rightarrow> SessionStore \<Rightarrow> AgentRevision \<Rightarrow> AgentConfig
      \<Rightarrow> ('w, string) natively" where
  "run_harness X N A E acp c r config s =
     (case (if cfg_harness config = native_harness then native_turn_started X N A E c r s else acp c r config s) of
        (Inr answer, s1) \<Rightarrow> (Inr answer, s1)
      | (Inl e, s1) \<Rightarrow> (Inl e, s1\<lparr>nt_db :=
           (if no_cancelled E (nt_out s1) \<or> is_turn_cancelled e then finish_quietly X (so_turn c) Cancelled None (nt_db s1)
            else finish_quietly X (so_turn c) Failed (Some (error_chain (nx_debug N) e)) (nt_db s1))\<rparr>))"

definition serve_turn ::
    "ext \<Rightarrow> native_ext \<Rightarrow> agent_ext \<Rightarrow> 'w native_out \<Rightarrow> 'w acp_branch \<Rightarrow> send_host \<Rightarrow> Session \<Rightarrow> TurnId
      \<Rightarrow> ('w, string) natively" where
  "serve_turn X N A E acp hs sn t s =
     (case bindN (prepare_turn X N hs sn t) (\<lambda>(r, config, h).
         run_harness X N A E acp \<lparr>so_session = sn, so_turn = t, so_harness = h\<rparr> r config) s of
       (result, s1) \<Rightarrow> (result, drop_guard X E t s1))"

definition begin_send :: "ext \<Rightarrow> native_ext \<Rightarrow> send_host \<Rightarrow> SendRequest \<Rightarrow> ('w, TurnId) natively" where
  "begin_send X N hs req = bindN (check_send X N hs req) (\<lambda>_. accept_send X N req)"

definition execute_send ::
    "ext \<Rightarrow> native_ext \<Rightarrow> agent_ext \<Rightarrow> 'w native_out \<Rightarrow> 'w acp_branch \<Rightarrow> send_host \<Rightarrow> SendRequest \<Rightarrow> ('w, string) natively" where
  "execute_send X N A E acp hs req =
     bindN (begin_send X N hs req) (serve_turn X N A E acp hs (sr_session req))"

text \<open>A client may cancel a Turn, and the server fail one.\<close>

definition cancel_turn :: "ext \<Rightarrow> native_ext \<Rightarrow> TurnId \<Rightarrow> ('w, unit) natively" where
  "cancel_turn X N t =
     bindN (readN N (turn X t)) (\<lambda>tu.
     if turn_completed_at tu \<noteq> None then retN ()
     else writeN N (finish_turn X t Cancelled (Some ''cancelled by client'')))"

definition fail_turn :: "ext \<Rightarrow> native_ext \<Rightarrow> TurnId \<Rightarrow> string \<Rightarrow> ('w, unit) natively" where
  "fail_turn X N t e = writeN N (finish_turn X t Failed (Some e))"

end
