(* ===== verification/NativeTurn.thy ===== *)
theory NativeTurn
  imports NativeInv NativeSend
begin

text \<open>
  How a Turn of the native Harness ends: every function that works for the Turn is a run of the
  store, and the functions that finish the Turn leave it finished.
\<close>

section \<open>How a Turn ends\<close>

definition turn_over :: "TurnId \<Rightarrow> TurnStatus \<Rightarrow> db \<Rightarrow> bool" where
  "turn_over t status d \<longleftrightarrow>
     list_ex (\<lambda>r. turn_id_of (tw_turn r) = t \<and> turn_status (tw_turn r) = status \<and> \<not> is_active r) (t_turns d)"

lemma turn_over_inactive:
  assumes "turn_over t status d" and "turns_ok d"
  shows "\<not> list_ex (\<lambda>r. turn_id_of (tw_turn r) = t \<and> is_active r) (t_turns d)"
  using assms turns_ok_unique [OF assms(2)] by (fastforce simp: turn_over_def list_ex_iff)

lemma turn_over_closed:
  assumes "turn_over t status d" and "session_ok d"
  shows "\<not> has_open_effects t d"
  using assms ended_closed [OF assms(2)] by (auto simp: turn_over_def list_ex_iff)

lemma finish_turn_over:
  assumes "finish_turn X t status err d = Inr d'" and "turns_ok d"
  shows "op_steps X d d'" and "turn_over t status d'"
  using assms finish_turn_row [of X t status err None d d']
  by (auto simp: finish_turn_def turn_over_def list_ex_iff intro: OpFinishTurn)

lemma reachable_turns: "reachable X d \<Longrightarrow> turns_ok d"
  by (blast dest: reachable_ok store_ok_parts(5))

lemma so_finish_turn_cases:
  obtains e where "so_finish_turn X N c tm s = (Inl e, s)"
  | status err d where "so_finish_turn X N c tm s = (Inr (), s\<lparr>nt_db := d, nt_finished := True\<rparr>)"
      and "finish_turn X (so_turn c) status err (nt_db s) = Inr d" and "tm = TM_Completed \<Longrightarrow> status = Completed"
proof -
  obtain status err where f: "(case tm of TM_Completed \<Rightarrow> finish_turn X (so_turn c) Completed None
       | TM_Cancelled \<Rightarrow> finish_turn X (so_turn c) Cancelled None
       | TM_Failed e \<Rightarrow> finish_turn X (so_turn c) Failed (Some e)) = finish_turn X (so_turn c) status err"
    and st: "tm = TM_Completed \<Longrightarrow> status = Completed"
    by (cases tm) auto
  show ?thesis
  proof (cases "finish_turn X (so_turn c) status err (nt_db s)")
    case (Inl e)
    then show ?thesis by (intro that(1)) (simp add: so_finish_turn_def f bindN_def writeN_def)
  next
    case (Inr d)
    then show ?thesis by (intro that(2) [OF _ Inr st]) (simp_all add: so_finish_turn_def f bindN_def writeN_def)
  qed
qed

section \<open>The Turn of the Harness\<close>

text \<open>
  What a task that works for the Turn leaves: a run of the store, and the Turn over if it says
  it is finished.
\<close>

definition turn_work :: "ext \<Rightarrow> SessionStore \<Rightarrow> 'w native \<Rightarrow> AgentError + string \<Rightarrow> 'w native \<Rightarrow> bool" where
  "turn_work X c s res s' \<longleftrightarrow> op_steps X (nt_db s) (nt_db s')
     \<and> (nt_finished s' \<longrightarrow> (\<exists>status. turn_over (so_turn c) status (nt_db s')))
     \<and> (\<not> isl res \<longrightarrow> nt_finished s' \<and> turn_over (so_turn c) Completed (nt_db s'))"

lemma turn_work_nothing: "\<not> nt_finished s \<Longrightarrow> turn_work X c s (Inl e) s"
  by (simp add: turn_work_def)

lemma begin_turn_work:
  assumes "so_begin_turn X N c s = (r, s1)"
  shows "op_steps X (nt_db s) (nt_db s1)" and "nt_finished s1 = nt_finished s"
proof -
  show "nt_finished s1 = nt_finished s" using assms by (auto simp: so_begin_turn_def writeN_def split: sum.splits)
  have "nt_db s1 = nt_db s \<or> op_step X (nt_db s) (nt_db s1)"
    using assms by (auto simp: so_begin_turn_def writeN_def intro: OpHarness split: sum.splits)
  then show "op_steps X (nt_db s) (nt_db s1)" by auto
qed

lemma execute_mews_turn_work:
  assumes "execute_mews_turn X N A E c g s = (res, s')" and "reachable X (nt_db s)" and "others_ok X E"
    and "\<not> nt_finished s"
  shows "turn_work X c s res s'"
proof -
  obtain b s1 where b: "so_begin_turn X N c s = (b, s1)" by fastforce
  note 1 = begin_turn_work [OF b]
  show ?thesis
  proof (cases b)
    case (Inl e)
    with assms(1,4) b 1 show ?thesis by (auto simp: execute_mews_turn_def bindN_def turn_work_def)
  next
    case (Inr u)
    obtain outcome xs s2 where l: "mews_loop X N A E c g s1 = (outcome, xs, s2)" by (cases "mews_loop X N A E c g s1")
    from mews_loop_ok [OF l] reachable_later(1) [OF assms(2) 1(1)] assms(3) 1(2)
    have 2: "op_steps X (nt_db s1) (nt_db s2)" and n: "nt_finished s2 = nt_finished s" by (simp_all add: native_ok_def)
    from 1(1) 2 have steps: "op_steps X (nt_db s) (nt_db s2)" by (rule rtranclp_trans)
    note ok = reachable_turns [OF reachable_later(1) [OF assms(2) steps]]
    obtain f s3 where fin: "so_finish_turn X N c (turn_termination N outcome) s2 = (f, s3)" by fastforce
    have r: "res = and_persisted outcome f" "s' = s3"
      using assms(1) b Inr l fin by (simp_all add: execute_mews_turn_def bindN_def)
    show ?thesis
    proof (cases rule: so_finish_turn_cases [of X N c "turn_termination N outcome" s2])
      case (1 e)
      with fin have "f = Inl e" "s3 = s2" by simp_all
      then show ?thesis using r steps n assms(4) by (simp add: turn_work_def and_persisted_def split: sum.split)
    next
      case (2 status err d)
      with fin have s3: "s3 = s2\<lparr>nt_db := d, nt_finished := True\<rparr>" by simp
      note over = finish_turn_over [OF 2(2) ok]
      have "status = Completed" if "\<not> isl res"
        using that r(1) 2(3) by (cases outcome) (simp_all add: and_persisted_def turn_termination_def)
      then show ?thesis
        unfolding turn_work_def r(2) s3 using over rtranclp_trans [OF steps over(1)] by auto
    qed
  qed
qed

lemma harness_turn_work:
  assumes "harness_execute_turn X N A E c config defaults slug soul s = (res, s')" and "reachable X (nt_db s)"
    and "others_ok X E" and "\<not> nt_finished s"
  shows "turn_work X c s res s'"
proof (cases "options_from_agent N config")
  case (Inl e)
  with assms(1,4) turn_work_nothing show ?thesis by (auto simp: harness_execute_turn_def bindN_def liftN_def)
next
  case (Inr options)
  show ?thesis
  proof (cases "first_some (ses_model_override (so_session c)) (first_some (mh_model options) (pd_model defaults))")
    case None
    with assms(1,4) Inr turn_work_nothing show ?thesis by (auto simp: harness_execute_turn_def bindN_def liftN_def)
  next
    case (Some model)
    show ?thesis
      by (rule execute_mews_turn_work [OF _ assms(2-4)])
        (use assms(1) Inr Some in \<open>simp add: harness_execute_turn_def bindN_def liftN_def\<close>)
  qed
qed

text \<open>The destructor: afterwards the Turn is over, or the store refuses to cancel it.\<close>

definition drop_refused :: "ext \<Rightarrow> SessionStore \<Rightarrow> db \<Rightarrow> bool" where
  "drop_refused X c d \<longleftrightarrow> isl (finish_turn X (so_turn c) Cancelled (Some ''Turn task was cancelled before completion'') d)"

lemma so_drop_ends:
  assumes "turn_work X c s res s1" and "reachable X (nt_db s)"
  shows "op_steps X (nt_db s) (nt_db (so_drop X c s1))"
    and "drop_refused X c (nt_db (so_drop X c s1)) \<or> (\<exists>status. turn_over (so_turn c) status (nt_db (so_drop X c s1)))"
    and "\<not> isl res \<Longrightarrow> turn_over (so_turn c) Completed (nt_db (so_drop X c s1))"
proof -
  from assms(1) have steps: "op_steps X (nt_db s) (nt_db s1)" by (simp add: turn_work_def)
  note ok = reachable_turns [OF reachable_later(1) [OF assms(2) steps]]
  have "op_steps X (nt_db s) (nt_db (so_drop X c s1))
    \<and> (drop_refused X c (nt_db (so_drop X c s1)) \<or> (\<exists>status. turn_over (so_turn c) status (nt_db (so_drop X c s1))))"
  proof (cases "nt_finished s1")
    case True
    with assms(1) show ?thesis by (simp add: so_drop_def turn_work_def)
  next
    case False
    show ?thesis
    proof (cases "finish_turn X (so_turn c) Cancelled (Some ''Turn task was cancelled before completion'') (nt_db s1)")
      case (Inl e)
      with False steps show ?thesis by (simp add: so_drop_def drop_refused_def)
    next
      case (Inr d)
      from finish_turn_over [OF Inr ok] rtranclp_trans [OF steps] False Inr show ?thesis
        by (auto simp: so_drop_def)
    qed
  qed
  then show "op_steps X (nt_db s) (nt_db (so_drop X c s1))"
    and "drop_refused X c (nt_db (so_drop X c s1)) \<or> (\<exists>status. turn_over (so_turn c) status (nt_db (so_drop X c s1)))"
    by blast+
  show "turn_over (so_turn c) Completed (nt_db (so_drop X c s1))" if "\<not> isl res"
    using assms(1) that by (simp add: turn_work_def so_drop_def)
qed

text \<open>What the task of a Turn reads before it has the conversation.\<close>

definition turn_ready :: "ext \<Rightarrow> SessionStore \<Rightarrow> AgentRevision \<Rightarrow> db \<Rightarrow> bool" where
  "turn_ready X c r d =
     ((case agents X d of Inl _ \<Rightarrow> False | Inr all \<Rightarrow> list_ex (\<lambda>a. agent_id a = ses_agent_id (so_session c)) all)
      \<and> \<not> isl (x_parse_config X (rev_config_toml r)) \<and> \<not> isl (provider_defaults X d))"

lemma list_ex_find: "list_ex p xs \<longleftrightarrow> (\<exists>x. find p xs = Some x)"
  by (induction xs) auto

lemma not_isl_Inr: "\<not> isl x \<longleftrightarrow> (\<exists>y. x = Inr y)"
  by (cases x) auto

lemma native_turn_cases:
  assumes "native_turn_started X N A E c r s = (res, s')" and "reachable X (nt_db s)" and "others_ok X E"
  obtains "\<not> turn_ready X c r (nt_db s)" and "isl res" and "s' = s"
  | s1 where "turn_ready X c r (nt_db s)" and "turn_work X c (s\<lparr>nt_finished := False\<rparr>) res s1" and "s' = so_drop X c s1"
proof (cases "turn_ready X c r (nt_db s)")
  case True
  then obtain all a config defaults where
    1: "agents X (nt_db s) = Inr all" "find (\<lambda>a. agent_id a = ses_agent_id (so_session c)) all = Some a"
      "x_parse_config X (rev_config_toml r) = Inr config" "provider_defaults X (nt_db s) = Inr defaults"
    unfolding turn_ready_def list_ex_find by (auto simp: not_isl_Inr split: sum.splits)
  let ?s = "s\<lparr>nt_finished := False\<rparr>"
  show ?thesis
  proof (cases "cfg_harness config = native_harness")
    case True
    obtain s1 where h: "harness_execute_turn X N A E c config defaults (agent_slug a) (rev_soul r) ?s = (res, s1)"
      and s': "s' = so_drop X c s1"
      using assms(1) 1 True
      by (auto simp: native_turn_started_def bindN_def liftN_def readN_def Let_def split: prod.splits)
    show ?thesis
      by (rule that(2) [OF \<open>turn_ready X c r (nt_db s)\<close> harness_turn_work [OF h] s']) (use assms(2,3) in simp_all)
  next
    case False
    then show ?thesis using assms(1) 1 turn_work_nothing [of ?s]
      by (intro that(2) [OF \<open>turn_ready X c r (nt_db s)\<close>, of ?s])
        (auto simp: native_turn_started_def bindN_def liftN_def readN_def Let_def)
  qed
next
  case False
  then show ?thesis using assms(1)
    by (intro that(1))
      (auto simp: turn_ready_def native_turn_started_def bindN_def liftN_def readN_def Let_def list_ex_find not_isl_Inr
        result_simps split: sum.splits option.splits)
qed

section \<open>The owner of the Turn\<close>

text \<open>Operations that only read\<close>

definition only_reads :: "('w, 'a) natively \<Rightarrow> bool" where
  "only_reads m \<longleftrightarrow> (\<forall>s. snd (m s) = s)"

lemma only_reads_basic: "only_reads (retN x)" "only_reads (failN e)" "only_reads (liftN r)" "only_reads (readN N f)"
  by (simp_all add: only_reads_def retN_def failN_def liftN_def readN_def)

lemma only_reads_same:
  assumes "only_reads m"
  obtains r where "m s = (r, s)"
proof
  show "m s = (fst (m s), s)" using assms by (simp add: only_reads_def prod_eq_iff)
qed

lemma only_reads_bindN:
  assumes "only_reads m" and "\<And>x. only_reads (f x)"
  shows "only_reads (bindN m f)"
  unfolding only_reads_def
proof
  fix s
  obtain r where "m s = (r, s)" by (rule only_reads_same [OF assms(1)])
  with assms(2) show "snd (bindN m f s) = s" by (cases r) (simp_all add: bindN_def only_reads_def)
qed

lemma only_reads_if: "only_reads m \<Longrightarrow> only_reads m' \<Longrightarrow> only_reads (if b then m else m')"
  by simp

lemmas only_reads_intros = only_reads_bindN only_reads_basic only_reads_if

lemma model_reads: "only_reads (session_model_config_for_revision X N sn r)"
  unfolding session_model_config_for_revision_def Let_def by (intro only_reads_intros)

lemma agent_reads: "only_reads (session_agent X N sn)"
  unfolding session_agent_def by (intro only_reads_intros)

lemma check_reads: "only_reads (check_send X N hs req)"
  unfolding check_send_def session_model_config_def by (intro only_reads_intros model_reads agent_reads)

lemma prepare_reads: "only_reads (prepare_turn X N hs sn t)"
  unfolding prepare_turn_def Let_def by (auto intro!: only_reads_intros model_reads agent_reads split: prod.split)

lemma begin_send_steps:
  assumes "begin_send X N hs req s = (r, s')"
  shows "op_steps X (nt_db s) (nt_db s')"
proof -
  obtain v where "check_send X N hs req s = (v, s)"
    by (rule only_reads_same [OF check_reads])
  with assms have "s' = s \<or> accept_send X N req s = (r, s')"
    by (auto simp: begin_send_def bindN_def split: sum.splits)
  moreover have "op_step X (nt_db s) (nt_db s') \<or> s' = s" if "accept_send X N req s = (r, s')"
    using that by (auto simp: accept_send_def intro: OpAcceptTurn split: option.splits prod.splits sum.splits)
  ultimately show ?thesis by auto
qed

lemma finish_quietly_steps: "op_steps X d (finish_quietly X t status err d)"
  by (auto simp: finish_quietly_def finish_turn_def intro: OpFinishTurn split: sum.split)

definition acp_ok :: "ext \<Rightarrow> 'w acp_branch \<Rightarrow> bool" where
  "acp_ok X acp \<longleftrightarrow> (\<forall>c r config s. op_steps X (nt_db s) (nt_db (snd (acp c r config s))))"

lemma native_turn_steps:
  assumes "native_turn_started X N A E c r s = (res, s')" and "reachable X (nt_db s)" and "others_ok X E"
  shows "op_steps X (nt_db s) (nt_db s')" and "\<not> isl res \<Longrightarrow> turn_over (so_turn c) Completed (nt_db s')"
  using native_turn_cases [OF assms] so_drop_ends [of X c "s\<lparr>nt_finished := False\<rparr>" res] assms(2)
  by (force)+

lemma run_harness_steps:
  assumes "reachable X (nt_db s)" and "others_ok X E" and "acp_ok X acp"
  shows "op_steps X (nt_db s) (nt_db (snd (run_harness X N A E acp c r config s)))"
proof -
  obtain res s1 where r: "(if cfg_harness config = native_harness then native_turn_started X N A E c r s else acp c r config s)
      = (res, s1)" by fastforce
  have "op_steps X (nt_db s) (nt_db s1)"
  proof (cases "cfg_harness config = native_harness")
    case True
    with r native_turn_steps(1) assms(1,2) show ?thesis by fastforce
  next
    case False
    have "op_steps X (nt_db s) (nt_db (snd (acp c r config s)))" using assms(3) unfolding acp_ok_def by blast
    with False r show ?thesis by simp
  qed
  from rtranclp_trans [OF this finish_quietly_steps] this r show ?thesis
    by (cases res) (simp_all add: run_harness_def)
qed

lemma op_steps_turns: "op_steps X d d' \<Longrightarrow> turns_ok d \<Longrightarrow> turns_ok d'"
proof (induction rule: rtranclp_induct)
  case (step y z)
  from op_step_change [OF step.hyps(2)] step show ?case
    by (auto simp: system_change_def intro: turn_table.steps)
qed

text \<open>The store cannot read the Turn, or refuses what the guard asks.\<close>

definition guard_refused :: "ext \<Rightarrow> 'w native_out \<Rightarrow> TurnId \<Rightarrow> 'w native \<Rightarrow> bool" where
  "guard_refused X E t s \<longleftrightarrow> isl (turn X t (nt_db s))
     \<or> isl (if no_cancelled E (nt_out s) then finish_turn X t Cancelled None (nt_db s)
            else finish_turn X t Failed (Some guard_message) (nt_db s))"

definition turn_active :: "TurnId \<Rightarrow> db \<Rightarrow> bool" where
  "turn_active t d \<longleftrightarrow> list_ex (\<lambda>r. turn_id_of (tw_turn r) = t \<and> is_active r) (t_turns d)"

lemma turn_Inr: "turn X t d = Inr tu \<Longrightarrow> \<exists>r \<in> set (t_turns d). turn_id_of (tw_turn r) = t \<and> tw_turn r = tu"
  by (auto simp: turn_def select_turn_def result_simps dest!: find_SomeD)

lemma drop_guard_ends:
  assumes "turns_ok (nt_db s)"
  shows "op_steps X (nt_db s) (nt_db (drop_guard X E t s))"
    and "turn_active t (nt_db (drop_guard X E t s)) \<Longrightarrow> guard_refused X E t (drop_guard X E t s)"
proof -
  have "op_steps X (nt_db s) (nt_db (drop_guard X E t s))
    \<and> (turn_active t (nt_db (drop_guard X E t s)) \<longrightarrow> guard_refused X E t (drop_guard X E t s))"
  proof (cases "turn X t (nt_db s)")
    case (Inl e)
    then show ?thesis by (simp add: drop_guard_def guard_refused_def)
  next
    case (Inr tu)
    then obtain row where row: "row \<in> set (t_turns (nt_db s))" "turn_id_of (tw_turn row) = t" "tw_turn row = tu"
      by (blast dest: turn_Inr)
    show ?thesis
    proof (cases "turn_completed_at tu")
      case (Some at)
      have "\<not> is_active q" if "q \<in> set (t_turns (nt_db s))" and "turn_id_of (tw_turn q) = t" for q
        using turns_ok_unique [OF assms row(1) that(1)] row(2,3) that(2) Some by (simp add: is_active_def)
      then have "\<not> turn_active t (nt_db s)" by (auto simp: turn_active_def list_ex_iff)
      with Inr Some show ?thesis by (simp add: drop_guard_def)
    next
      case None
      let ?st = "if no_cancelled E (nt_out s) then Cancelled else Failed"
      let ?err = "if no_cancelled E (nt_out s) then None else Some guard_message"
      have eq: "drop_guard X E t s = s\<lparr>nt_db := finish_quietly X t ?st ?err (nt_db s)\<rparr>"
        using Inr None by (simp add: drop_guard_def)
      show ?thesis
      proof (cases "finish_turn X t ?st ?err (nt_db s)")
        case (Inl e)
        then show ?thesis unfolding eq by (auto simp: finish_quietly_def guard_refused_def split: if_splits)
      next
        case (Inr d)
        note over = finish_turn_over [OF Inr assms]
        have "turns_ok d" using op_steps_turns [OF over(1) assms] .
        then have "\<not> turn_active t d" using turn_over_inactive [OF over(2)] by (simp add: turn_active_def)
        with over(1) Inr show ?thesis unfolding eq by (simp add: finish_quietly_def)
      qed
    qed
  qed
  then show "op_steps X (nt_db s) (nt_db (drop_guard X E t s))"
    and "turn_active t (nt_db (drop_guard X E t s)) \<Longrightarrow> guard_refused X E t (drop_guard X E t s)" by blast+
qed

lemma serve_turn_ends:
  assumes "serve_turn X N A E acp hs sn t s = (res, s')" and "reachable X (nt_db s)" and "others_ok X E" and "acp_ok X acp"
  shows "op_steps X (nt_db s) (nt_db s')" and "turn_active t (nt_db s') \<Longrightarrow> guard_refused X E t s'"
proof -
  obtain v s1 where b: "bindN (prepare_turn X N hs sn t) (\<lambda>(r, config, h).
      run_harness X N A E acp \<lparr>so_session = sn, so_turn = t, so_harness = h\<rparr> r config) s = (v, s1)" by fastforce
  obtain p where "prepare_turn X N hs sn t s = (p, s)"
    by (rule only_reads_same [OF prepare_reads])
  with b have "s1 = s \<or> (\<exists>c r config. run_harness X N A E acp c r config s = (v, s1))"
    by (auto simp: bindN_def split: sum.splits prod.splits)
  then have 1: "op_steps X (nt_db s) (nt_db s1)"
    using run_harness_steps [OF assms(2-4), of N A] by (metis rtranclp.rtrancl_refl snd_conv)
  have s': "s' = drop_guard X E t s1" using assms(1) b by (simp add: serve_turn_def)
  note ends = drop_guard_ends [OF reachable_turns [OF reachable_later(1) [OF assms(2) 1]], where X = X and E = E and t = t]
  show "op_steps X (nt_db s) (nt_db s')" unfolding s' by (rule rtranclp_trans [OF 1 ends(1)])
  show "turn_active t (nt_db s') \<Longrightarrow> guard_refused X E t s'" unfolding s' by (rule ends(2))
qed

end
