(* ===== verification/NativeProps.thy ===== *)
theory NativeProps
  imports NativeTurn AgentProps
begin

text \<open>
  The properties of a Turn that the native Harness runs: it is a run of the store, the tools it
  runs are those the transcript asks for, and it ends.
\<close>

section \<open>A Turn of a concrete Harness\<close>

definition native_ext_demo :: native_ext where
  "native_ext_demo = \<lparr>nx_request_value = (\<lambda>_. VNull), nx_value_request = (\<lambda>_. Inl ''no request''), nx_request_json = (\<lambda>_. []),
     nx_call_value = (\<lambda>_. VNull), nx_json = (\<lambda>_. []), nx_base64 = (\<lambda>s. s), nx_uuid = show_nat, nx_now = 0, nx_debug = (\<lambda>s. s),
     nx_debug_leaf = (\<lambda>_. []), nx_database_text = (\<lambda>_. [])\<rparr>"

definition native_agent_ext :: agent_ext where
  "native_agent_ext = (agent_ext.truncate demo_env)\<lparr>ax_message_bytes := (\<lambda>_. 100)\<rparr>"

text \<open>Hooks that do nothing, and the provider and the tool of the demo of the agent loop.\<close>

definition native_out_demo :: "nat native_out" where
  "native_out_demo = \<lparr>no_cancelled = (\<lambda>_. False), no_capability = (\<lambda>_ _. CC_None),
     no_stream = (\<lambda>_ w. (Sel_Ready (Inr (demo_stream w)), Suc w)),
     no_context = (\<lambda>_ _ w. (Inr \<lparr>sn_documents = [], sn_skills = []\<rparr>, w)),
     no_tools = (\<lambda>w. (\<lparr>cs_generation = 1, cs_tools = [demo_tool]\<rparr>, w)),
     no_execute = (\<lambda>_ _ _ w. (([VNull], Sel_Ready (Inr (result_success (VString ''text'')))), w)),
     no_hook = (\<lambda>_ _ _ _ _ _ w. (Inr VNull, w)), no_pick = (\<lambda>w. (0, w)), no_others = (\<lambda>_ d. d)\<rparr>"

definition native_conversation :: SessionStore where
  "native_conversation = \<lparr>so_session = hd (t_sessions demo5), so_turn = demo_turn,
     so_harness = \<lparr>hd_name = ''mews'', hd_definition_hash = ''hash'', hd_executable_version = None,
       hd_availability = \<lparr>ha_runtime = HR_Ready, ha_adapter = HR_NotApplicable, ha_authentication = HR_NotApplicable,
         ha_catalog = HR_Ready, ha_detail = None\<rparr>, hd_supports_continuation = True\<rparr>\<rparr>"

definition native_start :: "nat native" where
  "native_start = \<lparr>nt_db = demo5, nt_finished = False, nt_out = 0\<rparr>"

definition native_run :: "(AgentError + string) \<times> nat native" where
  "native_run = native_turn_started demo_ext native_ext_demo native_agent_ext native_out_demo native_conversation
     (hd (t_agent_revisions demo5)) native_start"

text \<open>The owner of the Turn, with no ACP Harness.\<close>

definition native_host :: send_host where
  "native_host = \<lparr>sd_host_id = ses_host_id (hd (t_sessions demo5)), sd_remote = False,
     sd_descriptor = (\<lambda>name. if name = ''mews'' then Some (so_harness native_conversation) else None),
     sd_launch = (\<lambda>_. Inl (AE_Message ''no ACP Harness''))\<rparr>"

definition native_send :: SendRequest where
  "native_send = \<lparr>sr_session = hd (t_sessions demo5), sr_prompt = ''hi'', sr_metadata = VNull, sr_source = demo_source,
     sr_turn = Some demo_turn\<rparr>"

definition no_acp :: "'w acp_branch" where
  "no_acp c r config = failN (AE_Message ''no ACP Harness'')"

definition sent :: "(AgentError + string) \<times> nat native" where
  "sent = execute_send demo_ext native_ext_demo native_agent_ext native_out_demo no_acp native_host native_send native_start"

definition native_config :: RuntimeConfig where
  "native_config = \<lparr>rg_agent_id = ''agt_7'', rg_agent_slug = ''coder'', rg_model = ''p/m'', rg_reasoning = None,
     rg_allowed_tools = [''*''], rg_tool_execution = Parallel, rg_cwd = ''/work'', rg_soul = ''soul''\<rparr>"

lemma native_ids:
  "ses_id (so_session native_conversation) = demo_session" "so_turn native_conversation = demo_turn"
  "nt_db native_start = demo5"
  by code_simp (simp_all add: native_conversation_def native_start_def)

lemma native_begun: "begin_send demo_ext native_ext_demo native_host native_send native_start = (Inr demo_turn, native_start)"
proof -
  have "ses_host_id (sr_session native_send) = sd_host_id native_host" by (simp add: native_send_def native_host_def)
  then show ?thesis
    by (simp add: begin_send_def check_send_def accept_send_def bindN_def liftN_def retN_def native_send_def
        demo_source_def)
qed

lemma native_ready: "turn_ready demo_ext native_conversation (hd (t_agent_revisions demo5)) demo5"
  by code_simp

lemma native_outside: "others_ok demo_ext native_out_demo" "acp_ok demo_ext no_acp"
  by (simp_all add: others_ok_def native_out_demo_def acp_ok_def no_acp_def failN_def)

lemma native_start_reachable: "reachable demo_ext (nt_db native_start)"
  using demo_reachable(1) demo_step5
  by (simp add: native_start_def reachable_def rtranclp.rtrancl_into_rtrancl)

section \<open>Properties\<close>

lemma responses_recorded:
  "call \<in> set (concat (responses xs)) \<Longrightarrow> SP_ToolStarted t (native_call call) \<in> set (recorded_of t xs)"
proof (induction xs)
  case (Cons x xs)
  show ?case
  proof (cases "call \<in> set (concat (responses xs))")
    case True
    with Cons.IH show ?thesis by (simp add: recorded_of_def)
  next
    case False
    with Cons.prems obtain resp calls where "x = TR_Event (AV_AssistantResponse resp calls)" and "call \<in> set calls"
      by (cases x rule: log_item.cases) (auto simp: responses_def conversation_def)
    then show ?thesis by (auto simp: recorded_of_def recorded_item_def)
  qed
qed (simp add: responses_def conversation_def)

lemma mews_loop_executed:
  assumes "mews_loop X N A E c g s = (r, xs, s')"
  shows "distinct (map call_id (executed xs)) \<and> set (executed xs) \<subseteq> set (concat (responses xs))"
proof (cases "outN E (no_context E (rg_agent_slug g) (rg_cwd g)) s")
  case (Pair v s1)
  show ?thesis
  proof (cases v)
    case (Inl e)
    with assms Pair have "xs = []" by (simp add: mews_loop_def)
    then show ?thesis by (simp add: executed_def responses_def conversation_def)
  next
    case (Inr snapshot)
    with assms Pair have "execute_turn_with_config (mews_runtime X N A E c g snapshot)
        \<lparr>lc_max_steps = default_max_steps, lc_tool_execution = rg_tool_execution g\<rparr>
        \<lparr>ag_world = s1, ag_trace = []\<rparr> = (r, \<lparr>ag_world = s', ag_trace = xs\<rparr>)"
      by (auto simp: mews_loop_def split: prod.splits)
    from turn_spec_executed [OF execute_turn_trace(1) [OF this]] show ?thesis by simp
  qed
qed

text \<open>
  C11. Tools run only from the transcript. Whatever the provider, the tools, the hooks and the
  other users of the store do, the responses and tool results the loop reports are added to the
  transcript of the Session, in their order, and every tool the native Harness runs is one that
  a response in the transcript asked for, once each.
\<close>

theorem tools_run_from_transcript:
  assumes "reachable X (nt_db s)" and "others_ok X E"
  shows "case mews_loop X N A E c g s of (_, xs, s') \<Rightarrow>
    \<exists>new. payloads_of (ses_id (so_session c)) (nt_db s') = payloads_of (ses_id (so_session c)) (nt_db s) @ new
      \<and> subseq (recorded_of (so_turn c) xs) new
      \<and> distinct (map call_id (executed xs))
      \<and> (\<lambda>call. SP_ToolStarted (so_turn c) (native_call call)) ` set (executed xs) \<subseteq> set new"
proof -
  obtain r xs s' where l: "mews_loop X N A E c g s = (r, xs, s')" by (cases "mews_loop X N A E c g s")
  from mews_loop_ok [OF l] assms obtain new where
    new: "payloads_of (ses_id (so_session c)) (nt_db s') = payloads_of (ses_id (so_session c)) (nt_db s) @ new"
    and sub: "subseq (recorded_of (so_turn c) xs) new" by (auto simp: native_ok_def)
  note ran = mews_loop_executed [OF l]
  have "SP_ToolStarted (so_turn c) (native_call call) \<in> set new" if "call \<in> set (executed xs)" for call
    using responses_recorded [of call xs "so_turn c"] ran that list_emb_set [OF sub] by blast
  with new sub ran show ?thesis by (auto simp: l)
qed

theorem tools_run_from_transcript_witness:
  "case mews_loop demo_ext native_ext_demo native_agent_ext native_out_demo native_conversation native_config
      native_start of (_, xs, s') \<Rightarrow>
    \<exists>new. payloads_of demo_session (nt_db s') = payloads_of demo_session demo5 @ new
      \<and> subseq (recorded_of demo_turn xs) new \<and> distinct (map call_id (executed xs))
      \<and> (\<lambda>call. SP_ToolStarted demo_turn (native_call call)) ` set (executed xs) \<subseteq> set new"
  using tools_run_from_transcript [OF native_start_reachable native_outside(1), where c = native_conversation
      and N = native_ext_demo and A = native_agent_ext and g = native_config] by (simp add: native_ids)

text \<open>
  C12. How the native Harness leaves its Turn. With an answer, the Turn is recorded as completed
  and no effect of it is open. With an error, either the Turn could not be set up and nothing was
  done, or the Turn is not active any more, unless the store refuses to cancel it.
\<close>

theorem native_turn_ends:
  assumes "reachable X (nt_db s)" and "others_ok X E"
  shows "case native_turn_started X N A E c r s of
      (Inr answer, s') \<Rightarrow> turn_over (so_turn c) Completed (nt_db s') \<and> \<not> has_open_effects (so_turn c) (nt_db s')
    | (Inl e, s') \<Rightarrow>
        (if turn_ready X c r (nt_db s) then \<not> turn_active (so_turn c) (nt_db s') \<or> drop_refused X c (nt_db s') else s' = s)"
proof -
  obtain res s' where t: "native_turn_started X N A E c r s = (res, s')" by fastforce
  note steps = native_turn_steps [OF t assms]
  note ok = reachable_ok [OF reachable_later(1) [OF assms(1) steps(1)]]
  show ?thesis
  proof (cases res)
    case (Inr answer)
    with steps(2) turn_over_closed [OF _ store_ok_parts(1) [OF ok]] show ?thesis by (simp add: t)
  next
    case (Inl e)
    show ?thesis
    proof (cases rule: native_turn_cases [OF t assms])
      case 1
      with Inl show ?thesis by (simp add: t)
    next
      case (2 s1)
      with so_drop_ends(2) [OF 2(2)] assms(1) turn_over_inactive store_ok_parts(5) [OF ok] Inl show ?thesis
        by (auto simp: t turn_active_def)
    qed
  qed
qed

theorem native_turn_ends_witness:
  "case native_run of
      (Inr answer, s') \<Rightarrow> turn_over demo_turn Completed (nt_db s') \<and> \<not> has_open_effects demo_turn (nt_db s')
    | (Inl e, s') \<Rightarrow> \<not> turn_active demo_turn (nt_db s') \<or> drop_refused demo_ext native_conversation (nt_db s')"
  using native_turn_ends [OF native_start_reachable native_outside(1), where N = native_ext_demo
      and A = native_agent_ext and c = native_conversation and r = "hd (t_agent_revisions demo5)"]
  by (simp add: native_run_def native_ids native_ready cong: prod.case_cong sum.case_cong)

text \<open>
  C14. The Hub sees to the end of a Turn. When \<open>execute_send\<close> returns, with whatever result, the
  Turn it began to serve is not active any more, unless the store cannot read it or refuses to
  finish it.
\<close>

theorem send_turn_ends:
  assumes "reachable X (nt_db s)" and "others_ok X E" and "acp_ok X acp"
    and "begin_send X N hs req s = (Inr t, s1)"
  shows "case execute_send X N A E acp hs req s of
      (_, s') \<Rightarrow> \<not> turn_active t (nt_db s') \<or> guard_refused X E t s'"
proof -
  obtain res s' where r: "serve_turn X N A E acp hs (sr_session req) t s1 = (res, s')" by fastforce
  from reachable_later(1) [OF assms(1) begin_send_steps [OF assms(4)]] have "reachable X (nt_db s1)" .
  from serve_turn_ends(2) [OF r this assms(2,3)] show ?thesis
    by (auto simp: execute_send_def bindN_def assms(4) r)
qed

theorem send_turn_ends_witness:
  "case sent of (_, s') \<Rightarrow> \<not> turn_active demo_turn (nt_db s') \<or> guard_refused demo_ext native_out_demo demo_turn s'"
  using send_turn_ends [OF native_start_reachable native_outside native_begun, where A = native_agent_ext] by (simp add: sent_def)



end
