(* ===== verification/Spec2Isabelle.thy ===== *)
theory Spec2Isabelle
  imports TurnEnd StoreProps ReadProps CommandProps CatalogProps AgentProps RelayDemo ChannelProps ReplicaDemo NativeProps
begin

text \<open>
  The MEWS Hub store, agent replicas, agent loop and its Harness, relay, transport and channels, verified: the persistence
  crate \<open>crates/mews-store\<close> of the repository, the domain types of
  \<open>crates/mews-protocol/src/domain\<close> it stores, the model/tool loop \<open>crates/mews-agent\<close> whose
  events it records, and the relay \<open>crates/mews-relay\<close> and encrypted transport
  \<open>crates/mews-transport\<close> that connect the Hosts to the Hub, and the Channels of
  \<open>crates/mews-channel\<close>, which turn the messages of external platforms into Turns, and of the
  Hub's application \<open>crates/mews\<close> the parts that keep the replicas of Agents and that run a
  Turn with the native Harness of \<open>crates/mews-runtime\<close>.

  The program. MEWS runs agents on several Hosts; one Host runs the Hub, which owns the durable
  state. The Hub's server, the channels and the harness drivers call the methods of
  \<open>Store\<close>; each method is one SQLite transaction (a few read again after their commit).
  Commands are recorded in a journal with receipts that make retries idempotent; the journal
  entries are projected into tables in the same transaction, and committed Session events are
  delivered to subscribed consumers through the client event feed.

  The model. A database is a record of tables (\<open>Tables.db\<close>), each a list of typed rows in
  rowid order; the schema's constraints are checked where rows are inserted. An operation is a
  function from the database to \<open>StoreError + result \<times> db\<close>, where \<open>Inl\<close> is a rolled-back
  transaction. What the store takes from outside the repository is the record \<open>Tables.ext\<close>:
  drawn UUIDs, the clock, random secrets, serialized sizes, digests and the TOML parser. Every
  draw consumes a tick of the database record, so two draws of a run are two arguments.

  Theories and the code they model:
    \<^item> Prelude: Rust's \<open>Result\<close> and string helpers, table scans and updates, and the locale
      \<open>step_invariant\<close>, the interface of every invariant.
    \<^item> Domain, Events: \<open>mews-protocol/src/domain\<close>, with the locale \<open>stable_name\<close> of the enums
      that are stored by name.
    \<^item> Tables: \<open>schema.rs\<close> and the row types. Journal: \<open>events.rs\<close>, with the locale
      \<open>projection\<close> of the closures that project committed entries.
    \<^item> Delivery: \<open>delivery.rs\<close>. SessionProj, SessionRead, SessionOps, SessionAppend:
      \<open>sessions.rs\<close> (projection, reads, effects and admission, appends). Turns: \<open>turns.rs\<close> and
      \<open>recover_interrupted_work\<close> of \<open>schema.rs\<close>.
    \<^item> Values: \<open>values.rs\<close>. Agents, Hosts, Installations: the files of these names.

    \<^item> AgentTypes, AgentBudget: the data, queue, tool catalog and context budget of
      \<open>mews-agent/src\<close>. AgentStream, AgentLoop, AgentSteps: \<open>loop.rs\<close> (provider streams; batches
      of tool calls; the steps of a Turn).

    \<^item> Relay: \<open>mews-relay/src/lib.rs\<close>. Transport: \<open>mews-transport/src/lib.rs\<close> and \<open>crypto.rs\<close>,
      and the Host frames of \<open>mews-protocol/src/host.rs\<close>.

    \<^item> ChannelStore: \<open>mews-channel/src/mapping.rs\<close>. ChannelRuntime, ChannelDispatch: the runtime
      and the delivery dispatcher of \<open>mews-channel/src/runtime.rs\<close>.

    \<^item> NativeSession: \<open>SessionStore\<close> of \<open>mews/src/app/native.rs\<close>. NativeRuntime:
      \<open>mews-runtime/src/lib.rs\<close> and \<open>turn_started\<close> of \<open>native.rs\<close>. NativeSend: \<open>execute_send\<close> of
      \<open>mews/src/app/turns.rs\<close> and the model of a Session (\<open>sessions.rs\<close>).

    \<^item> AgentFiles: the directory of Agents and each access to it. Replicas:
      \<open>mews/src/app/agents.rs\<close>.

  The Channels. The client of the Hub and the platform adapter are the record
  \<open>ChannelRuntime.channel_env\<close> of functions over a state of the outside; an operation is a
  function of the Channel's state that fails with a text, keeping what it has stored, and the
  requests it makes are logged. ChannelInv proves by rule induction over the runs of a Channel
  - opening, messages, batches of events, failures and restarts in any order - that its tables
  stay consistent, that the messages of a conversation are started in order and that none waits
  without an active Turn. The dispatcher is a step relation over what \<open>select!\<close> may take; DispatchInv
  shows that each destination is a queue. A send in flight is its delivery, and the permits that
  bound the deliveries under way are left out.

  The replicas. The state is the file tree and the database; an operation fails with an error and
  keeps what it has done. Each access is a tick at which the operating system may fail
  (\<open>AgentFiles.io_ext\<close>), with nothing done, or for a write with any text left in the file. ReplicaInv
  is a logic of pre- and postconditions, with one postcondition for errors, and its rules for
  each access cover every failure. ReplicaSwap specifies replacing a replica in it; ReplicaSync
  shows that no synchronization loses a text and ReplicaAgree that one which returns leaves
  replica and store in agreement. Both assume that UUIDs are drawn in increasing order, as
  version 7 promises. ReplicaProps and ReplicaRename hold the properties, among them two
  faults of the code, and ReplicaDemo their runs.

  The native Harness composes the agent loop with the store. Its runtime \<open>mews_runtime\<close> is an
  \<open>agent_env\<close> whose state is the database and the outside of the Harness (provider, environment,
  token: \<open>NativeRuntime.native_out\<close>); where the Rust code awaits an answer, other users of the
  store do what they like (\<open>no_others\<close>, assumed to use its public operations). AgentWorld proves
  once, in the locale \<open>world_invariant\<close>, that a Turn of the loop keeps what every answer of the
  outside keeps; NativeInv interprets it on the runtime with the invariant that the store did a
  run of public operations and that the trace's responses and results are in the transcript.
  NativeTurn shows how \<open>turn_started\<close>, its destructor, \<open>execute_send\<close> and its guard end a Turn, and
  NativeProps holds the properties and a concrete Turn with a tool call, which can be evaluated.
  The branches of \<open>execute_send\<close> for external ACP Harnesses are its argument \<open>acp\<close>, of which
  the properties only assume that it changes the store by public operations.

  The relay and the transport. A router is its routes, and its channels by number; RelayInv is
  its step relation (registering, sending, receiving and dropping connections, in any order)
  with the invariants that hold while fewer than \<open>2 ^ 64\<close> connections have registered, the
  point at which the code's generation counter wraps. Base64, Ed25519 and the text of an
  instant are the record \<open>Relay.relay_ext\<close>, the Noise implementation is \<open>Transport.noise_ext\<close>, and
  what a Noise transport promises are the hypotheses \<open>noise_sync\<close> and \<open>noise_duplex\<close>. The locale
  \<open>RelayProps.relay_link\<close> is what the transport needs of a link between two peers; it is
  interpreted on two current connections of the router. TransportProps and TransportLink
  prove chunking and reassembly inside it, and LinkProps states the results on the router.
  RelayDemo applies the properties to a concrete router.

  The agent loop. Its traits \<open>Provider\<close> and \<open>AgentRuntime\<close>, the holders of the cancellation
  token and the executor are the record \<open>AgentStream.agent_env\<close> of functions over a state of the
  outside, which every call may change; the properties hold for every such record. An
  asynchronous function is a function of the outside's state, and a tool call of a parallel
  batch is a task that runs from one await to the next, where the executor picks which of the
  eight tasks in the window runs. What the loop did is a trace, and AgentTrace is a logic for
  it: \<open>emits m Q\<close> specifies the items an operation adds together with its result, errors
  included. AgentInv, AgentTurn and AgentProps specify the operations in it.

  The specification. \<open>SessionSteps.session_step\<close> and \<open>CatalogSteps.catalog_step\<close> are small step
  relations with one rule per kind of change; SessionSteps, TurnSteps and CatalogSteps show
  that every operation refines a sequence of their steps. SessionInv and CatalogInv prove the
  invariants of the steps by rule induction (transcripts, parent links, Turns, effects, Agents,
  Hosts, invitations) and what is never undone. Feed does the same for the client events,
  Frames for what an operation leaves alone. System collects the public operations in
  \<open>op_step\<close>, and Reach combines the invariants for the reachable states. Branch and Paging
  treat the two loops of the reads: the parent walk, and listings read page by page. Demo is
  a concrete run on which the properties are applied.

  The properties are in TurnEnd (how a Turn ends), StoreProps (what holds in every reachable
  state), ReadProps (branches, pages, events), CommandProps (receipts, admission, Agents),
  CatalogProps (Hub moves, invitations, ACP bindings, derived values), AgentProps (context
  budget, answered responses, tools that run once, provider calls, limits), RelayProps (who
  reaches whom), LinkProps (delivered frames, a receive that is dropped, bindings), DispatchProps
  (deliveries), ChannelProps (messages), ReplicaProps and ReplicaRename (replicas), NativeProps (Turns of the
  native Harness).

  Bounds and fuel. The walk from a leaf along the parent links has the number of stored
  entries as fuel; the property that reading the active branch ends shows it is enough in
  every reachable state, because a parent has a smaller sequence number. A listing of \<open>n\<close> items is
  read with \<open>n + 1\<close> pages, since every page before the last holds an item. Counters of the
  source are \<open>u64\<close> in Rust and natural numbers here: positions, sequences, revisions and the
  Hub generation grow by one per committed event and are stored in 64-bit SQLite integers.
  Instants are milliseconds. The agent loop needs no fuel: a stream is a finite list and its
  cursor is replayed once, a task has at most three awaits, and a Turn has \<open>max_steps\<close> steps.
  The context budget saturates at the 64-bit \<open>usize::MAX\<close> like the code. The sizes the code checks (700 KiB items, 768 KiB pages, 64 KiB
  metadata) are kept as they are.

  Not modelled. Opening, locking, migrating and copying database files (I/O); \<open>start_turn\<close> and
  \<open>start_turn_idempotent\<close> (compiled for tests only); the text forms of serde, chrono and the
  uuid crate (typed values stand for them); concurrent connections (SQLite serializes the
  transactions, which are the atomic steps here). Streams that never end, and the text of errors other
  than those the loop builds, are outside the model of the agent loop. The other crates - ACP
  harness driver, model router, client, Host and terminal programs - drive
  sockets, processes and HTTP services and are outside this development so far.
\<close>

end
